(* ===== verification/Prelude.thy ===== *)
theory Prelude
  imports Complex_Main
begin

text \<open>
  The vocabulary shared by every component: the Python values the source uses (exceptions,
  datetimes, strings, truth values), the SQL statements of the source as list functions over
  rows, and the generic lemmas the component proofs rest on.

  \<^item> A Python \<open>float\<close> is a rational number (every finite float is one); the arithmetic is exact,
    rounding is not modelled. Instants are rational numbers of seconds (UTC).
  \<^item> A \<open>datetime\<close> object is offset-naive or offset-aware; Python refuses to compare or subtract
    the two kinds, and the model raises \<open>TypeError\<close> there.
  \<^item> A SQL table is a list of rows. \<open>SELECT .. LIMIT 1\<close> is \<open>find\<close>, \<open>UPDATE .. WHERE\<close> is
    \<open>sql_update\<close>, \<open>DELETE .. WHERE\<close> is \<open>sql_delete\<close>, \<open>COUNT(*)\<close> is \<open>sql_count\<close>.
  \<^item> Strings are character lists; \<open>upper\<close> and \<open>lower\<close> act on the ASCII letters.
\<close>

named_theorems db_simps \<open>equations that read a table after a SQL statement\<close>
named_theorems row_defs \<open>definitions a component proof unfolds together\<close>

section \<open>Python values\<close>

type_synonym pyfloat = rat
type_synonym instant = rat
type_synonym uuid = string

datatype py_error =
    TypeError
  | ValueError string
  | KeyError string
  | AttributeError
  | UnboundLocalError string
  | NameError string
  | RuntimeError string
  | ZeroDivisionError
  | IndexError

type_synonym 'a result = "py_error + 'a"

text \<open>\<open>datetime.utcnow()\<close> is naive; a driver may return aware values for TIMESTAMPTZ columns.\<close>

datatype datetime = Naive instant | Aware instant

fun dt_instant :: "datetime \<Rightarrow> instant" where
  "dt_instant (Naive t) = t"
| "dt_instant (Aware t) = t"

fun dt_sub :: "datetime \<Rightarrow> datetime \<Rightarrow> rat result" where
  "dt_sub (Naive a) (Naive b) = Inr (a - b)"
| "dt_sub (Aware a) (Aware b) = Inr (a - b)"
| "dt_sub _ _ = Inl TypeError"

fun dt_gt :: "datetime \<Rightarrow> datetime \<Rightarrow> bool result" where
  "dt_gt (Naive a) (Naive b) = Inr (a > b)"
| "dt_gt (Aware a) (Aware b) = Inr (a > b)"
| "dt_gt _ _ = Inl TypeError"

text \<open>A text in single quotes.\<close>

definition apostrophed :: "string \<Rightarrow> string" where "apostrophed s = [CHR 0x27] @ s @ [CHR 0x27]"

text \<open>Truth value of an optional string: both \<open>None\<close> and the empty string are false.\<close>

definition truthy :: "string option \<Rightarrow> bool" where
  "truthy s = (case s of None \<Rightarrow> False | Some t \<Rightarrow> t \<noteq> [])"

text \<open>\<open>int(x)\<close> of a float truncates towards zero.\<close>

definition py_int :: "rat \<Rightarrow> int" where
  "py_int x = (if x \<ge> 0 then \<lfloor>x\<rfloor> else \<lceil>x\<rceil>)"

section \<open>Strings\<close>

abbreviation ord :: "char \<Rightarrow> nat" where "ord c \<equiv> of_char c"

definition is_digit :: "char \<Rightarrow> bool" where
  "is_digit c = (48 \<le> ord c \<and> ord c \<le> 57)"

definition is_upper_char :: "char \<Rightarrow> bool" where
  "is_upper_char c = (65 \<le> ord c \<and> ord c \<le> 90)"

definition is_lower_char :: "char \<Rightarrow> bool" where
  "is_lower_char c = (97 \<le> ord c \<and> ord c \<le> 122)"

definition to_upper :: "char \<Rightarrow> char" where
  "to_upper c = (if is_lower_char c then char_of (ord c - 32) else c)"

definition to_lower :: "char \<Rightarrow> char" where
  "to_lower c = (if is_upper_char c then char_of (ord c + 32) else c)"

definition upper :: "string \<Rightarrow> string" where "upper s = map to_upper s"

definition lower :: "string \<Rightarrow> string" where "lower s = map to_lower s"

text \<open>\<open>s.replace(c, "")\<close> for a one-character \<open>c\<close>.\<close>

definition remove_char :: "char \<Rightarrow> string \<Rightarrow> string" where
  "remove_char c s = filter (\<lambda>x. x \<noteq> c) s"

definition startswith :: "string \<Rightarrow> string \<Rightarrow> bool" where
  "startswith s p = (take (length p) s = p)"

fun join :: "string \<Rightarrow> string list \<Rightarrow> string" where
  "join sep [] = []"
| "join sep [x] = x"
| "join sep (x # y # xs) = x @ sep @ join sep (y # xs)"

text \<open>Decimal rendering, \<open>str(n)\<close>.\<close>

definition digit_char :: "nat \<Rightarrow> char" where
  "digit_char d = char_of (48 + d)"

fun nat_str :: "nat \<Rightarrow> string" where
  "nat_str n = (if n < 10 then [digit_char n] else nat_str (n div 10) @ [digit_char (n mod 10)])"

definition int_str :: "int \<Rightarrow> string" where
  "int_str i = (if i < 0 then ''-'' @ nat_str (nat (- i)) else nat_str (nat i))"

text \<open>
  \<open>int(s)\<close> of a string: surrounding blanks, a sign, digits, single underscores between digits;
  anything else raises \<open>ValueError\<close> (\<open>None\<close> here).
\<close>

definition is_blank :: "char \<Rightarrow> bool" where
  "is_blank c = (c = CHR '' '' \<or> (9 \<le> ord c \<and> ord c \<le> 13))"

definition is_space :: "char \<Rightarrow> bool" where
  "is_space c = (is_blank c \<or> (28 \<le> ord c \<and> ord c \<le> 31) \<or> ord c = 133 \<or> ord c = 160)"

definition strip :: "string \<Rightarrow> string" where
  "strip s = rev (dropWhile is_space (rev (dropWhile is_space s)))"

fun parse_digits :: "string \<Rightarrow> bool \<Rightarrow> int \<Rightarrow> int option" where
  "parse_digits [] seen acc = (if seen then Some acc else None)"
| "parse_digits (c # cs) seen acc =
     (if is_digit c then parse_digits cs True (10 * acc + (int (ord c) - 48))
      else if c = CHR ''_'' \<and> seen then parse_digits cs False acc
      else None)"

definition parse_int :: "string \<Rightarrow> int option" where
  "parse_int s =
     (case strip s of
        [] \<Rightarrow> None
      | c # cs \<Rightarrow>
          if c = CHR ''-'' then map_option uminus (parse_digits cs False 0)
          else if c = CHR ''+'' then parse_digits cs False 0
          else parse_digits (c # cs) False 0)"

section \<open>SQL statements over tables\<close>

definition sql_update :: "('r \<Rightarrow> bool) \<Rightarrow> ('r \<Rightarrow> 'r) \<Rightarrow> 'r list \<Rightarrow> 'r list" where
  "sql_update P f t = map (\<lambda>r. if P r then f r else r) t"

definition sql_delete :: "('r \<Rightarrow> bool) \<Rightarrow> 'r list \<Rightarrow> 'r list" where
  "sql_delete P t = filter (\<lambda>r. \<not> P r) t"

definition sql_count :: "('r \<Rightarrow> bool) \<Rightarrow> 'r list \<Rightarrow> nat" where
  "sql_count P t = length (filter P t)"

definition sql_exists :: "('r \<Rightarrow> bool) \<Rightarrow> 'r list \<Rightarrow> bool" where
  "sql_exists P t = list_ex P t"

text \<open>\<open>ORDER BY k DESC LIMIT 1\<close> and \<open>ORDER BY k ASC LIMIT 1\<close>: ties go to the earlier row.\<close>

fun first_desc :: "('r \<Rightarrow> 'k::linorder) \<Rightarrow> 'r list \<Rightarrow> 'r option" where
  "first_desc k [] = None"
| "first_desc k (r # rs) =
     (case first_desc k rs of None \<Rightarrow> Some r | Some r' \<Rightarrow> Some (if k r < k r' then r' else r))"

fun first_asc :: "('r \<Rightarrow> 'k::linorder) \<Rightarrow> 'r list \<Rightarrow> 'r option" where
  "first_asc k [] = None"
| "first_asc k (r # rs) =
     (case first_asc k rs of None \<Rightarrow> Some r | Some r' \<Rightarrow> Some (if k r' < k r then r' else r))"

section \<open>Lemmas on Python values\<close>

declare nat_str.simps [simp del]

lemma find_SomeD: "find P t = Some r \<Longrightarrow> r \<in> set t \<and> P r"
  by (induction t) (auto split: if_splits)

lemma find_unique:
  assumes "r \<in> set t" "P r" "\<And>x. x \<in> set t \<Longrightarrow> P x \<Longrightarrow> x = r"
  shows "find P t = Some r"
proof (cases "find P t")
  case None
  then show ?thesis using assms(1,2) by (simp add: find_None_iff)
next
  case (Some y)
  then show ?thesis using find_SomeD [OF Some] assms(3) by simp
qed

lemma find_append_Some: "find P xs = Some x \<Longrightarrow> find P (xs @ ys) = Some x"
  by (induction xs) auto

lemma truthy_simps [simp]: "\<not> truthy None" "truthy (Some s) \<longleftrightarrow> s \<noteq> []"
  by (simp_all add: truthy_def)

lemma dt_sub_naive_inv: "dt_sub (Naive a) b = Inr d \<longleftrightarrow> (\<exists>t. b = Naive t \<and> d = a - t)"
  by (cases b) auto

lemma py_int_floor: "0 \<le> x \<Longrightarrow> py_int x = \<lfloor>x\<rfloor>"
  by (simp add: py_int_def)

lemma remove_char_idem [simp]: "remove_char c (remove_char c s) = remove_char c s"
  by (simp add: remove_char_def)

lemma set_remove_char [simp]: "set (remove_char c s) = set s - {c}"
  by (auto simp: remove_char_def)

lemma remove_char_absent: "c \<notin> set s \<Longrightarrow> remove_char c s = s"
  by (auto simp: remove_char_def filter_id_conv)

lemma length_upper [simp]: "length (upper s) = length s"
  by (simp add: upper_def)

lemma length_lower [simp]: "length (lower s) = length s"
  by (simp add: lower_def)

lemma of_char_less_256: "ord c < 256"
  by (metis of_char_mod_256 mod_less_divisor zero_less_numeral)

lemma to_upper_not_lower: "\<not> is_lower_char (to_upper c)"
  using of_char_less_256 [of c]
  by (auto simp: to_upper_def is_lower_char_def)

lemma to_upper_idem [simp]: "to_upper (to_upper c) = to_upper c"
  using to_upper_not_lower [of c] by (simp add: to_upper_def)

lemma upper_idem [simp]: "upper (upper s) = upper s"
  by (simp add: upper_def)

lemma to_lower_idem [simp]: "to_lower (to_lower c) = to_lower c"
  by (auto simp: to_lower_def is_upper_char_def)

lemma lower_idem [simp]: "lower (lower s) = lower s"
  by (simp add: lower_def)

section \<open>Decimal text\<close>

lemma of_char_digit [simp]: "d < 10 \<Longrightarrow> ord (digit_char d) = 48 + d"
  by (simp add: digit_char_def of_char_of)

lemma digit_char_props [simp]:
  "d < 10 \<Longrightarrow> is_digit (digit_char d)" "d < 10 \<Longrightarrow> \<not> is_space (digit_char d)"
  "d < 10 \<Longrightarrow> digit_char d \<noteq> CHR ''-''" "d < 10 \<Longrightarrow> digit_char d \<noteq> CHR ''+''"
proof -
  assume d: "d < 10"
  then show "is_digit (digit_char d)" by (simp add: is_digit_def)
  have "digit_char d \<noteq> CHR '' ''" using of_char_digit [OF d] by auto
  then show "\<not> is_space (digit_char d)"
    using of_char_digit [OF d] d by (auto simp: is_space_def is_blank_def)
  show "digit_char d \<noteq> CHR ''-''" using of_char_digit [OF d] by auto
  show "digit_char d \<noteq> CHR ''+''" using of_char_digit [OF d] by auto
qed

lemma nat_str_digits: "c \<in> set (nat_str n) \<Longrightarrow> \<exists>d<10. c = digit_char d"
proof (induction n rule: nat_str.induct)
  case (1 n)
  show ?case
  proof (cases "n < 10")
    case True
    with "1.prems" show ?thesis by (auto simp: nat_str.simps [of n])
  next
    case False
    with "1.prems" have "c \<in> set (nat_str (n div 10)) \<or> c = digit_char (n mod 10)"
      by (auto simp: nat_str.simps [of n])
    then show ?thesis
    proof
      assume "c \<in> set (nat_str (n div 10))"
      then show ?thesis by (rule "1.IH" [OF False])
    next
      assume "c = digit_char (n mod 10)"
      then show ?thesis by (intro exI [of _ "n mod 10"]) simp
    qed
  qed
qed

lemma nat_str_nonempty [simp]: "nat_str n \<noteq> []"
  by (subst nat_str.simps) simp

lemma parse_digits_nat_str:
  "parse_digits (nat_str n @ ys) seen acc =
     parse_digits ys True (acc * 10 ^ length (nat_str n) + int n)"
proof (induction n arbitrary: ys seen acc rule: nat_str.induct)
  case (1 n)
  show ?case
  proof (cases "n < 10")
    case True
    then show ?thesis by (simp add: nat_str.simps [of n] mult.commute)
  next
    case False
    have split: "int n = int (n div 10) * 10 + int (n mod 10)"
      by (metis div_mult_mod_eq of_nat_add of_nat_mult of_nat_numeral)
    have "parse_digits (nat_str n @ ys) seen acc =
        parse_digits (nat_str (n div 10) @ digit_char (n mod 10) # ys) seen acc"
      using False by (simp add: nat_str.simps [of n])
    also have "\<dots> = parse_digits ys True
        (10 * (acc * 10 ^ length (nat_str (n div 10)) + int (n div 10)) + int (n mod 10))"
      using "1.IH" [OF False] by simp
    also have "10 * (acc * 10 ^ length (nat_str (n div 10)) + int (n div 10)) + int (n mod 10)
        = acc * 10 ^ length (nat_str n) + int n"
      using False split by (simp add: nat_str.simps [of n] algebra_simps)
    finally show ?thesis .
  qed
qed

lemma strip_no_space: "(\<And>c. c \<in> set s \<Longrightarrow> \<not> is_space c) \<Longrightarrow> strip s = s"
proof -
  assume a: "\<And>c. c \<in> set s \<Longrightarrow> \<not> is_space c"
  have id: "dropWhile is_space t = t" if "\<And>c. c \<in> set t \<Longrightarrow> \<not> is_space c" for t
    using that by (cases t) auto
  have "dropWhile is_space s = s" "dropWhile is_space (rev s) = rev s"
    using a by (auto intro!: id)
  then show ?thesis by (simp add: strip_def)
qed

text \<open>\<open>int(str(n)) = n\<close>.\<close>

lemma parse_int_int_str [simp]: "parse_int (int_str i) = Some i"
proof -
  have nb: "\<not> is_space c" if "c \<in> set (nat_str n)" for c n
    using nat_str_digits [OF that] by auto
  have hd: "hd (nat_str n) \<noteq> CHR ''-'' \<and> hd (nat_str n) \<noteq> CHR ''+''" for n
  proof -
    obtain d where "d < 10" "hd (nat_str n) = digit_char d"
      using nat_str_digits [OF hd_in_set [OF nat_str_nonempty]] by blast
    then show ?thesis by simp
  qed
  have minus: "\<not> is_space (CHR ''-'')"
    by (simp add: is_space_def is_blank_def)
  show ?thesis
  proof (cases "i < 0")
    case True
    have "strip (int_str i) = CHR ''-'' # nat_str (nat (- i))"
      using True nb minus by (subst strip_no_space) (auto simp: int_str_def)
    then show ?thesis
      using True parse_digits_nat_str [of "nat (- i)" "[]" False 0] by (simp add: parse_int_def)
  next
    case False
    obtain c cs where cs: "nat_str (nat i) = c # cs" by (cases "nat_str (nat i)") auto
    have "int_str i = nat_str (nat i)" using False by (simp add: int_str_def)
    moreover have "strip (nat_str (nat i)) = nat_str (nat i)"
      by (rule strip_no_space) (rule nb)
    ultimately have "strip (int_str i) = c # cs" using cs by simp
    then show ?thesis
      using False cs hd [of "nat i"] parse_digits_nat_str [of "nat i" "[]" False 0]
      by (simp add: parse_int_def)
  qed
qed

section \<open>Text of floats\<close>

text \<open>
  Python guarantees \<open>float(str(x)) == x\<close>. The text format itself is not needed; components that
  store floats as strings take the two conversions as arguments and rely on this contract.
\<close>

locale float_text =
  fixes fstr :: "pyfloat \<Rightarrow> string" and fparse :: "string \<Rightarrow> pyfloat option"
  assumes parse_str: "fparse (fstr x) = Some x"
    and str_nonempty: "fstr x \<noteq> []"

text \<open>An exact text form: numerator, a slash, denominator.\<close>

definition rat_str :: "rat \<Rightarrow> string" where
  "rat_str x = int_str (fst (quotient_of x)) @ ''/'' @ int_str (snd (quotient_of x))"

definition rat_parse :: "string \<Rightarrow> rat option" where
  "rat_parse s =
     (case (parse_int (takeWhile (\<lambda>c. c \<noteq> CHR ''/'') s),
            parse_int (tl (dropWhile (\<lambda>c. c \<noteq> CHR ''/'') s))) of
        (Some n, Some d) \<Rightarrow> Some (of_int n / of_int d)
      | _ \<Rightarrow> None)"

lemma int_str_no_slash: "c \<in> set (int_str i) \<Longrightarrow> c \<noteq> CHR ''/''"
proof -
  have "digit_char d \<noteq> CHR ''/''" if "d < 10" for d
    using of_char_digit [OF that] by auto
  moreover assume "c \<in> set (int_str i)"
  ultimately show ?thesis
    by (fastforce simp: int_str_def dest: nat_str_digits split: if_splits)
qed

interpretation rat_text: float_text rat_str rat_parse
proof
  fix x :: rat
  have "takeWhile (\<lambda>c. c \<noteq> CHR ''/'') (rat_str x) = int_str (fst (quotient_of x))"
    "dropWhile (\<lambda>c. c \<noteq> CHR ''/'') (rat_str x) = CHR ''/'' # int_str (snd (quotient_of x))"
    using int_str_no_slash by (simp_all add: rat_str_def takeWhile_append2 dropWhile_append2)
  moreover have "x = of_int (fst (quotient_of x)) / of_int (snd (quotient_of x))"
    by (rule quotient_of_div) simp
  ultimately show "rat_parse (rat_str x) = Some x"
    by (simp add: rat_parse_def)
  show "rat_str x \<noteq> []" by (simp add: rat_str_def)
qed

lemma int_str_nonempty [simp]: "int_str i \<noteq> []"
  by (simp add: int_str_def)

end
