(* ===== verification/Models.thy ===== *)
theory Models
  imports Prelude
begin

text \<open>
  The data model of \<open>src/src/models.py\<close> and the exception hierarchy of
  \<open>src/src/exceptions.py\<close>: the enumerations with their wire values, the validators of the
  request models, the parsed sensor uplink with its field bounds, and the tenant context that
  authentication hands to the endpoints. A validator returns \<open>Inl (ValueError ..)\<close> where the
  Python raises.
\<close>

section \<open>Enumerations\<close>

datatype SpaceState = FREE | OCCUPIED | RESERVED | MAINTENANCE

fun SpaceState_value :: "SpaceState \<Rightarrow> string" where
  "SpaceState_value FREE = ''FREE''"
| "SpaceState_value OCCUPIED = ''OCCUPIED''"
| "SpaceState_value RESERVED = ''RESERVED''"
| "SpaceState_value MAINTENANCE = ''MAINTENANCE''"

text \<open>The call \<open>SpaceState(v)\<close>: \<open>None\<close> where the enum constructor raises \<open>ValueError\<close>.\<close>

definition SpaceState_of :: "string \<Rightarrow> SpaceState option" where
  "SpaceState_of v =
     (if v = ''FREE'' then Some FREE else if v = ''OCCUPIED'' then Some OCCUPIED
      else if v = ''RESERVED'' then Some RESERVED
      else if v = ''MAINTENANCE'' then Some MAINTENANCE else None)"

datatype ReservationStatus =
    PENDING | CONFIRMED | CANCELLED | EXPIRED
  | ACTIVE | COMPLETED | NO_SHOW

fun ReservationStatus_value :: "ReservationStatus \<Rightarrow> string" where
  "ReservationStatus_value PENDING = ''pending''"
| "ReservationStatus_value CONFIRMED = ''confirmed''"
| "ReservationStatus_value CANCELLED = ''cancelled''"
| "ReservationStatus_value EXPIRED = ''expired''"
| "ReservationStatus_value ACTIVE = ''active''"
| "ReservationStatus_value COMPLETED = ''completed''"
| "ReservationStatus_value NO_SHOW = ''no_show''"

datatype UserRole = PLATFORM_ADMIN | OWNER | ADMIN | OPERATOR | VIEWER

fun UserRole_value :: "UserRole \<Rightarrow> string" where
  "UserRole_value PLATFORM_ADMIN = ''platform_admin''"
| "UserRole_value OWNER = ''owner''"
| "UserRole_value ADMIN = ''admin''"
| "UserRole_value OPERATOR = ''operator''"
| "UserRole_value VIEWER = ''viewer''"

definition UserRole_of :: "string \<Rightarrow> UserRole option" where
  "UserRole_of v =
     (if v = ''platform_admin'' then Some PLATFORM_ADMIN else if v = ''owner'' then Some OWNER
      else if v = ''admin'' then Some ADMIN else if v = ''operator'' then Some OPERATOR
      else if v = ''viewer'' then Some VIEWER else None)"

section \<open>Validators\<close>

definition is_hex :: "char \<Rightarrow> bool" where
  "is_hex c = (is_digit c \<or> (65 \<le> ord c \<and> ord c \<le> 70) \<or> (97 \<le> ord c \<and> ord c \<le> 102))"

text \<open>
  \<open>re.match(r"^..$", s)\<close>: without \<open>re.MULTILINE\<close> the \<open>$\<close> matches at the end of the string and
  also just before a newline that ends it.
\<close>

definition newline :: char where "newline = char_of (10::nat)"

definition re_full :: "(string \<Rightarrow> bool) \<Rightarrow> string \<Rightarrow> bool" where
  "re_full P s = (P s \<or> (s \<noteq> [] \<and> last s = newline \<and> P (butlast s)))"

definition hex16 :: "string \<Rightarrow> bool" where
  "hex16 s = (length s = 16 \<and> list_all is_hex s)"

definition validate_deveui :: "string option \<Rightarrow> string option result" where
  "validate_deveui v =
     (case v of
        None \<Rightarrow> Inr None
      | Some s \<Rightarrow>
          if \<not> re_full hex16 s then Inl (ValueError (''Invalid DevEUI format: '' @ s))
          else Inr (Some (upper s)))"

definition validate_gps_coordinates :: "rat option \<Rightarrow> rat option \<Rightarrow> unit result" where
  "validate_gps_coordinates lat lon =
     (if (lat = None) \<noteq> (lon = None)
      then Inl (ValueError ''Both latitude and longitude must be provided or both null'')
      else Inr ())"

definition validate_times :: "datetime \<Rightarrow> datetime \<Rightarrow> unit result" where
  "validate_times start_time end_time =
     (case dt_sub end_time start_time of
        Inl e \<Rightarrow> Inl e
      | Inr duration \<Rightarrow>
          if duration \<le> 0 then Inl (ValueError ''End time must be after start time'')
          else if duration > 86400
               then Inl (ValueError ''Maximum reservation duration is 24 hours'')
          else Inr ())"

section \<open>Reservations\<close>

text \<open>
  A row of the \<open>reservations\<close> table, the model \<open>Reservation\<close> of the API. Metadata is the list of
  its string entries (\<open>None\<close> for NULL).
\<close>

record Reservation =
  rv_id :: uuid
  rv_space_id :: uuid
  rv_tenant_id :: uuid
  rv_request_id :: uuid
  rv_start_time :: instant
  rv_end_time :: instant
  rv_status :: ReservationStatus
  rv_user_email :: "string option"
  rv_user_phone :: "string option"
  rv_metadata :: "(string \<times> string) list option"
  rv_created_at :: instant

definition live_status :: "ReservationStatus \<Rightarrow> bool" where
  "live_status s = (s = PENDING \<or> s = CONFIRMED)"

section \<open>Parsed sensor uplinks\<close>

record SensorUplink =
  su_device_eui :: string
  su_timestamp :: instant
  su_occupancy_state :: "SpaceState option"
  su_battery :: "rat option"
  su_temperature :: "rat option"
  su_rssi :: "int option"
  su_snr :: "rat option"
  su_gateway_id :: "string option"
  su_raw_payload :: "string option"

definition opt_in_range :: "'a::linorder \<Rightarrow> 'a \<Rightarrow> 'a option \<Rightarrow> bool" where
  "opt_in_range lo hi v = (case v of None \<Rightarrow> True | Some x \<Rightarrow> lo \<le> x \<and> x \<le> hi)"

text \<open>
  Building a \<open>SensorUplink\<close> checks the declared bounds (\<open>Field(ge=.., le=..)\<close>) and that the
  required timestamp is present.
\<close>

definition make_SensorUplink ::
  "string \<Rightarrow> instant option \<Rightarrow> SpaceState option \<Rightarrow> rat option \<Rightarrow> int option \<Rightarrow> rat option
   \<Rightarrow> string option \<Rightarrow> string option \<Rightarrow> SensorUplink result" where
  "make_SensorUplink eui ts occ bat rssi snr gw raw =
     (case ts of
        None \<Rightarrow> Inl (ValueError ''timestamp'')
      | Some t \<Rightarrow>
          if \<not> opt_in_range 0 100 bat then Inl (ValueError ''battery'')
          else if \<not> opt_in_range (-200) 0 rssi then Inl (ValueError ''rssi'')
          else if \<not> opt_in_range (-20) 20 snr then Inl (ValueError ''snr'')
          else Inr \<lparr>su_device_eui = eui, su_timestamp = t, su_occupancy_state = occ,
                    su_battery = bat, su_temperature = None, su_rssi = rssi, su_snr = snr,
                    su_gateway_id = gw, su_raw_payload = raw\<rparr>)"

section \<open>Tenant context\<close>

record TenantContext =
  tc_tenant_id :: uuid
  tc_tenant_name :: string
  tc_tenant_slug :: string
  tc_user_id :: "uuid option"
  tc_user_role :: "UserRole option"
  tc_api_key_id :: "uuid option"
  tc_api_key_scopes :: "string list option"
  tc_source :: string

record TokenData =
  td_user_id :: uuid
  td_tenant_id :: uuid
  td_role :: UserRole
  td_exp :: instant

section \<open>Exceptions\<close>

datatype detail = DNone | DStr string | DInt int

record ParkingException =
  pe_message :: string
  pe_error_code :: string
  pe_details :: "(string \<times> detail) list"

text \<open>\<open>error_code or self.__class__.__name__\<close>: the class name stands in for a missing code.\<close>

definition make_ParkingException ::
  "string \<Rightarrow> string \<Rightarrow> string option \<Rightarrow> (string \<times> detail) list \<Rightarrow> ParkingException" where
  "make_ParkingException cls msg code details =
     \<lparr>pe_message = msg,
      pe_error_code = (case code of Some c \<Rightarrow> if c = [] then cls else c | None \<Rightarrow> cls),
      pe_details = details\<rparr>"

definition opt_detail :: "string option \<Rightarrow> detail" where
  "opt_detail s = (case s of None \<Rightarrow> DNone | Some x \<Rightarrow> DStr x)"

definition DatabaseError :: "string \<Rightarrow> ParkingException" where
  "DatabaseError msg = make_ParkingException ''DatabaseError'' msg None []"

definition RecordNotFoundError :: "string \<Rightarrow> string \<Rightarrow> ParkingException" where
  "RecordNotFoundError resource identifier =
     make_ParkingException ''RecordNotFoundError'' (resource @ '' not found: '' @ identifier)
       (Some ''RECORD_NOT_FOUND'')
       [(''resource'', DStr resource), (''identifier'', DStr identifier)]"

definition SpaceNotFoundError :: "string \<Rightarrow> ParkingException" where
  "SpaceNotFoundError space_id = RecordNotFoundError ''Space'' space_id"

definition ReservationNotFoundError :: "string \<Rightarrow> ParkingException" where
  "ReservationNotFoundError reservation_id = RecordNotFoundError ''Reservation'' reservation_id"

definition DeviceNotFoundError :: "string \<Rightarrow> ParkingException" where
  "DeviceNotFoundError device_eui = RecordNotFoundError ''Device'' device_eui"

definition StateTransitionError ::
  "string \<Rightarrow> string option \<Rightarrow> string option \<Rightarrow> ParkingException" where
  "StateTransitionError msg current_state requested_state =
     make_ParkingException ''StateTransitionError'' msg (Some ''INVALID_STATE_TRANSITION'')
       [(''current_state'', opt_detail current_state),
        (''requested_state'', opt_detail requested_state)]"

definition SpaceNotAvailableError :: "string \<Rightarrow> string \<Rightarrow> ParkingException" where
  "SpaceNotAvailableError space_id reason =
     make_ParkingException ''SpaceNotAvailableError'' reason (Some ''SPACE_NOT_AVAILABLE'')
       [(''space_id'', DStr space_id)]"

definition DuplicateResourceError :: "string \<Rightarrow> string \<Rightarrow> ParkingException" where
  "DuplicateResourceError resource identifier =
     make_ParkingException ''DuplicateResourceError''
       (resource @ '' already exists: '' @ identifier) (Some ''DUPLICATE_RESOURCE'')
       [(''resource'', DStr resource), (''identifier'', DStr identifier)]"

definition ChirpStackError :: "string \<Rightarrow> int option \<Rightarrow> ParkingException" where
  "ChirpStackError msg status_code =
     make_ParkingException ''ChirpStackError'' msg (Some ''CHIRPSTACK_ERROR'')
       (case status_code of
          None \<Rightarrow> [] | Some c \<Rightarrow> if c = 0 then [] else [(''status_code'', DInt c)])"

definition ValidationError :: "string \<Rightarrow> string \<Rightarrow> ParkingException" where
  "ValidationError field msg =
     make_ParkingException ''ValidationError'' (''Validation error for '' @ field @ '': '' @ msg)
       (Some ''VALIDATION_ERROR'') [(''field'', DStr field), (''error'', DStr msg)]"

text \<open>An HTTP error response: the status code and the detail text.\<close>

datatype http_error = HTTPException nat string

section \<open>Lemmas\<close>

lemma SpaceState_of_value [simp]: "SpaceState_of (SpaceState_value s) = Some s"
  by (cases s) (simp_all add: SpaceState_of_def)

lemma SpaceState_of_Some: "SpaceState_of v = Some s \<Longrightarrow> v = SpaceState_value s"
  by (auto simp: SpaceState_of_def split: if_splits)

lemma SpaceState_value_inj [simp]: "SpaceState_value a = SpaceState_value b \<longleftrightarrow> a = b"
  by (cases a; cases b) simp_all

lemma ReservationStatus_value_inj [simp]:
  "ReservationStatus_value a = ReservationStatus_value b \<longleftrightarrow> a = b"
  by (cases a; cases b) simp_all

lemma UserRole_of_value [simp]: "UserRole_of (UserRole_value r) = Some r"
  by (cases r) (simp_all add: UserRole_of_def)

lemma validate_times_ok:
  "validate_times s e = Inr () \<longleftrightarrow>
     (\<exists>d. dt_sub e s = Inr d \<and> 0 < d \<and> d \<le> 86400)"
  by (auto simp: validate_times_def split: sum.splits)

lemma make_SensorUplink_Inr:
  "make_SensorUplink eui ts occ bat rssi snr gw raw = Inr u \<Longrightarrow>
     ts = Some (su_timestamp u) \<and> su_device_eui u = eui \<and> su_occupancy_state u = occ
     \<and> su_battery u = bat \<and> su_rssi u = rssi \<and> su_snr u = snr
     \<and> opt_in_range (-200) 0 rssi \<and> opt_in_range (-20) 20 snr \<and> opt_in_range 0 100 bat"
  by (auto simp: make_SensorUplink_def split: option.splits if_splits)

end
