(* ===== verification/Display_State_Machine.thy ===== *)
theory Display_State_Machine
  imports Models
begin

text \<open>
  The policy-driven display logic: \<open>src/src/display_state_machine.py\<close> and the SQL function
  \<open>compute_display_state\<close> it calls (\<open>src/migrations/006_display_state_machine.sql\<close>).

  \<open>process_sensor_reading\<close> debounces sensor readings per space, \<open>compute_display_command\<close> turns
  the tables into a display command, \<open>get_display_policy\<close> is the version-checked policy cache.
  The state is the machine's cache (\<open>dsm\<close>) and the tables it reads and writes (\<open>DisplayDB\<close>); the
  environment (\<open>dsm_env\<close>) carries the clock, the Redis client used for the version key, and how
  the driver decodes a TIMESTAMPTZ column.
\<close>

section \<open>Data\<close>

datatype SensorState = Sensor_OCCUPIED | Sensor_VACANT | Sensor_UNKNOWN

fun SensorState_value :: "SensorState \<Rightarrow> string" where
  "SensorState_value Sensor_OCCUPIED = ''occupied''"
| "SensorState_value Sensor_VACANT = ''vacant''"
| "SensorState_value Sensor_UNKNOWN = ''unknown''"

definition SensorState_of :: "string \<Rightarrow> SensorState option" where
  "SensorState_of v =
     (if v = ''occupied'' then Some Sensor_OCCUPIED else if v = ''vacant'' then Some Sensor_VACANT
      else if v = ''unknown'' then Some Sensor_UNKNOWN else None)"

datatype AdminOverrideType = BLOCKED | OUT_OF_SERVICE

record DisplayPolicy =
  dp_id :: string
  dp_tenant_id :: uuid
  dp_name :: string
  dp_reserved_soon_threshold_sec :: int
  dp_sensor_unknown_timeout_sec :: int
  dp_debounce_window_sec :: int
  dp_occupied_color :: string
  dp_free_color :: string
  dp_reserved_color :: string
  dp_reserved_soon_color :: string
  dp_blocked_color :: string
  dp_out_of_service_color :: string
  dp_blink_reserved_soon :: bool
  dp_blink_pattern_ms :: int
  dp_allow_sensor_override :: bool

definition default_policy :: "string \<Rightarrow> uuid \<Rightarrow> string \<Rightarrow> DisplayPolicy" where
  "default_policy pid tenant_id nm =
     \<lparr>dp_id = pid, dp_tenant_id = tenant_id, dp_name = nm,
      dp_reserved_soon_threshold_sec = 900, dp_sensor_unknown_timeout_sec = 60,
      dp_debounce_window_sec = 10,
      dp_occupied_color = ''FF0000'', dp_free_color = ''00FF00'',
      dp_reserved_color = ''FFA500'', dp_reserved_soon_color = ''FFFF00'',
      dp_blocked_color = ''808080'', dp_out_of_service_color = ''800080'',
      dp_blink_reserved_soon = False, dp_blink_pattern_ms = 500,
      dp_allow_sensor_override = True\<rparr>"

record SensorReading =
  sr_state :: SensorState
  sr_timestamp :: datetime

record DebounceState =
  ds_space_id :: uuid
  ds_last_sensor_state :: "SensorState option"
  ds_last_sensor_timestamp :: "datetime option"
  ds_pending_sensor_state :: "SensorState option"
  ds_pending_since :: "datetime option"
  ds_pending_count :: int
  ds_stable_sensor_state :: "SensorState option"
  ds_stable_since :: "datetime option"
  ds_last_display_state :: "string option"
  ds_last_display_color :: "string option"
  ds_last_display_blink :: bool

definition new_debounce_state :: "uuid \<Rightarrow> DebounceState" where
  "new_debounce_state sid =
     \<lparr>ds_space_id = sid, ds_last_sensor_state = None, ds_last_sensor_timestamp = None,
      ds_pending_sensor_state = None, ds_pending_since = None, ds_pending_count = 0,
      ds_stable_sensor_state = None, ds_stable_since = None, ds_last_display_state = None,
      ds_last_display_color = None, ds_last_display_blink = False\<rparr>"

record DisplayCommand =
  dc_state :: string
  dc_color :: "string option"
  dc_blink :: bool
  dc_priority_level :: int
  dc_reason :: string

section \<open>Tables\<close>

text \<open>A row of \<open>sensor_debounce_state\<close> keeps the enum values as text and instants.\<close>

record debounce_row =
  dr_space_id :: uuid
  dr_last_sensor_state :: "string option"
  dr_last_sensor_timestamp :: "instant option"
  dr_pending_sensor_state :: "string option"
  dr_pending_since :: "instant option"
  dr_pending_count :: "int option"
  dr_stable_sensor_state :: "string option"
  dr_stable_since :: "instant option"
  dr_last_display_state :: "string option"
  dr_last_display_color :: "string option"
  dr_last_display_blink :: bool

record policy_row =
  pr_policy :: DisplayPolicy
  pr_is_active :: bool
  pr_description :: "string option"
  pr_created_at :: instant
  pr_updated_at :: "instant option"

record override_row =
  ov_id :: uuid
  ov_space_id :: uuid
  ov_tenant_id :: uuid
  ov_override_type :: AdminOverrideType
  ov_is_active :: bool
  ov_start_time :: instant
  ov_end_time :: "instant option"
  ov_reason :: "string option"
  ov_notes :: "string option"

record DisplayDB =
  display_policies :: "policy_row list"
  space_admin_overrides :: "override_row list"
  reservations :: "Reservation list"
  sensor_debounce_state :: "debounce_row list"
  spaces_of_tenant :: "(uuid \<times> uuid \<times> bool) list"  \<comment> \<open>space, tenant, deleted\<close>

section \<open>The machine\<close>

record dsm =
  policy_cache :: "uuid \<rightharpoonup> DisplayPolicy \<times> int"
  policy_cache_time :: "uuid \<rightharpoonup> instant"

definition policy_cache_ttl :: rat where "policy_cache_ttl = 300"

datatype redis_reply = Redis_raises | Redis_nil | Redis_bulk string

record dsm_env =
  env_now :: instant
  env_redis :: "(string \<Rightarrow> redis_reply) option"
  env_decode_ts :: "instant \<Rightarrow> datetime"

definition version_key :: "uuid \<Rightarrow> string" where
  "version_key tenant_id = ''display_policy:tenant:'' @ tenant_id @ '':v''"

definition redis_version :: "dsm_env \<Rightarrow> uuid \<Rightarrow> int" where
  "redis_version env tenant_id =
     (case env_redis env of
        None \<Rightarrow> 0
      | Some get \<Rightarrow>
          (case get (version_key tenant_id) of
             Redis_raises \<Rightarrow> 0
           | Redis_nil \<Rightarrow> 0
           | Redis_bulk b \<Rightarrow>
               if b = [] then 0
               else (case parse_int b of None \<Rightarrow> 0 | Some v \<Rightarrow> v)))"

definition fetch_policy :: "DisplayDB \<Rightarrow> uuid \<Rightarrow> DisplayPolicy" where
  "fetch_policy db tenant_id =
     (case find (\<lambda>r. dp_tenant_id (pr_policy r) = tenant_id \<and> pr_is_active r)
             (display_policies db) of
        Some r \<Rightarrow> pr_policy r
      | None \<Rightarrow> default_policy ''default'' tenant_id ''Default Policy'')"

definition cached_policy :: "dsm_env \<Rightarrow> dsm \<Rightarrow> uuid \<Rightarrow> DisplayPolicy option" where
  "cached_policy env m tenant_id =
     (case policy_cache_time m tenant_id of
        None \<Rightarrow> None
      | Some t \<Rightarrow>
          if env_now env - t < policy_cache_ttl
          then (case policy_cache m tenant_id of
                  None \<Rightarrow> None
                | Some (p, v) \<Rightarrow> if v = redis_version env tenant_id then Some p else None)
          else None)"

definition get_display_policy :: "dsm_env \<Rightarrow> DisplayDB \<Rightarrow> dsm \<Rightarrow> uuid \<Rightarrow> DisplayPolicy \<times> dsm" where
  "get_display_policy env db m tenant_id =
     (case cached_policy env m tenant_id of
        Some p \<Rightarrow> (p, m)
      | None \<Rightarrow>
          let policy = fetch_policy db tenant_id in
          (policy,
           m\<lparr>policy_cache := (policy_cache m)(tenant_id \<mapsto> (policy, redis_version env tenant_id)),
             policy_cache_time := (policy_cache_time m)(tenant_id \<mapsto> env_now env)\<rparr>))"

definition invalidate_policy_cache :: "dsm \<Rightarrow> uuid \<Rightarrow> dsm" where
  "invalidate_policy_cache m tenant_id =
     m\<lparr>policy_cache := (policy_cache m)(tenant_id := None),
       policy_cache_time := (policy_cache_time m)(tenant_id := None)\<rparr>"

subsection \<open>Loading and saving the debounce record\<close>

definition load_sensor_state :: "string option \<Rightarrow> SensorState option result" where
  "load_sensor_state v =
     (case v of
        None \<Rightarrow> Inr None
      | Some s \<Rightarrow>
          if s = [] then Inr None
          else (case SensorState_of s of None \<Rightarrow> Inl (ValueError s) | Some x \<Rightarrow> Inr (Some x)))"

definition get_debounce_state :: "dsm_env \<Rightarrow> DisplayDB \<Rightarrow> uuid \<Rightarrow> DebounceState result" where
  "get_debounce_state env db sid =
     (case find (\<lambda>r. dr_space_id r = sid) (sensor_debounce_state db) of
        None \<Rightarrow> Inr (new_debounce_state sid)
      | Some r \<Rightarrow>
          (case load_sensor_state (dr_last_sensor_state r) of Inl e \<Rightarrow> Inl e | Inr last_s \<Rightarrow>
          (case load_sensor_state (dr_pending_sensor_state r) of Inl e \<Rightarrow> Inl e | Inr pend_s \<Rightarrow>
          (case load_sensor_state (dr_stable_sensor_state r) of Inl e \<Rightarrow> Inl e | Inr stab_s \<Rightarrow>
             Inr \<lparr>ds_space_id = dr_space_id r,
                  ds_last_sensor_state = last_s,
                  ds_last_sensor_timestamp =
                    map_option (env_decode_ts env) (dr_last_sensor_timestamp r),
                  ds_pending_sensor_state = pend_s,
                  ds_pending_since = map_option (env_decode_ts env) (dr_pending_since r),
                  ds_pending_count = (case dr_pending_count r of None \<Rightarrow> 0 | Some n \<Rightarrow> n),
                  ds_stable_sensor_state = stab_s,
                  ds_stable_since = map_option (env_decode_ts env) (dr_stable_since r),
                  ds_last_display_state = dr_last_display_state r,
                  ds_last_display_color = dr_last_display_color r,
                  ds_last_display_blink = dr_last_display_blink r\<rparr>))))"

definition row_of_debounce :: "DebounceState \<Rightarrow> debounce_row" where
  "row_of_debounce d =
     \<lparr>dr_space_id = ds_space_id d,
      dr_last_sensor_state = map_option SensorState_value (ds_last_sensor_state d),
      dr_last_sensor_timestamp = map_option dt_instant (ds_last_sensor_timestamp d),
      dr_pending_sensor_state = map_option SensorState_value (ds_pending_sensor_state d),
      dr_pending_since = map_option dt_instant (ds_pending_since d),
      dr_pending_count = Some (ds_pending_count d),
      dr_stable_sensor_state = map_option SensorState_value (ds_stable_sensor_state d),
      dr_stable_since = map_option dt_instant (ds_stable_since d),
      dr_last_display_state = ds_last_display_state d,
      dr_last_display_color = ds_last_display_color d,
      dr_last_display_blink = ds_last_display_blink d\<rparr>"

text \<open>\<open>INSERT .. ON CONFLICT (space_id) DO UPDATE\<close>: every column is taken from the new row.\<close>

definition save_debounce_state :: "DisplayDB \<Rightarrow> DebounceState \<Rightarrow> DisplayDB" where
  "save_debounce_state db d =
     (let row = row_of_debounce d; t = sensor_debounce_state db;
          same = (\<lambda>r. dr_space_id r = ds_space_id d)
      in db\<lparr>sensor_debounce_state :=
              (if sql_exists same t then sql_update same (\<lambda>_. row) t else t @ [row])\<rparr>)"

subsection \<open>Debouncing\<close>

definition start_pending :: "instant \<Rightarrow> SensorState \<Rightarrow> DebounceState \<Rightarrow> DebounceState" where
  "start_pending now s d =
     d\<lparr>ds_pending_sensor_state := Some s, ds_pending_since := Some (Naive now),
       ds_pending_count := 1\<rparr>"

definition confirm_pending :: "instant \<Rightarrow> SensorState \<Rightarrow> DebounceState \<Rightarrow> DebounceState \<times> bool" where
  "confirm_pending now s d =
     (let d1 = d\<lparr>ds_pending_count := ds_pending_count d + 1\<rparr> in
      if ds_pending_count d1 \<ge> 2
      then (d1\<lparr>ds_stable_sensor_state := Some s, ds_stable_since := Some (Naive now),
               ds_pending_sensor_state := None, ds_pending_since := None,
               ds_pending_count := 0\<rparr>, True)
      else (d1, False))"

definition debounce_step ::
  "int \<Rightarrow> instant \<Rightarrow> SensorReading \<Rightarrow> DebounceState \<Rightarrow> (DebounceState \<times> bool) result" where
  "debounce_step window now reading d =
     (let s = sr_state reading;
          res =
            (if ds_last_sensor_state d \<noteq> Some s
             then (if ds_pending_sensor_state d = Some s
                   then (case ds_pending_since d of
                           None \<Rightarrow> Inl TypeError
                         | Some since \<Rightarrow>
                             (case dt_sub (Naive now) since of
                                Inl e \<Rightarrow> Inl e
                              | Inr time_diff \<Rightarrow>
                                  if time_diff \<le> of_int window then Inr (confirm_pending now s d)
                                  else Inr (start_pending now s d, False)))
                   else Inr (start_pending now s d, False))
             else Inr (d\<lparr>ds_pending_sensor_state := None, ds_pending_count := 0\<rparr>, False))
      in map_sum id (\<lambda>(d', changed).
           (d'\<lparr>ds_last_sensor_state := Some s,
               ds_last_sensor_timestamp := Some (sr_timestamp reading)\<rparr>, changed)) res)"

subsection \<open>The SQL function compute_display_state\<close>

definition effective_policy :: "DisplayDB \<Rightarrow> uuid \<Rightarrow> DisplayPolicy" where
  "effective_policy db tenant_id =
     (case find (\<lambda>r. dp_tenant_id (pr_policy r) = tenant_id \<and> pr_is_active r)
             (display_policies db) of
        Some r \<Rightarrow> pr_policy r
      | None \<Rightarrow> default_policy [] tenant_id ''default'')"

definition override_active :: "instant \<Rightarrow> DisplayDB \<Rightarrow> uuid \<Rightarrow> AdminOverrideType \<Rightarrow> bool" where
  "override_active now db sid ty =
     sql_exists (\<lambda>o1. ov_space_id o1 = sid \<and> ov_is_active o1 \<and> ov_override_type o1 = ty
        \<and> ov_start_time o1 \<le> now
        \<and> (case ov_end_time o1 of None \<Rightarrow> True | Some e \<Rightarrow> e > now)) (space_admin_overrides db)"

definition reserved_now :: "instant \<Rightarrow> DisplayDB \<Rightarrow> uuid \<Rightarrow> bool" where
  "reserved_now now db sid =
     sql_exists (\<lambda>r. rv_space_id r = sid \<and> live_status (rv_status r)
        \<and> rv_start_time r \<le> now \<and> rv_end_time r > now) (reservations db)"

definition next_reservation ::
  "instant \<Rightarrow> DisplayDB \<Rightarrow> uuid \<Rightarrow> DisplayPolicy \<Rightarrow> Reservation option" where
  "next_reservation now db sid p =
     first_asc rv_start_time (filter (\<lambda>r. rv_space_id r = sid \<and> live_status (rv_status r)
        \<and> rv_start_time r > now
        \<and> rv_start_time r \<le> now + of_int (dp_reserved_soon_threshold_sec p)) (reservations db))"

definition sensor_fresh :: "instant \<Rightarrow> DisplayPolicy \<Rightarrow> debounce_row \<Rightarrow> bool" where
  "sensor_fresh now p r =
     (case dr_stable_since r of
        None \<Rightarrow> False | Some t \<Rightarrow> now - t \<le> of_int (dp_sensor_unknown_timeout_sec p))"

definition make_command ::
  "string \<Rightarrow> string option \<Rightarrow> bool \<Rightarrow> int \<Rightarrow> string \<Rightarrow> DisplayCommand" where
  "make_command st col bl prio why =
     \<lparr>dc_state = st, dc_color = col, dc_blink = bl, dc_priority_level = prio, dc_reason = why\<rparr>"

definition default_command :: "DisplayPolicy \<Rightarrow> DisplayCommand" where
  "default_command p = make_command ''FREE'' (Some (dp_free_color p)) False 7
     ''Default: no sensor data''"

definition hold_or_default :: "DisplayPolicy \<Rightarrow> debounce_row \<Rightarrow> DisplayCommand" where
  "hold_or_default p r =
     (case dr_last_display_state r of
        Some st \<Rightarrow>
          make_command st (dr_last_display_color r) (dr_last_display_blink r) 6
            (''Holding last stable state (sensor timeout ''
              @ int_str (dp_sensor_unknown_timeout_sec p) @ ''s)'')
      | None \<Rightarrow> default_command p)"

definition compute_display_state :: "instant \<Rightarrow> DisplayDB \<Rightarrow> uuid \<Rightarrow> uuid \<Rightarrow> DisplayCommand" where
  "compute_display_state now db sid tenant_id =
     (let p = effective_policy db tenant_id in
      if override_active now db sid OUT_OF_SERVICE
      then make_command ''MAINTENANCE'' (Some (dp_out_of_service_color p)) False 1
             ''Admin override: out_of_service''
      else if override_active now db sid BLOCKED
      then make_command ''MAINTENANCE'' (Some (dp_blocked_color p)) False 2
             ''Admin override: blocked''
      else if reserved_now now db sid
      then make_command ''RESERVED'' (Some (dp_reserved_color p)) False 3 ''Active reservation''
      else (case next_reservation now db sid p of
              Some r \<Rightarrow>
                make_command ''RESERVED'' (Some (dp_reserved_soon_color p))
                  (dp_blink_reserved_soon p) 4
                  (''Reservation starts in '' @ int_str \<lfloor>rv_start_time r - now + 1 / 2\<rfloor>
                    @ '' seconds'')
            | None \<Rightarrow>
                (case find (\<lambda>r. dr_space_id r = sid) (sensor_debounce_state db) of
                   None \<Rightarrow> default_command p
                 | Some r \<Rightarrow>
                     if sensor_fresh now p r \<and> dr_stable_sensor_state r = Some ''occupied''
                     then make_command ''OCCUPIED'' (Some (dp_occupied_color p)) False 5
                            ''Sensor: occupied''
                     else if sensor_fresh now p r \<and> dr_stable_sensor_state r = Some ''vacant''
                     then make_command ''FREE'' (Some (dp_free_color p)) False 5
                            ''Sensor: vacant''
                     else hold_or_default p r)))"

subsection \<open>Operations of the machine\<close>

text \<open>
  The Python wrapper: the SQL function returns one row, so \<open>result\<close> is \<open>Some\<close>; the fallback for
  an empty result is kept.
\<close>

definition display_command_of_row ::
  "dsm_env \<Rightarrow> DisplayDB \<Rightarrow> dsm \<Rightarrow> uuid \<Rightarrow> DisplayCommand option \<Rightarrow> DisplayCommand \<times> dsm" where
  "display_command_of_row env db m tenant_id result =
     (case result of
        None \<Rightarrow>
          (let (policy, m') = get_display_policy env db m tenant_id in
           (make_command ''FREE'' (Some (dp_free_color policy)) False 7 ''Fallback: no data'', m'))
      | Some row \<Rightarrow> (row, m))"

definition compute_display_command ::
  "dsm_env \<Rightarrow> DisplayDB \<Rightarrow> dsm \<Rightarrow> uuid \<Rightarrow> uuid \<Rightarrow> DisplayCommand \<times> dsm" where
  "compute_display_command env db m sid tenant_id =
     display_command_of_row env db m tenant_id
       (Some (compute_display_state (env_now env) db sid tenant_id))"

definition process_sensor_reading ::
  "dsm_env \<Rightarrow> DisplayDB \<Rightarrow> dsm \<Rightarrow> uuid \<Rightarrow> uuid \<Rightarrow> SensorReading
   \<Rightarrow> (bool \<times> DisplayCommand option) result \<times> DisplayDB \<times> dsm" where
  "process_sensor_reading env db m sid tenant_id reading =
     (case get_debounce_state env db sid of
        Inl e \<Rightarrow> (Inl e, db, m)
      | Inr d \<Rightarrow>
          (let (policy, m1) = get_display_policy env db m tenant_id in
           case debounce_step (dp_debounce_window_sec policy) (env_now env) reading d of
             Inl e \<Rightarrow> (Inl e, db, m1)
           | Inr (d1, changed) \<Rightarrow>
               (let db1 = save_debounce_state db d1 in
                if changed
                then (let (cmd, m2) = compute_display_command env db1 m1 sid tenant_id;
                          d2 = d1\<lparr>ds_last_display_state := Some (dc_state cmd),
                                  ds_last_display_color := dc_color cmd,
                                  ds_last_display_blink := dc_blink cmd\<rparr>
                      in (Inr (True, Some cmd), save_debounce_state db1 d2, m2))
                else (Inr (False, None), db1, m1))))"

text \<open>
  Recomputing every live space of a tenant: a space whose query raises is logged and not counted
  (\<open>raises\<close> says which).
\<close>

definition force_recompute_all_spaces :: "(uuid \<Rightarrow> bool) \<Rightarrow> DisplayDB \<Rightarrow> uuid \<Rightarrow> nat" where
  "force_recompute_all_spaces raises db tenant_id =
     length (filter (\<lambda>(sid, ten, deleted). \<not> raises sid)
       (filter (\<lambda>(sid, ten, deleted). ten = tenant_id \<and> \<not> deleted) (spaces_of_tenant db)))"

text \<open>A sequence of readings of one space, each with the environment it is processed in.\<close>

fun process_readings ::
  "DisplayDB \<Rightarrow> dsm \<Rightarrow> uuid \<Rightarrow> uuid \<Rightarrow> (dsm_env \<times> SensorReading) list
   \<Rightarrow> (bool \<times> DisplayCommand option) result list \<times> DisplayDB \<times> dsm" where
  "process_readings db m sid ten [] = ([], db, m)"
| "process_readings db m sid ten ((env, rd) # rds) =
     (let (r, db1, m1) = process_sensor_reading env db m sid ten rd;
          (rs, db2, m2) = process_readings db1 m1 sid ten rds
      in (r # rs, db2, m2))"

section \<open>Specifications\<close>

text \<open>The priority order of the module's documentation, as a list of guarded commands.\<close>

fun first_match :: "(bool \<times> 'c) list \<Rightarrow> 'c \<Rightarrow> 'c" where
  "first_match [] c = c"
| "first_match ((g, x) # rs) c = (if g then x else first_match rs c)"

definition display_rules ::
  "instant \<Rightarrow> DisplayDB \<Rightarrow> uuid \<Rightarrow> DisplayPolicy \<Rightarrow> (bool \<times> DisplayCommand) list" where
  "display_rules now db sid p =
     (let nxt = next_reservation now db sid p;
          row = find (\<lambda>r. dr_space_id r = sid) (sensor_debounce_state db);
          fresh = (\<lambda>v. \<exists>r. row = Some r \<and> sensor_fresh now p r \<and> dr_stable_sensor_state r = Some v)
      in
      [(override_active now db sid OUT_OF_SERVICE,
        make_command ''MAINTENANCE'' (Some (dp_out_of_service_color p)) False 1
          ''Admin override: out_of_service''),
       (override_active now db sid BLOCKED,
        make_command ''MAINTENANCE'' (Some (dp_blocked_color p)) False 2
          ''Admin override: blocked''),
       (reserved_now now db sid,
        make_command ''RESERVED'' (Some (dp_reserved_color p)) False 3 ''Active reservation''),
       (nxt \<noteq> None,
        make_command ''RESERVED'' (Some (dp_reserved_soon_color p)) (dp_blink_reserved_soon p) 4
          (''Reservation starts in '' @ int_str \<lfloor>rv_start_time (the nxt) - now + 1 / 2\<rfloor>
            @ '' seconds'')),
       (fresh ''occupied'',
        make_command ''OCCUPIED'' (Some (dp_occupied_color p)) False 5 ''Sensor: occupied''),
       (fresh ''vacant'',
        make_command ''FREE'' (Some (dp_free_color p)) False 5 ''Sensor: vacant''),
       (row \<noteq> None \<and> dr_last_display_state (the row) \<noteq> None,
        make_command (the (dr_last_display_state (the row))) (dr_last_display_color (the row))
          (dr_last_display_blink (the row)) 6
          (''Holding last stable state (sensor timeout ''
            @ int_str (dp_sensor_unknown_timeout_sec p) @ ''s)''))])"

text \<open>A debounce record whose pending state, if any, is the last state read.\<close>

definition pending_is_last :: "DebounceState \<Rightarrow> bool" where
  "pending_is_last d =
     (ds_pending_sensor_state d = None \<or> ds_pending_sensor_state d = ds_last_sensor_state d)"

definition stored_pending_is_last :: "DisplayDB \<Rightarrow> uuid \<Rightarrow> bool" where
  "stored_pending_is_last db sid =
     (case find (\<lambda>r. dr_space_id r = sid) (sensor_debounce_state db) of
        None \<Rightarrow> True
      | Some r \<Rightarrow> (\<exists>d. r = row_of_debounce d \<and> ds_space_id d = sid \<and> pending_is_last d
                     \<and> ds_stable_sensor_state d = None))"

text \<open>The record as it is read back: instants are decoded by the driver.\<close>

definition reread :: "dsm_env \<Rightarrow> DebounceState \<Rightarrow> DebounceState" where
  "reread env d =
     (let dec = map_option (\<lambda>t. env_decode_ts env (dt_instant t)) in
      d\<lparr>ds_last_sensor_timestamp := dec (ds_last_sensor_timestamp d),
        ds_pending_since := dec (ds_pending_since d),
        ds_stable_since := dec (ds_stable_since d)\<rparr>)"

section \<open>Loading and saving\<close>

lemma SensorState_of_value [simp]: "SensorState_of (SensorState_value s) = Some s"
  by (cases s) (simp_all add: SensorState_of_def)

lemma load_saved_state [simp]:
  "load_sensor_state (map_option SensorState_value v) = Inr v"
proof (cases v)
  case (Some s)
  then show ?thesis by (cases s) (simp_all add: load_sensor_state_def SensorState_of_def)
qed (simp add: load_sensor_state_def)

lemma get_debounce_state_row:
  assumes "find (\<lambda>r. dr_space_id r = sid) (sensor_debounce_state db) = Some (row_of_debounce d)"
  shows "get_debounce_state env db sid = Inr (reread env d)"
  using assms
  by (simp add: get_debounce_state_def row_of_debounce_def reread_def Let_def option.map_comp comp_def)

lemma find_saved [simp]:
  "find (\<lambda>r. dr_space_id r = ds_space_id d) (sensor_debounce_state (save_debounce_state db d))
     = Some (row_of_debounce d)"
proof -
  let ?same = "\<lambda>r. dr_space_id r = ds_space_id d"
  have key: "dr_space_id (row_of_debounce d) = ds_space_id d"
    by (simp add: row_of_debounce_def)
  have upd: "find ?same (sql_update ?same (\<lambda>_. row_of_debounce d) t) = Some (row_of_debounce d)"
    if "list_ex ?same t" for t
    using that by (induction t) (auto simp: sql_update_def key)
  have new: "find ?same (t @ [row_of_debounce d]) = Some (row_of_debounce d)"
    if "\<not> list_ex ?same t" for t
    using that by (induction t) (auto simp: key)
  show ?thesis
    by (simp add: save_debounce_state_def Let_def sql_exists_def upd new)
qed

text \<open>
  Reading a saved debounce record back gives the record that was saved, with its
  instants as the driver decodes them; the record of another space is not touched by the save.
\<close>

theorem save_load_debounce:
  "get_debounce_state env (save_debounce_state db d) (ds_space_id d) = Inr (reread env d)
   \<and> (sid \<noteq> ds_space_id d \<longrightarrow>
        get_debounce_state env (save_debounce_state db d) sid = get_debounce_state env db sid)"
proof -
  let ?same = "\<lambda>r. dr_space_id r = ds_space_id d"
  have key: "dr_space_id (row_of_debounce d) = ds_space_id d"
    by (simp add: row_of_debounce_def)
  have other: "find (\<lambda>r. dr_space_id r = sid) (sensor_debounce_state (save_debounce_state db d))
      = find (\<lambda>r. dr_space_id r = sid) (sensor_debounce_state db)" if "sid \<noteq> ds_space_id d"
  proof -
    have "find (\<lambda>r. dr_space_id r = sid) (sql_update ?same (\<lambda>_. row_of_debounce d) t)
        = find (\<lambda>r. dr_space_id r = sid) t" for t
      using that by (induction t) (auto simp: sql_update_def key)
    moreover have "find (\<lambda>r. dr_space_id r = sid) (t @ [row_of_debounce d])
        = find (\<lambda>r. dr_space_id r = sid) t" for t
      using that by (induction t) (auto simp: key)
    ultimately show ?thesis by (simp add: save_debounce_state_def Let_def)
  qed
  then have "get_debounce_state env (save_debounce_state db d) sid = get_debounce_state env db sid"
    if "sid \<noteq> ds_space_id d" using that by (simp add: get_debounce_state_def)
  then show ?thesis
    using get_debounce_state_row [OF find_saved] by blast
qed

theorem save_load_debounce_witness:
  "get_debounce_state \<lparr>env_now = 0, env_redis = None, env_decode_ts = Naive\<rparr>
     (save_debounce_state \<lparr>display_policies = [], space_admin_overrides = [], reservations = [],
        sensor_debounce_state = [], spaces_of_tenant = []\<rparr> (new_debounce_state ''a'')) ''b''
   = Inr (new_debounce_state ''b'')"
proof -
  let ?db = "\<lparr>display_policies = [], space_admin_overrides = [], reservations = [],
        sensor_debounce_state = [], spaces_of_tenant = []\<rparr>"
  let ?env = "\<lparr>env_now = 0, env_redis = None, env_decode_ts = Naive\<rparr>"
  have "get_debounce_state ?env (save_debounce_state ?db (new_debounce_state ''a'')) ''b''
      = get_debounce_state ?env ?db ''b''"
    using save_load_debounce [of ?env ?db "new_debounce_state ''a''" "''b''"]
    by (simp add: new_debounce_state_def)
  then show ?thesis by (simp add: get_debounce_state_def)
qed

section \<open>Debouncing\<close>

text \<open>
  The debounce step reports a change exactly when the reading differs from the last
  one, equals the pending state, falls inside the debounce window of the pending reading and is at
  least the second one; the stable state is then the reading and nothing is pending any more.
\<close>

theorem debounce_step_confirms_iff:
  "(\<exists>d'. debounce_step w now rd d = Inr (d', True)) \<longleftrightarrow>
     ds_last_sensor_state d \<noteq> Some (sr_state rd)
     \<and> ds_pending_sensor_state d = Some (sr_state rd)
     \<and> (\<exists>t. ds_pending_since d = Some (Naive t) \<and> now - t \<le> of_int w)
     \<and> ds_pending_count d \<ge> 1"
  (is "?L \<longleftrightarrow> ?R")
proof
  assume ?R
  then obtain t where "ds_pending_since d = Some (Naive t)" "now - t \<le> of_int w" by blast
  with \<open>?R\<close> show ?L by (simp add: debounce_step_def confirm_pending_def Let_def)
next
  assume ?L
  then show ?R
    by (auto simp: debounce_step_def confirm_pending_def start_pending_def Let_def
        dt_sub_naive_inv split: if_splits option.splits sum.splits)
qed

lemma debounce_step_confirmed:
  assumes "debounce_step w now rd d = Inr (d', True)"
  shows "ds_stable_sensor_state d' = Some (sr_state rd) \<and> ds_pending_sensor_state d' = None
    \<and> ds_pending_count d' = 0 \<and> ds_stable_since d' = Some (Naive now)"
  using assms
  by (auto simp: debounce_step_def confirm_pending_def start_pending_def Let_def
      split: if_splits option.splits sum.splits)

lemma debounce_step_quiet:
  assumes "pending_is_last d"
  obtains d' where "debounce_step w now rd d = Inr (d', False)" "pending_is_last d'"
    "ds_stable_sensor_state d' = ds_stable_sensor_state d" "ds_space_id d' = ds_space_id d"
proof -
  have "ds_pending_sensor_state d \<noteq> Some (sr_state rd)"
    if "ds_last_sensor_state d \<noteq> Some (sr_state rd)"
    using assms that by (auto simp: pending_is_last_def)
  then show ?thesis
    by (intro that [of "fst (projr (debounce_step w now rd d))"])
      (auto simp: debounce_step_def start_pending_def pending_is_last_def Let_def)
qed

lemma process_sensor_reading_quiet:
  assumes "stored_pending_is_last db sid"
  obtains db' m' where
    "process_sensor_reading env db m sid ten rd = (Inr (False, None), db', m')"
    "stored_pending_is_last db' sid"
proof -
  obtain d where d: "get_debounce_state env db sid = Inr d" "pending_is_last d"
      "ds_stable_sensor_state d = None" "ds_space_id d = sid"
  proof (cases "find (\<lambda>r. dr_space_id r = sid) (sensor_debounce_state db)")
    case None
    then show ?thesis
      by (intro that [of "new_debounce_state sid"])
        (simp_all add: get_debounce_state_def new_debounce_state_def pending_is_last_def)
  next
    case (Some r)
    with assms obtain d0 where "r = row_of_debounce d0" "ds_space_id d0 = sid"
        "pending_is_last d0" "ds_stable_sensor_state d0 = None"
      by (auto simp: stored_pending_is_last_def)
    with Some show ?thesis
      by (intro that [of "reread env d0"])
        (simp_all add: get_debounce_state_row reread_def Let_def pending_is_last_def)
  qed
  obtain policy m1 where pol: "get_display_policy env db m ten = (policy, m1)" by fastforce
  obtain d1 where d1: "debounce_step (dp_debounce_window_sec policy) (env_now env) rd d = Inr (d1, False)"
      "pending_is_last d1" "ds_stable_sensor_state d1 = None" "ds_space_id d1 = sid"
    using debounce_step_quiet [OF d(2)] d(3,4) by metis
  show ?thesis
  proof (rule that)
    show "process_sensor_reading env db m sid ten rd
        = (Inr (False, None), save_debounce_state db d1, m1)"
      by (simp add: process_sensor_reading_def d pol d1)
    show "stored_pending_is_last (save_debounce_state db d1) sid"
      using d1 find_saved [of d1 db] unfolding stored_pending_is_last_def by auto
  qed
qed

text \<open>
  From a space without a debounce record, no sequence of readings is ever confirmed:
  every reading answers \<open>(False, None)\<close> whatever the policy, the clock and the driver, so the
  stable sensor state is never set and no display command is issued. The second of two equal
  readings takes the branch that resets the pending state, because the first one has already been
  stored as the last reading.
\<close>

theorem debounce_never_confirms:
  assumes "find (\<lambda>r. dr_space_id r = sid) (sensor_debounce_state db) = None"
  shows "fst (process_readings db m sid ten rds) = replicate (length rds) (Inr (False, None))"
proof -
  have "stored_pending_is_last db sid"
    using assms by (simp add: stored_pending_is_last_def)
  then show ?thesis
  proof (induction rds arbitrary: db m)
    case (Cons x rds)
    obtain env rd where x: "x = (env, rd)" by fastforce
    obtain db' m' where "process_sensor_reading env db m sid ten rd = (Inr (False, None), db', m')"
        "stored_pending_is_last db' sid"
      using Cons.prems by (rule process_sensor_reading_quiet)
    then show ?case using Cons.IH [of db' m'] by (auto simp: x split: prod.splits)
  qed simp
qed

theorem debounce_never_confirms_witness:
  "fst (process_readings
     \<lparr>display_policies = [], space_admin_overrides = [], reservations = [],
      sensor_debounce_state = [], spaces_of_tenant = []\<rparr>
     \<lparr>policy_cache = Map.empty, policy_cache_time = Map.empty\<rparr> ''s'' ''t''
     [(\<lparr>env_now = 0, env_redis = None, env_decode_ts = Naive\<rparr>,
       \<lparr>sr_state = Sensor_OCCUPIED, sr_timestamp = Naive 0\<rparr>),
      (\<lparr>env_now = 5, env_redis = None, env_decode_ts = Naive\<rparr>,
       \<lparr>sr_state = Sensor_OCCUPIED, sr_timestamp = Naive 5\<rparr>)])
   = [Inr (False, None), Inr (False, None)]"
  by (subst debounce_never_confirms) (simp_all add: numeral_2_eq_2)

section \<open>Priorities\<close>


section \<open>Policy cache\<close>

lemma get_display_policy_miss:
  "cached_policy env m ten = None \<Longrightarrow> fst (get_display_policy env db m ten) = fetch_policy db ten"
  by (simp add: get_display_policy_def Let_def)

text \<open>
  Once a policy writer has bumped the version key, a worker whose cached versions are
  not newer than the old version answers with the policy the database now holds, whatever it had
  cached and however recently; the answer is cached under the new version and the next lookup
  within the time to live returns it without reading the database.
\<close>

theorem policy_cache_coherent_after_bump:
  assumes "\<And>p v. policy_cache m ten = Some (p, v) \<Longrightarrow> v \<le> redis_version env_old ten"
    and "redis_version env ten = redis_version env_old ten + 1"
    and "redis_version env' ten = redis_version env ten"
    and "0 \<le> env_now env' - env_now env" "env_now env' - env_now env < policy_cache_ttl"
  shows "\<exists>m'. get_display_policy env db m ten = (fetch_policy db ten, m')
    \<and> get_display_policy env' db' m' ten = (fetch_policy db ten, m')"
proof -
  have "cached_policy env m ten = None"
    using assms(1,2) by (force simp: cached_policy_def split: option.splits)
  then show ?thesis
    using assms(3-5) by (auto simp: get_display_policy_def cached_policy_def Let_def)
qed

theorem policy_cache_coherent_after_bump_witness:
  "\<exists>m'. get_display_policy
      \<lparr>env_now = 20, env_redis = Some (\<lambda>_. Redis_bulk ''1''), env_decode_ts = Naive\<rparr>
      \<lparr>display_policies = [], space_admin_overrides = [], reservations = [],
        sensor_debounce_state = [], spaces_of_tenant = []\<rparr>
      \<lparr>policy_cache = [''t'' \<mapsto> (default_policy ''old'' ''t'' ''Old'', 0)],
       policy_cache_time = [''t'' \<mapsto> 10]\<rparr> ''t''
    = (default_policy ''default'' ''t'' ''Default Policy'', m')"
proof -
  let ?db = "\<lparr>display_policies = [], space_admin_overrides = [], reservations = [],
        sensor_debounce_state = [], spaces_of_tenant = []\<rparr>"
  let ?e = "\<lambda>t v. \<lparr>env_now = t, env_redis = Some (\<lambda>_. Redis_bulk v), env_decode_ts = Naive\<rparr>"
  let ?m = "\<lparr>policy_cache = [''t'' \<mapsto> (default_policy ''old'' ''t'' ''Old'', 0)],
       policy_cache_time = [''t'' \<mapsto> 10]\<rparr>"
  have v: "redis_version (?e a ''0'') ''t'' = 0" "redis_version (?e a ''1'') ''t'' = 1" for a
    by (simp_all add: redis_version_def parse_int_def strip_def is_space_def is_blank_def is_digit_def)
  have "fetch_policy ?db ''t'' = default_policy ''default'' ''t'' ''Default Policy''"
    by (simp add: fetch_policy_def)
  then show ?thesis
    using policy_cache_coherent_after_bump [of ?m "''t''" "?e 5 ''0''" "?e 20 ''1''" "?e 25 ''1''" ?db ?db]
    by (auto simp: v policy_cache_ttl_def)
qed

end
