(* ===== verification/Redis_Store.thy ===== *)
theory Redis_Store
  imports Prelude "HOL-Library.AList"
begin

text \<open>
  The Redis server, as the platform uses it. Redis is not part of the repository, so every
  definition that talks to it takes its commands as an argument, a record \<open>redis_ops\<close> over an
  unknown state type. The locale \<open>redis\<close> states the documented effect of each command through an
  abstraction function \<open>contents\<close>: a key holds at most one value, a string, a list, a hash or a
  sorted set; an empty collection is no key. Commands on a key of another type are left
  unspecified (Redis answers WRONGTYPE).

  Expiry (\<open>EX\<close>, \<open>EXPIRE\<close>) is an argument of the commands. That a key disappears later is a step
  of the environment: any state whose contents lack that key.

  \<open>mem_ops\<close> is an executable store that satisfies the contract; witnesses evaluate on it.
\<close>

section \<open>Values and key spaces\<close>

datatype rvalue =
    RStr string
  | RList "string list"
  | RHash "(string \<times> string) list"
  | RZSet "(string \<times> rat) list"

type_synonym keyspace = "string \<Rightarrow> rvalue option"

definition str_at :: "keyspace \<Rightarrow> string \<Rightarrow> string option" where
  "str_at m k = (case m k of Some (RStr v) \<Rightarrow> Some v | _ \<Rightarrow> None)"

definition list_at :: "keyspace \<Rightarrow> string \<Rightarrow> string list" where
  "list_at m k = (case m k of Some (RList xs) \<Rightarrow> xs | _ \<Rightarrow> [])"

definition hash_at :: "keyspace \<Rightarrow> string \<Rightarrow> (string \<times> string) list" where
  "hash_at m k = (case m k of Some (RHash h) \<Rightarrow> h | _ \<Rightarrow> [])"

definition zset_at :: "keyspace \<Rightarrow> string \<Rightarrow> (string \<times> rat) list" where
  "zset_at m k = (case m k of Some (RZSet z) \<Rightarrow> z | _ \<Rightarrow> [])"

definition put_list :: "keyspace \<Rightarrow> string \<Rightarrow> string list \<Rightarrow> keyspace" where
  "put_list m k xs = m(k := (if xs = [] then None else Some (RList xs)))"

definition put_hash :: "keyspace \<Rightarrow> string \<Rightarrow> (string \<times> string) list \<Rightarrow> keyspace" where
  "put_hash m k h = m(k := (if h = [] then None else Some (RHash h)))"

definition put_zset :: "keyspace \<Rightarrow> string \<Rightarrow> (string \<times> rat) list \<Rightarrow> keyspace" where
  "put_zset m k z = m(k := (if z = [] then None else Some (RZSet z)))"

definition strlike :: "keyspace \<Rightarrow> string \<Rightarrow> bool" where
  "strlike m k = (case m k of None \<Rightarrow> True | Some (RStr _) \<Rightarrow> True | _ \<Rightarrow> False)"

definition listlike :: "keyspace \<Rightarrow> string \<Rightarrow> bool" where
  "listlike m k = (case m k of None \<Rightarrow> True | Some (RList _) \<Rightarrow> True | _ \<Rightarrow> False)"

definition hashlike :: "keyspace \<Rightarrow> string \<Rightarrow> bool" where
  "hashlike m k = (case m k of None \<Rightarrow> True | Some (RHash _) \<Rightarrow> True | _ \<Rightarrow> False)"

definition zsetlike :: "keyspace \<Rightarrow> string \<Rightarrow> bool" where
  "zsetlike m k = (case m k of None \<Rightarrow> True | Some (RZSet _) \<Rightarrow> True | _ \<Rightarrow> False)"

text \<open>Setting several fields of a hash, in order.\<close>

definition upd_fields ::
  "(string \<times> string) list \<Rightarrow> (string \<times> string) list \<Rightarrow> (string \<times> string) list" where
  "upd_fields h fs = fold (\<lambda>(f, v) acc. AList.update f v acc) fs h"

text \<open>The element of a sorted set with the least score.\<close>

definition zmin :: "(string \<times> rat) list \<Rightarrow> (string \<times> rat) option" where
  "zmin z = first_asc snd z"

text \<open>Glob patterns with \<open>*\<close> and \<open>?\<close>, the only ones the platform builds.\<close>

fun glob_match :: "string \<Rightarrow> string \<Rightarrow> bool" where
  "glob_match [] s = (s = [])"
| "glob_match (c # p) [] = (c = CHR ''*'' \<and> glob_match p [])"
| "glob_match (c # p) (x # s) =
     (if c = CHR ''*'' then glob_match p (x # s) \<or> glob_match (c # p) s
      else (c = CHR ''?'' \<or> c = x) \<and> glob_match p s)"

section \<open>Commands\<close>

record 'r redis_ops =
  rget :: "'r \<Rightarrow> string \<Rightarrow> string option"
  rset :: "'r \<Rightarrow> string \<Rightarrow> string \<Rightarrow> int \<Rightarrow> 'r"
  rset_nx :: "'r \<Rightarrow> string \<Rightarrow> string \<Rightarrow> int \<Rightarrow> 'r \<times> bool"
  rdel :: "'r \<Rightarrow> string \<Rightarrow> 'r"
  rincr :: "'r \<Rightarrow> string \<Rightarrow> 'r"
  rexpire :: "'r \<Rightarrow> string \<Rightarrow> int \<Rightarrow> 'r"
  rrpush :: "'r \<Rightarrow> string \<Rightarrow> string \<Rightarrow> 'r"
  rlpop :: "'r \<Rightarrow> string \<Rightarrow> 'r \<times> string option"
  rlrem :: "'r \<Rightarrow> string \<Rightarrow> string \<Rightarrow> 'r"
  rlrange :: "'r \<Rightarrow> string \<Rightarrow> string list"
  rlkeep :: "'r \<Rightarrow> string \<Rightarrow> nat \<Rightarrow> 'r"
  rhset :: "'r \<Rightarrow> string \<Rightarrow> (string \<times> string) list \<Rightarrow> 'r"
  rhgetall :: "'r \<Rightarrow> string \<Rightarrow> (string \<times> string) list"
  rzadd :: "'r \<Rightarrow> string \<Rightarrow> string \<Rightarrow> rat \<Rightarrow> 'r"
  rzremrange :: "'r \<Rightarrow> string \<Rightarrow> rat \<Rightarrow> rat \<Rightarrow> 'r"
  rzrange0 :: "'r \<Rightarrow> string \<Rightarrow> (string \<times> rat) option"
  rzcard :: "'r \<Rightarrow> string \<Rightarrow> nat"
  rkeys :: "'r \<Rightarrow> string \<Rightarrow> string list"

text \<open>
  \<open>rlrem\<close> is \<open>LREM key 0 v\<close> (all occurrences), \<open>rlkeep k n\<close> is \<open>LTRIM key -n -1\<close>, \<open>rlrange\<close> is
  \<open>LRANGE key 0 -1\<close>, \<open>rzrange0\<close> is \<open>ZRANGE key 0 0 WITHSCORES\<close>, \<open>rlpop\<close> the immediate answer of
  \<open>BLPOP\<close>, \<open>rset\<close> is \<open>SET .. EX\<close>, \<open>rset_nx\<close> is \<open>SET .. NX EX\<close>.
\<close>

section \<open>The contract\<close>

locale redis =
  fixes R :: "'r redis_ops"
    and contents :: "'r \<Rightarrow> keyspace"
  assumes get: "strlike (contents s) k \<Longrightarrow> rget R s k = str_at (contents s) k"
    and set: "contents (rset R s k v ex) = (contents s)(k \<mapsto> RStr v)"
    and set_nx: "rset_nx R s k v ex =
        (if contents s k = None then (rset R s k v ex, True) else (s, False))"
    and del: "contents (rdel R s k) = (contents s)(k := None)"
    and incr_new: "contents s k = None \<Longrightarrow> contents (rincr R s k) = (contents s)(k \<mapsto> RStr ''1'')"
    and incr_old: "str_at (contents s) k = Some v \<Longrightarrow> parse_int v = Some i \<Longrightarrow>
        contents (rincr R s k) = (contents s)(k \<mapsto> RStr (int_str (i + 1)))"
    and expire: "contents (rexpire R s k ex) = contents s"
    and rpush: "listlike (contents s) k \<Longrightarrow>
        contents (rrpush R s k v) = put_list (contents s) k (list_at (contents s) k @ [v])"
    and lpop: "listlike (contents s) k \<Longrightarrow>
        (case list_at (contents s) k of
           [] \<Rightarrow> rlpop R s k = (s, None)
         | x # xs \<Rightarrow> snd (rlpop R s k) = Some x
                    \<and> contents (fst (rlpop R s k)) = put_list (contents s) k xs)"
    and lrem: "listlike (contents s) k \<Longrightarrow>
        contents (rlrem R s k v)
          = put_list (contents s) k (filter (\<lambda>x. x \<noteq> v) (list_at (contents s) k))"
    and lrange: "listlike (contents s) k \<Longrightarrow> rlrange R s k = list_at (contents s) k"
    and lkeep: "listlike (contents s) k \<Longrightarrow>
        contents (rlkeep R s k n) = put_list (contents s) k
          (drop (length (list_at (contents s) k) - n) (list_at (contents s) k))"
    and hset: "hashlike (contents s) k \<Longrightarrow>
        contents (rhset R s k fs) = put_hash (contents s) k (upd_fields (hash_at (contents s) k) fs)"
    and hgetall: "hashlike (contents s) k \<Longrightarrow> rhgetall R s k = hash_at (contents s) k"
    and zadd: "zsetlike (contents s) k \<Longrightarrow>
        contents (rzadd R s k mem sc)
          = put_zset (contents s) k (AList.update mem sc (zset_at (contents s) k))"
    and zremrange: "zsetlike (contents s) k \<Longrightarrow>
        contents (rzremrange R s k lo hi)
          = put_zset (contents s) k
              (filter (\<lambda>(m, sc). \<not> (lo \<le> sc \<and> sc \<le> hi)) (zset_at (contents s) k))"
    and zrange0: "zsetlike (contents s) k \<Longrightarrow> rzrange0 R s k = zmin (zset_at (contents s) k)"
    and zcard: "zsetlike (contents s) k \<Longrightarrow> rzcard R s k = length (zset_at (contents s) k)"
    and keys: "set (rkeys R s pat) = {k. contents s k \<noteq> None \<and> glob_match pat k}"

section \<open>Reading an updated key space\<close>

lemma str_at_upd [simp]:
  "str_at (m(k \<mapsto> RStr v)) k' = (if k' = k then Some v else str_at m k')"
  "str_at (m(k := None)) k' = (if k' = k then None else str_at m k')"
  "str_at (put_list m k xs) k' = (if k' = k then None else str_at m k')"
  "str_at (put_hash m k h) k' = (if k' = k then None else str_at m k')"
  "str_at (put_zset m k z) k' = (if k' = k then None else str_at m k')"
  by (simp_all add: str_at_def put_list_def put_hash_def put_zset_def)

lemma list_at_upd [simp]:
  "list_at (m(k \<mapsto> RStr v)) k' = (if k' = k then [] else list_at m k')"
  "list_at (m(k := None)) k' = (if k' = k then [] else list_at m k')"
  "list_at (put_list m k xs) k' = (if k' = k then xs else list_at m k')"
  "list_at (put_hash m k h) k' = (if k' = k then [] else list_at m k')"
  "list_at (put_zset m k z) k' = (if k' = k then [] else list_at m k')"
  by (simp_all add: list_at_def put_list_def put_hash_def put_zset_def)

lemma hash_at_upd [simp]:
  "hash_at (m(k \<mapsto> RStr v)) k' = (if k' = k then [] else hash_at m k')"
  "hash_at (m(k := None)) k' = (if k' = k then [] else hash_at m k')"
  "hash_at (put_list m k xs) k' = (if k' = k then [] else hash_at m k')"
  "hash_at (put_hash m k h) k' = (if k' = k then h else hash_at m k')"
  "hash_at (put_zset m k z) k' = (if k' = k then [] else hash_at m k')"
  by (simp_all add: hash_at_def put_list_def put_hash_def put_zset_def)

lemma zset_at_upd [simp]:
  "zset_at (m(k \<mapsto> RStr v)) k' = (if k' = k then [] else zset_at m k')"
  "zset_at (m(k := None)) k' = (if k' = k then [] else zset_at m k')"
  "zset_at (put_list m k xs) k' = (if k' = k then [] else zset_at m k')"
  "zset_at (put_hash m k h) k' = (if k' = k then [] else zset_at m k')"
  "zset_at (put_zset m k z) k' = (if k' = k then z else zset_at m k')"
  by (simp_all add: zset_at_def put_list_def put_hash_def put_zset_def)

lemma strlike_upd [simp]:
  "strlike (m(k \<mapsto> RStr v)) k' = (k' = k \<or> strlike m k')"
  "strlike (m(k := None)) k' = (k' = k \<or> strlike m k')"
  "k' \<noteq> k \<Longrightarrow> strlike (put_list m k xs) k' = strlike m k'"
  "k' \<noteq> k \<Longrightarrow> strlike (put_hash m k h) k' = strlike m k'"
  "k' \<noteq> k \<Longrightarrow> strlike (put_zset m k z) k' = strlike m k'"
  by (simp_all add: strlike_def put_list_def put_hash_def put_zset_def)

lemma listlike_upd [simp]:
  "k' \<noteq> k \<Longrightarrow> listlike (m(k \<mapsto> RStr v)) k' = listlike m k'"
  "listlike (m(k := None)) k' = (k' = k \<or> listlike m k')"
  "listlike (put_list m k xs) k' = (k' = k \<or> listlike m k')"
  "k' \<noteq> k \<Longrightarrow> listlike (put_hash m k h) k' = listlike m k'"
  "k' \<noteq> k \<Longrightarrow> listlike (put_zset m k z) k' = listlike m k'"
  by (simp_all add: listlike_def put_list_def put_hash_def put_zset_def)

lemma hashlike_upd [simp]:
  "k' \<noteq> k \<Longrightarrow> hashlike (m(k \<mapsto> RStr v)) k' = hashlike m k'"
  "hashlike (m(k := None)) k' = (k' = k \<or> hashlike m k')"
  "k' \<noteq> k \<Longrightarrow> hashlike (put_list m k xs) k' = hashlike m k'"
  "hashlike (put_hash m k h) k' = (k' = k \<or> hashlike m k')"
  "k' \<noteq> k \<Longrightarrow> hashlike (put_zset m k z) k' = hashlike m k'"
  by (simp_all add: hashlike_def put_list_def put_hash_def put_zset_def)

lemma zsetlike_upd [simp]:
  "k' \<noteq> k \<Longrightarrow> zsetlike (m(k \<mapsto> RStr v)) k' = zsetlike m k'"
  "zsetlike (m(k := None)) k' = (k' = k \<or> zsetlike m k')"
  "k' \<noteq> k \<Longrightarrow> zsetlike (put_list m k xs) k' = zsetlike m k'"
  "k' \<noteq> k \<Longrightarrow> zsetlike (put_hash m k h) k' = zsetlike m k'"
  "zsetlike (put_zset m k z) k' = (k' = k \<or> zsetlike m k')"
  by (simp_all add: zsetlike_def put_list_def put_hash_def put_zset_def)

lemma put_other [simp]:
  "k' \<noteq> k \<Longrightarrow> put_list m k xs k' = m k'"
  "k' \<noteq> k \<Longrightarrow> put_hash m k h k' = m k'"
  "k' \<noteq> k \<Longrightarrow> put_zset m k z k' = m k'"
  by (simp_all add: put_list_def put_hash_def put_zset_def)

lemma like_None [simp]:
  "m k = None \<Longrightarrow> strlike m k" "m k = None \<Longrightarrow> listlike m k"
  "m k = None \<Longrightarrow> hashlike m k" "m k = None \<Longrightarrow> zsetlike m k"
  by (simp_all add: strlike_def listlike_def hashlike_def zsetlike_def)

lemma at_empty [simp]:
  "str_at Map.empty k = None" "list_at Map.empty k = []" "hash_at Map.empty k = []"
  "zset_at Map.empty k = []"
  by (simp_all add: str_at_def list_at_def hash_at_def zset_at_def)

lemma map_of_upd_fields: "map_of (upd_fields h fs) f =
    (case map_of (rev fs) f of Some v \<Rightarrow> Some v | None \<Rightarrow> map_of h f)"
  by (induction fs arbitrary: h)
    (auto simp: upd_fields_def update_conv' map_add_def split: option.splits prod.splits)

lemma map_of_upd_fields_distinct:
  assumes "distinct (map fst fs)"
  shows "map_of (upd_fields h fs) = map_of h ++ map_of fs"
proof -
  have "map_of (rev fs) = map_of fs"
    using assms by (simp add: map_of_inject_set rev_map [symmetric])
  then show ?thesis
    by (simp add: fun_eq_iff map_of_upd_fields map_add_def)
qed

text \<open>A literal prefix of a pattern must be matched literally.\<close>

lemma glob_match_literal:
  "CHR ''*'' \<notin> set p \<Longrightarrow> CHR ''?'' \<notin> set p \<Longrightarrow>
   glob_match (p @ q) s \<longleftrightarrow> (\<exists>t. s = p @ t \<and> glob_match q t)"
proof (induction p arbitrary: s)
  case (Cons c p)
  then show ?case by (cases s) auto
qed simp

text \<open>Every literal character of a pattern occurs in each key it matches.\<close>

lemma glob_match_chars:
  "glob_match p s \<Longrightarrow> c \<in> set p \<Longrightarrow> c \<noteq> CHR ''*'' \<Longrightarrow> c \<noteq> CHR ''?'' \<Longrightarrow> c \<in> set s"
  by (induction p s rule: glob_match.induct) (auto split: if_splits)

section \<open>An executable store\<close>

type_synonym mem = "(string \<times> rvalue) list"

definition mem_put :: "mem \<Rightarrow> string \<Rightarrow> rvalue option \<Rightarrow> mem" where
  "mem_put m k v = (case v of None \<Rightarrow> AList.delete k m | Some x \<Rightarrow> AList.update k x m)"

definition mem_list :: "mem \<Rightarrow> string \<Rightarrow> string list \<Rightarrow> mem" where
  "mem_list m k xs = mem_put m k (if xs = [] then None else Some (RList xs))"

definition mem_zset :: "mem \<Rightarrow> string \<Rightarrow> (string \<times> rat) list \<Rightarrow> mem" where
  "mem_zset m k z = mem_put m k (if z = [] then None else Some (RZSet z))"

definition mem_hash :: "mem \<Rightarrow> string \<Rightarrow> (string \<times> string) list \<Rightarrow> mem" where
  "mem_hash m k h = mem_put m k (if h = [] then None else Some (RHash h))"

definition mem_incr :: "mem \<Rightarrow> string \<Rightarrow> mem" where
  "mem_incr m k =
     (case str_at (map_of m) k of
        None \<Rightarrow> mem_put m k (Some (RStr ''1''))
      | Some v \<Rightarrow>
          (case parse_int v of
             None \<Rightarrow> m | Some n \<Rightarrow> mem_put m k (Some (RStr (int_str (n + 1))))))"

definition mem_ops :: "mem redis_ops" where
  "mem_ops =
     \<lparr>rget = (\<lambda>m k. str_at (map_of m) k),
      rset = (\<lambda>m k v ex. mem_put m k (Some (RStr v))),
      rset_nx = (\<lambda>m k v ex. if map_of m k = None then (mem_put m k (Some (RStr v)), True)
                             else (m, False)),
      rdel = (\<lambda>m k. mem_put m k None),
      rincr = mem_incr,
      rexpire = (\<lambda>m k ex. m),
      rrpush = (\<lambda>m k v. mem_list m k (list_at (map_of m) k @ [v])),
      rlpop = (\<lambda>m k. case list_at (map_of m) k of
                 [] \<Rightarrow> (m, None) | x # xs \<Rightarrow> (mem_list m k xs, Some x)),
      rlrem = (\<lambda>m k v. mem_list m k (filter (\<lambda>x. x \<noteq> v) (list_at (map_of m) k))),
      rlrange = (\<lambda>m k. list_at (map_of m) k),
      rlkeep = (\<lambda>m k n. mem_list m k
                  (drop (length (list_at (map_of m) k) - n) (list_at (map_of m) k))),
      rhset = (\<lambda>m k fs. mem_hash m k (upd_fields (hash_at (map_of m) k) fs)),
      rhgetall = (\<lambda>m k. hash_at (map_of m) k),
      rzadd = (\<lambda>m k mem sc. mem_zset m k (AList.update mem sc (zset_at (map_of m) k))),
      rzremrange = (\<lambda>m k lo hi. mem_zset m k
                  (filter (\<lambda>(x, sc). \<not> (lo \<le> sc \<and> sc \<le> hi)) (zset_at (map_of m) k))),
      rzrange0 = (\<lambda>m k. zmin (zset_at (map_of m) k)),
      rzcard = (\<lambda>m k. length (zset_at (map_of m) k)),
      rkeys = (\<lambda>m pat. filter (\<lambda>k. glob_match pat k) (map fst m))\<rparr>"

lemma map_of_mem_put [simp]: "map_of (mem_put m k v) = (map_of m)(k := v)"
  by (cases v) (simp_all add: mem_put_def update_conv' delete_conv')

lemma map_of_mem_coll [simp]:
  "map_of (mem_list m k xs) = put_list (map_of m) k xs"
  "map_of (mem_zset m k z) = put_zset (map_of m) k z"
  "map_of (mem_hash m k h) = put_hash (map_of m) k h"
  by (simp_all add: mem_list_def mem_zset_def mem_hash_def put_list_def put_zset_def put_hash_def)

interpretation mem_redis: redis mem_ops map_of
proof unfold_locales
  fix s :: mem and k
  show "case list_at (map_of s) k of
      [] \<Rightarrow> rlpop mem_ops s k = (s, None)
    | x # xs \<Rightarrow> snd (rlpop mem_ops s k) = Some x
        \<and> map_of (fst (rlpop mem_ops s k)) = put_list (map_of s) k xs"
    by (simp add: mem_ops_def split: list.split)
next
  fix s :: mem and k assume "map_of s k = None"
  then show "map_of (rincr mem_ops s k) = (map_of s)(k \<mapsto> RStr ''1'')"
    by (simp add: mem_ops_def mem_incr_def str_at_def)
next
  fix s :: mem and pat
  show "set (rkeys mem_ops s pat) = {k. map_of s k \<noteq> None \<and> glob_match pat k}"
    by (auto simp: mem_ops_def map_of_eq_None_iff)
qed (simp_all add: mem_ops_def mem_incr_def)

end
