(* ===== verification/Downlink_Queue.thy ===== *)
theory Downlink_Queue
  imports Redis_Store
begin

text \<open>
  The durable downlink queue, \<open>src/downlink_queue.py\<close>, class \<open>DownlinkQueue\<close>.

  The commands live in Redis: the FIFO \<open>dl:pending\<close> of command ids, one hash \<open>dl:cmd:<id>\<close> per
  command, \<open>dl:last_hash:<eui>\<close> (the content hash of the last command sent to a device),
  \<open>dl:coalesce:<eui>\<close> (the id of the newest command of a device), the list \<open>dl:dead\<close> and the
  \<open>dl:metrics:*\<close> counters. Every operation is a function of the store, the time and the values
  the source obtains from outside (the new uuid). SHA-256, the text form of floats and the JSON
  text of a dead letter are the fields of \<open>dl_env\<close>.

  \<open>dlq\<close> is the abstract queue, with one component per key class; the refinement lemmas show that
  every operation acts on the store as the corresponding \<open>spec_\<close> operation acts on the queue, so
  that no two key classes interfere. The Prometheus counters are in the theory \<open>Metrics\<close>.
\<close>

section \<open>Commands and configuration\<close>

record DownlinkCommand =
  dc_id :: string
  dc_device_eui :: string
  dc_tenant_id :: "string option"
  dc_gateway_id :: "string option"
  dc_payload :: string
  dc_fport :: int
  dc_confirmed :: bool
  dc_content_hash :: string
  dc_created_at :: pyfloat
  dc_attempts :: int
  dc_last_error :: "string option"
  dc_last_attempt_at :: "pyfloat option"
  dc_space_id :: "string option"
  dc_trigger_source :: "string option"

record dl_env =
  sha256_hex :: "string \<Rightarrow> string"
  float_str :: "pyfloat \<Rightarrow> string"
  parse_float :: "string \<Rightarrow> pyfloat option"
  json_dead :: "DownlinkCommand \<Rightarrow> pyfloat \<Rightarrow> string"

definition PENDING_KEY :: string where "PENDING_KEY = ''dl:pending''"
definition DEAD_LETTER_KEY :: string where "DEAD_LETTER_KEY = ''dl:dead''"
definition cmd_key :: "string \<Rightarrow> string" where "cmd_key i = ''dl:cmd:'' @ i"
definition last_hash_key :: "string \<Rightarrow> string" where "last_hash_key d = ''dl:last_hash:'' @ d"
definition coalesce_key :: "string \<Rightarrow> string" where "coalesce_key d = ''dl:coalesce:'' @ d"
definition metric_key :: "string \<Rightarrow> string" where "metric_key n = ''dl:metrics:'' @ n"

definition MAX_ATTEMPTS :: int where "MAX_ATTEMPTS = 5"
definition BACKOFF_BASE_SECONDS :: int where "BACKOFF_BASE_SECONDS = 2"
definition BACKOFF_MAX_SECONDS :: int where "BACKOFF_MAX_SECONDS = 60"
definition CMD_TTL_SECONDS :: int where "CMD_TTL_SECONDS = 3600"

section \<open>Serialisation\<close>

text \<open>\<open>str(v) if v is not None else ""\<close> for each kind of field of the dataclass.\<close>

definition str_field :: "string option \<Rightarrow> string" where
  "str_field v = (case v of None \<Rightarrow> [] | Some s \<Rightarrow> s)"

definition bool_field :: "bool \<Rightarrow> string" where
  "bool_field b = (if b then ''True'' else ''False'')"

definition serialize_cmd :: "dl_env \<Rightarrow> DownlinkCommand \<Rightarrow> (string \<times> string) list" where
  "serialize_cmd E cmd =
     [(''id'', dc_id cmd),
      (''device_eui'', dc_device_eui cmd),
      (''tenant_id'', str_field (dc_tenant_id cmd)),
      (''gateway_id'', str_field (dc_gateway_id cmd)),
      (''payload'', dc_payload cmd),
      (''fport'', int_str (dc_fport cmd)),
      (''confirmed'', bool_field (dc_confirmed cmd)),
      (''content_hash'', dc_content_hash cmd),
      (''created_at'', float_str E (dc_created_at cmd)),
      (''attempts'', int_str (dc_attempts cmd)),
      (''last_error'', str_field (dc_last_error cmd)),
      (''last_attempt_at'',
         (case dc_last_attempt_at cmd of None \<Rightarrow> [] | Some t \<Rightarrow> float_str E t)),
      (''space_id'', str_field (dc_space_id cmd)),
      (''trigger_source'', str_field (dc_trigger_source cmd))]"

text \<open>\<open>d.get(k, default)\<close> and \<open>d.get(k) or None\<close>.\<close>

definition get_def :: "(string \<Rightarrow> string option) \<Rightarrow> string \<Rightarrow> string \<Rightarrow> string" where
  "get_def h k d = (case h k of None \<Rightarrow> d | Some v \<Rightarrow> v)"

definition get_or_none :: "(string \<Rightarrow> string option) \<Rightarrow> string \<Rightarrow> string option" where
  "get_or_none h k = (if truthy (h k) then h k else None)"

definition get_int :: "(string \<Rightarrow> string option) \<Rightarrow> string \<Rightarrow> int \<Rightarrow> int result" where
  "get_int h k d =
     (case h k of
        None \<Rightarrow> Inr d
      | Some v \<Rightarrow>
          (case parse_int v of
             None \<Rightarrow> Inl (ValueError ''invalid literal for int()'') | Some n \<Rightarrow> Inr n))"

definition float_of :: "dl_env \<Rightarrow> string \<Rightarrow> pyfloat result" where
  "float_of E v =
     (case parse_float E v of
        None \<Rightarrow> Inl (ValueError ''could not convert string to float'') | Some x \<Rightarrow> Inr x)"

text \<open>The \<open>DownlinkCommand(..)\<close> built by \<open>dequeue\<close>; \<open>i\<close> is the id taken from the queue.\<close>

definition deserialize_cmd ::
  "dl_env \<Rightarrow> pyfloat \<Rightarrow> string \<Rightarrow> (string \<Rightarrow> string option) \<Rightarrow> DownlinkCommand result" where
  "deserialize_cmd E now i h =
     (case get_int h ''fport'' 15 of Inl e \<Rightarrow> Inl e | Inr fport \<Rightarrow>
      (case (case h ''created_at'' of None \<Rightarrow> Inr now | Some v \<Rightarrow> float_of E v) of
         Inl e \<Rightarrow> Inl e | Inr created \<Rightarrow>
      (case get_int h ''attempts'' 0 of Inl e \<Rightarrow> Inl e | Inr attempts \<Rightarrow>
      (case (if truthy (h ''last_attempt_at'')
             then map_sum id Some (float_of E (str_field (h ''last_attempt_at''))) else Inr None) of
         Inl e \<Rightarrow> Inl e | Inr last_at \<Rightarrow>
       Inr \<lparr>dc_id = get_def h ''id'' i,
            dc_device_eui = get_def h ''device_eui'' [],
            dc_tenant_id = Some (get_def h ''tenant_id'' []),
            dc_gateway_id = get_or_none h ''gateway_id'',
            dc_payload = get_def h ''payload'' [],
            dc_fport = fport,
            dc_confirmed = (get_def h ''confirmed'' ''False'' = ''True''),
            dc_content_hash = get_def h ''content_hash'' [],
            dc_created_at = created,
            dc_attempts = attempts,
            dc_last_error = get_or_none h ''last_error'',
            dc_last_attempt_at = last_at,
            dc_space_id = get_or_none h ''space_id'',
            dc_trigger_source = get_or_none h ''trigger_source''\<rparr>))))"

section \<open>Operations\<close>

definition compute_content_hash :: "dl_env \<Rightarrow> string \<Rightarrow> string \<Rightarrow> int \<Rightarrow> string" where
  "compute_content_hash E device_eui payload fport =
     take 16 (sha256_hex E (device_eui @ '':'' @ payload @ '':'' @ int_str fport))"

definition increment_metric :: "'r redis_ops \<Rightarrow> string \<Rightarrow> 'r \<Rightarrow> 'r" where
  "increment_metric R n s = rincr R s (metric_key n)"

definition record_latency :: "'r redis_ops \<Rightarrow> int \<Rightarrow> 'r \<Rightarrow> 'r" where
  "record_latency R latency_ms s =
     (let s = rrpush R s (metric_key ''latencies'') (int_str latency_ms)
      in rlkeep R s (metric_key ''latencies'') 100)"

text \<open>Replacing the pending command of the device (\<open>if existing_cmd_id:\<close>).\<close>

definition coalesce :: "'r redis_ops \<Rightarrow> string \<Rightarrow> 'r \<Rightarrow> 'r" where
  "coalesce R device_eui s =
     (case rget R s (coalesce_key device_eui) of
        None \<Rightarrow> s
      | Some existing_cmd_id \<Rightarrow>
          if existing_cmd_id = [] then s
          else let s = rlrem R s PENDING_KEY existing_cmd_id;
                   s = rdel R s (cmd_key existing_cmd_id)
               in increment_metric R ''coalesced'' s)"

record enqueue_args =
  ea_device_eui :: string
  ea_payload :: string
  ea_fport :: int
  ea_tenant_id :: "string option"
  ea_confirmed :: bool
  ea_gateway_id :: "string option"
  ea_space_id :: "string option"
  ea_trigger_source :: "string option"

definition new_command :: "dl_env \<Rightarrow> pyfloat \<Rightarrow> string \<Rightarrow> enqueue_args \<Rightarrow> DownlinkCommand" where
  "new_command E now cmd_id a =
     \<lparr>dc_id = cmd_id, dc_device_eui = ea_device_eui a, dc_tenant_id = ea_tenant_id a,
      dc_gateway_id = ea_gateway_id a, dc_payload = ea_payload a, dc_fport = ea_fport a,
      dc_confirmed = ea_confirmed a,
      dc_content_hash = compute_content_hash E (ea_device_eui a) (ea_payload a) (ea_fport a),
      dc_created_at = now, dc_attempts = 0, dc_last_error = None, dc_last_attempt_at = None,
      dc_space_id = ea_space_id a, dc_trigger_source = ea_trigger_source a\<rparr>"

definition enqueue ::
  "'r redis_ops \<Rightarrow> dl_env \<Rightarrow> pyfloat \<Rightarrow> string \<Rightarrow> enqueue_args \<Rightarrow> 'r \<Rightarrow> 'r \<times> string option" where
  "enqueue R E now cmd_id a s =
     (let content_hash = compute_content_hash E (ea_device_eui a) (ea_payload a) (ea_fport a) in
      if rget R s (last_hash_key (ea_device_eui a)) = Some content_hash
      then (increment_metric R ''deduplicated'' s, None)
      else
        let s = coalesce R (ea_device_eui a) s;
            cmd = new_command E now cmd_id a;
            s = rhset R s (cmd_key cmd_id) (serialize_cmd E cmd);
            s = rexpire R s (cmd_key cmd_id) CMD_TTL_SECONDS;
            s = rrpush R s PENDING_KEY cmd_id;
            s = rset R s (coalesce_key (ea_device_eui a)) cmd_id 300;
            s = increment_metric R ''enqueued'' s
        in (s, Some cmd_id))"

definition dequeue ::
  "'r redis_ops \<Rightarrow> dl_env \<Rightarrow> pyfloat \<Rightarrow> 'r \<Rightarrow> 'r \<times> DownlinkCommand option result" where
  "dequeue R E now s =
     (case rlpop R s PENDING_KEY of
        (s, None) \<Rightarrow> (s, Inr None)
      | (s, Some cmd_id) \<Rightarrow>
          (let cmd_data = rhgetall R s (cmd_key cmd_id) in
           if cmd_data = [] then (s, Inr None)
           else (s, map_sum id Some (deserialize_cmd E now cmd_id (map_of cmd_data)))))"

definition mark_success ::
  "'r redis_ops \<Rightarrow> pyfloat \<Rightarrow> DownlinkCommand \<Rightarrow> 'r \<Rightarrow> 'r" where
  "mark_success R now cmd s =
     (let s = rset R s (last_hash_key (dc_device_eui cmd)) (dc_content_hash cmd) 3600;
          s = rdel R s (cmd_key (dc_id cmd));
          s = rdel R s (coalesce_key (dc_device_eui cmd));
          s = increment_metric R ''succeeded'' s;
          latency_ms = py_int ((now - dc_created_at cmd) * 1000)
      in record_latency R latency_ms s)"

definition move_to_dead_letter ::
  "'r redis_ops \<Rightarrow> dl_env \<Rightarrow> pyfloat \<Rightarrow> DownlinkCommand \<Rightarrow> 'r \<Rightarrow> 'r" where
  "move_to_dead_letter R E now cmd s =
     (let s = rrpush R s DEAD_LETTER_KEY (json_dead E cmd now);
          s = rdel R s (cmd_key (dc_id cmd))
      in rdel R s (coalesce_key (dc_device_eui cmd)))"

text \<open>The delay \<open>mark_failure\<close> computes; it is only written to the log.\<close>

definition backoff_seconds :: "int \<Rightarrow> int" where
  "backoff_seconds attempts =
     min (BACKOFF_BASE_SECONDS * 2 ^ nat (attempts - 1)) BACKOFF_MAX_SECONDS"

definition failed_cmd :: "pyfloat \<Rightarrow> string \<Rightarrow> DownlinkCommand \<Rightarrow> DownlinkCommand" where
  "failed_cmd now error cmd =
     cmd\<lparr>dc_attempts := dc_attempts cmd + 1, dc_last_error := Some error,
         dc_last_attempt_at := Some now\<rparr>"

definition retry_fields :: "dl_env \<Rightarrow> pyfloat \<Rightarrow> string \<Rightarrow> int \<Rightarrow> (string \<times> string) list" where
  "retry_fields E now error attempts =
     [(''attempts'', int_str attempts), (''last_error'', error),
      (''last_attempt_at'', float_str E now)]"

definition mark_failure ::
  "'r redis_ops \<Rightarrow> dl_env \<Rightarrow> pyfloat \<Rightarrow> DownlinkCommand \<Rightarrow> string \<Rightarrow> bool \<Rightarrow> 'r \<Rightarrow> 'r" where
  "mark_failure R E now cmd0 error requeue s =
     (let cmd = failed_cmd now error cmd0 in
      if dc_attempts cmd \<ge> MAX_ATTEMPTS \<or> \<not> requeue
      then increment_metric R ''dead_lettered'' (move_to_dead_letter R E now cmd s)
      else
        let s = rhset R s (cmd_key (dc_id cmd)) (retry_fields E now error (dc_attempts cmd));
            s = rrpush R s PENDING_KEY (dc_id cmd)
        in increment_metric R ''retried'' s)"

section \<open>Metrics\<close>

record queue_metrics =
  queue_depth :: nat
  dead_letter_depth :: nat
  total_enqueued :: int
  total_succeeded :: int
  total_retried :: int
  total_dead_lettered :: int
  total_deduplicated :: int
  total_coalesced :: int
  success_rate :: rat
  latency_p50_ms :: int
  latency_p99_ms :: int

text \<open>\<open>int(x or 0)\<close> of a Redis answer, and \<open>[int(x) for x in xs if x]\<close>.\<close>

definition counter_val :: "string option \<Rightarrow> int result" where
  "counter_val v =
     (if \<not> truthy v then Inr 0
      else case parse_int (str_field v) of
             None \<Rightarrow> Inl (ValueError ''invalid literal for int()'') | Some n \<Rightarrow> Inr n)"

fun ints_of :: "string list \<Rightarrow> int list result" where
  "ints_of [] = Inr []"
| "ints_of (x # xs) =
     (if x = [] then ints_of xs
      else case parse_int x of
             None \<Rightarrow> Inl (ValueError ''invalid literal for int()'')
           | Some n \<Rightarrow> map_sum id ((#) n) (ints_of xs))"

definition p50 :: "int list \<Rightarrow> int" where
  "p50 sl = (if sl = [] then 0 else sl ! (length sl div 2))"

definition p99 :: "int list \<Rightarrow> int" where
  "p99 sl = (if length sl > 1 then sl ! nat (py_int (of_nat (length sl) * (99 / 100)))
             else if sl = [] then 0 else sl ! 0)"

definition rate_of :: "int \<Rightarrow> int \<Rightarrow> rat" where
  "rate_of enq succ = (if enq > 0 then of_int succ / of_int enq * 100 else 0)"

definition get_metrics :: "'r redis_ops \<Rightarrow> 'r \<Rightarrow> queue_metrics result" where
  "get_metrics R s =
     (case ints_of (take 100 (rlrange R s (metric_key ''latencies''))) of Inl e \<Rightarrow> Inl e
      | Inr latencies \<Rightarrow>
      (case counter_val (rget R s (metric_key ''enqueued'')) of Inl e \<Rightarrow> Inl e | Inr enq \<Rightarrow>
      (case counter_val (rget R s (metric_key ''succeeded'')) of Inl e \<Rightarrow> Inl e | Inr succ \<Rightarrow>
      (case counter_val (rget R s (metric_key ''retried'')) of Inl e \<Rightarrow> Inl e | Inr ret \<Rightarrow>
      (case counter_val (rget R s (metric_key ''dead_lettered'')) of Inl e \<Rightarrow> Inl e | Inr dead \<Rightarrow>
      (case counter_val (rget R s (metric_key ''deduplicated'')) of Inl e \<Rightarrow> Inl e | Inr dedup \<Rightarrow>
      (case counter_val (rget R s (metric_key ''coalesced'')) of Inl e \<Rightarrow> Inl e | Inr coal \<Rightarrow>
         Inr \<lparr>queue_depth = length (rlrange R s PENDING_KEY),
              dead_letter_depth = length (rlrange R s DEAD_LETTER_KEY),
              total_enqueued = enq, total_succeeded = succ, total_retried = ret,
              total_dead_lettered = dead, total_deduplicated = dedup, total_coalesced = coal,
              success_rate = rate_of enq succ,
              latency_p50_ms = p50 (sort latencies), latency_p99_ms = p99 (sort latencies)\<rparr>)))))))"

definition clear_metrics :: "'r redis_ops \<Rightarrow> 'r \<Rightarrow> 'r" where
  "clear_metrics R s = fold (\<lambda>k s. rdel R s k) (rkeys R s ''dl:metrics:*'') s"

section \<open>The abstract queue\<close>

record dlq =
  q_pending :: "string list"
  q_cmds :: "string \<Rightarrow> string \<Rightarrow> string option"
  q_latest :: "string \<Rightarrow> string option"
  q_sent :: "string \<Rightarrow> string option"
  q_dead :: "string list"

definition dlq_of :: "keyspace \<Rightarrow> dlq" where
  "dlq_of m =
     \<lparr>q_pending = list_at m PENDING_KEY,
      q_cmds = (\<lambda>i. map_of (hash_at m (cmd_key i))),
      q_latest = (\<lambda>d. str_at m (coalesce_key d)),
      q_sent = (\<lambda>d. str_at m (last_hash_key d)),
      q_dead = list_at m DEAD_LETTER_KEY\<rparr>"

definition spec_drop :: "string option \<Rightarrow> dlq \<Rightarrow> dlq" where
  "spec_drop i q =
     (case i of None \<Rightarrow> q
      | Some i \<Rightarrow> if i = [] then q
                 else q\<lparr>q_pending := filter (\<lambda>x. x \<noteq> i) (q_pending q),
                        q_cmds := (q_cmds q)(i := (\<lambda>_. None))\<rparr>)"

definition spec_enqueue :: "dl_env \<Rightarrow> DownlinkCommand \<Rightarrow> dlq \<Rightarrow> dlq" where
  "spec_enqueue E cmd q0 =
     (if q_sent q0 (dc_device_eui cmd) = Some (dc_content_hash cmd) then q0
      else let q = spec_drop (q_latest q0 (dc_device_eui cmd)) q0 in
           q\<lparr>q_pending := q_pending q @ [dc_id cmd],
             q_cmds := (q_cmds q)(dc_id cmd :=
                          q_cmds q (dc_id cmd) ++ map_of (serialize_cmd E cmd)),
             q_latest := (q_latest q)(dc_device_eui cmd \<mapsto> dc_id cmd)\<rparr>)"

definition spec_success :: "DownlinkCommand \<Rightarrow> dlq \<Rightarrow> dlq" where
  "spec_success cmd q =
     q\<lparr>q_sent := (q_sent q)(dc_device_eui cmd \<mapsto> dc_content_hash cmd),
       q_cmds := (q_cmds q)(dc_id cmd := (\<lambda>_. None)),
       q_latest := (q_latest q)(dc_device_eui cmd := None)\<rparr>"

definition spec_failure ::
  "dl_env \<Rightarrow> pyfloat \<Rightarrow> DownlinkCommand \<Rightarrow> string \<Rightarrow> bool \<Rightarrow> dlq \<Rightarrow> dlq" where
  "spec_failure E now cmd0 error requeue q =
     (let cmd = failed_cmd now error cmd0 in
      if dc_attempts cmd \<ge> MAX_ATTEMPTS \<or> \<not> requeue
      then q\<lparr>q_dead := q_dead q @ [json_dead E cmd now],
             q_cmds := (q_cmds q)(dc_id cmd := (\<lambda>_. None)),
             q_latest := (q_latest q)(dc_device_eui cmd := None)\<rparr>
      else q\<lparr>q_pending := q_pending q @ [dc_id cmd],
             q_cmds := (q_cmds q)(dc_id cmd := q_cmds q (dc_id cmd)
                          ++ map_of (retry_fields E now error (dc_attempts cmd)))\<rparr>)"

text \<open>The types of the keys: what \<open>dl:*\<close> holds when only this class writes there.\<close>

definition counter_like :: "keyspace \<Rightarrow> string \<Rightarrow> bool" where
  "counter_like m k = (m k = None \<or> (\<exists>n. m k = Some (RStr (int_str n))))"

definition counter_names :: "string list" where
  "counter_names = [''enqueued'', ''succeeded'', ''retried'', ''dead_lettered'',
                    ''deduplicated'', ''coalesced'']"

definition dl_typed :: "keyspace \<Rightarrow> bool" where
  "dl_typed m \<longleftrightarrow>
     listlike m PENDING_KEY \<and> listlike m DEAD_LETTER_KEY \<and>
     (\<forall>i. hashlike m (cmd_key i)) \<and> (\<forall>d. strlike m (coalesce_key d)) \<and>
     (\<forall>d. strlike m (last_hash_key d)) \<and>
     (\<forall>n\<in>set counter_names. counter_like m (metric_key n)) \<and>
     listlike m (metric_key ''latencies'') \<and>
     (\<forall>x\<in>set (list_at m (metric_key ''latencies'')). \<exists>n. x = int_str n)"

section \<open>The key classes do not overlap\<close>

lemmas key_defs = PENDING_KEY_def DEAD_LETTER_KEY_def cmd_key_def last_hash_key_def
  coalesce_key_def metric_key_def

lemma keys_distinct [simp]:
  "PENDING_KEY \<noteq> DEAD_LETTER_KEY" "DEAD_LETTER_KEY \<noteq> PENDING_KEY"
  "PENDING_KEY \<noteq> cmd_key i" "cmd_key i \<noteq> PENDING_KEY"
  "PENDING_KEY \<noteq> coalesce_key d" "coalesce_key d \<noteq> PENDING_KEY"
  "PENDING_KEY \<noteq> last_hash_key d" "last_hash_key d \<noteq> PENDING_KEY"
  "PENDING_KEY \<noteq> metric_key n" "metric_key n \<noteq> PENDING_KEY"
  "DEAD_LETTER_KEY \<noteq> cmd_key i" "cmd_key i \<noteq> DEAD_LETTER_KEY"
  "DEAD_LETTER_KEY \<noteq> coalesce_key d" "coalesce_key d \<noteq> DEAD_LETTER_KEY"
  "DEAD_LETTER_KEY \<noteq> last_hash_key d" "last_hash_key d \<noteq> DEAD_LETTER_KEY"
  "DEAD_LETTER_KEY \<noteq> metric_key n" "metric_key n \<noteq> DEAD_LETTER_KEY"
  "cmd_key i \<noteq> coalesce_key d" "coalesce_key d \<noteq> cmd_key i"
  "cmd_key i \<noteq> last_hash_key d" "last_hash_key d \<noteq> cmd_key i"
  "cmd_key i \<noteq> metric_key n" "metric_key n \<noteq> cmd_key i"
  "coalesce_key d \<noteq> last_hash_key d'" "last_hash_key d' \<noteq> coalesce_key d"
  "coalesce_key d \<noteq> metric_key n" "metric_key n \<noteq> coalesce_key d"
  "last_hash_key d \<noteq> metric_key n" "metric_key n \<noteq> last_hash_key d"
  by (simp_all add: key_defs)

lemma keys_inj [simp]:
  "cmd_key i = cmd_key j \<longleftrightarrow> i = j" "coalesce_key d = coalesce_key e \<longleftrightarrow> d = e"
  "last_hash_key d = last_hash_key e \<longleftrightarrow> d = e" "metric_key n = metric_key n' \<longleftrightarrow> n = n'"
  by (simp_all add: key_defs)

lemma latencies_no_counter [simp]: "''latencies'' \<notin> set counter_names"
  by (simp add: counter_names_def)

lemma counter_like_upd [simp]:
  "k' \<noteq> k \<Longrightarrow> counter_like (m(k := v)) k' = counter_like m k'"
  "k' \<noteq> k \<Longrightarrow> counter_like (put_list m k xs) k' = counter_like m k'"
  "k' \<noteq> k \<Longrightarrow> counter_like (put_hash m k h) k' = counter_like m k'"
  "counter_like (m(k \<mapsto> RStr (int_str n))) k"
  by (simp_all add: counter_like_def) blast

lemma metric_neq: "n \<in> set counter_names \<Longrightarrow> metric_key n \<noteq> metric_key ''latencies''"
  by auto

text \<open>Typing is kept by the writes the queue makes.\<close>

lemma dl_typed_upd [simp]:
  assumes "dl_typed m"
  shows "dl_typed (put_list m PENDING_KEY xs)" "dl_typed (put_list m DEAD_LETTER_KEY xs)"
    "dl_typed (put_hash m (cmd_key i) h)" "dl_typed (m(cmd_key i := None))"
    "dl_typed (m(coalesce_key d := None))" "dl_typed (m(coalesce_key d \<mapsto> RStr v))"
    "dl_typed (m(last_hash_key d \<mapsto> RStr v))"
  using assms by (simp_all add: dl_typed_def)

lemma dl_typed_counter:
  "dl_typed m \<Longrightarrow> n \<in> set counter_names \<Longrightarrow> dl_typed (m(metric_key n \<mapsto> RStr (int_str v)))"
  unfolding dl_typed_def by (auto simp: counter_like_def)

lemma dl_typed_latencies:
  "dl_typed m \<Longrightarrow> (\<And>x. x \<in> set xs \<Longrightarrow> \<exists>n. x = int_str n) \<Longrightarrow>
   dl_typed (put_list m (metric_key ''latencies'') xs)"
  unfolding dl_typed_def by (simp add: metric_neq del: keys_inj)

lemma dlq_of_upd [simp]:
  "dlq_of (put_list m PENDING_KEY xs) = (dlq_of m)\<lparr>q_pending := xs\<rparr>"
  "dlq_of (put_list m DEAD_LETTER_KEY xs) = (dlq_of m)\<lparr>q_dead := xs\<rparr>"
  "dlq_of (put_hash m (cmd_key i) h) = (dlq_of m)\<lparr>q_cmds := (q_cmds (dlq_of m))(i := map_of h)\<rparr>"
  "dlq_of (m(cmd_key i := None)) = (dlq_of m)\<lparr>q_cmds := (q_cmds (dlq_of m))(i := (\<lambda>_. None))\<rparr>"
  "dlq_of (m(coalesce_key d := None)) = (dlq_of m)\<lparr>q_latest := (q_latest (dlq_of m))(d := None)\<rparr>"
  "dlq_of (m(coalesce_key d \<mapsto> RStr v)) = (dlq_of m)\<lparr>q_latest := (q_latest (dlq_of m))(d \<mapsto> v)\<rparr>"
  "dlq_of (m(last_hash_key d \<mapsto> RStr v)) = (dlq_of m)\<lparr>q_sent := (q_sent (dlq_of m))(d \<mapsto> v)\<rparr>"
  "dlq_of (m(metric_key n \<mapsto> RStr v)) = dlq_of m"
  "dlq_of (put_list m (metric_key n) xs) = dlq_of m"
  by (simp_all add: dlq_of_def fun_eq_iff)

lemma q_of_keys [simp]:
  "list_at m PENDING_KEY = q_pending (dlq_of m)"
  "list_at m DEAD_LETTER_KEY = q_dead (dlq_of m)"
  "map_of (hash_at m (cmd_key i)) = q_cmds (dlq_of m) i"
  "str_at m (coalesce_key d) = q_latest (dlq_of m) d"
  "str_at m (last_hash_key d) = q_sent (dlq_of m) d"
  by (simp_all add: dlq_of_def)

lemma dl_typed_counterD: "dl_typed m \<Longrightarrow> n \<in> set counter_names \<Longrightarrow> counter_like m (metric_key n)"
  by (simp add: dl_typed_def)

lemma dl_typed_latenciesD:
  "dl_typed m \<Longrightarrow> x \<in> set (list_at m (metric_key ''latencies'')) \<Longrightarrow> \<exists>n. x = int_str n"
  by (simp add: dl_typed_def)

lemma dl_typedD [simp]:
  assumes "dl_typed m"
  shows "listlike m PENDING_KEY" "listlike m DEAD_LETTER_KEY" "hashlike m (cmd_key i)"
    "strlike m (coalesce_key d)" "strlike m (last_hash_key d)"
    "listlike m (metric_key ''latencies'')"
  using assms by (simp_all add: dl_typed_def)

lemma fields_distinct [simp]:
  "distinct (map fst (serialize_cmd E cmd))" "distinct (map fst (retry_fields E now err n))"
  by (simp_all add: serialize_cmd_def retry_fields_def)

lemma new_command_proj [simp]:
  "dc_id (new_command E now i a) = i" "dc_device_eui (new_command E now i a) = ea_device_eui a"
  "dc_content_hash (new_command E now i a)
     = compute_content_hash E (ea_device_eui a) (ea_payload a) (ea_fport a)"
  "dc_payload (new_command E now i a) = ea_payload a" "dc_fport (new_command E now i a) = ea_fport a"
  "dc_attempts (new_command E now i a) = 0"
  by (simp_all add: new_command_def)

section \<open>Refinement\<close>

context redis
begin

lemma incr_metric:
  assumes "dl_typed (contents s)" "n \<in> set counter_names"
  shows "\<exists>v. contents (increment_metric R n s) = (contents s)(metric_key n \<mapsto> RStr (int_str v))"
proof -
  have one: "''1'' = int_str 1" by code_simp
  from dl_typed_counterD [OF assms] show ?thesis
    using incr_new [of s "metric_key n"] incr_old [of s "metric_key n"]
    unfolding increment_metric_def counter_like_def one
    by (auto simp: str_at_def)
qed

lemma incr_typed [simp]:
  assumes "dl_typed (contents s)" "n \<in> set counter_names"
  shows "dl_typed (contents (increment_metric R n s))"
    "dlq_of (contents (increment_metric R n s)) = dlq_of (contents s)"
  using incr_metric [OF assms] assms by (auto simp: dl_typed_counter)

lemma latency_typed [simp]:
  assumes "dl_typed (contents s)"
  shows "dl_typed (contents (record_latency R l s))"
    "dlq_of (contents (record_latency R l s)) = dlq_of (contents s)"
proof -
  let ?k = "metric_key ''latencies''"
  let ?xs = "list_at (contents s) ?k @ [int_str l]"
  have c: "contents (record_latency R l s)
      = put_list (put_list (contents s) ?k ?xs) ?k (drop (length ?xs - 100) ?xs)"
    using assms by (simp add: record_latency_def rpush lkeep)
  have "\<exists>n. x = int_str n" if "x \<in> set ?xs" for x
    using that dl_typed_latenciesD [OF assms] by auto
  then show "dl_typed (contents (record_latency R l s))"
    unfolding c using assms by (intro dl_typed_latencies) (auto dest: in_set_dropD)
  show "dlq_of (contents (record_latency R l s)) = dlq_of (contents s)"
    unfolding c by simp
qed

lemma counter_in [simp]:
  "''enqueued'' \<in> set counter_names" "''succeeded'' \<in> set counter_names"
  "''retried'' \<in> set counter_names" "''dead_lettered'' \<in> set counter_names"
  "''deduplicated'' \<in> set counter_names" "''coalesced'' \<in> set counter_names"
  by (simp_all add: counter_names_def)

lemma coalesce_step:
  assumes "dl_typed (contents s)"
  shows "dl_typed (contents (coalesce R d s))"
    and "dlq_of (contents (coalesce R d s)) = spec_drop (q_latest (dlq_of (contents s)) d) (dlq_of (contents s))"
  using assms by (auto simp: coalesce_def get lrem del spec_drop_def Let_def split: option.split)

lemma hset_cmd [simp]:
  assumes "dl_typed (contents s)" "distinct (map fst fs)"
  shows "dl_typed (contents (rhset R s (cmd_key i) fs))"
    and "dlq_of (contents (rhset R s (cmd_key i) fs)) = (dlq_of (contents s))
       \<lparr>q_cmds := (q_cmds (dlq_of (contents s)))(i := q_cmds (dlq_of (contents s)) i ++ map_of fs)\<rparr>"
  using assms
  by (simp_all add: hset map_of_upd_fields_distinct)

lemma enqueue_step:
  assumes "dl_typed (contents s)"
  shows "dl_typed (contents (fst (enqueue R E now i a s)))"
    and "dlq_of (contents (fst (enqueue R E now i a s)))
           = spec_enqueue E (new_command E now i a) (dlq_of (contents s))"
  using assms
  by (simp_all add: enqueue_def spec_enqueue_def get Let_def coalesce_step rpush expire set)

lemma mark_success_step:
  assumes "dl_typed (contents s)"
  shows "dl_typed (contents (mark_success R now cmd s))"
    and "dlq_of (contents (mark_success R now cmd s)) = spec_success cmd (dlq_of (contents s))"
  using assms by (simp_all add: mark_success_def spec_success_def Let_def set del)

lemma mark_failure_step:
  assumes "dl_typed (contents s)"
  shows "dl_typed (contents (mark_failure R E now cmd err rq s))"
    and "dlq_of (contents (mark_failure R E now cmd err rq s))
           = spec_failure E now cmd err rq (dlq_of (contents s))"
  using assms
  by (simp_all add: mark_failure_def spec_failure_def move_to_dead_letter_def Let_def rpush del
      failed_cmd_def)

lemma dequeue_step:
  assumes "dl_typed (contents s)"
  shows "dl_typed (contents (fst (dequeue R E now s)))"
    and "dlq_of (contents (fst (dequeue R E now s)))
           = (dlq_of (contents s))\<lparr>q_pending := tl (q_pending (dlq_of (contents s)))\<rparr>"
    and "snd (dequeue R E now s)
           = (case q_pending (dlq_of (contents s)) of [] \<Rightarrow> Inr None
              | i # _ \<Rightarrow>
                  (let h = q_cmds (dlq_of (contents s)) i in
                   if h = Map.empty then Inr None
                   else map_sum id Some (deserialize_cmd E now i h)))"
proof -
  let ?q = "dlq_of (contents s)"
  have lp: "case q_pending ?q of [] \<Rightarrow> rlpop R s PENDING_KEY = (s, None)
      | x # xs \<Rightarrow> snd (rlpop R s PENDING_KEY) = Some x
         \<and> contents (fst (rlpop R s PENDING_KEY)) = put_list (contents s) PENDING_KEY xs"
    using lpop [of s PENDING_KEY] assms by simp
  show "dl_typed (contents (fst (dequeue R E now s)))"
    "dlq_of (contents (fst (dequeue R E now s))) = ?q\<lparr>q_pending := tl (q_pending ?q)\<rparr>"
    "snd (dequeue R E now s)
       = (case q_pending ?q of [] \<Rightarrow> Inr None
          | i # _ \<Rightarrow>
              (let h = q_cmds ?q i in
               if h = Map.empty then Inr None
               else map_sum id Some (deserialize_cmd E now i h)))"
    using lp assms
    by (auto simp: dequeue_def hgetall Let_def simp flip: map_of_eq_empty_iff
        split: list.splits prod.splits option.splits)
qed

end

section \<open>Serialisation is lossless\<close>

text \<open>
  Storage cannot tell an empty optional field from \<open>None\<close>, and a missing tenant comes back as
  the empty string; everything else survives.
\<close>

definition nonempty :: "string option \<Rightarrow> string option" where
  "nonempty v = (if truthy v then v else None)"

definition as_stored :: "DownlinkCommand \<Rightarrow> DownlinkCommand" where
  "as_stored c =
     c\<lparr>dc_tenant_id := Some (str_field (dc_tenant_id c)),
       dc_gateway_id := nonempty (dc_gateway_id c), dc_last_error := nonempty (dc_last_error c),
       dc_space_id := nonempty (dc_space_id c),
       dc_trigger_source := nonempty (dc_trigger_source c)\<rparr>"

lemma serialized_fields [simp]:
  "map_of (serialize_cmd E c) ''id'' = Some (dc_id c)"
  "map_of (serialize_cmd E c) ''device_eui'' = Some (dc_device_eui c)"
  "map_of (serialize_cmd E c) ''tenant_id'' = Some (str_field (dc_tenant_id c))"
  "map_of (serialize_cmd E c) ''gateway_id'' = Some (str_field (dc_gateway_id c))"
  "map_of (serialize_cmd E c) ''payload'' = Some (dc_payload c)"
  "map_of (serialize_cmd E c) ''fport'' = Some (int_str (dc_fport c))"
  "map_of (serialize_cmd E c) ''confirmed'' = Some (bool_field (dc_confirmed c))"
  "map_of (serialize_cmd E c) ''content_hash'' = Some (dc_content_hash c)"
  "map_of (serialize_cmd E c) ''created_at'' = Some (float_str E (dc_created_at c))"
  "map_of (serialize_cmd E c) ''attempts'' = Some (int_str (dc_attempts c))"
  "map_of (serialize_cmd E c) ''last_error'' = Some (str_field (dc_last_error c))"
  "map_of (serialize_cmd E c) ''last_attempt_at''
     = Some (case dc_last_attempt_at c of None \<Rightarrow> [] | Some t \<Rightarrow> float_str E t)"
  "map_of (serialize_cmd E c) ''space_id'' = Some (str_field (dc_space_id c))"
  "map_of (serialize_cmd E c) ''trigger_source'' = Some (str_field (dc_trigger_source c))"
  by (simp_all add: serialize_cmd_def)

lemma str_field_simps [simp]:
  "str_field None = []" "str_field (Some s) = s" "str_field (nonempty v) = str_field v"
  by (cases v; simp add: str_field_def nonempty_def)+

lemma get_or_none_str_field: "h k = Some (str_field v) \<Longrightarrow> get_or_none h k = nonempty v"
  by (cases v) (auto simp: get_or_none_def nonempty_def)

lemma deserialize_serialize:
  assumes "float_text (float_str E) (parse_float E)"
  shows "deserialize_cmd E now i (map_of (serialize_cmd E c)) = Inr (as_stored c)"
proof -
  note fl = float_text.parse_str [OF assms(1)] float_text.str_nonempty [OF assms(1)]
  have last: "(if truthy (map_of (serialize_cmd E c) ''last_attempt_at'')
       then map_sum id Some (float_of E (str_field (map_of (serialize_cmd E c) ''last_attempt_at'')))
       else Inr None) = Inr (dc_last_attempt_at c)"
    by (cases "dc_last_attempt_at c") (simp_all add: fl float_of_def)
  have bool: "bool_field b = ''True'' \<longleftrightarrow> b" for b
    by (simp add: bool_field_def)
  show ?thesis
    unfolding deserialize_cmd_def last
    by (simp add: get_int_def get_def_def float_of_def fl bool as_stored_def
        get_or_none_str_field)
qed

text \<open>The fields \<open>mark_failure\<close> rewrites are exactly those it changes in the command.\<close>

lemma serialize_failed:
  "map_of (serialize_cmd E (as_stored c)) ++ map_of (retry_fields E now err (dc_attempts c + 1))
     = map_of (serialize_cmd E (failed_cmd now err (as_stored c)))"
  by (rule ext) (simp add: serialize_cmd_def retry_fields_def failed_cmd_def as_stored_def map_add_def)

lemma serialize_as_stored: "serialize_cmd E (as_stored c) = serialize_cmd E c"
  by (simp add: serialize_cmd_def as_stored_def)

lemma as_stored_proj [simp]:
  "dc_id (as_stored c) = dc_id c" "dc_device_eui (as_stored c) = dc_device_eui c"
  "dc_attempts (as_stored c) = dc_attempts c" "dc_payload (as_stored c) = dc_payload c"
  "dc_fport (as_stored c) = dc_fport c"
  by (simp_all add: as_stored_def)

lemma failed_cmd_proj [simp]:
  "dc_id (failed_cmd t e c) = dc_id c" "dc_device_eui (failed_cmd t e c) = dc_device_eui c"
  "dc_attempts (failed_cmd t e c) = dc_attempts c + 1"
  "dc_payload (failed_cmd t e c) = dc_payload c" "dc_fport (failed_cmd t e c) = dc_fport c"
  by (simp_all add: failed_cmd_def)

lemma serialize_nonempty [simp]:
  "map_of (serialize_cmd E c) \<noteq> Map.empty" "serialize_cmd E c \<noteq> []"
  by (simp_all add: serialize_cmd_def)

lemma deserialize_proj:
  "deserialize_cmd E now i h = Inr c \<Longrightarrow>
   dc_id c = get_def h ''id'' i \<and> dc_device_eui c = get_def h ''device_eui'' []"
  by (auto simp: deserialize_cmd_def split: sum.splits)

text \<open>One worker cycle whose sending fails with the message \<open>err\<close>.\<close>

definition fail_cycle :: "'r redis_ops \<Rightarrow> dl_env \<Rightarrow> pyfloat \<times> string \<Rightarrow> 'r \<Rightarrow> 'r" where
  "fail_cycle R E te s =
     (case dequeue R E (fst te) s of
        (s, Inr (Some cmd)) \<Rightarrow> mark_failure R E (fst te) cmd (snd te) True s
      | (s, _) \<Rightarrow> s)"

definition holds_only :: "dl_env \<Rightarrow> DownlinkCommand \<Rightarrow> dlq \<Rightarrow> bool" where
  "holds_only E c q \<longleftrightarrow> q_pending q = [dc_id c] \<and> q_cmds q (dc_id c) = map_of (serialize_cmd E c)"

context redis
begin

lemma dequeue_held:
  assumes "float_text (float_str E) (parse_float E)" "dl_typed (contents s)"
    and "holds_only E c (dlq_of (contents s))"
  shows "snd (dequeue R E now s) = Inr (Some (as_stored c))"
  using assms by (simp add: dequeue_step holds_only_def deserialize_serialize Let_def)

lemma fail_cycle_step:
  fixes te :: "pyfloat \<times> string"
  assumes "float_text (float_str E) (parse_float E)" "dl_typed (contents s)"
    and "holds_only E c (dlq_of (contents s))"
  defines "s' \<equiv> fail_cycle R E te s" and "c' \<equiv> failed_cmd (fst te) (snd te) (as_stored c)"
  shows "dl_typed (contents s')"
    and "dc_attempts c + 1 < 5 \<Longrightarrow> holds_only E c' (dlq_of (contents s'))
           \<and> q_dead (dlq_of (contents s')) = q_dead (dlq_of (contents s))"
    and "dc_attempts c + 1 \<ge> 5 \<Longrightarrow> q_pending (dlq_of (contents s')) = []
           \<and> q_dead (dlq_of (contents s')) = q_dead (dlq_of (contents s)) @ [json_dead E c' (fst te)]
           \<and> q_cmds (dlq_of (contents s')) (dc_id c) = Map.empty"
proof -
  obtain s1 where s1: "dequeue R E (fst te) s = (s1, Inr (Some (as_stored c)))"
    using dequeue_held [OF assms(1-3)] by (metis prod.collapse)
  have d: "dl_typed (contents s1)"
    "dlq_of (contents s1) = (dlq_of (contents s))\<lparr>q_pending := []\<rparr>"
    using dequeue_step(1,2) [OF assms(2), of E "fst te"] assms(3) s1
    by (simp_all add: holds_only_def)
  have s': "s' = mark_failure R E (fst te) (as_stored c) (snd te) True s1"
    by (simp add: s'_def fail_cycle_def s1)
  show "dl_typed (contents s')" unfolding s' by (rule mark_failure_step) (rule d)
  note q = mark_failure_step(2) [OF d(1), of E "fst te" "as_stored c" "snd te" True]
  show "holds_only E c' (dlq_of (contents s'))
           \<and> q_dead (dlq_of (contents s')) = q_dead (dlq_of (contents s))"
    if "dc_attempts c + 1 < 5"
    using that assms(3) serialize_failed [of E c "fst te" "snd te"]
    by (simp add: s' q d(2) spec_failure_def c'_def holds_only_def MAX_ATTEMPTS_def Let_def
        serialize_as_stored)
  show "q_pending (dlq_of (contents s')) = []
           \<and> q_dead (dlq_of (contents s')) = q_dead (dlq_of (contents s)) @ [json_dead E c' (fst te)]
           \<and> q_cmds (dlq_of (contents s')) (dc_id c) = Map.empty"
    if "dc_attempts c + 1 \<ge> 5"
    using that by (simp add: s' q d(2) spec_failure_def c'_def MAX_ATTEMPTS_def Let_def)
qed

lemma fail_cycles:
  assumes "float_text (float_str E) (parse_float E)"
  shows "dl_typed (contents s) \<Longrightarrow> holds_only E c (dlq_of (contents s)) \<Longrightarrow>
    dc_attempts c + int (length tes) = 5 \<Longrightarrow> tes \<noteq> [] \<Longrightarrow>
    q_pending (dlq_of (contents (fold (fail_cycle R E) tes s))) = [] \<and>
    (\<exists>c'. q_dead (dlq_of (contents (fold (fail_cycle R E) tes s)))
            = q_dead (dlq_of (contents s)) @ [json_dead E c' (fst (last tes))]
        \<and> dc_id c' = dc_id c \<and> dc_device_eui c' = dc_device_eui c
        \<and> dc_payload c' = dc_payload c \<and> dc_fport c' = dc_fport c \<and> dc_attempts c' = 5)"
proof (induction tes arbitrary: s c)
  case (Cons te tes)
  note step = fail_cycle_step [OF assms Cons.prems(1,2), of te]
  show ?case
  proof (cases "tes = []")
    case True
    with Cons.prems step(3) show ?thesis
      by (auto intro!: exI [of _ "failed_cmd (fst te) (snd te) (as_stored c)"])
  next
    case False
    then have lt: "dc_attempts c + 1 < 5"
      using Cons.prems(3) by (cases tes) auto
    from Cons.IH [OF step(1) conjunct1 [OF step(2) [OF lt]]] Cons.prems False step(2) [OF lt]
    show ?thesis by auto
  qed
qed simp

end

section \<open>Coalescing: at most one pending command per device\<close>

definition fresh_id :: "dlq \<Rightarrow> string \<Rightarrow> bool" where
  "fresh_id q i \<longleftrightarrow> i \<noteq> [] \<and> i \<notin> set (q_pending q) \<and> q_cmds q i = Map.empty \<and> i \<notin> ran (q_latest q)"

definition one_per_device :: "dlq \<Rightarrow> bool" where
  "one_per_device q \<longleftrightarrow>
     distinct (q_pending q) \<and> [] \<notin> set (q_pending q) \<and>
     (\<forall>i\<in>set (q_pending q). q_cmds q i ''id'' = Some i \<and>
        (\<exists>d. q_cmds q i ''device_eui'' = Some d \<and> q_latest q d = Some i)) \<and>
     (\<forall>d i d'. q_latest q d = Some i \<longrightarrow> q_cmds q i ''device_eui'' = Some d' \<longrightarrow> d' = d)"

lemma one_per_device_drop:
  assumes "one_per_device q" "q_latest q d = Some i"
  shows "one_per_device (spec_drop (Some i) q)"
    and "\<And>j d'. j \<in> set (q_pending (spec_drop (Some i) q)) \<Longrightarrow>
      q_cmds (spec_drop (Some i) q) j ''device_eui'' = Some d' \<Longrightarrow> d' \<noteq> d"
  using assms unfolding one_per_device_def spec_drop_def by (auto split: if_splits)

lemma one_per_device_enqueue:
  assumes "one_per_device q" "fresh_id q (dc_id cmd)"
  shows "one_per_device (spec_enqueue E cmd q)"
proof (cases "q_sent q (dc_device_eui cmd) = Some (dc_content_hash cmd)")
  case False
  define q' where "q' = spec_drop (q_latest q (dc_device_eui cmd)) q"
  have inv: "one_per_device q'"
    using assms(1) one_per_device_drop(1) [OF assms(1)]
    by (cases "q_latest q (dc_device_eui cmd)") (auto simp: q'_def spec_drop_def)
  have other: "d' \<noteq> dc_device_eui cmd"
    if "j \<in> set (q_pending q')" "q_cmds q' j ''device_eui'' = Some d'" for j d'
    using that one_per_device_drop(2) [OF assms(1)] assms(1)
    by (cases "q_latest q (dc_device_eui cmd)")
      (fastforce simp: q'_def spec_drop_def one_per_device_def)+
  have fresh: "fresh_id q' (dc_id cmd)"
    using assms(2) by (auto simp: q'_def spec_drop_def fresh_id_def split: option.splits)
  have "spec_enqueue E cmd q = q'\<lparr>q_pending := q_pending q' @ [dc_id cmd],
      q_cmds := (q_cmds q')(dc_id cmd := map_of (serialize_cmd E cmd)),
      q_latest := (q_latest q')(dc_device_eui cmd \<mapsto> dc_id cmd)\<rparr>"
    using False fresh by (simp add: spec_enqueue_def Let_def q'_def [symmetric] fresh_id_def)
  then show ?thesis
    using inv fresh other unfolding one_per_device_def fresh_id_def
    by (auto simp: ran_def) metis
qed (simp add: spec_enqueue_def assms)

lemma one_per_device_pop:
  assumes "one_per_device q"
  shows "one_per_device (q\<lparr>q_pending := tl (q_pending q)\<rparr>)"
  using assms unfolding one_per_device_def by (cases "q_pending q") auto

text \<open>The two ways a worker cycle ends, for the command at the head of the queue.\<close>

lemma one_per_device_done:
  assumes "one_per_device q" "q_pending q = dc_id cmd # ids"
    and "q_cmds q (dc_id cmd) ''device_eui'' = Some (dc_device_eui cmd)"
    and "q_pending q' = ids" "q_cmds q' = (q_cmds q)(dc_id cmd := (\<lambda>_. None))"
    and "q_latest q' = (q_latest q)(dc_device_eui cmd := None)"
  shows "one_per_device q'"
proof -
  have "d \<noteq> dc_device_eui cmd" if "q_latest q d = Some i" "i \<noteq> dc_id cmd" for d i
    using assms that unfolding one_per_device_def by auto
  then show ?thesis
    using assms unfolding one_per_device_def by (auto; metis)
qed

lemma one_per_device_retry:
  assumes "one_per_device q" "q_pending q = i # ids"
  shows "one_per_device (q\<lparr>q_pending := ids @ [i],
           q_cmds := (q_cmds q)(i := q_cmds q i ++ map_of (retry_fields E now err n))\<rparr>)"
proof -
  have "map_of (retry_fields E now err n) ''id'' = None"
    "map_of (retry_fields E now err n) ''device_eui'' = None"
    by (simp_all add: retry_fields_def)
  then show ?thesis
    using assms unfolding one_per_device_def by (auto simp: map_add_def)
qed

text \<open>
  The queue with one worker: producers enqueue between worker cycles, and a cycle (dequeue, then
  \<open>mark_success\<close> or \<open>mark_failure\<close>) is not interrupted. Ids are fresh uuids.
\<close>

inductive dl_reach ::
  "'r redis_ops \<Rightarrow> ('r \<Rightarrow> keyspace) \<Rightarrow> dl_env \<Rightarrow> 'r \<Rightarrow> 'r \<Rightarrow> bool"
  for R :: "'r redis_ops" and c :: "'r \<Rightarrow> keyspace" and E :: dl_env and s0 :: 'r where
  init: "dl_reach R c E s0 s0"
| enq: "dl_reach R c E s0 s \<Longrightarrow> fresh_id (dlq_of (c s)) i \<Longrightarrow>
        dl_reach R c E s0 (fst (enqueue R E now i a s))"
| idle: "dl_reach R c E s0 s \<Longrightarrow> dequeue R E now s = (s', r) \<Longrightarrow> (\<forall>cmd. r \<noteq> Inr (Some cmd)) \<Longrightarrow>
        dl_reach R c E s0 s'"
| sent: "dl_reach R c E s0 s \<Longrightarrow> dequeue R E now s = (s', Inr (Some cmd)) \<Longrightarrow>
        dl_reach R c E s0 (mark_success R now' cmd s')"
| failed: "dl_reach R c E s0 s \<Longrightarrow> dequeue R E now s = (s', Inr (Some cmd)) \<Longrightarrow>
        dl_reach R c E s0 (mark_failure R E now' cmd err rq s')"

context redis
begin

lemma dequeue_head:
  assumes "dl_typed (contents s)" "one_per_device (dlq_of (contents s))"
    and "dequeue R E now s = (s', Inr (Some cmd))"
  obtains ids where "q_pending (dlq_of (contents s)) = dc_id cmd # ids"
    and "q_cmds (dlq_of (contents s)) (dc_id cmd) ''device_eui'' = Some (dc_device_eui cmd)"
    and "dl_typed (contents s')"
    and "dlq_of (contents s') = (dlq_of (contents s))\<lparr>q_pending := ids\<rparr>"
proof -
  note st = dequeue_step [OF assms(1), of E now, unfolded assms(3) fst_conv snd_conv]
  obtain i ids where p: "q_pending (dlq_of (contents s)) = i # ids"
    using st(3) by (auto split: list.splits)
  have de: "deserialize_cmd E now i (q_cmds (dlq_of (contents s)) i) = Inr cmd"
    using st(3) p by (auto simp: Let_def map_sum_def split: if_splits sum.splits)
  from assms(2) p have i: "q_cmds (dlq_of (contents s)) i ''id'' = Some i"
    "\<exists>d. q_cmds (dlq_of (contents s)) i ''device_eui'' = Some d"
    by (auto simp: one_per_device_def)
  with deserialize_proj [OF de] have "dc_id cmd = i"
    "q_cmds (dlq_of (contents s)) i ''device_eui'' = Some (dc_device_eui cmd)"
    by (auto simp: get_def_def)
  with p st(1,2) show thesis by (intro that) auto
qed

lemma reach_one_per_device:
  assumes "dl_reach R contents E s0 s"
    and "dl_typed (contents s0)" "one_per_device (dlq_of (contents s0))"
  shows "dl_typed (contents s) \<and> one_per_device (dlq_of (contents s))"
  using assms
proof (induction rule: dl_reach.induct)
  case (enq s i now a)
  then show ?case by (auto simp: enqueue_step intro!: one_per_device_enqueue)
next
  case (idle s now s' r)
  then show ?case
    using dequeue_step(1,2) [of s E now] by (auto intro: one_per_device_pop)
next
  case (sent s now s' cmd now')
  then have inv: "dl_typed (contents s)" "one_per_device (dlq_of (contents s))" by auto
  from inv sent.hyps(2) obtain ids where
    h: "q_pending (dlq_of (contents s)) = dc_id cmd # ids"
      "q_cmds (dlq_of (contents s)) (dc_id cmd) ''device_eui'' = Some (dc_device_eui cmd)"
      "dl_typed (contents s')" "dlq_of (contents s') = (dlq_of (contents s))\<lparr>q_pending := ids\<rparr>"
    by (rule dequeue_head)
  from one_per_device_done [OF inv(2) h(1,2)]
  show ?case
    using h(3,4) by (simp add: mark_success_step spec_success_def)
next
  case (failed s now s' cmd now' err rq)
  then have inv: "dl_typed (contents s)" "one_per_device (dlq_of (contents s))" by auto
  from inv failed.hyps(2) obtain ids where
    h: "q_pending (dlq_of (contents s)) = dc_id cmd # ids"
      "q_cmds (dlq_of (contents s)) (dc_id cmd) ''device_eui'' = Some (dc_device_eui cmd)"
      "dl_typed (contents s')" "dlq_of (contents s') = (dlq_of (contents s))\<lparr>q_pending := ids\<rparr>"
    by (rule dequeue_head)
  from one_per_device_done [OF inv(2) h(1,2)] one_per_device_retry [OF inv(2) h(1)]
  show ?case
    using h(3,4) by (simp add: mark_failure_step spec_failure_def Let_def)
qed simp

end

section \<open>Metrics\<close>

lemma ints_of_int_strs: "(\<And>x. x \<in> set xs \<Longrightarrow> \<exists>n. x = int_str n) \<Longrightarrow>
    \<exists>ns. ints_of xs = Inr ns \<and> map int_str ns = xs"
proof (induction xs)
  case (Cons x xs)
  then obtain ns where "ints_of xs = Inr ns" "map int_str ns = xs" by auto
  moreover obtain n where "x = int_str n" using Cons.prems by auto
  ultimately show ?case by (auto intro!: exI [of _ "n # ns"])
qed simp

lemma counter_val_ok: "counter_like m k \<Longrightarrow> \<exists>n. counter_val (str_at m k) = Inr n"
  by (auto simp: counter_like_def counter_val_def str_at_def)

lemma p50_mem: "sl \<noteq> [] \<Longrightarrow> p50 sl \<in> set sl"
  by (simp add: p50_def)

lemma p99_index: "1 < n \<Longrightarrow> n div 2 \<le> nat (py_int (rat_of_nat n * (99 / 100))) \<and>
    nat (py_int (rat_of_nat n * (99 / 100))) < n"
proof -
  assume n: "1 < n"
  let ?x = "rat_of_nat n * (99 / 100)"
  have eq: "py_int ?x = \<lfloor>?x\<rfloor>" by (rule py_int_floor) simp
  have "\<lfloor>?x\<rfloor> < int n" using n by (simp add: floor_less_iff)
  moreover have "int (n div 2) \<le> \<lfloor>?x\<rfloor>"
  proof (rule le_floor_iff [THEN iffD2])
    have "2 * (n div 2) \<le> n" by simp
    then have "rat_of_nat (2 * (n div 2)) \<le> rat_of_nat n" by (rule of_nat_mono)
    then show "rat_of_int (int (n div 2)) \<le> ?x" by simp
  qed
  ultimately show ?thesis unfolding eq using n by linarith
qed

lemma p50_le_p99:
  assumes "sorted sl" "sl \<noteq> []"
  shows "p50 sl \<le> p99 sl \<and> p99 sl \<in> set sl"
proof (cases "length sl > 1")
  case True
  with p99_index [OF True] assms show ?thesis
    by (auto simp: p50_def p99_def intro!: sorted_nth_mono nth_mem)
next
  case False
  with assms(2) show ?thesis by (cases sl) (auto simp: p50_def p99_def)
qed

section \<open>Properties of the queue\<close>

text \<open>A concrete environment and request, for the witnesses.\<close>

definition demo_env :: dl_env where
  "demo_env = \<lparr>sha256_hex = rev, float_str = rat_str, parse_float = rat_parse,
               json_dead = (\<lambda>c t. dc_id c)\<rparr>"

definition demo_args :: "string \<Rightarrow> enqueue_args" where
  "demo_args p = \<lparr>ea_device_eui = ''2020202020202020'', ea_payload = p, ea_fport = 15,
     ea_tenant_id = Some ''t1'', ea_confirmed = True, ea_gateway_id = None,
     ea_space_id = Some ''s1'', ea_trigger_source = Some ''sensor''\<rparr>"

lemma demo_float [simp]: "float_text (float_str demo_env) (parse_float demo_env)"
  using rat_text.float_text_axioms by (simp add: demo_env_def)

lemma empty_store [simp]:
  "dl_typed Map.empty" "dlq_of Map.empty = \<lparr>q_pending = [], q_cmds = (\<lambda>_ _. None),
     q_latest = (\<lambda>_. None), q_sent = (\<lambda>_. None), q_dead = []\<rparr>"
  by (simp_all add: dl_typed_def dlq_of_def counter_like_def list_at_def hash_at_def str_at_def)

lemma empty_typed: "dl_typed (map_of [])"
  by simp

lemma demo_hash_neq:
  "compute_content_hash demo_env (ea_device_eui (demo_args ''FF'')) (ea_payload (demo_args ''FF''))
     (ea_fport (demo_args ''FF''))
   \<noteq> compute_content_hash demo_env (ea_device_eui (demo_args ''00'')) (ea_payload (demo_args ''00''))
     (ea_fport (demo_args ''00''))"
  by code_simp

text \<open>
  Property C1. The queue operations refine the abstract queue: on every store in which the
  \<open>dl:*\<close> keys hold values of their kinds, \<open>enqueue\<close>, \<open>dequeue\<close>, \<open>mark_success\<close> and
  \<open>mark_failure\<close> change the pending list, the command table, the newest command per device,
  the last sent hash per device and the dead letters exactly as \<open>spec_enqueue\<close>, the removal of
  the head, \<open>spec_success\<close> and \<open>spec_failure\<close> do, and the keys keep their kinds.
\<close>

theorem downlink_queue_refines:
  assumes "redis R c" "dl_typed (c s)"
  shows "dlq_of (c (fst (enqueue R E now i a s)))
           = spec_enqueue E (new_command E now i a) (dlq_of (c s))
       \<and> dlq_of (c (fst (dequeue R E now s)))
           = (dlq_of (c s))\<lparr>q_pending := tl (q_pending (dlq_of (c s)))\<rparr>
       \<and> dlq_of (c (mark_success R now cmd s)) = spec_success cmd (dlq_of (c s))
       \<and> dlq_of (c (mark_failure R E now cmd err rq s)) = spec_failure E now cmd err rq (dlq_of (c s))
       \<and> dl_typed (c (fst (enqueue R E now i a s))) \<and> dl_typed (c (fst (dequeue R E now s)))
       \<and> dl_typed (c (mark_success R now cmd s)) \<and> dl_typed (c (mark_failure R E now cmd err rq s))"
  by (intro conjI redis.enqueue_step [OF assms] redis.dequeue_step [OF assms]
      redis.mark_success_step [OF assms] redis.mark_failure_step [OF assms])

theorem downlink_queue_refines_witness:
  "dlq_of (map_of (fst (enqueue mem_ops demo_env 5 ''c1'' (demo_args ''FF'') [])))
     = spec_enqueue demo_env (new_command demo_env 5 ''c1'' (demo_args ''FF'')) (dlq_of (map_of []))"
  using downlink_queue_refines [OF mem_redis.redis_axioms empty_typed] by blast

text \<open>
  Property C6. Round trip through Redis: on a queue with nothing pending, a command that is not a
  duplicate of the last one sent is enqueued under the new id, and the next \<open>dequeue\<close> returns
  that command with every field as it was given (an empty optional string reads as \<open>None\<close>).
\<close>

theorem enqueue_dequeue_roundtrip:
  assumes "redis R c" "float_text (float_str E) (parse_float E)" "dl_typed (c s)"
    and "q_pending (dlq_of (c s)) = []" "q_cmds (dlq_of (c s)) i = Map.empty"
    and "q_sent (dlq_of (c s)) (ea_device_eui a)
           \<noteq> Some (compute_content_hash E (ea_device_eui a) (ea_payload a) (ea_fport a))"
  shows "snd (enqueue R E now i a s) = Some i
    \<and> snd (dequeue R E now' (fst (enqueue R E now i a s)))
           = Inr (Some (as_stored (new_command E now i a)))"
proof
  show "snd (enqueue R E now i a s) = Some i"
    using assms(3,6) by (simp add: enqueue_def redis.get [OF assms(1)] Let_def)
  have "holds_only E (new_command E now i a) (dlq_of (c (fst (enqueue R E now i a s))))"
    using assms(4-6)
    by (auto simp: redis.enqueue_step [OF assms(1,3)] spec_enqueue_def spec_drop_def holds_only_def
        Let_def split: option.splits)
  then show "snd (dequeue R E now' (fst (enqueue R E now i a s)))
      = Inr (Some (as_stored (new_command E now i a)))"
    by (intro redis.dequeue_held [OF assms(1,2)] redis.enqueue_step [OF assms(1,3)])
qed

theorem enqueue_dequeue_roundtrip_witness:
  "snd (dequeue mem_ops demo_env 7 (fst (enqueue mem_ops demo_env 5 ''c1'' (demo_args ''FF'') [])))
     = Inr (Some (as_stored (new_command demo_env 5 ''c1'' (demo_args ''FF''))))"
  by (rule enqueue_dequeue_roundtrip [OF mem_redis.redis_axioms demo_float empty_typed,
        THEN conjunct2]) simp_all

text \<open>
  Property C3. Delivery ends: a command enqueued on an empty queue whose sending fails in five
  worker cycles, at any times and with any error texts, is no longer pending and stands once in
  the dead-letter list, with five attempts, under its id and with its device, port and payload.
\<close>

theorem failing_command_dead_lettered:
  assumes "redis R c" "float_text (float_str E) (parse_float E)" "dl_typed (c s)"
    and "q_pending (dlq_of (c s)) = []" "q_cmds (dlq_of (c s)) i = Map.empty"
    and "q_sent (dlq_of (c s)) (ea_device_eui a)
           \<noteq> Some (compute_content_hash E (ea_device_eui a) (ea_payload a) (ea_fport a))"
    and "length tes = 5"
  shows "\<exists>c'. q_pending (dlq_of (c (fold (fail_cycle R E) tes (fst (enqueue R E now i a s))))) = []
    \<and> q_dead (dlq_of (c (fold (fail_cycle R E) tes (fst (enqueue R E now i a s)))))
        = q_dead (dlq_of (c s)) @ [json_dead E c' (fst (last tes))]
    \<and> dc_id c' = i \<and> dc_device_eui c' = ea_device_eui a \<and> dc_payload c' = ea_payload a
    \<and> dc_fport c' = ea_fport a \<and> dc_attempts c' = 5"
proof -
  let ?s = "fst (enqueue R E now i a s)" and ?n = "new_command E now i a"
  have t: "dl_typed (c ?s)" by (rule redis.enqueue_step [OF assms(1,3)])
  have "holds_only E ?n (dlq_of (c ?s))" "q_dead (dlq_of (c ?s)) = q_dead (dlq_of (c s))"
    using assms(4-6)
    by (auto simp: redis.enqueue_step [OF assms(1,3)] spec_enqueue_def spec_drop_def holds_only_def
        Let_def split: option.splits)
  moreover have "dc_attempts ?n + int (length tes) = 5" "tes \<noteq> []"
    using assms(7) by auto
  ultimately show ?thesis
    using redis.fail_cycles [OF assms(1,2) t, where c = ?n and tes = tes] by auto
qed

theorem failing_command_dead_lettered_witness:
  "q_pending (dlq_of (map_of (fold (fail_cycle mem_ops demo_env) (replicate 5 (9, ''timeout''))
      (fst (enqueue mem_ops demo_env 5 ''c1'' (demo_args ''FF'') []))))) = []
    \<and> q_dead (dlq_of (map_of (fold (fail_cycle mem_ops demo_env) (replicate 5 (9, ''timeout''))
      (fst (enqueue mem_ops demo_env 5 ''c1'' (demo_args ''FF'') []))))) = [''c1'']"
proof -
  let ?tes = "replicate 5 (9, ''timeout'') :: (pyfloat \<times> string) list"
  let ?s = "fold (fail_cycle mem_ops demo_env) ?tes
        (fst (enqueue mem_ops demo_env 5 ''c1'' (demo_args ''FF'') []))"
  have "\<exists>c'. q_pending (dlq_of (map_of ?s)) = []
    \<and> q_dead (dlq_of (map_of ?s))
        = q_dead (dlq_of (map_of [])) @ [json_dead demo_env c' (fst (last ?tes))]
    \<and> dc_id c' = ''c1'' \<and> dc_device_eui c' = ea_device_eui (demo_args ''FF'')
    \<and> dc_payload c' = ea_payload (demo_args ''FF'') \<and> dc_fport c' = ea_fport (demo_args ''FF'')
    \<and> dc_attempts c' = 5"
    by (rule failing_command_dead_lettered [OF mem_redis.redis_axioms demo_float empty_typed])
      simp_all
  then show ?thesis by (auto simp: demo_env_def simp del: fold_replicate)
qed



text \<open>
  Idempotency: once a command has been sent, enqueueing the same payload and port for
  the same device returns \<open>None\<close> and leaves the queue as it is.
\<close>

theorem resend_deduplicated:
  assumes "redis R c" "dl_typed (c s)"
    and "dc_device_eui cmd = ea_device_eui a"
    and "dc_content_hash cmd = compute_content_hash E (ea_device_eui a) (ea_payload a) (ea_fport a)"
  shows "snd (enqueue R E now' i a (mark_success R now cmd s)) = None
    \<and> dlq_of (c (fst (enqueue R E now' i a (mark_success R now cmd s))))
        = dlq_of (c (mark_success R now cmd s))"
proof -
  note m = redis.mark_success_step [OF assms(1,2), of now cmd]
  have "q_sent (dlq_of (c (mark_success R now cmd s))) (ea_device_eui a)
      = Some (compute_content_hash E (ea_device_eui a) (ea_payload a) (ea_fport a))"
    using assms(3,4) by (simp add: m spec_success_def)
  then show ?thesis
    using m(1) by (simp add: enqueue_def redis.get [OF assms(1)] redis.incr_typed [OF assms(1)] redis.counter_in [OF assms(1)] Let_def)
qed

theorem resend_deduplicated_witness:
  "snd (enqueue mem_ops demo_env 9 ''c2'' (demo_args ''FF'')
     (mark_success mem_ops 8 (new_command demo_env 5 ''c1'' (demo_args ''FF'')) [])) = None"
  using resend_deduplicated [OF mem_redis.redis_axioms empty_typed,
      of "new_command demo_env 5 ''c1'' (demo_args ''FF'')" "demo_args ''FF''" demo_env] by simp

text \<open>
  Duplicates are judged against the last command sent, not against the newest one
  pending: after A was sent and B was enqueued for the same device, a new request for A is
  dropped while B stays last in the queue. The device then receives B although A is the newest
  request (\<open>enqueue\<close> documents keeping the latest command per device).
\<close>

theorem newest_request_lost:
  fixes R :: "'r redis_ops" and s :: 'r
  assumes "redis R c" "dl_typed (c s)"
    and "ea_device_eui a = dc_device_eui cmd" "ea_device_eui b = dc_device_eui cmd"
    and "dc_content_hash cmd = compute_content_hash E (ea_device_eui a) (ea_payload a) (ea_fport a)"
    and "compute_content_hash E (ea_device_eui b) (ea_payload b) (ea_fport b) \<noteq> dc_content_hash cmd"
    and s1_def: "s1 = mark_success R t1 cmd s" and s2_def: "s2 = fst (enqueue R E t2 j b s1)"
  shows "snd (enqueue R E t2 j b s1) = Some j \<and> snd (enqueue R E t3 k a s2) = None
    \<and> q_pending (dlq_of (c (fst (enqueue R E t3 k a s2)))) = q_pending (dlq_of (c s1)) @ [j]"
proof -
  note m = redis.mark_success_step [OF assms(1,2), of t1 cmd, folded s1_def]
  note e = redis.enqueue_step [OF assms(1) m(1), of E t2 j b, folded s2_def]
  have sent: "q_sent (dlq_of (c s2)) (ea_device_eui a) = Some (dc_content_hash cmd)"
    "q_pending (dlq_of (c s2)) = q_pending (dlq_of (c s1)) @ [j]"
    using assms(3,4,6)
    by (auto simp: e m spec_enqueue_def spec_success_def spec_drop_def Let_def)
  have "snd (enqueue R E t2 j b s1) = Some j"
    using assms(4,6) m by (simp add: enqueue_def redis.get [OF assms(1)] spec_success_def Let_def)
  moreover have "snd (enqueue R E t3 k a s2) = None"
    "dlq_of (c (fst (enqueue R E t3 k a s2))) = dlq_of (c s2)"
    using sent(1) assms(5) e(1)
    by (simp_all add: enqueue_def redis.get [OF assms(1)] redis.incr_typed [OF assms(1)] redis.counter_in [OF assms(1)])
  ultimately show ?thesis using sent(2) by simp
qed

theorem newest_request_lost_witness:
  "snd (enqueue mem_ops demo_env 9 ''c3'' (demo_args ''FF'')
     (fst (enqueue mem_ops demo_env 8 ''c2'' (demo_args ''00'')
       (mark_success mem_ops 7 (new_command demo_env 5 ''c1'' (demo_args ''FF'')) [])))) = None"
proof -
  have d: "ea_device_eui (demo_args x) = ea_device_eui (demo_args y)" for x y
    by (simp add: demo_args_def)
  show ?thesis
    using newest_request_lost [OF mem_redis.redis_axioms empty_typed _ _ _ _ refl refl,
      of "demo_args ''FF''" "new_command demo_env 5 ''c1'' (demo_args ''FF'')" "demo_args ''00''"
         demo_env] d [of "''00''" "''FF''"] demo_hash_neq by simp
qed

text \<open>
  Coalescing also removes the data of a command that a worker already holds: when a
  newer command for the device is enqueued between \<open>dequeue\<close> and \<open>mark_failure\<close>, the retry puts
  the old id back behind the newer command, and what is stored under it has no device and no
  payload. When the sending succeeds instead, \<open>mark_success\<close> removes the coalescing entry of the
  newer, still pending command.
\<close>

theorem inflight_command_resurrected:
  fixes R :: "'r redis_ops" and s :: 'r
  assumes "redis R c" "float_text (float_str E) (parse_float E)" "dl_typed (c s)"
    and "q_latest (dlq_of (c s)) (dc_device_eui cmd) = Some (dc_id cmd)" "dc_id cmd \<noteq> []"
    and "dc_id cmd \<notin> set (q_pending (dlq_of (c s)))" "dc_attempts cmd < 4"
    and "ea_device_eui a = dc_device_eui cmd" "j \<noteq> dc_id cmd"
    and "q_sent (dlq_of (c s)) (ea_device_eui a)
           \<noteq> Some (compute_content_hash E (ea_device_eui a) (ea_payload a) (ea_fport a))"
    and s1_def: "s1 = fst (enqueue R E t1 j a s)"
    and s2_def: "s2 = mark_failure R E t2 cmd err True s1"
  shows "q_pending (dlq_of (c s2)) = q_pending (dlq_of (c s)) @ [j, dc_id cmd]
    \<and> (\<exists>b. deserialize_cmd E t3 (dc_id cmd) (q_cmds (dlq_of (c s2)) (dc_id cmd)) = Inr b
          \<and> dc_device_eui b = [] \<and> dc_payload b = [])
    \<and> j \<in> set (q_pending (dlq_of (c (mark_success R t2 cmd s1))))
    \<and> q_latest (dlq_of (c (mark_success R t2 cmd s1))) (ea_device_eui a) = None"
proof -
  note e = redis.enqueue_step [OF assms(1,3), of E t1 j a, folded s1_def]
  have q1: "q_pending (dlq_of (c s1)) = q_pending (dlq_of (c s)) @ [j]"
    "q_cmds (dlq_of (c s1)) (dc_id cmd) = Map.empty"
    using assms(4-6,8-10)
    by (auto simp: e spec_enqueue_def spec_drop_def Let_def filter_id_conv)
  have q2: "q_pending (dlq_of (c s2)) = q_pending (dlq_of (c s)) @ [j, dc_id cmd]"
    "q_cmds (dlq_of (c s2)) (dc_id cmd) = map_of (retry_fields E t2 err (dc_attempts cmd + 1))"
    using assms(7) q1 redis.mark_failure_step(2) [OF assms(1) e(1), of E t2 cmd err True]
    by (simp_all add: s2_def spec_failure_def MAX_ATTEMPTS_def Let_def)
  have "\<exists>b. deserialize_cmd E t3 (dc_id cmd) (map_of (retry_fields E t2 err (dc_attempts cmd + 1)))
      = Inr b \<and> dc_device_eui b = [] \<and> dc_payload b = []"
    using float_text.parse_str [OF assms(2)] float_text.str_nonempty [OF assms(2)]
    by (simp add: deserialize_cmd_def retry_fields_def get_int_def get_def_def float_of_def)
  then show ?thesis
    using q1 q2 assms(8) redis.mark_success_step(2) [OF assms(1) e(1), of t2 cmd]
    by (simp add: spec_success_def)
qed

theorem inflight_command_resurrected_witness:
  "q_pending (dlq_of (map_of (mark_failure mem_ops demo_env 8
      (new_command demo_env 5 ''c1'' (demo_args ''FF'')) ''timeout'' True
      (fst (enqueue mem_ops demo_env 7 ''c2'' (demo_args ''00'')
        (fst (dequeue mem_ops demo_env 6
          (fst (enqueue mem_ops demo_env 5 ''c1'' (demo_args ''FF'') [])))))))))
     = [''c2'', ''c1'']"
proof -
  let ?s0 = "fst (enqueue mem_ops demo_env 5 ''c1'' (demo_args ''FF'') [])"
  let ?s = "fst (dequeue mem_ops demo_env 6 ?s0)"
  let ?cmd = "new_command demo_env 5 ''c1'' (demo_args ''FF'')"
  note e = mem_redis.enqueue_step [OF empty_typed, of demo_env 5 "''c1''" "demo_args ''FF''"]
  note d = mem_redis.dequeue_step [OF e(1), of demo_env 6]
  have q: "q_pending (dlq_of (map_of ?s)) = []" "q_sent (dlq_of (map_of ?s)) = (\<lambda>_. None)"
    "q_latest (dlq_of (map_of ?s)) (dc_device_eui ?cmd) = Some (dc_id ?cmd)"
    using d(2) e(2) by (simp_all add: spec_enqueue_def spec_drop_def Let_def)
  have eui: "ea_device_eui (demo_args ''00'') = dc_device_eui ?cmd"
    by (simp add: demo_args_def)
  show ?thesis
    using inflight_command_resurrected [where R = mem_ops and c = map_of and E = demo_env
        and s = ?s and cmd = ?cmd and a = "demo_args ''00''" and j = "''c2''" and ?t1.0 = 7
        and ?t2.0 = 8 and err = "''timeout''", OF mem_redis.redis_axioms demo_float d(1)] q eui
    by simp
qed

text \<open>
  \<open>get_metrics\<close> never raises on a well-typed store: the depths are the lengths of the
  two lists, and when latencies were recorded the median and the 99th percentile are two of the
  first hundred recorded values, in order.
\<close>

theorem get_metrics_total:
  assumes "redis R c" "dl_typed (c s)"
  shows "\<exists>m ns. get_metrics R s = Inr m \<and> queue_depth m = length (q_pending (dlq_of (c s)))
    \<and> dead_letter_depth m = length (q_dead (dlq_of (c s)))
    \<and> map int_str ns = take 100 (list_at (c s) (metric_key ''latencies''))
    \<and> (if ns = [] then latency_p50_ms m = 0 \<and> latency_p99_ms m = 0
       else latency_p50_ms m \<in> set ns \<and> latency_p99_ms m \<in> set ns
            \<and> latency_p50_ms m \<le> latency_p99_ms m)"
proof -
  have "\<exists>n. counter_val (rget R s (metric_key k)) = Inr n" if "k \<in> set counter_names" for k
    using dl_typed_counterD [OF assms(2) that] counter_val_ok [of "c s" "metric_key k"]
    by (auto simp: redis.get [OF assms(1)] counter_like_def strlike_def)
  from this [OF redis.counter_in(1) [OF assms(1)]] this [OF redis.counter_in(2) [OF assms(1)]]
    this [OF redis.counter_in(3) [OF assms(1)]] this [OF redis.counter_in(4) [OF assms(1)]]
    this [OF redis.counter_in(5) [OF assms(1)]] this [OF redis.counter_in(6) [OF assms(1)]]
  obtain n1 n2 n3 n4 n5 n6 where counters:
    "counter_val (rget R s (metric_key ''enqueued'')) = Inr n1"
    "counter_val (rget R s (metric_key ''succeeded'')) = Inr n2"
    "counter_val (rget R s (metric_key ''retried'')) = Inr n3"
    "counter_val (rget R s (metric_key ''dead_lettered'')) = Inr n4"
    "counter_val (rget R s (metric_key ''deduplicated'')) = Inr n5"
    "counter_val (rget R s (metric_key ''coalesced'')) = Inr n6" by blast
  obtain ns where ns: "ints_of (take 100 (list_at (c s) (metric_key ''latencies''))) = Inr ns"
    "map int_str ns = take 100 (list_at (c s) (metric_key ''latencies''))"
    using ints_of_int_strs [of "take 100 (list_at (c s) (metric_key ''latencies''))"]
      dl_typed_latenciesD [OF assms(2)] by (meson in_set_takeD)
  have "p50 (sort ns) \<in> set ns \<and> p99 (sort ns) \<in> set ns \<and> p50 (sort ns) \<le> p99 (sort ns)" if "ns \<noteq> []"
    using p50_mem [of "sort ns"] p50_le_p99 [of "sort ns"] that by (auto simp flip: set_empty)
  moreover have "\<exists>m. get_metrics R s = Inr m \<and> queue_depth m = length (q_pending (dlq_of (c s)))
      \<and> dead_letter_depth m = length (q_dead (dlq_of (c s)))
      \<and> latency_p50_ms m = p50 (sort ns) \<and> latency_p99_ms m = p99 (sort ns)"
    using assms(2) by (simp add: get_metrics_def redis.lrange [OF assms(1)] counters ns(1))
  moreover have "p50 [] = 0" "p99 [] = 0" by (simp_all add: p50_def p99_def)
  ultimately show ?thesis using ns(2) by (cases "ns = []") (metis sort_key_simps(1))+
qed

theorem get_metrics_total_witness: "\<exists>m. get_metrics mem_ops [] = Inr m \<and> queue_depth m = 0"
  using get_metrics_total [OF mem_redis.redis_axioms empty_typed] by auto

end
