(* ===== verification/Token_Bucket.thy ===== *)
theory Token_Bucket
  imports Downlink_Queue
begin

text \<open>
  The two token-bucket limiters, which keep a bucket in a Redis hash with the fields \<open>tokens\<close> and
  \<open>last_update\<close>: \<open>DownlinkRateLimiter\<close> of \<open>src/downlink_queue.py\<close> and \<open>RateLimiter\<close> with its
  middleware of \<open>src/rate_limit.py\<close>.

  The locale \<open>token_bucket\<close> is what both promise: a level that grows at a fixed rate up to a
  capacity, and a check that succeeds when the level is at least one and then takes one token.
  Its lemmas bound the number of admitted requests and say when a refused client may return;
  both limiters are instances.
\<close>

section \<open>The contract\<close>

fun admitted :: "(rat \<Rightarrow> 's \<Rightarrow> 's \<times> bool) \<Rightarrow> rat list \<Rightarrow> 's \<Rightarrow> nat" where
  "admitted check [] s = 0"
| "admitted check (t # ts) s =
     (case check t s of (s', ok) \<Rightarrow> (if ok then 1 else 0) + admitted check ts s')"

locale token_bucket =
  fixes check :: "rat \<Rightarrow> 's \<Rightarrow> 's \<times> bool"
    and level :: "rat \<Rightarrow> 's \<Rightarrow> rat"
    and ok :: "'s \<Rightarrow> bool"
    and rate cap :: rat
  assumes rate_pos: "0 < rate" and cap_pos: "1 \<le> cap"
    and refill: "ok s \<Longrightarrow> t \<le> t' \<Longrightarrow> level t' s = min cap (level t s + rate * (t' - t))"
    and level_cap: "ok s \<Longrightarrow> level t s \<le> cap"
    and allow: "ok s \<Longrightarrow> snd (check t s) \<longleftrightarrow> 1 \<le> level t s"
    and take: "ok s \<Longrightarrow> 1 \<le> level t s \<Longrightarrow> level t (fst (check t s)) = level t s - 1"
    and deny: "ok s \<Longrightarrow> level t s < 1 \<Longrightarrow> fst (check t s) = s"
    and keeps: "ok s \<Longrightarrow> ok (fst (check t s))"
begin

lemma admitted_le_level:
  "ok s \<Longrightarrow> sorted (t # ts) \<Longrightarrow>
   rat_of_nat (admitted check ts s) \<le> max 0 (level t s + rate * (last (t # ts) - t))"
proof (induction ts arbitrary: s t)
  case (Cons u us)
  have tu: "t \<le> u" and su: "sorted (u # us)" using Cons.prems(2) by auto
  have lu: "level u s \<le> level t s + rate * (u - t)"
    using refill [OF Cons.prems(1) tu] by simp
  obtain s' b where c: "check u s = (s', b)" by (cases "check u s")
  have ok': "ok s'" using keeps [OF Cons.prems(1), of u] c by simp
  have last: "last (t # u # us) = last (u # us)" by simp
  have le: "u \<le> last (u # us)" using su by (cases us) auto
  note ih = Cons.IH [OF ok' su]
  show ?case
  proof (cases b)
    case True
    then have lv: "1 \<le> level u s" using allow [OF Cons.prems(1), of u] c by simp
    then have l': "level u s' = level u s - 1"
      using take [OF Cons.prems(1), of u] c by simp
    have "0 \<le> rate * (last (u # us) - u)" using rate_pos le by simp
    with ih l' lv have "rat_of_nat (admitted check us s') \<le> level u s - 1 + rate * (last (u # us) - u)"
      by (auto simp: max_def split: if_splits)
    then show ?thesis using True c lu last by (auto simp: algebra_simps max_def)
  next
    case False
    then have "level u s < 1" using allow [OF Cons.prems(1), of u] c by auto
    then have "s' = s" using deny [OF Cons.prems(1), of u] c by simp
    moreover have "level u s + rate * (last (u # us) - u) \<le> level t s + rate * (last (u # us) - t)"
      using lu by (simp add: algebra_simps)
    ultimately show ?thesis using False c ih last by (auto simp: max_def split: if_splits)
  qed
qed simp

text \<open>At most \<open>cap + rate * T\<close> requests are admitted in a span of length \<open>T\<close>.\<close>

lemma admitted_bound:
  assumes "ok s" "sorted (t # ts)"
  shows "rat_of_nat (admitted check ts s) \<le> cap + rate * (last (t # ts) - t)"
proof -
  have "t \<le> last (t # ts)" using assms(2) by (cases ts) auto
  then have "0 \<le> rate * (last (t # ts) - t)" using rate_pos by simp
  with admitted_le_level [OF assms] level_cap [OF assms(1), of t] cap_pos show ?thesis
    by (auto simp: max_def split: if_splits)
qed

text \<open>A refused client that waits for the missing tokens is admitted.\<close>

lemma admitted_after:
  assumes "ok s" "\<not> snd (check t s)" "(1 - level t s) / rate \<le> d"
  shows "snd (check (t + d) (fst (check t s)))"
proof -
  have lv: "level t s < 1" using allow [OF assms(1)] assms(2) by (meson not_le)
  have same: "fst (check t s) = s" by (rule deny [OF assms(1) lv])
  have d0: "0 \<le> d"
    by (rule order_trans [OF _ assms(3)]) (use lv rate_pos in simp)
  have "1 - level t s \<le> rate * d"
    using assms(3) rate_pos by (simp add: pos_divide_le_eq mult.commute)
  then have "1 \<le> level (t + d) s"
    using refill [OF assms(1), of t "t + d"] d0 cap_pos by simp
  then show ?thesis by (simp add: same allow [OF assms(1)])
qed

lemma refused_before:
  assumes "ok s" "\<not> snd (check t s)" "0 \<le> d" "d < (1 - level t s) / rate"
  shows "\<not> snd (check (t + d) (fst (check t s)))"
proof -
  have lv: "level t s < 1" using allow [OF assms(1)] assms(2) by (meson not_le)
  have same: "fst (check t s) = s" by (rule deny [OF assms(1) lv])
  have "rate * d < 1 - level t s"
    using assms(4) rate_pos by (simp add: pos_less_divide_eq mult.commute)
  then have "level (t + d) s < 1"
    using refill [OF assms(1), of t "t + d"] assms(3) by (simp add: min_def)
  then show ?thesis by (simp add: same allow [OF assms(1)])
qed

end

section \<open>Buckets in Redis\<close>

definition rhget :: "'r redis_ops \<Rightarrow> 'r \<Rightarrow> string \<Rightarrow> string \<Rightarrow> string option" where
  "rhget R s k f = map_of (rhgetall R s k) f"

text \<open>\<open>float(r) if r else default\<close>.\<close>

definition float_or :: "(string \<Rightarrow> pyfloat option) \<Rightarrow> string option \<Rightarrow> pyfloat \<Rightarrow> pyfloat result" where
  "float_or fp r d =
     (if truthy r
      then (case fp (str_field r) of
              None \<Rightarrow> Inl (ValueError ''could not convert string to float'') | Some x \<Rightarrow> Inr x)
      else Inr d)"

text \<open>The tokens available at \<open>now\<close>, common to both limiters.\<close>

definition available_tokens ::
  "'r redis_ops \<Rightarrow> (string \<Rightarrow> pyfloat option) \<Rightarrow> pyfloat \<Rightarrow> string \<Rightarrow> pyfloat \<Rightarrow> pyfloat \<Rightarrow> 'r
   \<Rightarrow> pyfloat result" where
  "available_tokens R fp now key tokens_per_second max_tokens s =
     (case float_or fp (rhget R s key ''tokens'') max_tokens of Inl e \<Rightarrow> Inl e
      | Inr current_tokens \<Rightarrow>
      (case float_or fp (rhget R s key ''last_update'') now of Inl e \<Rightarrow> Inl e
      | Inr last_update \<Rightarrow>
          let time_passed = now - last_update in
          Inr (min max_tokens (current_tokens + time_passed * tokens_per_second))))"

definition store_tokens ::
  "'r redis_ops \<Rightarrow> (pyfloat \<Rightarrow> string) \<Rightarrow> pyfloat \<Rightarrow> string \<Rightarrow> pyfloat \<Rightarrow> 'r \<Rightarrow> 'r" where
  "store_tokens R fs now key new_tokens s =
     (let s = rhset R s key [(''tokens'', fs new_tokens)];
          s = rhset R s key [(''last_update'', fs now)]
      in rexpire R s key 120)"

section \<open>\<open>DownlinkRateLimiter\<close>\<close>

definition DEFAULT_GATEWAY_LIMIT_PER_MIN :: int where "DEFAULT_GATEWAY_LIMIT_PER_MIN = 30"
definition DEFAULT_TENANT_LIMIT_PER_MIN :: int where "DEFAULT_TENANT_LIMIT_PER_MIN = 100"

definition check_token_bucket ::
  "'r redis_ops \<Rightarrow> (pyfloat \<Rightarrow> string) \<Rightarrow> (string \<Rightarrow> pyfloat option) \<Rightarrow> pyfloat \<Rightarrow> string \<Rightarrow> int \<Rightarrow> 'r
   \<Rightarrow> 'r \<times> (bool \<times> int option) result" where
  "check_token_bucket R fs fp now key limit_per_min s =
     (let tokens_per_second = of_int limit_per_min / 60; max_tokens = of_int limit_per_min in
      case available_tokens R fp now key tokens_per_second max_tokens s of
        Inl e \<Rightarrow> (s, Inl e)
      | Inr new_tokens \<Rightarrow>
          if new_tokens \<ge> 1
          then (store_tokens R fs now key (new_tokens - 1) s, Inr (True, None))
          else if tokens_per_second = 0 then (s, Inl ZeroDivisionError)
          else (s, Inr (False, Some (py_int ((1 - new_tokens) / tokens_per_second) + 1))))"

text \<open>\<open>limit_per_min or DEFAULT\<close>: a missing or zero limit means the default.\<close>

definition limit_or :: "int option \<Rightarrow> int \<Rightarrow> int" where
  "limit_or l d = (case l of None \<Rightarrow> d | Some n \<Rightarrow> if n = 0 then d else n)"

definition fmt_opt :: "string option \<Rightarrow> string" where
  "fmt_opt v = (case v of None \<Rightarrow> ''None'' | Some s \<Rightarrow> s)"

definition check_gateway_limit ::
  "'r redis_ops \<Rightarrow> (pyfloat \<Rightarrow> string) \<Rightarrow> (string \<Rightarrow> pyfloat option) \<Rightarrow> pyfloat \<Rightarrow> string option
   \<Rightarrow> int option \<Rightarrow> 'r \<Rightarrow> 'r \<times> (bool \<times> int option) result" where
  "check_gateway_limit R fs fp now gateway_id limit_per_min s =
     (if \<not> truthy gateway_id then (s, Inr (True, None))
      else check_token_bucket R fs fp now (''dl:limit:gw:'' @ fmt_opt gateway_id)
             (limit_or limit_per_min DEFAULT_GATEWAY_LIMIT_PER_MIN) s)"

definition check_tenant_limit ::
  "'r redis_ops \<Rightarrow> (pyfloat \<Rightarrow> string) \<Rightarrow> (string \<Rightarrow> pyfloat option) \<Rightarrow> pyfloat \<Rightarrow> string option
   \<Rightarrow> int option \<Rightarrow> 'r \<Rightarrow> 'r \<times> (bool \<times> int option) result" where
  "check_tenant_limit R fs fp now tenant_id limit_per_min s =
     check_token_bucket R fs fp now (''dl:limit:tenant:'' @ fmt_opt tenant_id)
       (limit_or limit_per_min DEFAULT_TENANT_LIMIT_PER_MIN) s"

section \<open>\<open>RateLimiter\<close> of \<open>rate_limit.py\<close>\<close>

record RateLimitConfig =
  rl_requests_per_minute :: int
  rl_burst_size :: int

type_synonym headers = "(string \<times> string) list"

text \<open>
  The \<open>try\<close> block; every exception in it admits the request with no headers, after whatever the
  store has already been told.
\<close>

definition check_rate_limit ::
  "'r redis_ops \<Rightarrow> (pyfloat \<Rightarrow> string) \<Rightarrow> (string \<Rightarrow> pyfloat option) \<Rightarrow> pyfloat \<Rightarrow> string
   \<Rightarrow> RateLimitConfig \<Rightarrow> 'r \<Rightarrow> 'r \<times> bool \<times> headers" where
  "check_rate_limit R fs fp now key config s =
     (let redis_key = ''rate_limit:'' @ key;
          tokens_per_second = of_int (rl_requests_per_minute config) / 60;
          max_tokens = of_int (rl_burst_size config) in
      case available_tokens R fp now redis_key tokens_per_second max_tokens s of
        Inl _ \<Rightarrow> (s, True, [])
      | Inr new_tokens \<Rightarrow>
          if new_tokens \<ge> 1 then
            let new_tokens = new_tokens - 1;
                s = store_tokens R fs now redis_key new_tokens s
            in if tokens_per_second = 0 then (s, True, [])
               else let reset_in = py_int ((max_tokens - new_tokens) / tokens_per_second) in
                 (s, True,
                  [(''X-RateLimit-Limit'', int_str (rl_requests_per_minute config)),
                   (''X-RateLimit-Remaining'', int_str (py_int new_tokens)),
                   (''X-RateLimit-Reset'', int_str (py_int now + reset_in))])
          else if tokens_per_second = 0 then (s, True, [])
          else let reset_in = py_int ((1 - new_tokens) / tokens_per_second) in
            (s, False,
             [(''X-RateLimit-Limit'', int_str (rl_requests_per_minute config)),
              (''X-RateLimit-Remaining'', ''0''),
              (''X-RateLimit-Reset'', int_str (py_int now + reset_in)),
              (''Retry-After'', int_str reset_in)]))"

definition check_tenant_rate_limit ::
  "'r redis_ops \<Rightarrow> (pyfloat \<Rightarrow> string) \<Rightarrow> (string \<Rightarrow> pyfloat option) \<Rightarrow> pyfloat \<Rightarrow> string \<Rightarrow> string
   \<Rightarrow> int \<Rightarrow> int option \<Rightarrow> 'r \<Rightarrow> 'r \<times> bool \<times> headers" where
  "check_tenant_rate_limit R fs fp now tenant_id limit_type requests_per_minute burst_size s =
     (let burst = (case burst_size of
                     None \<Rightarrow> max 10 (requests_per_minute div 6) | Some b \<Rightarrow> b)
      in check_rate_limit R fs fp now (''tenant:'' @ tenant_id @ '':'' @ limit_type)
           \<lparr>rl_requests_per_minute = requests_per_minute, rl_burst_size = burst\<rparr> s)"

text \<open>
  The middleware. \<open>handler\<close> stands for \<open>call_next\<close>; a response is its status and headers.
\<close>

record http_request =
  hr_path :: string
  hr_method :: string
  hr_api_key :: "string option"
  hr_client :: "string option"

type_synonym http_response = "nat \<times> headers"

definition limit_key_of ::
  "RateLimitConfig \<Rightarrow> RateLimitConfig \<Rightarrow> http_request \<Rightarrow> string \<times> RateLimitConfig" where
  "limit_key_of default_config api_key_config req =
     (if truthy (hr_api_key req)
      then (''api_key:'' @ take 16 (fmt_opt (hr_api_key req)), api_key_config)
      else (''ip:'' @ (case hr_client req of None \<Rightarrow> ''unknown'' | Some h \<Rightarrow> h), default_config))"

definition dispatch ::
  "'r redis_ops \<Rightarrow> (pyfloat \<Rightarrow> string) \<Rightarrow> (string \<Rightarrow> pyfloat option) \<Rightarrow> RateLimitConfig \<Rightarrow> RateLimitConfig
   \<Rightarrow> bool \<Rightarrow> ('r \<Rightarrow> 'r \<times> http_response) \<Rightarrow> pyfloat \<Rightarrow> http_request \<Rightarrow> 'r \<Rightarrow> 'r \<times> http_response" where
  "dispatch R fs fp default_config api_key_config initialized handler now req s =
     (if hr_path req = ''/health'' then handler s
      else if \<not> initialized then handler s
      else
        let (limit_key, config) = limit_key_of default_config api_key_config req in
        case check_rate_limit R fs fp now limit_key config s of
          (s, allowed, hs) \<Rightarrow>
            if \<not> allowed then (s, 429, hs @ [(''Content-Type'', ''application/json'')])
            else (case handler s of (s, code, rh) \<Rightarrow> (s, code, upd_fields rh hs)))"

section \<open>Both limiters are token buckets\<close>

definition bucket_level ::
  "(string \<Rightarrow> pyfloat option) \<Rightarrow> keyspace \<Rightarrow> string \<Rightarrow> rat \<Rightarrow> rat \<Rightarrow> rat \<Rightarrow> rat" where
  "bucket_level fp m key rate cap t =
     (case (map_of (hash_at m key) ''tokens'', map_of (hash_at m key) ''last_update'') of
        (Some a, Some b) \<Rightarrow>
          (case (fp a, fp b) of
             (Some x, Some y) \<Rightarrow> min cap (x + (t - y) * rate) | _ \<Rightarrow> cap)
      | _ \<Rightarrow> cap)"

definition bucket_ok :: "(pyfloat \<Rightarrow> string) \<Rightarrow> keyspace \<Rightarrow> string \<Rightarrow> bool" where
  "bucket_ok fs m key \<longleftrightarrow> hashlike m key \<and>
     (map_of (hash_at m key) ''tokens'' = None \<and> map_of (hash_at m key) ''last_update'' = None \<or>
      (\<exists>x y. map_of (hash_at m key) ''tokens'' = Some (fs x) \<and>
             map_of (hash_at m key) ''last_update'' = Some (fs y)))"

definition dl_admits :: "(bool \<times> int option) result \<Rightarrow> bool" where
  "dl_admits r = (case r of Inr (b, _) \<Rightarrow> b | Inl _ \<Rightarrow> False)"

definition dl_check where
  "dl_check R fs fp key limit t s =
     (case check_token_bucket R fs fp t key limit s of (s', r) \<Rightarrow> (s', dl_admits r))"

definition rl_check where
  "rl_check R fs fp key config t s =
     (case check_rate_limit R fs fp t key config s of (s', b, _) \<Rightarrow> (s', b))"

lemma bucket_level_cap: "bucket_level fp m key rate cap t \<le> cap"
  by (auto simp: bucket_level_def split: option.splits)

lemma refill_min:
  fixes rate :: rat
  assumes "0 < rate" "t \<le> t'"
  shows "min cap (x + (t' - y) * rate) = min cap (min cap (x + (t - y) * rate) + rate * (t' - t))"
proof -
  have "0 \<le> rate * (t' - t)" using assms by simp
  then show ?thesis by (auto simp: min_def algebra_simps)
qed

lemma bucket_level_refill:
  assumes "0 < rate" "t \<le> t'"
  shows "bucket_level fp m key rate cap t'
    = min cap (bucket_level fp m key rate cap t + rate * (t' - t))"
proof -
  have "0 \<le> rate * (t' - t)" using assms by simp
  then show ?thesis
    using refill_min [OF assms] by (auto simp: bucket_level_def split: option.splits)
qed

locale redis_float = redis R contents + float_text fs fp
  for R :: "'r redis_ops" and contents :: "'r \<Rightarrow> keyspace"
    and fs :: "pyfloat \<Rightarrow> string" and fp :: "string \<Rightarrow> pyfloat option"
begin

lemma available:
  "bucket_ok fs (contents s) key \<Longrightarrow>
   available_tokens R fp now key rate cap s = Inr (bucket_level fp (contents s) key rate cap now)"
  by (auto simp: available_tokens_def rhget_def hgetall bucket_ok_def bucket_level_def float_or_def
      parse_str str_nonempty Let_def)

lemma stored:
  assumes "bucket_ok fs (contents s) key" "x \<le> cap"
  shows "bucket_ok fs (contents (store_tokens R fs now key x s)) key"
    and "bucket_level fp (contents (store_tokens R fs now key x s)) key rate cap now = x"
proof -
  have nz: "upd_fields h [p] \<noteq> []" for h p
    by (cases p) (auto simp: upd_fields_def dest: arg_cong [of _ _ map_of] simp: update_conv' fun_eq_iff)
  have h: "hash_at (contents (store_tokens R fs now key x s)) key
      = upd_fields (upd_fields (hash_at (contents s) key) [(''tokens'', fs x)]) [(''last_update'', fs now)]"
    "hashlike (contents (store_tokens R fs now key x s)) key"
    using assms(1) by (simp_all add: store_tokens_def expire hset bucket_ok_def)
  then show "bucket_ok fs (contents (store_tokens R fs now key x s)) key"
    "bucket_level fp (contents (store_tokens R fs now key x s)) key rate cap now = x"
    using assms(2)
    by (auto simp: bucket_ok_def bucket_level_def map_of_upd_fields parse_str)
qed

end

locale dl_bucket = redis_float R contents fs fp
  for R :: "'r redis_ops" and contents :: "'r \<Rightarrow> keyspace"
    and fs :: "pyfloat \<Rightarrow> string" and fp :: "string \<Rightarrow> pyfloat option" +
  fixes key :: string and limit :: int
  assumes limit_pos: "1 \<le> limit"

sublocale dl_bucket \<subseteq> token_bucket "dl_check R fs fp key limit"
  "\<lambda>t s. bucket_level fp (contents s) key (of_int limit / 60) (of_int limit) t"
  "\<lambda>s. bucket_ok fs (contents s) key" "of_int limit / 60" "of_int limit"
proof
  show "(0 :: rat) < of_int limit / 60" "(1 :: rat) \<le> of_int limit" using limit_pos by simp_all
  fix s t assume ok: "bucket_ok fs (contents s) key"
  let ?lv = "bucket_level fp (contents s) key (of_int limit / 60) (of_int limit) t"
  have c: "dl_check R fs fp key limit t s
      = (if 1 \<le> ?lv then (store_tokens R fs t key (?lv - 1) s, True) else (s, False))"
    using limit_pos by (simp add: dl_check_def check_token_bucket_def available [OF ok] dl_admits_def Let_def)
  note st = stored(1) [OF ok, of "?lv - 1" "of_int limit" t]
    stored(2) [OF ok, of "?lv - 1" "of_int limit" t "of_int limit / 60"]
  have le: "?lv - 1 \<le> of_int limit" 
    using bucket_level_cap [of fp "contents s" key "of_int limit / 60" "of_int limit" t] by linarith
  show "?lv \<le> of_int limit" by (rule bucket_level_cap)
  show "snd (dl_check R fs fp key limit t s) = (1 \<le> ?lv)" by (simp add: c)
  show "1 \<le> ?lv \<Longrightarrow> bucket_level fp (contents (fst (dl_check R fs fp key limit t s))) key
      (of_int limit / 60) (of_int limit) t = ?lv - 1" using st(2) [OF le] by (simp add: c)
  show "?lv < 1 \<Longrightarrow> fst (dl_check R fs fp key limit t s) = s" by (simp add: c)
  show "bucket_ok fs (contents (fst (dl_check R fs fp key limit t s))) key"
    using st(1) [OF le] ok by (simp add: c)
next
  fix s and t t' :: rat assume "t \<le> t'"
  then show "bucket_level fp (contents s) key (of_int limit / 60) (of_int limit) t'
      = min (of_int limit) (bucket_level fp (contents s) key (of_int limit / 60) (of_int limit) t
          + of_int limit / 60 * (t' - t))"
    using limit_pos by (intro bucket_level_refill) simp_all
qed

locale rl_bucket = redis_float R contents fs fp
  for R :: "'r redis_ops" and contents :: "'r \<Rightarrow> keyspace"
    and fs :: "pyfloat \<Rightarrow> string" and fp :: "string \<Rightarrow> pyfloat option" +
  fixes key :: string and config :: RateLimitConfig
  assumes config_pos: "1 \<le> rl_requests_per_minute config" "1 \<le> rl_burst_size config"
begin

abbreviation rl_key where "rl_key \<equiv> ''rate_limit:'' @ key"
abbreviation rl_rate :: rat where "rl_rate \<equiv> of_int (rl_requests_per_minute config) / 60"
abbreviation rl_cap :: rat where "rl_cap \<equiv> of_int (rl_burst_size config)"

lemma rl_check_eq:
  assumes "bucket_ok fs (contents s) rl_key"
  shows "rl_check R fs fp key config t s =
    (let lv = bucket_level fp (contents s) rl_key rl_rate rl_cap t in
     if 1 \<le> lv then (store_tokens R fs t rl_key (lv - 1) s, True) else (s, False))"
  using config_pos available [OF assms]
  by (simp add: rl_check_def check_rate_limit_def Let_def)

end

sublocale rl_bucket \<subseteq> token_bucket "rl_check R fs fp key config"
  "\<lambda>t s. bucket_level fp (contents s) rl_key rl_rate rl_cap t"
  "\<lambda>s. bucket_ok fs (contents s) rl_key" rl_rate rl_cap
proof
  show "0 < rl_rate" "1 \<le> rl_cap" using config_pos by simp_all
  fix s t assume ok: "bucket_ok fs (contents s) rl_key"
  let ?lv = "bucket_level fp (contents s) rl_key rl_rate rl_cap t"
  note c = rl_check_eq [OF ok, of t, unfolded Let_def]
  note st = stored(1) [OF ok, of "?lv - 1" rl_cap t] stored(2) [OF ok, of "?lv - 1" rl_cap t rl_rate]
  have le: "?lv - 1 \<le> rl_cap"
    using bucket_level_cap [of fp "contents s" rl_key rl_rate rl_cap t] by linarith
  show "?lv \<le> rl_cap" by (rule bucket_level_cap)
  show "snd (rl_check R fs fp key config t s) = (1 \<le> ?lv)" by (simp add: c)
  show "1 \<le> ?lv \<Longrightarrow> bucket_level fp (contents (fst (rl_check R fs fp key config t s))) rl_key
      rl_rate rl_cap t = ?lv - 1" using st(2) [OF le] by (simp add: c)
  show "?lv < 1 \<Longrightarrow> fst (rl_check R fs fp key config t s) = s" by (simp add: c)
  show "bucket_ok fs (contents (fst (rl_check R fs fp key config t s))) rl_key"
    using st(1) [OF le] ok by (simp add: c)
next
  fix s and t t' :: rat assume "t \<le> t'"
  then show "bucket_level fp (contents s) rl_key rl_rate rl_cap t'
      = min rl_cap (bucket_level fp (contents s) rl_key rl_rate rl_cap t + rl_rate * (t' - t))"
    using config_pos by (intro bucket_level_refill) simp_all
qed

context dl_bucket
begin

lemmas dl_bound = admitted_bound
lemmas dl_after = admitted_after

lemma dl_refused:
  assumes "bucket_ok fs (contents s) key"
    and "check_token_bucket R fs fp t key limit s = (s', Inr (False, Some r))"
  shows "\<not> snd (dl_check R fs fp key limit t s)" "fst (dl_check R fs fp key limit t s) = s'"
    and "r = py_int ((1 - bucket_level fp (contents s) key (of_int limit / 60) (of_int limit) t)
               / (of_int limit / 60)) + 1"
  using assms limit_pos
  by (auto simp: dl_check_def dl_admits_def check_token_bucket_def available Let_def
      split: if_splits)

lemma dl_admitted:
  assumes "bucket_ok fs (contents s) key" "snd (dl_check R fs fp key limit t s)"
  shows "snd (check_token_bucket R fs fp t key limit s) = Inr (True, None)"
  using assms limit_pos
  by (auto simp: dl_check_def dl_admits_def check_token_bucket_def available Let_def
      split: if_splits)

end

context rl_bucket
begin

lemmas rl_bound = admitted_bound
lemmas rl_before = refused_before

lemma rl_refused:
  assumes "bucket_ok fs (contents s) rl_key"
    and "check_rate_limit R fs fp t key config s = (s', False, hs)"
  shows "\<not> snd (rl_check R fs fp key config t s)" "fst (rl_check R fs fp key config t s) = s'"
    and "bucket_level fp (contents s) rl_key rl_rate rl_cap t < 1"
    and "map_of hs ''Retry-After'' = Some (int_str (py_int
           ((1 - bucket_level fp (contents s) rl_key rl_rate rl_cap t) / rl_rate)))"
  using assms config_pos available [OF assms(1)]
  by (auto simp: rl_check_def check_rate_limit_def Let_def split: if_splits)

end

interpretation mem_float: redis_float mem_ops map_of rat_str rat_parse ..

interpretation mem_dl: dl_bucket mem_ops map_of rat_str rat_parse "''dl:limit:tenant:t1''"
  DEFAULT_TENANT_LIMIT_PER_MIN
  by unfold_locales (simp add: DEFAULT_TENANT_LIMIT_PER_MIN_def)

definition demo_config :: RateLimitConfig where
  "demo_config = \<lparr>rl_requests_per_minute = 60, rl_burst_size = 10\<rparr>"

interpretation mem_rl: rl_bucket mem_ops map_of rat_str rat_parse "''ip:10.0.0.1''" demo_config
  by unfold_locales (simp_all add: demo_config_def)

section \<open>Properties\<close>

lemma dl_bucketI:
  "redis R c \<Longrightarrow> float_text fs fp \<Longrightarrow> 1 \<le> limit \<Longrightarrow> dl_bucket R c fs fp limit"
  by (simp add: dl_bucket_def redis_float_def dl_bucket_axioms_def)

lemma rl_bucketI:
  "redis R c \<Longrightarrow> float_text fs fp \<Longrightarrow> 1 \<le> rl_requests_per_minute config \<Longrightarrow>
   1 \<le> rl_burst_size config \<Longrightarrow> rl_bucket R c fs fp config"
  by (simp add: rl_bucket_def redis_float_def rl_bucket_axioms_def)

lemma empty_bucket: "bucket_ok fs (map_of []) key"
  by (simp add: bucket_ok_def hash_at_def)

text \<open>
  Property C7. The downlink limiter keeps its limit: whatever the bucket holds, of requests at
  non-decreasing times spanning \<open>T\<close> seconds it admits at most \<open>limit + limit * T / 60\<close>.
\<close>

theorem downlink_limit_respected:
  assumes "redis R c" "float_text fs fp" "1 \<le> limit" "bucket_ok fs (c s) key" "sorted (t # ts)"
  shows "rat_of_nat (admitted (dl_check R fs fp key limit) ts s)
    \<le> of_int limit + of_int limit / 60 * (last (t # ts) - t)"
  by (rule dl_bucket.dl_bound [OF dl_bucketI [OF assms(1-3)] assms(4,5)])

theorem downlink_limit_respected_witness:
  "rat_of_nat (admitted (dl_check mem_ops rat_str rat_parse ''dl:limit:gw:g1'' 30) [0, 1, 1, 6] [])
     \<le> 33"
  using downlink_limit_respected [OF mem_redis.redis_axioms rat_text.float_text_axioms _ empty_bucket,
      where limit = 30 and t = 0 and ts = "[0, 1, 1, 6]" and key = "''dl:limit:gw:g1''"] by simp

text \<open>
  The wait the downlink limiter asks for is enough: a refused command that is the
  next request after the returned number of seconds is admitted.
\<close>

theorem downlink_retry_sufficient:
  assumes "redis R c" "float_text fs fp" "1 \<le> limit" "bucket_ok fs (c s) key"
    and "check_token_bucket R fs fp t key limit s = (s', Inr (False, Some r))"
  shows "snd (check_token_bucket R fs fp (t + of_int r) key limit s') = Inr (True, None)"
proof -
  note b = dl_bucketI [OF assms(1-3)]
  note r = dl_bucket.dl_refused [OF b assms(4,5)]
  define w where "w = (1 - bucket_level fp (c s) key (of_int limit / 60) (of_int limit) t)
      / (of_int limit / 60 :: rat)"
  have "w \<le> of_int r"
    unfolding r(3) w_def [symmetric] py_int_def by (simp; linarith)
  then have ok: "snd (dl_check R fs fp key limit (t + of_int r) s')"
    using dl_bucket.dl_after [OF b assms(4) r(1), of "of_int r"] by (simp add: r(2) w_def)
  have "s' = s" using assms(5)
    by (auto simp: check_token_bucket_def Let_def split: sum.splits if_splits)
  then show ?thesis using dl_bucket.dl_admitted [OF b assms(4)] ok by simp
qed

definition drained :: "string \<Rightarrow> mem" where
  "drained key = [(key, RHash [(''tokens'', rat_str (1 / 2)), (''last_update'', rat_str 0)])]"

lemma drained_ok: "bucket_ok rat_str (map_of (drained key)) key"
  by (auto simp: bucket_ok_def drained_def hash_at_def hashlike_def)

theorem downlink_retry_sufficient_witness:
  "snd (check_token_bucket mem_ops rat_str rat_parse (0 + of_int 1) ''dl:limit:gw:g1'' 60
     (drained ''dl:limit:gw:g1'')) = Inr (True, None)"
proof -
  have "check_token_bucket mem_ops rat_str rat_parse 0 ''dl:limit:gw:g1'' 60 (drained ''dl:limit:gw:g1'')
      = (drained ''dl:limit:gw:g1'', Inr (False, Some 1))"
    by code_simp
  from downlink_retry_sufficient [OF mem_redis.redis_axioms rat_text.float_text_axioms _ drained_ok this]
  show ?thesis by simp
qed

text \<open>
  A bucket that expires loses nothing: 120 seconds after its last update a bucket of
  the downlink limiter is full again, so the key's time to live does not change any answer.
\<close>

theorem expired_bucket_was_full:
  assumes "redis R c" "float_text fs fp" "1 \<le> limit" "hashlike (c s) key"
    and "map_of (hash_at (c s) key) ''tokens'' = Some (fs x)" "0 \<le> x"
    and "map_of (hash_at (c s) key) ''last_update'' = Some (fs y)" "y + 120 \<le> t"
    and "c s' = (c s)(key := None)"
  shows "snd (check_token_bucket R fs fp t key limit s)
       = snd (check_token_bucket R fs fp t key limit s')"
proof -
  have rf: "redis_float R c fs fp" using assms(1,2) by (simp add: redis_float_def)
  have ok: "bucket_ok fs (c s) key" "bucket_ok fs (c s') key"
    using assms(4,5,7,9) by (auto simp: bucket_ok_def)
  have "of_int limit * 120 \<le> (t - y) * rat_of_int limit"
    using assms(3,8) by (simp add: mult.commute)
  then have "of_int limit \<le> x + (t - y) * (of_int limit / 60)"
    using assms(6,3) by (simp add: field_simps)
  then have "bucket_level fp (c s) key (of_int limit / 60) (of_int limit) t = of_int limit"
    using assms(5,7) float_text.parse_str [OF assms(2)] by (simp add: bucket_level_def)
  moreover have "bucket_level fp (c s') key (of_int limit / 60) (of_int limit) t = of_int limit"
    using assms(9) by (simp add: bucket_level_def)
  ultimately show ?thesis
    using assms(3)
    by (simp add: check_token_bucket_def redis_float.available [OF rf] ok Let_def)
qed

theorem expired_bucket_was_full_witness:
  "snd (check_token_bucket mem_ops rat_str rat_parse 200 ''k'' 60 (drained ''k''))
     = snd (check_token_bucket mem_ops rat_str rat_parse 200 ''k'' 60 [])"
  by (rule expired_bucket_was_full [OF mem_redis.redis_axioms rat_text.float_text_axioms,
        where x = "1 / 2" and y = 0])
    (simp_all add: drained_def hashlike_def hash_at_def)

text \<open>
  The API limiter keeps its limit in the same sense: at most the burst size plus
  \<open>requests_per_minute * T / 60\<close> requests of one client are admitted in \<open>T\<close> seconds.
\<close>

theorem api_limit_respected:
  assumes "redis R c" "float_text fs fp" "1 \<le> rl_requests_per_minute config"
    and "1 \<le> rl_burst_size config" "bucket_ok fs (c s) (''rate_limit:'' @ key)" "sorted (t # ts)"
  shows "rat_of_nat (admitted (rl_check R fs fp key config) ts s)
    \<le> of_int (rl_burst_size config) + of_int (rl_requests_per_minute config) / 60 * (last (t # ts) - t)"
  by (rule rl_bucket.rl_bound [OF rl_bucketI [OF assms(1-4)] assms(5,6)])

theorem api_limit_respected_witness:
  "rat_of_nat (admitted (rl_check mem_ops rat_str rat_parse ''ip:10.0.0.1'' demo_config) [0, 1, 1, 6] [])
     \<le> 16"
  using api_limit_respected [OF mem_redis.redis_axioms rat_text.float_text_axioms _ _ empty_bucket,
      where config = demo_config and t = 0 and ts = "[0, 1, 1, 6]" and key = "''ip:10.0.0.1''"]
  by (simp add: demo_config_def)

text \<open>
  The API limiter's \<open>Retry-After\<close> rounds down: whenever the missing tokens take a
  whole number of seconds plus a fraction, a client that returns after exactly the announced
  number of seconds is refused again.
\<close>

theorem api_retry_after_too_early:
  assumes "redis R c" "float_text fs fp" "1 \<le> rl_requests_per_minute config"
    and "1 \<le> rl_burst_size config" "bucket_ok fs (c s) (''rate_limit:'' @ key)"
    and "check_rate_limit R fs fp t key config s = (s', False, hs)"
    and "map_of hs ''Retry-After'' = Some (int_str r)"
    and "(1 - bucket_level fp (c s) (''rate_limit:'' @ key) (of_int (rl_requests_per_minute config) / 60)
            (of_int (rl_burst_size config)) t) / (of_int (rl_requests_per_minute config) / 60) \<notin> \<int>"
  shows "\<not> fst (snd (check_rate_limit R fs fp (t + of_int r) key config s'))"
proof -
  note b = rl_bucketI [OF assms(1-4)]
  note rr = rl_bucket.rl_refused [OF b assms(5,6)]
  define w where "w = (1 - bucket_level fp (c s) (''rate_limit:'' @ key)
      (of_int (rl_requests_per_minute config) / 60) (of_int (rl_burst_size config)) t)
      / (of_int (rl_requests_per_minute config) / 60 :: rat)"
  have w0: "0 \<le> w" using rr(3) assms(3) by (simp add: w_def)
  have "int_str r = int_str (py_int w)" using rr(4) assms(7) by (simp add: w_def)
  then have r: "r = py_int w" by (metis parse_int_int_str option.inject)
  have nf: "of_int (floor w) \<noteq> w" using assms(8) by (metis Ints_of_int w_def)
  have "of_int (floor w) < w" using nf of_int_floor_le [of w] by (rule order_le_neq_trans [rotated])
  then have "of_int r < w" "0 \<le> (of_int r :: rat)"
    using w0 unfolding r py_int_floor [OF w0] by simp_all
  then have "\<not> snd (rl_check R fs fp key config (t + of_int r) s')"
    using rl_bucket.rl_before [OF b assms(5) rr(1), of "of_int r"] by (simp add: rr(2) w_def)
  then show ?thesis by (auto simp: rl_check_def split: prod.splits)
qed

theorem api_retry_after_too_early_witness:
  "\<not> fst (snd (check_rate_limit mem_ops rat_str rat_parse (0 + of_int 0) ''k'' demo_config
      (drained ''rate_limit:k'')))"
proof -
  let ?hs = "[(''X-RateLimit-Limit'', int_str 60), (''X-RateLimit-Remaining'', ''0''),
      (''X-RateLimit-Reset'', int_str 0), (''Retry-After'', int_str 0)]"
  have c: "check_rate_limit mem_ops rat_str rat_parse 0 ''k'' demo_config (drained ''rate_limit:k'')
      = (drained ''rate_limit:k'', False, ?hs)"
    by code_simp
  have l: "bucket_level rat_parse (map_of (drained ''rate_limit:k'')) (''rate_limit:'' @ ''k'')
      (of_int (rl_requests_per_minute demo_config) / 60) (of_int (rl_burst_size demo_config)) 0 = 1 / 2"
    by code_simp
  have half: "(1 / 2 :: rat) \<notin> \<int>"
  proof
    assume "(1 / 2 :: rat) \<in> \<int>"
    then obtain n where "(1 / 2 :: rat) = of_int n" by (rule Ints_cases)
    then have "rat_of_int (2 * n) = of_int 1" by simp
    then have "2 * n = 1" unfolding of_int_eq_iff .
    then show False by presburger
  qed
  have frac: "(1 - bucket_level rat_parse (map_of (drained ''rate_limit:k'')) (''rate_limit:'' @ ''k'')
      (of_int (rl_requests_per_minute demo_config) / 60) (of_int (rl_burst_size demo_config)) 0)
      / (of_int (rl_requests_per_minute demo_config) / 60) \<notin> \<int>"
    unfolding l using half by (simp add: demo_config_def)
  show ?thesis
  proof (rule api_retry_after_too_early [where c = map_of and s = "drained ''rate_limit:k''"])
    show "redis mem_ops map_of" "float_text rat_str rat_parse"
      by (rule mem_redis.redis_axioms rat_text.float_text_axioms)+
    show "bucket_ok rat_str (map_of (drained ''rate_limit:k'')) (''rate_limit:'' @ ''k'')"
      using drained_ok [of "''rate_limit:k''"] by simp
    show "map_of ?hs ''Retry-After'' = Some (int_str 0)" by simp
  qed (rule c frac | simp add: demo_config_def)+
qed

end
