(* ===== verification/Codec.thy ===== *)
theory Codec
  imports Models "HOL-Library.Word"
begin

text \<open>
  Byte strings and their text encodings, as the platform uses them: \<open>bytes.fromhex\<close>,
  \<open>bytes.hex\<close>, \<open>base64.b64encode\<close> and \<open>base64.b64decode\<close> (the lenient decoder of the standard
  library, which skips characters outside the alphabet and stops at the padding), and the
  conversions \<open>hex_to_base64\<close> and \<open>base64_to_hex\<close> of \<open>src/utils.py\<close>. A byte is an \<open>8 word\<close>.
\<close>

type_synonym byte = "8 word"

section \<open>Hexadecimal text\<close>

definition hex_val :: "char \<Rightarrow> nat option" where
  "hex_val c =
     (if is_digit c then Some (ord c - 48)
      else if 65 \<le> ord c \<and> ord c \<le> 70 then Some (ord c - 55)
      else if 97 \<le> ord c \<and> ord c \<le> 102 then Some (ord c - 87)
      else None)"

definition hex_digit :: "nat \<Rightarrow> char" where
  "hex_digit n = (if n < 10 then char_of (48 + n) else char_of (87 + n))"

text \<open>\<open>bytes.fromhex\<close>: pairs of hex digits, ASCII blanks are skipped between pairs.\<close>

fun bytes_fromhex :: "string \<Rightarrow> byte list option" where
  "bytes_fromhex [] = Some []"
| "bytes_fromhex [c] = (if is_blank c then Some [] else None)"
| "bytes_fromhex (c # d # s) =
     (if is_blank c then bytes_fromhex (d # s)
      else case (hex_val c, hex_val d) of
             (Some h, Some l) \<Rightarrow> map_option ((#) (of_nat (16 * h + l))) (bytes_fromhex s)
           | _ \<Rightarrow> None)"

definition hex_byte :: "byte \<Rightarrow> string" where
  "hex_byte b = [hex_digit (unat b div 16), hex_digit (unat b mod 16)]"

definition bytes_hex :: "byte list \<Rightarrow> string" where
  "bytes_hex bs = concat (map hex_byte bs)"

section \<open>Base64\<close>

definition b64_char :: "nat \<Rightarrow> char" where
  "b64_char n =
     (if n < 26 then char_of (65 + n) else if n < 52 then char_of (71 + n)
      else if n < 62 then char_of (n - 4) else if n = 62 then CHR ''+'' else CHR ''/'')"

definition b64_val :: "char \<Rightarrow> nat option" where
  "b64_val c =
     (if is_upper_char c then Some (ord c - 65)
      else if is_lower_char c then Some (ord c - 71)
      else if is_digit c then Some (ord c + 4)
      else if c = CHR ''+'' then Some 62 else if c = CHR ''/'' then Some 63 else None)"

fun b64encode :: "byte list \<Rightarrow> string" where
  "b64encode [] = []"
| "b64encode [a] = [b64_char (unat a div 4), b64_char (unat a mod 4 * 16), CHR ''='', CHR ''='']"
| "b64encode [a, b] =
     [b64_char (unat a div 4), b64_char (unat a mod 4 * 16 + unat b div 16),
      b64_char (unat b mod 16 * 4), CHR ''='']"
| "b64encode (a # b # c # bs) =
     [b64_char (unat a div 4), b64_char (unat a mod 4 * 16 + unat b div 16),
      b64_char (unat b mod 16 * 4 + unat c div 64), b64_char (unat c mod 64)] @ b64encode bs"

text \<open>
  The decoder's loop: the position in the current group of four, the bits left over from the
  last character, the number of padding characters seen.
\<close>

fun b64_loop :: "string \<Rightarrow> nat \<Rightarrow> nat \<Rightarrow> nat \<Rightarrow> byte list result" where
  "b64_loop [] quad left pads =
     (if quad = 0 then Inr []
      else if quad = 1 then Inl (ValueError ''Invalid base64-encoded string'')
      else Inl (ValueError ''Incorrect padding''))"
| "b64_loop (c # cs) quad left pads =
     (if c = CHR ''='' then
        (if quad \<ge> 2 then if quad + (pads + 1) \<ge> 4 then Inr [] else b64_loop cs quad left (pads + 1)
         else b64_loop cs quad left pads)
      else case b64_val c of
        None \<Rightarrow> b64_loop cs quad left pads
      | Some v \<Rightarrow>
          if quad = 0 then b64_loop cs 1 v 0
          else if quad = 1
            then map_sum id ((#) (of_nat (left * 4 + v div 16))) (b64_loop cs 2 (v mod 16) 0)
          else if quad = 2
            then map_sum id ((#) (of_nat (left * 16 + v div 4))) (b64_loop cs 3 (v mod 4) 0)
          else map_sum id ((#) (of_nat (left * 64 + v))) (b64_loop cs 0 0 0))"

definition b64decode :: "string \<Rightarrow> byte list result" where
  "b64decode s =
     (if list_ex (\<lambda>c. ord c \<ge> 128) s
      then Inl (ValueError ''string argument should contain only ASCII characters'')
      else b64_loop s 0 0 0)"

section \<open>Conversions of \<open>utils.py\<close>\<close>

definition hex_to_base64 :: "string \<Rightarrow> string result" where
  "hex_to_base64 hex_string =
     (case bytes_fromhex hex_string of
        None \<Rightarrow> Inl (ValueError (''Invalid hex string: '' @ hex_string))
      | Some bytes_data \<Rightarrow> Inr (b64encode bytes_data))"

definition base64_to_hex :: "string \<Rightarrow> string result" where
  "base64_to_hex base64_string =
     (case b64decode base64_string of
        Inl _ \<Rightarrow> Inl (ValueError (''Invalid base64 string: '' @ base64_string))
      | Inr bytes_data \<Rightarrow> Inr (bytes_hex bytes_data))"

section \<open>Round trips\<close>

lemma char_neqI: "ord c \<noteq> ord d \<Longrightarrow> c \<noteq> d"
  by auto

lemma ord_char_of: "n < 256 \<Longrightarrow> ord (char_of n) = n"
  by (simp add: of_char_of)

lemma hex_digit_props: "n < 16 \<Longrightarrow> hex_val (hex_digit n) = Some n \<and> \<not> is_blank (hex_digit n)"
proof -
  assume "n < 16"
  then have o: "ord (hex_digit n) = (if n < 10 then 48 + n else 87 + n)"
    by (simp add: hex_digit_def ord_char_of)
  then have "hex_digit n \<noteq> CHR '' ''" by (intro char_neqI) simp
  with o \<open>n < 16\<close> show ?thesis by (simp add: hex_val_def is_blank_def is_digit_def)
qed

lemma unat_byte [simp]: "unat (b :: byte) < 256"
  using unsigned_less [of b] by simp

lemma byte_hi: "unat (b :: byte) div 16 < 16"
  using unat_byte [of b] by linarith

lemma fromhex_hex_byte:
  "bytes_fromhex (hex_byte b @ s) = map_option ((#) b) (bytes_fromhex s)"
proof -
  have "of_nat (16 * (unat b div 16) + unat b mod 16) = b" by simp
  then show ?thesis
    using hex_digit_props [OF byte_hi] hex_digit_props [of "unat b mod 16"]
    by (simp add: hex_byte_def)
qed

lemma bytes_fromhex_hex [simp]: "bytes_fromhex (bytes_hex bs) = Some bs"
  by (induction bs) (simp_all add: bytes_hex_def fromhex_hex_byte)

lemma b64_char_props:
  assumes "n < 64"
  shows "b64_val (b64_char n) = Some n" "b64_char n \<noteq> CHR ''=''" "ord (b64_char n) < 128"
proof -
  have o: "ord (b64_char n) = (if n < 26 then 65 + n else if n < 52 then 71 + n
      else if n < 62 then n - 4 else if n = 62 then 43 else 47)"
    using assms by (simp add: b64_char_def ord_char_of)
  then show "b64_char n \<noteq> CHR ''=''" using assms by (intro char_neqI) (auto split: if_splits)
  show "ord (b64_char n) < 128" using o assms by (auto split: if_splits)
  consider "n < 62" | "n = 62" | "n = 63" using assms by linarith
  then show "b64_val (b64_char n) = Some n"
  proof cases
    case 1
    with o show ?thesis
      by (simp add: b64_val_def is_upper_char_def is_lower_char_def is_digit_def) linarith
  qed (simp_all add: b64_char_def b64_val_def is_upper_char_def is_lower_char_def is_digit_def)
qed

lemma b64_sextets:
  fixes a b c :: byte
  shows "unat a div 4 < 64" "unat a mod 4 * 16 < 64" "unat a mod 4 * 16 + unat b div 16 < 64"
    "unat b mod 16 * 4 < 64" "unat b mod 16 * 4 + unat c div 64 < 64" "unat c mod 64 < 64"
proof -
  show "unat a div 4 < 64" using unat_byte [of a] by linarith
  have "unat a mod 4 < 4" "unat b mod 16 < 16" by simp_all
  moreover have "unat b div 16 < 16" "unat c div 64 < 4"
    using unat_byte [of b] unat_byte [of c] by linarith+
  ultimately show "unat a mod 4 * 16 < 64" "unat a mod 4 * 16 + unat b div 16 < 64"
    "unat b mod 16 * 4 < 64" "unat b mod 16 * 4 + unat c div 64 < 64" by linarith+
qed simp

lemma byte_parts [simp]:
  "unat (b :: byte) div 16 div 16 = 0" "unat b div 16 mod 16 = unat b div 16"
  "unat b div 64 div 4 = 0" "unat b div 64 mod 4 = unat b div 64"
  using unat_byte [of b] by (simp_all add: div_mult2_eq [symmetric] less_mult_imp_div_less)

lemma b64_loop_encode: "b64_loop (b64encode bs) 0 left pads = Inr bs"
  by (induction bs arbitrary: left pads rule: b64encode.induct)
    (simp_all add: b64_char_props b64_sextets del: of_nat_add of_nat_mult)

lemma b64encode_ascii: "c \<in> set (b64encode bs) \<Longrightarrow> ord c < (128::nat)"
  by (induction bs rule: b64encode.induct) (auto simp: b64_char_props b64_sextets)

lemma b64decode_encode [simp]: "b64decode (b64encode bs) = Inr bs"
  using b64encode_ascii [of _ bs]
  by (auto simp: b64decode_def b64_loop_encode list_ex_iff not_le [symmetric])

lemma b64decode_Nil [simp]: "b64decode [] = Inr []"
  by (simp add: b64decode_def)

end
