(* ===== verification/Downlink_Worker.thy ===== *)
theory Downlink_Worker
  imports Token_Bucket Codec
begin

text \<open>
  The worker that empties the downlink queue (\<open>DownlinkWorker\<close> of \<open>src/downlink_queue.py\<close>) and the
  monitoring endpoints over the queue (\<open>src/routers/downlink_monitor.py\<close>).

  The worker is given a queue, a rate limiter and a ChirpStack client; here it takes them as the
  record \<open>worker_ops\<close>, and the locale \<open>downlink_worker\<close> states what it relies on. The locale is
  instantiated with the queue and the limiter of the platform. ChirpStack is the function
  \<open>w_send\<close>: it accepts a downlink (\<open>None\<close>) or raises an exception with a text.
\<close>

section \<open>The worker\<close>

record 's worker_ops =
  w_dequeue :: "pyfloat \<Rightarrow> 's \<Rightarrow> 's \<times> DownlinkCommand option result"
  w_success :: "pyfloat \<Rightarrow> DownlinkCommand \<Rightarrow> 's \<Rightarrow> 's"
  w_failure :: "pyfloat \<Rightarrow> DownlinkCommand \<Rightarrow> string \<Rightarrow> 's \<Rightarrow> 's"
  w_gateway_limit :: "pyfloat \<Rightarrow> string option \<Rightarrow> 's \<Rightarrow> 's \<times> (bool \<times> int option) result"
  w_tenant_limit :: "pyfloat \<Rightarrow> string option \<Rightarrow> 's \<Rightarrow> 's \<times> (bool \<times> int option) result"
  w_send :: "DownlinkCommand \<Rightarrow> byte list \<Rightarrow> string option"

fun py_str :: "py_error \<Rightarrow> string" where
  "py_str (ValueError m) = m"
| "py_str (KeyError m) = m"
| "py_str (UnboundLocalError m) = m"
| "py_str (NameError m) = m"
| "py_str (RuntimeError m) = m"
| "py_str TypeError = ''TypeError''"
| "py_str AttributeError = ''AttributeError''"
| "py_str ZeroDivisionError = ''float division by zero''"
| "py_str IndexError = ''list index out of range''"

text \<open>The seconds a refused check asks the worker to sleep.\<close>

definition wait_of :: "int option \<Rightarrow> pyfloat" where
  "wait_of r = (case r of None \<Rightarrow> 0 | Some n \<Rightarrow> of_int n)"

text \<open>
  \<open>_process_command\<close>. The second component is what was handed to ChirpStack, if anything. An
  exception anywhere in the body is caught and marks the command as failed with its text.
\<close>

definition send_downlink ::
  "'s worker_ops \<Rightarrow> pyfloat \<Rightarrow> DownlinkCommand \<Rightarrow> 's \<Rightarrow> 's \<times> (DownlinkCommand \<times> byte list) option" where
  "send_downlink W now cmd s =
     (case bytes_fromhex (dc_payload cmd) of
        None \<Rightarrow> (w_failure W now cmd ''non-hexadecimal number found in fromhex() arg'' s, None)
      | Some payload_bytes \<Rightarrow>
          (case w_send W cmd payload_bytes of
             Some error_msg \<Rightarrow> (w_failure W now cmd error_msg s, None)
           | None \<Rightarrow> (w_success W now cmd s, Some (cmd, payload_bytes))))"

definition tenant_gate ::
  "'s worker_ops \<Rightarrow> pyfloat \<Rightarrow> DownlinkCommand \<Rightarrow> 's \<Rightarrow> 's \<times> (DownlinkCommand \<times> byte list) option" where
  "tenant_gate W now cmd s =
     (case w_tenant_limit W now (dc_tenant_id cmd) s of
        (s, Inl e) \<Rightarrow> (w_failure W now cmd (py_str e) s, None)
      | (s, Inr (allowed, retry)) \<Rightarrow>
          if \<not> allowed
          then (w_failure W (now + wait_of retry) cmd ''Tenant rate limited'' s, None)
          else send_downlink W now cmd s)"

definition process_command ::
  "'s worker_ops \<Rightarrow> pyfloat \<Rightarrow> DownlinkCommand \<Rightarrow> 's \<Rightarrow> 's \<times> (DownlinkCommand \<times> byte list) option" where
  "process_command W now cmd s =
     (if truthy (dc_gateway_id cmd) then
        (case w_gateway_limit W now (dc_gateway_id cmd) s of
           (s, Inl e) \<Rightarrow> (w_failure W now cmd (py_str e) s, None)
         | (s, Inr (allowed, retry)) \<Rightarrow>
             if \<not> allowed
             then (w_failure W (now + wait_of retry) cmd ''Gateway rate limited'' s, None)
             else tenant_gate W now cmd s)
      else tenant_gate W now cmd s)"

text \<open>
  One round of \<open>_run_loop\<close>: nothing to do, an exception of \<open>dequeue\<close> (logged; the id is already
  off the queue), or a command processed.
\<close>

definition run_round ::
  "'s worker_ops \<Rightarrow> pyfloat \<Rightarrow> 's \<Rightarrow> 's \<times> (DownlinkCommand \<times> byte list) option" where
  "run_round W now s =
     (case w_dequeue W now s of
        (s, Inl _) \<Rightarrow> (s, None)
      | (s, Inr None) \<Rightarrow> (s, None)
      | (s, Inr (Some cmd)) \<Rightarrow> process_command W now cmd s)"

text \<open>The worker of \<open>main.py\<close>: the Redis queue and the Redis limiter with the default limits.\<close>

definition redis_worker ::
  "'r redis_ops \<Rightarrow> dl_env \<Rightarrow> (DownlinkCommand \<Rightarrow> byte list \<Rightarrow> string option) \<Rightarrow> 'r worker_ops" where
  "redis_worker R E send =
     \<lparr>w_dequeue = dequeue R E,
      w_success = mark_success R,
      w_failure = (\<lambda>now cmd err s. mark_failure R E now cmd err True s),
      w_gateway_limit = (\<lambda>now g s. check_gateway_limit R (float_str E) (parse_float E) now g None s),
      w_tenant_limit = (\<lambda>now t s. check_tenant_limit R (float_str E) (parse_float E) now t None s),
      w_send = send\<rparr>"

section \<open>Monitoring endpoints\<close>

record queue_health =
  qh_status :: string
  qh_queue_depth :: nat
  qh_dead_letter_depth :: nat
  qh_warnings :: nat

text \<open>
  \<open>get_queue_health\<close>: the status and the number of warnings; \<open>None\<close> is the answer
  \<open>"status": "error"\<close> when the metrics cannot be read.
\<close>

definition queue_health_of :: "queue_metrics \<Rightarrow> queue_health" where
  "queue_health_of m =
     (let (w1, st1) =
            (if queue_depth m > 500 then (1, ''unhealthy'')
             else if queue_depth m > 100 then (1, ''degraded'') else (0, ''healthy''));
          (w2, st2) =
            (if dead_letter_depth m > 10
             then (w1 + 1, if st1 = ''healthy'' then ''degraded'' else st1) else (w1, st1));
          (w3, st3) =
            (if total_enqueued m > 10 \<and> success_rate m < 90
             then (w2 + 1, if st2 = ''healthy'' then ''degraded'' else st2) else (w2, st2))
      in \<lparr>qh_status = st3, qh_queue_depth = queue_depth m,
          qh_dead_letter_depth = dead_letter_depth m, qh_warnings = w3\<rparr>)"

definition get_queue_health :: "'r redis_ops \<Rightarrow> 'r \<Rightarrow> queue_health option" where
  "get_queue_health R s = (case get_metrics R s of Inl _ \<Rightarrow> None | Inr m \<Rightarrow> Some (queue_health_of m))"

definition get_queue_metrics :: "'r redis_ops \<Rightarrow> 'r \<Rightarrow> http_error + queue_metrics" where
  "get_queue_metrics R s =
     (case get_metrics R s of Inl e \<Rightarrow> Inl (HTTPException 500 (py_str e)) | Inr m \<Rightarrow> Inr m)"

definition clear_queue_metrics :: "'r redis_ops \<Rightarrow> 'r \<Rightarrow> 'r" where
  "clear_queue_metrics R s = clear_metrics R s"

section \<open>What the worker relies on\<close>

locale downlink_worker =
  fixes W :: "'s worker_ops" and view :: "'s \<Rightarrow> dlq" and ok :: "'s \<Rightarrow> bool" and E :: dl_env
  assumes success: "ok s \<Longrightarrow> ok (w_success W now cmd s) \<and>
      view (w_success W now cmd s) = spec_success cmd (view s)"
    and failure: "ok s \<Longrightarrow> ok (w_failure W now cmd err s) \<and>
      view (w_failure W now cmd err s) = spec_failure E now cmd err True (view s)"
    and gateway: "ok s \<Longrightarrow> ok (fst (w_gateway_limit W now g s)) \<and>
      view (fst (w_gateway_limit W now g s)) = view s"
    and tenant: "ok s \<Longrightarrow> ok (fst (w_tenant_limit W now t s)) \<and>
      view (fst (w_tenant_limit W now t s)) = view s"
begin

lemma send_outcome:
  assumes "ok s"
  shows "ok (fst (send_downlink W now cmd s))"
    and "(\<exists>bs. snd (send_downlink W now cmd s) = Some (cmd, bs) \<and> bytes_fromhex (dc_payload cmd) = Some bs
            \<and> w_send W cmd bs = None \<and> view (fst (send_downlink W now cmd s)) = spec_success cmd (view s))
       \<or> (snd (send_downlink W now cmd s) = None
            \<and> (\<exists>err. view (fst (send_downlink W now cmd s)) = spec_failure E now cmd err True (view s)))"
  using success [OF assms] failure [OF assms]
  by (auto simp: send_downlink_def split: option.splits)

lemma tenant_outcome:
  assumes "ok s"
  shows "ok (fst (tenant_gate W now cmd s))"
    and "(\<exists>bs. snd (tenant_gate W now cmd s) = Some (cmd, bs) \<and> bytes_fromhex (dc_payload cmd) = Some bs
            \<and> w_send W cmd bs = None \<and> view (fst (tenant_gate W now cmd s)) = spec_success cmd (view s))
       \<or> (snd (tenant_gate W now cmd s) = None
            \<and> (\<exists>t err. view (fst (tenant_gate W now cmd s)) = spec_failure E t cmd err True (view s)))"
proof -
  obtain s1 r where t: "w_tenant_limit W now (dc_tenant_id cmd) s = (s1, r)"
    by (cases "w_tenant_limit W now (dc_tenant_id cmd) s")
  have s1: "ok s1" "view s1 = view s" using tenant [OF assms, of now "dc_tenant_id cmd"] t by auto
  show "ok (fst (tenant_gate W now cmd s))"
    using failure [OF s1(1)] send_outcome(1) [OF s1(1)]
    by (auto simp: tenant_gate_def t split: sum.split)
  show "(\<exists>bs. snd (tenant_gate W now cmd s) = Some (cmd, bs) \<and> bytes_fromhex (dc_payload cmd) = Some bs
            \<and> w_send W cmd bs = None \<and> view (fst (tenant_gate W now cmd s)) = spec_success cmd (view s))
       \<or> (snd (tenant_gate W now cmd s) = None
            \<and> (\<exists>t err. view (fst (tenant_gate W now cmd s)) = spec_failure E t cmd err True (view s)))"
    using failure [OF s1(1)] send_outcome(2) [OF s1(1), of now cmd] s1(2)
    by (auto simp: tenant_gate_def t split: sum.split)
qed

text \<open>Every processed command is sent and forgotten, or marked as failed; never both.\<close>

lemma process_outcome:
  assumes "ok s"
  shows "ok (fst (process_command W now cmd s))"
    and "(\<exists>bs. snd (process_command W now cmd s) = Some (cmd, bs) \<and> bytes_fromhex (dc_payload cmd) = Some bs
            \<and> w_send W cmd bs = None \<and> view (fst (process_command W now cmd s)) = spec_success cmd (view s))
       \<or> (snd (process_command W now cmd s) = None
            \<and> (\<exists>t err. view (fst (process_command W now cmd s)) = spec_failure E t cmd err True (view s)))"
proof -
  obtain s1 r where g: "w_gateway_limit W now (dc_gateway_id cmd) s = (s1, r)"
    by (cases "w_gateway_limit W now (dc_gateway_id cmd) s")
  have s1: "ok s1" "view s1 = view s" using gateway [OF assms, of now "dc_gateway_id cmd"] g by auto
  show "ok (fst (process_command W now cmd s))"
    using failure [OF s1(1)] tenant_outcome(1) [OF s1(1)] tenant_outcome(1) [OF assms]
    by (auto simp: process_command_def g split: sum.split)
  show "(\<exists>bs. snd (process_command W now cmd s) = Some (cmd, bs) \<and> bytes_fromhex (dc_payload cmd) = Some bs
            \<and> w_send W cmd bs = None \<and> view (fst (process_command W now cmd s)) = spec_success cmd (view s))
       \<or> (snd (process_command W now cmd s) = None
            \<and> (\<exists>t err. view (fst (process_command W now cmd s)) = spec_failure E t cmd err True (view s)))"
    using failure [OF s1(1)] tenant_outcome(2) [OF s1(1), of now cmd] tenant_outcome(2) [OF assms, of now cmd] s1(2)
    by (auto simp: process_command_def g split: sum.split)
qed

end

section \<open>The queue and the limiter do not interfere\<close>

definition limit_key :: "string \<Rightarrow> string" where "limit_key x = ''dl:limit:'' @ x"

lemma limit_key_neq [simp]:
  "limit_key x \<noteq> PENDING_KEY" "limit_key x \<noteq> DEAD_LETTER_KEY" "limit_key x \<noteq> cmd_key i"
  "limit_key x \<noteq> coalesce_key d" "limit_key x \<noteq> last_hash_key d" "limit_key x \<noteq> metric_key n"
  "PENDING_KEY \<noteq> limit_key x" "DEAD_LETTER_KEY \<noteq> limit_key x" "cmd_key i \<noteq> limit_key x"
  "coalesce_key d \<noteq> limit_key x" "last_hash_key d \<noteq> limit_key x" "metric_key n \<noteq> limit_key x"
  "limit_key x = limit_key y \<longleftrightarrow> x = y"
  by (simp_all add: limit_key_def key_defs)

lemma dlq_of_limit [simp]: "dlq_of (put_hash m (limit_key x) h) = dlq_of m"
  by (simp add: dlq_of_def del: q_of_keys)

lemma dl_typed_limit [simp]: "dl_typed m \<Longrightarrow> dl_typed (put_hash m (limit_key x) h)"
  unfolding dl_typed_def by simp

lemma bucket_ok_cong: "m k = m' k \<Longrightarrow> bucket_ok fs m k = bucket_ok fs m' k"
  by (simp add: bucket_ok_def hashlike_def hash_at_def)

definition limits_ok :: "dl_env \<Rightarrow> keyspace \<Rightarrow> bool" where
  "limits_ok E m \<longleftrightarrow> (\<forall>x. bucket_ok (float_str E) m (limit_key x))"

lemma limits_ok_cong: "(\<And>x. m (limit_key x) = m' (limit_key x)) \<Longrightarrow> limits_ok E m = limits_ok E m'"
  unfolding limits_ok_def by (metis bucket_ok_cong)

context redis
begin

lemma incr_frame [simp]:
  "dl_typed (contents s) \<Longrightarrow> n \<in> set counter_names \<Longrightarrow>
   contents (increment_metric R n s) (limit_key x) = contents s (limit_key x)"
  using incr_metric [of s n] by auto

lemma latency_frame [simp]:
  "dl_typed (contents s) \<Longrightarrow> contents (record_latency R l s) (limit_key x) = contents s (limit_key x)"
  by (simp add: record_latency_def rpush lkeep)

lemma success_frame: "dl_typed (contents s) \<Longrightarrow>
    contents (mark_success R now cmd s) (limit_key x) = contents s (limit_key x)"
  by (simp add: mark_success_def Let_def set del)

lemma failure_frame: "dl_typed (contents s) \<Longrightarrow>
    contents (mark_failure R E now cmd err rq s) (limit_key x) = contents s (limit_key x)"
  by (simp add: mark_failure_def move_to_dead_letter_def Let_def rpush del hset)

lemma store_frame:
  assumes "dl_typed (contents s)" "limits_ok E (contents s)"
    and "float_text (float_str E) (parse_float E)"
    and s'_def: "s' = store_tokens R (float_str E) now (limit_key x) v s"
  shows "dl_typed (contents s')" "dlq_of (contents s') = dlq_of (contents s)" "limits_ok E (contents s')"
proof -
  have rf: "redis_float R contents (float_str E) (parse_float E)"
    using assms(3) redis_axioms by (simp add: redis_float_def)
  have b: "bucket_ok (float_str E) (contents s) (limit_key x)" using assms(2) by (simp add: limits_ok_def)
  then have h: "hashlike (contents s) (limit_key x)" by (simp add: bucket_ok_def)
  have c: "contents s' = put_hash (put_hash (contents s) (limit_key x)
        (upd_fields (hash_at (contents s) (limit_key x)) [(''tokens'', float_str E v)])) (limit_key x)
        (upd_fields (upd_fields (hash_at (contents s) (limit_key x)) [(''tokens'', float_str E v)])
          [(''last_update'', float_str E now)])"
    using h by (simp add: s'_def store_tokens_def expire hset)
  show "dl_typed (contents s')" "dlq_of (contents s') = dlq_of (contents s)"
    unfolding c using assms(1) by simp_all
  show "limits_ok E (contents s')" unfolding limits_ok_def
  proof
    fix y show "bucket_ok (float_str E) (contents s') (limit_key y)"
    proof (cases "y = x")
      case True
      then show ?thesis
        using redis_float.stored(1) [OF rf b, of v "max v 0"] by (simp add: s'_def)
    next
      case False
      then have "contents s' (limit_key y) = contents s (limit_key y)" by (simp add: c)
      then show ?thesis using assms(2) bucket_ok_cong unfolding limits_ok_def by metis
    qed
  qed
qed

lemma limit_frame:
  assumes "dl_typed (contents s)" "limits_ok E (contents s)"
    and "float_text (float_str E) (parse_float E)"
    and s'_def: "s' = fst (check_token_bucket R (float_str E) (parse_float E) now (limit_key x) l s)"
  shows "dl_typed (contents s') \<and> limits_ok E (contents s') \<and> dlq_of (contents s') = dlq_of (contents s)"
  using assms(1,2) store_frame [OF assms(1-3) refl, of now x]
  by (auto simp: s'_def check_token_bucket_def Let_def split: sum.split)

end

text \<open>The platform's queue and limiter are what the worker relies on.\<close>

locale redis_dl_worker = redis R contents
  for R :: "'r redis_ops" and contents :: "'r \<Rightarrow> keyspace" +
  fixes E :: dl_env and send :: "DownlinkCommand \<Rightarrow> byte list \<Rightarrow> string option"
  assumes floats: "float_text (float_str E) (parse_float E)"

sublocale redis_dl_worker \<subseteq> downlink_worker "redis_worker R E send" "\<lambda>s. dlq_of (contents s)"
  "\<lambda>s. dl_typed (contents s) \<and> limits_ok E (contents s)" E
proof
  fix s now cmd err g assume ok: "dl_typed (contents s) \<and> limits_ok E (contents s)"
  then have t: "dl_typed (contents s)" by simp
  have "limits_ok E (contents (mark_success R now cmd s))"
    using ok limits_ok_cong [of "contents (mark_success R now cmd s)" "contents s"]
      success_frame [OF t] by simp
  then show "(dl_typed (contents (w_success (redis_worker R E send) now cmd s))
        \<and> limits_ok E (contents (w_success (redis_worker R E send) now cmd s)))
      \<and> dlq_of (contents (w_success (redis_worker R E send) now cmd s)) = spec_success cmd (dlq_of (contents s))"
    using mark_success_step [OF t] by (simp add: redis_worker_def)
  have "limits_ok E (contents (mark_failure R E now cmd err True s))"
    using ok limits_ok_cong [of "contents (mark_failure R E now cmd err True s)" "contents s"]
      failure_frame [OF t] by simp
  then show "(dl_typed (contents (w_failure (redis_worker R E send) now cmd err s))
        \<and> limits_ok E (contents (w_failure (redis_worker R E send) now cmd err s)))
      \<and> dlq_of (contents (w_failure (redis_worker R E send) now cmd err s))
          = spec_failure E now cmd err True (dlq_of (contents s))"
    using mark_failure_step [OF t] by (simp add: redis_worker_def)
  have k: "''dl:limit:gw:'' @ x = limit_key (''gw:'' @ x)"
    "''dl:limit:tenant:'' @ x = limit_key (''tenant:'' @ x)" for x
    by (simp_all add: limit_key_def)
  note fr = limit_frame [OF t _ floats refl]
  show "(dl_typed (contents (fst (w_gateway_limit (redis_worker R E send) now g s)))
        \<and> limits_ok E (contents (fst (w_gateway_limit (redis_worker R E send) now g s))))
      \<and> dlq_of (contents (fst (w_gateway_limit (redis_worker R E send) now g s))) = dlq_of (contents s)"
    using ok fr unfolding redis_worker_def check_gateway_limit_def k by simp
  show "(dl_typed (contents (fst (w_tenant_limit (redis_worker R E send) now t s)))
        \<and> limits_ok E (contents (fst (w_tenant_limit (redis_worker R E send) now t s))))
      \<and> dlq_of (contents (fst (w_tenant_limit (redis_worker R E send) now t s))) = dlq_of (contents s)"
    for t
    using ok fr unfolding redis_worker_def check_tenant_limit_def k by simp
qed

context redis_dl_worker
begin

lemmas dl_process = process_outcome

end

interpretation mem_worker: redis_dl_worker mem_ops map_of demo_env "\<lambda>_ _. None"
  by unfold_locales (simp_all add: demo_env_def rat_text.parse_str rat_text.str_nonempty)

section \<open>Properties\<close>

text \<open>
  Property C9. Each processed command has exactly one outcome. Either ChirpStack accepted its
  decoded payload and the queue forgets it and remembers its hash; or nothing was sent and it is
  at the end of the pending list with one more attempt; or nothing was sent, five attempts are
  used up, and it is the last dead letter. The limiter's keys never disturb the queue.
\<close>

theorem process_command_outcome:
  fixes R :: "'r redis_ops"
  assumes "redis R c" "float_text (float_str E) (parse_float E)" "dl_typed (c s)" "limits_ok E (c s)"
    and W: "W = redis_worker R E send" and r: "process_command W now cmd s = (s', sent)"
  shows "(\<exists>bs. sent = Some (cmd, bs) \<and> bytes_fromhex (dc_payload cmd) = Some bs \<and> send cmd bs = None
            \<and> dlq_of (c s') = spec_success cmd (dlq_of (c s)))
       \<or> (sent = None \<and> dc_attempts cmd + 1 < 5
            \<and> q_pending (dlq_of (c s')) = q_pending (dlq_of (c s)) @ [dc_id cmd]
            \<and> q_dead (dlq_of (c s')) = q_dead (dlq_of (c s)))
       \<or> (sent = None \<and> dc_attempts cmd + 1 \<ge> 5
            \<and> q_pending (dlq_of (c s')) = q_pending (dlq_of (c s))
            \<and> (\<exists>t err. q_dead (dlq_of (c s'))
                 = q_dead (dlq_of (c s)) @ [json_dead E (failed_cmd t err cmd) t]))"
proof -
  have w: "redis_dl_worker R c E" using assms(1,2) by (simp add: redis_dl_worker_def redis_dl_worker_axioms_def)
  have snd: "w_send W = send" by (simp add: W redis_worker_def)
  consider bs where "sent = Some (cmd, bs)" "bytes_fromhex (dc_payload cmd) = Some bs"
      "send cmd bs = None" "dlq_of (c s') = spec_success cmd (dlq_of (c s))"
    | t err where "sent = None" "dlq_of (c s') = spec_failure E t cmd err True (dlq_of (c s))"
    using redis_dl_worker.dl_process(2) [OF w conjI [OF assms(3,4)], of send now cmd] r snd
    unfolding W by auto
  then show ?thesis
  proof cases
    case 2
    then show ?thesis
      by (cases "dc_attempts cmd + 1 < 5") (auto simp: spec_failure_def MAX_ATTEMPTS_def Let_def)
  qed blast
qed

lemma mem_limits: "limits_ok E (map_of [])"
  by (simp add: limits_ok_def bucket_ok_def hash_at_def)

theorem process_command_outcome_witness:
  "\<exists>s' sent. process_command (redis_worker mem_ops demo_env (\<lambda>_ _. Some ''down'')) 7
      (new_command demo_env 5 ''c1'' (demo_args ''FF'')) [] = (s', sent)
    \<and> sent = None \<and> q_pending (dlq_of (map_of s')) = [''c1'']"
proof -
  let ?W = "redis_worker mem_ops demo_env (\<lambda>_ _. Some ''down'')"
  let ?cmd = "new_command demo_env 5 ''c1'' (demo_args ''FF'')"
  obtain s' sent where r: "process_command ?W 7 ?cmd [] = (s', sent)" by (metis surj_pair)
  from process_command_outcome [OF mem_redis.redis_axioms demo_float empty_typed mem_limits refl r] r
  show ?thesis by auto
qed

text \<open>
  A refusal by the rate limiter counts as a failed attempt although nothing was sent:
  a command whose tenant bucket is empty at its fifth turn goes to the dead letters without
  ChirpStack having been asked, whatever ChirpStack would have answered.
\<close>

theorem rate_limited_dead_lettered:
  fixes R :: "'r redis_ops"
  assumes "redis R c" "float_text (float_str E) (parse_float E)" "dl_typed (c s)" "limits_ok E (c s)"
    and "dc_gateway_id cmd = None" "dc_attempts cmd = 4"
    and "bucket_level (parse_float E) (c s) (''dl:limit:tenant:'' @ fmt_opt (dc_tenant_id cmd))
           (of_int 100 / 60) (of_int 100) now < 1"
    and r: "process_command (redis_worker R E send) now cmd s = (s', sent)"
  shows "sent = None \<and> q_pending (dlq_of (c s')) = q_pending (dlq_of (c s))
    \<and> length (q_dead (dlq_of (c s'))) = length (q_dead (dlq_of (c s))) + 1"
proof -
  let ?k = "''dl:limit:tenant:'' @ fmt_opt (dc_tenant_id cmd)"
  have rf: "redis_float R c (float_str E) (parse_float E)" using assms(1,2) by (simp add: redis_float_def)
  have "?k = limit_key (''tenant:'' @ fmt_opt (dc_tenant_id cmd))" by (simp add: limit_key_def)
  then have ok: "bucket_ok (float_str E) (c s) ?k" using assms(4) by (metis limits_ok_def)
  obtain n where "check_tenant_limit R (float_str E) (parse_float E) now (dc_tenant_id cmd) None s
      = (s, Inr (False, Some n))"
    using assms(7) redis_float.available [OF rf ok]
    by (simp add: check_tenant_limit_def check_token_bucket_def limit_or_def
        DEFAULT_TENANT_LIMIT_PER_MIN_def Let_def)
  then have "process_command (redis_worker R E send) now cmd s
      = (mark_failure R E (now + of_int n) cmd ''Tenant rate limited'' True s, None)"
    using assms(5) by (simp add: process_command_def tenant_gate_def redis_worker_def wait_of_def)
  with r show ?thesis
    using assms(6) redis.mark_failure_step(2) [OF assms(1,3)]
    by (auto simp: spec_failure_def MAX_ATTEMPTS_def Let_def)
qed

definition drained_tenant :: mem where
  "drained_tenant = drained ''dl:limit:tenant:t1''"

theorem rate_limited_dead_lettered_witness:
  "\<exists>s'. process_command (redis_worker mem_ops demo_env (\<lambda>_ _. None)) 0
      (new_command demo_env 5 ''c1'' (demo_args ''FF'')\<lparr>dc_attempts := 4\<rparr>) drained_tenant = (s', None)
    \<and> length (q_dead (dlq_of (map_of s'))) = 1"
proof -
  let ?cmd = "new_command demo_env 5 ''c1'' (demo_args ''FF'')\<lparr>dc_attempts := 4\<rparr>"
  obtain s' sent where r: "process_command (redis_worker mem_ops demo_env (\<lambda>_ _. None)) 0 ?cmd drained_tenant = (s', sent)"
    by (metis surj_pair)
  have m: "map_of drained_tenant
      = put_hash Map.empty (limit_key ''tenant:t1'') [(''tokens'', rat_str (1 / 2)), (''last_update'', rat_str 0)]"
    by (simp add: drained_tenant_def drained_def put_hash_def limit_key_def fun_eq_iff)
  have "limits_ok demo_env (map_of drained_tenant)"
    unfolding limits_ok_def m by (auto simp: bucket_ok_def demo_env_def)
  moreover have "dl_typed (map_of drained_tenant)" "q_dead (dlq_of (map_of drained_tenant)) = []"
    unfolding m by simp_all
  moreover have "bucket_level (parse_float demo_env) (map_of drained_tenant)
      (''dl:limit:tenant:'' @ fmt_opt (dc_tenant_id ?cmd)) (of_int 100 / 60) (of_int 100) 0 < 1"
    by code_simp
  moreover have "dc_gateway_id ?cmd = None" "dc_attempts ?cmd = 4"
    by (simp_all add: new_command_def demo_args_def)
  ultimately show ?thesis
    using rate_limited_dead_lettered [OF mem_redis.redis_axioms demo_float _ _ _ _ _ r] r by simp
qed

text \<open>
  The health verdict follows the thresholds: \<open>unhealthy\<close> exactly above 500 pending
  commands, \<open>healthy\<close> exactly when no warning is raised, \<open>degraded\<close> otherwise.
\<close>

theorem queue_health_verdict:
  "qh_status (queue_health_of m) =
     (if queue_depth m > 500 then ''unhealthy''
      else if queue_depth m > 100 \<or> dead_letter_depth m > 10
              \<or> (total_enqueued m > 10 \<and> success_rate m < 90) then ''degraded'' else ''healthy'')
   \<and> (qh_warnings (queue_health_of m) = 0 \<longleftrightarrow> qh_status (queue_health_of m) = ''healthy'')"
  by (simp add: queue_health_of_def)

end
