(* ===== verification/Queue_Drain.thy ===== *)
theory Queue_Drain
  imports Downlink_Queue
begin

text \<open>
  Termination of the downlink worker: without new commands, its cycles empty the queue of
  \<open>src/downlink_queue.py\<close>, whatever the outcomes of sending. The measure is the sum of the attempts the pending
  commands have left.
\<close>

section \<open>Worker cycles\<close>

datatype outcome = Sent pyfloat | Failed pyfloat string bool

definition finish :: "'r redis_ops \<Rightarrow> dl_env \<Rightarrow> outcome \<Rightarrow> DownlinkCommand \<Rightarrow> 'r \<Rightarrow> 'r" where
  "finish R E out cmd s =
     (case out of
        Sent now \<Rightarrow> mark_success R now cmd s
      | Failed now err requeue \<Rightarrow> mark_failure R E now cmd err requeue s)"

definition worker_cycle :: "'r redis_ops \<Rightarrow> dl_env \<Rightarrow> pyfloat \<times> outcome \<Rightarrow> 'r \<Rightarrow> 'r" where
  "worker_cycle R E c s =
     (case dequeue R E (fst c) s of
        (s, Inr (Some cmd)) \<Rightarrow> finish R E (snd c) cmd s
      | (s, _) \<Rightarrow> s)"

section \<open>The measure\<close>

text \<open>A command that cannot be read is dropped by one cycle.\<close>

definition lives :: "dlq \<Rightarrow> string \<Rightarrow> nat" where
  "lives q i =
     (case get_int (q_cmds q i) ''attempts'' 0 of Inl _ \<Rightarrow> 1 | Inr a \<Rightarrow> max 1 (nat (MAX_ATTEMPTS - a)))"

definition lives_left :: "dlq \<Rightarrow> nat" where
  "lives_left q = sum_list (map (lives q) (q_pending q))"

lemma lives_pos: "1 \<le> lives q i"
  by (simp add: lives_def split: sum.split)

lemma lives_left_zero: "lives_left q = 0 \<longleftrightarrow> q_pending q = []"
proof (cases "q_pending q")
  case (Cons i ids)
  then show ?thesis using lives_pos [of q i] by (simp add: lives_left_def)
qed (simp add: lives_left_def)

lemma deserialize_attempts: "deserialize_cmd E now i h = Inr c \<Longrightarrow> get_int h ''attempts'' 0 = Inr (dc_attempts c)"
  by (auto simp: deserialize_cmd_def split: sum.splits)

lemma lives_cong: "q_cmds q i = q_cmds q' i \<Longrightarrow> lives q i = lives q' i"
  by (simp add: lives_def)

lemma lives_left_other:
  assumes "q_pending q' = ids" "\<And>j. j \<in> set ids \<Longrightarrow> q_cmds q' j = q_cmds q j"
  shows "lives_left q' = sum_list (map (lives q) ids)"
proof -
  have "map (lives q') ids = map (lives q) ids" using assms(2) by (intro map_cong lives_cong) simp_all
  then show ?thesis unfolding lives_left_def assms(1) by (rule arg_cong)
qed

lemma lives_after_retry:
  assumes "get_int (q_cmds q i) ''attempts'' 0 = Inr a" "a + 1 < MAX_ATTEMPTS"
    and "q_cmds q' i = q_cmds q i ++ map_of (retry_fields E now err (a + 1))"
  shows "lives q' i < lives q i"
proof -
  have "get_int (q_cmds q' i) ''attempts'' 0 = Inr (a + 1)"
    by (simp add: assms(3) get_int_def retry_fields_def map_add_def)
  then show ?thesis using assms(1,2) by (simp add: lives_def MAX_ATTEMPTS_def)
qed

context redis
begin

lemma cycle_step:
  assumes "dl_typed (contents s)" "one_per_device (dlq_of (contents s))" "q_pending (dlq_of (contents s)) \<noteq> []"
  shows "dl_typed (contents (worker_cycle R E c s)) \<and> one_per_device (dlq_of (contents (worker_cycle R E c s)))
    \<and> lives_left (dlq_of (contents (worker_cycle R E c s))) < lives_left (dlq_of (contents s))"
proof -
  let ?q = "dlq_of (contents s)"
  obtain now out where c: "c = (now, out)" by (cases c)
  obtain s1 r where d: "dequeue R E now s = (s1, r)" by (cases "dequeue R E now s")
  note st = dequeue_step [OF assms(1), of E now, unfolded d fst_conv snd_conv]
  obtain i ids where p: "q_pending ?q = i # ids" using assms(3) by (cases "q_pending ?q") auto
  have dist: "i \<notin> set ids" using assms(2) p by (simp add: one_per_device_def)
  have less: "sum_list (map (lives ?q) ids) < lives_left ?q" using lives_pos [of ?q i] by (simp add: lives_left_def p)
  show ?thesis
  proof (cases "\<exists>cmd. r = Inr (Some cmd)")
    case False
    then have w: "worker_cycle R E c s = s1" by (auto simp: worker_cycle_def c d split: sum.split option.split)
    have "lives_left (dlq_of (contents s1)) = sum_list (map (lives ?q) ids)"
      by (rule lives_left_other) (simp_all add: st(2) p)
    then show ?thesis using st(1,2) one_per_device_pop [OF assms(2)] less unfolding w by simp
  next
    case True
    then obtain cmd where r: "r = Inr (Some cmd)" by blast
    have w: "worker_cycle R E c s = finish R E out cmd s1" by (simp add: worker_cycle_def c d r)
    from assms(1,2) d [unfolded r] obtain ids' where h: "q_pending ?q = dc_id cmd # ids'"
        "dl_typed (contents s1)" "dlq_of (contents s1) = ?q\<lparr>q_pending := ids'\<rparr>"
      by (rule dequeue_head)
    then have cmd: "dc_id cmd = i" "dl_typed (contents s1)" "dlq_of (contents s1) = ?q\<lparr>q_pending := ids\<rparr>"
      using p by simp_all
    have att: "get_int (q_cmds ?q i) ''attempts'' 0 = Inr (dc_attempts cmd)"
      using st(3) p r by (auto simp: Let_def map_sum_def split: if_splits sum.splits dest: deserialize_attempts)
    have reach: "dl_reach R contents E s (finish R E out cmd s1)"
      using dl_reach.sent [OF dl_reach.init, of R E now s s1 cmd contents]
        dl_reach.failed [OF dl_reach.init, of R E now s s1 cmd contents] d r
      by (cases out) (auto simp: finish_def)
    note inv = reach_one_per_device [OF reach assms(1,2)]
    have gone: "lives_left q' = sum_list (map (lives ?q) ids)"
      if "q_pending q' = ids" "q_cmds q' = (q_cmds ?q)(i := (\<lambda>_. None))" for q'
      by (rule lives_left_other) (use that dist in auto)
    have "lives_left (dlq_of (contents (finish R E out cmd s1))) < lives_left ?q"
    proof (cases out)
      case (Sent now')
      have "lives_left (dlq_of (contents (finish R E out cmd s1))) = sum_list (map (lives ?q) ids)"
        by (rule gone) (simp_all add: Sent finish_def mark_success_step [OF cmd(2)] spec_success_def cmd)
      then show ?thesis using less by simp
    next
      case (Failed now' err rq)
      let ?q' = "dlq_of (contents (finish R E out cmd s1))"
      have q': "?q' = spec_failure E now' cmd err rq (?q\<lparr>q_pending := ids\<rparr>)"
        by (simp add: Failed finish_def mark_failure_step [OF cmd(2)] cmd(3))
      show ?thesis
      proof (cases "dc_attempts cmd + 1 \<ge> MAX_ATTEMPTS \<or> \<not> rq")
        case True
        then have "lives_left ?q' = sum_list (map (lives ?q) ids)"
          by (intro gone) (auto simp: q' spec_failure_def Let_def cmd(1))
        then show ?thesis using less by simp
      next
        case False
        then have q'': "q_pending ?q' = ids @ [i]"
            "q_cmds ?q' = (q_cmds ?q)(i := q_cmds ?q i ++ map_of (retry_fields E now' err (dc_attempts cmd + 1)))"
          by (simp_all add: q' spec_failure_def Let_def cmd(1))
        have "lives ?q' i < lives ?q i"
          by (rule lives_after_retry [OF att]) (use False q''(2) in auto)
        moreover have "sum_list (map (lives ?q') ids) = sum_list (map (lives ?q) ids)"
          using dist q''(2) by (intro arg_cong [where f = sum_list] map_cong lives_cong) auto
        ultimately show ?thesis by (simp add: lives_left_def q''(1) p)
      qed
    qed
    then show ?thesis using inv unfolding w by blast
  qed
qed

lemma idle_cycle:
  assumes "dl_typed (contents s)" "q_pending (dlq_of (contents s)) = []"
  shows "dlq_of (contents (worker_cycle R E c s)) = dlq_of (contents s) \<and> dl_typed (contents (worker_cycle R E c s))"
proof -
  obtain s1 r where d: "dequeue R E (fst c) s = (s1, r)" by (cases "dequeue R E (fst c) s")
  note st = dequeue_step [OF assms(1), of E "fst c", unfolded d fst_conv snd_conv]
  have "r = Inr None" using st(3) assms(2) by simp
  then show ?thesis using st(1,2) assms(2) by (simp add: worker_cycle_def d)
qed

lemma cycles_drain:
  assumes "dl_typed (contents s)" "one_per_device (dlq_of (contents s))" "lives_left (dlq_of (contents s)) \<le> length cs"
  shows "q_pending (dlq_of (contents (fold (worker_cycle R E) cs s))) = []"
  using assms
proof (induction cs arbitrary: s)
  case Nil
  then show ?case by (simp add: lives_left_zero)
next
  case (Cons c cs)
  show ?case
  proof (cases "q_pending (dlq_of (contents s)) = []")
    case True
    note idle = idle_cycle [OF Cons.prems(1) True, of E c]
    show ?thesis
      using Cons.IH [of "worker_cycle R E c s"] idle Cons.prems(2) True lives_left_zero [of "dlq_of (contents s)"] by simp
  next
    case False
    then show ?thesis
      using Cons.IH [of "worker_cycle R E c s"] cycle_step [OF Cons.prems(1,2) False, of E c] Cons.prems(3) by simp
  qed
qed

end

section \<open>Property\<close>

text \<open>
  Property C4. The worker terminates. From any queue the single worker and its producers can reach, as long as nothing new is
  enqueued, five cycles per pending command empty the queue, for every combination of successful, failed,
  requeued and unreadable commands.
\<close>

theorem worker_drains_queue:
  assumes "redis R c" "dl_reach R c E s0 s" "dl_typed (c s0)" "q_pending (dlq_of (c s0)) = []"
    and "q_latest (dlq_of (c s0)) = (\<lambda>_. None)"
    and "\<forall>i\<in>set (q_pending (dlq_of (c s))). \<forall>a. get_int (q_cmds (dlq_of (c s)) i) ''attempts'' 0 = Inr a \<longrightarrow> 0 \<le> a"
    and "5 * length (q_pending (dlq_of (c s))) \<le> length cycles"
  shows "q_pending (dlq_of (c (fold (worker_cycle R E) cycles s))) = []"
proof -
  let ?q = "dlq_of (c s)"
  have "one_per_device (dlq_of (c s0))" using assms(4,5) by (simp add: one_per_device_def)
  from redis.reach_one_per_device [OF assms(1-3) this] have inv: "dl_typed (c s)" "one_per_device ?q" by simp_all
  have "lives ?q i \<le> 5" if "i \<in> set (q_pending ?q)" for i
    using assms(6) that by (auto simp: lives_def MAX_ATTEMPTS_def split: sum.split)
  then have "sum_list (map (lives ?q) (q_pending ?q)) \<le> sum_list (map (\<lambda>_. 5) (q_pending ?q))" by (rule sum_list_mono)
  then have "lives_left ?q \<le> length cycles" using assms(7) by (simp add: lives_left_def sum_list_triv)
  from redis.cycles_drain [OF assms(1) inv this] show ?thesis .
qed

theorem worker_drains_queue_witness:
  "q_pending (dlq_of (map_of (fold (worker_cycle mem_ops demo_env)
     [(6, Failed 6 ''timeout'' True), (7, Failed 7 ''timeout'' True), (8, Sent 8), (9, Sent 9), (10, Sent 10)]
     (fst (enqueue mem_ops demo_env 5 ''c1'' (demo_args ''FF'') []))))) = []"
proof -
  let ?s = "fst (enqueue mem_ops demo_env 5 ''c1'' (demo_args ''FF'') [])"
  have r: "dl_reach mem_ops map_of demo_env [] ?s"
    by (intro dl_reach.intros) (simp add: fresh_id_def)
  have q: "q_pending (dlq_of (map_of ?s)) = [''c1'']"
      "q_cmds (dlq_of (map_of ?s)) ''c1'' ''attempts'' = Some (int_str 0)"
    by (simp_all add: mem_redis.enqueue_step spec_enqueue_def spec_drop_def Let_def serialize_cmd_def)
  show ?thesis
    by (rule worker_drains_queue [OF mem_redis.redis_axioms r empty_typed]) (simp_all add: q get_int_def)
qed

end
