(* ===== verification/Sliding_Window.thy ===== *)
theory Sliding_Window
  imports Token_Bucket
begin

text \<open>
  The tenant limiter with sliding windows, \<open>src/rate_limiter.py\<close>: one Redis sorted set per tenant
  and window, with the time of every counted request as member and score.
\<close>

section \<open>The limiter\<close>

record sw_config =
  sw_enabled :: bool
  sw_per_minute :: int
  sw_per_hour :: int

type_synonym limits = "(string \<times> int) list"

definition default_limits :: "sw_config \<Rightarrow> limits" where
  "default_limits cfg = [(''minute'', sw_per_minute cfg), (''hour'', sw_per_hour cfg)]"

definition windows :: "(string \<times> int) list" where
  "windows = [(''minute'', 60), (''hour'', 3600)]"

definition window_key :: "string \<Rightarrow> string \<Rightarrow> string" where
  "window_key tenant_id window_name = ''rate_limit:'' @ tenant_id @ '':'' @ window_name"

definition limits_for :: "sw_config \<Rightarrow> string \<Rightarrow> limits option \<Rightarrow> limits" where
  "limits_for cfg operation_type custom =
     (let base = (if operation_type = ''write'' then [(''minute'', 10), (''hour'', 100)]
                  else default_limits cfg)
      in case custom of None \<Rightarrow> base | Some cs \<Rightarrow> fold (\<lambda>(k, v). AList.update k v) cs base)"

text \<open>
  The loop over the windows. A full window refuses only when it has an oldest entry; the request
  is added to each window before the next one is looked at.
\<close>

fun check_windows ::
  "'r redis_ops \<Rightarrow> (pyfloat \<Rightarrow> string) \<Rightarrow> pyfloat \<Rightarrow> string \<Rightarrow> limits \<Rightarrow> 'r
   \<Rightarrow> 'r \<times> (bool \<times> int option) result" where
  "check_windows R fs now tenant_id [] s = (s, Inr (True, None))"
| "check_windows R fs now tenant_id ((window_name, limit) # rest) s =
     (case map_of windows window_name of
        None \<Rightarrow> (s, Inl (KeyError window_name))
      | Some window_seconds \<Rightarrow>
          let key = window_key tenant_id window_name;
              window_start = now - of_int window_seconds;
              s = rzremrange R s key 0 window_start;
              request_count = rzcard R s key;
              refusal = (if int request_count \<ge> limit then rzrange0 R s key else None)
          in case refusal of
               Some (_, oldest) \<Rightarrow>
                 (s, Inr (False, Some (py_int (oldest + of_int window_seconds - now) + 1)))
             | None \<Rightarrow>
                 let s = rzadd R s key (fs now) now;
                     s = rexpire R s key (window_seconds + 60)
                 in check_windows R fs now tenant_id rest s)"

definition check_limit ::
  "'r redis_ops \<Rightarrow> (pyfloat \<Rightarrow> string) \<Rightarrow> sw_config \<Rightarrow> pyfloat \<Rightarrow> string \<Rightarrow> string \<Rightarrow> limits option \<Rightarrow> 'r
   \<Rightarrow> 'r \<times> (bool \<times> int option) result" where
  "check_limit R fs cfg now tenant_id operation_type custom s =
     (if \<not> sw_enabled cfg then (s, Inr (True, None))
      else check_windows R fs now tenant_id (limits_for cfg operation_type custom) s)"

record limit_info =
  li_limit :: int
  li_current :: nat
  li_remaining :: int
  li_reset_at :: instant

definition window_info ::
  "'r redis_ops \<Rightarrow> pyfloat \<Rightarrow> string \<Rightarrow> string \<times> int \<Rightarrow> int \<Rightarrow> 'r \<Rightarrow> 'r \<times> limit_info" where
  "window_info R now tenant_id wl seconds s =
     (let key = window_key tenant_id (fst wl);
          s = rzremrange R s key 0 (now - of_int seconds);
          current = rzcard R s key
      in (s, \<lparr>li_limit = snd wl, li_current = current,
              li_remaining = max 0 (snd wl - int current), li_reset_at = now + of_int seconds\<rparr>))"

text \<open>\<open>get_limit_info\<close>: the two windows of the default limits, in order.\<close>

definition get_limit_info ::
  "'r redis_ops \<Rightarrow> sw_config \<Rightarrow> pyfloat \<Rightarrow> string \<Rightarrow> 'r \<Rightarrow> 'r \<times> (string \<times> limit_info) list" where
  "get_limit_info R cfg now tenant_id s =
     (let (s, m) = window_info R now tenant_id (''minute'', sw_per_minute cfg) 60 s;
          (s, h) = window_info R now tenant_id (''hour'', sw_per_hour cfg) 3600 s
      in (s, [(''minute'', m), (''hour'', h)]))"

section \<open>Middleware and decorator\<close>

definition skip_paths :: "string list" where
  "skip_paths = [''/health'', ''/docs'', ''/redoc'', ''/openapi.json'', ''/api/v1/uplink'',
                 ''/api/v1/auth/login'', ''/api/v1/auth/refresh'']"

definition operation_type_of :: "string \<Rightarrow> string" where
  "operation_type_of m = (if m \<in> set [''POST'', ''PUT'', ''PATCH'', ''DELETE''] then ''write'' else ''read'')"

text \<open>
  \<open>request.state.tenant_id\<close>: absent, or present and possibly \<open>None\<close>, whose text is \<open>"None"\<close>.
\<close>

definition tenant_key :: "string option option \<Rightarrow> string" where
  "tenant_key state_tenant = (case state_tenant of None \<Rightarrow> ''anonymous'' | Some t \<Rightarrow> fmt_opt t)"

text \<open>The rest of the application, \<open>call_next\<close>, may raise and has a state of its own beside Redis.\<close>

definition sw_dispatch ::
  "'r redis_ops \<Rightarrow> (pyfloat \<Rightarrow> string) \<Rightarrow> sw_config \<Rightarrow> ('r \<times> 'w \<Rightarrow> ('r \<times> 'w) \<times> http_response result) \<Rightarrow> pyfloat
   \<Rightarrow> string option option \<Rightarrow> string \<Rightarrow> string \<Rightarrow> 'r \<times> 'w \<Rightarrow> ('r \<times> 'w) \<times> http_response result" where
  "sw_dispatch R fs cfg call_next now state_tenant meth path sw =
     (if path \<in> set skip_paths then call_next sw
      else
        let tenant_id = tenant_key state_tenant; (s, w) = sw in
        case check_limit R fs cfg now tenant_id (operation_type_of meth) None s of
          (s, Inl e) \<Rightarrow> ((s, w), Inl e)
        | (s, Inr (allowed, retry_after)) \<Rightarrow>
            if \<not> allowed then
              ((s, w), Inr (429, [(''X-RateLimit-Limit'', int_str (sw_per_minute cfg)),
                                  (''X-RateLimit-Remaining'', ''0''),
                                  (''Retry-After'', (case retry_after of None \<Rightarrow> ''None'' | Some r \<Rightarrow> int_str r))]))
            else
              (case call_next (s, w) of
                 (sw, Inl e) \<Rightarrow> (sw, Inl e)
               | ((s, w), Inr (code, hs)) \<Rightarrow>
                   let (s, info) = get_limit_info R cfg now tenant_id s;
                       minute = map_of info ''minute''
                   in ((s, w), Inr (code, upd_fields hs
                        [(''X-RateLimit-Limit'', int_str (case minute of None \<Rightarrow> 0 | Some i \<Rightarrow> li_limit i)),
                         (''X-RateLimit-Remaining'',
                            int_str (case minute of None \<Rightarrow> 0 | Some i \<Rightarrow> li_remaining i))]))))"

text \<open>The attribute the decorator \<open>rate_limit\<close> stores on an endpoint.\<close>

definition rate_limit_override :: "int option \<Rightarrow> int option \<Rightarrow> limits" where
  "rate_limit_override per_minute per_hour =
     (case per_minute of None \<Rightarrow> [] | Some n \<Rightarrow> [(''minute'', n)])
     @ (case per_hour of None \<Rightarrow> [] | Some n \<Rightarrow> [(''hour'', n)])"

definition get_tenant_id_from_request :: "string option option \<Rightarrow> string option \<Rightarrow> string" where
  "get_tenant_id_from_request state_tenant header =
     (case state_tenant of
        Some t \<Rightarrow> fmt_opt t
      | None \<Rightarrow> (case header of None \<Rightarrow> ''anonymous'' | Some h \<Rightarrow> h))"

section \<open>Window lemmas\<close>

definition in_window :: "rat \<Rightarrow> rat \<Rightarrow> (string \<times> rat) list \<Rightarrow> (string \<times> rat) list" where
  "in_window now w z = filter (\<lambda>(m, sc). \<not> (0 \<le> sc \<and> sc \<le> now - w)) z"

lemma zmin_None: "zmin z = None \<longleftrightarrow> z = []"
  by (cases z) (auto simp: zmin_def split: option.splits)

lemma first_asc_mem: "first_asc k xs = Some x \<Longrightarrow> x \<in> set xs"
  by (induction xs arbitrary: x) (auto split: option.splits if_splits)

lemma window_key_inj [simp]: "window_key t a = window_key t b \<longleftrightarrow> a = b"
  by (simp add: window_key_def)

lemma length_update_le: "length (AList.update k v z) \<le> length z + 1"
  by (induction z) auto

lemma distinct_in_window: "distinct (map fst z) \<Longrightarrow> distinct (map fst (in_window now w z))"
  by (auto simp: in_window_def distinct_map_filter)

lemma update_mem: "distinct (map fst z) \<Longrightarrow> (k, v) \<in> set (AList.update k v z)"
  by (induction z) auto

lemma update_keeps: "p \<in> set z \<Longrightarrow> fst p \<noteq> k \<Longrightarrow> p \<in> set (AList.update k v z)"
  by (induction z) auto

lemma in_windowI: "p \<in> set z \<Longrightarrow> now - w < snd p \<Longrightarrow> p \<in> set (in_window now w z)"
  by (auto simp: in_window_def)

definition sw_typed :: "string \<Rightarrow> keyspace \<Rightarrow> bool" where
  "sw_typed t m \<longleftrightarrow> (\<forall>w \<in> set (map fst windows). zsetlike m (window_key t w)
                       \<and> distinct (map fst (zset_at m (window_key t w))))"

lemma sw_typed_put:
  "sw_typed t m \<Longrightarrow> distinct (map fst z) \<Longrightarrow> sw_typed t (put_zset m (window_key t w) z)"
  by (auto simp: sw_typed_def)

context redis
begin

text \<open>One turn of the loop.\<close>

lemma check_windows_cases:
  assumes "sw_typed t (contents s)" "w \<in> set (map fst windows)"
  obtains sec z s1 s2 where "map_of windows w = Some sec"
    "z = in_window now (of_int sec) (zset_at (contents s) (window_key t w))" "distinct (map fst z)"
    "contents s1 = put_zset (contents s) (window_key t w) z"
    "contents s2 = put_zset (contents s) (window_key t w) (AList.update (fs now) now z)"
    "sw_typed t (contents s1)" "sw_typed t (contents s2)"
    "check_windows R fs now t ((w, l) # rest) s =
        (if int (length z) \<ge> l \<and> z \<noteq> []
         then (s1, Inr (False, Some (py_int (snd (the (zmin z)) + of_int sec - now) + 1)))
         else check_windows R fs now t rest s2)"
proof -
  let ?k = "window_key t w"
  obtain sec where sec: "map_of windows w = Some sec"
    using assms(2) by (cases "map_of windows w") (auto simp: map_of_eq_None_iff)
  define z where "z = in_window now (of_int sec) (zset_at (contents s) ?k)"
  define s1 where "s1 = rzremrange R s ?k 0 (now - of_int sec)"
  define s2 where "s2 = rexpire R (rzadd R s1 ?k (fs now) now) ?k (sec + 60)"
  have dz: "distinct (map fst z)" and zl: "zsetlike (contents s) ?k"
    using assms by (auto simp: sw_typed_def z_def intro: distinct_in_window)
  have c1: "contents s1 = put_zset (contents s) ?k z" "zsetlike (contents s1) ?k" "zset_at (contents s1) ?k = z"
    using zl by (simp_all add: s1_def zremrange z_def in_window_def)
  have c2: "contents s2 = put_zset (contents s) ?k (AList.update (fs now) now z)"
    using c1 by (simp add: s2_def expire zadd put_zset_def)
  have z1: "rzcard R s1 ?k = length z" "rzrange0 R s1 ?k = zmin z"
    using c1 by (simp_all add: zcard zrange0)
  have step: "check_windows R fs now t ((w, l) # rest) s =
        (if int (length z) \<ge> l \<and> z \<noteq> []
         then (s1, Inr (False, Some (py_int (snd (the (zmin z)) + of_int sec - now) + 1)))
         else check_windows R fs now t rest s2)"
    using sec z1 zmin_None [of z]
    by (auto simp: Let_def s1_def [symmetric] s2_def [symmetric] split: option.split prod.split)
  show thesis
    using assms(1) dz c1(1) c2 by (intro that [OF sec z_def dz c1(1) c2 _ _ step])
      (simp_all add: sw_typed_put distinct_update)
qed

text \<open>Recent entries of every window stay, whatever the answer.\<close>

lemma check_windows_keeps:
  "sw_typed t (contents s) \<Longrightarrow> set (map fst ls) \<subseteq> set (map fst windows) \<Longrightarrow>
   check_windows R fs now t ls s = (s', r) \<Longrightarrow>
   sw_typed t (contents s') \<and>
   (\<forall>w sec p. map_of windows w = Some sec \<longrightarrow> p \<in> set (zset_at (contents s) (window_key t w)) \<longrightarrow>
      now - of_int sec < snd p \<longrightarrow> fst p \<noteq> fs now \<longrightarrow> p \<in> set (zset_at (contents s') (window_key t w)))"
proof (induction ls arbitrary: s)
  case (Cons wl ls)
  obtain w l where wl: "wl = (w, l)" by (cases wl)
  have w: "w \<in> set (map fst windows)" using Cons.prems(2) wl by auto
  obtain sec z s1 s2 where st: "map_of windows w = Some sec"
    "z = in_window now (of_int sec) (zset_at (contents s) (window_key t w))" "distinct (map fst z)"
    "contents s1 = put_zset (contents s) (window_key t w) z"
    "contents s2 = put_zset (contents s) (window_key t w) (AList.update (fs now) now z)"
    "sw_typed t (contents s1)" "sw_typed t (contents s2)"
    "check_windows R fs now t ((w, l) # ls) s =
        (if int (length z) \<ge> l \<and> z \<noteq> []
         then (s1, Inr (False, Some (py_int (snd (the (zmin z)) + of_int sec - now) + 1)))
         else check_windows R fs now t ls s2)"
    by (rule check_windows_cases [OF Cons.prems(1) w])
  have keep: "p \<in> set (zset_at (contents sx) (window_key t v))"
    if "sx = s1 \<or> sx = s2" "map_of windows v = Some sc" "p \<in> set (zset_at (contents s) (window_key t v))"
      "now - of_int sc < snd p" "fst p \<noteq> fs now" for v sc p sx
  proof (cases "v = w")
    case True
    with that st(1) have "p \<in> set z" unfolding st(2) by (intro in_windowI) auto
    with True that(1,5) st(4,5) show ?thesis by (auto intro: update_keeps)
  next
    case False
    with that(1,3) st(4,5) show ?thesis by auto
  qed
  show ?case
  proof (cases "int (length z) \<ge> l \<and> z \<noteq> []")
    case True
    then have "s' = s1" using Cons.prems(3) st(8) wl by simp
    then show ?thesis using st(6) keep by blast
  next
    case False
    then have "check_windows R fs now t ls s2 = (s', r)" using Cons.prems(3) st(8) wl by auto
    from Cons.IH [OF st(7) _ this] Cons.prems(2) show ?thesis using keep by auto
  qed
qed simp

lemma check_windows_other:
  "sw_typed t (contents s) \<Longrightarrow> set (map fst ls) \<subseteq> set (map fst windows) \<Longrightarrow>
   check_windows R fs now t ls s = (s', r) \<Longrightarrow> w \<notin> set (map fst ls) \<Longrightarrow>
   zset_at (contents s') (window_key t w) = zset_at (contents s) (window_key t w)"
proof (induction ls arbitrary: s)
  case (Cons vl ls)
  obtain v lv where vl: "vl = (v, lv)" by (cases vl)
  have v: "v \<in> set (map fst windows)" using Cons.prems(2) vl by auto
  obtain sv z s1 s2 where st: "contents s1 = put_zset (contents s) (window_key t v) z"
    "contents s2 = put_zset (contents s) (window_key t v) (AList.update (fs now) now z)"
    "sw_typed t (contents s2)"
    "check_windows R fs now t ((v, lv) # ls) s =
        (if int (length z) \<ge> lv \<and> z \<noteq> []
         then (s1, Inr (False, Some (py_int (snd (the (zmin z)) + of_int sv - now) + 1)))
         else check_windows R fs now t ls s2)"
    by (rule check_windows_cases [OF Cons.prems(1) v])
  have "w \<noteq> v" "w \<notin> set (map fst ls)" "set (map fst ls) \<subseteq> set (map fst windows)"
    using Cons.prems(2,4) vl by auto
  then show ?case
    using Cons.IH [OF st(3)] Cons.prems(3) st(1,2,4) vl by (auto simp del: check_windows.simps split: if_splits)
qed simp

lemma check_windows_admits:
  "sw_typed t (contents s) \<Longrightarrow> set (map fst ls) \<subseteq> set (map fst windows) \<Longrightarrow> distinct (map fst ls) \<Longrightarrow>
   check_windows R fs now t ls s = (s', Inr (True, r)) \<Longrightarrow> (w, l) \<in> set ls \<Longrightarrow>
   map_of windows w = Some sec \<Longrightarrow>
   (let z = in_window now (of_int sec) (zset_at (contents s) (window_key t w)) in
    (int (length z) < l \<or> z = []) \<and> (fs now, now) \<in> set (zset_at (contents s') (window_key t w)))"
proof (induction ls arbitrary: s)
  case (Cons vl ls)
  obtain v lv where vl: "vl = (v, lv)" by (cases vl)
  have v: "v \<in> set (map fst windows)" using Cons.prems(2) vl by auto
  obtain sv z s1 s2 where st: "map_of windows v = Some sv"
    "z = in_window now (of_int sv) (zset_at (contents s) (window_key t v))" "distinct (map fst z)"
    "contents s1 = put_zset (contents s) (window_key t v) z"
    "contents s2 = put_zset (contents s) (window_key t v) (AList.update (fs now) now z)"
    "sw_typed t (contents s1)" "sw_typed t (contents s2)"
    "check_windows R fs now t ((v, lv) # ls) s =
        (if int (length z) \<ge> lv \<and> z \<noteq> []
         then (s1, Inr (False, Some (py_int (snd (the (zmin z)) + of_int sv - now) + 1)))
         else check_windows R fs now t ls s2)"
    by (rule check_windows_cases [OF Cons.prems(1) v])
  have nf: "int (length z) < lv \<or> z = []" and rest: "check_windows R fs now t ls s2 = (s', Inr (True, r))"
    using Cons.prems(4) st(8) vl by (auto split: if_splits)
  have sub: "set (map fst ls) \<subseteq> set (map fst windows)" "distinct (map fst ls)" "v \<notin> set (map fst ls)"
    using Cons.prems(2,3) vl by auto
  show ?case
  proof (cases "(w, l) = (v, lv)")
    case True
    have "zset_at (contents s') (window_key t v) = zset_at (contents s2) (window_key t v)"
      by (rule check_windows_other [OF st(7) sub(1) rest sub(3)])
    then show ?thesis using True nf st(1,2,5) Cons.prems(6) update_mem [OF st(3)] by (simp add: Let_def)
  next
    case False
    with Cons.prems(5) vl have mem: "(w, l) \<in> set ls" by auto
    with sub(3) have "w \<noteq> v" by force
    then have "zset_at (contents s2) (window_key t w) = zset_at (contents s) (window_key t w)"
      using st(5) by simp
    with Cons.IH [OF st(7) sub(1,2) rest mem Cons.prems(6)] show ?thesis by simp
  qed
qed simp

end

section \<open>Histories\<close>

text \<open>
  A history of one tenant's requests at strictly increasing times: the store, the times of the
  admitted requests, newest first, and the time of the last request.
\<close>

inductive sw_hist ::
  "'r redis_ops \<Rightarrow> ('r \<Rightarrow> keyspace) \<Rightarrow> (pyfloat \<Rightarrow> string) \<Rightarrow> sw_config \<Rightarrow> string
   \<Rightarrow> 'r \<Rightarrow> rat list \<Rightarrow> rat \<Rightarrow> bool"
  for R :: "'r redis_ops" and c :: "'r \<Rightarrow> keyspace" and fs cfg tenant where
  start: "sw_typed tenant (c s) \<Longrightarrow> sw_hist R c fs cfg tenant s [] t"
| request: "sw_hist R c fs cfg tenant s adm t \<Longrightarrow> t < now \<Longrightarrow>
    check_limit R fs cfg now tenant op None s = (s', Inr (ok, r)) \<Longrightarrow>
    sw_hist R c fs cfg tenant s' (if ok then now # adm else adm) now"

lemma limits_for_windows: "map fst (limits_for cfg op None) = map fst windows"
  by (simp add: limits_for_def default_limits_def windows_def)

lemma windows_distinct: "distinct (map fst windows)"
  by (simp add: windows_def)

definition sw_inv :: "(pyfloat \<Rightarrow> string) \<Rightarrow> string \<Rightarrow> keyspace \<Rightarrow> rat list \<Rightarrow> rat \<Rightarrow> bool" where
  "sw_inv fs tenant m adm t \<longleftrightarrow> sw_typed tenant m \<and> distinct adm \<and> (\<forall>a\<in>set adm. a \<le> t) \<and>
     (\<forall>w sec a. map_of windows w = Some sec \<longrightarrow> a \<in> set adm \<longrightarrow> t - of_int sec < a \<longrightarrow>
        (fs a, a) \<in> set (zset_at m (window_key tenant w)))"

context redis_float
begin

lemma fs_inj: "fs a = fs b \<Longrightarrow> a = b"
  by (metis parse_str option.inject)

lemma sw_hist_inv:
  assumes "sw_hist R contents fs cfg tenant s adm t" "sw_enabled cfg"
  shows "sw_inv fs tenant (contents s) adm t"
  using assms
proof (induction rule: sw_hist.induct)
  case (request s adm t now op s' ok r)
  let ?ls = "limits_for cfg op None"
  have inv: "sw_typed tenant (contents s)" "distinct adm" "\<forall>a\<in>set adm. a \<le> t"
    "\<And>w sec a. map_of windows w = Some sec \<Longrightarrow> a \<in> set adm \<Longrightarrow> t - of_int sec < a \<Longrightarrow>
        (fs a, a) \<in> set (zset_at (contents s) (window_key tenant w))"
    using request.IH request.prems by (auto simp: sw_inv_def)
  have cw: "check_windows R fs now tenant ?ls s = (s', Inr (ok, r))"
    using request.hyps(3) request.prems by (simp add: check_limit_def)
  have sub: "set (map fst ?ls) \<subseteq> set (map fst windows)" "distinct (map fst ?ls)"
    using windows_distinct unfolding limits_for_windows by simp_all
  note keep = check_windows_keeps [OF inv(1) sub(1) cw]
  have old: "(fs a, a) \<in> set (zset_at (contents s') (window_key tenant w))"
    if "map_of windows w = Some sec" "a \<in> set adm" "now - of_int sec < a" for w sec a
  proof -
    have "t - of_int sec < a" "a \<noteq> now" using that request.hyps(2) inv(3) by auto
    then show ?thesis using keep inv(4) [OF that(1,2)] that fs_inj by fastforce
  qed
  have new: "(fs now, now) \<in> set (zset_at (contents s') (window_key tenant w))"
    if "ok" "map_of windows w = Some sec" for w sec
  proof -
    have "w \<in> set (map fst ?ls)" using that(2) map_of_SomeD unfolding limits_for_windows by force
    then obtain l where "(w, l) \<in> set ?ls" by auto
    from check_windows_admits [OF inv(1) sub _ this that(2)] cw that(1) show ?thesis by (simp add: Let_def)
  qed
  have le: "a < now" if "a \<in> set adm" for a using inv(3) request.hyps(2) that by fastforce
  show ?case unfolding sw_inv_def
  proof (intro conjI allI impI ballI)
    show "sw_typed tenant (contents s')" using keep by blast
    show "distinct (if ok then now # adm else adm)" using inv(2) le by auto
    show "a \<le> now" if "a \<in> set (if ok then now # adm else adm)" for a
      using that le [of a] by (cases ok) auto
    show "(fs a, a) \<in> set (zset_at (contents s') (window_key tenant w))"
      if "map_of windows w = Some sec" "a \<in> set (if ok then now # adm else adm)" "now - of_int sec < a"
      for w sec a
      using that old [OF that(1) _ that(3)] new [OF _ that(1)] by (cases ok) auto
  qed
qed (simp add: sw_inv_def)

lemma admitted_recent_le:
  assumes "sw_inv fs tenant (contents s) adm t" "t < now" "map_of windows w = Some sec"
  shows "length (filter (\<lambda>a. now - of_int sec < a) adm)
    \<le> length (in_window now (of_int sec) (zset_at (contents s) (window_key tenant w)))"
proof -
  let ?A = "filter (\<lambda>a. now - of_int sec < a) adm" and ?z = "zset_at (contents s) (window_key tenant w)"
  have "set (map (\<lambda>a. (fs a, a)) ?A) \<subseteq> set (in_window now (of_int sec) ?z)"
  proof
    fix p assume "p \<in> set (map (\<lambda>a. (fs a, a)) ?A)"
    then obtain a where a: "p = (fs a, a)" "a \<in> set adm" "now - of_int sec < a" by auto
    moreover have "t - of_int sec < a" using a(3) assms(2) by simp
    ultimately have "p \<in> set ?z" using assms(1,3) unfolding sw_inv_def by blast
    then show "p \<in> set (in_window now (of_int sec) ?z)" using a by (intro in_windowI) simp_all
  qed
  then have "card (set (map (\<lambda>a. (fs a, a)) ?A)) \<le> length (in_window now (of_int sec) ?z)"
    by (meson List.finite_set card_length card_mono order_trans)
  moreover have "distinct (map (\<lambda>a. (fs a, a)) ?A)"
    using assms(1) by (simp add: sw_inv_def distinct_map inj_on_def)
  from distinct_card [OF this] have "card (set (map (\<lambda>a. (fs a, a)) ?A)) = length ?A" by simp
  ultimately show ?thesis by simp
qed

end

section \<open>Properties\<close>


definition demo_sw :: sw_config where
  "demo_sw = \<lparr>sw_enabled = True, sw_per_minute = 100, sw_per_hour = 1000\<rparr>"

lemma sw_typed_empty [simp]: "sw_typed t Map.empty"
  by (simp add: sw_typed_def)

definition one_read :: mem where
  "one_read = fst (check_limit mem_ops rat_str demo_sw 1 ''t1'' ''read'' None [])"


text \<open>The minute window alone refuses, whatever the hour window holds.\<close>

definition minute_limit :: "sw_config \<Rightarrow> string \<Rightarrow> int" where
  "minute_limit cfg operation_type = (if operation_type = ''write'' then 10 else sw_per_minute cfg)"

definition minute_full :: "sw_config \<Rightarrow> string \<Rightarrow> pyfloat \<Rightarrow> string \<Rightarrow> keyspace \<Rightarrow> bool" where
  "minute_full cfg operation_type now tenant m =
     (let z = in_window now 60 (zset_at m (window_key tenant ''minute''))
      in z \<noteq> [] \<and> minute_limit cfg operation_type \<le> int (length z))"

lemma minute_full_refuses:
  assumes "redis R c" "sw_enabled cfg" "sw_typed tenant (c s)" "minute_full cfg op now tenant (c s)"
  shows "\<exists>s' n. check_limit R fs cfg now tenant op None s = (s', Inr (False, Some n))"
proof -
  have m: "''minute'' \<in> set (map fst windows)" by (simp add: windows_def)
  have sec: "map_of windows ''minute'' = Some 60" by (simp add: windows_def)
  obtain rest where l: "limits_for cfg op None = (''minute'', minute_limit cfg op) # rest"
    by (cases "op = ''write''") (simp_all add: limits_for_def minute_limit_def default_limits_def)
  show ?thesis
    by (rule redis.check_windows_cases [OF assms(1,3) m, of now fs "minute_limit cfg op" rest])
      (use assms(2,4) sec in \<open>auto simp: check_limit_def l minute_full_def Let_def simp del: check_windows.simps\<close>)
qed

text \<open>
  Reads and writes are counted in the same windows: once ten requests of any kind
  fall into the last minute, every write of the tenant is refused, although the documented
  quotas are 100 reads and 10 writes per minute.
\<close>

theorem write_refused_after_reads:
  assumes "redis R c" "sw_enabled cfg" "sw_typed tenant (c s)"
    and "10 \<le> length (in_window now 60 (zset_at (c s) (window_key tenant ''minute'')))"
  shows "\<exists>s' n. check_limit R fs cfg now tenant ''write'' None s = (s', Inr (False, Some n))"
proof (rule minute_full_refuses [OF assms(1,2,3)])
  show "minute_full cfg ''write'' now tenant (c s)"
    using assms(4) by (auto simp: minute_full_def minute_limit_def Let_def)
qed

definition ten_reads :: mem where
  "ten_reads = [(window_key ''t1'' ''minute'', RZSet (map (\<lambda>n. (rat_str (of_nat n), of_nat n)) [1..<11]))]"

theorem write_refused_after_reads_witness:
  "\<exists>s' n. check_limit mem_ops rat_str demo_sw 20 ''t1'' ''write'' None ten_reads = (s', Inr (False, Some n))"
proof (rule write_refused_after_reads [OF mem_redis.redis_axioms])
  have "rat_str x = rat_str y \<longleftrightarrow> x = y" for x y by (metis option.inject rat_text.parse_str)
  then have "distinct (map fst (map (\<lambda>n. (rat_str (of_nat n), of_nat n :: rat)) [1..<11]))"
    by (auto simp: distinct_map comp_def inj_on_def)
  then show "sw_typed ''t1'' (map_of ten_reads)"
    by (auto simp: sw_typed_def ten_reads_def windows_def zsetlike_def zset_at_def window_key_def)
  show "10 \<le> length (in_window 20 60 (zset_at (map_of ten_reads) (window_key ''t1'' ''minute'')))"
    by (simp add: ten_reads_def in_window_def zset_at_def upt_rec)
qed (simp add: demo_sw_def)

text \<open>
  A request refused by the hour window has already been charged to the minute window:
  the refusals themselves keep the minute window full.
\<close>

theorem hour_refusal_charges_minute:
  assumes "redis R c" "sw_enabled cfg" "sw_typed tenant (c s)"
    and "int (length (in_window now 60 (zset_at (c s) (window_key tenant ''minute'')))) < sw_per_minute cfg"
    and "check_limit R fs cfg now tenant ''read'' None s = (s', Inr (False, r))"
  shows "(fs now, now) \<in> set (zset_at (c s') (window_key tenant ''minute''))"
proof -
  let ?m = "''minute''" and ?h = "''hour''"
  have m: "?m \<in> set (map fst windows)" "?h \<in> set (map fst windows)"
    "map_of windows ?m = Some 60" by (simp_all add: windows_def)
  have cw: "check_windows R fs now tenant [(?m, sw_per_minute cfg), (?h, sw_per_hour cfg)] s
      = (s', Inr (False, r))"
    using assms(2,5) by (simp add: check_limit_def limits_for_def default_limits_def)
  obtain z s2 where z: "distinct (map fst z)"
    "c s2 = put_zset (c s) (window_key tenant ?m) (AList.update (fs now) now z)" "sw_typed tenant (c s2)"
    "check_windows R fs now tenant [(?h, sw_per_hour cfg)] s2 = (s', Inr (False, r))"
    by (rule redis.check_windows_cases [OF assms(1,3) m(1), of now fs "sw_per_minute cfg" "[(?h, sw_per_hour cfg)]"])
      (use assms(4) cw m(3) in \<open>auto simp del: check_windows.simps\<close>)
  have "zset_at (c s') (window_key tenant ?m) = zset_at (c s2) (window_key tenant ?m)"
    using redis.check_windows_other [OF assms(1) z(3) _ z(4)] m(2) by simp
  then show ?thesis using z(2) update_mem [OF z(1)] by simp
qed

definition full_hour :: mem where
  "full_hour = [(window_key ''t1'' ''hour'', RZSet [(rat_str 1, 1)])]"

theorem hour_refusal_charges_minute_witness:
  "(rat_str 20, 20) \<in> set (zset_at (map_of (fst (check_limit mem_ops rat_str
      (demo_sw\<lparr>sw_per_hour := 1\<rparr>) 20 ''t1'' ''read'' None full_hour))) (window_key ''t1'' ''minute''))"
proof -
  let ?cfg = "demo_sw\<lparr>sw_per_hour := 1\<rparr>"
  have "snd (check_limit mem_ops rat_str ?cfg 20 ''t1'' ''read'' None full_hour) = Inr (False, Some 3582)"
    by code_simp
  then have c: "check_limit mem_ops rat_str ?cfg 20 ''t1'' ''read'' None full_hour
      = (fst (check_limit mem_ops rat_str ?cfg 20 ''t1'' ''read'' None full_hour), Inr (False, Some 3582))"
    by (metis prod.collapse)
  have "sw_typed ''t1'' (map_of full_hour)"
    by (simp add: sw_typed_def full_hour_def windows_def zsetlike_def zset_at_def window_key_def)
  from hour_refusal_charges_minute [OF mem_redis.redis_axioms _ this _ c] show ?thesis
    by (simp add: demo_sw_def full_hour_def in_window_def zset_at_def window_key_def)
qed

end
