(* ===== verification/Refresh_Tokens.thy ===== *)
theory Refresh_Tokens
  imports Models
begin

text \<open>
  \<open>src/refresh_token_service.py\<close>: refresh tokens with rotation and reuse detection, over the table of
  migration 010.

  Token texts come from the random source and are arguments, as is the hash. The columns are
  TIMESTAMPTZ: \<open>col\<close> is how the driver hands such a value to Python (asyncpg: offset-aware), and
  decides whether the comparisons with \<open>datetime.utcnow()\<close> raise. \<open>others\<close> is what other requests do between
  the lookup and the statements that follow it.
\<close>

section \<open>Table and service\<close>

record token_row =
  rt_id :: nat
  rt_user_id :: uuid
  rt_token_hash :: string
  rt_device_fingerprint :: "string option"
  rt_ip_address :: "string option"
  rt_user_agent :: "string option"
  rt_created_at :: instant
  rt_expires_at :: instant
  rt_revoked_at :: "instant option"
  rt_last_used_at :: "instant option"

datatype token_error = Raised py_error | DuplicateHash

definition EXPIRY_DAYS :: rat where "EXPIRY_DAYS = 30"

definition REUSE_DETECTION_WINDOW_MINUTES :: rat where "REUSE_DETECTION_WINDOW_MINUTES = 5"

text \<open>What the client sends along.\<close>

record client_info =
  ci_device_fingerprint :: "string option"
  ci_ip_address :: "string option"
  ci_user_agent :: "string option"

definition create_refresh_token ::
  "(string \<Rightarrow> string) \<Rightarrow> instant \<Rightarrow> nat \<Rightarrow> string \<Rightarrow> uuid \<Rightarrow> client_info \<Rightarrow> token_row list
   \<Rightarrow> token_row list \<times> (token_error + string)" where
  "create_refresh_token sha now new_id token user_id ci ts =
     (if list_ex (\<lambda>r. rt_token_hash r = sha token) ts then (ts, Inl DuplicateHash)
      else (ts @ [\<lparr>rt_id = new_id, rt_user_id = user_id, rt_token_hash = sha token,
                   rt_device_fingerprint = ci_device_fingerprint ci, rt_ip_address = ci_ip_address ci,
                   rt_user_agent = ci_user_agent ci, rt_created_at = now,
                   rt_expires_at = now + EXPIRY_DAYS * 86400, rt_revoked_at = None,
                   rt_last_used_at = None\<rparr>], Inr token))"

definition revoke_token :: "instant \<Rightarrow> nat \<Rightarrow> token_row list \<Rightarrow> token_row list" where
  "revoke_token now i ts = sql_update (\<lambda>r. rt_id r = i) (\<lambda>r. r\<lparr>rt_revoked_at := Some now\<rparr>) ts"

definition in_family :: "uuid \<Rightarrow> string option \<Rightarrow> token_row \<Rightarrow> bool" where
  "in_family user_id fp r \<longleftrightarrow> rt_user_id r = user_id \<and> (truthy fp \<longrightarrow> rt_device_fingerprint r = fp)
     \<and> rt_revoked_at r = None"

definition revoke_token_family :: "instant \<Rightarrow> uuid \<Rightarrow> string option \<Rightarrow> token_row list \<Rightarrow> token_row list \<times> nat" where
  "revoke_token_family now user_id fp ts =
     (sql_update (in_family user_id fp) (\<lambda>r. r\<lparr>rt_revoked_at := Some now\<rparr>) ts,
      sql_count (in_family user_id fp) ts)"

definition validate_and_rotate ::
  "(instant \<Rightarrow> datetime) \<Rightarrow> (string \<Rightarrow> string) \<Rightarrow> (token_row list \<Rightarrow> token_row list) \<Rightarrow> instant \<Rightarrow> nat \<Rightarrow> string
   \<Rightarrow> string \<Rightarrow> client_info \<Rightarrow> token_row list \<Rightarrow> token_row list \<times> (token_error + (uuid \<times> string) option)" where
  "validate_and_rotate col sha others now new_id new_token token ci ts =
     (case find (\<lambda>r. rt_token_hash r = sha token) ts of
        None \<Rightarrow> (ts, Inr None)
      | Some rec \<Rightarrow>
      (case dt_gt (Naive now) (col (rt_expires_at rec)) of
         Inl e \<Rightarrow> (ts, Inl (Raised e))
       | Inr True \<Rightarrow> (ts, Inr None)
       | Inr False \<Rightarrow>
      (case rt_revoked_at rec of
         Some revoked_at \<Rightarrow>
           (case dt_sub (Naive now) (col revoked_at) of
              Inl e \<Rightarrow> (ts, Inl (Raised e))
            | Inr seconds \<Rightarrow>
                if seconds / 60 < REUSE_DETECTION_WINDOW_MINUTES then (ts, Inr None)
                else (fst (revoke_token_family now (rt_user_id rec) (rt_device_fingerprint rec) (others ts)), Inr None))
       | None \<Rightarrow>
           (case create_refresh_token sha now new_id new_token (rt_user_id rec) ci
                   (revoke_token now (rt_id rec) (others ts)) of
              (ts, Inl e) \<Rightarrow> (ts, Inl e)
            | (ts, Inr t) \<Rightarrow> (ts, Inr (Some (rt_user_id rec, t)))))))"

definition cleanup_expired_tokens :: "instant \<Rightarrow> token_row list \<Rightarrow> token_row list \<times> nat" where
  "cleanup_expired_tokens now ts =
     (sql_delete (\<lambda>r. rt_expires_at r < now) ts, sql_count (\<lambda>r. rt_expires_at r < now) ts)"

definition get_user_tokens :: "instant \<Rightarrow> uuid \<Rightarrow> bool \<Rightarrow> token_row list \<Rightarrow> token_row list" where
  "get_user_tokens now user_id include_revoked ts =
     sort_key (\<lambda>r. - rt_created_at r)
       (filter (\<lambda>r. rt_user_id r = user_id \<and>
                    (include_revoked \<or> (rt_revoked_at r = None \<and> rt_expires_at r > now))) ts)"

section \<open>Runs\<close>

text \<open>
  The service under requests one after the other, with the texts issued so far and the tokens accepted so
  far. A new text has a hash that no issued text has; ids are new (SERIAL).
\<close>

inductive token_run ::
  "(instant \<Rightarrow> datetime) \<Rightarrow> (string \<Rightarrow> string) \<Rightarrow> token_row list \<Rightarrow> string list \<Rightarrow> string list \<Rightarrow> bool"
  for col sha where
  start: "token_run col sha [] [] []"
| login: "token_run col sha ts issued accepted \<Longrightarrow> sha new \<notin> sha ` set issued \<Longrightarrow> i \<notin> rt_id ` set ts \<Longrightarrow>
    create_refresh_token sha now i new user ci ts = (ts', r) \<Longrightarrow> token_run col sha ts' (new # issued) accepted"
| refresh: "token_run col sha ts issued accepted \<Longrightarrow> sha new \<notin> sha ` set issued \<Longrightarrow> i \<notin> rt_id ` set ts \<Longrightarrow>
    validate_and_rotate col sha id now i new token ci ts = (ts', Inr (Some u)) \<Longrightarrow>
    token_run col sha ts' (new # issued) (token # accepted)"
| rejected: "token_run col sha ts issued accepted \<Longrightarrow> sha new \<notin> sha ` set issued \<Longrightarrow> i \<notin> rt_id ` set ts \<Longrightarrow>
    validate_and_rotate col sha id now i new token ci ts = (ts', r) \<Longrightarrow> (\<forall>u. r \<noteq> Inr (Some u)) \<Longrightarrow>
    token_run col sha ts' (new # issued) accepted"
| logout: "token_run col sha ts issued accepted \<Longrightarrow>
    token_run col sha (fst (revoke_token_family now user fp ts)) issued accepted"
| cleanup: "token_run col sha ts issued accepted \<Longrightarrow>
    token_run col sha (fst (cleanup_expired_tokens now ts)) issued accepted"

text \<open>The invariant: stored hashes are hashes of issued texts, accepted tokens are spent.\<close>

definition spent :: "(string \<Rightarrow> string) \<Rightarrow> token_row list \<Rightarrow> string \<Rightarrow> bool" where
  "spent sha ts t \<longleftrightarrow> (\<forall>r\<in>set ts. rt_token_hash r = sha t \<longrightarrow> rt_revoked_at r \<noteq> None)"

definition tokens_ok :: "(string \<Rightarrow> string) \<Rightarrow> token_row list \<Rightarrow> string list \<Rightarrow> string list \<Rightarrow> bool" where
  "tokens_ok sha ts issued accepted \<longleftrightarrow>
     rt_token_hash ` set ts \<subseteq> sha ` set issued \<and> sha ` set accepted \<subseteq> sha ` set issued
     \<and> distinct (map rt_token_hash ts)
     \<and> (\<forall>t\<in>set accepted. spent sha ts t) \<and> distinct (map sha accepted)"

lemma tokens_ok_update:
  assumes "tokens_ok sha ts issued accepted"
    and "\<And>r. rt_token_hash (f r) = rt_token_hash r \<and> (rt_revoked_at r \<noteq> None \<longrightarrow> rt_revoked_at (f r) \<noteq> None)"
  shows "tokens_ok sha (sql_update P f ts) issued accepted"
proof -
  have h: "map rt_token_hash (sql_update P f ts) = map rt_token_hash ts"
    using assms(2) by (simp add: sql_update_def)
  have "rt_token_hash ` set (sql_update P f ts) = rt_token_hash ` set ts" using arg_cong [OF h, of set] by simp
  moreover have "spent sha (sql_update P f ts) t" if "spent sha ts t" for t
    using that assms(2) unfolding spent_def by (auto simp: sql_update_def)
  ultimately show ?thesis using assms(1) h unfolding tokens_ok_def by (metis (no_types, lifting))
qed

lemma tokens_ok_revoke: "tokens_ok sha ts issued accepted \<Longrightarrow> tokens_ok sha (revoke_token now i ts) issued accepted"
  unfolding revoke_token_def by (erule tokens_ok_update) simp

lemma tokens_ok_family:
  "tokens_ok sha ts issued accepted \<Longrightarrow> tokens_ok sha (fst (revoke_token_family now u fp ts)) issued accepted"
  unfolding revoke_token_family_def fst_conv by (erule tokens_ok_update) simp

lemma tokens_ok_cleanup:
  "tokens_ok sha ts issued accepted \<Longrightarrow> tokens_ok sha (fst (cleanup_expired_tokens now ts)) issued accepted"
  by (auto simp: cleanup_expired_tokens_def sql_delete_def tokens_ok_def spent_def distinct_map inj_on_def)

lemma tokens_ok_more: "tokens_ok sha ts issued accepted \<Longrightarrow> tokens_ok sha ts (new # issued) accepted"
  by (auto simp: tokens_ok_def)

lemma tokens_ok_create:
  assumes "tokens_ok sha ts issued accepted" "sha new \<notin> sha ` set issued"
    "create_refresh_token sha now i new user ci ts = (ts', r)"
  shows "tokens_ok sha ts' (new # issued) accepted"
proof (cases "list_ex (\<lambda>r. rt_token_hash r = sha new) ts")
  case True
  then show ?thesis using assms tokens_ok_more by (simp add: create_refresh_token_def)
next
  case False
  have acc: "\<forall>t\<in>set accepted. sha t \<noteq> sha new" using assms(1,2) unfolding tokens_ok_def by (metis imageI subsetD)
  have row: "\<forall>x\<in>set ts. rt_token_hash x \<noteq> sha new" using False by (simp add: list_ex_iff)
  obtain x where x: "ts' = ts @ [x]" "rt_token_hash x = sha new"
    using assms(3) False by (auto simp: create_refresh_token_def)
  have "distinct (map rt_token_hash ts')" using assms(1) x row by (auto simp: tokens_ok_def)
  moreover have "\<forall>t\<in>set accepted. spent sha ts' t"
    using assms(1) x acc unfolding tokens_ok_def spent_def by (metis Un_iff set_append set_ConsD empty_iff empty_set)
  moreover have "rt_token_hash ` set ts' \<subseteq> sha ` set (new # issued)" using assms(1) x by (auto simp: tokens_ok_def)
  ultimately show ?thesis using assms(1) by (auto simp: tokens_ok_def)
qed

lemma revoke_hashes: "rt_token_hash ` set (revoke_token now i ts) = rt_token_hash ` set ts"
proof -
  have "map rt_token_hash (revoke_token now i ts) = map rt_token_hash ts" by (simp add: revoke_token_def sql_update_def)
  then show ?thesis by (metis set_map)
qed

lemma revoke_no_dup: "h \<notin> rt_token_hash ` set ts \<Longrightarrow> \<not> list_ex (\<lambda>r. rt_token_hash r = h) (revoke_token now i ts)"
  unfolding list_ex_iff by (metis imageI revoke_hashes)

text \<open>The branch that accepts: the row is there, active, and is revoked before the new one is stored.\<close>

lemma rotate_accepts:
  assumes "validate_and_rotate col sha others now i new token ci ts = (ts', Inr (Some u))"
  obtains rec where "find (\<lambda>r. rt_token_hash r = sha token) ts = Some rec" "rt_revoked_at rec = None"
    "create_refresh_token sha now i new (rt_user_id rec) ci (revoke_token now (rt_id rec) (others ts)) = (ts', Inr new)"
    "u = (rt_user_id rec, new)"
  using assms
  by (auto simp: validate_and_rotate_def create_refresh_token_def split: option.splits sum.splits bool.splits if_splits)

lemma tokens_ok_refresh:
  assumes ok: "tokens_ok sha ts issued accepted" and new: "sha new \<notin> sha ` set issued"
    and rot: "validate_and_rotate col sha id now i new token ci ts = (ts', Inr (Some u))"
  shows "tokens_ok sha ts' (new # issued) (token # accepted)"
proof -
  obtain rec where rec: "find (\<lambda>r. rt_token_hash r = sha token) ts = Some rec" "rt_revoked_at rec = None"
    and cr: "create_refresh_token sha now i new (rt_user_id rec) ci (revoke_token now (rt_id rec) ts) = (ts', Inr new)"
    using rotate_accepts [OF rot] by auto
  have mem: "rec \<in> set ts" "rt_token_hash rec = sha token"
    using rec(1) by (auto simp: find_Some_iff in_set_conv_nth)
  let ?ts1 = "revoke_token now (rt_id rec) ts"
  have ok1: "tokens_ok sha ?ts1 issued accepted" by (rule tokens_ok_revoke [OF ok])
  have uniq: "r = rec" if "r \<in> set ts" "rt_token_hash r = sha token" for r
    using that mem ok by (auto simp: tokens_ok_def distinct_map inj_on_def)
  then have "spent sha ?ts1 token" by (auto simp: spent_def revoke_token_def sql_update_def)
  moreover have "sha token \<in> sha ` set issued"
    using ok mem unfolding tokens_ok_def by (metis imageI subsetD)
  moreover have "sha token \<notin> sha ` set accepted"
    using ok mem rec(2) unfolding tokens_ok_def spent_def by (metis imageE)
  ultimately have "tokens_ok sha ?ts1 issued (token # accepted)" using ok1 by (auto simp: tokens_ok_def)
  from tokens_ok_create [OF this new cr] show ?thesis .
qed

lemma tokens_ok_rejected:
  assumes "tokens_ok sha ts issued accepted" "sha new \<notin> sha ` set issued"
    "validate_and_rotate col sha id now i new token ci ts = (ts', r)"
  shows "tokens_ok sha ts' (new # issued) accepted"
proof -
  have "tokens_ok sha x (new # issued) accepted"
    if "create_refresh_token sha now i new (rt_user_id rec) ci (revoke_token now (rt_id rec) ts) = (x, y)" for rec x y
    using tokens_ok_create [OF tokens_ok_revoke [OF assms(1)] assms(2) that] .
  then show ?thesis
    using assms(3) tokens_ok_more [OF assms(1)] tokens_ok_more [OF tokens_ok_family [OF assms(1)]]
    by (auto simp: validate_and_rotate_def split: option.splits sum.splits bool.splits if_splits prod.splits)
qed

lemma token_run_ok: "token_run col sha ts issued accepted \<Longrightarrow> tokens_ok sha ts issued accepted"
proof (induction rule: token_run.induct)
  case start
  then show ?case by (simp add: tokens_ok_def)
qed (auto intro: tokens_ok_create tokens_ok_refresh tokens_ok_rejected tokens_ok_family tokens_ok_cleanup)

section \<open>Properties\<close>

text \<open>
  Property C24. Rotation spends a token: over any history of logins, refreshes, logouts and clean-ups handled one
  after the other, no refresh token is accepted twice, and an accepted token has no active row left.
\<close>

theorem refresh_token_spent_once:
  assumes "token_run col sha ts issued accepted"
  shows "distinct (map sha accepted) \<and> (\<forall>t\<in>set accepted. \<forall>r\<in>set ts. rt_token_hash r = sha t \<longrightarrow> rt_revoked_at r \<noteq> None)"
  using token_run_ok [OF assms] by (simp add: tokens_ok_def spent_def)

definition no_client :: client_info where
  "no_client = \<lparr>ci_device_fingerprint = None, ci_ip_address = None, ci_user_agent = None\<rparr>"

definition demo_row :: "nat \<Rightarrow> string \<Rightarrow> instant \<Rightarrow> string option \<Rightarrow> instant option \<Rightarrow> token_row" where
  "demo_row i h now fp rv = \<lparr>rt_id = i, rt_user_id = ''u'', rt_token_hash = h, rt_device_fingerprint = fp,
     rt_ip_address = None, rt_user_agent = None, rt_created_at = now, rt_expires_at = now + EXPIRY_DAYS * 86400,
     rt_revoked_at = rv, rt_last_used_at = None\<rparr>"

theorem refresh_token_spent_once_witness:
  "distinct (map id [''a'']) \<and> token_run Naive id [demo_row 1 ''a'' 0 None (Some 9), demo_row 2 ''b'' 9 None None] [''b'', ''a''] [''a'']"
proof -
  have r1: "token_run Naive id [demo_row 1 ''a'' 0 None None] [''a''] []"
    by (rule token_run.login [OF token_run.start, where now = 0 and i = 1 and user = "''u''" and ci = no_client])
       (simp_all add: create_refresh_token_def demo_row_def no_client_def)
  have r2: "token_run Naive id [demo_row 1 ''a'' 0 None (Some 9), demo_row 2 ''b'' 9 None None] [''b'', ''a''] [''a'']"
    by (rule token_run.refresh [OF r1, where now = 9 and i = 2 and ci = no_client and u = "(''u'', ''b'')"])
       (simp_all add: validate_and_rotate_def create_refresh_token_def revoke_token_def sql_update_def demo_row_def
          no_client_def EXPIRY_DAYS_def)
  show ?thesis using refresh_token_spent_once [OF r2] r2 by simp
qed

text \<open>
  With the driver's offset-aware timestamps no refresh ever succeeds: for every stored token the
  comparison of its expiry with \<open>utcnow()\<close> raises, nothing is rotated and nothing is revoked.
\<close>

theorem refresh_raises_on_aware_columns:
  assumes "r \<in> set ts" "rt_token_hash r = sha token"
  shows "validate_and_rotate Aware sha others now i new token ci ts = (ts, Inl (Raised TypeError))"
proof -
  obtain rec where "find (\<lambda>r. rt_token_hash r = sha token) ts = Some rec"
    using assms by (cases "find (\<lambda>r. rt_token_hash r = sha token) ts") (auto simp: find_None_iff)
  then show ?thesis by (simp add: validate_and_rotate_def)
qed

theorem refresh_raises_on_aware_columns_witness:
  "snd (validate_and_rotate Aware id id 9 2 ''b'' ''a'' no_client [demo_row 1 ''a'' 0 None None]) = Inl (Raised TypeError)"
  using refresh_raises_on_aware_columns [of "demo_row 1 ''a'' 0 None None" "[demo_row 1 ''a'' 0 None None]" id "''a''" id 9 2 "''b''" no_client]
  by (simp add: demo_row_def)

text \<open>
  A thief survives reuse detection. A token issued to a device is rotated by someone who sends another
  fingerprint; the new token carries that fingerprint. When the owner presents the old token more than five minutes
  later, the reuse is detected and the family of the owner's device is revoked, but the thief's token stays active.
\<close>

theorem thief_survives_reuse_detection:
  assumes "find (\<lambda>r. rt_token_hash r = sha token) ts = Some rec" "rt_revoked_at rec = None"
    and "distinct (map rt_token_hash ts)" "distinct (map rt_id ts)"
    and "rt_device_fingerprint rec = Some fp" "fp \<noteq> []" "ci_device_fingerprint thief \<noteq> Some fp"
    and "now \<le> rt_expires_at rec" "now + 300 \<le> later" "later \<le> rt_expires_at rec"
    and "sha stolen \<notin> rt_token_hash ` set ts" "i \<notin> rt_id ` set ts"
    and ts1_def: "validate_and_rotate Naive sha id now i stolen token thief ts = (ts1, r1)"
    and ts2_def: "validate_and_rotate Naive sha id later j new token owner ts1 = (ts2, r2)"
  shows "r1 = Inr (Some (rt_user_id rec, stolen)) \<and> r2 = Inr None
    \<and> (\<exists>x\<in>set ts2. rt_token_hash x = sha stolen \<and> rt_revoked_at x = None)"
proof -
  let ?x = "\<lparr>rt_id = i, rt_user_id = rt_user_id rec, rt_token_hash = sha stolen,
     rt_device_fingerprint = ci_device_fingerprint thief, rt_ip_address = ci_ip_address thief,
     rt_user_agent = ci_user_agent thief, rt_created_at = now, rt_expires_at = now + EXPIRY_DAYS * 86400,
     rt_revoked_at = None, rt_last_used_at = None\<rparr>"
  let ?rec1 = "rec\<lparr>rt_revoked_at := Some now\<rparr>"
  let ?upd = "revoke_token now (rt_id rec) ts"
  have mem: "rec \<in> set ts" "rt_token_hash rec = sha token"
    using assms(1) by (auto simp: find_Some_iff in_set_conv_nth)
  note nodup = revoke_no_dup [OF assms(11), of now "rt_id rec"]
  have one: "ts1 = ?upd @ [?x]" "r1 = Inr (Some (rt_user_id rec, stolen))"
    using ts1_def assms(1,2,8) nodup by (simp_all add: validate_and_rotate_def create_refresh_token_def)
  have "?rec1 \<in> set ?upd" using mem by (force simp: revoke_token_def sql_update_def)
  moreover have "y = ?rec1" if y: "y \<in> set ?upd" "rt_token_hash y = sha token" for y
  proof -
    obtain z where z: "z \<in> set ts" "y = (if rt_id z = rt_id rec then z\<lparr>rt_revoked_at := Some now\<rparr> else z)"
      using y(1) by (auto simp: revoke_token_def sql_update_def)
    then have "rt_token_hash z = rt_token_hash rec" using y(2) mem(2) by (simp split: if_splits)
    then have "z = rec" using z(1) mem(1) assms(3) by (simp add: distinct_map inj_on_def)
    then show ?thesis using z(2) by simp
  qed
  moreover have "rt_token_hash ?rec1 = sha token" using mem(2) by simp
  ultimately have "find (\<lambda>r. rt_token_hash r = sha token) ?upd = Some ?rec1"
    using find_unique [of ?rec1 ?upd "\<lambda>r. rt_token_hash r = sha token"] by blast
  then have f1: "find (\<lambda>r. rt_token_hash r = sha token) ts1 = Some ?rec1"
    unfolding one(1) by (rule find_append_Some)
  have window: "\<not> (later - now) / 60 < REUSE_DETECTION_WINDOW_MINUTES"
    using assms(9) by (simp add: REUSE_DETECTION_WINDOW_MINUTES_def field_simps)
  have two: "r2 = Inr None" "ts2 = fst (revoke_token_family later (rt_user_id rec) (Some fp) ts1)"
    using ts2_def f1 window assms(5,10) by (simp_all add: validate_and_rotate_def)
  have "\<not> in_family (rt_user_id rec) (Some fp) ?x" using assms(6,7) by (simp add: in_family_def)
  then have "?x \<in> set ts2" unfolding two(2) one(1) by (simp add: revoke_token_family_def sql_update_def)
  then show ?thesis using one(2) two(1) by force
qed

theorem thief_survives_reuse_detection_witness:
  "\<exists>x\<in>set (fst (validate_and_rotate Naive id id 400 3 ''n'' ''a'' no_client
       (fst (validate_and_rotate Naive id id 50 2 ''stolen'' ''a'' no_client [demo_row 1 ''a'' 0 (Some ''phone'') None])))).
     rt_token_hash x = ''stolen'' \<and> rt_revoked_at x = None"
proof -
  let ?ts = "[demo_row 1 ''a'' 0 (Some ''phone'') None]"
  let ?one = "validate_and_rotate Naive id id 50 2 ''stolen'' ''a'' no_client ?ts"
  let ?two = "validate_and_rotate Naive id id 400 3 ''n'' ''a'' no_client (fst ?one)"
  from thief_survives_reuse_detection [of id "''a''" ?ts "demo_row 1 ''a'' 0 (Some ''phone'') None" "''phone''" no_client 50 400
      "''stolen''" 2 "fst ?one" "snd ?one" 3 "''n''" no_client "fst ?two" "snd ?two"]
  show ?thesis by (simp add: demo_row_def no_client_def EXPIRY_DAYS_def)
qed

text \<open>
  The lookup and the revocation are two statements: two requests that both look the token up first are both
  accepted.
\<close>

lemma concurrent_refresh_accepts_twice:
  assumes "find (\<lambda>r. rt_token_hash r = sha token) ts = Some rec" "rt_revoked_at rec = None" "now \<le> rt_expires_at rec"
    and "others = (\<lambda>ts. fst (validate_and_rotate Naive sha id now i first token ci ts))"
    and "sha first \<notin> rt_token_hash ` set ts" "sha second \<notin> rt_token_hash ` set ts" "sha second \<noteq> sha first"
  shows "snd (validate_and_rotate Naive sha id now i first token ci ts) = Inr (Some (rt_user_id rec, first))
    \<and> snd (validate_and_rotate Naive sha others now j second token ci' ts) = Inr (Some (rt_user_id rec, second))"
proof -
  have one: "validate_and_rotate Naive sha id now i first token ci ts
      = (fst (create_refresh_token sha now i first (rt_user_id rec) ci (revoke_token now (rt_id rec) ts)),
         Inr (Some (rt_user_id rec, first)))"
    using assms(1-3) revoke_no_dup [OF assms(5)] by (simp add: validate_and_rotate_def create_refresh_token_def)
  have "rt_token_hash ` set (others ts) = insert (sha first) (rt_token_hash ` set ts)"
    unfolding assms(4) one fst_conv using revoke_no_dup [OF assms(5)] revoke_hashes by (simp add: create_refresh_token_def)
  then have "sha second \<notin> rt_token_hash ` set (others ts)" using assms(6,7) by simp
  from revoke_no_dup [OF this] show ?thesis using one assms(1-3) by (simp add: validate_and_rotate_def create_refresh_token_def)
qed

end
