(* ===== verification/Webhook_Spool.thy ===== *)
theory Webhook_Spool
  imports Prelude "HOL-Library.AList" "HOL-Library.List_Lexorder" "HOL-Library.Char_ord"
begin

text \<open>
  \<open>src/webhook_spool.py\<close>: webhook payloads buffered as files in three directories, and one round of the worker
  that retries them.

  A directory is a list of named files; a file holds an envelope or text that is no envelope. Renaming a file onto
  an existing name replaces it, as \<open>rename(2)\<close> does. The callback that processes an envelope is an argument;
  \<open>process_envelope\<close> is the stub of the source. Times are instants (the ISO texts of the source).
\<close>

section \<open>Files\<close>

record envelope =
  ev_id :: string
  ev_device_eui :: string
  ev_request_id :: string
  ev_enqueued_at :: instant
  ev_retry_count :: int
  ev_next_retry_at :: instant
  ev_webhook_data :: string
  ev_metadata :: "(string \<times> string) list"

datatype spool_file = Envelope envelope | Broken string

type_synonym directory = "(string \<times> spool_file) list"

record spool =
  wd_pending :: directory
  wd_processing :: directory
  wd_dead_letter :: directory

definition MAX_RETRY_ATTEMPTS :: int where "MAX_RETRY_ATTEMPTS = 5"
definition INITIAL_BACKOFF_SECONDS :: int where "INITIAL_BACKOFF_SECONDS = 2"
definition MAX_BACKOFF_SECONDS :: int where "MAX_BACKOFF_SECONDS = 300"

definition json_name :: "string \<Rightarrow> bool" where
  "json_name n \<longleftrightarrow> 5 \<le> length n \<and> drop (length n - 5) n = ''.json''"

text \<open>\<open>enqueue\<close>: the file appears under its name at once, by a rename of the finished temporary file.\<close>

definition spool_enqueue ::
  "instant \<Rightarrow> string \<Rightarrow> string \<Rightarrow> string \<Rightarrow> string \<Rightarrow> (string \<times> string) list \<Rightarrow> spool \<Rightarrow> spool \<times> string" where
  "spool_enqueue now spool_id webhook_data device_eui request_id metadata fs =
     (fs\<lparr>wd_pending := AList.update (spool_id @ ''.json'')
          (Envelope \<lparr>ev_id = spool_id, ev_device_eui = device_eui, ev_request_id = request_id,
                     ev_enqueued_at = now, ev_retry_count = 0, ev_next_retry_at = now,
                     ev_webhook_data = webhook_data, ev_metadata = metadata\<rparr>) (wd_pending fs)\<rparr>,
      spool_id)"

text \<open>Writing a file of a directory, removing one, moving one between directories.\<close>

definition move_in :: "string \<Rightarrow> directory \<Rightarrow> directory \<Rightarrow> directory" where
  "move_in n from to' = (case map_of from n of None \<Rightarrow> to' | Some f \<Rightarrow> AList.update n f to')"

definition backoff :: "int \<Rightarrow> int" where
  "backoff retry_count = min (INITIAL_BACKOFF_SECONDS * 2 ^ nat retry_count) MAX_BACKOFF_SECONDS"

text \<open>
  One file of a round. A broken file is logged and skipped. After a failed attempt the new envelope is
  written to the pending name, and then the old file is renamed onto it.
\<close>

definition process_file :: "(envelope \<Rightarrow> bool) \<Rightarrow> instant \<Rightarrow> string \<Rightarrow> spool \<Rightarrow> spool" where
  "process_file handle now n fs =
     (case map_of (wd_pending fs) n of
        None \<Rightarrow> fs
      | Some (Broken _) \<Rightarrow> fs
      | Some (Envelope env) \<Rightarrow>
      if ev_next_retry_at env > now then fs
      else
        let fs = fs\<lparr>wd_processing := move_in n (wd_pending fs) (wd_processing fs),
                    wd_pending := AList.delete n (wd_pending fs)\<rparr>
        in if handle env then fs\<lparr>wd_processing := AList.delete n (wd_processing fs)\<rparr>
           else
             let env = env\<lparr>ev_retry_count := ev_retry_count env + 1\<rparr>
             in if ev_retry_count env \<ge> MAX_RETRY_ATTEMPTS
                then fs\<lparr>wd_dead_letter := AList.update n (Envelope env) (wd_dead_letter fs),
                        wd_processing := AList.delete n (wd_processing fs)\<rparr>
                else
                  let env = env\<lparr>ev_next_retry_at := now + of_int (backoff (ev_retry_count env))\<rparr>;
                      fs = fs\<lparr>wd_pending := AList.update n (Envelope env) (wd_pending fs)\<rparr>
                  in fs\<lparr>wd_pending := move_in n (wd_processing fs) (wd_pending fs),
                        wd_processing := AList.delete n (wd_processing fs)\<rparr>)"

text \<open>\<open>sorted(pending_dir.glob("*.json"))\<close>, then one file after the other.\<close>

definition process_pending_files :: "(envelope \<Rightarrow> bool) \<Rightarrow> instant \<Rightarrow> spool \<Rightarrow> spool" where
  "process_pending_files handle now fs =
     fold (process_file handle now) (sort (filter json_name (map fst (wd_pending fs)))) fs"

definition process_envelope :: "envelope \<Rightarrow> bool" where "process_envelope env = False"

record spool_stats =
  ss_pending :: nat
  ss_processing :: nat
  ss_dead_letter :: nat

definition spool_get_stats :: "spool \<Rightarrow> spool_stats" where
  "spool_get_stats fs =
     \<lparr>ss_pending = length (filter (json_name \<circ> fst) (wd_pending fs)),
      ss_processing = length (filter (json_name \<circ> fst) (wd_processing fs)),
      ss_dead_letter = length (filter (json_name \<circ> fst) (wd_dead_letter fs))\<rparr>"

text \<open>\<open>spool\<close> is the global instance, \<open>failing\<close> whether writing the file raises.\<close>

definition spool_webhook_on_error ::
  "bool \<Rightarrow> instant \<Rightarrow> string \<Rightarrow> string \<Rightarrow> string \<Rightarrow> string \<Rightarrow> string \<Rightarrow> string \<Rightarrow> spool option \<Rightarrow> spool option \<times> bool" where
  "spool_webhook_on_error failing now spool_id webhook_data device_eui request_id err err_type spool =
     (case spool of
        None \<Rightarrow> (None, False)
      | Some fs \<Rightarrow>
          if failing then (Some fs, False)
          else (Some (fst (spool_enqueue now spool_id webhook_data device_eui request_id
                             [(''error'', err), (''error_type'', err_type)] fs)), True))"

section \<open>One round, file by file\<close>

definition ready :: "instant \<Rightarrow> directory \<Rightarrow> string \<Rightarrow> bool" where
  "ready now d n \<longleftrightarrow> (\<exists>env. map_of d n = Some (Envelope env) \<and> ev_next_retry_at env \<le> now)"

text \<open>
  What a round leaves under a name: with no name in use in \<open>processing\<close> and fewer than four recorded attempts.
\<close>

definition after_round :: "(envelope \<Rightarrow> bool) \<Rightarrow> instant \<Rightarrow> spool_file option \<Rightarrow> spool_file option" where
  "after_round handle now f =
     (case f of
        Some (Envelope env) \<Rightarrow> if ev_next_retry_at env \<le> now \<and> handle env then None else f
      | _ \<Rightarrow> f)"

definition few_retries :: "directory \<Rightarrow> bool" where
  "few_retries d \<longleftrightarrow> (\<forall>n env. map_of d n = Some (Envelope env) \<longrightarrow> ev_retry_count env + 1 < MAX_RETRY_ATTEMPTS)"

definition spool_wf :: "spool \<Rightarrow> bool" where
  "spool_wf fs \<longleftrightarrow> few_retries (wd_pending fs)
     \<and> (\<forall>n. map_of (wd_pending fs) n \<noteq> None \<longrightarrow> map_of (wd_processing fs) n = None)"

lemma process_file_step:
  assumes "spool_wf fs"
  shows "map_of (wd_pending (process_file handle now n fs))
      = (map_of (wd_pending fs))(n := after_round handle now (map_of (wd_pending fs) n))"
    and "map_of (wd_processing (process_file handle now n fs)) = map_of (wd_processing fs)"
    and "wd_dead_letter (process_file handle now n fs) = wd_dead_letter fs"
proof -
  have few: "ev_retry_count env + 1 < MAX_RETRY_ATTEMPTS" and np: "map_of (wd_processing fs) n = None"
    if "map_of (wd_pending fs) n = Some (Envelope env)" for env
    using assms that by (auto simp: spool_wf_def few_retries_def)
  show "map_of (wd_pending (process_file handle now n fs))
      = (map_of (wd_pending fs))(n := after_round handle now (map_of (wd_pending fs) n))"
    using few
    by (auto simp: process_file_def after_round_def move_in_def Let_def update_conv' delete_conv' fun_eq_iff
        split: option.split spool_file.split)
  show "map_of (wd_processing (process_file handle now n fs)) = map_of (wd_processing fs)"
    using np few
    by (auto simp: process_file_def move_in_def Let_def update_conv' delete_conv' fun_eq_iff
        split: option.split spool_file.split)
  show "wd_dead_letter (process_file handle now n fs) = wd_dead_letter fs"
    using few by (auto simp: process_file_def Let_def split: option.split spool_file.split)
qed

lemma after_round_keeps:
  "after_round handle now f = Some (Envelope env) \<Longrightarrow> f = Some (Envelope env)"
  by (auto simp: after_round_def split: option.splits spool_file.splits if_splits)

lemma after_round_twice [simp]:
  "after_round handle now (after_round handle now f) = after_round handle now f"
  by (auto simp: after_round_def split: option.splits spool_file.splits)

lemma spool_wf_process_file:
  assumes "spool_wf fs"
  shows "spool_wf (process_file handle now n fs)"
proof -
  note step = process_file_step [OF assms, of handle now n]
  have old: "map_of (wd_pending fs) m = Some (Envelope env)"
    if "map_of (wd_pending (process_file handle now n fs)) m = Some (Envelope env)" for m env
    using that after_round_keeps by (auto simp: step(1) split: if_splits)
  have dom: "map_of (wd_pending fs) m \<noteq> None"
    if "map_of (wd_pending (process_file handle now n fs)) m \<noteq> None" for m
    using that by (auto simp: step(1) after_round_def split: if_splits option.splits)
  show ?thesis
    using assms old dom unfolding spool_wf_def few_retries_def step(2) by blast
qed

lemma process_files:
  assumes "spool_wf fs"
  shows "map_of (wd_pending (fold (process_file handle now) ns fs)) m
      = (if m \<in> set ns then after_round handle now (map_of (wd_pending fs) m) else map_of (wd_pending fs) m)
    \<and> map_of (wd_processing (fold (process_file handle now) ns fs)) = map_of (wd_processing fs)
    \<and> wd_dead_letter (fold (process_file handle now) ns fs) = wd_dead_letter fs"
  using assms
proof (induction ns arbitrary: fs)
  case (Cons n ns)
  note step = process_file_step [OF Cons.prems, of handle now n]
  show ?case
    using Cons.IH [OF spool_wf_process_file [OF Cons.prems], of handle now n] by (simp add: step)
qed simp

text \<open>
  A round over a well-formed spool, for any outcome of the callback: exactly the due envelopes it accepts are gone,
  every other file is as it was.
\<close>

lemma process_pending_files_exact:
  assumes "spool_wf fs"
  shows "map_of (wd_pending (process_pending_files handle now fs)) n
      = (if json_name n then after_round handle now (map_of (wd_pending fs) n) else map_of (wd_pending fs) n)"
    and "map_of (wd_processing (process_pending_files handle now fs)) = map_of (wd_processing fs)"
    and "wd_dead_letter (process_pending_files handle now fs) = wd_dead_letter fs"
proof -
  let ?ns = "sort (filter json_name (map fst (wd_pending fs)))"
  note all = process_files [OF assms, of handle now ?ns]
  have "n \<notin> fst ` set (wd_pending fs) \<Longrightarrow> map_of (wd_pending fs) n = None"
    by (simp add: map_of_eq_None_iff)
  then show "map_of (wd_pending (process_pending_files handle now fs)) n
      = (if json_name n then after_round handle now (map_of (wd_pending fs) n) else map_of (wd_pending fs) n)"
    using all [of n] by (auto simp: process_pending_files_def after_round_def)
  show "map_of (wd_processing (process_pending_files handle now fs)) = map_of (wd_processing fs)"
    and "wd_dead_letter (process_pending_files handle now fs) = wd_dead_letter fs"
    using all [of n] by (auto simp: process_pending_files_def)
qed

section \<open>The life of a spool\<close>

text \<open>
  The spool from its empty directories on: payloads are enqueued and rounds run, in any order, at any time and with
  any answers of the callback.
\<close>

definition empty_spool :: spool where
  "empty_spool = \<lparr>wd_pending = [], wd_processing = [], wd_dead_letter = []\<rparr>"

inductive spool_life :: "spool \<Rightarrow> bool" where
  spool_new: "spool_life empty_spool"
| spool_add: "spool_life fs \<Longrightarrow> spool_life (fst (spool_enqueue now i data eui rid meta fs))"
| spool_round: "spool_life fs \<Longrightarrow> spool_life (process_pending_files handle now fs)"

definition untried :: "directory \<Rightarrow> bool" where
  "untried d \<longleftrightarrow> (\<forall>n f. map_of d n = Some f \<longrightarrow> (\<exists>env. f = Envelope env \<and> ev_retry_count env = 0))"

lemma untried_few_retries: "untried d \<Longrightarrow> few_retries d"
  by (fastforce simp: untried_def few_retries_def MAX_RETRY_ATTEMPTS_def)

lemma after_round_cases: "after_round handle now f = None \<or> after_round handle now f = f"
  by (simp add: after_round_def split: option.split spool_file.split)

lemma spool_life_untried:
  "spool_life fs \<Longrightarrow>
     untried (wd_pending fs) \<and> map_of (wd_processing fs) = Map.empty \<and> wd_dead_letter fs = []"
proof (induction rule: spool_life.induct)
  case spool_new
  show ?case by (simp add: empty_spool_def untried_def)
next
  case (spool_add fs now i data eui rid meta)
  then show ?case by (auto simp: spool_enqueue_def untried_def update_conv')
next
  case (spool_round fs handle now)
  then have wf: "spool_wf fs" by (simp add: spool_wf_def untried_few_retries)
  have "map_of (wd_pending fs) n = Some f"
    if "map_of (wd_pending (process_pending_files handle now fs)) n = Some f" for n f
    using that after_round_cases [of handle now "map_of (wd_pending fs) n"]
    by (simp add: process_pending_files_exact(1) [OF wf] split: if_splits)
  then show ?case
    using spool_round.IH unfolding process_pending_files_exact(2,3) [OF wf] untried_def by blast
qed

text \<open>
  Retries are never counted. However often the rounds of the worker run and whatever the callback
  answers, no payload ever reaches the dead-letter directory, every pending file still records zero attempts, and a
  round removes exactly the due payloads the callback accepts: the envelope with the incremented count and the
  backed-off time is overwritten by the rename of the old file, so a payload that always fails is retried in every
  round for ever.
\<close>

theorem spool_never_dead_letters:
  assumes "spool_life fs"
  shows "wd_dead_letter (process_pending_files handle now fs) = []
    \<and> (\<forall>n f. map_of (wd_pending (process_pending_files handle now fs)) n = Some f
          \<longrightarrow> (\<exists>env. f = Envelope env \<and> ev_retry_count env = 0))
    \<and> (\<forall>n. json_name n \<longrightarrow> map_of (wd_pending (process_pending_files handle now fs)) n
          = after_round handle now (map_of (wd_pending fs) n))"
proof -
  note now' = spool_life_untried [OF assms]
  then have wf: "spool_wf fs" by (simp add: spool_wf_def untried_few_retries)
  show ?thesis
    using spool_life_untried [OF spool_life.spool_round [OF assms, of handle now]]
      process_pending_files_exact(1) [OF wf, of handle now]
    by (simp add: untried_def)
qed

definition spooled_one :: spool where
  "spooled_one = fst (spool_enqueue 5 ''a'' ''payload'' ''0011'' ''req'' [] empty_spool)"

theorem spool_never_dead_letters_witness:
  "map_of (wd_pending spooled_one) ''a.json'' \<noteq> None
    \<and> wd_dead_letter (process_pending_files process_envelope 10 spooled_one) = []
    \<and> map_of (wd_pending (process_pending_files process_envelope 10 spooled_one)) ''a.json''
        = map_of (wd_pending spooled_one) ''a.json''"
proof -
  have "spool_life spooled_one"
    unfolding spooled_one_def by (intro spool_life.intros)
  from spool_never_dead_letters [OF this, of process_envelope 10] show ?thesis
    by (simp add: spooled_one_def spool_enqueue_def empty_spool_def json_name_def after_round_def
        process_envelope_def)
qed

end
