(* ===== verification/Database.thy ===== *)
theory Database
  imports Models
begin

text \<open>
  \<open>src/database.py\<close>: the queries of \<open>DatabasePool\<close> over the tables of \<open>src/migrations\<close>.

  Each table is a list of row records, in insertion order. What the schema does to a statement is
  part of the model: the trigger of migration 011 that upper-cases EUIs on every write to
  \<open>spaces\<close>, the unique constraints on sensor and display EUIs, the partial unique index on
  readings with a frame counter, the trigger of migration 008 that fills in the tenant of a
  reading, the checks, the unique request id and the exclusion constraint on reservations in the form the hotfix
  of migration 008 gives it. Two things the migrations and a deployment may disagree on are arguments: the
  trigger that fills in the tenant of a space (migration 003 defines one) and the default of
  \<open>reservations.tenant_id\<close> (the migrations define none). The trigger \<open>trg_spaces_eui_upper\<close> of
  migration 008, which reads a column \<open>spaces\<close> does not have, is taken as replaced by the one of 011. The order of text columns (\<open>ORDER BY name\<close>) depends on the collation and is a
  parameter. Connections and the pool are not modelled.
\<close>

section \<open>Rows\<close>

record space_row =
  sp_id :: uuid
  sp_name :: string
  sp_code :: string
  sp_building :: "string option"
  sp_floor :: "string option"
  sp_zone :: "string option"
  sp_sensor_eui :: "string option"
  sp_display_eui :: "string option"
  sp_sensor_device_id :: "uuid option"
  sp_state :: SpaceState
  sp_tenant_id :: "uuid option"
  sp_site_id :: "uuid option"
  sp_gps :: "(rat \<times> rat) option"
  sp_metadata :: "string option"
  sp_created_at :: instant
  sp_updated_at :: instant
  sp_deleted_at :: "instant option"

record state_change =
  sc_space_id :: uuid
  sc_previous_state :: SpaceState
  sc_new_state :: SpaceState
  sc_source :: string
  sc_request_id :: "string option"
  sc_timestamp :: instant

record device_type_row =
  dt_id :: uuid
  dt_type_code :: string
  dt_category :: string
  dt_name :: string
  dt_status :: string
  dt_handler_class :: "string option"
  dt_profile_name :: string
  dt_capabilities :: "string list"

record sensor_device_row =
  sd_id :: uuid
  sd_dev_eui :: string
  sd_device_type :: string
  sd_device_type_id :: uuid
  sd_device_model :: string
  sd_status :: string
  sd_enabled :: bool
  sd_last_seen_at :: instant

record reading_row =
  rd_device_eui :: string
  rd_space_id :: "uuid option"
  rd_occupancy_state :: "string option"
  rd_battery :: "rat option"
  rd_rssi :: "int option"
  rd_snr :: "rat option"
  rd_timestamp :: instant
  rd_fcnt :: "int option"
  rd_tenant_id :: "uuid option"

record site_row =
  st_id :: uuid
  st_tenant_id :: uuid
  st_name :: string
  st_timezone :: string
  st_location :: "string option"
  st_metadata :: "string option"
  st_is_active :: bool

record pdb =
  db_spaces :: "space_row list"
  db_state_changes :: "state_change list"
  db_reservations :: "Reservation list"
  db_device_types :: "device_type_row list"
  db_sensor_devices :: "sensor_device_row list"
  db_sensor_readings :: "reading_row list"

datatype db_error =
    Parking ParkingException
  | UniqueViolation string
  | ExclusionViolation string
  | CheckViolation string
  | NotNullViolation string
  | RaiseException string

type_synonym 'a db_result = "db_error + 'a"

section \<open>Schema\<close>

text \<open>The trigger \<open>enforce_eui_uppercase\<close> on \<open>spaces\<close>.\<close>

definition enforce_eui_uppercase :: "space_row \<Rightarrow> space_row" where
  "enforce_eui_uppercase r =
     r\<lparr>sp_sensor_eui := map_option upper (sp_sensor_eui r),
       sp_display_eui := map_option upper (sp_display_eui r)\<rparr>"

definition alive :: "space_row \<Rightarrow> bool" where "alive r = (sp_deleted_at r = None)"

text \<open>The unique constraint a row would violate against the other rows, by name.\<close>

definition space_unique_violation :: "space_row list \<Rightarrow> space_row \<Rightarrow> string option" where
  "space_unique_violation others r =
     (if sp_sensor_eui r \<noteq> None \<and> list_ex (\<lambda>o'. sp_sensor_eui o' = sp_sensor_eui r) others
      then Some ''unique_sensor_eui''
      else if sp_display_eui r \<noteq> None \<and> alive r
              \<and> list_ex (\<lambda>o'. alive o' \<and> sp_display_eui o' = sp_display_eui r) others
      then Some ''uq_spaces_display_eui''
      else if sp_tenant_id r \<noteq> None \<and> sp_site_id r \<noteq> None \<and> alive r
              \<and> list_ex (\<lambda>o'. alive o' \<and> sp_tenant_id o' = sp_tenant_id r
                           \<and> sp_site_id o' = sp_site_id r \<and> sp_code o' = sp_code r) others
      then Some ''unique_tenant_site_space_code''
      else None)"

text \<open>
  The trigger \<open>spaces_sync_tenant_id\<close> of migration 003, on inserts and on updates of site or tenant:
  it raises without an active site or when the tenant is not the site's.
\<close>

type_synonym space_trigger = "space_row \<Rightarrow> string + space_row"

definition spaces_sync_tenant_id :: "site_row list \<Rightarrow> space_trigger" where
  "spaces_sync_tenant_id sites r =
     (case sp_site_id r of
        None \<Rightarrow> Inl ''site_id cannot be NULL''
      | Some i \<Rightarrow>
          (case find (\<lambda>t. st_id t = i \<and> st_is_active t) sites of
             None \<Rightarrow> Inl (''Site '' @ i @ '' not found or inactive'')
           | Some t \<Rightarrow>
               (case sp_tenant_id r of
                  None \<Rightarrow> Inr (r\<lparr>sp_tenant_id := Some (st_tenant_id t)\<rparr>)
                | Some tn \<Rightarrow>
                    if tn \<noteq> st_tenant_id t
                    then Inl (''Tenant mismatch: space.tenant_id='' @ tn @ '', site.tenant_id='' @ st_tenant_id t)
                    else Inr r)))"

fun contains :: "string \<Rightarrow> string \<Rightarrow> bool" where
  "contains p [] = (p = [])"
| "contains p (c # s) = (startswith (c # s) p \<or> contains p s)"

section \<open>Spaces\<close>

record space_filters =
  sf_building :: "string option"
  sf_floor :: "string option"
  sf_zone :: "string option"
  sf_state :: "SpaceState option"
  sf_include_deleted :: bool
  sf_limit :: nat
  sf_offset :: nat

text \<open>\<open>if value: conditions.append(column = value)\<close>: a falsy filter adds no condition.\<close>

definition text_filter :: "string option \<Rightarrow> string option \<Rightarrow> bool" where
  "text_filter f v = (if truthy f then v = f else True)"

definition space_matches :: "space_filters \<Rightarrow> space_row \<Rightarrow> bool" where
  "space_matches f r =
     ((sf_include_deleted f \<or> alive r)
      \<and> text_filter (sf_building f) (sp_building r) \<and> text_filter (sf_floor f) (sp_floor r)
      \<and> text_filter (sf_zone f) (sp_zone r)
      \<and> (case sf_state f of None \<Rightarrow> True | Some st \<Rightarrow> sp_state r = st))"

definition get_spaces :: "(string \<Rightarrow> int) \<Rightarrow> pdb \<Rightarrow> space_filters \<Rightarrow> space_row list" where
  "get_spaces collate db f =
     take (sf_limit f) (drop (sf_offset f)
       (sort_key (\<lambda>r. collate (sp_name r)) (filter (space_matches f) (db_spaces db))))"

definition get_space :: "pdb \<Rightarrow> uuid \<Rightarrow> space_row option" where
  "get_space db space_id = find (\<lambda>r. sp_id r = space_id \<and> alive r) (db_spaces db)"

definition get_space_by_sensor :: "pdb \<Rightarrow> string \<Rightarrow> space_row option" where
  "get_space_by_sensor db sensor_eui =
     find (\<lambda>r. sp_sensor_eui r = Some sensor_eui \<and> alive r) (db_spaces db)"

record SpaceCreate =
  sn_name :: string
  sn_code :: string
  sn_building :: "string option"
  sn_floor :: "string option"
  sn_zone :: "string option"
  sn_sensor_eui :: "string option"
  sn_display_eui :: "string option"
  sn_state :: SpaceState
  sn_gps :: "(rat \<times> rat) option"
  sn_metadata :: "string option"

definition upper_if :: "string option \<Rightarrow> string option" where
  "upper_if e = (if truthy e then map_option upper e else None)"

definition new_space_row :: "uuid \<Rightarrow> instant \<Rightarrow> SpaceCreate \<Rightarrow> space_row" where
  "new_space_row i now sp =
     \<lparr>sp_id = i, sp_name = sn_name sp, sp_code = sn_code sp, sp_building = sn_building sp,
      sp_floor = sn_floor sp, sp_zone = sn_zone sp,
      sp_sensor_eui = upper_if (sn_sensor_eui sp), sp_display_eui = upper_if (sn_display_eui sp),
      sp_sensor_device_id = None, sp_state = sn_state sp, sp_tenant_id = None, sp_site_id = None,
      sp_gps = sn_gps sp, sp_metadata = (if truthy (sn_metadata sp) then sn_metadata sp else None),
      sp_created_at = now, sp_updated_at = now, sp_deleted_at = None\<rparr>"

definition create_space ::
  "space_trigger \<Rightarrow> pdb \<Rightarrow> uuid \<Rightarrow> instant \<Rightarrow> SpaceCreate \<Rightarrow> (pdb \<times> space_row) db_result" where
  "create_space trig db i now sp =
     (case trig (new_space_row i now sp) of
        Inl e \<Rightarrow> Inl (RaiseException e)
      | Inr new \<Rightarrow>
      let row = enforce_eui_uppercase new in
      case space_unique_violation (db_spaces db) row of
        None \<Rightarrow> Inr (db\<lparr>db_spaces := db_spaces db @ [row]\<rparr>, row)
      | Some constraint \<Rightarrow>
          if contains ''sensor_eui'' constraint
          then Inl (Parking (DuplicateResourceError ''Sensor'' (case sn_sensor_eui sp of None \<Rightarrow> ''None'' | Some e \<Rightarrow> e)))
          else if contains ''code'' constraint
          then Inl (Parking (DuplicateResourceError ''Space code'' (sn_code sp)))
          else Inl (Parking (DatabaseError (''Unique constraint violation: '' @ constraint))))"

text \<open>
  \<open>SpaceUpdate\<close> with the fields that were set (\<open>exclude_unset\<close>): the outer option is \<open>None\<close> for a
  field that was not set.
\<close>

record SpaceUpdate =
  su_name :: "string option"
  su_code :: "string option"
  su_building :: "string option option"
  su_floor :: "string option option"
  su_zone :: "string option option"
  su_sensor_eui :: "string option option"
  su_display_eui :: "string option option"
  su_state :: "SpaceState option"
  su_metadata :: "string option option"

definition set_if :: "'a option \<Rightarrow> ('a \<Rightarrow> 'r \<Rightarrow> 'r) \<Rightarrow> 'r \<Rightarrow> 'r" where
  "set_if v f r = (case v of None \<Rightarrow> r | Some x \<Rightarrow> f x r)"

text \<open>\<open>field = LOWER($n)\<close> for a non-empty EUI.\<close>

definition lower_if :: "string option \<Rightarrow> string option" where
  "lower_if e = (if truthy e then map_option lower e else e)"

definition apply_update :: "SpaceUpdate \<Rightarrow> space_row \<Rightarrow> space_row" where
  "apply_update u =
     set_if (su_name u) (\<lambda>v r. r\<lparr>sp_name := v\<rparr>) \<circ>
     set_if (su_code u) (\<lambda>v r. r\<lparr>sp_code := v\<rparr>) \<circ>
     set_if (su_building u) (\<lambda>v r. r\<lparr>sp_building := v\<rparr>) \<circ>
     set_if (su_floor u) (\<lambda>v r. r\<lparr>sp_floor := v\<rparr>) \<circ>
     set_if (su_zone u) (\<lambda>v r. r\<lparr>sp_zone := v\<rparr>) \<circ>
     set_if (su_sensor_eui u) (\<lambda>v r. r\<lparr>sp_sensor_eui := lower_if v\<rparr>) \<circ>
     set_if (su_display_eui u) (\<lambda>v r. r\<lparr>sp_display_eui := lower_if v\<rparr>) \<circ>
     set_if (su_state u) (\<lambda>v r. r\<lparr>sp_state := v\<rparr>) \<circ>
     set_if (su_metadata u) (\<lambda>v r. r\<lparr>sp_metadata := v\<rparr>)"

definition no_update :: "SpaceUpdate \<Rightarrow> bool" where
  "no_update u =
     (su_name u = None \<and> su_code u = None \<and> su_building u = None \<and> su_floor u = None
      \<and> su_zone u = None \<and> su_sensor_eui u = None \<and> su_display_eui u = None
      \<and> su_state u = None \<and> su_metadata u = None)"

definition update_space :: "pdb \<Rightarrow> instant \<Rightarrow> uuid \<Rightarrow> SpaceUpdate \<Rightarrow> (pdb \<times> space_row) db_result" where
  "update_space db now space_id u =
     (case get_space db space_id of
        None \<Rightarrow> Inl (Parking (SpaceNotFoundError space_id))
      | Some old \<Rightarrow>
          if no_update u then Inr (db, old)
          else
            let row = enforce_eui_uppercase ((apply_update u old)\<lparr>sp_updated_at := now\<rparr>);
                others = filter (\<lambda>r. sp_id r \<noteq> space_id) (db_spaces db)
            in case space_unique_violation others row of
                 Some constraint \<Rightarrow> Inl (UniqueViolation constraint)
               | None \<Rightarrow>
                   Inr (db\<lparr>db_spaces := sql_update (\<lambda>r. sp_id r = space_id \<and> alive r) (\<lambda>_. row)
                                          (db_spaces db)\<rparr>, row))"

definition soft_delete_space :: "pdb \<Rightarrow> instant \<Rightarrow> uuid \<Rightarrow> pdb db_result" where
  "soft_delete_space db now space_id =
     (case get_space db space_id of
        None \<Rightarrow> Inl (Parking (SpaceNotFoundError space_id))
      | Some _ \<Rightarrow>
          Inr (db\<lparr>db_spaces := sql_update (\<lambda>r. sp_id r = space_id \<and> alive r)
                                 (\<lambda>r. r\<lparr>sp_deleted_at := Some now\<rparr>) (db_spaces db)\<rparr>))"

text \<open>One transaction: the row is locked, updated and the change recorded.\<close>

definition pool_update_space_state ::
  "pdb \<Rightarrow> instant \<Rightarrow> uuid \<Rightarrow> SpaceState \<Rightarrow> string \<Rightarrow> (pdb \<times> SpaceState \<times> SpaceState) db_result" where
  "pool_update_space_state db now space_id new_state source =
     (case get_space db space_id of
        None \<Rightarrow> Inl (Parking (SpaceNotFoundError space_id))
      | Some old \<Rightarrow>
          Inr (db\<lparr>db_spaces := sql_update (\<lambda>r. sp_id r = space_id)
                                 (\<lambda>r. r\<lparr>sp_state := new_state, sp_updated_at := now\<rparr>) (db_spaces db),
                  db_state_changes := db_state_changes db @
                    [\<lparr>sc_space_id = space_id, sc_previous_state = sp_state old,
                      sc_new_state = new_state, sc_source = source, sc_request_id = None,
                      sc_timestamp = now\<rparr>]\<rparr>,
               sp_state old, new_state))"

section \<open>Reservations\<close>

record reservation_filters =
  rf_space_id :: "uuid option"
  rf_user_email :: "string option"
  rf_status :: "ReservationStatus option"
  rf_date_from :: "instant option"
  rf_date_to :: "instant option"
  rf_limit :: nat
  rf_offset :: nat

definition reservation_matches :: "reservation_filters \<Rightarrow> Reservation \<Rightarrow> bool" where
  "reservation_matches f r =
     ((if truthy (rf_space_id f) then Some (rv_space_id r) = rf_space_id f else True)
      \<and> (if truthy (rf_user_email f) then rv_user_email r = rf_user_email f else True)
      \<and> (case rf_status f of None \<Rightarrow> True | Some st \<Rightarrow> rv_status r = st)
      \<and> (case rf_date_from f of None \<Rightarrow> True | Some d \<Rightarrow> rv_end_time r \<ge> d)
      \<and> (case rf_date_to f of None \<Rightarrow> True | Some d \<Rightarrow> rv_start_time r \<le> d))"

definition get_reservations :: "pdb \<Rightarrow> reservation_filters \<Rightarrow> Reservation list" where
  "get_reservations db f =
     take (rf_limit f) (drop (rf_offset f)
       (sort_key (\<lambda>r. - rv_start_time r) (filter (reservation_matches f) (db_reservations db))))"

definition get_reservation :: "pdb \<Rightarrow> uuid \<Rightarrow> Reservation option" where
  "get_reservation db i = find (\<lambda>r. rv_id r = i) (db_reservations db)"

text \<open>
  Two periods overlap. Rows and requests have \<open>start < end\<close> (CHECK \<open>valid_times\<close>, \<open>validate_times\<close>),
  for which this is SQL's \<open>OVERLAPS\<close> and the \<open>&&\<close> of half-open ranges.
\<close>

definition overlaps :: "instant \<Rightarrow> instant \<Rightarrow> instant \<Rightarrow> instant \<Rightarrow> bool" where
  "overlaps s e s' e' = (s < e' \<and> s' < e)"

text \<open>The exclusion constraint \<open>uq_reservations_no_overlap\<close>.\<close>

definition excludes :: "Reservation \<Rightarrow> Reservation \<Rightarrow> bool" where
  "excludes a b =
     (live_status (rv_status a) \<and> live_status (rv_status b) \<and> rv_space_id a = rv_space_id b
      \<and> overlaps (rv_start_time a) (rv_end_time a) (rv_start_time b) (rv_end_time b))"

text \<open>
  An insert into \<open>reservations\<close>: the checks of migration 001, the primary key, the unique request id
  of migration 004, the exclusion constraint.
\<close>

definition insert_reservation :: "pdb \<Rightarrow> Reservation \<Rightarrow> db_error + pdb" where
  "insert_reservation db row =
     (if rv_end_time row - rv_start_time row > 86400 then Inl (CheckViolation ''valid_duration'')
      else if \<not> rv_start_time row < rv_end_time row then Inl (CheckViolation ''valid_times'')
      else if list_ex (\<lambda>r. rv_id r = rv_id row) (db_reservations db)
           then Inl (UniqueViolation ''reservations_pkey'')
      else if list_ex (\<lambda>r. rv_request_id r = rv_request_id row) (db_reservations db)
           then Inl (UniqueViolation ''idx_reservations_request_id'')
      else if list_ex (excludes row) (db_reservations db)
           then Inl (ExclusionViolation ''uq_reservations_no_overlap'')
      else Inr (db\<lparr>db_reservations := db_reservations db @ [row]\<rparr>))"

record ReservationCreate =
  rc_space_id :: uuid
  rc_start_time :: instant
  rc_end_time :: instant
  rc_user_email :: "string option"
  rc_user_phone :: "string option"
  rc_metadata :: "(string \<times> string) list option"

text \<open>
  The insert names neither status, tenant nor request id: the status takes the column default
  \<open>'active'\<close>, \<open>rq\<close> is the generated request id and \<open>default_tenant\<close> the default of the NOT NULL column
  \<open>tenant_id\<close>, \<open>None\<close> when it has none.
\<close>

definition pool_create_reservation ::
  "uuid option \<Rightarrow> pdb \<Rightarrow> uuid \<Rightarrow> uuid \<Rightarrow> instant \<Rightarrow> ReservationCreate \<Rightarrow> (pdb \<times> Reservation) db_result" where
  "pool_create_reservation default_tenant db i rq now rc =
     (if get_space db (rc_space_id rc) = None
      then Inl (Parking (SpaceNotFoundError (rc_space_id rc)))
      else if sql_count (\<lambda>r. rv_space_id r = rc_space_id rc \<and> ReservationStatus_value (rv_status r) = ''active''
                  \<and> overlaps (rv_start_time r) (rv_end_time r) (rc_start_time rc) (rc_end_time rc))
                (db_reservations db) > 0
      then Inl (Parking (DuplicateResourceError ''Reservation''
                  (''Overlapping reservation for space '' @ rc_space_id rc)))
      else case default_tenant of
        None \<Rightarrow> Inl (NotNullViolation ''tenant_id'')
      | Some tenant \<Rightarrow>
        (let row = \<lparr>rv_id = i, rv_space_id = rc_space_id rc, rv_tenant_id = tenant, rv_request_id = rq,
                   rv_start_time = rc_start_time rc, rv_end_time = rc_end_time rc, rv_status = ACTIVE,
                   rv_user_email = rc_user_email rc, rv_user_phone = rc_user_phone rc,
                   rv_metadata = rc_metadata rc, rv_created_at = now\<rparr>
         in case insert_reservation db row of
              Inl e \<Rightarrow> Inl e
            | Inr db' \<Rightarrow> Inr (db', row)))"

definition pool_cancel_reservation :: "pdb \<Rightarrow> uuid \<Rightarrow> (pdb \<times> bool) db_result" where
  "pool_cancel_reservation db i =
     (let hit = (\<lambda>r. rv_id r = i \<and> ReservationStatus_value (rv_status r) = ''active'') in
      if \<not> list_ex hit (db_reservations db)
      then Inl (Parking (ReservationNotFoundError i))
      else Inr (db\<lparr>db_reservations := sql_update hit (\<lambda>r. r\<lparr>rv_status := CANCELLED\<rparr>)
                                       (db_reservations db)\<rparr>, True))"

definition get_active_reservations_for_space :: "pdb \<Rightarrow> instant \<Rightarrow> uuid \<Rightarrow> Reservation list" where
  "get_active_reservations_for_space db now space_id =
     sort_key rv_start_time
       (filter (\<lambda>r. rv_space_id r = space_id \<and> ReservationStatus_value (rv_status r) = ''active''
                    \<and> rv_end_time r > now) (db_reservations db))"

section \<open>Device discovery\<close>

definition key_mapping :: "(string \<times> string) list" where
  "key_mapping =
     [(''occupancy'', ''occupancy''), (''occupied'', ''occupancy''), (''temperature'', ''temperature''),
      (''temp'', ''temperature''), (''humidity'', ''humidity''), (''battery'', ''battery''),
      (''batteryLevel'', ''battery''), (''battery_level'', ''battery''), (''co2'', ''co2''),
      (''rssi'', ''rssi''), (''snr'', ''snr''), (''door_open'', ''door_state''), (''motion'', ''motion'')]"

text \<open>A payload is given by its keys; the result is the set of capabilities found.\<close>

definition auto_detect_capabilities :: "string list \<Rightarrow> string list" where
  "auto_detect_capabilities payload_keys =
     remdups (map snd (filter (\<lambda>(k, c). k \<in> set payload_keys) key_mapping))"

definition underscore :: "char \<Rightarrow> char" where
  "underscore c = (if c = CHR '' '' \<or> c = CHR ''-'' then CHR ''_'' else c)"

definition orphan_type_code :: "string \<Rightarrow> string" where
  "orphan_type_code profile = ''orphan_'' @ map underscore (lower profile)"

definition get_or_create_device_type_by_profile ::
  "pdb \<Rightarrow> uuid \<Rightarrow> string \<Rightarrow> string list option \<Rightarrow> string \<Rightarrow> pdb \<times> device_type_row" where
  "get_or_create_device_type_by_profile db i profile sample category =
     (case find (\<lambda>r. dt_profile_name r = profile) (db_device_types db) of
        Some r \<Rightarrow> (db, r)
      | None \<Rightarrow>
          let row = \<lparr>dt_id = i, dt_type_code = orphan_type_code profile, dt_category = category,
                     dt_name = ''ORPHAN: '' @ profile, dt_status = ''orphan'', dt_handler_class = None,
                     dt_profile_name = profile,
                     dt_capabilities = (case sample of None \<Rightarrow> [] | Some ks \<Rightarrow> auto_detect_capabilities ks)\<rparr>
          in (db\<lparr>db_device_types := db_device_types db @ [row]\<rparr>, row))"

definition or_else :: "string option \<Rightarrow> string \<Rightarrow> string" where
  "or_else s d = (case s of None \<Rightarrow> d | Some t \<Rightarrow> if t = [] then d else t)"

text \<open>The returned row is the one read before \<open>last_seen_at\<close> is updated.\<close>

definition get_or_create_sensor_device ::
  "pdb \<Rightarrow> uuid \<Rightarrow> instant \<Rightarrow> string \<Rightarrow> uuid \<Rightarrow> string option \<Rightarrow> string option
   \<Rightarrow> pdb \<times> sensor_device_row" where
  "get_or_create_sensor_device db i now dev_eui device_type_id device_name device_model =
     (case find (\<lambda>r. sd_dev_eui r = dev_eui) (db_sensor_devices db) of
        Some r \<Rightarrow>
          (db\<lparr>db_sensor_devices := sql_update (\<lambda>x. sd_id x = sd_id r)
                (\<lambda>x. x\<lparr>sd_last_seen_at := now\<rparr>) (db_sensor_devices db)\<rparr>, r)
      | None \<Rightarrow>
          let row = \<lparr>sd_id = i, sd_dev_eui = upper dev_eui, sd_device_type = ''orphan'',
                     sd_device_type_id = device_type_id,
                     sd_device_model = or_else device_model (or_else device_name (''Device '' @ take 8 dev_eui)),
                     sd_status = ''orphan'', sd_enabled = True, sd_last_seen_at = now\<rparr>
          in case find (\<lambda>r. sd_dev_eui r = upper dev_eui) (db_sensor_devices db) of
               Some r \<Rightarrow>
                 (db\<lparr>db_sensor_devices := sql_update (\<lambda>x. sd_dev_eui x = upper dev_eui)
                       (\<lambda>x. x\<lparr>sd_last_seen_at := now\<rparr>) (db_sensor_devices db)\<rparr>,
                  r\<lparr>sd_last_seen_at := now\<rparr>)
             | None \<Rightarrow> (db\<lparr>db_sensor_devices := db_sensor_devices db @ [row]\<rparr>, row))"

definition get_sensor_device_by_deveui ::
  "pdb \<Rightarrow> string \<Rightarrow> (sensor_device_row \<times> device_type_row option) option" where
  "get_sensor_device_by_deveui db dev_eui =
     (case find (\<lambda>r. sd_dev_eui r = dev_eui) (db_sensor_devices db) of
        None \<Rightarrow> None
      | Some r \<Rightarrow> Some (r, find (\<lambda>t. dt_id t = sd_device_type_id r) (db_device_types db)))"

definition check_device_assigned_to_space :: "pdb \<Rightarrow> uuid \<Rightarrow> bool" where
  "check_device_assigned_to_space db device_id =
     sql_exists (\<lambda>r. sp_sensor_device_id r = Some device_id \<and> alive r) (db_spaces db)"

section \<open>Sensor readings\<close>

text \<open>The partial unique index \<open>(tenant_id, device_eui, fcnt) WHERE fcnt IS NOT NULL\<close>; NULL tenants differ.\<close>

definition same_frame :: "reading_row \<Rightarrow> reading_row \<Rightarrow> bool" where
  "same_frame a b =
     (rd_fcnt a \<noteq> None \<and> rd_fcnt a = rd_fcnt b \<and> rd_tenant_id a \<noteq> None
      \<and> rd_tenant_id a = rd_tenant_id b \<and> rd_device_eui a = rd_device_eui b)"

text \<open>The trigger \<open>sensor_readings_sync_tenant_id\<close> of migration 008.\<close>

definition reading_tenant :: "pdb \<Rightarrow> uuid option \<Rightarrow> uuid option \<Rightarrow> uuid option" where
  "reading_tenant db space_id tenant =
     (case space_id of
        None \<Rightarrow> tenant
      | Some i \<Rightarrow> (case find (\<lambda>r. sp_id r = i) (db_spaces db) of None \<Rightarrow> None | Some r \<Rightarrow> sp_tenant_id r))"

definition insert_sensor_reading ::
  "pdb \<Rightarrow> instant \<Rightarrow> string \<Rightarrow> uuid option \<Rightarrow> string option \<Rightarrow> rat option \<Rightarrow> int option \<Rightarrow> rat option
   \<Rightarrow> instant option \<Rightarrow> int option \<Rightarrow> uuid option \<Rightarrow> pdb" where
  "insert_sensor_reading db now device_eui space_id occ battery rssi snr ts fcnt tenant =
     (let row = \<lparr>rd_device_eui = upper device_eui, rd_space_id = space_id, rd_occupancy_state = occ,
                 rd_battery = battery, rd_rssi = rssi, rd_snr = snr,
                 rd_timestamp = (case ts of None \<Rightarrow> now | Some t \<Rightarrow> t), rd_fcnt = fcnt,
                 rd_tenant_id = reading_tenant db space_id tenant\<rparr>
      in if list_ex (same_frame row) (db_sensor_readings db) then db
         else db\<lparr>db_sensor_readings := db_sensor_readings db @ [row]\<rparr>)"

text \<open>Columns left out of the insert take their defaults; \<open>default_tenant\<close> is the one of migration 004.\<close>

definition insert_telemetry :: "pdb \<Rightarrow> instant \<Rightarrow> uuid option \<Rightarrow> string \<Rightarrow> SensorUplink \<Rightarrow> pdb" where
  "insert_telemetry db now default_tenant device_eui data =
     db\<lparr>db_sensor_readings := db_sensor_readings db @
         [\<lparr>rd_device_eui = upper device_eui, rd_space_id = None,
           rd_occupancy_state = map_option SpaceState_value (su_occupancy_state data),
           rd_battery = su_battery data, rd_rssi = su_rssi data, rd_snr = su_snr data,
           rd_timestamp = now, rd_fcnt = None, rd_tenant_id = default_tenant\<rparr>]\<rparr>"

definition get_latest_sensor_reading :: "pdb \<Rightarrow> string \<Rightarrow> reading_row option" where
  "get_latest_sensor_reading db device_eui =
     first_desc rd_timestamp (filter (\<lambda>r. lower (rd_device_eui r) = lower device_eui) (db_sensor_readings db))"

section \<open>Lemmas on tables\<close>

lemma upper_lower [simp]: "upper (lower s) = upper s"
proof -
  have "to_upper (to_lower c) = to_upper c" for c
  proof (cases "is_upper_char c")
    case True
    then have "to_lower c = char_of (ord c + 32)" "ord c + 32 < 256" "is_lower_char (to_lower c)"
      by (auto simp: to_lower_def is_upper_char_def is_lower_char_def of_char_of)
    then have "to_upper (to_lower c) = char_of (ord c)"
      by (simp add: to_upper_def of_char_of)
    moreover have "to_upper c = c" using True by (simp add: to_upper_def is_upper_char_def is_lower_char_def)
    ultimately show ?thesis by simp
  qed (simp add: to_lower_def)
  then show ?thesis by (simp add: upper_def lower_def)
qed

lemma enforce_upper [simp]:
  "map_option upper (sp_sensor_eui (enforce_eui_uppercase r)) = sp_sensor_eui (enforce_eui_uppercase r)"
  "map_option upper (sp_display_eui (enforce_eui_uppercase r)) = sp_display_eui (enforce_eui_uppercase r)"
  "sp_id (enforce_eui_uppercase r) = sp_id r" "alive (enforce_eui_uppercase r) = alive r"
  by (simp_all add: enforce_eui_uppercase_def option.map_comp comp_def alive_def)

lemma set_if_proj:
  "(\<And>v r. f (g v r) = f r) \<Longrightarrow> f (set_if x g r) = f r"
  by (cases x) (simp_all add: set_if_def)

lemma apply_update_proj [simp]:
  "sp_id (apply_update u r) = sp_id r" "sp_deleted_at (apply_update u r) = sp_deleted_at r"
  by (simp_all add: apply_update_def set_if_proj)

lemma apply_update_sensor:
  "su_sensor_eui u = Some v \<Longrightarrow> sp_sensor_eui (apply_update u r) = lower_if v"
  by (simp add: apply_update_def set_if_proj) (simp add: set_if_def)

text \<open>
  The well-formedness of \<open>spaces\<close>: ids are unique, EUIs are in upper case, no two rows share a
  sensor, no two live rows share a display.
\<close>

definition eui_upper :: "space_row \<Rightarrow> bool" where
  "eui_upper r \<longleftrightarrow> map_option upper (sp_sensor_eui r) = sp_sensor_eui r
               \<and> map_option upper (sp_display_eui r) = sp_display_eui r"

definition compatible :: "space_row \<Rightarrow> space_row \<Rightarrow> bool" where
  "compatible a b \<longleftrightarrow> (sp_sensor_eui a \<noteq> None \<longrightarrow> sp_sensor_eui b \<noteq> sp_sensor_eui a) \<and>
     (sp_display_eui a \<noteq> None \<longrightarrow> alive a \<longrightarrow> alive b \<longrightarrow> sp_display_eui b \<noteq> sp_display_eui a)"

definition spaces_wf :: "space_row list \<Rightarrow> bool" where
  "spaces_wf t \<longleftrightarrow> distinct (map sp_id t) \<and> (\<forall>r\<in>set t. eui_upper r) \<and>
     (\<forall>a\<in>set t. \<forall>b\<in>set t. sp_id a \<noteq> sp_id b \<longrightarrow> compatible a b)"

lemma compatible_sym: "compatible a b \<Longrightarrow> compatible b a"
  by (auto simp: compatible_def)

lemma eui_upper_enforced: "eui_upper (enforce_eui_uppercase r)"
  by (simp add: eui_upper_def)

lemma no_violation_compatible:
  "space_unique_violation others r = None \<Longrightarrow> x \<in> set others \<Longrightarrow> compatible r x"
  by (auto simp: space_unique_violation_def compatible_def list_ex_iff split: if_splits)

lemma get_space_Some: "get_space db i = Some r \<Longrightarrow> r \<in> set (db_spaces db) \<and> sp_id r = i \<and> alive r"
  unfolding get_space_def by (drule find_SomeD) simp

lemma spaces_wf_id: "spaces_wf t \<Longrightarrow> a \<in> set t \<Longrightarrow> b \<in> set t \<Longrightarrow> sp_id a = sp_id b \<Longrightarrow> a = b"
  by (simp add: spaces_wf_def distinct_map inj_on_def)

lemma map_id_update: "(\<And>r. r \<in> set t \<Longrightarrow> P r \<Longrightarrow> sp_id (f r) = sp_id r) \<Longrightarrow>
    map sp_id (sql_update P f t) = map sp_id t"
  by (simp add: sql_update_def)

lemma spaces_wf_append:
  assumes "spaces_wf t" "\<And>x. x \<in> set t \<Longrightarrow> compatible r x" "sp_id r \<notin> set (map sp_id t)" "eui_upper r"
  shows "spaces_wf (t @ [r])"
  using assms compatible_sym unfolding spaces_wf_def by auto

text \<open>Changing rows in a way that keeps ids, case and compatibility.\<close>

lemma spaces_wf_update:
  assumes wf: "spaces_wf t"
    and id: "\<And>r. r \<in> set t \<Longrightarrow> P r \<Longrightarrow> sp_id (f r) = sp_id r"
    and up: "\<And>r. r \<in> set t \<Longrightarrow> P r \<Longrightarrow> eui_upper (f r)"
    and one: "\<And>r x. r \<in> set t \<Longrightarrow> P r \<Longrightarrow> x \<in> set t \<Longrightarrow> \<not> P x \<Longrightarrow> compatible (f r) x"
    and two: "\<And>r x. r \<in> set t \<Longrightarrow> P r \<Longrightarrow> x \<in> set t \<Longrightarrow> P x \<Longrightarrow> sp_id r \<noteq> sp_id x \<Longrightarrow> compatible (f r) (f x)"
  shows "spaces_wf (sql_update P f t)"
proof -
  have d: "distinct (map sp_id (sql_update P f t))"
    using wf map_id_update [of t P f] id by (simp add: spaces_wf_def)
  have c: "compatible a b"
    if ab: "a \<in> set (sql_update P f t)" "b \<in> set (sql_update P f t)" "sp_id a \<noteq> sp_id b" for a b
  proof -
    obtain x y where xy: "x \<in> set t" "a = (if P x then f x else x)" "y \<in> set t" "b = (if P y then f y else y)"
      using ab(1,2) by (auto simp: sql_update_def)
    then have ne: "sp_id x \<noteq> sp_id y" using ab(3) id by (auto split: if_splits)
    consider "P x" "P y" | "P x" "\<not> P y" | "\<not> P x" "P y" | "\<not> P x" "\<not> P y" by blast
    then show ?thesis
    proof cases
      case 1 then show ?thesis using two xy ne by simp
    next
      case 2 then show ?thesis using one xy by simp
    next
      case 3 then show ?thesis using one [of y x] xy compatible_sym by simp
    next
      case 4 then show ?thesis using wf xy ne by (simp add: spaces_wf_def)
    qed
  qed
  have "eui_upper r" if "r \<in> set (sql_update P f t)" for r
    using that up wf by (auto simp: sql_update_def spaces_wf_def)
  with d c show ?thesis by (simp add: spaces_wf_def)
qed

section \<open>Operations keep the table well formed\<close>

lemma create_space_wf:
  assumes "spaces_wf (db_spaces db)" "i \<notin> set (map sp_id (db_spaces db))"
    and "\<And>x y. trig x = Inr y \<Longrightarrow> sp_id y = sp_id x" "create_space trig db i now sp = Inr (db', r)"
  shows "spaces_wf (db_spaces db')"
proof -
  obtain new where new: "trig (new_space_row i now sp) = Inr new"
    using assms(4) by (auto simp: create_space_def split: sum.splits)
  let ?r = "enforce_eui_uppercase new"
  have v: "space_unique_violation (db_spaces db) ?r = None" and db: "db_spaces db' = db_spaces db @ [?r]"
    using assms(4) new by (auto simp: create_space_def Let_def split: option.splits if_splits)
  have "sp_id ?r = i" using assms(3) [OF new] by (simp add: new_space_row_def)
  then show ?thesis
    unfolding db using assms(1,2) no_violation_compatible [OF v] eui_upper_enforced
    by (intro spaces_wf_append) auto
qed

lemma update_space_cases:
  assumes "update_space db now i u = Inr (db', r)"
  obtains old where "get_space db i = Some old" "no_update u" "db' = db" "r = old"
  | old where "get_space db i = Some old"
      "r = enforce_eui_uppercase ((apply_update u old)\<lparr>sp_updated_at := now\<rparr>)"
      "space_unique_violation (filter (\<lambda>x. sp_id x \<noteq> i) (db_spaces db)) r = None"
      "db' = db\<lparr>db_spaces := sql_update (\<lambda>x. sp_id x = i \<and> alive x) (\<lambda>_. r) (db_spaces db)\<rparr>"
proof (cases "get_space db i")
  case None
  with assms show ?thesis by (simp add: update_space_def)
next
  case (Some old)
  let ?r = "enforce_eui_uppercase ((apply_update u old)\<lparr>sp_updated_at := now\<rparr>)"
  let ?v = "space_unique_violation (filter (\<lambda>x. sp_id x \<noteq> i) (db_spaces db)) ?r"
  note eq = assms [unfolded update_space_def Some option.case Let_def]
  show ?thesis
  proof (cases "no_update u")
    case True
    with eq have "db' = db" "r = old" by simp_all
    then show ?thesis using that(1) [OF Some True] by simp
  next
    case False
    show ?thesis
    proof (cases ?v)
      case None
      with False eq have "r = ?r"
        "db' = db\<lparr>db_spaces := sql_update (\<lambda>x. sp_id x = i \<and> alive x) (\<lambda>_. ?r) (db_spaces db)\<rparr>" by auto
      then show ?thesis using that(2) [OF Some] None by simp
    next
      case (Some c)
      with False eq show ?thesis by simp
    qed
  qed
qed

lemma update_space_wf:
  assumes wf: "spaces_wf (db_spaces db)" and u: "update_space db now i u = Inr (db', r)"
  shows "spaces_wf (db_spaces db')"
  using u
proof (cases rule: update_space_cases)
  case (2 old)
  note old = get_space_Some [OF 2(1)]
  have idr: "sp_id r = i" using 2(2) old by simp
  have comp: "compatible r x" if "x \<in> set (db_spaces db)" "sp_id x \<noteq> i" for x
    using no_violation_compatible [OF 2(3)] that by simp
  have al: "alive x" if "x \<in> set (db_spaces db)" "sp_id x = i" for x
    using spaces_wf_id [OF wf that(1), of old] old that(2) by simp
  have "spaces_wf (sql_update (\<lambda>x. sp_id x = i \<and> alive x) (\<lambda>_. r) (db_spaces db))"
    by (rule spaces_wf_update [OF wf]) (use idr comp al eui_upper_enforced 2(2) in auto)
  then show ?thesis by (simp add: 2(4))
qed (simp add: wf)

lemma space_columns_wf:
  assumes "spaces_wf t"
    and "\<And>r. r \<in> set t \<Longrightarrow> P r \<Longrightarrow> sp_id (f r) = sp_id r \<and> sp_sensor_eui (f r) = sp_sensor_eui r
           \<and> sp_display_eui (f r) = sp_display_eui r \<and> (alive (f r) \<longrightarrow> alive r)"
  shows "spaces_wf (sql_update P f t)"
proof (rule spaces_wf_update [OF assms(1)])
  fix r assume r: "r \<in> set t" "P r"
  show "sp_id (f r) = sp_id r" using assms(2) [OF r] by blast
  show "eui_upper (f r)" using assms r by (simp add: spaces_wf_def eui_upper_def)
  show "compatible (f r) x" if "x \<in> set t" "\<not> P x" for x
  proof -
    have "compatible r x" using assms(1) r that spaces_wf_id [OF assms(1) r(1) that(1)]
      by (auto simp: spaces_wf_def)
    then show ?thesis using assms(2) [OF r] by (simp add: compatible_def)
  qed
  show "compatible (f r) (f x)" if "x \<in> set t" "P x" "sp_id r \<noteq> sp_id x" for x
  proof -
    have "compatible r x" using assms(1) r that by (simp add: spaces_wf_def)
    then show ?thesis using assms(2) [OF r] assms(2) [OF that(1,2)] by (simp add: compatible_def)
  qed
qed

lemma soft_delete_wf:
  "spaces_wf (db_spaces db) \<Longrightarrow> soft_delete_space db now i = Inr db' \<Longrightarrow> spaces_wf (db_spaces db')"
  by (auto simp: soft_delete_space_def alive_def split: option.splits intro!: space_columns_wf)

lemma pool_state_wf:
  "spaces_wf (db_spaces db) \<Longrightarrow> pool_update_space_state db now i st src = Inr (db', a, b) \<Longrightarrow>
   spaces_wf (db_spaces db')"
  by (auto simp: pool_update_space_state_def alive_def split: option.splits intro!: space_columns_wf)

section \<open>Properties\<close>

text \<open>
  Property C27. The space table stays well formed under every operation of the pool, whatever the
  tenant trigger on inserts as long as it keeps the id: unique ids, EUIs in upper case, no sensor
  on two spaces, no display on two live spaces.
\<close>

theorem space_operations_keep_wf:
  assumes "spaces_wf (db_spaces db)"
  shows "(\<forall>trig i now sp db' r. (\<forall>x y. trig x = Inr y \<longrightarrow> sp_id y = sp_id x) \<longrightarrow>
            i \<notin> set (map sp_id (db_spaces db)) \<longrightarrow> create_space trig db i now sp = Inr (db', r)
            \<longrightarrow> spaces_wf (db_spaces db'))
    \<and> (\<forall>i now u db' r. update_space db now i u = Inr (db', r) \<longrightarrow> spaces_wf (db_spaces db'))
    \<and> (\<forall>i now db'. soft_delete_space db now i = Inr db' \<longrightarrow> spaces_wf (db_spaces db'))
    \<and> (\<forall>i now st src db' a b. pool_update_space_state db now i st src = Inr (db', a, b)
            \<longrightarrow> spaces_wf (db_spaces db'))"
proof (intro conjI allI impI)
  show "spaces_wf (db_spaces db')"
    if "\<forall>x y. trig x = Inr y \<longrightarrow> sp_id y = sp_id x" "i \<notin> set (map sp_id (db_spaces db))"
      "create_space trig db i now sp = Inr (db', r)" for trig i now sp db' r
    by (rule create_space_wf [OF assms that(2) _ that(3)]) (use that(1) in blast)
  show "spaces_wf (db_spaces db')" if "update_space db now i u = Inr (db', r)" for i now u db' r
    by (rule update_space_wf [OF assms that])
  show "spaces_wf (db_spaces db')" if "soft_delete_space db now i = Inr db'" for i now db'
    by (rule soft_delete_wf [OF assms that])
  show "spaces_wf (db_spaces db')" if "pool_update_space_state db now i st src = Inr (db', a, b)"
    for i now st src db' a b by (rule pool_state_wf [OF assms that])
qed

definition empty_db :: pdb where
  "empty_db = \<lparr>db_spaces = [], db_state_changes = [], db_reservations = [], db_device_types = [],
               db_sensor_devices = [], db_sensor_readings = []\<rparr>"

definition demo_space :: SpaceCreate where
  "demo_space = \<lparr>sn_name = ''A1'', sn_code = ''A1-001'', sn_building = None, sn_floor = None,
     sn_zone = None, sn_sensor_eui = Some ''e8e1e1000103c3f8'', sn_display_eui = None, sn_state = FREE,
     sn_gps = None, sn_metadata = None\<rparr>"

definition demo_db :: pdb where
  "demo_db = empty_db\<lparr>db_spaces := [enforce_eui_uppercase (new_space_row ''s1'' 0 demo_space)]\<rparr>"

lemma demo_created: "create_space Inr empty_db ''s1'' 0 demo_space
    = Inr (demo_db, enforce_eui_uppercase (new_space_row ''s1'' 0 demo_space))"
  by (simp add: create_space_def demo_db_def empty_db_def space_unique_violation_def Let_def)

lemma empty_db_wf: "spaces_wf (db_spaces empty_db)"
  by (simp add: spaces_wf_def empty_db_def)

theorem space_operations_keep_wf_witness: "spaces_wf (db_spaces demo_db)"
proof -
  have new: "''s1'' \<notin> set (map sp_id (db_spaces empty_db))" by (simp add: empty_db_def)
  show ?thesis
    by (rule space_operations_keep_wf [OF empty_db_wf, THEN conjunct1, rule_format, OF _ new demo_created]) simp
qed

text \<open>
  A sensor assigned through \<open>update_space\<close> is found again: although the statement
  writes the EUI in lower case, the upper-casing trigger makes the lookup with the normalised
  EUI return exactly the updated space.
\<close>

theorem sensor_found_after_update:
  assumes "spaces_wf (db_spaces db)" "update_space db now i u = Inr (db', r)"
    and "su_sensor_eui u = Some (Some e)" "e \<noteq> []"
  shows "get_space_by_sensor db' (upper e) = Some r \<and> sp_id r = i"
proof -
  from assms(2) obtain old where o:
    "get_space db i = Some old" "r = enforce_eui_uppercase ((apply_update u old)\<lparr>sp_updated_at := now\<rparr>)"
    "space_unique_violation (filter (\<lambda>x. sp_id x \<noteq> i) (db_spaces db)) r = None"
    "db' = db\<lparr>db_spaces := sql_update (\<lambda>x. sp_id x = i \<and> alive x) (\<lambda>_. r) (db_spaces db)\<rparr>"
    by (cases rule: update_space_cases) (use assms(3) in \<open>auto simp: no_update_def\<close>)
  note old = get_space_Some [OF o(1)]
  have r: "sp_id r = i" "alive r" "sp_sensor_eui r = Some (upper e)"
    using old assms(3,4) unfolding o(2)
    by (simp_all add: alive_def enforce_eui_uppercase_def apply_update_sensor lower_if_def)
  have mem: "x = r \<or> (x \<in> set (db_spaces db) \<and> sp_id x \<noteq> i)" if "x \<in> set (db_spaces db')" for x
  proof -
    obtain y where y: "y \<in> set (db_spaces db)" "x = (if sp_id y = i \<and> alive y then r else y)"
      using \<open>x \<in> set (db_spaces db')\<close> unfolding o(4) sql_update_def by auto
    show ?thesis using y old spaces_wf_id [OF assms(1) y(1), of old] by (cases "sp_id y = i") simp_all
  qed
  have "(\<lambda>x. if sp_id x = i \<and> alive x then r else x) old = r" using old by simp
  then have rin: "r \<in> set (db_spaces db')"
  proof -
    have "old \<in> set (db_spaces db)" using old by blast
    then have "(\<lambda>x. if sp_id x = i \<and> alive x then r else x) old \<in> set (db_spaces db')"
      unfolding o(4) sql_update_def by simp
    then show ?thesis using \<open>(\<lambda>x. if sp_id x = i \<and> alive x then r else x) old = r\<close> by simp
  qed
  have uniq: "x = r" if "x \<in> set (db_spaces db')" "sp_sensor_eui x = Some (upper e) \<and> alive x" for x
    using mem [OF that(1)]
  proof
    assume "x \<in> set (db_spaces db) \<and> sp_id x \<noteq> i"
    then have "compatible r x" by (intro no_violation_compatible [OF o(3)]) simp
    then show ?thesis using that(2) r(3) by (simp add: compatible_def)
  qed
  have "find (\<lambda>x. sp_sensor_eui x = Some (upper e) \<and> alive x) (db_spaces db') = Some r"
    by (rule find_unique [OF rin _ uniq]) (simp_all add: r(2,3))
  then show ?thesis using r(1) by (simp add: get_space_by_sensor_def)
qed

definition demo_update :: SpaceUpdate where
  "demo_update = \<lparr>su_name = None, su_code = None, su_building = None, su_floor = None, su_zone = None,
     su_sensor_eui = Some (Some ''E8e1e10001000001''), su_display_eui = None, su_state = None,
     su_metadata = None\<rparr>"

theorem sensor_found_after_update_witness:
  "\<exists>db' r. update_space demo_db 5 ''s1'' demo_update = Inr (db', r)
     \<and> get_space_by_sensor db' ''E8E1E10001000001'' = Some r"
proof -
  have wf: "spaces_wf (db_spaces demo_db)"
    using create_space_wf [OF empty_db_wf _ _ demo_created] by (simp add: empty_db_def)
  have "\<exists>db' r. update_space demo_db 5 ''s1'' demo_update = Inr (db', r)"
    by (simp add: update_space_def demo_db_def empty_db_def get_space_def new_space_row_def alive_def
        enforce_eui_uppercase_def space_unique_violation_def Let_def)
  then obtain db' r where u: "update_space demo_db 5 ''s1'' demo_update = Inr (db', r)" by blast
  have "upper ''E8e1e10001000001'' = ''E8E1E10001000001''" by code_simp
  with sensor_found_after_update [OF wf u, of "''E8e1e10001000001''"] u show ?thesis
    by (simp add: demo_update_def)
qed

definition frames_unique :: "reading_row list \<Rightarrow> bool" where
  "frames_unique t \<longleftrightarrow> (\<forall>i j. i < j \<longrightarrow> j < length t \<longrightarrow> \<not> same_frame (t ! j) (t ! i))"

lemma frames_unique_snoc:
  "frames_unique t \<Longrightarrow> \<not> list_ex (same_frame r) t \<Longrightarrow> frames_unique (t @ [r])"
  by (auto simp: frames_unique_def nth_append list_ex_iff less_Suc_eq)

text \<open>
  Readings are stored once per frame: inserting keeps the stored frames distinct, and
  inserting an uplink with a frame counter a second time for the same tenant, whatever its
  other values, its space and its time, changes nothing.
\<close>

theorem sensor_reading_idempotent:
  assumes "frames_unique (db_sensor_readings db)"
    and "reading_tenant db sid t = Some x" "reading_tenant db sid' t' = Some x"
  shows "frames_unique (db_sensor_readings (insert_sensor_reading db now eui sid occ bat rssi snr ts (Some n) t))
    \<and> insert_sensor_reading (insert_sensor_reading db now eui sid occ bat rssi snr ts (Some n) t)
         now' eui sid' occ' bat' rssi' snr' ts' (Some n) t'
       = insert_sensor_reading db now eui sid occ bat rssi snr ts (Some n) t"
proof -
  have "reading_tenant (db\<lparr>db_sensor_readings := rs\<rparr>) s u = reading_tenant db s u" for rs s u
    by (cases s) (simp_all add: reading_tenant_def)
  then show ?thesis
    using assms
    by (auto simp: insert_sensor_reading_def Let_def list_ex_iff same_frame_def intro!: frames_unique_snoc)
qed

theorem sensor_reading_idempotent_witness:
  "insert_sensor_reading
     (insert_sensor_reading empty_db 1 ''e8e1'' None (Some ''FREE'') None None None None (Some 7) (Some ''t''))
     2 ''e8e1'' None (Some ''OCCUPIED'') None None None None (Some 7) (Some ''t'')
   = insert_sensor_reading empty_db 1 ''e8e1'' None (Some ''FREE'') None None None None (Some 7) (Some ''t'')"
  using sensor_reading_idempotent [of empty_db None "Some ''t''" "''t''" None "Some ''t''"]
  by (simp add: frames_unique_def empty_db_def reading_tenant_def)

text \<open>On the schema of the migrations the pool cannot insert a space: it never names a site.\<close>

lemma pool_create_space_refused:
  "create_space (spaces_sync_tenant_id sites) db i now sp = Inl (RaiseException ''site_id cannot be NULL'')"
  by (simp add: create_space_def spaces_sync_tenant_id_def new_space_row_def)

text \<open>
  The pool's own \<open>create_reservation\<close> on an existing space and a period the models
  accept. Where \<open>tenant_id\<close> has no default, as in the migrations, it never succeeds. Where it
  has one, it looks only at reservations with the old status \<open>'active'\<close> and inserts with that
  status, which the exclusion constraint does not cover: it books the space over pending and confirmed
  reservations of the same period.
\<close>

theorem pool_reservation_refused_or_double_books:
  assumes "get_space db (rc_space_id rc) \<noteq> None"
    and "\<forall>r\<in>set (db_reservations db). rv_status r \<noteq> ACTIVE \<and> rv_id r \<noteq> i \<and> rv_request_id r \<noteq> rq"
    and "validate_times (Aware (rc_start_time rc)) (Aware (rc_end_time rc)) = Inr ()"
  shows "pool_create_reservation None db i rq now rc = Inl (NotNullViolation ''tenant_id'')
    \<and> (\<exists>db' row. pool_create_reservation (Some tenant) db i rq now rc = Inr (db', row)
        \<and> db_reservations db' = db_reservations db @ [row]
        \<and> rv_space_id row = rc_space_id rc \<and> rv_start_time row = rc_start_time rc \<and> rv_end_time row = rc_end_time rc)"
proof -
  have "ReservationStatus_value st = ''active'' \<longleftrightarrow> st = ACTIVE" for st by (cases st) simp_all
  then have none: "filter (\<lambda>r. rv_space_id r = rc_space_id rc \<and> ReservationStatus_value (rv_status r) = ''active''
      \<and> overlaps (rv_start_time r) (rv_end_time r) (rc_start_time rc) (rc_end_time rc)) (db_reservations db) = []"
    using assms(2) by (simp add: filter_empty_conv)
  have times: "rc_start_time rc < rc_end_time rc" "rc_end_time rc - rc_start_time rc \<le> 86400"
    using assms(3) by (auto simp: validate_times_def split: if_splits)
  show ?thesis
    using assms(1,2) times none
    by (auto simp: pool_create_reservation_def insert_reservation_def sql_count_def Let_def list_ex_iff
        excludes_def live_status_def)
qed

definition booked_db :: pdb where
  "booked_db = demo_db\<lparr>db_reservations :=
     [\<lparr>rv_id = ''r1'', rv_space_id = ''s1'', rv_tenant_id = ''t'', rv_request_id = ''q1'', rv_start_time = 100,
       rv_end_time = 200, rv_status = CONFIRMED, rv_user_email = None, rv_user_phone = None,
       rv_metadata = None, rv_created_at = 0\<rparr>]\<rparr>"

theorem pool_reservation_refused_or_double_books_witness:
  "\<exists>db' row. pool_create_reservation (Some ''t'') booked_db ''r2'' ''q2'' 5
     \<lparr>rc_space_id = ''s1'', rc_start_time = 150, rc_end_time = 250, rc_user_email = None,
      rc_user_phone = None, rc_metadata = None\<rparr> = Inr (db', row) \<and> length (db_reservations db') = 2"
proof -
  have "get_space booked_db ''s1'' \<noteq> None"
    by (simp add: get_space_def booked_db_def demo_db_def empty_db_def new_space_row_def alive_def
        enforce_eui_uppercase_def)
  then show ?thesis
    using pool_reservation_refused_or_double_books [of booked_db
      "\<lparr>rc_space_id = ''s1'', rc_start_time = 150, rc_end_time = 250, rc_user_email = None,
        rc_user_phone = None, rc_metadata = None\<rparr>" "''r2''" "''q2''" 5 "''t''"]
    by (auto simp: booked_db_def validate_times_def)
qed

end
