(* ===== verification/State_Manager.thy ===== *)
theory State_Manager
  imports Downlink_Queue Database Codec
begin

text \<open>
  \<open>src/state_manager.py\<close>: changes of a space's state under a distributed lock, with validation,
  the audit record, cache invalidation and the display command.

  Redis is given by its commands, the tables are those of \<open>Database\<close> with the display devices and
  the actuation log. Each call that can raise (a query, a Redis command, ChirpStack) has an entry
  in \<open>sm_faults\<close>: \<open>Some text\<close> makes it raise an exception with that text. What other clients of
  Redis do while the lock is awaited is the function \<open>others\<close>.
\<close>

section \<open>Transitions\<close>

fun VALID_TRANSITIONS :: "SpaceState \<Rightarrow> SpaceState list" where
  "VALID_TRANSITIONS FREE = [OCCUPIED, RESERVED, MAINTENANCE]"
| "VALID_TRANSITIONS OCCUPIED = [FREE, MAINTENANCE]"
| "VALID_TRANSITIONS RESERVED = [OCCUPIED, FREE, MAINTENANCE]"
| "VALID_TRANSITIONS MAINTENANCE = [FREE]"

text \<open>How an f-string prints the enumeration member (Python 3.11).\<close>

definition SpaceState_str :: "SpaceState \<Rightarrow> string" where
  "SpaceState_str s = ''SpaceState.'' @ SpaceState_value s"

definition is_valid_transition :: "SpaceState \<Rightarrow> SpaceState \<Rightarrow> string \<Rightarrow> bool" where
  "is_valid_transition current_state new_state source =
     (if source = ''manual'' then True else new_state \<in> set (VALID_TRANSITIONS current_state))"

record StateUpdateResult =
  ur_success :: bool
  ur_previous_state :: "SpaceState option"
  ur_new_state :: SpaceState
  ur_display_updated :: bool
  ur_error :: "string option"

section \<open>Tables, faults and clients\<close>

record display_row =
  dd_id :: uuid
  dd_dev_eui :: string
  dd_enabled :: bool
  dd_display_codes :: "(string \<times> string) list"
  dd_fport :: int
  dd_confirmed :: bool

record actuation =
  ac_space_id :: uuid
  ac_trigger_type :: string
  ac_trigger_source :: string
  ac_previous_state :: SpaceState
  ac_new_state :: SpaceState
  ac_display_eui :: string
  ac_display_device_id :: "uuid option"
  ac_display_code :: "string option"
  ac_fport :: "int option"
  ac_confirmed :: bool
  ac_downlink_sent :: bool
  ac_queue_id :: "string option"
  ac_error :: "string option"

record sm_db =
  sm_pdb :: pdb
  sm_displays :: "display_row list"
  sm_actuations :: "actuation list"

record sm_faults =
  f_get_space :: "string option"
  f_update :: "string option"
  f_record :: "string option"
  f_cache :: "string option"
  f_display :: "string option"
  f_tenant :: "string option"
  f_downlink :: "string option"
  f_log :: "string option"
  f_log_error :: "string option"

text \<open>
  \<open>chirpstack_client\<close> and \<open>downlink_queue\<close> may be missing; \<open>cs_send\<close> is the direct call, which
  raises (\<open>Inl\<close>) or returns a queue id.
\<close>

record sm_clients =
  has_chirpstack :: bool
  has_queue :: bool
  cs_send :: "string \<Rightarrow> byte list \<Rightarrow> int \<Rightarrow> bool \<Rightarrow> string + string option"

definition no_faults :: sm_faults where
  "no_faults = \<lparr>f_get_space = None, f_update = None, f_record = None, f_cache = None, f_display = None,
                f_tenant = None, f_downlink = None, f_log = None, f_log_error = None\<rparr>"

section \<open>Lock\<close>

definition lock_key :: "string \<Rightarrow> string" where "lock_key resource = ''lock:'' @ resource"

definition lock_timeout :: int where "lock_timeout = 5"

text \<open>Entering \<open>acquire_lock\<close>: two attempts, other clients run in between.\<close>

definition enter_lock :: "'r redis_ops \<Rightarrow> ('r \<Rightarrow> 'r) \<Rightarrow> string \<Rightarrow> string \<Rightarrow> 'r \<Rightarrow> 'r \<times> bool" where
  "enter_lock R others resource lock_value s =
     (case rset_nx R s (lock_key resource) lock_value lock_timeout of
        (s, True) \<Rightarrow> (s, True)
      | (s, False) \<Rightarrow> rset_nx R (others s) (lock_key resource) lock_value lock_timeout)"

text \<open>Leaving it: the key is deleted when it still holds this client's value.\<close>

definition leave_lock :: "'r redis_ops \<Rightarrow> string \<Rightarrow> string \<Rightarrow> 'r \<Rightarrow> 'r" where
  "leave_lock R resource lock_value s =
     (if truthy (rget R s (lock_key resource)) \<and> rget R s (lock_key resource) = Some lock_value
      then rdel R s (lock_key resource) else s)"

definition invalidate_cache :: "'r redis_ops \<Rightarrow> uuid \<Rightarrow> 'r \<Rightarrow> 'r" where
  "invalidate_cache R space_id s =
     fold (\<lambda>k s. rdel R s k) [''space:'' @ space_id, ''space:'' @ space_id @ '':state'', ''spaces:all''] s"

section \<open>Display\<close>

record display_req =
  dq_space_id :: uuid
  dq_display_eui :: string
  dq_previous :: SpaceState
  dq_new :: SpaceState
  dq_trigger_type :: string
  dq_trigger_source :: string

text \<open>The insert in the \<open>except\<close> block; a failure there is only logged.\<close>

definition log_failed ::
  "sm_faults \<Rightarrow> display_req \<Rightarrow> uuid option \<Rightarrow> string option \<Rightarrow> int option \<Rightarrow> bool \<Rightarrow> string \<Rightarrow> sm_db \<Rightarrow> sm_db" where
  "log_failed X q device_id code fport sent err db =
     (case f_log_error X of
        Some _ \<Rightarrow> db
      | None \<Rightarrow>
          db\<lparr>sm_actuations := sm_actuations db @
              [\<lparr>ac_space_id = dq_space_id q, ac_trigger_type = dq_trigger_type q,
                ac_trigger_source = dq_trigger_source q, ac_previous_state = dq_previous q,
                ac_new_state = dq_new q, ac_display_eui = dq_display_eui q,
                ac_display_device_id = device_id, ac_display_code = code, ac_fport = fport,
                ac_confirmed = False, ac_downlink_sent = sent, ac_queue_id = None,
                ac_error = Some err\<rparr>]\<rparr>)"

text \<open>Queueing the command: the durable queue when there is one, ChirpStack otherwise.\<close>

definition queue_display ::
  "'r redis_ops \<Rightarrow> dl_env \<Rightarrow> sm_faults \<Rightarrow> sm_clients \<Rightarrow> pyfloat \<Rightarrow> string \<Rightarrow> display_req \<Rightarrow> display_row
   \<Rightarrow> string \<Rightarrow> byte list \<Rightarrow> string option \<Rightarrow> 'r \<Rightarrow> 'r \<times> (string + bool \<times> string option)" where
  "queue_display R E X C now cmd_id q display payload_hex payload tenant_id s =
     (if has_queue C then
        (case f_downlink X of
           Some e \<Rightarrow> (s, Inl e)
         | None \<Rightarrow>
             (case enqueue R E now cmd_id
                     \<lparr>ea_device_eui = dq_display_eui q, ea_payload = payload_hex,
                      ea_fport = dd_fport display, ea_tenant_id = tenant_id,
                      ea_confirmed = dd_confirmed display, ea_gateway_id = None,
                      ea_space_id = Some (dq_space_id q),
                      ea_trigger_source = Some (dq_trigger_source q)\<rparr> s of
                (s, queue_id) \<Rightarrow> (s, Inr (truthy queue_id, queue_id))))
      else
        (case cs_send C (dq_display_eui q) payload (dd_fport display) (dd_confirmed display) of
           Inl e \<Rightarrow> (s, Inl e)
         | Inr queue_id \<Rightarrow> (s, Inr (True, queue_id))))"

definition tenant_of_space :: "sm_db \<Rightarrow> uuid \<Rightarrow> string option" where
  "tenant_of_space db space_id =
     (case find (\<lambda>r. sp_id r = space_id) (db_spaces (sm_pdb db)) of
        None \<Rightarrow> None
      | Some r \<Rightarrow> Some (case sp_tenant_id r of None \<Rightarrow> ''None'' | Some t \<Rightarrow> t))"

definition update_display ::
  "'r redis_ops \<Rightarrow> dl_env \<Rightarrow> sm_faults \<Rightarrow> sm_clients \<Rightarrow> pyfloat \<Rightarrow> string \<Rightarrow> display_req \<Rightarrow> 'r \<times> sm_db
   \<Rightarrow> ('r \<times> sm_db) \<times> bool" where
  "update_display R E X C now cmd_id q sdb =
     (case sdb of (s, db) \<Rightarrow>
      if \<not> has_chirpstack C then ((s, db), False)
      else case f_display X of
        Some e \<Rightarrow> ((s, log_failed X q None None None False e db), False)
      | None \<Rightarrow>
      (case find (\<lambda>d. dd_dev_eui d = dq_display_eui q \<and> dd_enabled d) (sm_displays db) of
         None \<Rightarrow> ((s, db), False)
       | Some display \<Rightarrow>
      (let code = map_of (dd_display_codes display) (SpaceState_value (dq_new q)) in
       if \<not> truthy code then ((s, db), False)
       else
       (case bytes_fromhex (str_field code) of
          None \<Rightarrow> ((s, log_failed X q (Some (dd_id display)) code None False
                       ''non-hexadecimal number found in fromhex() arg'' db), False)
        | Some payload \<Rightarrow>
       (case f_tenant X of
          Some e \<Rightarrow> ((s, log_failed X q (Some (dd_id display)) code (Some (dd_fport display)) False e db), False)
        | None \<Rightarrow>
       (case queue_display R E X C now cmd_id q display (str_field code) payload
               (tenant_of_space db (dq_space_id q)) s of
          (s, Inl e) \<Rightarrow>
            ((s, log_failed X q (Some (dd_id display)) code (Some (dd_fport display)) False e db), False)
        | (s, Inr (sent, queue_id)) \<Rightarrow>
            (case f_log X of
               Some e \<Rightarrow>
                 ((s, log_failed X q (Some (dd_id display)) code (Some (dd_fport display)) sent e db), False)
             | None \<Rightarrow>
                 ((s, db\<lparr>sm_actuations := sm_actuations db @
                   [\<lparr>ac_space_id = dq_space_id q, ac_trigger_type = dq_trigger_type q,
                     ac_trigger_source = dq_trigger_source q, ac_previous_state = dq_previous q,
                     ac_new_state = dq_new q, ac_display_eui = dq_display_eui q,
                     ac_display_device_id = Some (dd_id display), ac_display_code = code,
                     ac_fport = Some (dd_fport display), ac_confirmed = dd_confirmed display,
                     ac_downlink_sent = sent, ac_queue_id = queue_id, ac_error = None\<rparr>]\<rparr>), True))))))))"

section \<open>State updates\<close>

definition set_state :: "uuid \<Rightarrow> SpaceState \<Rightarrow> instant \<Rightarrow> pdb \<Rightarrow> pdb" where
  "set_state space_id new_state now db =
     db\<lparr>db_spaces := sql_update (\<lambda>r. sp_id r = space_id)
           (\<lambda>r. r\<lparr>sp_state := new_state, sp_updated_at := now\<rparr>) (db_spaces db)\<rparr>"

definition record_change :: "uuid \<Rightarrow> SpaceState \<Rightarrow> SpaceState \<Rightarrow> string \<Rightarrow> string \<Rightarrow> instant \<Rightarrow> pdb \<Rightarrow> pdb" where
  "record_change space_id old new_state source request_id now db =
     db\<lparr>db_state_changes := db_state_changes db @
         [\<lparr>sc_space_id = space_id, sc_previous_state = old, sc_new_state = new_state,
           sc_source = source, sc_request_id = Some request_id, sc_timestamp = now\<rparr>]\<rparr>"

definition failed_update :: "SpaceState option \<Rightarrow> SpaceState \<Rightarrow> string \<Rightarrow> StateUpdateResult" where
  "failed_update previous new_state err =
     \<lparr>ur_success = False, ur_previous_state = previous, ur_new_state = new_state,
      ur_display_updated = False, ur_error = Some err\<rparr>"

record update_req =
  uq_space_id :: uuid
  uq_new_state :: SpaceState
  uq_source :: string
  uq_request_id :: string

text \<open>
  The body inside the lock. \<open>StateTransitionError\<close> is re-raised, any other exception becomes a
  failed result; statements already executed stay executed.
\<close>

definition update_body ::
  "'r redis_ops \<Rightarrow> dl_env \<Rightarrow> sm_faults \<Rightarrow> sm_clients \<Rightarrow> pyfloat \<Rightarrow> string \<Rightarrow> update_req \<Rightarrow> 'r \<times> sm_db
   \<Rightarrow> ('r \<times> sm_db) \<times> (ParkingException + StateUpdateResult)" where
  "update_body R E X C now cmd_id q sdb =
     (case sdb of (s, db) \<Rightarrow>
      case f_get_space X of
        Some e \<Rightarrow> ((s, db), Inr (failed_update None (uq_new_state q) e))
      | None \<Rightarrow>
      (case get_space (sm_pdb db) (uq_space_id q) of
         None \<Rightarrow> ((s, db), Inr (failed_update None (uq_new_state q) ''Space not found''))
       | Some space \<Rightarrow>
      (let cur = sp_state space; new = uq_new_state q in
       if cur = new then
         ((s, db), Inr \<lparr>ur_success = True, ur_previous_state = Some cur, ur_new_state = new,
                        ur_display_updated = False, ur_error = None\<rparr>)
       else if \<not> is_valid_transition cur new (uq_source q) then
         ((s, db), Inl (StateTransitionError
            (''Invalid transition from '' @ SpaceState_str cur @ '' to '' @ SpaceState_str new
               @ '' via '' @ uq_source q) (Some (SpaceState_value cur)) (Some (SpaceState_value new))))
       else case f_update X of
         Some e \<Rightarrow> ((s, db), Inr (failed_update (Some cur) new e))
       | None \<Rightarrow>
      (let db1 = db\<lparr>sm_pdb := set_state (uq_space_id q) new now (sm_pdb db)\<rparr> in
       case f_record X of
         Some e \<Rightarrow> ((s, db1), Inr (failed_update (Some cur) new e))
       | None \<Rightarrow>
      (let db2 = db1\<lparr>sm_pdb := record_change (uq_space_id q) cur new (uq_source q) (uq_request_id q) now
                                  (sm_pdb db1)\<rparr> in
       case f_cache X of
         Some e \<Rightarrow> ((s, db2), Inr (failed_update (Some cur) new e))
       | None \<Rightarrow>
      (let s3 = invalidate_cache R (uq_space_id q) s;
           (sdb4, shown) =
             (if truthy (sp_display_eui space)
              then update_display R E X C now cmd_id
                     \<lparr>dq_space_id = uq_space_id q, dq_display_eui = str_field (sp_display_eui space),
                      dq_previous = cur, dq_new = new, dq_trigger_type = uq_source q,
                      dq_trigger_source = uq_request_id q\<rparr> (s3, db2)
              else ((s3, db2), False))
       in (sdb4, Inr \<lparr>ur_success = True, ur_previous_state = Some cur, ur_new_state = new,
                      ur_display_updated = shown, ur_error = None\<rparr>)))))))"

definition sm_update_space_state ::
  "'r redis_ops \<Rightarrow> dl_env \<Rightarrow> sm_faults \<Rightarrow> sm_clients \<Rightarrow> ('r \<Rightarrow> 'r) \<Rightarrow> string \<Rightarrow> pyfloat \<Rightarrow> string
   \<Rightarrow> update_req \<Rightarrow> 'r \<times> sm_db \<Rightarrow> ('r \<times> sm_db) \<times> (ParkingException + StateUpdateResult)" where
  "sm_update_space_state R E X C others lock_value now cmd_id q sdb =
     (case sdb of (s, db) \<Rightarrow>
      (let resource = ''space:'' @ uq_space_id q in
       case enter_lock R others resource lock_value s of
         (s, False) \<Rightarrow>
           ((s, db), Inl (StateTransitionError (''Could not acquire lock for '' @ resource) None None))
       | (s, True) \<Rightarrow>
           (case update_body R E X C now cmd_id q (s, db) of
              ((s, db), r) \<Rightarrow> ((leave_lock R resource lock_value s, db), r))))"

section \<open>Availability\<close>

definition blocks :: "instant \<Rightarrow> instant \<Rightarrow> Reservation \<Rightarrow> bool" where
  "blocks start_time end_time r =
     ((rv_start_time r \<le> start_time \<and> rv_end_time r > start_time) \<or>
      (rv_start_time r < end_time \<and> rv_end_time r \<ge> end_time) \<or>
      (rv_start_time r \<ge> start_time \<and> rv_end_time r \<le> end_time))"

definition check_availability :: "pdb \<Rightarrow> uuid \<Rightarrow> instant \<Rightarrow> instant \<Rightarrow> bool" where
  "check_availability db space_id start_time end_time =
     (sql_count (\<lambda>r. rv_space_id r = space_id \<and> ReservationStatus_value (rv_status r) = ''active''
                     \<and> blocks start_time end_time r) (db_reservations db) = 0)"

definition get_active_reservation_count :: "pdb \<Rightarrow> instant \<Rightarrow> nat" where
  "get_active_reservation_count db now =
     sql_count (\<lambda>r. live_status (rv_status r) \<and> rv_end_time r > now) (db_reservations db)"

section \<open>What an update does to the tables\<close>

text \<open>Log entries of the display command leave the tables of spaces and changes alone.\<close>

lemma log_failed_pdb [simp]: "sm_pdb (log_failed X q d c f sent e db) = sm_pdb db"
  by (simp add: log_failed_def split: option.split)

lemma update_display_pdb [simp]:
  "sm_pdb (snd (fst (update_display R E X C now i q (s, db)))) = sm_pdb db"
  by (simp add: update_display_def Let_def split: option.split sum.split prod.split)

text \<open>The accepted change: the space exists, its state differs, the transition is allowed.\<close>

definition accepted :: "update_req \<Rightarrow> pdb \<Rightarrow> SpaceState option" where
  "accepted q db =
     (case get_space db (uq_space_id q) of
        None \<Rightarrow> None
      | Some r \<Rightarrow> if sp_state r \<noteq> uq_new_state q \<and> is_valid_transition (sp_state r) (uq_new_state q) (uq_source q)
                 then Some (sp_state r) else None)"

definition applied :: "update_req \<Rightarrow> instant \<Rightarrow> SpaceState \<Rightarrow> pdb \<Rightarrow> pdb" where
  "applied q now cur db =
     record_change (uq_space_id q) cur (uq_new_state q) (uq_source q) (uq_request_id q) now
       (set_state (uq_space_id q) (uq_new_state q) now db)"

lemma update_body_pdb:
  "sm_pdb (snd (fst (update_body R E X C now i q (s, db)))) =
     (case (f_get_space X, accepted q (sm_pdb db), f_update X) of
        (None, Some cur, None) \<Rightarrow>
          if f_record X = None then applied q now cur (sm_pdb db)
          else set_state (uq_space_id q) (uq_new_state q) now (sm_pdb db)
      | _ \<Rightarrow> sm_pdb db)"
  by (simp add: update_body_def accepted_def applied_def Let_def split: option.split prod.split)
     (auto dest!: arg_cong [where f = "\<lambda>x. sm_pdb (snd (fst x))"])

lemma update_pdb:
  "sm_pdb (snd (fst (sm_update_space_state R E X C oth lv now i q (s, db)))) =
     (if snd (enter_lock R oth (''space:'' @ uq_space_id q) lv s)
      then sm_pdb (snd (fst (update_body R E X C now i q
             (fst (enter_lock R oth (''space:'' @ uq_space_id q) lv s), db))))
      else sm_pdb db)"
  by (auto simp: sm_update_space_state_def Let_def split: prod.split bool.split)

section \<open>The audit trail\<close>

text \<open>
  Replaying the recorded changes of one space from a starting state: each must begin where the
  previous one ended.
\<close>

fun replay :: "uuid \<Rightarrow> SpaceState \<Rightarrow> state_change list \<Rightarrow> SpaceState option" where
  "replay i st [] = Some st"
| "replay i st (c # cs) =
     (if sc_space_id c \<noteq> i then replay i st cs
      else if sc_previous_state c = st then replay i (sc_new_state c) cs else None)"

text \<open>
  The diagram of states, stated apart from the table of the code: a space may always be freed or taken
  into maintenance, a free space may be reserved, and a free or reserved space may become occupied. A manual change may be any.
\<close>

definition diagram :: "SpaceState \<Rightarrow> SpaceState \<Rightarrow> bool" where
  "diagram a b \<longleftrightarrow> b = FREE \<or> b = MAINTENANCE \<or> a = FREE \<and> b = RESERVED
     \<or> (a = FREE \<or> a = RESERVED) \<and> b = OCCUPIED"

definition legal_change :: "state_change \<Rightarrow> bool" where
  "legal_change c \<longleftrightarrow> sc_previous_state c \<noteq> sc_new_state c
     \<and> (sc_source c = ''manual'' \<or> diagram (sc_previous_state c) (sc_new_state c))"

lemma valid_transition_iff:
  "a \<noteq> b \<Longrightarrow> is_valid_transition a b source \<longleftrightarrow> source = ''manual'' \<or> diagram a b"
  by (cases a; cases b) (simp_all add: is_valid_transition_def diagram_def)

definition trail_ok :: "(uuid \<Rightarrow> SpaceState) \<Rightarrow> pdb \<Rightarrow> bool" where
  "trail_ok start db \<longleftrightarrow> spaces_wf (db_spaces db)
     \<and> (\<forall>r\<in>set (db_spaces db). replay (sp_id r) (start (sp_id r)) (db_state_changes db) = Some (sp_state r))
     \<and> (\<forall>c\<in>set (db_state_changes db). legal_change c)"

lemma replay_snoc:
  "replay i st (cs @ [c]) =
     (case replay i st cs of None \<Rightarrow> None
      | Some st' \<Rightarrow> if sc_space_id c \<noteq> i then Some st'
                   else if sc_previous_state c = st' then Some (sc_new_state c) else None)"
  by (induction cs arbitrary: st) auto

lemma set_state_wf: "spaces_wf (db_spaces db) \<Longrightarrow> spaces_wf (db_spaces (set_state i st now db))"
  by (simp add: set_state_def alive_def space_columns_wf)

lemma applied_trail:
  assumes "trail_ok start db" "accepted q db = Some cur"
  shows "trail_ok start (applied q now cur db)"
proof -
  let ?i = "uq_space_id q"
  obtain old where old: "get_space db ?i = Some old" "sp_state old = cur" "cur \<noteq> uq_new_state q"
      "is_valid_transition cur (uq_new_state q) (uq_source q)"
    using assms(2) by (auto simp: accepted_def split: option.splits if_splits)
  note mem = get_space_Some [OF old(1)]
  have wf: "spaces_wf (db_spaces db)" and legal: "\<And>c. c \<in> set (db_state_changes db) \<Longrightarrow> legal_change c"
    and rep: "\<And>r. r \<in> set (db_spaces db) \<Longrightarrow>
      replay (sp_id r) (start (sp_id r)) (db_state_changes db) = Some (sp_state r)"
    using assms(1) by (simp_all add: trail_ok_def)
  have cur: "sp_state r = cur" if "r \<in> set (db_spaces db)" "sp_id r = ?i" for r
    using spaces_wf_id [OF wf that(1), of old] mem old(2) that(2) by simp
  have "replay (sp_id r) (start (sp_id r)) (db_state_changes (applied q now cur db)) = Some (sp_state r)"
    if r: "r \<in> set (db_spaces (applied q now cur db))" for r
  proof -
    obtain x where x: "x \<in> set (db_spaces db)" "sp_id r = sp_id x"
        "sp_state r = (if sp_id x = ?i then uq_new_state q else sp_state x)"
      using r by (auto simp: applied_def record_change_def set_state_def sql_update_def split: if_splits)
    then show ?thesis using rep [OF x(1)] cur [OF x(1)]
      by (auto simp: applied_def record_change_def set_state_def replay_snoc)
  qed
  moreover have "spaces_wf (db_spaces (applied q now cur db))"
    using set_state_wf [OF wf] by (simp add: applied_def record_change_def)
  moreover have "legal_change c" if "c \<in> set (db_state_changes (applied q now cur db))" for c
    using that legal old by (auto simp: applied_def record_change_def set_state_def legal_change_def valid_transition_iff)
  ultimately show ?thesis by (simp add: trail_ok_def)
qed

text \<open>One call, with everything it depends on.\<close>

record 'r sm_call =
  ca_faults :: sm_faults
  ca_clients :: sm_clients
  ca_others :: "'r \<Rightarrow> 'r"
  ca_lock_value :: string
  ca_now :: pyfloat
  ca_cmd_id :: string
  ca_req :: update_req

definition sm_call :: "'r redis_ops \<Rightarrow> dl_env \<Rightarrow> 'r sm_call \<Rightarrow> 'r \<times> sm_db
    \<Rightarrow> ('r \<times> sm_db) \<times> (ParkingException + StateUpdateResult)" where
  "sm_call R E c sdb = sm_update_space_state R E (ca_faults c) (ca_clients c) (ca_others c) (ca_lock_value c)
     (ca_now c) (ca_cmd_id c) (ca_req c) sdb"

definition sm_run :: "'r redis_ops \<Rightarrow> dl_env \<Rightarrow> 'r sm_call list \<Rightarrow> 'r \<times> sm_db \<Rightarrow> 'r \<times> sm_db" where
  "sm_run R E cs sdb = fold (\<lambda>c sdb. fst (sm_call R E c sdb)) cs sdb"

lemma sm_call_trail:
  assumes "f_record (ca_faults c) = None" "trail_ok start (sm_pdb (snd sdb))"
  shows "trail_ok start (sm_pdb (snd (fst (sm_call R E c sdb))))"
  using assms by (cases sdb)
    (auto simp: sm_call_def update_pdb update_body_pdb split: option.split intro!: applied_trail)

text \<open>
  Property C10. The audit trail explains the spaces: over any sequence of updates, by whichever
  sources, with lost locks, rejected transitions and failing calls, as long as no insert into
  \<open>state_changes\<close> fails, replaying the recorded changes of a space from its starting state gives
  its current state, and every recorded change follows the diagram of states or is a manual
  override.
\<close>

theorem audit_trail_replays:
  assumes "\<forall>c\<in>set cs. f_record (ca_faults c) = None" "trail_ok start (sm_pdb db)"
  shows "trail_ok start (sm_pdb (snd (sm_run R E cs (s, db))))"
proof -
  have "trail_ok start (sm_pdb (snd sdb)) \<Longrightarrow> trail_ok start (sm_pdb (snd (sm_run R E cs sdb)))" for sdb
    using assms(1) by (induction cs arbitrary: sdb) (simp_all add: sm_run_def sm_call_trail)
  with assms(2) show ?thesis by simp
qed

definition demo_clients :: sm_clients where
  "demo_clients = \<lparr>has_chirpstack = False, has_queue = False, cs_send = (\<lambda>_ _ _ _. Inr None)\<rparr>"

definition demo_sm :: sm_db where
  "demo_sm = \<lparr>sm_pdb = demo_db, sm_displays = [], sm_actuations = []\<rparr>"

definition demo_call :: "sm_faults \<Rightarrow> SpaceState \<Rightarrow> mem sm_call" where
  "demo_call X st = \<lparr>ca_faults = X, ca_clients = demo_clients, ca_others = id, ca_lock_value = ''1.5'', ca_now = 1,
     ca_cmd_id = ''c'', ca_req = \<lparr>uq_space_id = ''s1'', uq_new_state = st, uq_source = ''sensor'',
     uq_request_id = ''q''\<rparr>\<rparr>"

lemma demo_trail: "trail_ok (\<lambda>_. FREE) demo_db"
proof -
  have "sp_state (enforce_eui_uppercase (new_space_row ''s1'' 0 demo_space)) = FREE"
    by (simp add: enforce_eui_uppercase_def new_space_row_def demo_space_def)
  then show ?thesis by (simp add: trail_ok_def demo_db_def empty_db_def spaces_wf_def eui_upper_enforced)
qed

theorem audit_trail_replays_witness:
  "trail_ok (\<lambda>_. FREE) (sm_pdb (snd (sm_run mem_ops demo_env
     [demo_call no_faults OCCUPIED, demo_call no_faults RESERVED, demo_call (no_faults\<lparr>f_update := Some ''x''\<rparr>) FREE]
     ([], demo_sm))))"
  using audit_trail_replays [of "[demo_call no_faults OCCUPIED, demo_call no_faults RESERVED,
      demo_call (no_faults\<lparr>f_update := Some ''x''\<rparr>) FREE]" "\<lambda>_. FREE" demo_sm mem_ops demo_env "[]"]
  by (simp add: demo_call_def no_faults_def demo_sm_def demo_trail)

section \<open>Mutual exclusion\<close>

text \<open>The commands of one update touch only the lock, the cache keys of spaces and \<open>dl:*\<close>.\<close>

definition outside_dl :: "string \<Rightarrow> bool" where
  "outside_dl k \<longleftrightarrow> take 3 k \<noteq> ''dl:''"

lemma outside_keys:
  assumes "outside_dl k"
  shows "k \<noteq> PENDING_KEY" "k \<noteq> DEAD_LETTER_KEY" "k \<noteq> cmd_key i" "k \<noteq> metric_key n" "k \<noteq> coalesce_key d"
    "k \<noteq> last_hash_key d"
  using assms by (auto simp: outside_dl_def key_defs)

lemma dl_typed_other:
  assumes "dl_typed m" "outside_dl k"
  shows "dl_typed (m(k := v))"
proof -
  note ne = outside_keys [OF assms(2), THEN not_sym]
  show ?thesis using assms(1) ne
    by (simp add: dl_typed_def listlike_def hashlike_def strlike_def counter_like_def list_at_def
        del: dl_typedD q_of_keys)
qed

context redis
begin

lemma incr_frame:
  assumes "outside_dl k" "dl_typed (contents s)" "n \<in> set counter_names"
  shows "contents (increment_metric R n s) k = contents s k"
  using incr_metric [OF assms(2,3)] outside_keys(4) [OF assms(1), of n] by auto

lemma coalesce_frame:
  assumes "outside_dl k" "dl_typed (contents s)"
  shows "contents (coalesce R d s) k = contents s k"
  using assms(2) outside_keys [OF assms(1)]
  by (auto simp: coalesce_def get lrem del Let_def incr_frame [OF assms(1)] split: option.split)

lemma enqueue_frame:
  assumes "outside_dl k" "dl_typed (contents s)"
  shows "contents (fst (enqueue R E now i a s)) k = contents s k"
proof -
  note ne = outside_keys [OF assms(1)]
  let ?s1 = "coalesce R (ea_device_eui a) s"
  let ?s2 = "rhset R ?s1 (cmd_key i) (serialize_cmd E (new_command E now i a))"
  have t1: "dl_typed (contents ?s1)" by (rule coalesce_step [OF assms(2)])
  then have t2: "dl_typed (contents ?s2)" by simp
  have c2: "contents ?s2 k = contents s k"
    using t1 ne by (simp add: hset coalesce_frame [OF assms])
  show ?thesis using assms(2) t2 ne c2
    by (simp add: enqueue_def Let_def incr_frame [OF assms(1)] set rpush expire)
qed

lemma invalidate_frame: "hd k \<noteq> CHR ''s'' \<Longrightarrow> contents (invalidate_cache R i s) k = contents s k"
  by (auto simp: invalidate_cache_def del)

lemma invalidate_typed: "dl_typed (contents s) \<Longrightarrow> dl_typed (contents (invalidate_cache R i s))"
  by (simp add: invalidate_cache_def del dl_typed_other outside_dl_def)

lemma queue_display_frame:
  assumes "outside_dl k" "dl_typed (contents s)"
  shows "contents (fst (queue_display R E X C now i q d ph p t s)) k = contents s k"
proof -
  have "contents s' k = contents s k" if "enqueue R E now i a s = (s', r)" for a s' r
    using enqueue_frame [OF assms, of E now i a] that by simp
  then show ?thesis
    by (auto simp: queue_display_def split: option.split sum.split prod.split)
qed

lemma update_display_frame:
  assumes "outside_dl k" "dl_typed (contents s)"
  shows "contents (fst (fst (update_display R E X C now i q (s, db)))) k = contents s k"
proof -
  have "contents s' k = contents s k" if "queue_display R E X C now i q d ph p t s = (s', r)" for d ph p t s' r
    using queue_display_frame [OF assms, of E X C now i q d ph p t] that by simp
  then show ?thesis
    by (simp add: update_display_def Let_def split: option.split sum.split prod.split)
qed

lemma update_body_frame:
  assumes "outside_dl k" "hd k \<noteq> CHR ''s''" "dl_typed (contents s)"
  shows "contents (fst (fst (update_body R E X C now i q (s, db)))) k = contents s k"
proof -
  have "contents s' k = contents s k"
    if "update_display R E X C now i dq (invalidate_cache R j s, db2) = ((s', db'), b)" for s' dq j db2 db' b
    using update_display_frame [OF assms(1) invalidate_typed [OF assms(3)], of E X C now i dq j db2] that
      invalidate_frame [OF assms(2)] by simp
  then show ?thesis
    by (simp add: update_body_def Let_def invalidate_frame [OF assms(2)] split: option.split prod.split) blast
qed

end



section \<open>A failing audit insert\<close>

text \<open>
  The two statements are separate: when the insert into \<open>state_changes\<close> raises, the caller gets a
  failed result but the new state is stored and no change is recorded (\<open>DatabasePool.update_space_state\<close>
  does both in one transaction).
\<close>

lemma unrecorded_state_change:
  assumes "accepted q (sm_pdb db) = Some cur" "f_get_space X = None" "f_update X = None" "f_record X = Some e"
  shows "snd (update_body R E X C now i q (s, db)) = Inr (failed_update (Some cur) (uq_new_state q) e)
    \<and> sm_pdb (snd (fst (update_body R E X C now i q (s, db))))
        = set_state (uq_space_id q) (uq_new_state q) now (sm_pdb db)
    \<and> (\<exists>r\<in>set (db_spaces (sm_pdb (snd (fst (update_body R E X C now i q (s, db)))))).
          sp_id r = uq_space_id q \<and> sp_state r = uq_new_state q)
    \<and> db_state_changes (sm_pdb (snd (fst (update_body R E X C now i q (s, db)))))
        = db_state_changes (sm_pdb db)"
proof -
  obtain old where old: "get_space (sm_pdb db) (uq_space_id q) = Some old" "sp_state old = cur"
      "cur \<noteq> uq_new_state q" "is_valid_transition cur (uq_new_state q) (uq_source q)"
    using assms(1) by (auto simp: accepted_def split: option.splits if_splits)
  have pdb: "sm_pdb (snd (fst (update_body R E X C now i q (s, db))))
      = set_state (uq_space_id q) (uq_new_state q) now (sm_pdb db)"
    using assms by (simp add: update_body_pdb)
  have "\<exists>r\<in>set (db_spaces (set_state (uq_space_id q) (uq_new_state q) now (sm_pdb db))).
      sp_id r = uq_space_id q \<and> sp_state r = uq_new_state q"
    using get_space_Some [OF old(1)]
    by (auto simp: set_state_def sql_update_def intro!: bexI [where x = "old\<lparr>sp_state := uq_new_state q, sp_updated_at := now\<rparr>"])
  then show ?thesis
    unfolding pdb using old assms by (simp add: update_body_def set_state_def Let_def)
qed

section \<open>Availability\<close>

lemma blocks_overlaps:
  assumes "s < e" "rv_start_time r < rv_end_time r"
  shows "blocks s e r \<longleftrightarrow> overlaps (rv_start_time r) (rv_end_time r) s e"
  using assms by (auto simp: blocks_def overlaps_def)

text \<open>
  For proper periods the three-way test of \<open>check_availability\<close> is the overlap of
  half-open periods: a space is available exactly when no reservation with the status \<open>'active'\<close>
  of that space overlaps the requested period. Pending and confirmed reservations, which the
  API creates, are not looked at.
\<close>

theorem availability_is_no_active_overlap:
  assumes "start_time < end_time" "\<forall>r\<in>set (db_reservations db). rv_start_time r < rv_end_time r"
  shows "check_availability db space_id start_time end_time \<longleftrightarrow>
    (\<forall>r\<in>set (db_reservations db). rv_space_id r = space_id \<longrightarrow> rv_status r = ACTIVE \<longrightarrow>
       \<not> overlaps (rv_start_time r) (rv_end_time r) start_time end_time)"
proof -
  have "ReservationStatus_value st = ''active'' \<longleftrightarrow> st = ACTIVE" for st by (cases st) simp_all
  then show ?thesis
    using assms by (auto simp: check_availability_def sql_count_def filter_empty_conv blocks_overlaps)
qed

theorem availability_is_no_active_overlap_witness: "check_availability booked_db ''s1'' 120 180"
  using availability_is_no_active_overlap [of 120 180 booked_db "''s1''"]
  by (simp add: booked_db_def)

end
