(* ===== verification/Reservation_Api.thy ===== *)
theory Reservation_Api
  imports Database "HOL-Library.AList"
begin

text \<open>
  \<open>src/routers/reservations.py\<close>: creating reservations idempotently, cancelling, listing and reading
  them, with the constraints of the table deciding about overlaps.

  The handler decides by the text of the database's error, which is an argument; the locale
  \<open>pg_errors\<close> says what of that text the handler relies on. Other sessions work between the
  statements of one request: \<open>interference\<close> is what they do to the tables at each such point.
  Times are instants, metadata values are kept as text.
\<close>

section \<open>Requests and answers\<close>

record ReservationRequest =
  rq_id :: uuid
  rq_reserved_from :: instant
  rq_reserved_until :: instant
  rq_request_id :: "uuid option"
  rq_external_booking_id :: "string option"
  rq_external_system :: "string option"
  rq_reservation_type :: "string option"
  rq_grace_period_minutes :: "int option"
  rq_user_email :: "string option"
  rq_user_phone :: "string option"

record reservation_view =
  vw_reservation_id :: uuid
  vw_id :: uuid
  vw_reserved_from :: instant
  vw_reserved_until :: instant
  vw_status :: string
  vw_user_email :: "string option"
  vw_user_phone :: "string option"
  vw_metadata :: "(string \<times> string) list"
  vw_created_at :: instant
  vw_idempotent :: bool

record conflict =
  cf_reservation_id :: uuid
  cf_start_time :: instant
  cf_end_time :: instant
  cf_status :: string
  cf_user_email :: "string option"

datatype api_error =
    Http http_error
  | ReservationConflict uuid instant instant "conflict list"

definition view :: "bool \<Rightarrow> Reservation \<Rightarrow> reservation_view" where
  "view idempotent r =
     \<lparr>vw_reservation_id = rv_id r, vw_id = rv_space_id r, vw_reserved_from = rv_start_time r,
      vw_reserved_until = rv_end_time r, vw_status = ReservationStatus_value (rv_status r),
      vw_user_email = rv_user_email r, vw_user_phone = rv_user_phone r,
      vw_metadata = (case rv_metadata r of None \<Rightarrow> [] | Some m \<Rightarrow> m),
      vw_created_at = rv_created_at r, vw_idempotent = idempotent\<rparr>"

definition conflict_of :: "Reservation \<Rightarrow> conflict" where
  "conflict_of r =
     \<lparr>cf_reservation_id = rv_id r, cf_start_time = rv_start_time r, cf_end_time = rv_end_time r,
      cf_status = ReservationStatus_value (rv_status r), cf_user_email = rv_user_email r\<rparr>"

definition entry_if :: "string \<Rightarrow> string option \<Rightarrow> (string \<times> string) list" where
  "entry_if k v = (if truthy v then [(k, case v of None \<Rightarrow> [] | Some s \<Rightarrow> s)] else [])"

definition build_metadata :: "ReservationRequest \<Rightarrow> (string \<times> string) list option" where
  "build_metadata req =
     (let m = entry_if ''external_booking_id'' (rq_external_booking_id req)
            @ entry_if ''external_system'' (rq_external_system req)
            @ entry_if ''reservation_type'' (rq_reservation_type req)
            @ (case rq_grace_period_minutes req of
                 None \<Rightarrow> [] | Some n \<Rightarrow> [(''grace_period_minutes'', int_str n)])
      in if m = [] then None else Some m)"

section \<open>Creating\<close>

record interference =
  if_space :: "pdb \<Rightarrow> pdb"
  if_insert :: "pdb \<Rightarrow> pdb"
  if_after :: "pdb \<Rightarrow> pdb"

type_synonym pg_text = "pdb \<Rightarrow> ReservationRequest \<Rightarrow> db_error \<Rightarrow> string"

definition find_request :: "pdb \<Rightarrow> uuid \<Rightarrow> Reservation option" where
  "find_request db q = find (\<lambda>r. rv_request_id r = q) (db_reservations db)"

text \<open>The row of the insert; a space without tenant violates the NOT NULL column.\<close>

definition insert_request ::
  "pdb \<Rightarrow> uuid \<Rightarrow> uuid \<Rightarrow> instant \<Rightarrow> uuid option \<Rightarrow> ReservationRequest \<Rightarrow> db_error + pdb \<times> Reservation" where
  "insert_request db i q now tenant req =
     (case tenant of
        None \<Rightarrow> Inl (NotNullViolation ''tenant_id'')
      | Some t \<Rightarrow>
          (let row = \<lparr>rv_id = i, rv_space_id = rq_id req, rv_tenant_id = t, rv_request_id = q,
                      rv_start_time = rq_reserved_from req, rv_end_time = rq_reserved_until req,
                      rv_status = CONFIRMED, rv_user_email = rq_user_email req,
                      rv_user_phone = rq_user_phone req, rv_metadata = build_metadata req,
                      rv_created_at = now\<rparr>
           in case insert_reservation db row of Inl e \<Rightarrow> Inl e | Inr db' \<Rightarrow> Inr (db', row)))"

text \<open>The conflict query; \<open>tstzrange\<close> raises when the bounds are reversed and is empty when they are equal.\<close>

definition conflicting :: "pdb \<Rightarrow> ReservationRequest \<Rightarrow> db_error + Reservation list" where
  "conflicting db req =
     (if rq_reserved_from req > rq_reserved_until req
      then Inl (RaiseException ''range lower bound must be less than or equal to range upper bound'')
      else Inr (take 3 (sort_key rv_start_time
        (filter (\<lambda>r. rv_space_id r = rq_id req \<and> live_status (rv_status r)
                     \<and> rq_reserved_from req < rq_reserved_until req
                     \<and> overlaps (rv_start_time r) (rv_end_time r) (rq_reserved_from req) (rq_reserved_until req))
          (db_reservations db)))))"

definition failed_create :: "string \<Rightarrow> api_error" where
  "failed_create e = Http (HTTPException 500 (''Failed to create reservation: '' @ e))"

definition handle_db_error ::
  "pg_text \<Rightarrow> interference \<Rightarrow> uuid \<Rightarrow> ReservationRequest \<Rightarrow> db_error \<Rightarrow> pdb \<Rightarrow> pdb \<times> (api_error + reservation_view)" where
  "handle_db_error msg I q req e db =
     (let error_msg = lower (msg db req e);
          db' = if_after I db;
          existing = (if contains ''unique'' error_msg \<and> contains ''request_id'' error_msg
                      then find_request db' q else None)
      in case existing of
           Some r \<Rightarrow> (db', Inr (view True r))
         | None \<Rightarrow>
             if contains ''exclusion'' error_msg \<or> contains ''no_reservation_overlap'' error_msg
             then (case conflicting db' req of
                     Inl e2 \<Rightarrow> (db', Inl (failed_create (msg db' req e2)))
                   | Inr cs \<Rightarrow> (db', Inl (ReservationConflict (rq_id req) (rq_reserved_from req)
                                         (rq_reserved_until req) (map conflict_of cs))))
             else (db', Inl (failed_create (msg db req e))))"

definition create_reservation ::
  "pg_text \<Rightarrow> interference \<Rightarrow> uuid \<Rightarrow> uuid \<Rightarrow> instant \<Rightarrow> ReservationRequest \<Rightarrow> pdb
   \<Rightarrow> pdb \<times> (api_error + reservation_view)" where
  "create_reservation msg I new_id uuid4 now req db =
     (let q = (case rq_request_id req of None \<Rightarrow> uuid4 | Some q \<Rightarrow> q) in
      case find_request db q of
        Some r \<Rightarrow> (db, Inr (view True r))
      | None \<Rightarrow>
      (let db1 = if_space I db in
       case get_space db1 (rq_id req) of
         None \<Rightarrow> (db1, Inl (Http (HTTPException 404 (''Space with ID '' @ rq_id req @ '' not found''))))
       | Some space \<Rightarrow>
       (let db2 = if_insert I db1 in
        case insert_request db2 new_id q now (sp_tenant_id space) req of
          Inr (db3, row) \<Rightarrow> (db3, Inr (view False row))
        | Inl e \<Rightarrow> handle_db_error msg I q req e db2)))"

section \<open>Cancelling, listing, reading\<close>

record cancel_view =
  cv_reservation_id :: uuid
  cv_space_id :: uuid
  cv_status :: string

definition cancel_row :: "string option \<Rightarrow> Reservation \<Rightarrow> Reservation" where
  "cancel_row reason r =
     (if truthy reason
      then r\<lparr>rv_status := CANCELLED,
             rv_metadata := Some (AList.update ''cancellation_reason'' (case reason of None \<Rightarrow> [] | Some s \<Rightarrow> s)
                                    (case rv_metadata r of None \<Rightarrow> [] | Some m \<Rightarrow> m))\<rparr>
      else r\<lparr>rv_status := CANCELLED\<rparr>)"

definition cancel_reservation ::
  "uuid \<Rightarrow> string option \<Rightarrow> pdb \<Rightarrow> pdb \<times> (http_error + cancel_view)" where
  "cancel_reservation i reason db =
     (let hit = (\<lambda>r. rv_id r = i);
          db' = db\<lparr>db_reservations := sql_update hit (cancel_row reason) (db_reservations db)\<rparr>
      in case find hit (db_reservations db') of
           None \<Rightarrow> (db', Inl (HTTPException 404 (''Reservation '' @ i @ '' not found'')))
         | Some r \<Rightarrow> (db', Inr \<lparr>cv_reservation_id = rv_id r, cv_space_id = rv_space_id r,
                               cv_status = ReservationStatus_value (rv_status r)\<rparr>))"

text \<open>\<open>JOIN spaces s ON r.space_id = s.id\<close>, deleted spaces included.\<close>

definition with_space :: "pdb \<Rightarrow> Reservation \<Rightarrow> (Reservation \<times> space_row) list" where
  "with_space db r = map (Pair r) (filter (\<lambda>s. sp_id s = rv_space_id r) (db_spaces db))"

record listed =
  ls_view :: reservation_view
  ls_space_code :: string
  ls_space_name :: string
  ls_building :: "string option"
  ls_floor :: "string option"
  ls_zone :: "string option"
  ls_state :: SpaceState

definition list_reservations :: "TenantContext \<Rightarrow> string option \<Rightarrow> pdb \<Rightarrow> listed list" where
  "list_reservations tenant status_filter db =
     map (\<lambda>(r, s). \<lparr>ls_view = view False r, ls_space_code = sp_code s, ls_space_name = sp_name s,
                    ls_building = sp_building s, ls_floor = sp_floor s, ls_zone = sp_zone s,
                    ls_state = sp_state s\<rparr>)
       (sort_key (\<lambda>(r, s). - rv_start_time r)
         (concat (map (with_space db)
           (filter (\<lambda>r. rv_tenant_id r = tc_tenant_id tenant
                        \<and> text_filter status_filter (Some (ReservationStatus_value (rv_status r))))
             (db_reservations db)))))"

definition get_reservation_api ::
  "TenantContext \<Rightarrow> uuid \<Rightarrow> pdb \<Rightarrow> http_error + reservation_view \<times> string \<times> string" where
  "get_reservation_api tenant i db =
     (case concat (map (with_space db)
             (filter (\<lambda>r. rv_id r = i \<and> rv_tenant_id r = tc_tenant_id tenant) (db_reservations db))) of
        [] \<Rightarrow> Inl (HTTPException 404 (''Reservation '' @ i @ '' not found''))
      | (r, s) # _ \<Rightarrow> Inr (view False r, sp_name s, sp_code s))"

section \<open>Expiry in the database\<close>

text \<open>\<open>SET status = 'expired' WHERE status IN ('pending', 'confirmed') AND ..\<close>\<close>

definition expire_where :: "(Reservation \<Rightarrow> bool) \<Rightarrow> pdb \<Rightarrow> pdb" where
  "expire_where P db =
     db\<lparr>db_reservations := sql_update (\<lambda>r. live_status (rv_status r) \<and> P r) (\<lambda>r. r\<lparr>rv_status := EXPIRED\<rparr>)
                             (db_reservations db)\<rparr>"

text \<open>The SQL function of migration 005: the expired rows and their ids.\<close>

definition expire_old_reservations :: "instant \<Rightarrow> pdb \<Rightarrow> pdb \<times> uuid list" where
  "expire_old_reservations now db =
     (expire_where (\<lambda>r. rv_end_time r < now) db,
      map rv_id (filter (\<lambda>r. live_status (rv_status r) \<and> rv_end_time r < now) (db_reservations db)))"

section \<open>The reservation table\<close>

definition res_apart :: "Reservation \<Rightarrow> Reservation \<Rightarrow> bool" where
  "res_apart a b \<longleftrightarrow> \<not> excludes a b \<and> rv_request_id a \<noteq> rv_request_id b \<and> rv_id a \<noteq> rv_id b"

definition res_ok :: "pdb \<Rightarrow> bool" where
  "res_ok db \<longleftrightarrow> sorted_wrt res_apart (db_reservations db)
     \<and> (\<forall>r\<in>set (db_reservations db). rv_start_time r < rv_end_time r)"

lemma excludes_sym: "excludes a b \<longleftrightarrow> excludes b a"
  by (auto simp: excludes_def overlaps_def)

lemma res_apart_sym: "res_apart a b \<longleftrightarrow> res_apart b a"
  by (auto simp: res_apart_def excludes_sym)

text \<open>Changing rows without touching ids, request ids, times and spaces, and without reviving any.\<close>

lemma res_ok_update:
  assumes "res_ok db"
    and "\<And>r. rv_id (f r) = rv_id r \<and> rv_request_id (f r) = rv_request_id r \<and> rv_start_time (f r) = rv_start_time r
           \<and> rv_end_time (f r) = rv_end_time r \<and> rv_space_id (f r) = rv_space_id r
           \<and> (live_status (rv_status (f r)) \<longrightarrow> live_status (rv_status r))"
  shows "res_ok (db\<lparr>db_reservations := sql_update P f (db_reservations db)\<rparr>)"
proof -
  have "res_apart (if P a then f a else a) (if P b then f b else b)" if "res_apart a b" for a b
    using that assms(2) [of a] assms(2) [of b] by (auto simp: res_apart_def excludes_def)
  then have "sorted_wrt res_apart (sql_update P f (db_reservations db))"
    using assms(1) sorted_wrt_mono_rel
      [of "db_reservations db" res_apart "\<lambda>a b. res_apart (if P a then f a else a) (if P b then f b else b)"]
    by (simp add: sql_update_def sorted_wrt_map res_ok_def)
  moreover have "rv_start_time r < rv_end_time r" if "r \<in> set (sql_update P f (db_reservations db))" for r
    using that assms by (auto simp: sql_update_def res_ok_def)
  ultimately show ?thesis by (simp add: res_ok_def)
qed

lemma res_ok_insert:
  assumes "res_ok db" "insert_reservation db row = Inr db'"
  shows "res_ok db' \<and> db_reservations db' = db_reservations db @ [row]"
  using assms
  by (auto simp: insert_reservation_def res_ok_def sorted_wrt_append res_apart_def list_ex_iff excludes_sym
      split: if_splits)

lemma sorted_wrt_distinct_map:
  "sorted_wrt R xs \<Longrightarrow> (\<And>a b. R a b \<Longrightarrow> f a \<noteq> f b) \<Longrightarrow> distinct (map f xs)"
  by (induction xs) auto

lemma res_ok_requests: "res_ok db \<Longrightarrow> distinct (map rv_request_id (db_reservations db))"
  by (auto simp: res_ok_def res_apart_def intro: sorted_wrt_distinct_map)

text \<open>The statements of the platform that touch the table, one at a time.\<close>

inductive res_stmt :: "pdb \<Rightarrow> pdb \<Rightarrow> bool" where
  insert: "insert_reservation db row = Inr db' \<Longrightarrow> res_stmt db db'"
| cancel: "res_stmt db (fst (cancel_reservation i reason db))"
| pool_cancel: "pool_cancel_reservation db i = Inr (db', b) \<Longrightarrow> res_stmt db db'"
| expire: "res_stmt db (expire_where P db)"
| elsewhere: "db_reservations db' = db_reservations db \<Longrightarrow> res_stmt db db'"

lemma fst_cancel: "fst (cancel_reservation i reason db)
    = db\<lparr>db_reservations := sql_update (\<lambda>r. rv_id r = i) (cancel_row reason) (db_reservations db)\<rparr>"
  by (simp add: cancel_reservation_def Let_def split: option.split)

lemma cancel_row_simps [simp]:
  "rv_id (cancel_row w r) = rv_id r" "rv_request_id (cancel_row w r) = rv_request_id r"
  "rv_start_time (cancel_row w r) = rv_start_time r" "rv_end_time (cancel_row w r) = rv_end_time r"
  "rv_space_id (cancel_row w r) = rv_space_id r" "rv_status (cancel_row w r) = CANCELLED"
  by (simp_all add: cancel_row_def)

lemma res_stmt_ok: "res_stmt db db' \<Longrightarrow> res_ok db \<Longrightarrow> res_ok db'"
proof (induction rule: res_stmt.induct)
  case (insert db row db')
  then show ?case using res_ok_insert by blast
next
  case (cancel db i reason)
  then show ?case unfolding fst_cancel by (intro res_ok_update) (simp_all add: live_status_def)
next
  case (pool_cancel db i db' b)
  then show ?case
    by (auto simp: pool_cancel_reservation_def Let_def live_status_def split: if_splits intro!: res_ok_update)
next
  case (expire db P)
  then show ?case unfolding expire_where_def by (intro res_ok_update) (simp_all add: live_status_def)
next
  case (elsewhere db' db)
  then show ?case by (simp add: res_ok_def)
qed

lemma res_stmts_ok: "res_stmt\<^sup>*\<^sup>* db db' \<Longrightarrow> res_ok db \<Longrightarrow> res_ok db'"
  by (induction rule: rtranclp_induct) (auto dest: res_stmt_ok)

text \<open>A well-formed table has at most one live reservation of a space at any instant.\<close>

definition live_at :: "uuid \<Rightarrow> instant \<Rightarrow> pdb \<Rightarrow> Reservation list" where
  "live_at i t db = filter (\<lambda>r. rv_space_id r = i \<and> live_status (rv_status r)
                                \<and> rv_start_time r \<le> t \<and> t < rv_end_time r) (db_reservations db)"

lemma sorted_wrt_filter_le1:
  assumes "sorted_wrt R xs" "\<And>a b. P a \<Longrightarrow> P b \<Longrightarrow> \<not> R a b"
  shows "length (filter P xs) \<le> 1"
  using assms(1)
proof (induction xs)
  case (Cons x xs)
  then have "P x \<Longrightarrow> filter P xs = []" using assms(2) by (auto simp: filter_empty_conv)
  with Cons show ?case by auto
qed simp

lemma res_ok_live_at: "res_ok db \<Longrightarrow> length (live_at i t db) \<le> 1"
  unfolding live_at_def res_ok_def
  by (elim conjE, erule sorted_wrt_filter_le1) (auto simp: res_apart_def excludes_def overlaps_def)

section \<open>Error texts\<close>

text \<open>
  What the handler relies on: the text of a violated unique constraint names it, the text of a violated
  exclusion constraint says so.
\<close>

locale pg_errors =
  fixes msg :: pg_text
  assumes unique_request:
      "contains ''unique'' (lower (msg db req (UniqueViolation ''idx_reservations_request_id'')))"
      "contains ''request_id'' (lower (msg db req (UniqueViolation ''idx_reservations_request_id'')))"
    and exclusion: "contains ''exclusion'' (lower (msg db req (ExclusionViolation n)))"
begin

lemma duplicate_request_answered:
  assumes "find_request (if_after I db) q = Some r"
  shows "handle_db_error msg I q req (UniqueViolation ''idx_reservations_request_id'') db
    = (if_after I db, Inr (view True r))"
  using assms by (simp add: handle_db_error_def Let_def unique_request)

lemma exclusion_answered:
  assumes "find_request (if_after I db) q = None" "rq_reserved_from req \<le> rq_reserved_until req"
    and "conflicting (if_after I db) req = Inr cs"
  shows "handle_db_error msg I q req (ExclusionViolation n) db
    = (if_after I db, Inl (ReservationConflict (rq_id req) (rq_reserved_from req) (rq_reserved_until req)
         (map conflict_of cs)))"
  using assms by (simp add: handle_db_error_def Let_def exclusion)

end

text \<open>The texts PostgreSQL sends.\<close>

definition quoted :: "string \<Rightarrow> string" where
  "quoted n = CHR 0x22 # n @ [CHR 0x22]"

definition pg_message :: pg_text where
  "pg_message db req e =
     (case e of
        Parking x \<Rightarrow> pe_message x
      | UniqueViolation n \<Rightarrow> ''duplicate key value violates unique constraint '' @ quoted n
      | ExclusionViolation n \<Rightarrow> ''conflicting key value violates exclusion constraint '' @ quoted n
      | CheckViolation n \<Rightarrow> ''new row for relation reservations violates check constraint '' @ quoted n
      | NotNullViolation n \<Rightarrow>
          ''null value in column '' @ quoted n @ '' violates not-null constraint''
      | RaiseException m \<Rightarrow> m)"

lemma startswith_append: "startswith (p @ s) p"
  by (simp add: startswith_def)

lemma contains_append: "contains p (a @ p @ b)"
proof (induction a)
  case Nil
  then show ?case using startswith_append [of p b] by (cases "p @ b") auto
qed simp

lemma lower_append [simp]: "lower (a @ b) = lower a @ lower b"
  by (simp add: lower_def)

interpretation pg: pg_errors pg_message
proof unfold_locales
  fix db req n
  have "contains ''unique'' (lower (pg_message db req (UniqueViolation ''idx_reservations_request_id''))) =
      contains ''unique'' (lower (''duplicate key value violates unique constraint '' @ quoted ''idx_reservations_request_id''))"
    "contains ''request_id'' (lower (pg_message db req (UniqueViolation ''idx_reservations_request_id''))) =
      contains ''request_id'' (lower (''duplicate key value violates unique constraint '' @ quoted ''idx_reservations_request_id''))"
    by (simp_all only: pg_message_def db_error.case)
  moreover have "contains ''unique'' (lower (''duplicate key value violates unique constraint '' @ quoted ''idx_reservations_request_id''))"
    "contains ''request_id'' (lower (''duplicate key value violates unique constraint '' @ quoted ''idx_reservations_request_id''))"
    by code_simp+
  ultimately show "contains ''unique'' (lower (pg_message db req (UniqueViolation ''idx_reservations_request_id'')))"
    "contains ''request_id'' (lower (pg_message db req (UniqueViolation ''idx_reservations_request_id'')))"
    by simp_all
  have "lower ''conflicting key value violates exclusion constraint ''
      = ''conflicting key value violates '' @ ''exclusion'' @ '' constraint ''" by code_simp
  then show "contains ''exclusion'' (lower (pg_message db req (ExclusionViolation n)))"
    unfolding pg_message_def db_error.case lower_append
    by (simp only: append_assoc contains_append)
qed

section \<open>Properties\<close>

definition polite :: "interference \<Rightarrow> bool" where
  "polite I \<longleftrightarrow> (\<forall>db. res_stmt\<^sup>*\<^sup>* db (if_space I db) \<and> res_stmt\<^sup>*\<^sup>* db (if_insert I db) \<and> res_stmt\<^sup>*\<^sup>* db (if_after I db))"

definition request_key :: "ReservationRequest \<Rightarrow> uuid \<Rightarrow> uuid" where
  "request_key req uuid4 = (case rq_request_id req of None \<Rightarrow> uuid4 | Some q \<Rightarrow> q)"

lemma insert_requestD:
  assumes "insert_request db i q now t req = Inr (db', row)"
  shows "insert_reservation db row = Inr db'" "rv_request_id row = q"
  using assms by (auto simp: insert_request_def Let_def split: option.splits sum.splits)

lemma fst_handle: "fst (handle_db_error msg I q req e db) = if_after I db"
  by (simp add: handle_db_error_def Let_def split: option.split sum.split)

lemma create_stmts:
  assumes "polite I"
  shows "res_stmt\<^sup>*\<^sup>* db (fst (create_reservation msg I i u now req db))"
proof -
  have 1: "res_stmt\<^sup>*\<^sup>* db (if_space I db)" and 2: "res_stmt\<^sup>*\<^sup>* db (if_insert I (if_space I db))"
    and 3: "res_stmt\<^sup>*\<^sup>* db (if_after I (if_insert I (if_space I db)))"
    using assms unfolding polite_def by (meson rtranclp_trans)+
  have 4: "res_stmt\<^sup>*\<^sup>* db db'" if "insert_request (if_insert I (if_space I db)) i q now t req = Inr (db', row)"
    for q t db' row
    using insert_requestD(1) [OF that] res_stmt.insert 2 by (meson rtranclp.rtrancl_into_rtrancl)
  show ?thesis
    using 1 3 4 by (simp add: create_reservation_def Let_def fst_handle split: option.split sum.split prod.split)
qed

lemma res_stmt_keeps:
  assumes "res_stmt db db'" "r \<in> set (db_reservations db)"
  shows "\<exists>r'\<in>set (db_reservations db'). rv_id r' = rv_id r \<and> rv_request_id r' = rv_request_id r"
proof -
  have upd: "\<exists>r'\<in>set (sql_update P f (db_reservations db)). rv_id r' = rv_id r \<and> rv_request_id r' = rv_request_id r"
    if "\<And>x. rv_id (f x) = rv_id x \<and> rv_request_id (f x) = rv_request_id x" for P f
    using that assms(2) by (intro bexI [of _ "if P r then f r else r"]) (auto simp: sql_update_def)
  from assms show ?thesis
  proof (cases rule: res_stmt.cases)
    case (insert row)
    then show ?thesis using assms(2) by (auto simp: insert_reservation_def split: if_splits)
  next
    case (pool_cancel i b)
    then show ?thesis by (auto simp: pool_cancel_reservation_def Let_def split: if_splits intro!: upd)
  next
    case (elsewhere)
    then show ?thesis using assms(2) by auto
  qed (simp_all add: fst_cancel expire_where_def upd)
qed

lemma res_stmts_keep:
  assumes "res_stmt\<^sup>*\<^sup>* db db'" "r \<in> set (db_reservations db)"
  shows "\<exists>r'\<in>set (db_reservations db'). rv_id r' = rv_id r \<and> rv_request_id r' = rv_request_id r"
  using assms by (induction rule: rtranclp_induct) (metis res_stmt_keeps)+

lemma res_ok_same_request:
  "res_ok db \<Longrightarrow> a \<in> set (db_reservations db) \<Longrightarrow> b \<in> set (db_reservations db) \<Longrightarrow>
   rv_request_id a = rv_request_id b \<Longrightarrow> a = b"
  using res_ok_requests by (auto simp: distinct_map inj_on_def)

lemma find_request_Some:
  assumes "res_ok db" "r \<in> set (db_reservations db)" "rv_request_id r = q"
  shows "find_request db q = Some r"
  unfolding find_request_def
  using assms res_ok_same_request [OF assms(1)] by (intro find_unique) auto

lemma created_row:
  assumes "snd (create_reservation msg I i u now req db) = Inr v"
  shows "\<exists>r\<in>set (db_reservations (fst (create_reservation msg I i u now req db))).
    rv_id r = vw_reservation_id v \<and> rv_request_id r = request_key req u"
proof -
  have f: "r \<in> set (db_reservations db') \<and> rv_request_id r = q" if "find_request db' q = Some r" for db' q r
    using find_SomeD [OF that [unfolded find_request_def]] .
  have h: "\<exists>r\<in>set (db_reservations (if_after I db')). rv_id r = vw_reservation_id v \<and> rv_request_id r = q"
    if "snd (handle_db_error msg I q req e db') = Inr v" for db' q e
    using that f [of "if_after I db'" q]
    by (auto simp: handle_db_error_def Let_def view_def split: option.splits sum.splits if_splits)
  have n: "row \<in> set (db_reservations db') \<and> rv_request_id row = q"
    if "insert_request d i q now tn req = Inr (db', row)" for d q tn db' row
    using insert_requestD [OF that]
    by (auto simp: insert_reservation_def split: if_splits)
  show ?thesis
    using assms f h n
    by (auto simp: create_reservation_def Let_def request_key_def view_def fst_handle
        split: option.splits sum.splits prod.splits)
qed

text \<open>One step of the platform: a statement on the table, or a whole request with what interferes.\<close>

inductive api_step :: "pdb \<Rightarrow> pdb \<Rightarrow> bool" where
  statement: "res_stmt db db' \<Longrightarrow> api_step db db'"
| create: "polite I \<Longrightarrow> api_step db (fst (create_reservation msg I i u now req db))"

lemma api_steps_ok: "api_step\<^sup>*\<^sup>* db0 db \<Longrightarrow> res_ok db0 \<Longrightarrow> res_ok db"
  by (induction rule: rtranclp_induct)
     (auto elim!: api_step.cases dest: res_stmt_ok intro: res_stmts_ok create_stmts)

text \<open>
  Property C5. No double booking: whatever the API, the background jobs and concurrent requests
  do to the table, statement by statement and in any order, at every instant at most one pending
  or confirmed reservation covers a space, and no two reservations have the same request id.
\<close>

theorem reservations_never_overlap:
  assumes "res_ok db0" "api_step\<^sup>*\<^sup>* db0 db"
  shows "length (live_at sid t db) \<le> 1 \<and> distinct (map rv_request_id (db_reservations db))"
  using api_steps_ok [OF assms(2,1)] res_ok_live_at res_ok_requests by blast

definition quiet :: interference where
  "quiet = \<lparr>if_space = id, if_insert = id, if_after = id\<rparr>"

lemma quiet_polite: "polite quiet"
  by (simp add: polite_def quiet_def)

definition tenant_db :: pdb where
  "tenant_db = demo_db\<lparr>db_spaces := map (\<lambda>r. r\<lparr>sp_tenant_id := Some ''t''\<rparr>) (db_spaces demo_db)\<rparr>"

definition demo_request :: "string \<Rightarrow> instant \<Rightarrow> ReservationRequest" where
  "demo_request q s = \<lparr>rq_id = ''s1'', rq_reserved_from = s, rq_reserved_until = s + 100, rq_request_id = Some q,
     rq_external_booking_id = None, rq_external_system = None, rq_reservation_type = None,
     rq_grace_period_minutes = Some 15, rq_user_email = None, rq_user_phone = None\<rparr>"

lemma tenant_db_simps [simp]:
  "db_reservations tenant_db = []" "db_reservations (tenant_db\<lparr>db_reservations := rs\<rparr>) = rs"
  by (simp_all add: tenant_db_def demo_db_def empty_db_def)

lemma tenant_space: "\<exists>sp. get_space (tenant_db\<lparr>db_reservations := rs\<rparr>) ''s1'' = Some sp \<and> sp_tenant_id sp = Some ''t''"
  by (simp add: get_space_def tenant_db_def demo_db_def new_space_row_def enforce_eui_uppercase_def alive_def)

definition demo_booking :: "string \<Rightarrow> string \<Rightarrow> instant \<Rightarrow> Reservation" where
  "demo_booking i q s = \<lparr>rv_id = i, rv_space_id = ''s1'', rv_tenant_id = ''t'', rv_request_id = q, rv_start_time = s,
     rv_end_time = s + 100, rv_status = CONFIRMED, rv_user_email = None, rv_user_phone = None,
     rv_metadata = Some [(''grace_period_minutes'', int_str 15)], rv_created_at = 5\<rparr>"

lemma demo_insert:
  "list_all (\<lambda>r. rv_id r \<noteq> i \<and> rv_request_id r \<noteq> q \<and> \<not> excludes (demo_booking i q s) r) rs \<Longrightarrow>
   insert_request (tenant_db\<lparr>db_reservations := rs\<rparr>) i q 5 (Some ''t'') (demo_request q s)
     = Inr (tenant_db\<lparr>db_reservations := rs @ [demo_booking i q s]\<rparr>, demo_booking i q s)"
  by (auto simp: insert_request_def insert_reservation_def demo_request_def demo_booking_def build_metadata_def
      entry_if_def Let_def list_ex_iff list_all_iff)

lemma demo_create:
  assumes "list_all (\<lambda>r. rv_id r \<noteq> i \<and> rv_request_id r \<noteq> q \<and> \<not> excludes (demo_booking i q s) r) rs"
  shows "create_reservation pg_message quiet i u 5 (demo_request q s) (tenant_db\<lparr>db_reservations := rs\<rparr>)
    = (tenant_db\<lparr>db_reservations := rs @ [demo_booking i q s]\<rparr>, Inr (view False (demo_booking i q s)))"
proof -
  have "find_request (tenant_db\<lparr>db_reservations := rs\<rparr>) q = None"
    using assms by (auto simp: find_request_def find_None_iff list_all_iff)
  moreover obtain sp where "get_space (tenant_db\<lparr>db_reservations := rs\<rparr>) ''s1'' = Some sp" "sp_tenant_id sp = Some ''t''"
    using tenant_space by blast
  moreover have "rq_request_id (demo_request q s) = Some q" "rq_id (demo_request q s) = ''s1''"
    by (simp_all add: demo_request_def)
  ultimately show ?thesis using demo_insert [OF assms] by (simp add: create_reservation_def quiet_def Let_def)
qed

theorem reservations_never_overlap_witness:
  "length (live_at ''s1'' 50 (fst (create_reservation pg_message quiet ''r2'' ''u'' 5 (demo_request ''q2'' 100)
     (fst (create_reservation pg_message quiet ''r1'' ''u'' 5 (demo_request ''q1'' 0) (tenant_db\<lparr>db_reservations := []\<rparr>)))))) = 1"
proof -
  let ?a = "demo_booking ''r1'' ''q1'' 0" and ?b = "demo_booking ''r2'' ''q2'' 100"
  have 1: "fst (create_reservation pg_message quiet ''r1'' ''u'' 5 (demo_request ''q1'' 0) (tenant_db\<lparr>db_reservations := []\<rparr>))
      = tenant_db\<lparr>db_reservations := [?a]\<rparr>"
    using demo_create [of "''r1''" "''q1''" 0 "[]"] by simp
  have 2: "fst (create_reservation pg_message quiet ''r2'' ''u'' 5 (demo_request ''q2'' 100) (tenant_db\<lparr>db_reservations := [?a]\<rparr>))
      = tenant_db\<lparr>db_reservations := [?a, ?b]\<rparr>"
    using demo_create [of "''r2''" "''q2''" 100 "[?a]"] by (simp add: demo_booking_def excludes_def overlaps_def)
  have s1: "api_step (tenant_db\<lparr>db_reservations := []\<rparr>) (tenant_db\<lparr>db_reservations := [?a]\<rparr>)"
    unfolding 1 [symmetric] by (rule api_step.create [OF quiet_polite])
  have s2: "api_step (tenant_db\<lparr>db_reservations := [?a]\<rparr>) (tenant_db\<lparr>db_reservations := [?a, ?b]\<rparr>)"
    unfolding 2 [symmetric] by (rule api_step.create [OF quiet_polite])
  have run: "api_step\<^sup>*\<^sup>* (tenant_db\<lparr>db_reservations := []\<rparr>) (tenant_db\<lparr>db_reservations := [?a, ?b]\<rparr>)"
    using s1 s2 by (meson converse_rtranclp_into_rtranclp r_into_rtranclp)
  have "res_ok (tenant_db\<lparr>db_reservations := []\<rparr>)" by (simp add: res_ok_def)
  from reservations_never_overlap [OF this run]
  have "length (live_at ''s1'' 50 (tenant_db\<lparr>db_reservations := [?a, ?b]\<rparr>)) \<le> 1" by blast
  moreover have "?a \<in> set (live_at ''s1'' 50 (tenant_db\<lparr>db_reservations := [?a, ?b]\<rparr>))"
    by (simp add: live_at_def demo_booking_def live_status_def)
  then have "0 < length (live_at ''s1'' 50 (tenant_db\<lparr>db_reservations := [?a, ?b]\<rparr>))" by (rule length_pos_if_in_set)
  ultimately show ?thesis unfolding 1 2 by linarith
qed

text \<open>
  Property C21. Retries are idempotent: once a request with a request id has been answered with a
  reservation, every later request with that id, whatever it asks for and whatever the platform
  did in between, is answered with the same reservation, marked as a repetition, and leaves the
  tables as they are.
\<close>

theorem retry_returns_same_reservation:
  assumes "res_ok db" "polite I" "rq_request_id req = Some q"
    and "create_reservation msg I i u now req db = (db1, Inr v)"
    and "api_step\<^sup>*\<^sup>* db1 db2" "rq_request_id req' = Some q"
  shows "\<exists>v'. create_reservation msg' I' i' u' now' req' db2 = (db2, Inr v')
    \<and> vw_reservation_id v' = vw_reservation_id v \<and> vw_idempotent v'"
proof -
  have key: "request_key req u = q" using assms(3) by (simp add: request_key_def)
  obtain r where r: "r \<in> set (db_reservations db1)" "rv_id r = vw_reservation_id v" "rv_request_id r = q"
    using created_row [of msg I i u now req db v] assms(4) key by auto
  have "res_ok db1" using create_stmts [OF assms(2), of db msg i u now req] assms(1,4) res_stmts_ok by simp
  then have ok2: "res_ok db2" by (rule api_steps_ok [OF assms(5)])
  have "res_stmt\<^sup>*\<^sup>* db1 db2" using assms(5)
    by (induction rule: rtranclp_induct) (auto elim!: api_step.cases dest: create_stmts intro: rtranclp_trans)
  from res_stmts_keep [OF this r(1)] obtain r' where
    r': "r' \<in> set (db_reservations db2)" "rv_id r' = rv_id r" "rv_request_id r' = q" using r(3) by auto
  have "find_request db2 q = Some r'" by (rule find_request_Some [OF ok2 r'(1,3)])
  then show ?thesis using assms(6) r' r(2) by (simp add: create_reservation_def view_def)
qed

theorem retry_returns_same_reservation_witness:
  "\<exists>v'. create_reservation pg_message quiet ''r2'' ''u'' 9 (demo_request ''q1'' 500)
       (tenant_db\<lparr>db_reservations := [demo_booking ''r1'' ''q1'' 0]\<rparr>)
     = (tenant_db\<lparr>db_reservations := [demo_booking ''r1'' ''q1'' 0]\<rparr>, Inr v') \<and> vw_reservation_id v' = ''r1''"
proof -
  have ok: "res_ok (tenant_db\<lparr>db_reservations := []\<rparr>)" by (simp add: res_ok_def)
  have rq: "rq_request_id (demo_request ''q1'' s) = Some ''q1''" for s by (simp add: demo_request_def)
  have c: "create_reservation pg_message quiet ''r1'' ''u'' 5 (demo_request ''q1'' 0) (tenant_db\<lparr>db_reservations := []\<rparr>)
      = (tenant_db\<lparr>db_reservations := [demo_booking ''r1'' ''q1'' 0]\<rparr>, Inr (view False (demo_booking ''r1'' ''q1'' 0)))"
    using demo_create [of "''r1''" "''q1''" 0 "[]"] by simp
  from retry_returns_same_reservation [OF ok quiet_polite rq c rtranclp.rtrancl_refl rq,
      of pg_message quiet "''r2''" "''u''" 9 500]
  show ?thesis by (auto simp: view_def demo_booking_def)
qed

text \<open>
  Two requests with the same new request id race: the one that inserts second is
  refused by the unique index and answered with the reservation of the other, and inserts nothing.
\<close>

theorem racing_request_answered:
  assumes "pg_errors msg" "polite I" "rq_request_id req = Some q" "find_request db q = None"
    and "get_space (if_space I db) (rq_id req) = Some sp" "sp_tenant_id sp = Some t"
    and "rq_reserved_from req < rq_reserved_until req" "rq_reserved_until req - rq_reserved_from req \<le> 86400"
    and "res_ok (if_insert I (if_space I db))"
    and "r \<in> set (db_reservations (if_insert I (if_space I db)))" "rv_request_id r = q"
    and "\<forall>x\<in>set (db_reservations (if_insert I (if_space I db))). rv_id x \<noteq> i"
  shows "\<exists>v. create_reservation msg I i u now req db = (if_after I (if_insert I (if_space I db)), Inr v)
    \<and> vw_reservation_id v = rv_id r \<and> vw_idempotent v"
proof -
  let ?db2 = "if_insert I (if_space I db)"
  have after: "res_stmt\<^sup>*\<^sup>* ?db2 (if_after I ?db2)" using assms(2) by (simp add: polite_def)
  obtain r' where r': "r' \<in> set (db_reservations (if_after I ?db2))" "rv_id r' = rv_id r" "rv_request_id r' = q"
    using res_stmts_keep [OF after assms(10)] assms(11) by auto
  have found: "find_request (if_after I ?db2) q = Some r'"
    by (rule find_request_Some [OF res_stmts_ok [OF after assms(9)] r'(1,3)])
  have "insert_request ?db2 i q now (Some t) req = Inl (UniqueViolation ''idx_reservations_request_id'')"
    using assms(7,8,10,11,12) by (auto simp: insert_request_def insert_reservation_def Let_def list_ex_iff)
  then have "create_reservation msg I i u now req db = (if_after I ?db2, Inr (view True r'))"
    using pg_errors.duplicate_request_answered [OF assms(1) found] assms(3-6)
    by (simp add: create_reservation_def Let_def)
  then show ?thesis using r' by (simp add: view_def)
qed

definition racing :: interference where
  "racing = quiet\<lparr>if_insert := \<lambda>db.
     (case insert_reservation db (demo_booking ''r1'' ''q1'' 0) of Inl _ \<Rightarrow> db | Inr db' \<Rightarrow> db')\<rparr>"

lemma racing_polite: "polite racing"
  by (auto simp: polite_def racing_def quiet_def split: sum.split intro: res_stmt.insert)

theorem racing_request_answered_witness:
  "\<exists>v. snd (create_reservation pg_message racing ''r2'' ''u'' 5 (demo_request ''q1'' 0) (tenant_db\<lparr>db_reservations := []\<rparr>))
      = Inr v \<and> vw_reservation_id v = ''r1''"
proof -
  let ?db = "tenant_db\<lparr>db_reservations := []\<rparr>" and ?b = "demo_booking ''r1'' ''q1'' 0"
  obtain sp where sp: "get_space ?db ''s1'' = Some sp" "sp_tenant_id sp = Some ''t''" using tenant_space by blast
  have ins: "insert_reservation ?db ?b = Inr (tenant_db\<lparr>db_reservations := [?b]\<rparr>)"
    by (simp add: insert_reservation_def demo_booking_def)
  then have one: "if_space racing ?db = ?db" and two: "if_insert racing ?db = tenant_db\<lparr>db_reservations := [?b]\<rparr>"
    by (simp_all add: racing_def quiet_def)
  have b: "rv_id ?b = ''r1''" "rv_request_id ?b = ''q1''" by (simp_all add: demo_booking_def)
  have ok: "res_ok (tenant_db\<lparr>db_reservations := [?b]\<rparr>)" by (simp add: res_ok_def demo_booking_def)
  have "\<exists>v. create_reservation pg_message racing ''r2'' ''u'' 5 (demo_request ''q1'' 0) ?db
      = (if_after racing (if_insert racing (if_space racing ?db)), Inr v)
    \<and> vw_reservation_id v = rv_id ?b \<and> vw_idempotent v"
    by (rule racing_request_answered [OF pg.pg_errors_axioms racing_polite, where q = "''q1''" and sp = sp and t = "''t''"])
       (use sp ok in \<open>simp_all add: one two b demo_request_def find_request_def\<close>)
  then show ?thesis by (auto simp: b)
qed

text \<open>
  Property C22. An overlapping request is refused with 409 and names what it conflicts with: when the
  period is proper, the request id is new and a pending or confirmed reservation of the space overlaps,
  the table is unchanged and the answer lists at least one and at most three reservations, all of them
  live, of that space and overlapping the requested period.
\<close>

theorem overlap_refused_with_conflicts:
  assumes "pg_errors msg" "rq_request_id req = Some q" "find_request db q = None"
    and "get_space db (rq_id req) = Some sp" "sp_tenant_id sp = Some t"
    and "rq_reserved_from req < rq_reserved_until req" "rq_reserved_until req - rq_reserved_from req \<le> 86400"
    and "\<forall>x\<in>set (db_reservations db). rv_id x \<noteq> i"
    and "r \<in> set (db_reservations db)" "rv_space_id r = rq_id req" "live_status (rv_status r)"
    and "overlaps (rv_start_time r) (rv_end_time r) (rq_reserved_from req) (rq_reserved_until req)"
  shows "\<exists>rs. create_reservation msg quiet i u now req db
      = (db, Inl (ReservationConflict (rq_id req) (rq_reserved_from req) (rq_reserved_until req) (map conflict_of rs)))
    \<and> rs \<noteq> [] \<and> length rs \<le> 3
    \<and> (\<forall>x\<in>set rs. x \<in> set (db_reservations db) \<and> rv_space_id x = rq_id req \<and> live_status (rv_status x)
          \<and> overlaps (rv_start_time x) (rv_end_time x) (rq_reserved_from req) (rq_reserved_until req))"
proof -
  let ?P = "\<lambda>x. rv_space_id x = rq_id req \<and> live_status (rv_status x) \<and> rq_reserved_from req < rq_reserved_until req
    \<and> overlaps (rv_start_time x) (rv_end_time x) (rq_reserved_from req) (rq_reserved_until req)"
  let ?rs = "take 3 (sort_key rv_start_time (filter ?P (db_reservations db)))"
  have cs: "conflicting db req = Inr ?rs" using assms(6) by (simp add: conflicting_def)
  have mem: "x \<in> set (db_reservations db) \<and> ?P x" if "x \<in> set ?rs" for x
    using that in_set_takeD [of x 3 "sort_key rv_start_time (filter ?P (db_reservations db))"] by simp
  have "r \<in> set (sort_key rv_start_time (filter ?P (db_reservations db)))" using assms(6,9-12) by simp
  then have "sort_key rv_start_time (filter ?P (db_reservations db)) \<noteq> []" by (auto simp only: list.set)
  then have ne: "?rs \<noteq> []" by simp
  have noq: "\<forall>x\<in>set (db_reservations db). rv_request_id x \<noteq> q"
    using assms(3) by (auto simp: find_request_def find_None_iff)
  have ins: "insert_request db i q now (Some t) req = Inl (ExclusionViolation ''uq_reservations_no_overlap'')"
    using assms(6-12) noq
    by (auto simp: insert_request_def insert_reservation_def Let_def list_ex_iff excludes_def live_status_def overlaps_def)
  have qt: "if_space quiet = id" "if_insert quiet = id" "if_after quiet = id" by (simp_all add: quiet_def)
  have le: "rq_reserved_from req \<le> rq_reserved_until req" using assms(6) by simp
  have "handle_db_error msg quiet q req (ExclusionViolation ''uq_reservations_no_overlap'') db
      = (db, Inl (ReservationConflict (rq_id req) (rq_reserved_from req) (rq_reserved_until req) (map conflict_of ?rs)))"
    using pg_errors.exclusion_answered [where msg = msg and I = quiet and cs = ?rs, unfolded qt id_apply,
        OF assms(1) assms(3) le cs] .
  then have "create_reservation msg quiet i u now req db
      = (db, Inl (ReservationConflict (rq_id req) (rq_reserved_from req) (rq_reserved_until req) (map conflict_of ?rs)))"
    unfolding create_reservation_def Let_def qt id_apply assms(2-5) option.case ins sum.case .
  moreover have "length ?rs \<le> 3" by simp
  ultimately show ?thesis using ne mem by blast
qed

theorem overlap_refused_with_conflicts_witness:
  "\<exists>rs. create_reservation pg_message quiet ''r2'' ''u'' 5 (demo_request ''q2'' 50)
      (tenant_db\<lparr>db_reservations := [demo_booking ''r1'' ''q1'' 0]\<rparr>)
    = (tenant_db\<lparr>db_reservations := [demo_booking ''r1'' ''q1'' 0]\<rparr>, Inl (ReservationConflict ''s1'' 50 150 (map conflict_of rs)))
    \<and> rs \<noteq> []"
proof -
  let ?db = "tenant_db\<lparr>db_reservations := [demo_booking ''r1'' ''q1'' 0]\<rparr>"
  obtain sp where sp: "get_space ?db ''s1'' = Some sp" "sp_tenant_id sp = Some ''t''" using tenant_space by blast
  have rq: "rq_id (demo_request ''q2'' 50) = ''s1''" "rq_reserved_from (demo_request ''q2'' 50) = 50"
    "rq_reserved_until (demo_request ''q2'' 50) = 150" "rq_request_id (demo_request ''q2'' 50) = Some ''q2''"
    by (simp_all add: demo_request_def)
  show ?thesis
    using overlap_refused_with_conflicts [of pg_message "demo_request ''q2'' 50" "''q2''" ?db sp "''t''" "''r2''"
        "demo_booking ''r1'' ''q1'' 0" "''u''" 5, OF pg.pg_errors_axioms] sp rq
    by (auto simp: find_request_def demo_booking_def live_status_def overlaps_def)
qed

end
