(* ===== verification/Background_Tasks.thy ===== *)
theory Background_Tasks
  imports State_Manager Reservation_Api
begin

text \<open>
  \<open>src/background_tasks.py\<close>: the scheduled starts and ends of reservations and the bodies of the
  periodic loops (expiry, cleanup, display reconciliation, flushing of stuck device queues).

  A loop is given by what one round does; waiting between rounds and cancellation are left to the
  event loop. The state manager is an argument \<open>upd\<close>, its operation \<open>update_space_state\<close>; the locale
  \<open>space_updates\<close> says what of it the rounds rely on, and is interpreted on the model of the state
  manager.
\<close>

section \<open>Scheduled tasks\<close>

record ScheduledTask =
  tk_task_id :: string
  tk_reservation_id :: string
  tk_space_id :: string
  tk_action :: string
  tk_scheduled_time :: datetime
  tk_delay :: rat

type_synonym tasks = "(string \<times> ScheduledTask) list"

text \<open>The fields of \<open>Reservation\<close> the scheduler reads, with times as Python objects.\<close>

record booking =
  bk_id :: string
  bk_space_id :: string
  bk_start_time :: datetime
  bk_end_time :: datetime

definition task_id :: "string \<Rightarrow> string \<Rightarrow> string" where
  "task_id i action = ''res_'' @ i @ ''_'' @ action"

text \<open>
  One half of \<open>schedule_reservation\<close>: \<open>if t > now\<close> a task is stored under its id. The comparison
  raises for an offset-aware \<open>t\<close>, since \<open>now\<close> is \<open>datetime.utcnow()\<close>.
\<close>

definition schedule_at :: "instant \<Rightarrow> string \<Rightarrow> datetime \<Rightarrow> booking \<Rightarrow> tasks \<Rightarrow> tasks result" where
  "schedule_at now action t r tasks =
     (case dt_gt t (Naive now) of
        Inl e \<Rightarrow> Inl e
      | Inr later \<Rightarrow>
          if \<not> later then Inr tasks
          else case dt_sub t (Naive now) of
                 Inl e \<Rightarrow> Inl e
               | Inr delay \<Rightarrow>
                   Inr (AList.update (task_id (bk_id r) action)
                     \<lparr>tk_task_id = task_id (bk_id r) action, tk_reservation_id = bk_id r,
                      tk_space_id = bk_space_id r, tk_action = action, tk_scheduled_time = t,
                      tk_delay = delay\<rparr> tasks))"

definition schedule_reservation :: "instant \<Rightarrow> booking \<Rightarrow> tasks \<Rightarrow> tasks" where
  "schedule_reservation now r tasks =
     (case schedule_at now ''start'' (bk_start_time r) r tasks of
        Inl _ \<Rightarrow> tasks
      | Inr tasks1 \<Rightarrow>
          (case schedule_at now ''end'' (bk_end_time r) r tasks1 of
             Inl _ \<Rightarrow> tasks1
           | Inr tasks2 \<Rightarrow> tasks2))"

definition cancel_reservation_tasks :: "string \<Rightarrow> tasks \<Rightarrow> tasks" where
  "cancel_reservation_tasks i tasks = filter (\<lambda>(k, t). tk_reservation_id t \<noteq> i) tasks"

text \<open>
  Loading at start-up. The columns are TIMESTAMPTZ, which the driver returns offset-aware;
  \<open>valid_row\<close> is whether the row passes the validation of the model class, and a row that does
  not ends the loading.
\<close>

definition booking_of :: "Reservation \<Rightarrow> booking" where
  "booking_of r = \<lparr>bk_id = rv_id r, bk_space_id = rv_space_id r, bk_start_time = Aware (rv_start_time r),
                   bk_end_time = Aware (rv_end_time r)\<rparr>"

definition load_active_reservations ::
  "(Reservation \<Rightarrow> bool) \<Rightarrow> instant \<Rightarrow> pdb \<Rightarrow> tasks \<Rightarrow> tasks" where
  "load_active_reservations valid_row now db tasks =
     fold (\<lambda>r. schedule_reservation now (booking_of r))
       (takeWhile valid_row
         (sort_key rv_start_time
           (filter (\<lambda>r. live_status (rv_status r) \<and> rv_end_time r > now) (db_reservations db)))) tasks"

section \<open>What the tasks do\<close>

type_synonym 'r updater = "update_req \<Rightarrow> 'r \<times> sm_db \<Rightarrow> ('r \<times> sm_db) \<times> (ParkingException + StateUpdateResult)"

definition on_pdb :: "(pdb \<Rightarrow> pdb) \<Rightarrow> 'r \<times> sm_db \<Rightarrow> 'r \<times> sm_db" where
  "on_pdb f sdb = (fst sdb, (snd sdb)\<lparr>sm_pdb := f (sm_pdb (snd sdb))\<rparr>)"

text \<open>An exception ends the task; its entry then stays in the table.\<close>

definition reservation_start_task ::
  "'r updater \<Rightarrow> string \<Rightarrow> string \<Rightarrow> ('r \<times> sm_db) \<times> tasks \<Rightarrow> ('r \<times> sm_db) \<times> tasks" where
  "reservation_start_task upd i space_id w =
     (case w of (sdb, tasks) \<Rightarrow>
      case upd \<lparr>uq_space_id = space_id, uq_new_state = RESERVED, uq_source = ''reservation_start'',
                uq_request_id = ''bg_task_'' @ i\<rparr> sdb of
        (sdb, Inl _) \<Rightarrow> (sdb, tasks)
      | (sdb, Inr _) \<Rightarrow> (sdb, AList.delete (task_id i ''start'') tasks))"

definition reservation_end_task ::
  "'r updater \<Rightarrow> string \<Rightarrow> string \<Rightarrow> ('r \<times> sm_db) \<times> tasks \<Rightarrow> ('r \<times> sm_db) \<times> tasks" where
  "reservation_end_task upd i space_id w =
     (case w of (sdb, tasks) \<Rightarrow>
      case upd \<lparr>uq_space_id = space_id, uq_new_state = FREE, uq_source = ''reservation_end'',
                uq_request_id = ''bg_task_'' @ i\<rparr> sdb of
        (sdb, Inl _) \<Rightarrow> (sdb, tasks)
      | (sdb, Inr _) \<Rightarrow>
          (on_pdb (expire_where (\<lambda>r. rv_id r = i)) sdb, AList.delete (task_id i ''end'') tasks))"

section \<open>Expiry\<close>

definition free_after_expiry :: "'r updater \<Rightarrow> uuid \<Rightarrow> 'r \<times> sm_db \<Rightarrow> 'r \<times> sm_db" where
  "free_after_expiry upd i sdb =
     (case find (\<lambda>r. rv_id r = i) (db_reservations (sm_pdb (snd sdb))) of
        None \<Rightarrow> sdb
      | Some r \<Rightarrow>
          fst (upd \<lparr>uq_space_id = rv_space_id r, uq_new_state = FREE, uq_source = ''reservation_expired'',
                    uq_request_id = ''expiry_'' @ i\<rparr> sdb))"

definition expiry_round :: "'r updater \<Rightarrow> instant \<Rightarrow> 'r \<times> sm_db \<Rightarrow> 'r \<times> sm_db" where
  "expiry_round upd now sdb =
     (case expire_old_reservations now (sm_pdb (snd sdb)) of
        (db', ids) \<Rightarrow> fold (free_after_expiry upd) ids (on_pdb (\<lambda>_. db') sdb))"

section \<open>Cleanup\<close>

definition cleanup_round :: "instant \<Rightarrow> pdb \<Rightarrow> pdb" where
  "cleanup_round now db =
     db\<lparr>db_sensor_readings := sql_delete (\<lambda>r. rd_timestamp r < now - 30 * 86400) (db_sensor_readings db),
        db_state_changes := sql_delete (\<lambda>c. sc_timestamp c < now - 90 * 86400) (db_state_changes db)\<rparr>"

definition stuck_spaces :: "instant \<Rightarrow> pdb \<Rightarrow> space_row list" where
  "stuck_spaces now db =
     filter (\<lambda>r. sp_state r = OCCUPIED \<and> sp_updated_at r < now - 86400 \<and> alive r) (db_spaces db)"

section \<open>Stuck device queues\<close>

text \<open>
  With offline gateways, every device with an old pending downlink is flushed; a failing flush is
  logged and the next device follows. \<open>flush\<close> is the call to ChirpStack on its state \<open>'c\<close>.
\<close>

definition queue_cleanup_round :: "('c \<Rightarrow> string \<Rightarrow> 'c) \<Rightarrow> nat \<Rightarrow> string list \<Rightarrow> 'c \<Rightarrow> 'c" where
  "queue_cleanup_round flush offline_count stuck_devices c =
     (if offline_count = 0 then c else fold (\<lambda>d c. flush c d) stuck_devices c)"

section \<open>Display reconciliation\<close>

datatype verdict = InSync | Corrected | Polled | Skipped | Failed

text \<open>The RGB triple a display code stands for: three list accesses, which may raise.\<close>

definition expected_rgb :: "byte list \<Rightarrow> int list option" where
  "expected_rgb bs = (if length bs < 3 then None else Some (map uint (take 3 bs)))"

definition last_known_key :: "string \<Rightarrow> string" where
  "last_known_key display_eui = ''device:'' @ display_eui @ '':last_kuando_uplink''"

text \<open>\<open>json_rgb\<close> reads the entry \<open>rgb\<close> of a stored JSON text, raising when it is none.\<close>

definition reconcile_space ::
  "'r redis_ops \<Rightarrow> dl_env \<Rightarrow> sm_faults \<Rightarrow> sm_clients \<Rightarrow> (string \<Rightarrow> int list result) \<Rightarrow> pyfloat \<Rightarrow> string
   \<Rightarrow> space_row \<Rightarrow> display_row \<Rightarrow> 'r \<times> sm_db \<Rightarrow> ('r \<times> sm_db) \<times> verdict" where
  "reconcile_space R E X C json_rgb now cmd_id space display sdb =
     (let eui = str_field (sp_display_eui space);
          st = sp_state space;
          req = (\<lambda>src. \<lparr>dq_space_id = sp_id space, dq_display_eui = eui, dq_previous = st, dq_new = st,
                       dq_trigger_type = ''system_cleanup'', dq_trigger_source = src\<rparr>);
          last_known = rget R (fst sdb) (last_known_key eui)
      in if truthy last_known then
           (case json_rgb (str_field last_known) of
              Inl _ \<Rightarrow> (sdb, Failed)
            | Inr last_rgb \<Rightarrow>
                (let code = map_of (dd_display_codes display) (SpaceState_value st) in
                 if \<not> truthy code then (sdb, Skipped)
                 else case bytes_fromhex (str_field code) of
                        None \<Rightarrow> (sdb, Failed)
                      | Some bs \<Rightarrow>
                          (case expected_rgb bs of
                             None \<Rightarrow> (sdb, Failed)
                           | Some rgb \<Rightarrow>
                               if last_rgb \<noteq> rgb
                               then (fst (update_display R E X C now cmd_id (req ''reconciliation'') sdb), Corrected)
                               else (sdb, InSync))))
         else if startswith eui ''202020''
         then (fst (update_display R E X C now cmd_id (req ''reconciliation_poll'') sdb), Polled)
         else (sdb, Skipped))"

text \<open>The rows of the query: live spaces joined with their enabled display, newest change first.\<close>

definition reconcile_rows :: "sm_db \<Rightarrow> (space_row \<times> display_row) list" where
  "reconcile_rows db =
     sort_key (\<lambda>(s, d). - sp_updated_at s)
       (concat (map (\<lambda>s. map (Pair s)
            (filter (\<lambda>d. sp_display_eui s = Some (dd_dev_eui d) \<and> dd_enabled d) (sm_displays db)))
          (filter alive (db_spaces (sm_pdb db)))))"

definition reconciliation_round ::
  "'r redis_ops \<Rightarrow> dl_env \<Rightarrow> sm_faults \<Rightarrow> sm_clients \<Rightarrow> (string \<Rightarrow> int list result) \<Rightarrow> pyfloat
   \<Rightarrow> (uuid \<Rightarrow> string) \<Rightarrow> 'r \<times> sm_db \<Rightarrow> ('r \<times> sm_db) \<times> verdict list" where
  "reconciliation_round R E X C json_rgb now cmd_ids sdb =
     fold (\<lambda>(space, display) (sdb, vs).
             case reconcile_space R E X C json_rgb now (cmd_ids (sp_id space)) space display sdb of
               (sdb, v) \<Rightarrow> (sdb, vs @ [v]))
       (reconcile_rows (snd sdb)) (sdb, [])"

section \<open>Scheduling\<close>

lemma aware_not_scheduled: "schedule_reservation now (booking_of r) tasks = tasks"
  by (simp add: schedule_reservation_def schedule_at_def booking_of_def)

lemma update_new_key: "k \<notin> set (map fst xs) \<Longrightarrow> AList.update k v xs = xs @ [(k, v)]"
  by (induction xs) auto

lemma task_id_neq: "task_id i ''start'' \<noteq> task_id i ''end''"
  by (simp add: task_id_def)

text \<open>
  The scheduler works on offset-naive times only. For a future reservation with naive times it
  stores the two tasks with their delays, and cancelling removes exactly these; but the
  reservations loaded from the database at start-up have offset-aware times, the comparison with \<open>utcnow()\<close>
  raises, the exception is swallowed and no task is ever stored.
\<close>

theorem loaded_reservations_never_scheduled:
  assumes "bk_start_time r = Naive a" "bk_end_time r = Naive b" "now < a" "now < b"
    and "\<forall>(k, t)\<in>set tasks. tk_reservation_id t \<noteq> bk_id r \<and> k \<noteq> task_id (bk_id r) ''start'' \<and> k \<noteq> task_id (bk_id r) ''end''"
  shows "(\<exists>ts te. schedule_reservation now r tasks = tasks @ [(task_id (bk_id r) ''start'', ts), (task_id (bk_id r) ''end'', te)]
        \<and> tk_delay ts = a - now \<and> tk_delay te = b - now)
    \<and> cancel_reservation_tasks (bk_id r) (schedule_reservation now r tasks) = tasks
    \<and> load_active_reservations valid_row now db tasks = tasks"
proof (intro conjI)
  let ?ks = "task_id (bk_id r) ''start''" and ?ke = "task_id (bk_id r) ''end''"
  let ?t = "\<lambda>act d. \<lparr>tk_task_id = task_id (bk_id r) act, tk_reservation_id = bk_id r, tk_space_id = bk_space_id r,
     tk_action = act, tk_scheduled_time = Naive d, tk_delay = d - now\<rparr>"
  have fresh: "?ks \<notin> set (map fst tasks)" "?ke \<notin> set (map fst (tasks @ [(?ks, ?t ''start'' a)]))"
    using assms(5) task_id_neq [of "bk_id r"] by auto
  have sched: "schedule_reservation now r tasks = tasks @ [(?ks, ?t ''start'' a), (?ke, ?t ''end'' b)]"
    using assms(1-4) update_new_key [OF fresh(1)] update_new_key [OF fresh(2)]
    by (simp add: schedule_reservation_def schedule_at_def)
  then show "\<exists>ts te. schedule_reservation now r tasks = tasks @ [(?ks, ts), (?ke, te)]
      \<and> tk_delay ts = a - now \<and> tk_delay te = b - now" by simp
  have "filter (\<lambda>(k, t). tk_reservation_id t \<noteq> bk_id r) tasks = tasks"
    using assms(5) by (auto simp: filter_id_conv)
  then show "cancel_reservation_tasks (bk_id r) (schedule_reservation now r tasks) = tasks"
    unfolding sched cancel_reservation_tasks_def by simp
  have "fold (\<lambda>r. schedule_reservation now (booking_of r)) rs tasks = tasks" for rs
    by (induction rs) (simp_all add: aware_not_scheduled)
  then show "load_active_reservations valid_row now db tasks = tasks" by (simp add: load_active_reservations_def)
qed

theorem loaded_reservations_never_scheduled_witness:
  "load_active_reservations (\<lambda>_. True) 50 booked_db [] = []
   \<and> cancel_reservation_tasks ''r'' (schedule_reservation 50 \<lparr>bk_id = ''r'', bk_space_id = ''s'', bk_start_time = Naive 60, bk_end_time = Naive 70\<rparr> []) = []"
  using loaded_reservations_never_scheduled [of "\<lparr>bk_id = ''r'', bk_space_id = ''s'', bk_start_time = Naive 60, bk_end_time = Naive 70\<rparr>"
      60 70 50 "[]" "\<lambda>_. True" booked_db] by simp

section \<open>The state manager as seen from the rounds\<close>

locale space_updates =
  fixes upd :: "'r updater"
  assumes keeps_reservations:
    "db_reservations (sm_pdb (snd (fst (upd q sdb)))) = db_reservations (sm_pdb (snd sdb))"
begin

lemma free_keeps: "db_reservations (sm_pdb (snd (free_after_expiry upd i sdb))) = db_reservations (sm_pdb (snd sdb))"
  by (simp add: free_after_expiry_def keeps_reservations split: option.split)

lemma fold_free_keeps:
  "db_reservations (sm_pdb (snd (fold (free_after_expiry upd) ids sdb))) = db_reservations (sm_pdb (snd sdb))"
  by (induction ids arbitrary: sdb) (simp_all add: free_keeps)

lemma expiry_reservations:
  "db_reservations (sm_pdb (snd (expiry_round upd now sdb)))
   = db_reservations (expire_where (\<lambda>r. rv_end_time r < now) (sm_pdb (snd sdb)))"
  by (simp add: expiry_round_def expire_old_reservations_def on_pdb_def fold_free_keeps)

lemma expiry_none_overdue:
  "\<forall>r\<in>set (db_reservations (sm_pdb (snd (expiry_round upd now sdb)))).
     \<not> (live_status (rv_status r) \<and> rv_end_time r < now)"
  unfolding expiry_reservations by (auto simp: expire_where_def sql_update_def live_status_def)

lemma end_task_reservations:
  assumes "snd (upd \<lparr>uq_space_id = sid, uq_new_state = FREE, uq_source = ''reservation_end'',
      uq_request_id = ''bg_task_'' @ i\<rparr> sdb) = Inr u"
  shows "db_reservations (sm_pdb (snd (fst (reservation_end_task upd i sid (sdb, tasks)))))
    = db_reservations (expire_where (\<lambda>r. rv_id r = i) (sm_pdb (snd sdb)))"
  using assms keeps_reservations [of "\<lparr>uq_space_id = sid, uq_new_state = FREE, uq_source = ''reservation_end'',
      uq_request_id = ''bg_task_'' @ i\<rparr>" sdb]
  by (cases "upd \<lparr>uq_space_id = sid, uq_new_state = FREE, uq_source = ''reservation_end'',
      uq_request_id = ''bg_task_'' @ i\<rparr> sdb")
     (auto simp: reservation_end_task_def on_pdb_def expire_where_def)

end

lemma applied_reservations [simp]: "db_reservations (applied q now cur db) = db_reservations db"
  by (simp add: applied_def record_change_def set_state_def)

interpretation sm_updates: space_updates "sm_update_space_state R E X C others lock_value now cmd_id"
proof
  show "db_reservations (sm_pdb (snd (fst (sm_update_space_state R E X C others lock_value now cmd_id q sdb))))
      = db_reservations (sm_pdb (snd sdb))" for q sdb
    by (cases sdb) (auto simp: update_pdb update_body_pdb set_state_def split: option.split)
qed

text \<open>
  Property C28. After a round of the expiry loop no pending or confirmed reservation is past its end,
  and every other reservation is exactly as before, whatever happens to the spaces on the way
  (locks held elsewhere, rejected transitions, failing calls).
\<close>

theorem expiry_leaves_none_overdue:
  "(\<forall>r\<in>set (db_reservations (sm_pdb (snd (expiry_round (sm_update_space_state R E X C others lv t cmd_id) now sdb)))).
      \<not> (live_status (rv_status r) \<and> rv_end_time r < now))
   \<and> (\<forall>r\<in>set (db_reservations (sm_pdb (snd sdb))). \<not> (live_status (rv_status r) \<and> rv_end_time r < now) \<longrightarrow>
      r \<in> set (db_reservations (sm_pdb (snd (expiry_round (sm_update_space_state R E X C others lv t cmd_id) now sdb)))))"
proof (intro conjI sm_updates.expiry_none_overdue ballI impI)
  fix r assume "r \<in> set (db_reservations (sm_pdb (snd sdb)))" "\<not> (live_status (rv_status r) \<and> rv_end_time r < now)"
  then show "r \<in> set (db_reservations (sm_pdb (snd (expiry_round (sm_update_space_state R E X C others lv t cmd_id) now sdb))))"
    unfolding sm_updates.expiry_reservations by (force simp: expire_where_def sql_update_def)
qed

definition overdue_db :: sm_db where
  "overdue_db = demo_sm\<lparr>sm_pdb := booked_db\<lparr>db_spaces := map (\<lambda>r. r\<lparr>sp_state := OCCUPIED\<rparr>) (db_spaces booked_db)\<rparr>\<rparr>"

definition demo_updater :: "mem updater" where
  "demo_updater = sm_update_space_state mem_ops demo_env no_faults demo_clients id ''1.5'' 300 ''c''"

theorem expiry_leaves_none_overdue_witness:
  "filter (\<lambda>r. live_status (rv_status r) \<and> rv_end_time r < 300)
     (db_reservations (sm_pdb (snd (expiry_round demo_updater 300 ([], overdue_db))))) = []"
  unfolding demo_updater_def filter_empty_conv
  using expiry_leaves_none_overdue [of mem_ops demo_env no_faults demo_clients id "''1.5''" 300 "''c''" 300 "([], overdue_db)"]
  by blast

text \<open>
  Expiry ignores the sensor: when the space of the one overdue reservation is OCCUPIED, its
  lock is free and no call fails, the round sets the space to FREE and records that change, although the
  comment beside the call promises to do so only for a space that is not occupied.
\<close>

theorem expiry_frees_occupied_space:
  assumes "redis R c" "c s (lock_key (''space:'' @ rv_space_id r)) = None"
    and "f_get_space X = None" "f_update X = None" "f_record X = None"
    and "get_space (sm_pdb db) (rv_space_id r) = Some sp" "sp_state sp = OCCUPIED"
    and "filter (\<lambda>x. live_status (rv_status x) \<and> rv_end_time x < now) (db_reservations (sm_pdb db)) = [r]"
    and "\<forall>x\<in>set (db_reservations (sm_pdb db)). rv_id x = rv_id r \<longrightarrow> x = r"
  shows "sm_pdb (snd (expiry_round (sm_update_space_state R E X C others lv t cmd_id) now (s, db)))
    = applied \<lparr>uq_space_id = rv_space_id r, uq_new_state = FREE, uq_source = ''reservation_expired'',
               uq_request_id = ''expiry_'' @ rv_id r\<rparr> t OCCUPIED
        (expire_where (\<lambda>x. rv_end_time x < now) (sm_pdb db))"
proof -
  let ?q = "\<lparr>uq_space_id = rv_space_id r, uq_new_state = FREE, uq_source = ''reservation_expired'',
    uq_request_id = ''expiry_'' @ rv_id r\<rparr>"
  let ?db1 = "db\<lparr>sm_pdb := expire_where (\<lambda>x. rv_end_time x < now) (sm_pdb db)\<rparr>"
  have r: "r \<in> set (db_reservations (sm_pdb db))" "live_status (rv_status r)" "rv_end_time r < now"
    using arg_cong [OF assms(8), of set] by auto
  have "find (\<lambda>x. rv_id x = rv_id r) (db_reservations (sm_pdb ?db1)) = Some (r\<lparr>rv_status := EXPIRED\<rparr>)"
    using r assms(9) by (intro find_unique) (auto simp: expire_where_def sql_update_def)
  then have free: "free_after_expiry upd (rv_id r) (s, ?db1) = fst (upd ?q (s, ?db1))" for upd
    by (simp add: free_after_expiry_def)
  have "get_space (sm_pdb ?db1) (rv_space_id r) = Some sp"
    using assms(6) by (simp add: get_space_def expire_where_def)
  then have acc: "accepted ?q (sm_pdb ?db1) = Some OCCUPIED"
    using assms(7) by (simp add: accepted_def is_valid_transition_def)
  have "snd (enter_lock R others (''space:'' @ rv_space_id r) lv s)"
    using assms(2) by (simp add: enter_lock_def redis.set_nx [OF assms(1)])
  then have "sm_pdb (snd (fst (sm_update_space_state R E X C others lv t cmd_id ?q (s, ?db1)))) = applied ?q t OCCUPIED (sm_pdb ?db1)"
    using acc assms(3-5) by (simp add: update_pdb update_body_pdb)
  then show ?thesis
    by (simp add: expiry_round_def expire_old_reservations_def assms(8) on_pdb_def free)
qed

lemma overdue_space: "\<exists>sp. get_space (sm_pdb overdue_db) ''s1'' = Some sp \<and> sp_state sp = OCCUPIED"
  by (simp add: get_space_def overdue_db_def demo_sm_def booked_db_def demo_db_def new_space_row_def enforce_eui_uppercase_def alive_def)

theorem expiry_frees_occupied_space_witness:
  "\<exists>ch. db_state_changes (sm_pdb (snd (expiry_round demo_updater 300 ([], overdue_db)))) = [ch]
     \<and> sc_previous_state ch = OCCUPIED \<and> sc_new_state ch = FREE"
proof -
  obtain sp where sp: "get_space (sm_pdb overdue_db) ''s1'' = Some sp" "sp_state sp = OCCUPIED" using overdue_space by blast
  let ?r = "hd (db_reservations booked_db)"
  have r: "db_reservations (sm_pdb overdue_db) = [?r]" "rv_space_id ?r = ''s1''" "rv_end_time ?r = 200" "rv_status ?r = CONFIRMED"
    by (simp_all add: overdue_db_def demo_sm_def booked_db_def)
  have "sm_pdb (snd (expiry_round demo_updater 300 ([], overdue_db)))
    = applied \<lparr>uq_space_id = rv_space_id ?r, uq_new_state = FREE, uq_source = ''reservation_expired'',
               uq_request_id = ''expiry_'' @ rv_id ?r\<rparr> 300 OCCUPIED
        (expire_where (\<lambda>x. rv_end_time x < 300) (sm_pdb overdue_db))"
    unfolding demo_updater_def
    by (rule expiry_frees_occupied_space [OF mem_redis.redis_axioms])
       (use sp r in \<open>simp_all add: no_faults_def live_status_def\<close>)
  then show ?thesis
    by (simp add: applied_def record_change_def set_state_def expire_where_def overdue_db_def demo_sm_def
        booked_db_def demo_db_def empty_db_def)
qed

section \<open>Reconciliation\<close>

lemma reconcile_space_pdb [simp]:
  "sm_pdb (snd (fst (reconcile_space R E X C j now i sp d sdb))) = sm_pdb (snd sdb)"
proof -
  obtain s db where "sdb = (s, db)" by (cases sdb)
  then show ?thesis
    by (simp add: reconcile_space_def Let_def split: option.split sum.split)
qed

lemma reconciliation_keeps_tables:
  "sm_pdb (snd (fst (reconciliation_round R E X C j now ids sdb))) = sm_pdb (snd sdb)"
proof -
  let ?f = "\<lambda>(space, display) (sdb, vs). case reconcile_space R E X C j now (ids (sp_id space)) space display sdb of
      (sdb, v) \<Rightarrow> (sdb, vs @ [v])"
  have step: "sm_pdb (snd (fst (?f p w))) = sm_pdb (snd (fst w))" for p w
    using reconcile_space_pdb [of R E X C j now "ids (sp_id (fst p))" "fst p" "snd p" "fst w"]
    by (simp add: split_beta)
  have "sm_pdb (snd (fst (fold ?f ps w))) = sm_pdb (snd (fst w))" for ps w
    by (induction ps arbitrary: w) (simp_all add: step)
  then show ?thesis by (simp add: reconciliation_round_def)
qed

lemma deduplicated_enqueue:
  assumes "redis R c" "dl_typed (c s)"
    and "q_sent (dlq_of (c s)) (ea_device_eui a) = Some (compute_content_hash E (ea_device_eui a) (ea_payload a) (ea_fport a))"
  shows "\<exists>s'. enqueue R E now i a s = (s', None) \<and> dlq_of (c s') = dlq_of (c s)"
  using assms(2,3)
  by (simp add: enqueue_def redis.get [OF assms(1)] redis.incr_typed [OF assms(1)] redis.counter_in [OF assms(1)] Let_def)

text \<open>
  Reconciliation cannot repair a display whose last command was accepted by ChirpStack but not
  shown. The colour the display reports differs from the expected one, but the corrective
  command equals the last one sent, so the queue drops it: the round counts a correction, the queue is
  unchanged and the actuation is logged as not sent.
\<close>

theorem reconciliation_deduplicated:
  assumes "redis R c" "dl_typed (c s)" "has_chirpstack C" "has_queue C"
    and "f_display X = None" "f_tenant X = None" "f_downlink X = None" "f_log X = None"
    and "sp_display_eui space = Some eui" "find (\<lambda>d. dd_dev_eui d = eui \<and> dd_enabled d) (sm_displays db) = Some display"
    and "map_of (dd_display_codes display) (SpaceState_value (sp_state space)) = Some code" "code \<noteq> []"
    and "bytes_fromhex code = Some bs" "expected_rgb bs = Some rgb"
    and "rget R s (last_known_key eui) = Some stored" "stored \<noteq> []" "json_rgb stored = Inr last_rgb" "last_rgb \<noteq> rgb"
    and "q_sent (dlq_of (c s)) eui = Some (compute_content_hash E eui code (dd_fport display))"
  shows "\<exists>s' ac. reconcile_space R E X C json_rgb now cmd_id space display (s, db)
      = ((s', db\<lparr>sm_actuations := sm_actuations db @ [ac]\<rparr>), Corrected)
    \<and> dlq_of (c s') = dlq_of (c s) \<and> \<not> ac_downlink_sent ac \<and> ac_queue_id ac = None"
proof -
  let ?q = "\<lparr>dq_space_id = sp_id space, dq_display_eui = eui, dq_previous = sp_state space, dq_new = sp_state space,
     dq_trigger_type = ''system_cleanup'', dq_trigger_source = ''reconciliation''\<rparr>"
  let ?a = "\<lparr>ea_device_eui = eui, ea_payload = code, ea_fport = dd_fport display,
     ea_tenant_id = tenant_of_space db (sp_id space), ea_confirmed = dd_confirmed display, ea_gateway_id = None,
     ea_space_id = Some (sp_id space), ea_trigger_source = Some ''reconciliation''\<rparr>"
  obtain s' where enq: "enqueue R E now cmd_id ?a s = (s', None)" and same: "dlq_of (c s') = dlq_of (c s)"
    using deduplicated_enqueue [OF assms(1,2), of ?a E now cmd_id] assms(19) by auto
  have "queue_display R E X C now cmd_id ?q display code bs (tenant_of_space db (sp_id space)) s = (s', Inr (False, None))"
    using enq assms(4,7) by (simp add: queue_display_def)
  then have disp: "\<exists>ac. fst (update_display R E X C now cmd_id ?q (s, db)) = (s', db\<lparr>sm_actuations := sm_actuations db @ [ac]\<rparr>)
      \<and> \<not> ac_downlink_sent ac \<and> ac_queue_id ac = None"
    using assms(3,5,6,8,10-13) by (simp add: update_display_def Let_def) (rule exI, rule conjI [OF refl], simp)
  have "reconcile_space R E X C json_rgb now cmd_id space display (s, db)
      = (fst (update_display R E X C now cmd_id ?q (s, db)), Corrected)"
    using assms(9,11-18) by (simp add: reconcile_space_def Let_def)
  with disp same show ?thesis by auto
qed

definition kuando :: display_row where
  "kuando = \<lparr>dd_id = ''d1'', dd_dev_eui = ''2020200000000001'', dd_enabled = True,
     dd_display_codes = [(''FREE'', ''0000FFFF00'')], dd_fport = 15, dd_confirmed = False\<rparr>"

definition kuando_space :: space_row where
  "kuando_space = (hd (db_spaces demo_db))\<lparr>sp_display_eui := Some ''2020200000000001''\<rparr>"

definition sent_store :: mem where
  "sent_store = [(last_hash_key ''2020200000000001'', RStr (compute_content_hash demo_env ''2020200000000001'' ''0000FFFF00'' 15)),
                 (last_known_key ''2020200000000001'', RStr ''red'')]"

lemma sent_store_typed: "dl_typed (map_of sent_store)"
proof -
  have "outside_dl (last_known_key ''2020200000000001'')" by (simp add: outside_dl_def last_known_key_def)
  from dl_typed_other [OF empty_typed this, of "Some (RStr ''red'')"]
  show ?thesis by (simp add: sent_store_def)
qed

theorem reconciliation_deduplicated_witness:
  "\<exists>s' db'. reconcile_space mem_ops demo_env no_faults (demo_clients\<lparr>has_chirpstack := True, has_queue := True\<rparr>)
     (\<lambda>_. Inr [255, 0, 0]) 9 ''c9'' kuando_space kuando (sent_store, demo_sm\<lparr>sm_displays := [kuando]\<rparr>) = ((s', db'), Corrected)
     \<and> q_pending (dlq_of (map_of s')) = []"
proof -
  have sp: "sp_display_eui kuando_space = Some ''2020200000000001''" "sp_state kuando_space = FREE"
    by (simp_all add: kuando_space_def demo_db_def enforce_eui_uppercase_def new_space_row_def demo_space_def)
  have bs: "bytes_fromhex ''0000FFFF00'' = Some [0, 0, 255, 255, 0]" by code_simp
  have rgb: "expected_rgb [0, 0, 255, 255, 0] = Some [0, 0, 255]" by (simp add: expected_rgb_def)
  have g: "rget mem_ops sent_store (last_known_key ''2020200000000001'') = Some ''red''" by code_simp
  have q: "q_sent (dlq_of (map_of sent_store)) ''2020200000000001''
      = Some (compute_content_hash demo_env ''2020200000000001'' ''0000FFFF00'' (dd_fport kuando))"
    "q_pending (dlq_of (map_of sent_store)) = []"
    by (simp_all add: dlq_of_def sent_store_def str_at_def kuando_def list_at_def key_defs last_known_key_def del: q_of_keys)
  have "\<exists>s' ac. reconcile_space mem_ops demo_env no_faults (demo_clients\<lparr>has_chirpstack := True, has_queue := True\<rparr>)
     (\<lambda>_. Inr [255, 0, 0]) 9 ''c9'' kuando_space kuando (sent_store, demo_sm\<lparr>sm_displays := [kuando]\<rparr>)
      = ((s', (demo_sm\<lparr>sm_displays := [kuando]\<rparr>)\<lparr>sm_actuations := sm_actuations (demo_sm\<lparr>sm_displays := [kuando]\<rparr>) @ [ac]\<rparr>), Corrected)
    \<and> dlq_of (map_of s') = dlq_of (map_of sent_store) \<and> \<not> ac_downlink_sent ac \<and> ac_queue_id ac = None"
    by (rule reconciliation_deduplicated [where code = "''0000FFFF00''" and bs = "[0, 0, 255, 255, 0]" and rgb = "[0, 0, 255]"
          and eui = "''2020200000000001''" and stored = "''red''" and last_rgb = "[255, 0, 0]",
          OF mem_redis.redis_axioms sent_store_typed])
       (use sp bs rgb g q in \<open>simp_all add: no_faults_def kuando_def\<close>)
  then show ?thesis using q(2) by auto
qed

end
