(* ===== verification/Utils.thy ===== *)
theory Utils
  imports Codec
begin

text \<open>
  The pure helpers of \<open>src/utils.py\<close>: EUI normalisation, space codes, durations, colours,
  masking. Regular expressions are predicates on strings; \<open>re_full\<close> keeps the meaning of \<open>$\<close>
  (it also matches before a final newline).
\<close>

section \<open>Identifiers\<close>

definition strip_separators :: "string \<Rightarrow> string" where
  "strip_separators s = remove_char (CHR '' '') (remove_char (CHR ''-'') (remove_char (CHR '':'') s))"

definition normalize_deveui :: "string \<Rightarrow> string result" where
  "normalize_deveui deveui =
     (if deveui = [] then Inr []
      else let cleaned = strip_separators deveui in
           if \<not> re_full hex16 cleaned
           then Inl (ValueError (''Invalid DevEUI format: '' @ deveui @ '' (must be 16 hex characters)''))
           else Inr (upper cleaned))"

definition normalize_gateway_eui :: "string \<Rightarrow> string result" where
  "normalize_gateway_eui gw_eui =
     (if gw_eui = [] then Inr []
      else let cleaned = strip_separators gw_eui in
           if \<not> re_full hex16 cleaned
           then Inl (ValueError (''Invalid Gateway EUI format: '' @ gw_eui @ '' (must be 16 hex characters)''))
           else Inr (upper cleaned))"

text \<open>\<open>f"{number:03d}"\<close>: zero padding to three characters, the sign included.\<close>

definition zeros :: "nat \<Rightarrow> string" where "zeros n = replicate n (CHR ''0'')"

definition pad3 :: "int \<Rightarrow> string" where
  "pad3 n =
     (if n < 0 then ''-'' @ zeros (2 - length (nat_str (nat (- n)))) @ nat_str (nat (- n))
      else zeros (3 - length (nat_str (nat n))) @ nat_str (nat n))"

definition str_or :: "string option \<Rightarrow> string \<Rightarrow> string" where
  "str_or s d = (case s of None \<Rightarrow> d | Some t \<Rightarrow> if t = [] then d else t)"

definition generate_space_code :: "string option \<Rightarrow> string option \<Rightarrow> int \<Rightarrow> string" where
  "generate_space_code building floor_name number =
     upper (take 1 (str_or building ''X'')) @ take 2 (str_or floor_name ''0'') @ ''-'' @ pad3 number"

section \<open>Encodings\<close>

definition b64_body_char :: "char \<Rightarrow> bool" where
  "b64_body_char c = (is_upper_char c \<or> is_lower_char c \<or> is_digit c \<or> c = CHR ''+'' \<or> c = CHR ''/'')"

definition is_hex_text :: "string \<Rightarrow> bool" where
  "is_hex_text s = (s \<noteq> [] \<and> list_all is_hex s)"

definition is_b64_text :: "string \<Rightarrow> bool" where
  "is_b64_text s = (takeWhile b64_body_char s \<noteq> []
                    \<and> list_all (\<lambda>c. c = CHR ''='') (dropWhile b64_body_char s))"

definition detect_encoding :: "string \<Rightarrow> string" where
  "detect_encoding payload =
     (if re_full is_hex_text payload \<and> length payload mod 2 = 0 then ''hex''
      else if re_full is_b64_text payload then ''base64''
      else ''unknown'')"

section \<open>Durations\<close>

definition format_duration :: "rat \<Rightarrow> string" where
  "format_duration seconds =
     (if seconds < 1 then int_str (py_int (seconds * 1000)) @ ''ms''
      else
        let hours = \<lfloor>seconds / 3600\<rfloor>;
            minutes = \<lfloor>(seconds - 3600 * of_int hours) / 60\<rfloor>;
            secs = \<lfloor>seconds - 60 * of_int \<lfloor>seconds / 60\<rfloor>\<rfloor>;
            parts = (if hours \<noteq> 0 then [int_str hours @ ''h''] else [])
                  @ (if minutes \<noteq> 0 then [int_str minutes @ ''m''] else [])
                  @ (if secs \<noteq> 0 then [int_str secs @ ''s''] else [])
        in if parts = [] then ''0s'' else join '' '' parts)"

section \<open>Colours\<close>

definition color_map :: "(string \<times> string) list" where
  "color_map = [(''FREE'', ''00FF00''), (''OCCUPIED'', ''FF0000''), (''RESERVED'', ''FFFF00''),
                (''MAINTENANCE'', ''FFA500''), (''ERROR'', ''0000FF'')]"

definition get_display_color :: "string \<Rightarrow> string" where
  "get_display_color state =
     (case map_of color_map (upper state) of None \<Rightarrow> ''FFFFFF'' | Some c \<Rightarrow> c)"

text \<open>\<open>int(s, 16)\<close> of a two-character string: blanks around, one sign, hex digits.\<close>

fun hex_digits_val :: "string \<Rightarrow> nat \<Rightarrow> nat option" where
  "hex_digits_val [] acc = Some acc"
| "hex_digits_val (c # cs) acc =
     (case hex_val c of None \<Rightarrow> None | Some v \<Rightarrow> hex_digits_val cs (16 * acc + v))"

definition int16_of :: "string \<Rightarrow> int option" where
  "int16_of s =
     (case strip s of
        [] \<Rightarrow> None
      | c # cs \<Rightarrow>
          if c = CHR ''-'' \<or> c = CHR ''+''
          then if cs = [] then None
               else map_option (\<lambda>n. if c = CHR ''-'' then - int n else int n) (hex_digits_val cs 0)
          else map_option int (hex_digits_val (c # cs) 0))"

definition parse_rgb_hex :: "string \<Rightarrow> (int \<times> int \<times> int) result" where
  "parse_rgb_hex hex_color =
     (if length hex_color = 6 then
        (case (int16_of (take 2 hex_color), int16_of (take 2 (drop 2 hex_color)),
               int16_of (drop 4 hex_color)) of
           (Some r, Some g, Some b) \<Rightarrow> Inr (r, g, b)
         | _ \<Rightarrow> Inl (ValueError ''invalid literal for int() with base 16''))
      else Inl (ValueError (''Invalid hex color: '' @ hex_color)))"

section \<open>Logging helpers\<close>

definition truncate_string :: "string \<Rightarrow> nat \<Rightarrow> string" where
  "truncate_string s max_length =
     (if length s \<le> max_length then s else take max_length s @ ''...'')"

definition mask_sensitive_data :: "string \<Rightarrow> nat \<Rightarrow> string" where
  "mask_sensitive_data data visible_chars =
     (if length data \<le> visible_chars then replicate (length data) (CHR ''*'')
      else take visible_chars data @ replicate (length data - visible_chars) (CHR ''*''))"

section \<open>Lemmas\<close>

lemma newline_not_hex: "\<not> is_hex newline"
  by (simp add: is_hex_def newline_def is_digit_def)

lemma hex16_upper: "hex16 s \<Longrightarrow> hex16 (upper s)"
proof -
  have "is_hex c \<Longrightarrow> is_hex (to_upper c)" for c
    by (auto simp: is_hex_def to_upper_def is_lower_char_def is_digit_def of_char_of)
  then show "hex16 s \<Longrightarrow> hex16 (upper s)"
    by (auto simp: hex16_def upper_def list_all_iff)
qed

lemma hex16_no_separator: "hex16 s \<Longrightarrow> strip_separators s = s"
  by (auto simp: strip_separators_def remove_char_def hex16_def list_all_iff is_hex_def is_digit_def
      intro!: filter_True)

lemma newline_neq: "ord c \<noteq> 10 \<Longrightarrow> newline \<noteq> c"
  by (rule char_neqI) (simp add: newline_def ord_char_of)

lemma newline_separator [simp]: "strip_separators (s @ [newline]) = strip_separators s @ [newline]"
  by (simp add: strip_separators_def remove_char_def newline_neq)

lemma upper_snoc_newline [simp]: "upper (s @ [newline]) = upper s @ [newline]"
  by (simp add: upper_def to_upper_def is_lower_char_def newline_def)

lemma re_full_cases: "re_full P s \<longleftrightarrow> P s \<or> (\<exists>t. s = t @ [newline] \<and> P t)"
  by (auto simp: re_full_def) (metis append_butlast_last_id)+

section \<open>Properties\<close>

text \<open>
  An accepted non-empty EUI is normalised to upper-case text that is a fixed point of
  the normalisation. It is 16 hex digits, or 16 hex digits followed by a newline: the pattern
  \<open>^[0-9a-fA-F]{16}$\<close> also matches before a final newline, so such an input is accepted with
  the newline kept.
\<close>

theorem normalize_deveui_canonical:
  assumes "normalize_deveui s = Inr t" "s \<noteq> []"
  shows "upper t = t \<and> normalize_deveui t = Inr t \<and> (hex16 t \<or> (\<exists>u. hex16 u \<and> t = u @ [newline]))"
proof -
  have t: "t = upper (strip_separators s)" and r: "re_full hex16 (strip_separators s)"
    using assms by (auto simp: normalize_deveui_def Let_def split: if_splits)
  from r consider "hex16 t" | u where "hex16 u" "t = u @ [newline]"
    unfolding t re_full_cases using hex16_upper by fastforce
  then have "re_full hex16 t \<and> strip_separators t = t \<and> t \<noteq> []"
    by cases (auto simp: re_full_cases hex16_no_separator, auto simp: hex16_def)
  moreover have "upper t = t" by (simp add: t)
  ultimately show ?thesis
    by (auto simp: normalize_deveui_def Let_def re_full_cases)
qed

theorem normalize_deveui_canonical_witness:
  "normalize_deveui ''E8E1E1000103C3F8'' = Inr ''E8E1E1000103C3F8''"
proof -
  have "normalize_deveui ''e8:e1:e1:00:01:03:c3:f8'' = Inr ''E8E1E1000103C3F8''" by code_simp
  from normalize_deveui_canonical [OF this] show ?thesis by simp
qed

text \<open>
  Payload conversion is lossless: the base64 text of any byte string's hex text
  converts back to that hex text.
\<close>

theorem hex_base64_roundtrip:
  "\<exists>b. hex_to_base64 (bytes_hex bs) = Inr b \<and> base64_to_hex b = Inr (bytes_hex bs)"
  by (simp add: hex_to_base64_def base64_to_hex_def)

end
