(* ===== verification/Device_Handlers.thy ===== *)
theory Device_Handlers
  imports Utils
begin

unbundle bit_operations_syntax

text \<open>
  \<open>src/device_handlers.py\<close>: the handlers of the three device families, the registry that picks a
  handler from the ChirpStack device profile, and the generic webhook parser.

  A webhook body is a record whose optional fields are the keys the handlers read (\<open>None\<close> for an
  absent key); bodies whose keys hold values of another JSON type are outside the model.
\<close>

section \<open>Webhook bodies\<close>

record rx_info =
  rx_rssi :: "int option"
  rx_snr :: "rat option"
  rx_gatewayId :: "string option"

record device_info =
  di_devEui :: "string option"
  di_deviceName :: "string option"
  di_applicationId :: "string option"
  di_deviceProfileName :: "string option"

record tx_info =
  tx_frequency :: "int option"
  tx_dr :: "int option"

record webhook =
  wh_deviceInfo :: "device_info option"
  wh_rxInfo :: "rx_info list option"
  wh_txInfo :: "tx_info option"
  wh_fPort :: "int option"
  wh_fCnt :: "int option"
  wh_data :: "string option"
  wh_time :: "instant option"

definition empty_rx :: rx_info where
  "empty_rx = \<lparr>rx_rssi = None, rx_snr = None, rx_gatewayId = None\<rparr>"

text \<open>\<open>data.get("rxInfo", [{}])[0]\<close>: an empty list raises \<open>IndexError\<close>.\<close>

definition first_rx :: "webhook \<Rightarrow> rx_info result" where
  "first_rx data =
     (case wh_rxInfo data of
        None \<Rightarrow> Inr empty_rx
      | Some [] \<Rightarrow> Inl IndexError
      | Some (rx # _) \<Rightarrow> Inr rx)"

definition dev_eui :: "webhook \<Rightarrow> string" where
  "dev_eui data =
     (case wh_deviceInfo data of
        None \<Rightarrow> []
      | Some di \<Rightarrow> (case di_devEui di of None \<Rightarrow> [] | Some e \<Rightarrow> lower e))"

record chirpstack_fields =
  cf_device_eui :: string
  cf_payload :: string
  cf_rssi :: "int option"
  cf_snr :: "rat option"
  cf_gateway_id :: "string option"
  cf_timestamp :: "instant option"

definition parse_chirpstack_uplink :: "webhook \<Rightarrow> chirpstack_fields result" where
  "parse_chirpstack_uplink data =
     (case first_rx data of
        Inl e \<Rightarrow> Inl e
      | Inr rx \<Rightarrow>
          Inr \<lparr>cf_device_eui = dev_eui data,
               cf_payload = (case wh_data data of None \<Rightarrow> [] | Some d \<Rightarrow> d),
               cf_rssi = rx_rssi rx, cf_snr = rx_snr rx, cf_gateway_id = rx_gatewayId rx,
               cf_timestamp = wh_time data\<rparr>)"

section \<open>Browan TABS motion sensor\<close>

text \<open>
  Bit 0 of the first byte is the occupancy; the second byte, when there is one, is the battery
  in hundredths of a volt.
\<close>

fun browan_payload :: "byte list \<Rightarrow> SpaceState \<times> rat option" where
  "browan_payload [] = (FREE, None)"
| "browan_payload [s] = ((if s AND 1 \<noteq> 0 then OCCUPIED else FREE), None)"
| "browan_payload (s # b # _) =
     ((if s AND 1 \<noteq> 0 then OCCUPIED else FREE), Some (of_nat (unat b) / 100))"

text \<open>
  The whole body of the \<open>try\<close>, the construction of the model included, is protected; the
  fallback in \<open>except\<close> builds the model again without occupancy, battery and gateway.
\<close>

definition browan_parse_uplink :: "webhook \<Rightarrow> SensorUplink result" where
  "browan_parse_uplink data =
     (case parse_chirpstack_uplink data of
        Inl e \<Rightarrow> Inl e
      | Inr p \<Rightarrow>
          let attempt =
                (case b64decode (cf_payload p) of
                   Inl e \<Rightarrow> Inl e
                 | Inr bytes \<Rightarrow>
                     make_SensorUplink (cf_device_eui p) (cf_timestamp p)
                       (Some (fst (browan_payload bytes))) (snd (browan_payload bytes))
                       (cf_rssi p) (cf_snr p) (cf_gateway_id p) (Some (cf_payload p)))
          in (case attempt of
                Inr u \<Rightarrow> Inr u
              | Inl _ \<Rightarrow>
                  make_SensorUplink (cf_device_eui p) (cf_timestamp p) None None
                    (cf_rssi p) (cf_snr p) None (Some (cf_payload p))))"

section \<open>Displays\<close>

text \<open>Heltec and Kuando displays send no occupancy; both parse the common fields only.\<close>

definition display_parse_uplink :: "webhook \<Rightarrow> SensorUplink result" where
  "display_parse_uplink data =
     (case parse_chirpstack_uplink data of
        Inl e \<Rightarrow> Inl e
      | Inr p \<Rightarrow>
          make_SensorUplink (cf_device_eui p) (cf_timestamp p) None None
            (cf_rssi p) (cf_snr p) None (Some (cf_payload p)))"

record downlink_params =
  dp_state :: "string option"
  dp_r :: "int option"
  dp_g :: "int option"
  dp_b :: "int option"

text \<open>\<open>params.get(k, default)\<close>.\<close>

definition str_default :: "string option \<Rightarrow> string \<Rightarrow> string" where
  "str_default v d = (case v of None \<Rightarrow> d | Some s \<Rightarrow> s)"

definition int_or :: "int option \<Rightarrow> int \<Rightarrow> int" where
  "int_or v d = (case v of None \<Rightarrow> d | Some i \<Rightarrow> i)"

text \<open>\<open>bytes([..])\<close> raises \<open>ValueError\<close> for a value outside \<open>range(256)\<close>.\<close>

definition bytes_of :: "int list \<Rightarrow> byte list result" where
  "bytes_of xs =
     (if list_all (\<lambda>x. 0 \<le> x \<and> x < 256) xs then Inr (map of_int xs)
      else Inl (ValueError ''bytes must be in range(0, 256)''))"

definition heltec_encode_downlink :: "string \<Rightarrow> downlink_params \<Rightarrow> byte list result" where
  "heltec_encode_downlink command params =
     (if command = ''set_color'' then
        (case bytes_fromhex (get_display_color (str_default (dp_state params) ''FREE'')) of
           None \<Rightarrow> Inl (ValueError ''non-hexadecimal number found in fromhex() arg'')
         | Some bs \<Rightarrow> Inr bs)
      else if command = ''set_rgb'' then
        bytes_of [int_or (dp_r params) 0, int_or (dp_g params) 0, int_or (dp_b params) 0]
      else Inr [])"

definition get_color_for_state :: "SpaceState \<Rightarrow> byte list result" where
  "get_color_for_state state =
     (case bytes_fromhex (get_display_color (SpaceState_value state)) of
        None \<Rightarrow> Inl (ValueError ''non-hexadecimal number found in fromhex() arg'')
      | Some bs \<Rightarrow> Inr bs)"

definition kuando_colors :: "(string \<times> byte list) list" where
  "kuando_colors = [(''FREE'', [0, 255, 0]), (''OCCUPIED'', [255, 0, 0]),
                    (''RESERVED'', [255, 255, 0]), (''MAINTENANCE'', [255, 165, 0])]"

definition kuando_encode_downlink :: "string \<Rightarrow> downlink_params \<Rightarrow> byte list" where
  "kuando_encode_downlink command params =
     (if command = ''set_color'' then
        let rgb = (case map_of kuando_colors (str_default (dp_state params) ''FREE'') of
                     None \<Rightarrow> [0, 0, 255] | Some c \<Rightarrow> c)
        in [0] @ rgb @ [0, 1]
      else [])"

section \<open>Handlers and their registry\<close>

datatype handler = BrowanTabsHandler | HeltecDisplayHandler | KuandoBusylightHandler

fun handler_class :: "handler \<Rightarrow> string" where
  "handler_class BrowanTabsHandler = ''BrowanTabsHandler''"
| "handler_class HeltecDisplayHandler = ''HeltecDisplayHandler''"
| "handler_class KuandoBusylightHandler = ''KuandoBusylightHandler''"

fun device_profiles :: "handler \<Rightarrow> string list" where
  "device_profiles BrowanTabsHandler = [''browan_tbms100_motion'']"
| "device_profiles HeltecDisplayHandler = [''heltec_display'']"
| "device_profiles KuandoBusylightHandler = [''plenom_kuando_busylight'']"

definition can_handle :: "handler \<Rightarrow> string \<Rightarrow> bool" where
  "can_handle h device_profile = (device_profile \<noteq> [] \<and> device_profile \<in> set (device_profiles h))"

fun parse_uplink :: "handler \<Rightarrow> webhook \<Rightarrow> SensorUplink result" where
  "parse_uplink BrowanTabsHandler data = browan_parse_uplink data"
| "parse_uplink HeltecDisplayHandler data = display_parse_uplink data"
| "parse_uplink KuandoBusylightHandler data = display_parse_uplink data"

fun encode_downlink :: "handler \<Rightarrow> string \<Rightarrow> downlink_params \<Rightarrow> byte list result" where
  "encode_downlink BrowanTabsHandler command params = Inr []"
| "encode_downlink HeltecDisplayHandler command params = heltec_encode_downlink command params"
| "encode_downlink KuandoBusylightHandler command params = Inr (kuando_encode_downlink command params)"

record registry =
  reg_handlers :: "handler list"
  reg_cache :: "(string \<times> handler) list"

definition new_registry :: registry where
  "new_registry = \<lparr>reg_handlers = [], reg_cache = []\<rparr>"

definition register :: "handler \<Rightarrow> registry \<Rightarrow> registry" where
  "register h g = g\<lparr>reg_handlers := reg_handlers g @ [h]\<rparr>"

definition get_handler :: "string \<Rightarrow> registry \<Rightarrow> registry \<times> handler option" where
  "get_handler device_profile g =
     (if device_profile = [] then (g, None)
      else case map_of (reg_cache g) device_profile of
        Some h \<Rightarrow> (g, Some h)
      | None \<Rightarrow>
          (case find (\<lambda>h. can_handle h device_profile) (reg_handlers g) of
             None \<Rightarrow> (g, None)
           | Some h \<Rightarrow> (g\<lparr>reg_cache := (device_profile, h) # reg_cache g\<rparr>, Some h)))"

definition get_handler_by_class :: "string \<Rightarrow> registry \<Rightarrow> handler option" where
  "get_handler_by_class cls g = find (\<lambda>h. handler_class h = cls) (reg_handlers g)"

definition auto_register :: "registry \<Rightarrow> registry" where
  "auto_register g =
     register KuandoBusylightHandler (register HeltecDisplayHandler (register BrowanTabsHandler g))"

definition list_handlers :: "registry \<Rightarrow> string list" where
  "list_handlers g = map handler_class (reg_handlers g)"

section \<open>Generic parser\<close>

record parsed_webhook =
  pw_device_eui :: string
  pw_device_name :: "string option"
  pw_application_id :: "string option"
  pw_frequency :: "int option"
  pw_dr :: "int option"
  pw_fport :: "int option"
  pw_fcnt :: "int option"
  pw_payload :: string
  pw_rssi :: "int option"
  pw_snr :: "rat option"
  pw_gateway_id :: string
  pw_timestamp :: "instant option"

definition parse_chirpstack_webhook :: "webhook \<Rightarrow> parsed_webhook result" where
  "parse_chirpstack_webhook data =
     (case first_rx data of
        Inl e \<Rightarrow> Inl e
      | Inr rx \<Rightarrow>
          Inr \<lparr>pw_device_eui = dev_eui data,
               pw_device_name = Option.bind (wh_deviceInfo data) di_deviceName,
               pw_application_id = Option.bind (wh_deviceInfo data) di_applicationId,
               pw_frequency = Option.bind (wh_txInfo data) tx_frequency,
               pw_dr = Option.bind (wh_txInfo data) tx_dr,
               pw_fport = wh_fPort data, pw_fcnt = wh_fCnt data,
               pw_payload = (case wh_data data of None \<Rightarrow> [] | Some d \<Rightarrow> d),
               pw_rssi = rx_rssi rx, pw_snr = rx_snr rx,
               pw_gateway_id = (case rx_gatewayId rx of None \<Rightarrow> [] | Some i \<Rightarrow> lower i),
               pw_timestamp = wh_time data\<rparr>)"

section \<open>Registry lemmas\<close>

text \<open>The cache holds only handlers the linear search would find.\<close>

definition cache_ok :: "registry \<Rightarrow> bool" where
  "cache_ok g \<longleftrightarrow> (\<forall>(p, h) \<in> set (reg_cache g). find (\<lambda>h. can_handle h p) (reg_handlers g) = Some h)"

lemma cache_ok_register: "cache_ok g \<Longrightarrow> cache_ok (register h g)"
  by (auto simp: cache_ok_def register_def intro: find_append_Some)

lemma get_handler_result:
  "cache_ok g \<Longrightarrow> snd (get_handler p g)
     = (if p = [] then None else find (\<lambda>h. can_handle h p) (reg_handlers g))"
  by (auto simp: get_handler_def cache_ok_def split: option.splits dest!: map_of_SomeD)

lemma cache_ok_get: "cache_ok g \<Longrightarrow> cache_ok (fst (get_handler p g))"
  by (auto simp: get_handler_def cache_ok_def split: option.splits)

lemma get_handler_handlers: "reg_handlers (fst (get_handler p g)) = reg_handlers g"
  by (auto simp: get_handler_def split: option.splits)

lemma reg_handlers_register: "reg_handlers (register h g) = reg_handlers g @ [h]"
  by (simp add: register_def)

text \<open>A run of the registry: registrations and lookups, in any order.\<close>

datatype reg_op = Register handler | Lookup string

fun reg_run :: "reg_op list \<Rightarrow> registry \<Rightarrow> registry" where
  "reg_run [] g = g"
| "reg_run (Register h # ops) g = reg_run ops (register h g)"
| "reg_run (Lookup p # ops) g = reg_run ops (fst (get_handler p g))"

lemma reg_run_inv:
  "cache_ok g \<Longrightarrow> cache_ok (reg_run ops g) \<and>
   reg_handlers (reg_run ops g) = reg_handlers g @ concat (map (\<lambda>op. case op of Register h \<Rightarrow> [h] | Lookup _ \<Rightarrow> []) ops)"
  by (induction ops g rule: reg_run.induct)
    (auto simp: cache_ok_register cache_ok_get get_handler_handlers reg_handlers_register)

section \<open>Properties\<close>

text \<open>
  The profile cache never changes an answer: after any sequence of registrations and
  lookups, \<open>get_handler\<close> returns the first registered handler whose profiles contain the given
  profile, and \<open>None\<close> for an empty or unknown one.
\<close>

theorem get_handler_first_match:
  "snd (get_handler p (reg_run ops new_registry))
     = (if p = [] then None
        else find (\<lambda>h. can_handle h p)
               (concat (map (\<lambda>op. case op of Register h \<Rightarrow> [h] | Lookup _ \<Rightarrow> []) ops)))"
proof -
  have "cache_ok new_registry" by (simp add: cache_ok_def new_registry_def)
  from reg_run_inv [OF this, of ops] show ?thesis
    by (simp add: get_handler_result new_registry_def)
qed

text \<open>
  Parsing a Browan uplink never loses a well-formed reading: when the radio fields are
  in range and the body has a time, the handler returns a reading for the device; for a payload
  that is the base64 text of bytes the occupancy is bit 0 of the first byte and the battery the
  second byte over 100, and for undecodable text the reading has no occupancy.
\<close>

theorem browan_uplink_decoded:
  assumes "first_rx data = Inr rx" "wh_time data = Some t"
    and "opt_in_range (-200) 0 (rx_rssi rx)" "opt_in_range (-20) 20 (rx_snr rx)"
  shows "\<exists>u. browan_parse_uplink data = Inr u \<and> su_device_eui u = dev_eui data
    \<and> su_timestamp u = t \<and> su_rssi u = rx_rssi rx
    \<and> (\<forall>bs. wh_data data = Some (b64encode bs) \<longrightarrow>
          su_occupancy_state u = Some (if bs \<noteq> [] \<and> odd (unat (hd bs)) then OCCUPIED else FREE)
          \<and> su_battery u = (if length bs \<ge> 2 then Some (of_nat (unat (bs ! 1)) / 100) else None))
    \<and> (\<forall>e d. wh_data data = Some d \<longrightarrow> b64decode d = Inl e \<longrightarrow> su_occupancy_state u = None)"
proof -
  have odd: "(b AND 1 \<noteq> 0) = odd (unat b)" for b :: byte
    by (simp add: and_one_eq odd_iff_mod_2_eq_one unat_arith_simps) 
  have le: "rat_of_nat (unat b) \<le> 255" for b :: byte
  proof -
    have "unat b \<le> 255" using unat_byte [of b] by linarith
    from of_nat_mono [OF this, where 'a = rat] show ?thesis by simp
  qed
  have bat: "opt_in_range 0 100 (snd (browan_payload bs))" for bs
  proof (cases bs rule: browan_payload.cases)
    case (3 s b cs)
    have "0 \<le> rat_of_nat (unat b) / 100" "rat_of_nat (unat b) / 100 \<le> 100"
      using le [of b] of_nat_0_le_iff [of "unat b", where 'a = rat] by (simp_all add: divide_le_eq del: of_nat_unat)
    with 3 show ?thesis by (simp add: opt_in_range_def)
  qed (simp_all add: opt_in_range_def)
  have pay: "browan_payload bs = ((if bs \<noteq> [] \<and> odd (unat (hd bs)) then OCCUPIED else FREE),
      (if length bs \<ge> 2 then Some (of_nat (unat (bs ! 1)) / 100) else None))" for bs
    by (cases bs rule: browan_payload.cases) (auto simp: odd)
  define d where "d = (case wh_data data of None \<Rightarrow> [] | Some d \<Rightarrow> d)"
  have parse: "browan_parse_uplink data =
      (case (case b64decode d of Inl e \<Rightarrow> Inl e | Inr bs \<Rightarrow>
               make_SensorUplink (dev_eui data) (Some t) (Some (fst (browan_payload bs)))
                 (snd (browan_payload bs)) (rx_rssi rx) (rx_snr rx) (rx_gatewayId rx) (Some d)) of
         Inr u \<Rightarrow> Inr u
       | Inl _ \<Rightarrow> make_SensorUplink (dev_eui data) (Some t) None None (rx_rssi rx) (rx_snr rx) None (Some d))"
    using assms by (simp add: browan_parse_uplink_def parse_chirpstack_uplink_def d_def
        cong: sum.case_cong)
  have none: "opt_in_range 0 100 (None :: rat option)" by (simp add: opt_in_range_def)
  show ?thesis
  proof (cases "b64decode d")
    case (Inl e)
    then show ?thesis
      using assms none unfolding parse by (auto simp: make_SensorUplink_def d_def)
  next
    case (Inr bs)
    then show ?thesis
      using assms bat [of bs] unfolding parse by (auto simp: make_SensorUplink_def d_def pay)
  qed
qed

definition demo_webhook :: webhook where
  "demo_webhook =
     \<lparr>wh_deviceInfo = Some \<lparr>di_devEui = Some ''E8E1'', di_deviceName = None, di_applicationId = None,
                              di_deviceProfileName = None\<rparr>,
      wh_rxInfo = Some [\<lparr>rx_rssi = Some (-80), rx_snr = Some 7, rx_gatewayId = Some ''gw''\<rparr>],
      wh_txInfo = None, wh_fPort = None, wh_fCnt = None,
      wh_data = Some (b64encode [1, 36]), wh_time = Some 10\<rparr>"

theorem browan_uplink_decoded_witness:
  "\<exists>u. browan_parse_uplink demo_webhook = Inr u \<and> su_occupancy_state u = Some OCCUPIED
     \<and> su_battery u = Some (36 / 100)"
proof -
  have "first_rx demo_webhook = Inr \<lparr>rx_rssi = Some (-80), rx_snr = Some 7, rx_gatewayId = Some ''gw''\<rparr>"
    by (simp add: demo_webhook_def first_rx_def)
  from browan_uplink_decoded [OF this] obtain u where "browan_parse_uplink demo_webhook = Inr u"
    "\<forall>bs. wh_data demo_webhook = Some (b64encode bs) \<longrightarrow>
          su_occupancy_state u = Some (if bs \<noteq> [] \<and> odd (unat (hd bs)) then OCCUPIED else FREE)
          \<and> su_battery u = (if length bs \<ge> 2 then Some (of_nat (unat (bs ! 1)) / 100) else None)"
    by (auto simp: demo_webhook_def opt_in_range_def)
  moreover have "wh_data demo_webhook = Some (b64encode [1, 36])" by (simp add: demo_webhook_def)
  ultimately show ?thesis by fastforce
qed

end
