(* ===== verification/Webhook_Validation.thy ===== *)
theory Webhook_Validation
  imports Models Codec
begin

text \<open>
  \<open>src/webhook_validation.py\<close>: the HMAC signature of ChirpStack webhooks and the secrets of the tenants.

  The table \<open>webhook_secrets\<close> is a list of rows. The keyed hash is an argument \<open>hmac\<close>, from the secret and the
  body to the hexadecimal digest, as is the random secret \<open>token_hex(32)\<close>. \<open>fails\<close> says whether the query raises.
\<close>

section \<open>Secrets and signatures\<close>

record secret_row =
  ws_id :: uuid
  ws_tenant_id :: uuid
  ws_secret_hash :: string
  ws_algorithm :: string
  ws_is_active :: bool
  ws_created_at :: instant

type_synonym hmac_sha256 = "string \<Rightarrow> byte list \<Rightarrow> string"

definition is_ascii :: "string \<Rightarrow> bool" where "is_ascii s = list_all (\<lambda>c. ord c < 128) s"

text \<open>\<open>hmac.compare_digest\<close> on two strings raises \<open>TypeError\<close> unless both are ASCII.\<close>

definition compare_digest :: "string \<Rightarrow> string \<Rightarrow> bool result" where
  "compare_digest a b = (if is_ascii a \<and> is_ascii b then Inr (a = b) else Inl TypeError)"

definition active_secret :: "uuid \<Rightarrow> secret_row list \<Rightarrow> secret_row option" where
  "active_secret tenant_id rows =
     first_desc ws_created_at (filter (\<lambda>r. ws_tenant_id r = tenant_id \<and> ws_is_active r) rows)"

definition verify_webhook_signature ::
  "hmac_sha256 \<Rightarrow> bool \<Rightarrow> secret_row list \<Rightarrow> string option \<Rightarrow> uuid option \<Rightarrow> byte list \<Rightarrow> http_error + bool" where
  "verify_webhook_signature hmac fails rows signature_header tenant_id body =
     (case (signature_header, tenant_id) of
        (None, _) \<Rightarrow> Inr True
      | (Some sig, None) \<Rightarrow> Inr True
      | (Some sig, Some t) \<Rightarrow>
          if sig = [] then Inr True
          else if fails then Inl (HTTPException 500 ''Failed to verify webhook signature'')
          else case active_secret t rows of
            None \<Rightarrow> Inr True
          | Some r \<Rightarrow>
              (case compare_digest sig (hmac (ws_secret_hash r) body) of
                 Inl _ \<Rightarrow> Inl (HTTPException 500 ''Failed to verify webhook signature'')
               | Inr same \<Rightarrow>
                   if \<not> same then Inl (HTTPException 401 ''Invalid webhook signature'') else Inr True))"

definition insert_secret :: "uuid \<Rightarrow> uuid \<Rightarrow> string \<Rightarrow> instant \<Rightarrow> secret_row list \<Rightarrow> secret_row list" where
  "insert_secret i tenant_id new_secret now rows =
     rows @ [\<lparr>ws_id = i, ws_tenant_id = tenant_id, ws_secret_hash = new_secret, ws_algorithm = ''sha256'',
              ws_is_active = True, ws_created_at = now\<rparr>]"

definition get_or_create_webhook_secret ::
  "uuid \<Rightarrow> uuid \<Rightarrow> string \<Rightarrow> instant \<Rightarrow> secret_row list \<Rightarrow> secret_row list \<times> string result" where
  "get_or_create_webhook_secret i tenant_id new_secret now rows =
     (if sql_exists (\<lambda>r. ws_tenant_id r = tenant_id \<and> ws_is_active r) rows
      then (rows, Inl (ValueError (''Webhook secret already exists for this tenant. ''
              @ ''Secrets cannot be retrieved after creation for security reasons.'')))
      else (insert_secret i tenant_id new_secret now rows, Inr new_secret))"

definition rotate_webhook_secret ::
  "uuid \<Rightarrow> uuid \<Rightarrow> string \<Rightarrow> instant \<Rightarrow> secret_row list \<Rightarrow> secret_row list \<times> string" where
  "rotate_webhook_secret i tenant_id new_secret now rows =
     (insert_secret i tenant_id new_secret now
        (sql_update (\<lambda>r. ws_tenant_id r = tenant_id) (\<lambda>r. r\<lparr>ws_is_active := False\<rparr>) rows), new_secret)"

section \<open>Lemmas\<close>

lemma active_of_others:
  assumes "t \<noteq> t'"
  shows "active_secret t' (insert_secret i t sec now rows) = active_secret t' rows"
    and "active_secret t' (sql_update (\<lambda>r. ws_tenant_id r = t) (\<lambda>r. r\<lparr>ws_is_active := False\<rparr>) rows)
       = active_secret t' rows"
proof -
  show "active_secret t' (insert_secret i t sec now rows) = active_secret t' rows"
    using assms by (simp add: active_secret_def insert_secret_def)
  have "filter (\<lambda>r. ws_tenant_id r = t' \<and> ws_is_active r)
      (sql_update (\<lambda>r. ws_tenant_id r = t) (\<lambda>r. r\<lparr>ws_is_active := False\<rparr>) rows)
    = filter (\<lambda>r. ws_tenant_id r = t' \<and> ws_is_active r) rows"
    using assms by (induction rows) (auto simp: sql_update_def)
  then show "active_secret t' (sql_update (\<lambda>r. ws_tenant_id r = t) (\<lambda>r. r\<lparr>ws_is_active := False\<rparr>) rows)
      = active_secret t' rows" by (simp add: active_secret_def)
qed

lemma none_active_after_update:
  "filter (\<lambda>r. ws_tenant_id r = t \<and> ws_is_active r)
     (sql_update (\<lambda>r. ws_tenant_id r = t) (\<lambda>r. r\<lparr>ws_is_active := False\<rparr>) rows) = []"
  by (induction rows) (simp_all add: sql_update_def)

lemma active_after_rotation:
  "map_option ws_secret_hash (active_secret t (fst (rotate_webhook_secret i t sec now rows))) = Some sec"
  unfolding rotate_webhook_secret_def insert_secret_def active_secret_def fst_conv filter_append
    none_active_after_update by simp

text \<open>
  Rotation replaces the secret at once. After it, a signed request of the tenant is accepted exactly
  when its signature is the keyed hash under the new secret and is refused with 401 otherwise, whatever secrets
  there were before, while the answers for every other tenant are unchanged. A request without a signature is
  accepted all the same.
\<close>

theorem rotated_secret_decides:
  assumes "is_ascii sig" "sig \<noteq> []" "\<forall>k b. is_ascii (hmac k b)"
    and "rotate_webhook_secret i t new_secret now rows = (rows', returned)"
  shows "verify_webhook_signature hmac False rows' (Some sig) (Some t) body
      = (if sig = hmac returned body then Inr True else Inl (HTTPException 401 ''Invalid webhook signature''))
    \<and> (\<forall>t'. t' \<noteq> t \<longrightarrow> verify_webhook_signature hmac fails rows' h (Some t') body
          = verify_webhook_signature hmac fails rows h (Some t') body)
    \<and> verify_webhook_signature hmac fails rows' None (Some t) body = Inr True"
proof (intro conjI allI impI)
  have rows': "rows' = fst (rotate_webhook_secret i t new_secret now rows)" "returned = new_secret"
    using assms(4) by (auto simp: rotate_webhook_secret_def)
  obtain r where r: "active_secret t rows' = Some r" "ws_secret_hash r = new_secret"
    using active_after_rotation [of t i new_secret now rows] by (auto simp: rows')
  show "verify_webhook_signature hmac False rows' (Some sig) (Some t) body
      = (if sig = hmac returned body then Inr True else Inl (HTTPException 401 ''Invalid webhook signature''))"
    using assms(1-3) r by (simp add: verify_webhook_signature_def compare_digest_def rows'(2))
  show "verify_webhook_signature hmac fails rows' h (Some t') body
      = verify_webhook_signature hmac fails rows h (Some t') body" if "t' \<noteq> t" for t'
    using that by (cases h) (simp_all add: verify_webhook_signature_def rows' rotate_webhook_secret_def active_of_others)
  show "verify_webhook_signature hmac fails rows' None (Some t) body = Inr True"
    by (simp add: verify_webhook_signature_def)
qed

theorem rotated_secret_decides_witness:
  "verify_webhook_signature (\<lambda>k b. if k = ''new'' then ''aa'' else ''bb'') False
     (fst (rotate_webhook_secret ''2'' ''t'' ''new'' 5 (fst (get_or_create_webhook_secret ''1'' ''t'' ''old'' 9 []))))
     (Some ''bb'') (Some ''t'') [] = Inl (HTTPException 401 ''Invalid webhook signature'')"
proof -
  let ?h = "\<lambda>(k :: string) (b :: byte list). if k = ''new'' then ''aa'' else ''bb''"
  let ?old = "fst (get_or_create_webhook_secret ''1'' ''t'' ''old'' 9 [])"
  have "is_ascii ''bb''" "\<forall>k b. is_ascii (?h k b)" by (simp_all add: is_ascii_def)
  from rotated_secret_decides [OF this(1) _ this(2), of "''2''" "''t''" "''new''" 5 ?old] show ?thesis
    by (simp add: rotate_webhook_secret_def)
qed

end
