(* ===== verification/Orphan_Devices.thy ===== *)
theory Orphan_Devices
  imports Database
begin

text \<open>
  \<open>src/orphan_devices.py\<close>: the record of uplinks from devices that belong to no space.

  \<open>orphan_devices\<close> (migration 004) is a list of rows with a unique EUI. \<open>get_orphan_devices\<close> reads a view
  instead, whose columns and rows are arguments; \<open>v_orphan_columns\<close> are those migration 008 gives it.
  A Boolean argument says whether a query raises.
\<close>

section \<open>Uplinks\<close>

record orphan_row =
  od_id :: uuid
  od_dev_eui :: string
  od_first_seen :: instant
  od_last_seen :: instant
  od_uplink_count :: int
  od_last_payload :: "string option"
  od_last_rssi :: "int option"
  od_last_snr :: "rat option"
  od_assigned_to_space_id :: "uuid option"
  od_assigned_at :: "instant option"

datatype orphan_info =
    Orphan string int instant instant bool
  | OrphanError string

text \<open>The upsert, by the unique EUI.\<close>

definition upsert_orphan ::
  "uuid \<Rightarrow> instant \<Rightarrow> string \<Rightarrow> string option \<Rightarrow> int option \<Rightarrow> rat option \<Rightarrow> orphan_row list \<Rightarrow> orphan_row list" where
  "upsert_orphan i now device_eui payload rssi snr rows =
     (if sql_exists (\<lambda>r. od_dev_eui r = device_eui) rows
      then sql_update (\<lambda>r. od_dev_eui r = device_eui)
             (\<lambda>r. r\<lparr>od_last_seen := now, od_uplink_count := od_uplink_count r + 1, od_last_payload := payload,
                    od_last_rssi := rssi, od_last_snr := snr\<rparr>) rows
      else rows @ [\<lparr>od_id = i, od_dev_eui = device_eui, od_first_seen = now, od_last_seen = now,
                    od_uplink_count = 1, od_last_payload = payload, od_last_rssi = rssi, od_last_snr = snr,
                    od_assigned_to_space_id = None, od_assigned_at = None\<rparr>])"

definition handle_orphan_device ::
  "bool \<Rightarrow> uuid \<Rightarrow> instant \<Rightarrow> string \<Rightarrow> string option \<Rightarrow> int option \<Rightarrow> rat option \<Rightarrow> orphan_row list
   \<Rightarrow> orphan_row list \<times> orphan_info" where
  "handle_orphan_device fails i now device_eui payload rssi snr rows =
     (if fails then (rows, OrphanError device_eui)
      else
        let rows' = upsert_orphan i now device_eui payload rssi snr rows
        in (rows',
            case find (\<lambda>r. od_dev_eui r = device_eui) rows' of
              None \<Rightarrow> OrphanError device_eui
            | Some r \<Rightarrow> Orphan device_eui (od_uplink_count r) (od_first_seen r) (od_last_seen r)
                          (od_assigned_to_space_id r \<noteq> None)))"

text \<open>The command tag is \<open>UPDATE 1\<close> exactly when one row matched.\<close>

definition assign_orphan_device :: "bool \<Rightarrow> instant \<Rightarrow> string \<Rightarrow> uuid \<Rightarrow> orphan_row list \<Rightarrow> orphan_row list \<times> bool" where
  "assign_orphan_device fails now device_eui space_id rows =
     (if fails then (rows, False)
      else (sql_update (\<lambda>r. od_dev_eui r = device_eui)
              (\<lambda>r. r\<lparr>od_assigned_to_space_id := Some space_id, od_assigned_at := Some now\<rparr>) rows,
            sql_count (\<lambda>r. od_dev_eui r = device_eui) rows = 1))"

section \<open>Listing and deleting\<close>

definition selected_columns :: "string list" where
  "selected_columns = [''id'', ''dev_eui'', ''first_seen'', ''last_seen'', ''uplink_count'', ''last_rssi'',
     ''last_snr'', ''assigned_to_space_id'', ''assigned_at'']"

definition v_orphan_columns :: "string list" where
  "v_orphan_columns = [''id'', ''dev_eui'', ''device_model'', ''status'', ''type_code'', ''device_type_name'',
     ''first_seen'', ''last_seen'', ''metadata'', ''created_at'', ''device_category'']"

definition get_orphan_devices ::
  "string list \<Rightarrow> instant \<Rightarrow> bool \<Rightarrow> int option \<Rightarrow> orphan_row list \<Rightarrow> orphan_row list" where
  "get_orphan_devices columns now include_assigned since_hours rows =
     (if \<not> set selected_columns \<subseteq> set columns then []
      else rev (sort_key od_last_seen (rev (filter (\<lambda>r.
             (include_assigned \<or> od_assigned_to_space_id r = None)
             \<and> (case since_hours of None \<Rightarrow> True
                | Some h \<Rightarrow> h = 0 \<or> od_last_seen r > now - of_int h * 3600)) rows))))"

record orphan_display =
  ox_dev_eui :: string
  ox_status :: string

text \<open>Deletes the device from the registries; the rows of \<open>orphan_devices\<close> are not touched.\<close>

definition delete_orphan_device ::
  "bool \<Rightarrow> string \<Rightarrow> pdb \<times> orphan_display list \<Rightarrow> (pdb \<times> orphan_display list) \<times> bool" where
  "delete_orphan_device fails device_eui w =
     (case w of (db, displays) \<Rightarrow>
      if fails then (w, False)
      else
        let sensor = (\<lambda>r. sd_dev_eui r = device_eui \<and> sd_status r = ''orphan'');
            db' = db\<lparr>db_sensor_devices := sql_delete sensor (db_sensor_devices db)\<rparr>;
            display = (\<lambda>r. ox_dev_eui r = device_eui \<and> ox_status r = ''orphan'')
        in if sql_count sensor (db_sensor_devices db) = 1 then ((db', displays), True)
           else ((db', sql_delete display displays), sql_count display displays = 1))"

section \<open>Counting uplinks\<close>

record orphan_uplink =
  ou_id :: uuid
  ou_now :: instant
  ou_eui :: string
  ou_payload :: "string option"
  ou_rssi :: "int option"
  ou_snr :: "rat option"

definition orphan_uplinks :: "orphan_uplink list \<Rightarrow> orphan_row list \<Rightarrow> orphan_row list" where
  "orphan_uplinks us rows =
     fold (\<lambda>u rows. fst (handle_orphan_device False (ou_id u) (ou_now u) (ou_eui u) (ou_payload u) (ou_rssi u)
             (ou_snr u) rows)) us rows"

lemma orphan_uplinks_snoc:
  "orphan_uplinks (us @ [u]) rows =
     upsert_orphan (ou_id u) (ou_now u) (ou_eui u) (ou_payload u) (ou_rssi u) (ou_snr u) (orphan_uplinks us rows)"
  by (simp add: orphan_uplinks_def handle_orphan_device_def Let_def)

lemma find_sql_update:
  assumes "\<And>r. f (g r) = f r"
  shows "find (\<lambda>r. f r = k) (sql_update (\<lambda>r. f r = j) g rows)
    = (if k = j then map_option g (find (\<lambda>r. f r = k) rows) else find (\<lambda>r. f r = k) rows)"
  by (induction rows) (auto simp: sql_update_def assms)

lemma find_append:
  "find P (xs @ ys) = (case find P xs of None \<Rightarrow> find P ys | Some x \<Rightarrow> Some x)"
  by (induction xs) auto

lemma upsert_find:
  "find (\<lambda>r. od_dev_eui r = k) (upsert_orphan i now e p rs sn rows) =
     (if k \<noteq> e then find (\<lambda>r. od_dev_eui r = k) rows
      else Some (case find (\<lambda>r. od_dev_eui r = e) rows of
          None \<Rightarrow> \<lparr>od_id = i, od_dev_eui = e, od_first_seen = now, od_last_seen = now, od_uplink_count = 1,
                  od_last_payload = p, od_last_rssi = rs, od_last_snr = sn, od_assigned_to_space_id = None,
                  od_assigned_at = None\<rparr>
        | Some r \<Rightarrow> r\<lparr>od_last_seen := now, od_uplink_count := od_uplink_count r + 1, od_last_payload := p,
                    od_last_rssi := rs, od_last_snr := sn\<rparr>))"
proof (cases "sql_exists (\<lambda>r. od_dev_eui r = e) rows")
  case True
  then have "find (\<lambda>r. od_dev_eui r = e) rows \<noteq> None" by (auto simp: find_None_iff sql_exists_def list_ex_iff)
  with True show ?thesis by (auto simp: upsert_orphan_def find_sql_update)
next
  case False
  then have "find (\<lambda>r. od_dev_eui r = e) rows = None" by (auto simp: find_None_iff sql_exists_def list_ex_iff)
  with False show ?thesis by (auto simp: upsert_orphan_def find_append split: option.split)
qed

text \<open>
  The record of an unknown device counts its uplinks: after any sequence of uplinks from any devices,
  starting with an empty table, a device has a row exactly when it sent one, the count is the number of its
  uplinks, the first one gives \<open>first_seen\<close> and the last one gives the rest.
\<close>

theorem orphan_uplinks_counted:
  "find (\<lambda>r. od_dev_eui r = e) (orphan_uplinks us []) =
     (let mine = filter (\<lambda>u. ou_eui u = e) us in
      if mine = [] then None
      else Some \<lparr>od_id = ou_id (hd mine), od_dev_eui = e, od_first_seen = ou_now (hd mine),
                 od_last_seen = ou_now (last mine), od_uplink_count = int (length mine),
                 od_last_payload = ou_payload (last mine), od_last_rssi = ou_rssi (last mine),
                 od_last_snr = ou_snr (last mine), od_assigned_to_space_id = None, od_assigned_at = None\<rparr>)"
proof (induction us rule: rev_induct)
  case Nil
  show ?case by (simp add: orphan_uplinks_def)
next
  case (snoc u us)
  then show ?case by (auto simp: orphan_uplinks_snoc upsert_find Let_def)
qed

text \<open>With the view of migration 008 the listing is empty, whatever was recorded.\<close>

lemma orphan_listing_empty: "get_orphan_devices v_orphan_columns now include_assigned since_hours rows = []"
  by (simp add: get_orphan_devices_def selected_columns_def v_orphan_columns_def)

end
