(* ===== verification/Uplink.thy ===== *)
theory Uplink
  imports Background_Tasks Device_Handlers Webhook_Validation Orphan_Devices
begin

text \<open>
  \<open>process_uplink\<close> of \<open>src/main.py\<close>: the webhook that turns a sensor uplink into a change of a space.

  The handler calls, in this order, the device registry, the tables of \<open>Database\<close>, the signature check, the device
  handlers, Redis (for Kuando displays), device discovery, the record of unknown devices, and the state manager.
  The state manager is an argument \<open>upd\<close>, as in \<open>Background_Tasks\<close>; \<open>fails\<close> says which of the calls raise.
  The JSON texts stored for Kuando displays are written and read by the arguments \<open>dumps\<close> and \<open>loads\<close>.
\<close>

section \<open>The handler\<close>

datatype call_site =
    GetDevice | GetSpace | ReadSecret | StoreKuando | ReadPending | DeletePending
  | DeviceType | SensorDevice | TrackOrphan | InsertTelemetry | InsertReading

record ProcessingResult =
  pr_status :: string
  pr_device_eui :: string
  pr_space_code :: "string option"
  pr_state :: "string option"

record kuando_uplink =
  ku_timestamp :: instant
  ku_downlinks_received :: int
  ku_rgb :: "int list"
  ku_options :: int
  ku_request_id :: string

record 'r uplink_env =
  ue_redis :: "'r redis_ops"
  ue_upd :: "'r updater"
  ue_hmac :: hmac_sha256
  ue_fails :: "call_site \<Rightarrow> bool"
  ue_dumps :: "kuando_uplink \<Rightarrow> string"
  ue_loads :: "string \<Rightarrow> (int list \<times> int) result"
  ue_now :: instant
  ue_request_id :: string
  ue_type_id :: uuid
  ue_device_id :: uuid
  ue_orphan_id :: uuid
  ue_default_tenant :: "uuid option"

record 'r uplink_world =
  uw_sdb :: "'r \<times> sm_db"
  uw_registry :: registry
  uw_secrets :: "secret_row list"
  uw_orphans :: "orphan_row list"

definition uw_pdb :: "'r uplink_world \<Rightarrow> pdb" where "uw_pdb w = sm_pdb (snd (uw_sdb w))"

definition with_pdb :: "pdb \<Rightarrow> 'r uplink_world \<Rightarrow> 'r uplink_world" where
  "with_pdb db w = w\<lparr>uw_sdb := on_pdb (\<lambda>_. db) (uw_sdb w)\<rparr>"

text \<open>\<open>device_info.get(key, default)\<close>.\<close>

definition info_text :: "(device_info \<Rightarrow> string option) \<Rightarrow> string \<Rightarrow> webhook \<Rightarrow> string" where
  "info_text f d data = str_default (Option.bind (wh_deviceInfo data) f) d"

text \<open>The handler class stored with the device type first, then the handler for the device profile.\<close>

definition choose_handler ::
  "(sensor_device_row \<times> device_type_row option) option \<Rightarrow> string \<Rightarrow> registry \<Rightarrow> registry \<times> handler option" where
  "choose_handler device_record profile_name g =
     (let stored = Option.bind device_record (\<lambda>(r, t). Option.bind t dt_handler_class);
          h = (if truthy stored then get_handler_by_class (str_field stored) g else None)
      in case h of Some h \<Rightarrow> (g, Some h) | None \<Rightarrow> get_handler profile_name g)"

definition pending_key :: "string \<Rightarrow> string" where
  "pending_key device_eui = ''device:'' @ device_eui @ '':pending_downlink''"

text \<open>
  Kuando verification, on the decoded payload of at least eight bytes: remember the reported colours, and compare
  them with the command whose confirmation is pending. Every exception is swallowed.
\<close>

definition verify_kuando :: "'r uplink_env \<Rightarrow> string \<Rightarrow> byte list \<Rightarrow> 'r \<Rightarrow> 'r" where
  "verify_kuando U device_eui bs s =
     (let R = ue_redis U; v = (\<lambda>i. uint (bs ! i)) in
      if length bs < 8 \<or> ue_fails U StoreKuando then s
      else
        let s = rset R s (last_known_key device_eui)
                  (ue_dumps U \<lparr>ku_timestamp = ue_now U, ku_downlinks_received = v 0, ku_rgb = [v 1, v 2, v 3],
                               ku_options = v 4, ku_request_id = ue_request_id U\<rparr>) 3600
        in if ue_fails U ReadPending then s
           else
             let pending = rget R s (pending_key device_eui) in
             if \<not> truthy pending then s
             else case ue_loads U (str_field pending) of
                    Inl _ \<Rightarrow> s
                  | Inr (expected, counter) \<Rightarrow>
                      if length expected = 3 \<and> expected = [v 1, v 2, v 3] \<and> counter < v 0
                         \<and> \<not> ue_fails U DeletePending
                      then rdel R s (pending_key device_eui) else s)"

definition kuando_step :: "'r uplink_env \<Rightarrow> string \<Rightarrow> string \<Rightarrow> 'r uplink_world \<Rightarrow> 'r uplink_world" where
  "kuando_step U device_eui payload w =
     (if startswith device_eui ''202020'' \<and> payload \<noteq> [] then
        (case b64decode payload of
           Inl _ \<Rightarrow> w
         | Inr bs \<Rightarrow> w\<lparr>uw_sdb := (verify_kuando U device_eui bs (fst (uw_sdb w)), snd (uw_sdb w))\<rparr>)
      else w)"

text \<open>The keys of the parsed data, the sample payload of device discovery.\<close>

definition parsed_keys :: "string list" where
  "parsed_keys = [''device_eui'', ''device_name'', ''application_id'', ''frequency'', ''dr'', ''fport'', ''fcnt'',
     ''payload'', ''rssi'', ''snr'', ''gateway_id'', ''timestamp'']"

text \<open>\<open>Inl\<close>: one of the two statements raised; what the first did stays done.\<close>

definition discover :: "'r uplink_env \<Rightarrow> string \<Rightarrow> string \<Rightarrow> string \<Rightarrow> 'r uplink_world \<Rightarrow> 'r uplink_world + 'r uplink_world" where
  "discover U device_eui device_name profile_name w =
     (if ue_fails U DeviceType then Inl w
      else case get_or_create_device_type_by_profile (uw_pdb w) (ue_type_id U) profile_name (Some parsed_keys)
                  ''sensor'' of
        (db, device_type) \<Rightarrow>
          if ue_fails U SensorDevice then Inl (with_pdb db w)
          else Inr (with_pdb (fst (get_or_create_sensor_device db (ue_device_id U) (ue_now U) device_eui
                      (dt_id device_type) (Some device_name) (Some (dt_type_code device_type)))) w))"

definition result :: "string \<Rightarrow> string \<Rightarrow> string option \<Rightarrow> string option \<Rightarrow> ProcessingResult" where
  "result status eui code st = \<lparr>pr_status = status, pr_device_eui = eui, pr_space_code = code, pr_state = st\<rparr>"

abbreviation error_result :: "string \<Rightarrow> ProcessingResult" where
  "error_result eui \<equiv> result ''error'' eui None None"

text \<open>A device that belongs to no space.\<close>

definition track_orphan ::
  "'r uplink_env \<Rightarrow> string \<Rightarrow> parsed_webhook \<Rightarrow> SensorUplink option \<Rightarrow> 'r uplink_world \<Rightarrow> 'r uplink_world \<times> ProcessingResult" where
  "track_orphan U device_eui parsed uplink w =
     (let w = w\<lparr>uw_orphans := fst (handle_orphan_device (ue_fails U TrackOrphan) (ue_orphan_id U) (ue_now U) device_eui
                  (if pw_payload parsed = [] then None else Some (pw_payload parsed)) (pw_rssi parsed)
                  (pw_snr parsed) (uw_orphans w))\<rparr>
      in case uplink of
           None \<Rightarrow> (w, result ''orphan_device'' device_eui None None)
         | Some u \<Rightarrow>
             if ue_fails U InsertTelemetry then (w, error_result device_eui)
             else (with_pdb (insert_telemetry (uw_pdb w) (ue_now U) (ue_default_tenant U) device_eui u) w,
                   result ''orphan_device'' device_eui None None))"

text \<open>The uplink of an assigned sensor: the state first, then the reading.\<close>

definition apply_reading ::
  "'r uplink_env \<Rightarrow> string \<Rightarrow> space_row \<Rightarrow> parsed_webhook \<Rightarrow> SensorUplink option \<Rightarrow> 'r uplink_world
   \<Rightarrow> 'r uplink_world \<times> ProcessingResult" where
  "apply_reading U device_eui space parsed uplink w =
     (case uplink of
        None \<Rightarrow> (w, result ''no_occupancy_data'' device_eui (Some (sp_code space)) None)
      | Some u \<Rightarrow>
      (case su_occupancy_state u of
        None \<Rightarrow> (w, result ''no_occupancy_data'' device_eui (Some (sp_code space)) None)
      | Some st \<Rightarrow>
          (case ue_upd U \<lparr>uq_space_id = sp_id space, uq_new_state = st, uq_source = ''sensor_uplink'',
                          uq_request_id = ue_request_id U\<rparr> (uw_sdb w) of
             (sdb, Inl _) \<Rightarrow> (w\<lparr>uw_sdb := sdb\<rparr>, error_result device_eui)
           | (sdb, Inr r) \<Rightarrow>
               let w = w\<lparr>uw_sdb := sdb\<rparr>
               in if ue_fails U InsertReading then (w, error_result device_eui)
                  else (with_pdb (insert_sensor_reading (uw_pdb w) (ue_now U) device_eui (Some (sp_id space))
                          (Some (SpaceState_value st)) (su_battery u) (su_rssi u) (su_snr u) (Some (su_timestamp u))
                          (pw_fcnt parsed) (sp_tenant_id space)) w,
                        result ''success'' device_eui (Some (sp_code space))
                          (Some (SpaceState_value (ur_new_state r)))))))"

definition process_uplink ::
  "'r uplink_env \<Rightarrow> webhook \<Rightarrow> string option \<Rightarrow> byte list \<Rightarrow> 'r uplink_world \<Rightarrow> 'r uplink_world \<times> ProcessingResult" where
  "process_uplink U data signature body w =
     (let device_eui_raw = info_text di_devEui [] data;
          device_name = info_text di_deviceName ''unknown'' data;
          profile_name = info_text di_deviceProfileName ''unknown'' data
      in if device_eui_raw = [] then (w, error_result ''unknown'')
      else case normalize_deveui device_eui_raw of
        Inl _ \<Rightarrow> (w, error_result ''unknown'')
      | Inr device_eui \<Rightarrow>
      if ue_fails U GetDevice \<or> ue_fails U GetSpace then (w, error_result device_eui)
      else
      (let device_record = get_sensor_device_by_deveui (uw_pdb w) device_eui;
           space = get_space_by_sensor (uw_pdb w) device_eui;
           tenant_id = Option.bind space sp_tenant_id
       in case verify_webhook_signature (ue_hmac U) (ue_fails U ReadSecret) (uw_secrets w) signature tenant_id body of
         Inl _ \<Rightarrow> (w, error_result device_eui)
       | Inr _ \<Rightarrow>
       (case choose_handler device_record profile_name (uw_registry w) of
         (g, handler) \<Rightarrow>
       (let w = w\<lparr>uw_registry := g\<rparr> in
        case parse_chirpstack_webhook data of
          Inl _ \<Rightarrow> (w, error_result device_eui)
        | Inr parsed \<Rightarrow>
        (let uplink = (case handler of
                         None \<Rightarrow> None
                       | Some h \<Rightarrow> (case parse_uplink h data of Inl _ \<Rightarrow> None | Inr u \<Rightarrow> Some u))
         in case discover U device_eui device_name profile_name (kuando_step U device_eui (pw_payload parsed) w) of
              Inl w \<Rightarrow> (w, error_result device_eui)
            | Inr w \<Rightarrow>
                (case space of
                   None \<Rightarrow> track_orphan U device_eui parsed uplink w
                 | Some sp \<Rightarrow> apply_reading U device_eui sp parsed uplink w))))))"

section \<open>What the steps leave alone\<close>

text \<open>Device discovery changes the registries of devices only; the Kuando step changes two keys of Redis only.\<close>

definition core :: "pdb \<Rightarrow> space_row list \<times> state_change list \<times> reading_row list \<times> Reservation list" where
  "core db = (db_spaces db, db_state_changes db, db_sensor_readings db, db_reservations db)"

lemma core_device_type: "core (fst (get_or_create_device_type_by_profile db i p k c)) = core db"
  by (simp add: get_or_create_device_type_by_profile_def core_def Let_def split: option.split)

lemma core_sensor_device: "core (fst (get_or_create_sensor_device db i now e t n m)) = core db"
  by (simp add: get_or_create_sensor_device_def core_def Let_def split: option.split)

lemma uw_pdb_with [simp]: "uw_pdb (with_pdb db w) = db"
  by (simp add: uw_pdb_def with_pdb_def on_pdb_def)

lemma fst_with_pdb [simp]: "fst (uw_sdb (with_pdb db w)) = fst (uw_sdb w)"
  by (simp add: with_pdb_def on_pdb_def)

lemma kuando_pdb [simp]: "snd (uw_sdb (kuando_step U e p w)) = snd (uw_sdb w)"
  by (simp add: kuando_step_def split: sum.split)

lemma discover_world:
  assumes "discover U e n p w = Inr w'"
  shows "core (uw_pdb w') = core (uw_pdb w)" "fst (uw_sdb w') = fst (uw_sdb w)"
  using assms core_device_type [of "uw_pdb w" "ue_type_id U" p "Some parsed_keys" "''sensor''"]
  by (auto simp: discover_def core_sensor_device split: prod.splits if_splits)

lemma discover_ok:
  assumes "\<not> ue_fails U DeviceType" "\<not> ue_fails U SensorDevice"
  shows "\<exists>w'. discover U e n p w = Inr w'"
  using assms by (auto simp: discover_def split: prod.split)

lemma get_space_core: "core a = core b \<Longrightarrow> get_space a i = get_space b i"
  by (simp add: core_def get_space_def)

context redis
begin

lemma verify_kuando_frame:
  assumes "ue_redis U = R" "k \<noteq> last_known_key e" "k \<noteq> pending_key e"
  shows "contents (verify_kuando U e bs s) k = contents s k"
  using assms by (auto simp: verify_kuando_def Let_def set del split: sum.split)

lemma kuando_frame:
  assumes "ue_redis U = R" "hd k \<noteq> CHR ''d''"
  shows "contents (fst (uw_sdb (kuando_step U e p w))) k = contents (fst (uw_sdb w)) k"
proof -
  have "k \<noteq> last_known_key e" "k \<noteq> pending_key e"
    using assms(2) by (auto simp: last_known_key_def pending_key_def)
  then show ?thesis
    by (simp add: kuando_step_def verify_kuando_frame [OF assms(1)] split: sum.split)
qed

end

section \<open>An accepted reading\<close>

text \<open>An accepted change, with no failing call and the lock free, ends in a successful result.\<close>

lemma update_body_accepted:
  assumes "accepted q (sm_pdb db) = Some cur"
  shows "\<exists>r. snd (update_body R E no_faults C now i q (s, db)) = Inr r \<and> ur_new_state r = uq_new_state q"
proof -
  obtain old where "get_space (sm_pdb db) (uq_space_id q) = Some old" "sp_state old \<noteq> uq_new_state q"
      "is_valid_transition (sp_state old) (uq_new_state q) (uq_source q)"
    using assms by (auto simp: accepted_def split: option.splits if_splits)
  then show ?thesis
    by (simp add: update_body_def no_faults_def Let_def split: prod.split)
qed

lemma sm_update_accepted:
  assumes "redis R c" "c (fst sdb) (lock_key (''space:'' @ uq_space_id q)) = None"
    and "accepted q (sm_pdb (snd sdb)) = Some cur"
  obtains sdb' r where "sm_update_space_state R E no_faults C others lv now i q sdb = (sdb', Inr r)"
    "ur_new_state r = uq_new_state q" "sm_pdb (snd sdb') = applied q now cur (sm_pdb (snd sdb))"
proof -
  obtain s db where sdb: "sdb = (s, db)" by (cases sdb)
  let ?k = "lock_key (''space:'' @ uq_space_id q)"
  have lock: "enter_lock R others (''space:'' @ uq_space_id q) lv s = (rset R s ?k lv lock_timeout, True)"
    using assms(2) by (simp add: enter_lock_def redis.set_nx [OF assms(1)] sdb)
  obtain r where r: "snd (update_body R E no_faults C now i q (rset R s ?k lv lock_timeout, db)) = Inr r"
      "ur_new_state r = uq_new_state q"
    using update_body_accepted [OF assms(3) [unfolded sdb snd_conv], where R = R and E = E and C = C and now = now
        and i = i and s = "rset R s ?k lv lock_timeout"] by (elim exE conjE)
  have "snd (sm_update_space_state R E no_faults C others lv now i q sdb) = Inr r"
    using r(1) unfolding sm_update_space_state_def sdb Let_def prod.case lock bool.case
    by (simp only: snd_conv split: prod.split) auto
  moreover have "sm_pdb (snd (fst (sm_update_space_state R E no_faults C others lv now i q sdb)))
      = applied q now cur (sm_pdb (snd sdb))"
    using assms(3) unfolding sdb update_pdb lock fst_conv snd_conv if_True update_body_pdb
    by (simp add: no_faults_def)
  ultimately show thesis
    using r(2) that [of "fst (sm_update_space_state R E no_faults C others lv now i q sdb)" r]
    by (simp add: prod_eq_iff)
qed

text \<open>
  The webhook reports an occupancy of a sensor that belongs to a space: the EUI is well formed and assigned, the
  signature is accepted, a handler is found and decodes the body.
\<close>

definition reports ::
  "'r uplink_env \<Rightarrow> webhook \<Rightarrow> string option \<Rightarrow> byte list \<Rightarrow> 'r uplink_world \<Rightarrow> space_row \<Rightarrow> SensorUplink \<Rightarrow> SpaceState \<Rightarrow> bool" where
  "reports U data signature body w sp u st \<longleftrightarrow>
     (let raw = info_text di_devEui [] data in
      raw \<noteq> [] \<and> (\<exists>e h. normalize_deveui raw = Inr e
        \<and> get_space_by_sensor (uw_pdb w) e = Some sp
        \<and> verify_webhook_signature (ue_hmac U) (ue_fails U ReadSecret) (uw_secrets w) signature (sp_tenant_id sp) body
            = Inr True
        \<and> snd (choose_handler (get_sensor_device_by_deveui (uw_pdb w) e)
                 (info_text di_deviceProfileName ''unknown'' data) (uw_registry w)) = Some h
        \<and> parse_uplink h data = Inr u)
      \<and> su_occupancy_state u = Some st
      \<and> (\<exists>parsed. parse_chirpstack_webhook data = Inr parsed))"

definition reading_of :: "'r uplink_env \<Rightarrow> webhook \<Rightarrow> space_row \<Rightarrow> SensorUplink \<Rightarrow> SpaceState \<Rightarrow> pdb \<Rightarrow> pdb" where
  "reading_of U data sp u st db =
     insert_sensor_reading db (ue_now U) (upper (strip_separators (info_text di_devEui [] data))) (Some (sp_id sp))
       (Some (SpaceState_value st)) (su_battery u) (su_rssi u) (su_snr u) (Some (su_timestamp u)) (wh_fCnt data)
       (sp_tenant_id sp)"

lemma normalize_deveui_upper: "normalize_deveui raw = Inr e \<Longrightarrow> raw \<noteq> [] \<Longrightarrow> e = upper (strip_separators raw)"
  by (auto simp: normalize_deveui_def Let_def split: if_splits)

lemma parsed_fcnt: "parse_chirpstack_webhook data = Inr parsed \<Longrightarrow> pw_fcnt parsed = wh_fCnt data"
  by (auto simp: parse_chirpstack_webhook_def split: sum.splits)

text \<open>Such a webhook comes down to \<open>apply_reading\<close> on a world with the same core tables.\<close>

lemma process_uplink_reports:
  assumes "reports U data signature body w sp u st" "\<forall>site. \<not> ue_fails U site"
  obtains w1 parsed where
    "process_uplink U data signature body w
       = apply_reading U (upper (strip_separators (info_text di_devEui [] data))) sp parsed (Some u) w1"
    "core (uw_pdb w1) = core (uw_pdb w)" "pw_fcnt parsed = wh_fCnt data"
    "fst (uw_sdb w1) = fst (uw_sdb (kuando_step U (upper (strip_separators (info_text di_devEui [] data)))
        (pw_payload parsed) w))"
proof -
  let ?raw = "info_text di_devEui [] data" and ?prof = "info_text di_deviceProfileName ''unknown'' data"
  let ?name = "info_text di_deviceName ''unknown'' data"
  obtain e h parsed where raw: "?raw \<noteq> []" and e: "normalize_deveui ?raw = Inr e"
      and sp: "get_space_by_sensor (uw_pdb w) e = Some sp"
      and sig: "verify_webhook_signature (ue_hmac U) (ue_fails U ReadSecret) (uw_secrets w) signature
        (sp_tenant_id sp) body = Inr True"
      and h: "snd (choose_handler (get_sensor_device_by_deveui (uw_pdb w) e) ?prof (uw_registry w)) = Some h"
      and u: "parse_uplink h data = Inr u" and parsed: "parse_chirpstack_webhook data = Inr parsed"
    using assms(1) unfolding reports_def Let_def by blast
  obtain g where g: "choose_handler (get_sensor_device_by_deveui (uw_pdb w) e) ?prof (uw_registry w) = (g, Some h)"
    using h by (metis prod.collapse)
  let ?w = "w\<lparr>uw_registry := g\<rparr>"
  let ?k = "kuando_step U e (pw_payload parsed) ?w"
  obtain w1 where w1: "discover U e ?name ?prof ?k = Inr w1"
    using discover_ok [of U e ?name ?prof ?k] assms(2) by auto
  have nf: "ue_fails U site = False" for site using assms(2) by simp
  have k: "snd (uw_sdb ?k) = snd (uw_sdb w)"
      "fst (uw_sdb ?k) = fst (uw_sdb (kuando_step U e (pw_payload parsed) w))"
    by (simp_all add: kuando_step_def split: sum.split)
  have "process_uplink U data signature body w = apply_reading U e sp parsed (Some u) w1"
    using raw by (simp add: process_uplink_def Let_def e sp nf sig [unfolded nf] g parsed u w1)
  moreover have "core (uw_pdb w1) = core (uw_pdb w)" using discover_world(1) [OF w1] k(1) by (simp add: uw_pdb_def)
  moreover have "fst (uw_sdb w1) = fst (uw_sdb (kuando_step U e (pw_payload parsed) w))"
    using discover_world(2) [OF w1] k(2) by simp
  ultimately show thesis
    using that normalize_deveui_upper [OF e raw] parsed_fcnt [OF parsed] by simp
qed

text \<open>The core tables after such a webhook, when the state manager accepts the change.\<close>

lemma uplink_core:
  assumes "reports U data signature body w sp u st" "\<forall>site. \<not> ue_fails U site"
    and "redis R c" "ue_redis U = R" "ue_upd U = sm_update_space_state R E no_faults C others lv now i"
    and "c (fst (uw_sdb w)) (lock_key (''space:'' @ sp_id sp)) = None"
    and "get_space (uw_pdb w) (sp_id sp) = Some sp" "sp_state sp \<noteq> st" "st \<in> set (VALID_TRANSITIONS (sp_state sp))"
  shows "snd (process_uplink U data signature body w) = result ''success''
        (upper (strip_separators (info_text di_devEui [] data))) (Some (sp_code sp)) (Some (SpaceState_value st))
    \<and> core (uw_pdb (fst (process_uplink U data signature body w)))
      = core (reading_of U data sp u st (applied \<lparr>uq_space_id = sp_id sp, uq_new_state = st, uq_source = ''sensor_uplink'',
          uq_request_id = ue_request_id U\<rparr> now (sp_state sp) (uw_pdb w)))"
proof -
  let ?e = "upper (strip_separators (info_text di_devEui [] data))"
  let ?q = "\<lparr>uq_space_id = sp_id sp, uq_new_state = st, uq_source = ''sensor_uplink'', uq_request_id = ue_request_id U\<rparr>"
  obtain w1 parsed where w1: "process_uplink U data signature body w = apply_reading U ?e sp parsed (Some u) w1"
      "core (uw_pdb w1) = core (uw_pdb w)" "pw_fcnt parsed = wh_fCnt data"
      "fst (uw_sdb w1) = fst (uw_sdb (kuando_step U ?e (pw_payload parsed) w))"
    using process_uplink_reports [OF assms(1,2)] by blast
  have st: "su_occupancy_state u = Some st" using assms(1) by (simp add: reports_def Let_def)
  have "hd (lock_key (''space:'' @ sp_id sp)) \<noteq> CHR ''d''" by (simp add: lock_key_def)
  from redis.kuando_frame [OF assms(3,4) this, of ?e "pw_payload parsed" w]
  have lock: "c (fst (uw_sdb w1)) (lock_key (''space:'' @ uq_space_id ?q)) = None" using w1(4) assms(6) by simp
  have acc: "accepted ?q (sm_pdb (snd (uw_sdb w1))) = Some (sp_state sp)"
    using assms(7-9) get_space_core [OF w1(2)]
    by (simp add: accepted_def uw_pdb_def [symmetric] is_valid_transition_def)
  obtain sdb' r where upd: "sm_update_space_state R E no_faults C others lv now i ?q (uw_sdb w1) = (sdb', Inr r)"
      "ur_new_state r = uq_new_state ?q" "sm_pdb (snd sdb') = applied ?q now (sp_state sp) (sm_pdb (snd (uw_sdb w1)))"
    by (rule sm_update_accepted [OF assms(3) lock acc])
  have "core (sm_pdb (snd sdb')) = core (applied ?q now (sp_state sp) (uw_pdb w))"
    using w1(2) unfolding upd(3) by (simp add: applied_def record_change_def set_state_def core_def uw_pdb_def)
  then have "core (reading_of U data sp u st (sm_pdb (snd sdb')))
      = core (reading_of U data sp u st (applied ?q now (sp_state sp) (uw_pdb w)))"
    by (simp add: reading_of_def insert_sensor_reading_def core_def reading_tenant_def Let_def)
  then show ?thesis
    using assms(2,5) upd(2) w1(3) unfolding w1(1)
    by (simp add: apply_reading_def st upd(1) Let_def reading_of_def uw_pdb_def with_pdb_def on_pdb_def)
qed

section \<open>Properties\<close>

lemma get_space_applied:
  assumes "get_space db (uq_space_id q) = Some r"
  shows "get_space (applied q now cur db) (uq_space_id q) = Some (r\<lparr>sp_state := uq_new_state q, sp_updated_at := now\<rparr>)"
proof -
  have "find (\<lambda>r. sp_id r = i \<and> alive r) (sql_update (\<lambda>r. sp_id r = i) (\<lambda>r. r\<lparr>sp_state := st, sp_updated_at := now\<rparr>) rs)
      = map_option (\<lambda>r. r\<lparr>sp_state := st, sp_updated_at := now\<rparr>) (find (\<lambda>r. sp_id r = i \<and> alive r) rs)" for i st rs
    by (induction rs) (auto simp: sql_update_def alive_def)
  then show ?thesis
    using assms by (simp add: get_space_def applied_def record_change_def set_state_def)
qed

lemma reading_of_applied:
  "db_sensor_readings (reading_of U data sp u st (applied q now cur db)) = db_sensor_readings (reading_of U data sp u st db)"
proof -
  have "reading_tenant (applied q now cur db) i t = reading_tenant db i t" for i t
    by (auto simp: reading_tenant_def applied_def record_change_def set_state_def find_sql_update [where f = sp_id]
        split: option.split)
  then show ?thesis
    by (simp add: reading_of_def insert_sensor_reading_def Let_def)
       (simp add: applied_def record_change_def set_state_def)
qed

lemma applied_changes:
  "db_state_changes (applied q now cur db) = db_state_changes db @
     [\<lparr>sc_space_id = uq_space_id q, sc_previous_state = cur, sc_new_state = uq_new_state q, sc_source = uq_source q,
       sc_request_id = Some (uq_request_id q), sc_timestamp = now\<rparr>]"
  by (simp add: applied_def record_change_def set_state_def)

text \<open>The tables after an accepted reading, read off \<open>uplink_core\<close>.\<close>

lemma uplink_tables:
  assumes "reports U data signature body w sp u st" "\<forall>site. \<not> ue_fails U site"
    and "redis R c" "ue_redis U = R" "ue_upd U = sm_update_space_state R E no_faults C others lv now i"
    and "c (fst (uw_sdb w)) (lock_key (''space:'' @ sp_id sp)) = None"
    and "get_space (uw_pdb w) (sp_id sp) = Some sp" "sp_state sp \<noteq> st" "st \<in> set (VALID_TRANSITIONS (sp_state sp))"
  shows "get_space (uw_pdb (fst (process_uplink U data signature body w))) (sp_id sp)
      = Some (sp\<lparr>sp_state := st, sp_updated_at := now\<rparr>)"
    and "db_state_changes (uw_pdb (fst (process_uplink U data signature body w))) = db_state_changes (uw_pdb w) @
        [\<lparr>sc_space_id = sp_id sp, sc_previous_state = sp_state sp, sc_new_state = st, sc_source = ''sensor_uplink'',
          sc_request_id = Some (ue_request_id U), sc_timestamp = now\<rparr>]"
    and "db_sensor_readings (uw_pdb (fst (process_uplink U data signature body w)))
      = db_sensor_readings (reading_of U data sp u st (uw_pdb w))"
proof -
  let ?w = "fst (process_uplink U data signature body w)"
  let ?q = "\<lparr>uq_space_id = sp_id sp, uq_new_state = st, uq_source = ''sensor_uplink'', uq_request_id = ue_request_id U\<rparr>"
  let ?a = "applied ?q now (sp_state sp) (uw_pdb w)"
  note w' = uplink_core [OF assms, THEN conjunct2]
  have "get_space (uw_pdb ?w) (sp_id sp) = get_space ?a (sp_id sp)"
    using get_space_core [OF w'] by (simp add: reading_of_def insert_sensor_reading_def get_space_def Let_def)
  then show "get_space (uw_pdb ?w) (sp_id sp) = Some (sp\<lparr>sp_state := st, sp_updated_at := now\<rparr>)"
    using get_space_applied [of "uw_pdb w" ?q sp now "sp_state sp"] assms(7) by simp
  have "db_state_changes (uw_pdb ?w) = db_state_changes ?a"
      "db_sensor_readings (uw_pdb ?w) = db_sensor_readings (reading_of U data sp u st ?a)"
    using w' by (simp_all add: core_def reading_of_def insert_sensor_reading_def Let_def)
  then show "db_state_changes (uw_pdb ?w) = db_state_changes (uw_pdb w) @
        [\<lparr>sc_space_id = sp_id sp, sc_previous_state = sp_state sp, sc_new_state = st, sc_source = ''sensor_uplink'',
          sc_request_id = Some (ue_request_id U), sc_timestamp = now\<rparr>]"
    and "db_sensor_readings (uw_pdb ?w) = db_sensor_readings (reading_of U data sp u st (uw_pdb w))"
    by (simp_all add: applied_changes reading_of_applied)
qed

text \<open>
  Property C11. An uplink moves the space. When the body is well formed, the signature is accepted, the sensor belongs
  to a space whose lock is free, and the decoded occupancy is a permitted new state, then the answer is a success, the
  space has that state, the change is recorded with the request id, and the reading is stored unless the frame was
  stored before; all through, for any device discovery, display and Redis traffic on the way.
\<close>

theorem uplink_moves_space:
  assumes "reports U data signature body w sp u st" "\<forall>site. \<not> ue_fails U site"
    and "redis R c" "ue_redis U = R" "ue_upd U = sm_update_space_state R E no_faults C others lv now i"
    and "c (fst (uw_sdb w)) (lock_key (''space:'' @ sp_id sp)) = None"
    and "get_space (uw_pdb w) (sp_id sp) = Some sp" "sp_state sp \<noteq> st" "st \<in> set (VALID_TRANSITIONS (sp_state sp))"
  shows "let (w', res) = process_uplink U data signature body w in
      pr_status res = ''success'' \<and> pr_state res = Some (SpaceState_value st)
    \<and> get_space (uw_pdb w') (sp_id sp) = Some (sp\<lparr>sp_state := st, sp_updated_at := now\<rparr>)
    \<and> db_state_changes (uw_pdb w') = db_state_changes (uw_pdb w) @
        [\<lparr>sc_space_id = sp_id sp, sc_previous_state = sp_state sp, sc_new_state = st, sc_source = ''sensor_uplink'',
          sc_request_id = Some (ue_request_id U), sc_timestamp = now\<rparr>]
    \<and> db_sensor_readings (uw_pdb w') = db_sensor_readings (reading_of U data sp u st (uw_pdb w))"
  using uplink_core [OF assms, THEN conjunct1] uplink_tables [OF assms]
  by (simp add: result_def case_prod_beta Let_def)

definition demo_uplink :: webhook where
  "demo_uplink =
     \<lparr>wh_deviceInfo = Some \<lparr>di_devEui = Some ''e8e1e1000103c3f8'', di_deviceName = None, di_applicationId = None,
                              di_deviceProfileName = Some ''browan_tbms100_motion''\<rparr>,
      wh_rxInfo = None, wh_txInfo = None, wh_fPort = None, wh_fCnt = Some 7,
      wh_data = Some (b64encode [1]), wh_time = Some 10\<rparr>"

definition demo_uplink_env :: "mem uplink_env" where
  "demo_uplink_env =
     \<lparr>ue_redis = mem_ops, ue_upd = sm_update_space_state mem_ops demo_env no_faults demo_clients id ''1.5'' 20 ''c'',
      ue_hmac = (\<lambda>_ _. ''aa''), ue_fails = (\<lambda>_. False), ue_dumps = (\<lambda>_. ''{}''), ue_loads = (\<lambda>_. Inl TypeError),
      ue_now = 20, ue_request_id = ''q1'', ue_type_id = ''t1'', ue_device_id = ''d1'', ue_orphan_id = ''o1'',
      ue_default_tenant = None\<rparr>"

definition demo_world :: "mem uplink_world" where
  "demo_world = \<lparr>uw_sdb = ([], demo_sm), uw_registry = auto_register new_registry, uw_secrets = [], uw_orphans = []\<rparr>"

definition sensor_row :: space_row where
  "sensor_row = enforce_eui_uppercase (new_space_row ''s1'' 0 demo_space)"

definition demo_reading :: SensorUplink where
  "demo_reading = \<lparr>su_device_eui = ''e8e1e1000103c3f8'', su_timestamp = 10, su_occupancy_state = Some OCCUPIED,
     su_battery = None, su_temperature = None, su_rssi = None, su_snr = None, su_gateway_id = None,
     su_raw_payload = Some (b64encode [1])\<rparr>"

lemma sensor_row_fields [simp]:
  "sp_id sensor_row = ''s1''" "sp_state sensor_row = FREE" "sp_tenant_id sensor_row = None" "alive sensor_row"
  "sp_sensor_eui sensor_row = Some ''E8E1E1000103C3F8''"
proof -
  show "sp_sensor_eui sensor_row = Some ''E8E1E1000103C3F8''"
    by (simp add: sensor_row_def enforce_eui_uppercase_def new_space_row_def demo_space_def upper_if_def) code_simp
qed (simp_all add: sensor_row_def enforce_eui_uppercase_def new_space_row_def demo_space_def alive_def)

lemma demo_world_spaces: "db_spaces (uw_pdb demo_world) = [sensor_row]"
  by (simp add: uw_pdb_def demo_world_def demo_sm_def demo_db_def sensor_row_def)

lemma demo_reports:
  assumes "db_spaces (uw_pdb w) = [row]" "sp_sensor_eui row = Some ''E8E1E1000103C3F8''" "alive row"
    "db_sensor_devices (uw_pdb w) = []" "uw_registry w = auto_register new_registry"
  shows "reports demo_uplink_env demo_uplink None [] w row demo_reading OCCUPIED"
proof -
  let ?raw = "info_text di_devEui [] demo_uplink"
  have raw: "?raw = ''e8e1e1000103c3f8''"
    by (simp add: info_text_def str_default_def demo_uplink_def)
  have n: "normalize_deveui ''e8e1e1000103c3f8'' = Inr ''E8E1E1000103C3F8''" by code_simp
  have s: "get_space_by_sensor (uw_pdb w) ''E8E1E1000103C3F8'' = Some row"
    using assms by (simp add: get_space_by_sensor_def)
  have d: "get_sensor_device_by_deveui (uw_pdb w) ''E8E1E1000103C3F8'' = None"
    using assms by (simp add: get_sensor_device_by_deveui_def)
  have h: "snd (choose_handler None (info_text di_deviceProfileName ''unknown'' demo_uplink) (uw_registry w))
      = Some BrowanTabsHandler"
    using assms(5) by (simp add: choose_handler_def truthy_def get_handler_def info_text_def str_default_def
        demo_uplink_def auto_register_def register_def new_registry_def can_handle_def Let_def)
  have f: "first_rx demo_uplink = Inr empty_rx" by (simp add: first_rx_def demo_uplink_def)
  have p: "parse_uplink BrowanTabsHandler demo_uplink = Inr demo_reading"
    by (simp add: browan_parse_uplink_def parse_chirpstack_uplink_def f empty_rx_def demo_uplink_def dev_eui_def
        make_SensorUplink_def opt_in_range_def demo_reading_def Let_def) code_simp
  show ?thesis
    unfolding reports_def Let_def raw
    using n s d h p f by (simp add: verify_webhook_signature_def demo_reading_def parse_chirpstack_webhook_def)
qed

lemma demo_uplink_env_fields [simp]:
  "\<not> ue_fails demo_uplink_env site" "ue_redis demo_uplink_env = mem_ops"
  "ue_upd demo_uplink_env = sm_update_space_state mem_ops demo_env no_faults demo_clients id ''1.5'' 20 ''c''"
  by (simp_all add: demo_uplink_env_def)

theorem uplink_moves_space_witness:
  "pr_status (snd (process_uplink demo_uplink_env demo_uplink None [] demo_world)) = ''success''
   \<and> map_option sp_state (get_space (uw_pdb (fst (process_uplink demo_uplink_env demo_uplink None [] demo_world))) ''s1'')
      = Some OCCUPIED"
proof -
  have "reports demo_uplink_env demo_uplink None [] demo_world sensor_row demo_reading OCCUPIED"
    by (rule demo_reports) (simp_all add: demo_world_spaces,
        simp_all add: demo_world_def uw_pdb_def demo_sm_def demo_db_def empty_db_def)
  moreover have "get_space (uw_pdb demo_world) (sp_id sensor_row) = Some sensor_row"
    by (simp add: get_space_def demo_world_spaces)
  moreover have "map_of (fst (uw_sdb demo_world)) (lock_key (''space:'' @ sp_id sensor_row)) = None"
    by (simp add: demo_world_def)
  ultimately show ?thesis
    using uplink_moves_space [OF _ _ mem_redis.redis_axioms, of demo_uplink_env demo_uplink None "[]" demo_world sensor_row
        demo_reading OCCUPIED demo_env demo_clients id "''1.5''" 20 "''c''"]
    by (simp add: case_prod_beta Let_def)
qed

text \<open>
  Deduplication does not cover the state. When the frame of an uplink is already stored, no second reading
  is stored, but the replayed webhook still moves the space to the old occupancy and records the change.
\<close>

theorem replayed_uplink_moves_space:
  assumes "reports U data signature body w sp u st" "\<forall>site. \<not> ue_fails U site"
    and "redis R c" "ue_redis U = R" "ue_upd U = sm_update_space_state R E no_faults C others lv now i"
    and "c (fst (uw_sdb w)) (lock_key (''space:'' @ sp_id sp)) = None"
    and "get_space (uw_pdb w) (sp_id sp) = Some sp" "sp_state sp \<noteq> st" "st \<in> set (VALID_TRANSITIONS (sp_state sp))"
    and "spaces_wf (db_spaces (uw_pdb w))" "old \<in> set (db_sensor_readings (uw_pdb w))"
    and "rd_device_eui old = upper (strip_separators (info_text di_devEui [] data))" "rd_fcnt old = wh_fCnt data"
    and "wh_fCnt data = Some f" "rd_tenant_id old = sp_tenant_id sp" "sp_tenant_id sp = Some t"
  shows "let w' = fst (process_uplink U data signature body w) in
      db_sensor_readings (uw_pdb w') = db_sensor_readings (uw_pdb w)
    \<and> get_space (uw_pdb w') (sp_id sp) = Some (sp\<lparr>sp_state := st, sp_updated_at := now\<rparr>)
    \<and> length (db_state_changes (uw_pdb w')) = length (db_state_changes (uw_pdb w)) + 1"
proof -
  note sp = get_space_Some [OF assms(7)]
  obtain r where r: "find (\<lambda>r. sp_id r = sp_id sp) (db_spaces (uw_pdb w)) = Some r"
    using sp by (cases "find (\<lambda>r. sp_id r = sp_id sp) (db_spaces (uw_pdb w))") (auto simp: find_None_iff)
  then have "r = sp" using find_SomeD [OF r] spaces_wf_id [OF assms(10)] sp by blast
  then have "reading_tenant (uw_pdb w) (Some (sp_id sp)) (sp_tenant_id sp) = Some t"
    using r assms(16) by (simp add: reading_tenant_def)
  then have "db_sensor_readings (reading_of U data sp u st (uw_pdb w)) = db_sensor_readings (uw_pdb w)"
    using assms(11-16) by (auto simp: reading_of_def insert_sensor_reading_def same_frame_def list_ex_iff Let_def
        intro!: bexI [where x = old])
  then show ?thesis
    using uplink_tables [OF assms(1-9)] by (simp add: Let_def)
qed

definition replay_row :: space_row where
  "replay_row = sensor_row\<lparr>sp_tenant_id := Some ''t''\<rparr>"

definition stored_frame :: reading_row where
  "stored_frame = \<lparr>rd_device_eui = ''E8E1E1000103C3F8'', rd_space_id = Some ''s1'', rd_occupancy_state = Some ''OCCUPIED'',
     rd_battery = None, rd_rssi = None, rd_snr = None, rd_timestamp = 10, rd_fcnt = Some 7, rd_tenant_id = Some ''t''\<rparr>"

definition replay_world :: "mem uplink_world" where
  "replay_world = with_pdb (empty_db\<lparr>db_spaces := [replay_row], db_sensor_readings := [stored_frame]\<rparr>) demo_world"

lemma replay_row_fields [simp]:
  "sp_id replay_row = ''s1''" "sp_state replay_row = FREE" "sp_tenant_id replay_row = Some ''t''" "alive replay_row"
  "sp_sensor_eui replay_row = Some ''E8E1E1000103C3F8''" "eui_upper replay_row"
proof -
  have "eui_upper sensor_row" unfolding sensor_row_def by (rule eui_upper_enforced)
  then show "eui_upper replay_row" by (simp add: replay_row_def eui_upper_def)
  show "alive replay_row" using sensor_row_fields(4) by (simp add: replay_row_def alive_def)
qed (simp_all add: replay_row_def)

theorem replayed_uplink_moves_space_witness:
  "map_option sp_state (get_space (uw_pdb (fst (process_uplink demo_uplink_env demo_uplink None [] replay_world))) ''s1'')
      = Some OCCUPIED
   \<and> db_sensor_readings (uw_pdb (fst (process_uplink demo_uplink_env demo_uplink None [] replay_world))) = [stored_frame]"
proof -
  have db: "db_spaces (uw_pdb replay_world) = [replay_row]" "db_sensor_readings (uw_pdb replay_world) = [stored_frame]"
      "db_sensor_devices (uw_pdb replay_world) = []"
    by (simp_all add: replay_world_def empty_db_def)
  have w: "uw_registry replay_world = auto_register new_registry" "fst (uw_sdb replay_world) = []"
    by (simp_all add: replay_world_def with_pdb_def demo_world_def on_pdb_def)
  have rep: "reports demo_uplink_env demo_uplink None [] replay_world replay_row demo_reading OCCUPIED"
    using db w by (intro demo_reports) simp_all
  have "get_space (uw_pdb replay_world) (sp_id replay_row) = Some replay_row" by (simp add: get_space_def db)
  moreover have "spaces_wf (db_spaces (uw_pdb replay_world))" by (simp add: db spaces_wf_def)
  moreover have "rd_device_eui stored_frame = upper (strip_separators (info_text di_devEui [] demo_uplink))"
    by (simp add: stored_frame_def info_text_def str_default_def demo_uplink_def) code_simp
  moreover have "rd_fcnt stored_frame = wh_fCnt demo_uplink" "wh_fCnt demo_uplink = Some 7"
      "rd_tenant_id stored_frame = sp_tenant_id replay_row"
    by (simp_all add: stored_frame_def demo_uplink_def)
  ultimately show ?thesis
    using replayed_uplink_moves_space [OF rep _ mem_redis.redis_axioms, of demo_env demo_clients id "''1.5''" 20 "''c''"
        stored_frame 7 "''t''"] db w(2)
    by (simp add: Let_def)
qed

text \<open>
  A wrong signature leaves everything as it was; the caller gets the answer of an error with the status code of a
  success, since the exception is caught with all others.
\<close>

lemma bad_signature_refused:
  assumes "verify_webhook_signature (ue_hmac U) (ue_fails U ReadSecret) (uw_secrets w) signature
      (Option.bind (get_space_by_sensor (uw_pdb w) e) sp_tenant_id) body = Inl err"
    and "normalize_deveui (info_text di_devEui [] data) = Inr e"
  shows "fst (process_uplink U data signature body w) = w
    \<and> pr_status (snd (process_uplink U data signature body w)) = ''error''"
  using assms by (simp add: process_uplink_def Let_def result_def)

end
