(* ===== verification/Access_Control.thy ===== *)
theory Access_Control
  imports Models
begin

text \<open>
  Who may do what: API keys (\<open>src/auth.py\<close>), access tokens, tenant resolution and roles (\<open>src/tenant_auth.py\<close>)
  and the scopes of API keys (\<open>src/api_scopes.py\<close>).

  The tables are lists of rows; \<open>None\<close> for the pool stands for the pool that was not set. \<open>checkpw\<close> is bcrypt,
  which may raise on a malformed hash; \<open>encode\<close> and \<open>decode\<close> are PyJWT, \<open>decode\<close> giving \<open>None\<close> where it raises.
  A Boolean argument \<open>fails\<close> says whether a query raises.
\<close>

section \<open>Tables\<close>

record api_key_row =
  ak_id :: uuid
  ak_key_hash :: string
  ak_key_name :: string
  ak_is_admin :: bool
  ak_is_active :: bool
  ak_tenant_id :: "uuid option"
  ak_scopes :: "string list option"
  ak_last_used_at :: "instant option"
  ak_created_at :: instant

record tenant_row =
  tn_id :: uuid
  tn_name :: string
  tn_slug :: string
  tn_is_active :: bool
  tn_metadata :: "string option"
  tn_settings :: "string option"
  tn_updated_at :: instant

record user_row =
  us_id :: uuid
  us_email :: string
  us_name :: string
  us_password_hash :: string
  us_is_active :: bool
  us_email_verified :: bool
  us_metadata :: "string option"
  us_created_at :: instant
  us_last_login_at :: "instant option"

record membership_row =
  um_id :: uuid
  um_user_id :: uuid
  um_tenant_id :: uuid
  um_role :: string
  um_is_active :: bool
  um_created_at :: instant

record auth_db =
  au_api_keys :: "api_key_row list"
  au_tenants :: "tenant_row list"
  au_users :: "user_row list"
  au_memberships :: "membership_row list"

section \<open>API keys\<close>

record APIKeyInfo =
  ki_id :: uuid
  ki_name :: string
  ki_is_admin :: bool

type_synonym checkpw = "string \<Rightarrow> string \<Rightarrow> bool result"

text \<open>The first active key the text matches; a row whose comparison raises is passed over.\<close>

definition matching_key :: "checkpw \<Rightarrow> string \<Rightarrow> api_key_row list \<Rightarrow> api_key_row option" where
  "matching_key checkpw api_key rows =
     find (\<lambda>r. ak_is_active r \<and> checkpw api_key (ak_key_hash r) = Inr True) rows"

definition verify_api_key ::
  "checkpw \<Rightarrow> bool \<Rightarrow> instant \<Rightarrow> string \<Rightarrow> auth_db option \<Rightarrow> auth_db option \<times> APIKeyInfo option" where
  "verify_api_key checkpw fails now api_key pool =
     (case pool of
        None \<Rightarrow> (None, None)
      | Some db \<Rightarrow>
          if fails then (Some db, None)
          else case matching_key checkpw api_key (au_api_keys db) of
                 None \<Rightarrow> (Some db, None)
               | Some r \<Rightarrow>
                   (Some (db\<lparr>au_api_keys := sql_update (\<lambda>x. ak_id x = ak_id r)
                              (\<lambda>x. x\<lparr>ak_last_used_at := Some now\<rparr>) (au_api_keys db)\<rparr>),
                    Some \<lparr>ki_id = ak_id r, ki_name = ak_key_name r, ki_is_admin = ak_is_admin r\<rparr>))"

definition get_api_key ::
  "checkpw \<Rightarrow> bool \<Rightarrow> instant \<Rightarrow> string option \<Rightarrow> auth_db option \<Rightarrow> auth_db option \<times> (http_error + APIKeyInfo)" where
  "get_api_key checkpw fails now api_key pool =
     (case api_key of
        None \<Rightarrow> (pool, Inl (HTTPException 401 ''Missing API key. Provide X-API-Key header.''))
      | Some k \<Rightarrow>
          if k = [] then (pool, Inl (HTTPException 401 ''Missing API key. Provide X-API-Key header.''))
          else case verify_api_key checkpw fails now k pool of
                 (pool, None) \<Rightarrow> (pool, Inl (HTTPException 401 ''Invalid API key''))
               | (pool, Some i) \<Rightarrow> (pool, Inr i))"

definition get_admin_api_key :: "APIKeyInfo \<Rightarrow> http_error + APIKeyInfo" where
  "get_admin_api_key key_info =
     (if \<not> ki_is_admin key_info then Inl (HTTPException 403 ''Admin privileges required'') else Inr key_info)"

definition get_optional_api_key ::
  "checkpw \<Rightarrow> bool \<Rightarrow> instant \<Rightarrow> string option \<Rightarrow> auth_db option \<Rightarrow> auth_db option \<times> APIKeyInfo option" where
  "get_optional_api_key checkpw fails now api_key pool =
     (case api_key of
        None \<Rightarrow> (pool, None)
      | Some k \<Rightarrow> if k = [] then (pool, None) else verify_api_key checkpw fails now k pool)"

definition verify_webhook_source :: "string \<Rightarrow> bool" where
  "verify_webhook_source client_ip = (take 4 client_ip = ''172.'' \<or> client_ip = ''127.0.0.1'')"

section \<open>Access tokens\<close>

record claims =
  cl_user_id :: uuid
  cl_tenant_id :: uuid
  cl_role :: string
  cl_exp :: int
  cl_iat :: int

type_synonym jwt_encode = "claims \<Rightarrow> string \<Rightarrow> string"
type_synonym jwt_decode = "instant \<Rightarrow> string \<Rightarrow> string \<Rightarrow> claims option"

definition JWT_ACCESS_TOKEN_EXPIRE_MINUTES :: rat where "JWT_ACCESS_TOKEN_EXPIRE_MINUTES = 60 * 24"

text \<open>
  \<open>datetime.utcnow().timestamp()\<close> reads the naive UTC time as local time: it is off by the offset of the
  time zone of the process.
\<close>

definition utcnow_timestamp :: "rat \<Rightarrow> instant \<Rightarrow> rat" where
  "utcnow_timestamp local_offset t = t - local_offset"

definition create_access_token ::
  "jwt_encode \<Rightarrow> rat \<Rightarrow> string option \<Rightarrow> instant \<Rightarrow> uuid \<Rightarrow> uuid \<Rightarrow> UserRole \<Rightarrow> string result" where
  "create_access_token encode local_offset secret now user_id tenant_id role =
     (case secret of
        None \<Rightarrow> Inl (RuntimeError ''JWT secret key not configured'')
      | Some k \<Rightarrow>
          if k = [] then Inl (RuntimeError ''JWT secret key not configured'')
          else Inr (encode
            \<lparr>cl_user_id = user_id, cl_tenant_id = tenant_id, cl_role = UserRole_value role,
             cl_exp = \<lfloor>utcnow_timestamp local_offset (now + JWT_ACCESS_TOKEN_EXPIRE_MINUTES * 60)\<rfloor>,
             cl_iat = \<lfloor>utcnow_timestamp local_offset now\<rfloor>\<rparr> k))"

definition decode_access_token :: "jwt_decode \<Rightarrow> rat \<Rightarrow> string option \<Rightarrow> instant \<Rightarrow> string \<Rightarrow> TokenData option" where
  "decode_access_token decode local_offset secret now token =
     (case secret of
        None \<Rightarrow> None
      | Some k \<Rightarrow>
          if k = [] then None
          else case decode now token k of
                 None \<Rightarrow> None
               | Some c \<Rightarrow>
                   (case UserRole_of (cl_role c) of
                      None \<Rightarrow> None
                    | Some role \<Rightarrow>
                        Some \<lparr>td_user_id = cl_user_id c, td_tenant_id = cl_tenant_id c, td_role = role,
                              td_exp = of_int (cl_exp c) + local_offset\<rparr>))"

definition verify_password :: "checkpw \<Rightarrow> string \<Rightarrow> string \<Rightarrow> bool" where
  "verify_password checkpw password password_hash =
     (case checkpw password password_hash of Inl _ \<Rightarrow> False | Inr b \<Rightarrow> b)"

section \<open>Tenant resolution\<close>

definition resolve_tenant_from_api_key :: "bool \<Rightarrow> auth_db option \<Rightarrow> APIKeyInfo \<Rightarrow> TenantContext option" where
  "resolve_tenant_from_api_key fails pool key =
     (case pool of
        None \<Rightarrow> None
      | Some db \<Rightarrow>
          if fails then None
          else case find (\<lambda>r. ak_id r = ki_id key \<and> ak_is_active r) (au_api_keys db) of
                 None \<Rightarrow> None
               | Some r \<Rightarrow>
                   (case find (\<lambda>t. ak_tenant_id r = Some (tn_id t) \<and> tn_is_active t) (au_tenants db) of
                      None \<Rightarrow> None
                    | Some t \<Rightarrow>
                        Some \<lparr>tc_tenant_id = tn_id t, tc_tenant_name = tn_name t, tc_tenant_slug = tn_slug t,
                              tc_user_id = None, tc_user_role = None, tc_api_key_id = Some (ki_id key),
                              tc_api_key_scopes = ak_scopes r, tc_source = ''api_key''\<rparr>))"

definition resolve_tenant_from_jwt :: "bool \<Rightarrow> auth_db option \<Rightarrow> TokenData \<Rightarrow> TenantContext option" where
  "resolve_tenant_from_jwt fails pool token =
     (case pool of
        None \<Rightarrow> None
      | Some db \<Rightarrow>
          if fails then None
          else case (find (\<lambda>u. us_id u = td_user_id token) (au_users db),
                     find (\<lambda>m. um_user_id m = td_user_id token \<and> um_tenant_id m = td_tenant_id token) (au_memberships db),
                     find (\<lambda>t. tn_id t = td_tenant_id token) (au_tenants db)) of
                 (Some u, Some m, Some t) \<Rightarrow>
                   if \<not> us_is_active u \<or> \<not> um_is_active m \<or> \<not> tn_is_active t then None
                   else (case UserRole_of (um_role m) of
                           None \<Rightarrow> None
                         | Some role \<Rightarrow>
                             Some \<lparr>tc_tenant_id = tn_id t, tc_tenant_name = tn_name t, tc_tenant_slug = tn_slug t,
                                   tc_user_id = Some (td_user_id token), tc_user_role = Some role,
                                   tc_api_key_id = None, tc_api_key_scopes = None, tc_source = ''jwt''\<rparr>)
               | _ \<Rightarrow> None)"

text \<open>What authentication depends on besides the tables: the libraries, the secret, failing queries.\<close>

record auth_env =
  ae_checkpw :: checkpw
  ae_decode :: jwt_decode
  ae_local_offset :: rat
  ae_secret :: "string option"
  ae_fails_jwt :: bool
  ae_fails_keys :: bool
  ae_fails_resolve :: bool

text \<open>The bearer token is tried first, the API key only when that gave nothing.\<close>

definition get_current_tenant ::
  "auth_env \<Rightarrow> instant \<Rightarrow> string option \<Rightarrow> string option \<Rightarrow> auth_db option \<Rightarrow> auth_db option \<times> (http_error + TenantContext)" where
  "get_current_tenant A now api_key credentials pool =
     (let by_jwt = (case credentials of
            None \<Rightarrow> None
          | Some tok \<Rightarrow>
              if tok = [] then None
              else Option.bind (decode_access_token (ae_decode A) (ae_local_offset A) (ae_secret A) now tok)
                     (resolve_tenant_from_jwt (ae_fails_jwt A) pool))
      in case by_jwt of
           Some tc \<Rightarrow> (pool, Inr tc)
         | None \<Rightarrow>
             (case get_optional_api_key (ae_checkpw A) (ae_fails_keys A) now api_key pool of
                (pool, key) \<Rightarrow>
                  (case Option.bind key (resolve_tenant_from_api_key (ae_fails_resolve A) pool) of
                     Some tc \<Rightarrow> (pool, Inr tc)
                   | None \<Rightarrow> (pool, Inl (HTTPException 401
                       ''Authentication required. Provide either JWT Bearer token or X-API-Key header.'')))))"

definition get_optional_tenant ::
  "auth_env \<Rightarrow> instant \<Rightarrow> string option \<Rightarrow> string option \<Rightarrow> auth_db option \<Rightarrow> auth_db option \<times> TenantContext option" where
  "get_optional_tenant A now api_key credentials pool =
     (case get_current_tenant A now api_key credentials pool of
        (pool, Inl _) \<Rightarrow> (pool, None) | (pool, Inr tc) \<Rightarrow> (pool, Some tc))"

section \<open>Roles\<close>

definition role_hierarchy :: "(UserRole \<times> nat) list" where
  "role_hierarchy = [(VIEWER, 1), (OPERATOR, 2), (ADMIN, 3), (OWNER, 4)]"

definition level_or :: "nat \<Rightarrow> UserRole \<Rightarrow> nat" where
  "level_or d r = (case map_of role_hierarchy r of None \<Rightarrow> d | Some n \<Rightarrow> n)"

definition require_role :: "UserRole \<Rightarrow> TenantContext \<Rightarrow> http_error + TenantContext" where
  "require_role minimum_role tenant =
     (if tc_source tenant = ''api_key'' then Inr tenant
      else case tc_user_role tenant of
        None \<Rightarrow> Inl (HTTPException 403 ''Insufficient permissions'')
      | Some role \<Rightarrow>
          if level_or 0 role < level_or 999 minimum_role
          then Inl (HTTPException 403 (''Requires '' @ UserRole_value minimum_role @ '' role or higher''))
          else Inr tenant)"

section \<open>Scopes\<close>

definition SCOPE_HIERARCHY :: "(string \<times> string list) list" where
  "SCOPE_HIERARCHY =
     [(''spaces:read'', [''spaces:read'']), (''devices:read'', [''devices:read'']),
      (''reservations:read'', [''reservations:read'']), (''telemetry:read'', [''telemetry:read'']),
      (''users:read'', [''users:read'']), (''sites:read'', [''sites:read'']), (''tenants:read'', [''tenants:read'']),
      (''spaces:write'', [''spaces:read'', ''spaces:write'']),
      (''devices:write'', [''devices:read'', ''devices:write'']),
      (''reservations:write'', [''reservations:read'', ''reservations:write'']),
      (''sites:write'', [''sites:read'', ''sites:write'']),
      (''tenants:write'', [''tenants:read'', ''tenants:write'']),
      (''webhook:ingest'', [''webhook:ingest'']), (''admin:*'', [''*''])]"

definition expand_scope :: "string \<Rightarrow> string list" where
  "expand_scope s = (case map_of SCOPE_HIERARCHY s of None \<Rightarrow> [s] | Some ss \<Rightarrow> ss)"

definition expand_scopes :: "string list \<Rightarrow> string list" where
  "expand_scopes scopes = concat (map expand_scope scopes)"

text \<open>The order of the missing scopes in the message is not modelled: they are listed in the order required.\<close>

definition check_scopes :: "string list \<Rightarrow> TenantContext \<Rightarrow> http_error + unit" where
  "check_scopes required tenant =
     (if tc_source tenant = ''jwt'' then Inr ()
      else if tc_source tenant = ''api_key'' then
        (case tc_api_key_scopes tenant of
           None \<Rightarrow> Inl (HTTPException 403 ''API key has no scopes defined'')
         | Some scopes \<Rightarrow>
             if scopes = [] then Inl (HTTPException 403 ''API key has no scopes defined'')
             else
               let available = expand_scopes scopes in
               if ''*'' \<in> set available \<or> ''admin:*'' \<in> set available then Inr ()
               else if \<not> set (expand_scopes required) \<subseteq> set available
               then Inl (HTTPException 403 (''API key lacks required scopes: ''
                      @ concat (map (\<lambda>s. s @ '', '') (filter (\<lambda>s. s \<notin> set available) (expand_scopes required)))))
               else Inr ())
      else Inl (HTTPException 403 ''Invalid authentication source''))"

definition require_scopes :: "string list \<Rightarrow> TenantContext \<Rightarrow> http_error + TenantContext" where
  "require_scopes required tenant =
     (case check_scopes required tenant of Inl e \<Rightarrow> Inl e | Inr _ \<Rightarrow> Inr tenant)"

definition enforce_api_key_scopes :: "bool \<Rightarrow> string list \<Rightarrow> uuid \<Rightarrow> auth_db \<Rightarrow> http_error + bool" where
  "enforce_api_key_scopes fails required key_id db =
     (if fails then Inl (HTTPException 500 ''Failed to verify API key scopes'')
      else case find (\<lambda>r. ak_id r = key_id \<and> ak_is_active r) (au_api_keys db) of
        None \<Rightarrow> Inl (HTTPException 403 ''API key not found or inactive'')
      | Some r \<Rightarrow>
          (case ak_scopes r of
             None \<Rightarrow> Inl (HTTPException 500 ''Failed to verify API key scopes'')
           | Some scopes \<Rightarrow>
               let available = expand_scopes scopes in
               if ''*'' \<in> set available then Inr True
               else if \<not> set (expand_scopes required) \<subseteq> set available
               then Inl (HTTPException 403 (''API key lacks required scopes: ''
                      @ concat (map (\<lambda>s. s @ '', '') (filter (\<lambda>s. s \<notin> set available) (expand_scopes required)))))
               else Inr True))"

section \<open>Authentication is sound\<close>

lemma verify_api_key_found:
  assumes "verify_api_key checkpw fails now k pool = (pool', Some i)"
  obtains db r where "pool = Some db" "r \<in> set (au_api_keys db)" "ak_is_active r" "ak_id r = ki_id i"
    "checkpw k (ak_key_hash r) = Inr True"
    "pool' = Some (db\<lparr>au_api_keys := sql_update (\<lambda>x. ak_id x = ak_id r) (\<lambda>x. x\<lparr>ak_last_used_at := Some now\<rparr>)
       (au_api_keys db)\<rparr>)"
proof -
  obtain db r where db: "pool = Some db" "matching_key checkpw k (au_api_keys db) = Some r" "ki_id i = ak_id r"
      "pool' = Some (db\<lparr>au_api_keys := sql_update (\<lambda>x. ak_id x = ak_id r) (\<lambda>x. x\<lparr>ak_last_used_at := Some now\<rparr>)
         (au_api_keys db)\<rparr>)"
    using assms by (auto simp: verify_api_key_def split: option.splits if_splits)
  show thesis
    using find_SomeD [OF db(2) [unfolded matching_key_def]] db that [of db r] by simp
qed

lemma resolve_api_key_found:
  assumes "resolve_tenant_from_api_key fails (Some db) i = Some tc"
  obtains r t where "r \<in> set (au_api_keys db)" "ak_id r = ki_id i" "t \<in> set (au_tenants db)" "tn_is_active t"
    "ak_tenant_id r = Some (tn_id t)" "tc_tenant_id tc = tn_id t" "tc_source tc = ''api_key''"
    "tc_api_key_scopes tc = ak_scopes r" "tc_user_role tc = None"
proof -
  obtain r t where f: "find (\<lambda>r. ak_id r = ki_id i \<and> ak_is_active r) (au_api_keys db) = Some r"
      "find (\<lambda>t. ak_tenant_id r = Some (tn_id t) \<and> tn_is_active t) (au_tenants db) = Some t"
      "tc_tenant_id tc = tn_id t" "tc_source tc = ''api_key''" "tc_api_key_scopes tc = ak_scopes r" "tc_user_role tc = None"
    using assms by (auto simp: resolve_tenant_from_api_key_def split: option.splits if_splits)
  show thesis using find_SomeD [OF f(1)] find_SomeD [OF f(2)] f(3-) that [of r t] by simp
qed

lemma resolve_jwt_found:
  assumes "resolve_tenant_from_jwt fails (Some db) tok = Some tc"
  obtains u m t where "u \<in> set (au_users db)" "us_id u = td_user_id tok" "us_is_active u"
    "m \<in> set (au_memberships db)" "um_user_id m = td_user_id tok" "um_tenant_id m = td_tenant_id tok" "um_is_active m"
    "t \<in> set (au_tenants db)" "tn_id t = td_tenant_id tok" "tn_is_active t"
    "tc_tenant_id tc = td_tenant_id tok" "tc_source tc = ''jwt''" "tc_user_id tc = Some (td_user_id tok)"
    "map_option UserRole_value (tc_user_role tc) = Some (um_role m)"
proof -
  have val: "UserRole_of v = Some r \<Longrightarrow> UserRole_value r = v" for v r
    by (auto simp: UserRole_of_def split: if_splits)
  obtain u m t r where f: "find (\<lambda>u. us_id u = td_user_id tok) (au_users db) = Some u"
      "find (\<lambda>m. um_user_id m = td_user_id tok \<and> um_tenant_id m = td_tenant_id tok) (au_memberships db) = Some m"
      "find (\<lambda>t. tn_id t = td_tenant_id tok) (au_tenants db) = Some t"
      "us_is_active u" "um_is_active m" "tn_is_active t" "UserRole_of (um_role m) = Some r"
      "tc_tenant_id tc = tn_id t" "tc_source tc = ''jwt''" "tc_user_id tc = Some (td_user_id tok)" "tc_user_role tc = Some r"
    using assms by (auto simp: resolve_tenant_from_jwt_def split: option.splits if_splits)
  show thesis
    using find_SomeD [OF f(1)] find_SomeD [OF f(2)] find_SomeD [OF f(3)] f(4-) val that [of u m t] by simp
qed

lemma api_key_context:
  assumes "get_optional_api_key checkpw fails now api_key (Some db) = (pool', Some i)"
    and "resolve_tenant_from_api_key fails' pool' i = Some tc" "distinct (map ak_id (au_api_keys db))"
  obtains k r t where "api_key = Some k" "r \<in> set (au_api_keys db)" "ak_is_active r" "checkpw k (ak_key_hash r) = Inr True"
    "ak_tenant_id r = Some (tc_tenant_id tc)" "tc_api_key_scopes tc = ak_scopes r" "tc_source tc = ''api_key''"
    "t \<in> set (au_tenants db)" "tn_id t = tc_tenant_id tc" "tn_is_active t"
proof -
  obtain k where k: "api_key = Some k" "verify_api_key checkpw fails now k (Some db) = (pool', Some i)"
    using assms(1) by (auto simp: get_optional_api_key_def split: option.splits if_splits)
  let ?upd = "\<lambda>r. \<lambda>x. if ak_id x = ak_id r then x\<lparr>ak_last_used_at := Some now\<rparr> else x"
  from k(2) obtain db' r where "Some db = Some db'" and r': "r \<in> set (au_api_keys db')" "ak_is_active r"
      "ak_id r = ki_id i" "checkpw k (ak_key_hash r) = Inr True"
      "pool' = Some (db'\<lparr>au_api_keys := sql_update (\<lambda>x. ak_id x = ak_id r) (\<lambda>x. x\<lparr>ak_last_used_at := Some now\<rparr>)
         (au_api_keys db')\<rparr>)"
    by (rule verify_api_key_found)
  then have r: "r \<in> set (au_api_keys db)" and pool': "pool' = Some (db\<lparr>au_api_keys := map (?upd r) (au_api_keys db)\<rparr>)"
    by (simp_all add: sql_update_def)
  from assms(2) [unfolded pool'] obtain x t where
      x: "x \<in> set (map (?upd r) (au_api_keys db))" "ak_id x = ki_id i" "ak_tenant_id x = Some (tn_id t)"
      and t: "t \<in> set (au_tenants db)" "tn_is_active t" "tc_tenant_id tc = tn_id t" "tc_source tc = ''api_key''"
      "tc_api_key_scopes tc = ak_scopes x"
    by (rule resolve_api_key_found) simp
  obtain y where y: "y \<in> set (au_api_keys db)" "x = ?upd r y" using x(1) by auto
  then have "ak_id y = ak_id r" using x(2) r'(3) by (simp split: if_splits)
  moreover have "inj_on ak_id (set (au_api_keys db))" using assms(3) by (simp add: distinct_map)
  ultimately have "y = r" using y(1) r by (simp add: inj_on_eq_iff)
  then have "ak_tenant_id r = ak_tenant_id x" "ak_scopes r = ak_scopes x" using y(2) by simp_all
  then have "ak_tenant_id r = Some (tc_tenant_id tc)" "tc_api_key_scopes tc = ak_scopes r" "tn_id t = tc_tenant_id tc"
    using x(3) t(3,5) by simp_all
  from k(1) r r'(2,4) this(1,2) t(4,1) this(3) t(2) show thesis by (rule that)
qed

text \<open>
  Property C15. Nobody acts for a tenant without a valid credential of it. When a request is authenticated, the tenant
  is active, and either the bearer token decodes to a user who is active and has an active membership in exactly
  that tenant, with the role the membership has now, or the API key matches an active key of exactly that tenant,
  with the scopes of that key.
\<close>

theorem authentication_sound:
  assumes "get_current_tenant A now api_key credentials (Some db) = (pool', Inr tc)"
    and "distinct (map ak_id (au_api_keys db))"
  shows "(\<exists>t\<in>set (au_tenants db). tn_id t = tc_tenant_id tc \<and> tn_is_active t)
    \<and> ((\<exists>tok td. credentials = Some tok \<and> tc_source tc = ''jwt''
          \<and> decode_access_token (ae_decode A) (ae_local_offset A) (ae_secret A) now tok = Some td
          \<and> td_tenant_id td = tc_tenant_id tc
          \<and> (\<exists>u\<in>set (au_users db). us_id u = td_user_id td \<and> us_is_active u)
          \<and> (\<exists>m\<in>set (au_memberships db). um_user_id m = td_user_id td \<and> um_tenant_id m = tc_tenant_id tc
               \<and> um_is_active m \<and> map_option UserRole_value (tc_user_role tc) = Some (um_role m)))
      \<or> (\<exists>k. api_key = Some k \<and> tc_source tc = ''api_key''
          \<and> (\<exists>r\<in>set (au_api_keys db). ak_is_active r \<and> ae_checkpw A k (ak_key_hash r) = Inr True
               \<and> ak_tenant_id r = Some (tc_tenant_id tc) \<and> tc_api_key_scopes tc = ak_scopes r)))"
proof -
  let ?dec = "decode_access_token (ae_decode A) (ae_local_offset A) (ae_secret A) now"
  consider (jwt) tok td where "credentials = Some tok" "?dec tok = Some td"
        "resolve_tenant_from_jwt (ae_fails_jwt A) (Some db) td = Some tc"
    | (key) i where "get_optional_api_key (ae_checkpw A) (ae_fails_keys A) now api_key (Some db) = (pool', Some i)"
        "resolve_tenant_from_api_key (ae_fails_resolve A) pool' i = Some tc"
    using assms(1) unfolding get_current_tenant_def Let_def
    by (auto split: option.splits prod.splits if_splits simp: bind_eq_Some_conv)
  then show ?thesis
  proof cases
    case jwt
    from jwt(3) obtain u m t where "u \<in> set (au_users db)" "us_id u = td_user_id td" "us_is_active u"
      "m \<in> set (au_memberships db)" "um_user_id m = td_user_id td" "um_tenant_id m = td_tenant_id td" "um_is_active m"
      "t \<in> set (au_tenants db)" "tn_id t = td_tenant_id td" "tn_is_active t"
      "tc_tenant_id tc = td_tenant_id td" "tc_source tc = ''jwt''" "map_option UserRole_value (tc_user_role tc) = Some (um_role m)"
      by (rule resolve_jwt_found)
    with jwt(1,2) show ?thesis by auto
  next
    case key
    from key assms(2) obtain k r t where "api_key = Some k" "r \<in> set (au_api_keys db)" "ak_is_active r"
      "ae_checkpw A k (ak_key_hash r) = Inr True" "ak_tenant_id r = Some (tc_tenant_id tc)"
      "tc_api_key_scopes tc = ak_scopes r" "tc_source tc = ''api_key''"
      "t \<in> set (au_tenants db)" "tn_id t = tc_tenant_id tc" "tn_is_active t"
      by (rule api_key_context)
    then show ?thesis by auto
  qed
qed

definition demo_auth :: auth_db where
  "demo_auth = \<lparr>au_api_keys = [\<lparr>ak_id = ''k1'', ak_key_hash = ''h'', ak_key_name = ''n'', ak_is_admin = False,
       ak_is_active = True, ak_tenant_id = Some ''t1'', ak_scopes = Some [''spaces:read''], ak_last_used_at = None,
       ak_created_at = 0\<rparr>],
     au_tenants = [\<lparr>tn_id = ''t1'', tn_name = ''T'', tn_slug = ''t'', tn_is_active = True, tn_metadata = None,
       tn_settings = None, tn_updated_at = 0\<rparr>],
     au_users = [], au_memberships = []\<rparr>"

definition demo_auth_env :: auth_env where
  "demo_auth_env = \<lparr>ae_checkpw = (\<lambda>k h. Inr (k = h)), ae_decode = (\<lambda>_ _ _. None), ae_local_offset = 0,
     ae_secret = Some ''x'', ae_fails_jwt = False, ae_fails_keys = False, ae_fails_resolve = False\<rparr>"

theorem authentication_sound_witness:
  "\<exists>pool' tc. get_current_tenant demo_auth_env 5 (Some ''h'') None (Some demo_auth) = (pool', Inr tc)
     \<and> tc_tenant_id tc = ''t1'' \<and> tc_api_key_scopes tc = Some [''spaces:read'']"
proof -
  obtain pool' tc where c: "get_current_tenant demo_auth_env 5 (Some ''h'') None (Some demo_auth) = (pool', Inr tc)"
      "tc_source tc = ''api_key''"
    by (simp add: get_current_tenant_def get_optional_api_key_def verify_api_key_def matching_key_def sql_update_def
        resolve_tenant_from_api_key_def demo_auth_env_def demo_auth_def)
  from authentication_sound [OF c(1)] c(2)
  have "tc_tenant_id tc = ''t1'' \<and> tc_api_key_scopes tc = Some [''spaces:read'']"
    by (simp add: demo_auth_def)
  with c(1) show ?thesis by blast
qed

section \<open>Roles and scopes\<close>

text \<open>
  The role gate. A user of the four roles of the hierarchy passes a gate exactly when his role is at
  least the required one; an API key passes every gate, whatever its scopes; a platform administrator, who is missing
  from the hierarchy, passes none, and a gate for platform administrators lets no user through.
\<close>

theorem require_role_exact:
  "require_role m tc = Inr tc \<longleftrightarrow>
     tc_source tc = ''api_key''
     \<or> (\<exists>r. tc_user_role tc = Some r \<and> r \<noteq> PLATFORM_ADMIN \<and> m \<noteq> PLATFORM_ADMIN
          \<and> (m = VIEWER \<or> r = OWNER \<or> r = m \<or> (m = OPERATOR \<and> r = ADMIN)))"
proof -
  have "\<not> level_or 0 r < level_or 999 m \<longleftrightarrow>
      r \<noteq> PLATFORM_ADMIN \<and> m \<noteq> PLATFORM_ADMIN \<and> (m = VIEWER \<or> r = OWNER \<or> r = m \<or> (m = OPERATOR \<and> r = ADMIN))" for r
    by (cases r; cases m) (simp_all add: level_or_def role_hierarchy_def)
  then show ?thesis by (auto simp: require_role_def split: option.split)
qed

lemma mem_expand: "x \<in> set (expand_scopes ss) \<longleftrightarrow> (\<exists>s\<in>set ss. x \<in> set (expand_scope s))"
  by (simp add: expand_scopes_def)

definition write_domains :: "string list" where
  "write_domains = [''spaces'', ''devices'', ''reservations'', ''sites'', ''tenants'']"

text \<open>What the table says, by evaluation; scopes outside it stand for themselves.\<close>

lemma expand_scope_table:
  "list_all (\<lambda>s. (''*'' \<in> set (expand_scope s)) = (s = ''admin:*'') \<and> ''admin:*'' \<notin> set (expand_scope s))
     (map fst SCOPE_HIERARCHY)"
  "list_all (\<lambda>d. list_all (\<lambda>s.
       (d @ '':read'' \<in> set (expand_scope s)) = (s = d @ '':read'' \<or> s = d @ '':write'')
       \<and> (d @ '':write'' \<in> set (expand_scope s)) = (s = d @ '':write'')) (map fst SCOPE_HIERARCHY)) write_domains"
  "list_all (\<lambda>d. d @ '':read'' \<in> set (map fst SCOPE_HIERARCHY) \<and> d @ '':write'' \<in> set (map fst SCOPE_HIERARCHY)
       \<and> expand_scope (d @ '':read'') = [d @ '':read'']
       \<and> expand_scope (d @ '':write'') = [d @ '':read'', d @ '':write'']) write_domains"
  by code_simp+

lemma expand_scope_other: "s \<notin> set (map fst SCOPE_HIERARCHY) \<Longrightarrow> expand_scope s = [s]"
  unfolding expand_scope_def using map_of_eq_None_iff [of SCOPE_HIERARCHY s] by simp

lemma admin_in_table: "''admin:*'' \<in> set (map fst SCOPE_HIERARCHY)"
  by code_simp

lemma star_expand:
  "(''*'' \<in> set (expand_scope s) \<longleftrightarrow> s = ''*'' \<or> s = ''admin:*'') \<and> ''admin:*'' \<notin> set (expand_scope s)"
proof (cases "s \<in> set (map fst SCOPE_HIERARCHY)")
  case True
  moreover have "''*'' \<notin> set (map fst SCOPE_HIERARCHY)" by code_simp
  ultimately show ?thesis using expand_scope_table(1) unfolding list_all_iff by blast
next
  case False
  then have "s \<noteq> ''admin:*''" using admin_in_table by blast
  then show ?thesis unfolding expand_scope_other [OF False] list.set by blast
qed

lemma expand_star: "''*'' \<in> set (expand_scopes ss) \<longleftrightarrow> ''*'' \<in> set ss \<or> ''admin:*'' \<in> set ss"
  "''admin:*'' \<notin> set (expand_scopes ss)"
proof -
  show "''*'' \<in> set (expand_scopes ss) \<longleftrightarrow> ''*'' \<in> set ss \<or> ''admin:*'' \<in> set ss"
    unfolding mem_expand star_expand [THEN conjunct1] by blast
  show "''admin:*'' \<notin> set (expand_scopes ss)"
    unfolding mem_expand using star_expand [THEN conjunct2] by blast
qed

lemma domain_expand:
  assumes "d \<in> set write_domains"
  shows "d @ '':read'' \<in> set (expand_scope s) \<longleftrightarrow> s = d @ '':read'' \<or> s = d @ '':write''"
    and "d @ '':write'' \<in> set (expand_scope s) \<longleftrightarrow> s = d @ '':write''"
proof -
  let ?K = "set (map fst SCOPE_HIERARCHY)"
  have k: "d @ '':read'' \<in> ?K" "d @ '':write'' \<in> ?K"
    using expand_scope_table(3) assms unfolding list_all_iff by blast+
  have "(d @ '':read'' \<in> set (expand_scope s) \<longleftrightarrow> s = d @ '':read'' \<or> s = d @ '':write'')
      \<and> (d @ '':write'' \<in> set (expand_scope s) \<longleftrightarrow> s = d @ '':write'')"
  proof (cases "s \<in> ?K")
    case True
    then show ?thesis using expand_scope_table(2) assms unfolding list_all_iff by blast
  next
    case False
    then show ?thesis using k unfolding expand_scope_other [OF False] list.set by blast
  qed
  then show "d @ '':read'' \<in> set (expand_scope s) \<longleftrightarrow> s = d @ '':read'' \<or> s = d @ '':write''"
    and "d @ '':write'' \<in> set (expand_scope s) \<longleftrightarrow> s = d @ '':write''" by blast+
qed

lemma expand_domain:
  assumes "d \<in> set write_domains"
  shows "d @ '':read'' \<in> set (expand_scopes ss) \<longleftrightarrow> d @ '':read'' \<in> set ss \<or> d @ '':write'' \<in> set ss"
    and "d @ '':write'' \<in> set (expand_scopes ss) \<longleftrightarrow> d @ '':write'' \<in> set ss"
    and "expand_scopes [d @ '':read''] = [d @ '':read'']"
    and "expand_scopes [d @ '':write''] = [d @ '':read'', d @ '':write'']"
proof -
  show "d @ '':read'' \<in> set (expand_scopes ss) \<longleftrightarrow> d @ '':read'' \<in> set ss \<or> d @ '':write'' \<in> set ss"
    and "d @ '':write'' \<in> set (expand_scopes ss) \<longleftrightarrow> d @ '':write'' \<in> set ss"
    unfolding mem_expand domain_expand [OF assms] by blast+
  have "expand_scope (d @ '':read'') = [d @ '':read'']" "expand_scope (d @ '':write'') = [d @ '':read'', d @ '':write'']"
    using expand_scope_table(3) assms unfolding list_all_iff by blast+
  then show "expand_scopes [d @ '':read''] = [d @ '':read'']"
    and "expand_scopes [d @ '':write''] = [d @ '':read'', d @ '':write'']"
    unfolding expand_scopes_def by (simp_all only: list.map concat.simps append_Nil2)
qed

text \<open>
  Property C32. Scopes are least privilege. For each of the five resources, an API key may read exactly with the read
  scope, the write scope or a wildcard, and may write exactly with the write scope or a wildcard; no other scope and
  no combination of scopes grants it. A key without scopes may do nothing.
\<close>

theorem scope_check_exact:
  assumes "tc_source tc = ''api_key''" "d \<in> set write_domains"
  shows "(check_scopes [d @ '':read''] tc = Inr () \<longleftrightarrow>
      (\<exists>ss. tc_api_key_scopes tc = Some ss \<and> {d @ '':read'', d @ '':write'', ''admin:*'', ''*''} \<inter> set ss \<noteq> {}))
    \<and> (check_scopes [d @ '':write''] tc = Inr () \<longleftrightarrow>
      (\<exists>ss. tc_api_key_scopes tc = Some ss \<and> {d @ '':write'', ''admin:*'', ''*''} \<inter> set ss \<noteq> {}))"
proof (cases "tc_api_key_scopes tc")
  case None
  then show ?thesis using assms(1) by (simp add: check_scopes_def)
next
  case (Some ss)
  have "check_scopes req tc = Inr () \<longleftrightarrow>
      ss \<noteq> [] \<and> (''*'' \<in> set ss \<or> ''admin:*'' \<in> set ss \<or> set (expand_scopes req) \<subseteq> set (expand_scopes ss))" for req
    using assms(1) Some by (simp add: check_scopes_def Let_def expand_star)
  then have *: "check_scopes req tc = Inr () \<longleftrightarrow> ss \<noteq> [] \<and> (''*'' \<in> set ss \<or> ''admin:*'' \<in> set ss
      \<or> list_all (\<lambda>x. x \<in> set (expand_scopes ss)) (expand_scopes req))" for req
    unfolding list_all_iff subset_iff by blast
  have meet: "(ss \<noteq> [] \<and> (s \<in> set ss \<or> w \<in> set ss \<or> (a \<in> set ss \<or> b \<in> set ss) \<and> list_all P []))
        = (\<exists>xs. Some ss = Some xs \<and> {a, b, w, s} \<inter> set xs \<noteq> {})"
      "(ss \<noteq> [] \<and> (s \<in> set ss \<or> w \<in> set ss \<or> (a \<in> set ss \<or> b \<in> set ss) \<and> b \<in> set ss \<and> list_all P []))
        = (\<exists>xs. Some ss = Some xs \<and> {b, w, s} \<inter> set xs \<noteq> {})" for a b w s :: string and P :: "string \<Rightarrow> bool"
    by auto
  show ?thesis
    unfolding * Some expand_domain(3,4) [OF assms(2)] list.pred_inject expand_domain(1,2) [OF assms(2)]
    by (intro conjI meet)
qed

definition demo_context :: TenantContext where
  "demo_context = \<lparr>tc_tenant_id = ''t1'', tc_tenant_name = ''T'', tc_tenant_slug = ''t'', tc_user_id = None,
     tc_user_role = None, tc_api_key_id = Some ''k1'', tc_api_key_scopes = Some [''spaces:read'', ''devices:write''],
     tc_source = ''api_key''\<rparr>"

theorem scope_check_exact_witness:
  "check_scopes [''devices:read''] demo_context = Inr () \<and> check_scopes [''spaces:write''] demo_context \<noteq> Inr ()"
  using scope_check_exact [of demo_context "''devices''"] scope_check_exact [of demo_context "''spaces''"]
  by (simp add: demo_context_def write_domains_def)

text \<open>
  A token made at \<open>now\<close> decodes to its user, tenant and role until its expiry, and to nothing afterwards, given that
  the library decodes what it encoded within the validity period. The expiry is a day later, less the offset of
  the local time zone.
\<close>

lemma access_token_roundtrip:
  assumes "\<And>c t. decode t (encode c k) k = (if of_int (cl_iat c) \<le> t \<and> t < of_int (cl_exp c) then Some c else None)"
    and "create_access_token encode off (Some k) now u ten role = Inr tok" "now - off \<le> t"
  shows "map_option (\<lambda>td. (td_user_id td, td_tenant_id td, td_role td)) (decode_access_token decode off (Some k) t tok)
     = (if t < of_int \<lfloor>now + 86400 - off\<rfloor> then Some (u, ten, role) else None)"
proof -
  have "of_int \<lfloor>now - off\<rfloor> \<le> t" using assms(3) of_int_floor_le [of "now - off"] by linarith
  then show ?thesis
    using assms(1,2) by (auto simp: create_access_token_def decode_access_token_def utcnow_timestamp_def
        JWT_ACCESS_TOKEN_EXPIRE_MINUTES_def split: if_splits)
qed

end
