(* ===== verification/Query_Cache.thy ===== *)
theory Query_Cache
  imports Redis_Store
begin

text \<open>
  \<open>src/cache.py\<close>: query results cached in Redis under keys made from a hash of the arguments, and their
  invalidation by key patterns.

  Values are of any type; \<open>dumps\<close> and \<open>loads\<close> are the JSON encoder and decoder, \<open>md5\<close> the hash. \<open>fails\<close> says whether
  Redis raises; every operation then behaves as a miss or does nothing. The hit rate, which is only logged, is
  left to the two counters.
\<close>

section \<open>Operations\<close>

record 'r CacheManager =
  cm_redis :: 'r
  cm_hit_count :: nat
  cm_miss_count :: nat

definition cache_get ::
  "'r redis_ops \<Rightarrow> (string \<Rightarrow> 'v result) \<Rightarrow> bool \<Rightarrow> string \<Rightarrow> 'r CacheManager \<Rightarrow> 'r CacheManager \<times> 'v option" where
  "cache_get R loads fails key m =
     (if fails then (m, None)
      else case rget R (cm_redis m) key of
        None \<Rightarrow> (m\<lparr>cm_miss_count := cm_miss_count m + 1\<rparr>, None)
      | Some v \<Rightarrow>
          if v = [] then (m\<lparr>cm_miss_count := cm_miss_count m + 1\<rparr>, None)
          else (m\<lparr>cm_hit_count := cm_hit_count m + 1\<rparr>,
                case loads v of Inl _ \<Rightarrow> None | Inr x \<Rightarrow> Some x))"

definition cache_set ::
  "'r redis_ops \<Rightarrow> ('v \<Rightarrow> string) \<Rightarrow> bool \<Rightarrow> string \<Rightarrow> 'v \<Rightarrow> int \<Rightarrow> 'r CacheManager \<Rightarrow> 'r CacheManager" where
  "cache_set R dumps fails key v ttl m =
     (if fails then m else m\<lparr>cm_redis := rset R (cm_redis m) key (dumps v) ttl\<rparr>)"

definition cache_delete :: "'r redis_ops \<Rightarrow> bool \<Rightarrow> string \<Rightarrow> 'r CacheManager \<Rightarrow> 'r CacheManager" where
  "cache_delete R fails key m = (if fails then m else m\<lparr>cm_redis := rdel R (cm_redis m) key\<rparr>)"

definition delete_pattern :: "'r redis_ops \<Rightarrow> bool \<Rightarrow> string \<Rightarrow> 'r CacheManager \<Rightarrow> 'r CacheManager" where
  "delete_pattern R fails pattern m =
     (if fails then m
      else m\<lparr>cm_redis := fold (\<lambda>k s. rdel R s k) (rkeys R (cm_redis m) pattern) (cm_redis m)\<rparr>)"

text \<open>The decorator \<open>cached\<close>: \<open>call_text\<close> is the function name with its arguments as JSON.\<close>

definition cached ::
  "'r redis_ops \<Rightarrow> ('v \<Rightarrow> string) \<Rightarrow> (string \<Rightarrow> 'v result) \<Rightarrow> (string \<Rightarrow> string) \<Rightarrow> bool \<Rightarrow> int \<Rightarrow> string \<Rightarrow> string
   \<Rightarrow> 'v option \<Rightarrow> 'r CacheManager \<Rightarrow> 'r CacheManager \<times> 'v option" where
  "cached R dumps loads md5 fails ttl key_prefix call_text computed m =
     (let cache_key = key_prefix @ '':'' @ md5 call_text in
      case cache_get R loads fails cache_key m of
        (m, Some v) \<Rightarrow> (m, Some v)
      | (m, None) \<Rightarrow>
          (case computed of
             None \<Rightarrow> (m, None)
           | Some v \<Rightarrow> (cache_set R dumps fails cache_key v ttl m, Some v)))"

definition invalidate_space_cache ::
  "'r redis_ops \<Rightarrow> bool \<Rightarrow> string \<Rightarrow> string option \<Rightarrow> 'r CacheManager \<Rightarrow> 'r CacheManager" where
  "invalidate_space_cache R fails tenant_id space_id m =
     (case space_id of
        Some i \<Rightarrow>
          if i = [] then delete_pattern R fails (''spaces:*'' @ tenant_id @ ''*'') m
          else delete_pattern R fails (''space_detail:*'' @ i @ ''*'')
                 (delete_pattern R fails (''spaces:*'' @ tenant_id @ ''*'' @ i @ ''*'') m)
      | None \<Rightarrow> delete_pattern R fails (''spaces:*'' @ tenant_id @ ''*'') m)"

definition invalidate_reservation_cache ::
  "'r redis_ops \<Rightarrow> bool \<Rightarrow> string \<Rightarrow> string option \<Rightarrow> 'r CacheManager \<Rightarrow> 'r CacheManager" where
  "invalidate_reservation_cache R fails tenant_id reservation_id m =
     delete_pattern R fails (''reservations:*'' @ tenant_id @ ''*'')
       (case reservation_id of
          None \<Rightarrow> m
        | Some i \<Rightarrow> if i = [] then m else delete_pattern R fails (''reservations:*'' @ i @ ''*'') m)"

definition invalidate_device_cache :: "'r redis_ops \<Rightarrow> bool \<Rightarrow> string \<Rightarrow> 'r CacheManager \<Rightarrow> 'r CacheManager" where
  "invalidate_device_cache R fails device_eui m =
     delete_pattern R fails ''orphan_devices:*'' (delete_pattern R fails (''devices:*'' @ device_eui @ ''*'') m)"

definition invalidate_site_cache ::
  "'r redis_ops \<Rightarrow> bool \<Rightarrow> string \<Rightarrow> string option \<Rightarrow> 'r CacheManager \<Rightarrow> 'r CacheManager" where
  "invalidate_site_cache R fails tenant_id site_id m =
     delete_pattern R fails (''sites:*'' @ tenant_id @ ''*'')
       (case site_id of
          None \<Rightarrow> m
        | Some i \<Rightarrow> if i = [] then m else delete_pattern R fails (''sites:*'' @ i @ ''*'') m)"

section \<open>Lemmas\<close>

context redis
begin

lemma contents_fold_del: "contents (fold (\<lambda>k s. rdel R s k) ks s) j = (if j \<in> set ks then None else contents s j)"
  by (induction ks arbitrary: s) (auto simp: del)

lemma delete_pattern_contents:
  "contents (cm_redis (delete_pattern R fails pat m)) k =
     (if \<not> fails \<and> glob_match pat k then None else contents (cm_redis m) k)"
  by (auto simp: delete_pattern_def contents_fold_del keys)

lemma cache_set_get:
  assumes "loads (dumps v) = Inr v" "dumps v \<noteq> []"
  shows "snd (cache_get R loads False k (cache_set R dumps False k v ttl m)) = Some v"
  using assms by (simp add: cache_get_def cache_set_def get set strlike_def str_at_def)

text \<open>A key without a character of the tenant's id survives the invalidation for that tenant.\<close>

lemma invalidate_space_cache_survives:
  assumes "c \<in> set tenant_id" "c \<noteq> CHR ''*''" "c \<noteq> CHR ''?''" "c \<notin> set k" "take 7 k = ''spaces:''"
  shows "contents (cm_redis (invalidate_space_cache R fails tenant_id space_id m)) k = contents (cm_redis m) k"
proof -
  have no: "\<not> glob_match p k" if "c \<in> set p" for p
    using glob_match_chars [of p k c] that assms by blast
  have detail: "\<not> glob_match (''space_detail:'' @ q) k" for q
    using assms(5) glob_match_literal [of "''space_detail:''" q k] by auto
  have "\<not> glob_match (''spaces:*'' @ tenant_id @ q) k" for q using assms(1) by (intro no) simp
  moreover have "\<not> glob_match (''space_detail:*'' @ q) k" for q using detail [of "CHR ''*'' # q"] by simp
  ultimately show ?thesis
    by (simp add: invalidate_space_cache_def delete_pattern_contents split: option.split)
qed

end

end
