(* ===== verification/Spaces_Api.thy ===== *)
theory Spaces_Api
  imports Access_Control Database Query_Cache "HOL-Library.Product_Lexorder"
begin

text \<open>
  The tenant-scoped endpoints for spaces (\<open>src/routers/spaces_tenanted.py\<close>) and sites (\<open>src/routers/sites.py\<close>).

  Each handler is gated by the scopes of an API key and the role of a user, as its dependencies say. The tables are
  those of \<open>Database\<close> with the sites; the trigger of migration 003 fills in the tenant of a new space.
  \<open>fails\<close> says whether the database raises at one of the statements; the text of such an exception, which
  becomes the detail of a 500 answer, is left out. \<open>jsonb_dict\<close> says whether the driver accepts a
  dictionary for a JSONB column (asyncpg does only with a codec, which the pool does not set).
\<close>

section \<open>State and answers\<close>

record spaces_world =
  sw_db :: pdb
  sw_sites :: "site_row list"
  sw_displays :: "string list"

record space_out =
  so_row :: space_row
  so_site_name :: "string option"
  so_gps_latitude :: "rat option"
  so_gps_longitude :: "rat option"

definition server_error :: http_error where "server_error = HTTPException 500 []"

definition gate :: "string \<Rightarrow> UserRole \<Rightarrow> TenantContext \<Rightarrow> http_error + TenantContext" where
  "gate scope role tenant =
     (case require_scopes [scope] tenant of Inl e \<Rightarrow> Inl e | Inr t \<Rightarrow> require_role role t)"

text \<open>\<open>float(x) if x else None\<close>: a coordinate of zero is reported as missing.\<close>

definition float_if :: "rat option \<Rightarrow> rat option" where
  "float_if x = (case x of None \<Rightarrow> None | Some q \<Rightarrow> if q = 0 then None else Some q)"

definition space_dict :: "site_row list \<Rightarrow> space_row \<Rightarrow> space_out" where
  "space_dict sites r =
     \<lparr>so_row = r,
      so_site_name = Option.bind (sp_site_id r) (\<lambda>i. map_option st_name (find (\<lambda>t. st_id t = i) sites)),
      so_gps_latitude = float_if (map_option fst (sp_gps r)),
      so_gps_longitude = float_if (map_option snd (sp_gps r))\<rparr>"

definition owned :: "TenantContext \<Rightarrow> space_row \<Rightarrow> bool" where
  "owned tenant r = (sp_tenant_id r = Some (tc_tenant_id tenant))"

section \<open>Listing\<close>

record list_filters =
  lf_building :: "string option"
  lf_floor :: "string option"
  lf_zone :: "string option"
  lf_state :: "SpaceState option"
  lf_site_id :: "uuid option"
  lf_include_deleted :: bool

definition PLATFORM_TENANT_ID :: uuid where "PLATFORM_TENANT_ID = ''00000000-0000-0000-0000-000000000000''"

definition is_platform_admin :: "TenantContext \<Rightarrow> bool" where
  "is_platform_admin tenant =
     (tc_user_role tenant = Some PLATFORM_ADMIN \<and> tc_tenant_id tenant = PLATFORM_TENANT_ID)"

definition filter_is :: "'a option \<Rightarrow> 'a option \<Rightarrow> bool" where
  "filter_is f v = (case f of None \<Rightarrow> True | Some x \<Rightarrow> v = Some x)"

definition list_matches :: "TenantContext \<Rightarrow> list_filters \<Rightarrow> space_row \<Rightarrow> bool" where
  "list_matches tenant f r =
     ((is_platform_admin tenant \<or> owned tenant r)
      \<and> filter_is (lf_building f) (sp_building r) \<and> filter_is (lf_floor f) (sp_floor r)
      \<and> filter_is (lf_zone f) (sp_zone r) \<and> filter_is (lf_state f) (Some (sp_state r))
      \<and> filter_is (lf_site_id f) (sp_site_id r) \<and> (lf_include_deleted f \<or> alive r))"

definition query_spaces :: "(string \<Rightarrow> int) \<Rightarrow> TenantContext \<Rightarrow> list_filters \<Rightarrow> spaces_world \<Rightarrow> space_out list" where
  "query_spaces collate tenant f w =
     map (space_dict (sw_sites w))
       (sort_key (\<lambda>r. (collate (sp_code r), collate (sp_name r))) (filter (list_matches tenant f) (db_spaces (sw_db w))))"

text \<open>The key is made from the JSON text of the tenant and the filters; \<open>key_text\<close> is that text.\<close>

definition list_key :: "(string \<Rightarrow> string) \<Rightarrow> (uuid \<Rightarrow> list_filters \<Rightarrow> string) \<Rightarrow> TenantContext \<Rightarrow> list_filters \<Rightarrow> string" where
  "list_key md5 key_text tenant f = ''spaces:list:'' @ md5 (key_text (tc_tenant_id tenant) f)"

text \<open>What a cached handler uses besides the tables: the Redis commands, JSON, the hash, failures.\<close>

record 'r list_env =
  le_redis :: "'r redis_ops"
  le_dumps :: "space_out list \<Rightarrow> string"
  le_loads :: "string \<Rightarrow> space_out list result"
  le_md5 :: "string \<Rightarrow> string"
  le_key_text :: "uuid \<Rightarrow> list_filters \<Rightarrow> string"
  le_collate :: "string \<Rightarrow> int"
  le_cache_fails :: bool
  le_db_fails :: bool

definition list_spaces ::
  "'r list_env \<Rightarrow> TenantContext \<Rightarrow> list_filters \<Rightarrow> spaces_world \<Rightarrow> 'r CacheManager
   \<Rightarrow> 'r CacheManager \<times> (http_error + space_out list)" where
  "list_spaces L tenant f w m =
     (case gate ''spaces:read'' VIEWER tenant of
        Inl e \<Rightarrow> (m, Inl e)
      | Inr tenant \<Rightarrow>
      (let key = list_key (le_md5 L) (le_key_text L) tenant f in
       case cache_get (le_redis L) (le_loads L) (le_cache_fails L) key m of
         (m, Some spaces) \<Rightarrow> (m, Inr spaces)
       | (m, None) \<Rightarrow>
           if le_db_fails L then (m, Inl server_error)
           else
             let spaces = query_spaces (le_collate L) tenant f w
             in (cache_set (le_redis L) (le_dumps L) (le_cache_fails L) key spaces 60 m, Inr spaces)))"

definition get_space_api :: "bool \<Rightarrow> TenantContext \<Rightarrow> uuid \<Rightarrow> spaces_world \<Rightarrow> http_error + space_out" where
  "get_space_api fails tenant space_id w =
     (case gate ''spaces:read'' VIEWER tenant of
        Inl e \<Rightarrow> Inl e
      | Inr tenant \<Rightarrow>
          if fails then Inl server_error
          else case find (\<lambda>r. sp_id r = space_id \<and> owned tenant r \<and> alive r) (db_spaces (sw_db w)) of
                 None \<Rightarrow> Inl (HTTPException 404 ''Space not found'')
               | Some r \<Rightarrow> Inr (space_dict (sw_sites w) r))"

definition count_state :: "TenantContext \<Rightarrow> uuid option \<Rightarrow> SpaceState \<Rightarrow> spaces_world \<Rightarrow> nat" where
  "count_state tenant site_id st w =
     sql_count (\<lambda>r. owned tenant r \<and> filter_is site_id (sp_site_id r) \<and> alive r \<and> sp_state r = st) (db_spaces (sw_db w))"

record space_stats =
  ss_free :: nat
  ss_occupied :: nat
  ss_reserved :: nat
  ss_maintenance :: nat
  ss_total :: nat

definition get_space_stats :: "bool \<Rightarrow> TenantContext \<Rightarrow> uuid option \<Rightarrow> spaces_world \<Rightarrow> http_error + space_stats" where
  "get_space_stats fails tenant site_id w =
     (case gate ''spaces:read'' VIEWER tenant of
        Inl e \<Rightarrow> Inl e
      | Inr tenant \<Rightarrow>
          if fails then Inl server_error
          else let n = (\<lambda>st. count_state tenant site_id st w)
               in Inr \<lparr>ss_free = n FREE, ss_occupied = n OCCUPIED, ss_reserved = n RESERVED,
                       ss_maintenance = n MAINTENANCE, ss_total = n FREE + n OCCUPIED + n RESERVED + n MAINTENANCE\<rparr>)"

section \<open>Changing spaces\<close>

text \<open>An insert or update passes the triggers and the unique constraints, or raises.\<close>

definition store_space :: "space_row list \<Rightarrow> space_row \<Rightarrow> space_row option" where
  "store_space others r =
     (let row = enforce_eui_uppercase r
      in case space_unique_violation others row of Some _ \<Rightarrow> None | None \<Rightarrow> Some row)"

definition create_space_api ::
  "bool \<Rightarrow> bool \<Rightarrow> uuid \<Rightarrow> instant \<Rightarrow> TenantContext \<Rightarrow> uuid \<Rightarrow> SpaceCreate \<Rightarrow> spaces_world
   \<Rightarrow> spaces_world \<times> (http_error + space_out)" where
  "create_space_api jsonb_dict fails i now tenant site_id space w =
     (case gate ''spaces:write'' ADMIN tenant of
        Inl e \<Rightarrow> (w, Inl e)
      | Inr tenant \<Rightarrow>
      if fails then (w, Inl server_error)
      else if \<not> sql_exists (\<lambda>t. st_id t = site_id \<and> st_tenant_id t = tc_tenant_id tenant \<and> st_is_active t) (sw_sites w)
      then (w, Inl (HTTPException 400 ''Site not found or does not belong to your tenant''))
      else if sql_exists (\<lambda>r. owned tenant r \<and> sp_site_id r = Some site_id \<and> sp_code r = sn_code space \<and> alive r)
                (db_spaces (sw_db w))
      then (w, Inl (HTTPException 400 (''Space with code '' @ sn_code space @ '' already exists in this site'')))
      else if sn_metadata space \<noteq> None \<and> \<not> jsonb_dict then (w, Inl server_error)
      else
        (case spaces_sync_tenant_id (sw_sites w)
                ((new_space_row i now space)\<lparr>sp_site_id := Some site_id, sp_sensor_eui := sn_sensor_eui space,
                   sp_display_eui := sn_display_eui space, sp_metadata := sn_metadata space\<rparr>) of
           Inl _ \<Rightarrow> (w, Inl server_error)
         | Inr r \<Rightarrow>
             (case store_space (db_spaces (sw_db w)) r of
                None \<Rightarrow> (w, Inl server_error)
              | Some row \<Rightarrow>
                  (w\<lparr>sw_db := (sw_db w)\<lparr>db_spaces := db_spaces (sw_db w) @ [row]\<rparr>\<rparr>,
                   Inr (space_dict (sw_sites w) row)))))"

text \<open>Only the fields with a value are set.\<close>

definition some_field :: "'a option option \<Rightarrow> 'a option" where "some_field v = Option.bind v (\<lambda>x. x)"

definition patch_space :: "SpaceUpdate \<Rightarrow> space_row \<Rightarrow> space_row" where
  "patch_space u =
     set_if (su_name u) (\<lambda>v r. r\<lparr>sp_name := v\<rparr>) \<circ>
     set_if (su_code u) (\<lambda>v r. r\<lparr>sp_code := v\<rparr>) \<circ>
     set_if (some_field (su_building u)) (\<lambda>v r. r\<lparr>sp_building := Some v\<rparr>) \<circ>
     set_if (some_field (su_floor u)) (\<lambda>v r. r\<lparr>sp_floor := Some v\<rparr>) \<circ>
     set_if (some_field (su_zone u)) (\<lambda>v r. r\<lparr>sp_zone := Some v\<rparr>) \<circ>
     set_if (some_field (su_sensor_eui u)) (\<lambda>v r. r\<lparr>sp_sensor_eui := Some v\<rparr>) \<circ>
     set_if (some_field (su_display_eui u)) (\<lambda>v r. r\<lparr>sp_display_eui := Some v\<rparr>) \<circ>
     set_if (su_state u) (\<lambda>v r. r\<lparr>sp_state := v\<rparr>) \<circ>
     set_if (some_field (su_metadata u)) (\<lambda>v r. r\<lparr>sp_metadata := Some v\<rparr>)"

definition nothing_set :: "SpaceUpdate \<Rightarrow> bool" where
  "nothing_set u =
     (su_name u = None \<and> su_code u = None \<and> some_field (su_building u) = None \<and> some_field (su_floor u) = None
      \<and> some_field (su_zone u) = None \<and> some_field (su_sensor_eui u) = None
      \<and> some_field (su_display_eui u) = None \<and> su_state u = None \<and> some_field (su_metadata u) = None)"

text \<open>One row is replaced by a new version of it, unless that violates a constraint.\<close>

definition rewrite_space ::
  "(space_row \<Rightarrow> bool) \<Rightarrow> (space_row \<Rightarrow> space_row) \<Rightarrow> uuid \<Rightarrow> spaces_world
   \<Rightarrow> spaces_world \<times> (http_error + space_out) option" where
  "rewrite_space P f space_id w =
     (case find (\<lambda>r. sp_id r = space_id \<and> P r) (db_spaces (sw_db w)) of
        None \<Rightarrow> (w, None)
      | Some old \<Rightarrow>
          (case store_space (filter (\<lambda>r. sp_id r \<noteq> space_id) (db_spaces (sw_db w))) (f old) of
             None \<Rightarrow> (w, Some (Inl server_error))
           | Some row \<Rightarrow>
               (w\<lparr>sw_db := (sw_db w)\<lparr>db_spaces := sql_update (\<lambda>r. sp_id r = space_id \<and> P r) (\<lambda>_. row)
                                                  (db_spaces (sw_db w))\<rparr>\<rparr>,
                Some (Inr (space_dict (sw_sites w) row)))))"

definition update_space_api ::
  "bool \<Rightarrow> bool \<Rightarrow> instant \<Rightarrow> TenantContext \<Rightarrow> uuid \<Rightarrow> SpaceUpdate \<Rightarrow> spaces_world
   \<Rightarrow> spaces_world \<times> (http_error + space_out)" where
  "update_space_api jsonb_dict fails now tenant space_id u w =
     (case gate ''spaces:write'' ADMIN tenant of
        Inl e \<Rightarrow> (w, Inl e)
      | Inr tenant \<Rightarrow>
      if fails then (w, Inl server_error)
      else if \<not> sql_exists (\<lambda>r. sp_id r = space_id \<and> owned tenant r \<and> alive r) (db_spaces (sw_db w))
      then (w, Inl (HTTPException 404 ''Space not found''))
      else if nothing_set u then (w, Inl (HTTPException 400 ''No fields to update''))
      else if some_field (su_metadata u) \<noteq> None \<and> \<not> jsonb_dict then (w, Inl server_error)
      else (case rewrite_space (owned tenant) (\<lambda>r. (patch_space u r)\<lparr>sp_updated_at := now\<rparr>) space_id w of
              (w, None) \<Rightarrow> (w, Inl server_error)
            | (w, Some res) \<Rightarrow> (w, res)))"

definition delete_space_api ::
  "bool \<Rightarrow> instant \<Rightarrow> TenantContext \<Rightarrow> uuid \<Rightarrow> spaces_world \<Rightarrow> spaces_world \<times> (http_error + unit)" where
  "delete_space_api fails now tenant space_id w =
     (case gate ''spaces:write'' ADMIN tenant of
        Inl e \<Rightarrow> (w, Inl e)
      | Inr tenant \<Rightarrow>
      if fails then (w, Inl server_error)
      else
        let P = (\<lambda>r. sp_id r = space_id \<and> owned tenant r \<and> alive r)
        in if sql_count P (db_spaces (sw_db w)) = 0 then (w, Inl (HTTPException 404 ''Space not found''))
           else (w\<lparr>sw_db := (sw_db w)\<lparr>db_spaces := sql_update P (\<lambda>r. r\<lparr>sp_deleted_at := Some now\<rparr>)
                                                    (db_spaces (sw_db w))\<rparr>\<rparr>, Inr ()))"

section \<open>Assigning devices\<close>

definition hex16_upper :: "string \<Rightarrow> bool" where
  "hex16_upper s = (length s = 16 \<and> list_all (\<lambda>c. c \<in> set ''0123456789ABCDEF'') s)"

definition not_in_tenant :: "TenantContext \<Rightarrow> uuid \<Rightarrow> http_error" where
  "not_in_tenant tenant space_id =
     HTTPException 404 (''Space '' @ space_id @ '' not found in tenant '' @ tc_tenant_slug tenant)"

definition rewrite_or_404 ::
  "instant \<Rightarrow> TenantContext \<Rightarrow> uuid \<Rightarrow> (space_row \<Rightarrow> space_row) \<Rightarrow> spaces_world \<Rightarrow> spaces_world \<times> (http_error + space_out)" where
  "rewrite_or_404 now tenant space_id f w =
     (case rewrite_space (\<lambda>r. owned tenant r \<and> alive r) (\<lambda>r. (f r)\<lparr>sp_updated_at := now\<rparr>) space_id w of
        (w, None) \<Rightarrow> (w, Inl (not_in_tenant tenant space_id))
      | (w, Some res) \<Rightarrow> (w, res))"

text \<open>
  An unknown sensor is added to the registry before the space is looked up. \<open>default_row\<close> is the row
  the insert gives, apart from its EUI and status.
\<close>

definition assign_sensor_to_space ::
  "bool \<Rightarrow> sensor_device_row \<Rightarrow> instant \<Rightarrow> TenantContext \<Rightarrow> uuid \<Rightarrow> string \<Rightarrow> spaces_world
   \<Rightarrow> spaces_world \<times> (http_error + space_out)" where
  "assign_sensor_to_space fails default_row now tenant space_id sensor_eui w =
     (case gate ''spaces:write'' ADMIN tenant of
        Inl e \<Rightarrow> (w, Inl e)
      | Inr tenant \<Rightarrow>
      (let eui = upper sensor_eui in
       if \<not> hex16_upper eui then (w, Inl (HTTPException 400 ''sensor_eui must be 16 hexadecimal characters''))
       else if fails then (w, Inl server_error)
       else
         let w = (if sql_exists (\<lambda>d. sd_dev_eui d = eui) (db_sensor_devices (sw_db w)) then w
                  else w\<lparr>sw_db := (sw_db w)\<lparr>db_sensor_devices := db_sensor_devices (sw_db w) @
                          [default_row\<lparr>sd_dev_eui := eui, sd_status := ''active''\<rparr>]\<rparr>\<rparr>)
         in rewrite_or_404 now tenant space_id (\<lambda>r. r\<lparr>sp_sensor_eui := Some eui\<rparr>) w))"

definition assign_display_to_space ::
  "bool \<Rightarrow> instant \<Rightarrow> TenantContext \<Rightarrow> uuid \<Rightarrow> string \<Rightarrow> spaces_world \<Rightarrow> spaces_world \<times> (http_error + space_out)" where
  "assign_display_to_space fails now tenant space_id display_eui w =
     (case gate ''spaces:write'' ADMIN tenant of
        Inl e \<Rightarrow> (w, Inl e)
      | Inr tenant \<Rightarrow>
      (let eui = upper display_eui in
       if \<not> hex16_upper eui then (w, Inl (HTTPException 400 ''display_eui must be 16 hexadecimal characters''))
       else if fails then (w, Inl server_error)
       else
         let w = (if eui \<in> set (sw_displays w) then w else w\<lparr>sw_displays := sw_displays w @ [eui]\<rparr>)
         in rewrite_or_404 now tenant space_id (\<lambda>r. r\<lparr>sp_display_eui := Some eui\<rparr>) w))"

definition unassign_sensor_from_space ::
  "bool \<Rightarrow> instant \<Rightarrow> TenantContext \<Rightarrow> uuid \<Rightarrow> spaces_world \<Rightarrow> spaces_world \<times> (http_error + space_out)" where
  "unassign_sensor_from_space fails now tenant space_id w =
     (case gate ''spaces:write'' ADMIN tenant of
        Inl e \<Rightarrow> (w, Inl e)
      | Inr tenant \<Rightarrow>
          if fails then (w, Inl server_error)
          else rewrite_or_404 now tenant space_id (\<lambda>r. r\<lparr>sp_sensor_eui := None\<rparr>) w)"

definition unassign_display_from_space ::
  "bool \<Rightarrow> instant \<Rightarrow> TenantContext \<Rightarrow> uuid \<Rightarrow> spaces_world \<Rightarrow> spaces_world \<times> (http_error + space_out)" where
  "unassign_display_from_space fails now tenant space_id w =
     (case gate ''spaces:write'' ADMIN tenant of
        Inl e \<Rightarrow> (w, Inl e)
      | Inr tenant \<Rightarrow>
          if fails then (w, Inl server_error)
          else rewrite_or_404 now tenant space_id (\<lambda>r. r\<lparr>sp_display_eui := None\<rparr>) w)"

section \<open>Sites\<close>

record SiteCreate =
  sc_name :: string
  sc_timezone :: string
  sc_location :: "string option"
  sc_metadata :: "string option"
  sc_is_active :: bool

record SiteUpdate =
  si_name :: "string option"
  si_timezone :: "string option"
  si_location :: "string option"
  si_metadata :: "string option"
  si_is_active :: "bool option"

record site_out =
  sx_row :: site_row
  sx_spaces_count :: nat

text \<open>
  \<open>row["location"] if isinstance(row["location"], dict) else None\<close>: without a codec the driver returns text, and
  location and metadata are dropped from the answer.
\<close>

definition site_dict :: "bool \<Rightarrow> site_row \<Rightarrow> nat \<Rightarrow> site_out" where
  "site_dict jsonb_dict t n =
     \<lparr>sx_row = (if jsonb_dict then t else t\<lparr>st_location := None, st_metadata := None\<rparr>), sx_spaces_count = n\<rparr>"

text \<open>\<open>json.dumps(d) if d else None\<close>, on the JSON text of the dictionary.\<close>

definition json_or_null :: "string option \<Rightarrow> string option" where
  "json_or_null d = (if d = Some ''{}'' then None else d)"

definition spaces_count :: "uuid \<Rightarrow> spaces_world \<Rightarrow> nat" where
  "spaces_count site_id w = sql_count (\<lambda>r. sp_site_id r = Some site_id \<and> alive r) (db_spaces (sw_db w))"

definition list_sites ::
  "bool \<Rightarrow> (string \<Rightarrow> int) \<Rightarrow> TenantContext \<Rightarrow> bool \<Rightarrow> spaces_world \<Rightarrow> http_error + site_out list" where
  "list_sites jsonb_dict collate tenant include_inactive w =
     (case gate ''sites:read'' VIEWER tenant of
        Inl e \<Rightarrow> Inl e
      | Inr tenant \<Rightarrow>
          Inr (map (\<lambda>t. site_dict jsonb_dict t (spaces_count (st_id t) w))
            (sort_key (\<lambda>t. collate (st_name t))
              (filter (\<lambda>t. st_tenant_id t = tc_tenant_id tenant \<and> (include_inactive \<or> st_is_active t)) (sw_sites w)))))"

definition get_site :: "bool \<Rightarrow> TenantContext \<Rightarrow> uuid \<Rightarrow> spaces_world \<Rightarrow> http_error + site_out" where
  "get_site jsonb_dict tenant site_id w =
     (case gate ''sites:read'' VIEWER tenant of
        Inl e \<Rightarrow> Inl e
      | Inr tenant \<Rightarrow>
          (case find (\<lambda>t. st_id t = site_id \<and> st_tenant_id t = tc_tenant_id tenant) (sw_sites w) of
             None \<Rightarrow> Inl (HTTPException 404 (''Site '' @ site_id @ '' not found''))
           | Some t \<Rightarrow> Inr (site_dict jsonb_dict t (spaces_count site_id w))))"

text \<open>An id that is taken violates the primary key.\<close>

definition create_site :: "bool \<Rightarrow> uuid \<Rightarrow> TenantContext \<Rightarrow> SiteCreate \<Rightarrow> spaces_world \<Rightarrow> spaces_world \<times> (http_error + site_out)" where
  "create_site jsonb_dict i tenant site w =
     (case gate ''sites:write'' ADMIN tenant of
        Inl e \<Rightarrow> (w, Inl e)
      | Inr tenant \<Rightarrow>
          if sql_exists (\<lambda>t. st_tenant_id t = tc_tenant_id tenant \<and> st_name t = sc_name site) (sw_sites w)
          then (w, Inl (HTTPException 409 (''Site with name '' @ sc_name site @ '' already exists for this tenant'')))
          else if sql_exists (\<lambda>t. st_id t = i) (sw_sites w) then (w, Inl server_error)
          else let row = \<lparr>st_id = i, st_tenant_id = tc_tenant_id tenant, st_name = sc_name site,
                          st_timezone = sc_timezone site, st_location = json_or_null (sc_location site),
                          st_metadata = json_or_null (sc_metadata site), st_is_active = sc_is_active site\<rparr>
               in (w\<lparr>sw_sites := sw_sites w @ [row]\<rparr>, Inr (site_dict jsonb_dict row 0)))"

definition patch_site :: "SiteUpdate \<Rightarrow> site_row \<Rightarrow> site_row" where
  "patch_site u =
     set_if (si_name u) (\<lambda>v t. t\<lparr>st_name := v\<rparr>) \<circ> set_if (si_timezone u) (\<lambda>v t. t\<lparr>st_timezone := v\<rparr>) \<circ>
     set_if (si_location u) (\<lambda>v t. t\<lparr>st_location := json_or_null (Some v)\<rparr>) \<circ>
     set_if (si_metadata u) (\<lambda>v t. t\<lparr>st_metadata := json_or_null (Some v)\<rparr>) \<circ>
     set_if (si_is_active u) (\<lambda>v t. t\<lparr>st_is_active := v\<rparr>)"

definition update_site ::
  "bool \<Rightarrow> TenantContext \<Rightarrow> uuid \<Rightarrow> SiteUpdate \<Rightarrow> spaces_world \<Rightarrow> spaces_world \<times> (http_error + site_out)" where
  "update_site jsonb_dict tenant site_id u w =
     (case gate ''sites:write'' ADMIN tenant of
        Inl e \<Rightarrow> (w, Inl e)
      | Inr tenant \<Rightarrow>
      (let P = (\<lambda>t. st_id t = site_id \<and> st_tenant_id t = tc_tenant_id tenant) in
       case find P (sw_sites w) of
         None \<Rightarrow> (w, Inl (HTTPException 404 (''Site '' @ site_id @ '' not found'')))
       | Some t \<Rightarrow>
           if (case si_name u of None \<Rightarrow> False
               | Some n \<Rightarrow> sql_exists (\<lambda>t. st_tenant_id t = tc_tenant_id tenant \<and> st_name t = n \<and> st_id t \<noteq> site_id) (sw_sites w))
           then (w, Inl (HTTPException 409 (''Site with name '' @ (case si_name u of None \<Rightarrow> [] | Some n \<Rightarrow> n) @ '' already exists'')))
           else if si_name u = None \<and> si_timezone u = None \<and> si_location u = None \<and> si_metadata u = None
                   \<and> si_is_active u = None
           then (w, Inl (HTTPException 400 ''No fields to update''))
           else (w\<lparr>sw_sites := sql_update P (patch_site u) (sw_sites w)\<rparr>,
                 Inr (site_dict jsonb_dict (patch_site u t) (spaces_count site_id w)))))"

definition delete_site :: "TenantContext \<Rightarrow> uuid \<Rightarrow> bool \<Rightarrow> spaces_world \<Rightarrow> spaces_world \<times> (http_error + unit)" where
  "delete_site tenant site_id force w =
     (case gate ''sites:write'' ADMIN tenant of
        Inl e \<Rightarrow> (w, Inl e)
      | Inr tenant \<Rightarrow>
          if \<not> sql_exists (\<lambda>t. st_id t = site_id \<and> st_tenant_id t = tc_tenant_id tenant) (sw_sites w)
          then (w, Inl (HTTPException 404 (''Site '' @ site_id @ '' not found'')))
          else if \<not> force \<and> spaces_count site_id w > 0
          then (w, Inl (HTTPException 409 ''Cannot delete site with parking spaces. Use force=true to override.''))
          else (w\<lparr>sw_sites := sql_update (\<lambda>t. st_id t = site_id) (\<lambda>t. t\<lparr>st_is_active := False\<rparr>) (sw_sites w)\<rparr>, Inr ()))"

section \<open>One operation\<close>

datatype space_op =
    CreateSpace bool bool uuid instant uuid SpaceCreate
  | UpdateSpace bool bool instant uuid SpaceUpdate
  | DeleteSpace bool instant uuid
  | AssignSensor bool sensor_device_row instant uuid string
  | AssignDisplay bool instant uuid string
  | UnassignSensor bool instant uuid
  | UnassignDisplay bool instant uuid
  | CreateSite bool uuid SiteCreate
  | UpdateSite bool uuid SiteUpdate
  | DeleteSite uuid bool

fun space_step :: "space_op \<Rightarrow> TenantContext \<Rightarrow> spaces_world \<Rightarrow> spaces_world" where
  "space_step (CreateSpace j f i now s c) tc w = fst (create_space_api j f i now tc s c w)"
| "space_step (UpdateSpace j f now i u) tc w = fst (update_space_api j f now tc i u w)"
| "space_step (DeleteSpace f now i) tc w = fst (delete_space_api f now tc i w)"
| "space_step (AssignSensor f d now i e) tc w = fst (assign_sensor_to_space f d now tc i e w)"
| "space_step (AssignDisplay f now i e) tc w = fst (assign_display_to_space f now tc i e w)"
| "space_step (UnassignSensor f now i) tc w = fst (unassign_sensor_from_space f now tc i w)"
| "space_step (UnassignDisplay f now i) tc w = fst (unassign_display_from_space f now tc i w)"
| "space_step (CreateSite j i s) tc w = fst (create_site j i tc s w)"
| "space_step (UpdateSite j i u) tc w = fst (update_site j tc i u w)"
| "space_step (DeleteSite i force) tc w = fst (delete_site tc i force w)"

text \<open>What a tenant has, and the primary key of sites.\<close>

definition rows_of :: "uuid \<Rightarrow> spaces_world \<Rightarrow> space_row list \<times> site_row list" where
  "rows_of t w = (filter (\<lambda>r. sp_tenant_id r = Some t) (db_spaces (sw_db w)), filter (\<lambda>s. st_tenant_id s = t) (sw_sites w))"

definition sites_wf :: "spaces_world \<Rightarrow> bool" where "sites_wf w \<longleftrightarrow> distinct (map st_id (sw_sites w))"

section \<open>Tenants do not touch each other\<close>

lemma filter_sql_update:
  assumes "\<And>r. r \<in> set rows \<Longrightarrow> P r \<Longrightarrow> \<not> Q r \<and> \<not> Q (f r)"
  shows "filter Q (sql_update P f rows) = filter Q rows"
  using assms by (induction rows) (auto simp: sql_update_def)

lemma gate_Inr: "gate s r tc = Inr tc' \<Longrightarrow> tc' = tc"
  by (auto simp: gate_def require_scopes_def require_role_def split: sum.splits if_splits option.splits)

lemma enforce_tenant [simp]: "sp_tenant_id (enforce_eui_uppercase r) = sp_tenant_id r"
  by (simp add: enforce_eui_uppercase_def)

lemma store_tenant: "store_space others r = Some row \<Longrightarrow> sp_tenant_id row = sp_tenant_id r"
  by (auto simp: store_space_def Let_def split: option.splits)

lemma patch_tenant [simp]: "sp_tenant_id (patch_space u r) = sp_tenant_id r"
  by (simp add: patch_space_def set_if_proj)

lemma patch_site_fields [simp]: "st_tenant_id (patch_site u s) = st_tenant_id s" "st_id (patch_site u s) = st_id s"
  by (simp_all add: patch_site_def set_if_proj)

text \<open>Rewriting a row of one tenant keeps the rows of the others and all sites.\<close>

lemma rewrite_space_rows:
  assumes "\<And>r. P r \<Longrightarrow> owned tc r" "\<And>r. sp_tenant_id (f r) = sp_tenant_id r" "t \<noteq> tc_tenant_id tc"
  shows "rows_of t (fst (rewrite_space P f i w)) = rows_of t w" "sw_sites (fst (rewrite_space P f i w)) = sw_sites w"
proof -
  have new: "sp_tenant_id row = Some (tc_tenant_id tc)"
    if "find (\<lambda>r. sp_id r = i \<and> P r) rs = Some old" "store_space others (f old) = Some row" for rs old others row
    using find_SomeD [OF that(1)] store_tenant [OF that(2)] assms(1,2) by (simp add: owned_def)
  have "filter (\<lambda>r. sp_tenant_id r = Some t) (sql_update (\<lambda>r. sp_id r = i \<and> P r) (\<lambda>_. row) rs)
      = filter (\<lambda>r. sp_tenant_id r = Some t) rs" if "sp_tenant_id row = Some (tc_tenant_id tc)" for rs row
    by (rule filter_sql_update) (use assms(1,3) that in \<open>auto simp: owned_def\<close>)
  then show "rows_of t (fst (rewrite_space P f i w)) = rows_of t w"
    using new by (auto simp: rewrite_space_def rows_of_def split: option.split)
  show "sw_sites (fst (rewrite_space P f i w)) = sw_sites w"
    by (simp add: rewrite_space_def split: option.split)
qed

lemma rewrite_or_404_rows:
  assumes "\<And>r. sp_tenant_id (f r) = sp_tenant_id r" "t \<noteq> tc_tenant_id tc"
  shows "rows_of t (fst (rewrite_or_404 now tc i f w)) = rows_of t w"
    and "sw_sites (fst (rewrite_or_404 now tc i f w)) = sw_sites w"
  using rewrite_space_rows [where P = "\<lambda>r. owned tc r \<and> alive r" and f = "\<lambda>r. (f r)\<lparr>sp_updated_at := now\<rparr>" and tc = tc
      and t = t and i = i and w = w] assms
  by (auto simp: rewrite_or_404_def split: prod.split option.split)

lemma create_space_rows:
  assumes "sites_wf w" "t \<noteq> tc_tenant_id tc"
  shows "rows_of t (fst (create_space_api j fl i now tc s c w)) = rows_of t w
    \<and> sw_sites (fst (create_space_api j fl i now tc s c w)) = sw_sites w"
proof -
  have "sp_tenant_id row \<noteq> Some t"
    if site: "sql_exists (\<lambda>x. st_id x = s \<and> st_tenant_id x = tc_tenant_id tc \<and> st_is_active x) (sw_sites w)"
      and trig: "spaces_sync_tenant_id (sw_sites w) r = Inr r'" and r: "sp_site_id r = Some s" "sp_tenant_id r = None"
      and st: "store_space others r' = Some row" for r r' others row
  proof -
    obtain x where x: "find (\<lambda>x. st_id x = s \<and> st_is_active x) (sw_sites w) = Some x" "sp_tenant_id r' = Some (st_tenant_id x)"
      using trig r by (auto simp: spaces_sync_tenant_id_def split: option.splits)
    obtain y where y: "y \<in> set (sw_sites w)" "st_id y = s" "st_tenant_id y = tc_tenant_id tc"
      using site by (auto simp: sql_exists_def list_ex_iff)
    have "inj_on st_id (set (sw_sites w))" using assms(1) by (simp add: sites_wf_def distinct_map)
    then have "x = y" using find_SomeD [OF x(1)] y inj_onD [of st_id "set (sw_sites w)" x y] by simp
    then show ?thesis using x(2) y(3) assms(2) store_tenant [OF st] by simp
  qed
  note foreign = this
  let ?r = "(new_space_row i now c)\<lparr>sp_site_id := Some s, sp_sensor_eui := sn_sensor_eui c,
      sp_display_eui := sn_display_eui c, sp_metadata := sn_metadata c\<rparr>"
  have r: "sp_site_id ?r = Some s" "sp_tenant_id ?r = None" by (simp_all add: new_space_row_def)
  show ?thesis
  proof (cases "gate ''spaces:write'' ADMIN tc")
    case (Inr tc')
    then have gate: "gate ''spaces:write'' ADMIN tc = Inr tc" using gate_Inr [OF Inr] by simp
    show ?thesis
    proof (cases "spaces_sync_tenant_id (sw_sites w) ?r")
      case (Inl e)
      then show ?thesis unfolding create_space_api_def gate by simp
    next
      case trig: (Inr r')
      show ?thesis
      proof (cases "store_space (db_spaces (sw_db w)) r'")
        case None
        then show ?thesis unfolding create_space_api_def gate trig by simp
      next
        case (Some row)
        have "rows_of t (w\<lparr>sw_db := (sw_db w)\<lparr>db_spaces := db_spaces (sw_db w) @ [row]\<rparr>\<rparr>) = rows_of t w"
          if "sql_exists (\<lambda>x. st_id x = s \<and> st_tenant_id x = tc_tenant_id tc \<and> st_is_active x) (sw_sites w)"
          using foreign [OF that trig r Some] by (simp add: rows_of_def)
        then show ?thesis unfolding create_space_api_def gate trig sum.case Some option.case by simp
      qed
    qed
  qed (simp add: create_space_api_def)
qed

lemma site_step_rows:
  assumes "sites_wf w" "t \<noteq> tc_tenant_id tc"
  shows "rows_of t (fst (create_site j i tc s w)) = rows_of t w \<and> sites_wf (fst (create_site j i tc s w))"
    and "rows_of t (fst (update_site j tc i u w)) = rows_of t w \<and> sites_wf (fst (update_site j tc i u w))"
    and "rows_of t (fst (delete_site tc i force w)) = rows_of t w \<and> sites_wf (fst (delete_site tc i force w))"
proof -
  have mine: "gate s r tc = Inr tc' \<Longrightarrow> tc_tenant_id tc' \<noteq> t" for s r tc' using gate_Inr assms(2) by blast
  show "rows_of t (fst (create_site j i tc s w)) = rows_of t w \<and> sites_wf (fst (create_site j i tc s w))"
    using assms(1) by (auto simp: create_site_def rows_of_def sites_wf_def sql_exists_def list_ex_iff Let_def
        split: sum.split dest: mine)
  have ids: "map st_id (sql_update P f xs) = map st_id xs" if "\<And>x. st_id (f x) = st_id x" for P f xs
    using that by (simp add: sql_update_def)
  have upd: "filter (\<lambda>s. st_tenant_id s = t) (sql_update (\<lambda>x. st_id x = i \<and> st_tenant_id x = tc_tenant_id tc') (patch_site u) xs)
      = filter (\<lambda>s. st_tenant_id s = t) xs" if "tc_tenant_id tc' \<noteq> t" for tc' xs
    by (rule filter_sql_update) (use that in auto)
  show "rows_of t (fst (update_site j tc i u w)) = rows_of t w \<and> sites_wf (fst (update_site j tc i u w))"
    using assms(1) by (auto simp: update_site_def rows_of_def sites_wf_def Let_def ids upd split: sum.split option.split
        dest: mine)
  have del: "filter (\<lambda>s. st_tenant_id s = t) (sql_update (\<lambda>x. st_id x = i) (\<lambda>x. x\<lparr>st_is_active := False\<rparr>) (sw_sites w))
      = filter (\<lambda>s. st_tenant_id s = t) (sw_sites w)"
    if ex: "sql_exists (\<lambda>x. st_id x = i \<and> st_tenant_id x = tc_tenant_id tc') (sw_sites w)" "tc_tenant_id tc' \<noteq> t" for tc'
  proof (rule filter_sql_update)
    fix r assume r: "r \<in> set (sw_sites w)" "st_id r = i"
    obtain y where "y \<in> set (sw_sites w)" "st_id y = i" "st_tenant_id y = tc_tenant_id tc'"
      using ex(1) by (auto simp: sql_exists_def list_ex_iff)
    moreover have "inj_on st_id (set (sw_sites w))" using assms(1) by (simp add: sites_wf_def distinct_map)
    ultimately have "r = y" using r inj_onD [of st_id "set (sw_sites w)" r y] by simp
    then show "\<not> st_tenant_id r = t \<and> \<not> st_tenant_id (r\<lparr>st_is_active := False\<rparr>) = t"
      using \<open>st_tenant_id y = tc_tenant_id tc'\<close> ex(2) by simp
  qed
  show "rows_of t (fst (delete_site tc i force w)) = rows_of t w \<and> sites_wf (fst (delete_site tc i force w))"
    using assms(1) by (auto simp: delete_site_def rows_of_def sites_wf_def ids del split: sum.split dest: mine)
qed

lemma space_step_rows:
  assumes "sites_wf w" "t \<noteq> tc_tenant_id tc"
  shows "rows_of t (space_step op tc w) = rows_of t w \<and> sites_wf (space_step op tc w)"
proof -
  have del: "filter (\<lambda>r. sp_tenant_id r = Some t) (sql_update (\<lambda>r. sp_id r = i \<and> owned tc r \<and> alive r)
        (\<lambda>r. r\<lparr>sp_deleted_at := Some now\<rparr>) rs) = filter (\<lambda>r. sp_tenant_id r = Some t) rs" for i now rs
    by (rule filter_sql_update) (use assms(2) in \<open>auto simp: owned_def\<close>)
  have upd: "rows_of t (fst (rewrite_space (owned tc) (\<lambda>r. (patch_space u r)\<lparr>sp_updated_at := now\<rparr>) i w)) = rows_of t w"
      "sw_sites (fst (rewrite_space (owned tc) (\<lambda>r. (patch_space u r)\<lparr>sp_updated_at := now\<rparr>) i w)) = sw_sites w" for u now i
    using rewrite_space_rows [where P = "owned tc" and f = "\<lambda>r. (patch_space u r)\<lparr>sp_updated_at := now\<rparr>" and tc = tc
        and t = t and i = i and w = w] assms(2) by simp_all
  note rw = rewrite_or_404_rows [OF _ assms(2)]
  show ?thesis
  proof (cases op)
    case (CreateSpace j f i now s c)
    then show ?thesis using create_space_rows [OF assms, of j f i now s c] assms(1) by (simp add: sites_wf_def)
  next
    case (UpdateSpace j f now i u)
    have "fst (case rewrite_space (owned tc) (\<lambda>r. (patch_space u r)\<lparr>sp_updated_at := now\<rparr>) i w of
          (w, None) \<Rightarrow> (w, Inl server_error) | (w, Some res) \<Rightarrow> (w, res))
        = fst (rewrite_space (owned tc) (\<lambda>r. (patch_space u r)\<lparr>sp_updated_at := now\<rparr>) i w)"
      by (simp split: prod.split option.split)
    with UpdateSpace show ?thesis using upd [where u = u and now = now and i = i] assms(1)
      by (auto simp: update_space_api_def sites_wf_def split: sum.split dest!: gate_Inr)
  next
    case (DeleteSpace f now i)
    then show ?thesis using assms(1)
      by (auto simp: delete_space_api_def rows_of_def sites_wf_def Let_def del split: sum.split dest!: gate_Inr)
  next
    case (AssignSensor f d now i e)
    then show ?thesis using assms(1) 
      by (auto simp: assign_sensor_to_space_def sites_wf_def Let_def rw split: sum.split dest!: gate_Inr)
         (auto simp: rows_of_def)
  next
    case (AssignDisplay f now i e)
    then show ?thesis using assms(1)
      by (auto simp: assign_display_to_space_def sites_wf_def Let_def rw split: sum.split dest!: gate_Inr)
         (auto simp: rows_of_def)
  next
    case (UnassignSensor f now i)
    then show ?thesis using assms(1)
      by (auto simp: unassign_sensor_from_space_def sites_wf_def rw split: sum.split dest!: gate_Inr)
  next
    case (UnassignDisplay f now i)
    then show ?thesis using assms(1)
      by (auto simp: unassign_display_from_space_def sites_wf_def rw split: sum.split dest!: gate_Inr)
  qed (use site_step_rows [OF assms] in simp_all)
qed

text \<open>
  The contract every tenant-scoped component offers its tenants: an operation of one tenant leaves what another one has
  as it is. It carries over to any sequence of operations.
\<close>

locale tenant_scoped =
  fixes step :: "'o \<Rightarrow> TenantContext \<Rightarrow> 'w \<Rightarrow> 'w"
    and rows :: "uuid \<Rightarrow> 'w \<Rightarrow> 'x"
    and wf :: "'w \<Rightarrow> bool"
  assumes scoped: "wf w \<Longrightarrow> t \<noteq> tc_tenant_id tc \<Longrightarrow> rows t (step op tc w) = rows t w"
    and step_wf: "wf w \<Longrightarrow> wf (step op tc w)"
begin

lemma run_wf: "wf w \<Longrightarrow> wf (fold (\<lambda>(op, tc). step op tc) ops w)"
  by (induction ops arbitrary: w) (auto simp: step_wf)

lemma run_scoped:
  assumes "wf w" "\<forall>(op, tc)\<in>set ops. tc_tenant_id tc \<noteq> t"
  shows "rows t (fold (\<lambda>(op, tc). step op tc) ops w) = rows t w"
  using assms
proof (induction ops arbitrary: w)
  case (Cons o' ops)
  obtain op tc where o': "o' = (op, tc)" by (cases o')
  then have ne: "t \<noteq> tc_tenant_id tc" and ops: "\<forall>(op, tc)\<in>set ops. tc_tenant_id tc \<noteq> t" using Cons.prems(2) by auto
  show ?case
    using Cons.IH [OF step_wf [OF Cons.prems(1)] ops, of op tc] scoped [OF Cons.prems(1) ne] by (simp add: o')
qed simp

end

interpretation space_api: tenant_scoped space_step rows_of sites_wf
proof
  show "rows_of t (space_step op tc w) = rows_of t w" if "sites_wf w" "t \<noteq> tc_tenant_id tc" for w t tc op
    using space_step_rows [OF that] by simp
  show "sites_wf (space_step op tc w)" if "sites_wf w" for w tc op
    using space_step_rows [OF that, of "CHR ''x'' # tc_tenant_id tc" tc op] by simp
qed

text \<open>
  Property C14. Tenants are isolated. Whatever operations on spaces and sites are carried out for other tenants, by
  whichever users and API keys, the spaces and sites of a tenant stay exactly as they are; and a space
  that is read or listed from the database belongs to the tenant of the caller.
\<close>

theorem tenant_isolation:
  assumes "sites_wf w" "\<forall>(op, tc)\<in>set ops. tc_tenant_id tc \<noteq> t"
  shows "rows_of t (fold (\<lambda>(op, tc). space_step op tc) ops w) = rows_of t w
    \<and> (\<forall>fails tc i out. get_space_api fails tc i w = Inr out \<longrightarrow> sp_tenant_id (so_row out) = Some (tc_tenant_id tc))
    \<and> (\<forall>tc f collate. gate ''spaces:read'' VIEWER tc = Inr tc \<longrightarrow> (tc_source tc = ''api_key'' \<longrightarrow> tc_user_role tc = None) \<longrightarrow>
         (\<forall>out\<in>set (query_spaces collate tc f w). sp_tenant_id (so_row out) = Some (tc_tenant_id tc)))"
proof (intro conjI allI impI ballI)
  show "rows_of t (fold (\<lambda>(op, tc). space_step op tc) ops w) = rows_of t w"
    by (rule space_api.run_scoped [OF assms])
  show "sp_tenant_id (so_row out) = Some (tc_tenant_id tc)" if get: "get_space_api fails tc i w = Inr out" for fails tc i out
  proof -
    obtain tc' where g: "gate ''spaces:read'' VIEWER tc = Inr tc'"
      using get by (auto simp: get_space_api_def split: sum.splits)
    note g = g [unfolded gate_Inr [OF g]]
    obtain r where "find (\<lambda>r. sp_id r = i \<and> owned tc r \<and> alive r) (db_spaces (sw_db w)) = Some r"
        "out = space_dict (sw_sites w) r"
      using get by (auto simp: get_space_api_def g split: option.splits if_splits)
    then show ?thesis using find_SomeD by (fastforce simp: space_dict_def owned_def)
  qed
  show "sp_tenant_id (so_row out) = Some (tc_tenant_id tc)"
    if "gate ''spaces:read'' VIEWER tc = Inr tc" "tc_source tc = ''api_key'' \<longrightarrow> tc_user_role tc = None"
      "out \<in> set (query_spaces collate tc f w)" for tc f collate out
  proof -
    have "tc_user_role tc \<noteq> Some PLATFORM_ADMIN"
      using that(1,2) by (auto simp: gate_def require_role_def require_scopes_def level_or_def role_hierarchy_def
          split: sum.splits if_splits option.splits)
    then show ?thesis
      using that(3) by (auto simp: query_spaces_def list_matches_def is_platform_admin_def space_dict_def owned_def)
  qed
qed

definition two_sites :: spaces_world where
  "two_sites = \<lparr>sw_db = empty_db,
     sw_sites = [\<lparr>st_id = ''x1'', st_tenant_id = ''t1'', st_name = ''A'', st_timezone = ''UTC'', st_location = None,
                  st_metadata = None, st_is_active = True\<rparr>,
                 \<lparr>st_id = ''x2'', st_tenant_id = ''t2'', st_name = ''B'', st_timezone = ''UTC'', st_location = None,
                  st_metadata = None, st_is_active = True\<rparr>],
     sw_displays = []\<rparr>"

definition owner_of :: "uuid \<Rightarrow> TenantContext" where
  "owner_of t = \<lparr>tc_tenant_id = t, tc_tenant_name = ''T'', tc_tenant_slug = ''t'', tc_user_id = Some ''u'',
     tc_user_role = Some OWNER, tc_api_key_id = None, tc_api_key_scopes = None, tc_source = ''jwt''\<rparr>"

theorem tenant_isolation_witness:
  "snd (rows_of ''t1'' (fold (\<lambda>(op, tc). space_step op tc)
     [(DeleteSite ''x1'' True, owner_of ''t2''), (DeleteSite ''x2'' True, owner_of ''t2'')] two_sites))
   = [hd (sw_sites two_sites)]"
proof -
  have "sites_wf two_sites" by (simp add: sites_wf_def two_sites_def)
  from tenant_isolation [OF this, of "[(DeleteSite ''x1'' True, owner_of ''t2''), (DeleteSite ''x2'' True, owner_of ''t2'')]"
      "''t1''", THEN conjunct1] show ?thesis
    by (simp add: owner_of_def rows_of_def) (simp add: two_sites_def)
qed

section \<open>The cached list\<close>

context redis
begin

lemma list_spaces_cached:
  assumes "le_redis L = R" "\<not> le_cache_fails L" "gate ''spaces:read'' VIEWER tc = Inr tc"
    and "le_loads L (le_dumps L xs) = Inr xs" "le_dumps L xs \<noteq> []"
    and "snd (list_spaces L tc f w m) = Inr xs"
    and "strlike (contents (cm_redis m)) (list_key (le_md5 L) (le_key_text L) tc f)"
  obtains v where "contents (cm_redis (fst (list_spaces L tc f w m))) (list_key (le_md5 L) (le_key_text L) tc f) = Some (RStr v)"
    "v \<noteq> []" "le_loads L v = Inr xs"
proof -
  let ?k = "list_key (le_md5 L) (le_key_text L) tc f"
  show thesis
  proof (cases "cache_get R (le_loads L) False ?k m")
    case (Pair m' res)
    have m': "cm_redis m' = cm_redis m" using Pair by (auto simp: cache_get_def split: option.splits if_splits)
    show thesis
    proof (cases res)
      case None
      have "xs = query_spaces (le_collate L) tc f w"
          "fst (list_spaces L tc f w m) = cache_set R (le_dumps L) False ?k xs 60 m'"
        using assms(1-3,6) Pair None by (auto simp: list_spaces_def Let_def split: if_splits)
      then show thesis using that [of "le_dumps L xs"] assms(4,5) by (simp add: cache_set_def set)
    next
      case (Some ys)
      then have "xs = ys" "fst (list_spaces L tc f w m) = m'"
        using assms(1-3,6) Pair by (auto simp: list_spaces_def Let_def)
      moreover obtain v where "rget R (cm_redis m) ?k = Some v" "v \<noteq> []" "le_loads L v = Inr ys"
        using Pair Some by (auto simp: cache_get_def split: option.splits if_splits sum.splits)
      moreover from this(1) have "contents (cm_redis m) ?k = Some (RStr v)"
        using assms(7) by (auto simp: get str_at_def split: option.splits rvalue.splits)
      ultimately show thesis using that m' by simp
    qed
  qed
qed

lemma list_spaces_hit:
  assumes "le_redis L = R" "\<not> le_cache_fails L" "gate ''spaces:read'' VIEWER tc = Inr tc"
    and "contents (cm_redis m) (list_key (le_md5 L) (le_key_text L) tc f) = Some (RStr v)" "v \<noteq> []" "le_loads L v = Inr xs"
  shows "snd (list_spaces L tc f w m) = Inr xs"
  using assms by (simp add: list_spaces_def Let_def cache_get_def get strlike_def str_at_def)

end

text \<open>
  The list of spaces goes stale. The key of a cached list holds a hash and not the id of the tenant, so
  no invalidation pattern matches it: after a list was answered, any change of the spaces followed by the
  invalidation the handlers do leaves the next list, within its lifetime, answering with the old spaces.
\<close>

theorem space_list_stale:
  assumes "redis R c" "le_redis L = R" "\<not> le_cache_fails L" "gate ''spaces:read'' VIEWER tc = Inr tc"
    and "le_loads L (le_dumps L xs) = Inr xs" "le_dumps L xs \<noteq> []"
    and "\<forall>x. CHR ''-'' \<notin> set (le_md5 L x)" "CHR ''-'' \<in> set (tc_tenant_id tc)"
    and "strlike (c (cm_redis m)) (list_key (le_md5 L) (le_key_text L) tc f)"
    and "snd (list_spaces L tc f w m) = Inr xs"
  shows "snd (list_spaces L tc f w' (invalidate_space_cache R fails (tc_tenant_id tc) space_id
       (fst (list_spaces L tc f w m)))) = Inr xs"
proof -
  let ?k = "list_key (le_md5 L) (le_key_text L) tc f" and ?m = "fst (list_spaces L tc f w m)"
  from redis.list_spaces_cached [OF assms(1-6,10,9)]
  obtain v where v: "c (cm_redis ?m) ?k = Some (RStr v)" "v \<noteq> []" "le_loads L v = Inr xs" by blast
  have "CHR ''-'' \<notin> set ?k" "take 7 ?k = ''spaces:''" using assms(7) by (simp_all add: list_key_def)
  from redis.invalidate_space_cache_survives [OF assms(1,8) _ _ this, of fails space_id ?m]
  have "c (cm_redis (invalidate_space_cache R fails (tc_tenant_id tc) space_id ?m)) ?k = Some (RStr v)"
    using v(1) by simp
  then show ?thesis by (rule redis.list_spaces_hit [OF assms(1-4) _ v(2,3)])
qed

definition no_filters :: list_filters where
  "no_filters = \<lparr>lf_building = None, lf_floor = None, lf_zone = None, lf_state = None, lf_site_id = None,
     lf_include_deleted = False\<rparr>"

definition demo_list_env :: "mem list_env" where
  "demo_list_env = \<lparr>le_redis = mem_ops, le_dumps = (\<lambda>_. ''[]''), le_loads = (\<lambda>_. Inr []), le_md5 = (\<lambda>_. ''d41d''),
     le_key_text = (\<lambda>_ _. []), le_collate = (\<lambda>_. 0), le_cache_fails = False, le_db_fails = False\<rparr>"

definition one_space :: spaces_world where
  "one_space = two_sites\<lparr>sw_db := demo_db\<lparr>db_spaces := map (\<lambda>r. r\<lparr>sp_tenant_id := Some ''t-1''\<rparr>) (db_spaces demo_db)\<rparr>\<rparr>"

theorem space_list_stale_witness:
  "snd (list_spaces demo_list_env (owner_of ''t-1'') no_filters one_space
     (invalidate_space_cache mem_ops False ''t-1'' None (fst (list_spaces demo_list_env (owner_of ''t-1'') no_filters two_sites
        \<lparr>cm_redis = [], cm_hit_count = 0, cm_miss_count = 0\<rparr>)))) = Inr []
   \<and> length (query_spaces (\<lambda>_. 0) (owner_of ''t-1'') no_filters one_space) = 1"
proof -
  have g: "gate ''spaces:read'' VIEWER (owner_of ''t-1'') = Inr (owner_of ''t-1'')"
    by (simp add: gate_def require_scopes_def check_scopes_def require_role_def owner_of_def level_or_def role_hierarchy_def)
  have miss: "snd (list_spaces demo_list_env (owner_of ''t-1'') no_filters two_sites
      \<lparr>cm_redis = [], cm_hit_count = 0, cm_miss_count = 0\<rparr>) = Inr []"
    by (simp add: list_spaces_def g demo_list_env_def cache_get_def query_spaces_def two_sites_def empty_db_def
        mem_ops_def str_at_def Let_def)
  have "length (query_spaces (\<lambda>_. 0) (owner_of ''t-1'') no_filters one_space) = 1"
    by (simp add: query_spaces_def one_space_def demo_db_def list_matches_def owned_def owner_of_def no_filters_def
        filter_is_def alive_def enforce_eui_uppercase_def new_space_row_def)
  with space_list_stale [OF mem_redis.redis_axioms, of demo_list_env "owner_of ''t-1''" "[]"
      "\<lparr>cm_redis = [], cm_hit_count = 0, cm_miss_count = 0\<rparr>" no_filters two_sites one_space False None] g miss
  show ?thesis
    by (simp add: demo_list_env_def owner_of_def strlike_def)
qed

end
