(* ===== verification/Accounts_Api.thy ===== *)
theory Accounts_Api
  imports Refresh_Tokens Spaces_Api "HOL-Library.AList" "HOL-Library.Monad_Syntax"
begin

text \<open>
  The account endpoints of \<open>src/api_tenants.py\<close>: login, registration, refresh, the profile and the limits of the
  caller.

  They work on the tables of \<open>Access_Control\<close>, the refresh tokens and the spaces. \<open>account_env\<close> holds what they take
  from outside: PyJWT and bcrypt, the hash of refresh tokens, how the driver hands out times, and which of the
  statements raise. Ids and token texts are drawn by the database and the random source and are arguments.
  JSON values are kept as text; an empty dictionary is the text \<open>{}\<close>. Of the time stamps of users and memberships
  those the code reads are kept.
\<close>

section \<open>State and environment\<close>

record account_world =
  aw_auth :: auth_db
  aw_tokens :: "token_row list"
  aw_spaces :: spaces_world

datatype account_call =
    FindUser | FindTenants | StoreToken | StampLogin | FindEmail | FindSlug | Transaction | Rotate
  | ReadProfile | ReadLimits

record account_env =
  ac_auth :: auth_env
  ac_encode :: jwt_encode
  ac_hashpw :: "string \<Rightarrow> string result"
  ac_sha :: "string \<Rightarrow> string"
  ac_col :: "instant \<Rightarrow> datetime"
  ac_fails :: "account_call \<Rightarrow> bool"

section \<open>Models\<close>

text \<open>The pattern of \<open>validate_email\<close>: no class contains \<open>@\<close>, and the last label has letters only.\<close>

definition ascii_letter :: "char \<Rightarrow> bool" where
  "ascii_letter c = ((65 \<le> ord c \<and> ord c \<le> 90) \<or> (97 \<le> ord c \<and> ord c \<le> 122))"

definition email_text :: "string \<Rightarrow> bool" where
  "email_text s =
     (let user = takeWhile (\<lambda>c. c \<noteq> CHR ''@'') s;
          host = tl (dropWhile (\<lambda>c. c \<noteq> CHR ''@'') s);
          label = rev (takeWhile (\<lambda>c. c \<noteq> CHR ''.'') (rev host));
          rest = rev (tl (dropWhile (\<lambda>c. c \<noteq> CHR ''.'') (rev host)))
      in user \<noteq> [] \<and> list_all (\<lambda>c. ascii_letter c \<or> is_digit c \<or> c \<in> set ''._%+-'') user
         \<and> rest \<noteq> [] \<and> list_all (\<lambda>c. ascii_letter c \<or> is_digit c \<or> c \<in> set ''.-'') rest
         \<and> 2 \<le> length label \<and> list_all ascii_letter label)"

definition validate_email :: "string \<Rightarrow> string result" where
  "validate_email v =
     (if \<not> re_full email_text v then Inl (ValueError ''Invalid email format'') else Inr (lower v))"

definition length_in :: "nat \<Rightarrow> nat \<Rightarrow> string \<Rightarrow> bool" where
  "length_in a b s = (a \<le> length s \<and> length s \<le> b)"

definition slug_char :: "char \<Rightarrow> bool" where
  "slug_char c = ((97 \<le> ord c \<and> ord c \<le> 122) \<or> is_digit c \<or> c = CHR ''-'')"

record UserCreate =
  uc_email :: string
  uc_name :: string
  uc_password :: string
  uc_metadata :: "string option"

record TenantCreate =
  tc_name :: string
  tc_slug :: string
  tc_metadata :: "string option"
  tc_settings :: "string option"

text \<open>The request models; a body they refuse is answered with 422.\<close>

definition valid_UserCreate :: "UserCreate \<Rightarrow> UserCreate result" where
  "valid_UserCreate u =
     (if length (uc_email u) > 255 \<or> \<not> length_in 1 255 (uc_name u) \<or> \<not> length_in 8 100 (uc_password u)
      then Inl (ValueError ''Invalid user'')
      else case validate_email (uc_email u) of Inl e \<Rightarrow> Inl e | Inr e \<Rightarrow> Inr (u\<lparr>uc_email := e\<rparr>))"

definition valid_TenantCreate :: "TenantCreate \<Rightarrow> TenantCreate result" where
  "valid_TenantCreate t =
     (if \<not> length_in 1 255 (tc_name t) \<or> \<not> length_in 1 100 (tc_slug t) \<or> \<not> list_all slug_char (tc_slug t)
      then Inl (ValueError ''Invalid tenant'') else Inr t)"

record User =
  ur_id :: uuid
  ur_email :: string
  ur_name :: string
  ur_is_active :: bool
  ur_email_verified :: bool

definition make_User :: "user_row \<Rightarrow> User result" where
  "make_User r =
     (if length (us_email r) > 255 \<or> \<not> length_in 1 255 (us_name r) then Inl (ValueError ''Invalid user'')
      else case validate_email (us_email r) of
             Inl e \<Rightarrow> Inl e
           | Inr e \<Rightarrow> Inr \<lparr>ur_id = us_id r, ur_email = e, ur_name = us_name r, ur_is_active = us_is_active r,
                         ur_email_verified = us_email_verified r\<rparr>)"

section \<open>Login\<close>

record tenant_entry =
  te_id :: uuid
  te_name :: string
  te_slug :: string
  te_role :: string

text \<open>The join of memberships and tenants, oldest membership first.\<close>

definition entry_of :: "tenant_row list \<Rightarrow> membership_row \<Rightarrow> tenant_entry option" where
  "entry_of tenants m =
     map_option (\<lambda>t. \<lparr>te_id = tn_id t, te_name = tn_name t, te_slug = tn_slug t, te_role = um_role m\<rparr>)
       (find (\<lambda>t. tn_id t = um_tenant_id m \<and> tn_is_active t) tenants)"

definition active_tenants :: "uuid \<Rightarrow> auth_db \<Rightarrow> tenant_entry list" where
  "active_tenants user_id db =
     List.map_filter (entry_of (au_tenants db))
       (sort_key um_created_at (filter (\<lambda>m. um_user_id m = user_id \<and> um_is_active m) (au_memberships db)))"

record LoginResponse =
  lr_access_token :: string
  lr_refresh_token :: string
  lr_expires_in :: int
  lr_refresh_expires_in :: int
  lr_user :: User
  lr_tenants :: "tenant_entry list"

definition access_token_for :: "account_env \<Rightarrow> instant \<Rightarrow> uuid \<Rightarrow> tenant_entry \<Rightarrow> string result" where
  "access_token_for E now user_id t =
     (case UserRole_of (te_role t) of
        None \<Rightarrow> Inl (ValueError (te_role t))
      | Some role \<Rightarrow> create_access_token (ac_encode E) (ae_local_offset (ac_auth E)) (ae_secret (ac_auth E)) now
                      user_id (te_id t) role)"

definition login ::
  "account_env \<Rightarrow> instant \<Rightarrow> nat \<Rightarrow> string \<Rightarrow> client_info \<Rightarrow> string \<Rightarrow> string \<Rightarrow> account_world
   \<Rightarrow> account_world \<times> (http_error + LoginResponse)" where
  "login E now token_id token ci email password w =
     (let failed = Inl (HTTPException 500 ''Login failed'') in
      if ac_fails E FindUser then (w, failed)
      else case find (\<lambda>u. us_email u = lower email) (au_users (aw_auth w)) of
        None \<Rightarrow> (w, Inl (HTTPException 401 ''Invalid email or password''))
      | Some u \<Rightarrow>
      if \<not> us_is_active u then (w, Inl (HTTPException 403 ''Account is inactive. Please contact support.''))
      else if \<not> verify_password (ae_checkpw (ac_auth E)) password (us_password_hash u)
      then (w, Inl (HTTPException 401 ''Invalid email or password''))
      else if ac_fails E FindTenants then (w, failed)
      else (case active_tenants (us_id u) (aw_auth w) of
        [] \<Rightarrow> (w, Inl (HTTPException 403 ''No active tenant membership found''))
      | t # ts \<Rightarrow>
      (case access_token_for E now (us_id u) t of
        Inl _ \<Rightarrow> (w, failed)
      | Inr access \<Rightarrow>
      if ac_fails E StoreToken then (w, failed)
      else (case create_refresh_token (ac_sha E) now token_id token (us_id u) ci (aw_tokens w) of
        (_, Inl _) \<Rightarrow> (w, failed)
      | (tokens, Inr refresh) \<Rightarrow>
      (let w = w\<lparr>aw_tokens := tokens\<rparr> in
       if ac_fails E StampLogin then (w, failed)
       else
         let w = w\<lparr>aw_auth := (aw_auth w)\<lparr>au_users := sql_update (\<lambda>x. us_id x = us_id u)
                     (\<lambda>x. x\<lparr>us_last_login_at := Some now\<rparr>) (au_users (aw_auth w))\<rparr>\<rparr>
         in case make_User u of
              Inl _ \<Rightarrow> (w, failed)
            | Inr user \<Rightarrow>
                (w, Inr \<lparr>lr_access_token = access, lr_refresh_token = refresh, lr_expires_in = 15 * 60,
                         lr_refresh_expires_in = 30 * 24 * 60 * 60, lr_user = user, lr_tenants = t # ts\<rparr>))))))"

section \<open>Registration\<close>

text \<open>The ids drawn for the four new rows.\<close>

record new_ids =
  ni_user :: uuid
  ni_tenant :: uuid
  ni_site :: uuid
  ni_membership :: uuid

definition new_user :: "instant \<Rightarrow> new_ids \<Rightarrow> string \<Rightarrow> UserCreate \<Rightarrow> user_row" where
  "new_user now i pw u =
     \<lparr>us_id = ni_user i, us_email = lower (uc_email u), us_name = uc_name u, us_password_hash = pw,
      us_is_active = True, us_email_verified = False, us_metadata = json_or_null (uc_metadata u),
      us_created_at = now, us_last_login_at = None\<rparr>"

definition new_tenant :: "instant \<Rightarrow> new_ids \<Rightarrow> TenantCreate \<Rightarrow> tenant_row" where
  "new_tenant now i t =
     \<lparr>tn_id = ni_tenant i, tn_name = tc_name t, tn_slug = lower (tc_slug t), tn_is_active = True,
      tn_metadata = json_or_null (tc_metadata t), tn_settings = json_or_null (tc_settings t), tn_updated_at = now\<rparr>"

definition main_site :: "new_ids \<Rightarrow> TenantCreate \<Rightarrow> site_row" where
  "main_site i t =
     \<lparr>st_id = ni_site i, st_tenant_id = ni_tenant i, st_name = tc_name t @ '' - Main Site'', st_timezone = ''UTC'',
      st_location = Some ''{}'', st_metadata = Some ''{}'', st_is_active = True\<rparr>"

definition owner_membership :: "instant \<Rightarrow> new_ids \<Rightarrow> membership_row" where
  "owner_membership now i =
     \<lparr>um_id = ni_membership i, um_user_id = ni_user i, um_tenant_id = ni_tenant i, um_role = UserRole_value OWNER,
      um_is_active = True, um_created_at = now\<rparr>"

text \<open>
  The transaction: the unique indexes on the primary keys, on lower-case e-mails (migration 008), on slugs and on the
  pair of user and tenant, the check of slugs, and the length of a site name decide whether it commits.
\<close>

definition register_tx :: "instant \<Rightarrow> new_ids \<Rightarrow> string \<Rightarrow> UserCreate \<Rightarrow> TenantCreate \<Rightarrow> account_world \<Rightarrow> account_world option" where
  "register_tx now i pw u t w =
     (let db = aw_auth w; sites = sw_sites (aw_spaces w) in
      if sql_exists (\<lambda>x. us_id x = ni_user i \<or> lower (us_email x) = lower (uc_email u)) (au_users db)
         \<or> sql_exists (\<lambda>x. tn_id x = ni_tenant i \<or> tn_slug x = lower (tc_slug t)) (au_tenants db)
         \<or> \<not> (tc_slug t \<noteq> [] \<and> list_all slug_char (lower (tc_slug t)))
         \<or> sql_exists (\<lambda>x. st_id x = ni_site i \<or> (st_tenant_id x = ni_tenant i \<and> st_name x = tc_name t @ '' - Main Site'')) sites
         \<or> length (tc_name t @ '' - Main Site'') > 255
         \<or> sql_exists (\<lambda>x. um_id x = ni_membership i \<or> (um_user_id x = ni_user i \<and> um_tenant_id x = ni_tenant i))
             (au_memberships db)
      then None
      else Some (w\<lparr>aw_auth := db\<lparr>au_users := au_users db @ [new_user now i pw u],
                                 au_tenants := au_tenants db @ [new_tenant now i t],
                                 au_memberships := au_memberships db @ [owner_membership now i]\<rparr>,
                   aw_spaces := (aw_spaces w)\<lparr>sw_sites := sites @ [main_site i t]\<rparr>\<rparr>))"

text \<open>\<open>others\<close> is what other requests do between the two checks and the transaction.\<close>

definition register_account ::
  "account_env \<Rightarrow> (account_world \<Rightarrow> account_world) \<Rightarrow> instant \<Rightarrow> new_ids \<Rightarrow> UserCreate \<Rightarrow> TenantCreate \<Rightarrow> account_world
   \<Rightarrow> account_world \<times> (http_error + User)" where
  "register_account E others now i u t w =
     (let failed = Inl (HTTPException 500 ''Registration failed'') in
      if ac_fails E FindEmail then (w, failed)
      else if sql_exists (\<lambda>x. us_email x = lower (uc_email u)) (au_users (aw_auth w))
      then (w, Inl (HTTPException 400 ''Email already registered''))
      else if ac_fails E FindSlug then (w, failed)
      else if sql_exists (\<lambda>x. tn_slug x = lower (tc_slug t)) (au_tenants (aw_auth w))
      then (w, Inl (HTTPException 400 ''Tenant slug already taken''))
      else
        let w = others w in
        if ac_fails E Transaction then (w, failed)
        else case ac_hashpw E (uc_password u) of
          Inl _ \<Rightarrow> (w, failed)
        | Inr pw \<Rightarrow>
            (case (register_tx now i pw u t w, make_User (new_user now i pw u)) of
               (Some w', Inr user) \<Rightarrow> (w', Inr user)
             | _ \<Rightarrow> (w, failed)))"

text \<open>The endpoint, with the validation of the body.\<close>

definition register_endpoint ::
  "account_env \<Rightarrow> (account_world \<Rightarrow> account_world) \<Rightarrow> instant \<Rightarrow> new_ids \<Rightarrow> UserCreate \<Rightarrow> TenantCreate \<Rightarrow> account_world
   \<Rightarrow> account_world \<times> (http_error + User)" where
  "register_endpoint E others now i u t w =
     (case (valid_UserCreate u, valid_TenantCreate t) of
        (Inr u, Inr t) \<Rightarrow> register_account E others now i u t w
      | _ \<Rightarrow> (w, Inl (HTTPException 422 [])))"

section \<open>Refresh\<close>

record RefreshResponse =
  rr_access_token :: string
  rr_refresh_token :: string
  rr_expires_in :: int
  rr_refresh_expires_in :: int

definition refresh_token ::
  "account_env \<Rightarrow> (token_row list \<Rightarrow> token_row list) \<Rightarrow> instant \<Rightarrow> nat \<Rightarrow> string \<Rightarrow> client_info \<Rightarrow> string \<Rightarrow> account_world
   \<Rightarrow> account_world \<times> (http_error + RefreshResponse)" where
  "refresh_token E others now token_id new_token ci token w =
     (let failed = Inl (HTTPException 500 ''Token refresh failed'') in
      if ac_fails E Rotate then (w, failed)
      else case validate_and_rotate (ac_col E) (ac_sha E) others now token_id new_token token ci (aw_tokens w) of
        (tokens, Inl _) \<Rightarrow> (w\<lparr>aw_tokens := tokens\<rparr>, failed)
      | (tokens, Inr None) \<Rightarrow>
          (w\<lparr>aw_tokens := tokens\<rparr>, Inl (HTTPException 401 ''Invalid or expired refresh token''))
      | (tokens, Inr (Some (user_id, refresh))) \<Rightarrow>
      (let w = w\<lparr>aw_tokens := tokens\<rparr> in
       if refresh = [] then (w, Inl (HTTPException 401 ''Invalid or expired refresh token''))
       else if ac_fails E FindTenants then (w, failed)
       else (case active_tenants user_id (aw_auth w) of
         [] \<Rightarrow> (w, Inl (HTTPException 403 ''No active tenant membership found''))
       | t # _ \<Rightarrow>
           (case access_token_for E now user_id t of
              Inl _ \<Rightarrow> (w, failed)
            | Inr access \<Rightarrow>
                (w, Inr \<lparr>rr_access_token = access, rr_refresh_token = refresh, rr_expires_in = 15 * 60,
                         rr_refresh_expires_in = 30 * 24 * 60 * 60\<rparr>)))))"

section \<open>Profile\<close>

record UserProfileResponse =
  up_user :: User
  up_current_tenant :: tenant_entry
  up_all_tenants :: "tenant_entry list"

text \<open>The loop keeps the last entry of the current tenant; an API key has no user, so that no row is found.\<close>

definition get_current_user_profile ::
  "account_env \<Rightarrow> TenantContext \<Rightarrow> account_world \<Rightarrow> http_error + UserProfileResponse" where
  "get_current_user_profile E tenant w =
     (let failed = Inl (HTTPException 500 ''Failed to fetch user profile'') in
      if ac_fails E ReadProfile then failed
      else case find (\<lambda>u. Some (us_id u) = tc_user_id tenant) (au_users (aw_auth w)) of
        None \<Rightarrow> Inl (HTTPException 404 ''User not found'')
      | Some u \<Rightarrow>
          (let all_tenants = active_tenants (us_id u) (aw_auth w);
               current = (case find (\<lambda>t. te_id t = tc_tenant_id tenant) (rev all_tenants) of
                  Some t \<Rightarrow> t
                | None \<Rightarrow> \<lparr>te_id = tc_tenant_id tenant, te_name = tc_tenant_name tenant, te_slug = tc_tenant_slug tenant,
                           te_role = (case tc_user_role tenant of None \<Rightarrow> ''viewer'' | Some r \<Rightarrow> UserRole_value r)\<rparr>)
           in case make_User u of
                Inl _ \<Rightarrow> failed
              | Inr user \<Rightarrow> Inr \<lparr>up_user = user, up_current_tenant = current, up_all_tenants = all_tenants\<rparr>))"

section \<open>Limits\<close>

type_synonym limit_dict = "(string \<times> int) list"

record settings_doc =
  se_rate_limits :: "limit_dict option"
  se_quotas :: "limit_dict option"

definition dict_update :: "limit_dict \<Rightarrow> limit_dict \<Rightarrow> limit_dict" where
  "dict_update d new = fold (\<lambda>(k, v). AList.update k v) new d"

definition default_rate_limits :: limit_dict where
  "default_rate_limits =
     [(''requests_per_minute'', 100), (''reservations_per_minute'', 10), (''webhook_requests_per_minute'', 1000)]"

definition default_quotas :: limit_dict where
  "default_quotas =
     [(''max_spaces'', 500), (''max_devices'', 1000), (''max_concurrent_reservations'', 100), (''max_sites'', 10)]"

record usage =
  ug_spaces :: nat
  ug_sensor_devices :: nat
  ug_display_devices :: nat
  ug_total_devices :: nat
  ug_active_reservations :: nat
  ug_sites :: nat

definition count_active_reservations :: "instant \<Rightarrow> uuid \<Rightarrow> Reservation list \<Rightarrow> nat" where
  "count_active_reservations now tenant_id rs =
     sql_count (\<lambda>r. rv_tenant_id r = tenant_id \<and> ReservationStatus_value (rv_status r) \<in> {''pending'', ''active''}
                    \<and> rv_end_time r > now) rs"

definition tenant_space :: "uuid \<Rightarrow> space_row \<Rightarrow> bool" where
  "tenant_space tenant_id r = (sp_tenant_id r = Some tenant_id \<and> alive r)"

definition usage_of :: "instant \<Rightarrow> uuid \<Rightarrow> spaces_world \<Rightarrow> usage" where
  "usage_of now tenant_id s =
     (let mine = filter (tenant_space tenant_id) (db_spaces (sw_db s));
          sensors = length (remdups (filter (\<lambda>e. Some e \<in> set (map sp_sensor_eui mine))
                      (map sd_dev_eui (db_sensor_devices (sw_db s)))));
          displays = length (remdups (filter (\<lambda>e. Some e \<in> set (map sp_display_eui mine)) (sw_displays s)))
      in \<lparr>ug_spaces = length mine, ug_sensor_devices = sensors, ug_display_devices = displays,
          ug_total_devices = sensors + displays,
          ug_active_reservations = count_active_reservations now tenant_id (db_reservations (sw_db s)),
          ug_sites = sql_count (\<lambda>t. st_tenant_id t = tenant_id \<and> st_is_active t) (sw_sites s)\<rparr>)"

record UserLimitsResponse =
  ul_rate_limits :: limit_dict
  ul_quotas :: limit_dict
  ul_usage :: usage

text \<open>\<open>loads\<close> reads the settings, \<open>None\<close> where the JSON decoder or the use of its value raises.\<close>

definition get_current_user_limits ::
  "account_env \<Rightarrow> (string \<Rightarrow> settings_doc option) \<Rightarrow> instant \<Rightarrow> TenantContext \<Rightarrow> account_world
   \<Rightarrow> http_error + UserLimitsResponse" where
  "get_current_user_limits E loads now tenant w =
     (let failed = Inl (HTTPException 500 ''Failed to fetch user limits'');
          settings = Option.bind (find (\<lambda>t. tn_id t = tc_tenant_id tenant) (au_tenants (aw_auth w))) tn_settings
      in if ac_fails E ReadLimits then failed
         else case (if truthy settings then loads (the settings)
                    else Some \<lparr>se_rate_limits = None, se_quotas = None\<rparr>) of
           None \<Rightarrow> failed
         | Some doc \<Rightarrow>
             Inr \<lparr>ul_rate_limits = dict_update default_rate_limits (case se_rate_limits doc of None \<Rightarrow> [] | Some d \<Rightarrow> d),
                  ul_quotas = dict_update default_quotas (case se_quotas doc of None \<Rightarrow> [] | Some d \<Rightarrow> d),
                  ul_usage = usage_of now (tc_tenant_id tenant) (aw_spaces w)\<rparr>)"

section \<open>Accounts stay well formed\<close>

text \<open>Ids, e-mails (up to case), slugs and the pairs of user and tenant are unique; memberships refer to rows.\<close>

definition accounts_wf :: "auth_db \<Rightarrow> bool" where
  "accounts_wf db \<longleftrightarrow> distinct (map us_id (au_users db)) \<and> distinct (map (\<lambda>u. lower (us_email u)) (au_users db))
     \<and> distinct (map tn_id (au_tenants db)) \<and> distinct (map tn_slug (au_tenants db))
     \<and> distinct (map (\<lambda>m. (um_user_id m, um_tenant_id m)) (au_memberships db))
     \<and> um_user_id ` set (au_memberships db) \<subseteq> us_id ` set (au_users db)
     \<and> um_tenant_id ` set (au_memberships db) \<subseteq> tn_id ` set (au_tenants db)"

lemma distinct_map_eq: "distinct (map f xs) \<Longrightarrow> x \<in> set xs \<Longrightarrow> y \<in> set xs \<Longrightarrow> f x = f y \<Longrightarrow> x = y"
  by (auto simp: distinct_map inj_on_def)

lemma find_by_key: "distinct (map f xs) \<Longrightarrow> x \<in> set xs \<Longrightarrow> find (\<lambda>y. f y = f x) xs = Some x"
  by (rule find_unique) (auto intro: distinct_map_eq)

definition stamp_login :: "instant \<Rightarrow> uuid \<Rightarrow> auth_db \<Rightarrow> auth_db" where
  "stamp_login now i db = db\<lparr>au_users := sql_update (\<lambda>x. us_id x = i) (\<lambda>x. x\<lparr>us_last_login_at := Some now\<rparr>) (au_users db)\<rparr>"

lemma stamp_login_maps:
  "map us_id (au_users (stamp_login now i db)) = map us_id (au_users db)"
  "map (\<lambda>u. lower (us_email u)) (au_users (stamp_login now i db)) = map (\<lambda>u. lower (us_email u)) (au_users db)"
  "au_tenants (stamp_login now i db) = au_tenants db" "au_memberships (stamp_login now i db) = au_memberships db"
  by (simp_all add: stamp_login_def sql_update_def)

lemma stamp_login_wf: "accounts_wf (stamp_login now i db) = accounts_wf db"
proof -
  have "us_id ` set (au_users (stamp_login now i db)) = us_id ` set (au_users db)"
    using stamp_login_maps(1) by (metis set_map)
  then show ?thesis by (simp only: accounts_wf_def stamp_login_maps)
qed

lemma register_tx_wf:
  assumes "register_tx now i pw u t w = Some w'" "accounts_wf (aw_auth w)"
  shows "accounts_wf (aw_auth w')"
proof -
  let ?db = "aw_auth w"
  have fresh: "ni_user i \<notin> us_id ` set (au_users ?db)" "lower (uc_email u) \<notin> (\<lambda>u. lower (us_email u)) ` set (au_users ?db)"
      "ni_tenant i \<notin> tn_id ` set (au_tenants ?db)" "lower (tc_slug t) \<notin> tn_slug ` set (au_tenants ?db)"
    and w': "aw_auth w' = ?db\<lparr>au_users := au_users ?db @ [new_user now i pw u],
       au_tenants := au_tenants ?db @ [new_tenant now i t], au_memberships := au_memberships ?db @ [owner_membership now i]\<rparr>"
    using assms(1) by (auto simp: register_tx_def Let_def sql_exists_def list_ex_iff split: if_splits)
  have "(ni_user i, ni_tenant i) \<notin> (\<lambda>m. (um_user_id m, um_tenant_id m)) ` set (au_memberships ?db)"
    using assms(2) fresh(1) unfolding accounts_wf_def by auto
  then show ?thesis using assms(2) fresh
    unfolding accounts_wf_def w' by (auto simp: new_user_def new_tenant_def owner_membership_def)
qed

lemma login_auth:
  "aw_auth (fst (login E now ti tok ci email pw w)) = aw_auth w
   \<or> (\<exists>u\<in>set (au_users (aw_auth w)). aw_auth (fst (login E now ti tok ci email pw w)) = stamp_login now (us_id u) (aw_auth w))"
  by (auto simp: login_def Let_def stamp_login_def split: option.split list.split sum.split prod.split dest: find_SomeD)

lemma refresh_auth: "aw_auth (fst (refresh_token E others now ti new ci tok w)) = aw_auth w"
  by (simp add: refresh_token_def Let_def split: option.split list.split sum.split prod.split)

lemma register_wf:
  assumes "accounts_wf (aw_auth w)" "\<And>v. accounts_wf (aw_auth v) \<Longrightarrow> accounts_wf (aw_auth (others v))"
  shows "accounts_wf (aw_auth (fst (register_account E others now i u t w)))"
  using assms(1) assms(2) [OF assms(1)] register_tx_wf
  by (auto simp: register_account_def Let_def split: option.split sum.split prod.split)

text \<open>
  Property C16. E-mails stay unique up to case, slugs, ids and memberships stay unique, and memberships refer to existing users
  and tenants: every login, refresh and registration keeps this, on every outcome, even when other requests that keep
  it register the same e-mail or slug between the checks of a registration and its transaction.
\<close>

theorem accounts_stay_wf:
  assumes "accounts_wf (aw_auth w)" "\<And>v. accounts_wf (aw_auth v) \<Longrightarrow> accounts_wf (aw_auth (others v))"
  shows "accounts_wf (aw_auth (fst (register_endpoint E others now i u t w)))
    \<and> accounts_wf (aw_auth (fst (login E now ti tok ci email pw w)))
    \<and> accounts_wf (aw_auth (fst (refresh_token E rival now ti new ci tok w)))"
proof (intro conjI)
  show "accounts_wf (aw_auth (fst (register_endpoint E others now i u t w)))"
    using register_wf [OF assms] assms(1) by (simp add: register_endpoint_def split: sum.split)
  show "accounts_wf (aw_auth (fst (login E now ti tok ci email pw w)))"
    using login_auth [of E now ti tok ci email pw w] assms(1) by (auto simp: stamp_login_wf)
  show "accounts_wf (aw_auth (fst (refresh_token E rival now ti new ci tok w)))"
    using assms(1) by (simp add: refresh_auth)
qed

section \<open>A login authenticates\<close>

lemma UserRole_of_Some: "UserRole_of v = Some r \<Longrightarrow> UserRole_value r = v"
  by (auto simp: UserRole_of_def split: if_splits)

text \<open>An entry of the tenant list stands for an active membership in an active tenant.\<close>

lemma active_tenants_mem:
  assumes "e \<in> set (active_tenants i db)"
  obtains m t where "m \<in> set (au_memberships db)" "um_user_id m = i" "um_is_active m" "t \<in> set (au_tenants db)"
    "tn_id t = um_tenant_id m" "tn_is_active t" "te_id e = tn_id t" "te_role e = um_role m"
proof -
  obtain m where m: "m \<in> set (au_memberships db)" "um_user_id m = i" "um_is_active m" "entry_of (au_tenants db) m = Some e"
    using assms by (auto simp: active_tenants_def map_filter_def)
  then obtain t where t: "find (\<lambda>t. tn_id t = um_tenant_id m \<and> tn_is_active t) (au_tenants db) = Some t"
      "te_id e = tn_id t" "te_role e = um_role m"
    by (auto simp: entry_of_def)
  then show thesis using find_SomeD [OF t(1)] m that by auto
qed

text \<open>On well-formed tables a token resolves when its user, tenant and membership are active.\<close>

lemma resolve_jwt_intro:
  assumes wf: "accounts_wf db" and u: "u \<in> set (au_users db)" "us_id u = td_user_id td" "us_is_active u"
    and m: "m \<in> set (au_memberships db)" "um_user_id m = td_user_id td" "um_tenant_id m = td_tenant_id td" "um_is_active m"
    and t: "t \<in> set (au_tenants db)" "tn_id t = td_tenant_id td" "tn_is_active t"
    and role: "UserRole_of (um_role m) = Some r"
  shows "resolve_tenant_from_jwt False (Some db) td = Some
    \<lparr>tc_tenant_id = td_tenant_id td, tc_tenant_name = tn_name t, tc_tenant_slug = tn_slug t,
     tc_user_id = Some (td_user_id td), tc_user_role = Some r, tc_api_key_id = None, tc_api_key_scopes = None,
     tc_source = ''jwt''\<rparr>"
proof -
  have ids: "distinct (map us_id (au_users db))" "distinct (map tn_id (au_tenants db))"
    and pairs: "distinct (map (\<lambda>m. (um_user_id m, um_tenant_id m)) (au_memberships db))"
    using wf by (simp_all add: accounts_wf_def)
  have "find (\<lambda>u. us_id u = td_user_id td) (au_users db) = Some u"
      "find (\<lambda>t. tn_id t = td_tenant_id td) (au_tenants db) = Some t"
    using find_by_key [OF ids(1) u(1)] find_by_key [OF ids(2) t(1)] u(2) t(2) by simp_all
  moreover have "find (\<lambda>m. um_user_id m = td_user_id td \<and> um_tenant_id m = td_tenant_id td) (au_memberships db) = Some m"
    using find_by_key [OF pairs m(1)] m(2,3) by simp
  ultimately show ?thesis using u t m role by (simp add: resolve_tenant_from_jwt_def)
qed

lemma login_success:
  assumes "login E now ti tok ci email pw w = (w', Inr r)"
  obtains u e es where "u \<in> set (au_users (aw_auth w))" "us_email u = lower email" "us_is_active u"
    "verify_password (ae_checkpw (ac_auth E)) pw (us_password_hash u)"
    "active_tenants (us_id u) (aw_auth w) = e # es" "lr_tenants r = e # es"
    "access_token_for E now (us_id u) e = Inr (lr_access_token r)" "aw_auth w' = stamp_login now (us_id u) (aw_auth w)"
    "ur_id (lr_user r) = us_id u"
proof -
  let ?db = "aw_auth w" and ?find = "find (\<lambda>u. us_email u = lower email) (au_users (aw_auth w))"
  obtain u where u: "?find = Some u" "us_is_active u" "verify_password (ae_checkpw (ac_auth E)) pw (us_password_hash u)"
      "\<not> ac_fails E FindUser" "\<not> ac_fails E FindTenants"
    using assms by (auto simp: login_def Let_def split: if_splits option.splits)
  note step = assms [unfolded login_def Let_def]
  obtain e es where e: "active_tenants (us_id u) ?db = e # es"
    using step u by (cases "active_tenants (us_id u) ?db") simp_all
  obtain access where access: "access_token_for E now (us_id u) e = Inr access"
    using step u e by (cases "access_token_for E now (us_id u) e") simp_all
  obtain tokens refresh where rt: "create_refresh_token (ac_sha E) now ti tok (us_id u) ci (aw_tokens w) = (tokens, Inr refresh)"
    using step u e access by (auto split: prod.splits sum.splits if_splits)
  obtain user where user: "make_User u = Inr user"
    using step u e access rt by (cases "make_User u") (simp_all split: if_splits)
  have "w' = w\<lparr>aw_tokens := tokens, aw_auth := stamp_login now (us_id u) ?db\<rparr>"
      "lr_tenants r = e # es" "lr_access_token r = access" "lr_user r = user"
    using step u e access rt user by (auto simp: stamp_login_def split: if_splits)
  moreover have "ur_id user = us_id u" using user by (auto simp: make_User_def split: if_splits sum.splits)
  ultimately show thesis using u e access find_SomeD [OF u(1)] that [of u e es] by simp
qed

text \<open>The contract of the JWT library: a token decodes to its claims from its issue to its expiry, and is a text.\<close>

definition jwt_ok :: "account_env \<Rightarrow> bool" where
  "jwt_ok E \<longleftrightarrow> (\<forall>c k t. ac_encode E c k \<noteq> []
     \<and> ae_decode (ac_auth E) t (ac_encode E c k) k = (if of_int (cl_iat c) \<le> t \<and> t < of_int (cl_exp c) then Some c else None))"

lemma access_token_authenticates:
  assumes "jwt_ok E" "accounts_wf db" "\<not> ae_fails_jwt (ac_auth E)"
    and e: "e \<in> set (active_tenants i db)" and tok: "access_token_for E now i e = Inr tok"
    and u: "u \<in> set (au_users db)" "us_id u = i" "us_is_active u"
    and t: "now - ae_local_offset (ac_auth E) \<le> t" "t < of_int \<lfloor>now + 86400 - ae_local_offset (ac_auth E)\<rfloor>"
  shows "\<exists>tc. get_current_tenant (ac_auth E) t api_key (Some tok) (Some db) = (Some db, Inr tc) \<and> tc_user_id tc = Some i
     \<and> tc_tenant_id tc = te_id e \<and> map_option UserRole_value (tc_user_role tc) = Some (te_role e)"
proof -
  let ?A = "ac_auth E"
  obtain m tn where m: "m \<in> set (au_memberships db)" "um_user_id m = i" "um_is_active m" "tn \<in> set (au_tenants db)"
    "tn_id tn = um_tenant_id m" "tn_is_active tn" "te_id e = tn_id tn" "te_role e = um_role m"
    using e by (rule active_tenants_mem)
  obtain role where role: "UserRole_of (te_role e) = Some role"
    and cr: "create_access_token (ac_encode E) (ae_local_offset ?A) (ae_secret ?A) now i (te_id e) role = Inr tok"
    using tok by (auto simp: access_token_for_def split: option.splits)
  obtain k where k: "ae_secret ?A = Some k" using cr by (auto simp: create_access_token_def split: option.splits)
  have ne: "tok \<noteq> []" using cr assms(1) by (auto simp: create_access_token_def jwt_ok_def split: option.splits if_splits)
  have "map_option (\<lambda>td. (td_user_id td, td_tenant_id td, td_role td))
      (decode_access_token (ae_decode ?A) (ae_local_offset ?A) (Some k) t tok) = Some (i, te_id e, role)"
    using access_token_roundtrip [OF _ cr [unfolded k] t(1), of "ae_decode ?A"] assms(1) t(2) by (simp add: jwt_ok_def)
  then obtain td where td: "decode_access_token (ae_decode ?A) (ae_local_offset ?A) (ae_secret ?A) t tok = Some td"
      "td_user_id td = i" "td_tenant_id td = te_id e"
    using k by (auto simp: map_option_case split: option.splits)
  have "UserRole_of (um_role m) = Some role" using role m(8) by simp
  from resolve_jwt_intro [OF assms(2) u(1) _ u(3) m(1) _ _ m(3) m(4) _ m(6) this, of td]
  have "resolve_tenant_from_jwt False (Some db) td = Some
    \<lparr>tc_tenant_id = te_id e, tc_tenant_name = tn_name tn, tc_tenant_slug = tn_slug tn, tc_user_id = Some i,
     tc_user_role = Some role, tc_api_key_id = None, tc_api_key_scopes = None, tc_source = ''jwt''\<rparr>"
    using td u(2) m by simp
  then show ?thesis
    using td(1) ne assms(3) UserRole_of_Some [OF role] by (simp add: get_current_tenant_def)
qed

text \<open>
  Property C12. Login and authentication fit together: the access token of a successful login makes later requests act as
  that user, for the tenant listed first, with the role of that membership. They do so for a whole day (less the offset
  of the time zone of the process), although the response says that the token expires after 15 minutes.
\<close>

theorem login_authenticates:
  assumes "login E now ti tok ci email pw w = (w', Inr r)"
    and "jwt_ok E" "accounts_wf (aw_auth w)" "\<not> ae_fails_jwt (ac_auth E)"
    and "now - ae_local_offset (ac_auth E) \<le> t" "t < of_int \<lfloor>now + 86400 - ae_local_offset (ac_auth E)\<rfloor>"
  shows "lr_expires_in r = 900
    \<and> (\<exists>tc. get_current_tenant (ac_auth E) t api_key (Some (lr_access_token r)) (Some (aw_auth w')) = (Some (aw_auth w'), Inr tc)
         \<and> tc_user_id tc = Some (ur_id (lr_user r)) \<and> tc_tenant_id tc = te_id (hd (lr_tenants r))
         \<and> map_option UserRole_value (tc_user_role tc) = Some (te_role (hd (lr_tenants r))))"
proof -
  obtain u e es where u: "u \<in> set (au_users (aw_auth w))" "us_is_active u"
    and e: "active_tenants (us_id u) (aw_auth w) = e # es" "lr_tenants r = e # es"
    and tok: "access_token_for E now (us_id u) e = Inr (lr_access_token r)"
    and w': "aw_auth w' = stamp_login now (us_id u) (aw_auth w)" and r: "ur_id (lr_user r) = us_id u"
    using assms(1) by (rule login_success)
  let ?u = "u\<lparr>us_last_login_at := Some now\<rparr>"
  have "?u \<in> set (au_users (aw_auth w'))" using u(1) w' by (force simp: stamp_login_def sql_update_def)
  moreover have "e \<in> set (active_tenants (us_id u) (aw_auth w'))"
    using e(1) w' by (simp add: active_tenants_def stamp_login_maps)
  ultimately have "\<exists>tc. get_current_tenant (ac_auth E) t api_key (Some (lr_access_token r)) (Some (aw_auth w')) = (Some (aw_auth w'), Inr tc)
      \<and> tc_user_id tc = Some (us_id u) \<and> tc_tenant_id tc = te_id e \<and> map_option UserRole_value (tc_user_role tc) = Some (te_role e)"
    using access_token_authenticates [OF assms(2) _ assms(4) _ tok _ _ _ assms(5,6), of "aw_auth w'" ?u] u(2) w'
      stamp_login_wf assms(3) by simp
  moreover have "lr_expires_in r = 900"
    using assms(1) by (auto simp: login_def Let_def split: option.splits if_splits list.splits sum.splits prod.splits)
  ultimately show ?thesis using e(2) r by simp
qed

section \<open>A registered user can log in\<close>

text \<open>The contract of bcrypt: a password matches its own hash.\<close>

definition bcrypt_ok :: "account_env \<Rightarrow> bool" where
  "bcrypt_ok E \<longleftrightarrow> (\<forall>p h. ac_hashpw E p = Inr h \<longrightarrow> ae_checkpw (ac_auth E) p h = Inr True)"

lemma register_success:
  assumes "register_endpoint E others now i u t w = (w', Inr user)"
  obtains pw where "ac_hashpw E (uc_password u) = Inr pw"
    "register_tx now i pw (u\<lparr>uc_email := lower (uc_email u)\<rparr>) t (others w) = Some w'"
    "make_User (new_user now i pw (u\<lparr>uc_email := lower (uc_email u)\<rparr>)) = Inr user"
proof -
  let ?u = "u\<lparr>uc_email := lower (uc_email u)\<rparr>"
  have "valid_UserCreate u = Inr ?u" "valid_TenantCreate t = Inr t"
    using assms by (auto simp: register_endpoint_def valid_UserCreate_def valid_TenantCreate_def validate_email_def
        split: if_splits)
  then have r: "register_account E others now i ?u t w = (w', Inr user)" using assms by (simp add: register_endpoint_def)
  then obtain pw where pw: "ac_hashpw E (uc_password u) = Inr pw"
    by (auto simp: register_account_def Let_def split: if_splits sum.splits)
  then show thesis using r that
    by (auto simp: register_account_def Let_def split: if_splits option.splits sum.splits)
qed

lemma register_tx_rows:
  assumes "register_tx now i pw u t w = Some w'"
  shows "au_users (aw_auth w') = au_users (aw_auth w) @ [new_user now i pw u]"
    and "au_tenants (aw_auth w') = au_tenants (aw_auth w) @ [new_tenant now i t]"
    and "au_memberships (aw_auth w') = au_memberships (aw_auth w) @ [owner_membership now i]"
    and "\<forall>x\<in>set (au_users (aw_auth w)). us_id x \<noteq> ni_user i \<and> lower (us_email x) \<noteq> lower (uc_email u)"
    and "\<forall>x\<in>set (au_tenants (aw_auth w)). tn_id x \<noteq> ni_tenant i"
  using assms by (auto simp: register_tx_def Let_def sql_exists_def list_ex_iff split: if_splits)

lemma find_snoc_new: "\<forall>x\<in>set xs. \<not> P x \<Longrightarrow> P y \<Longrightarrow> find P (xs @ [y]) = Some y"
  by (induction xs) auto

lemma owner_of_new_tenant:
  assumes "register_tx now i pw u t w = Some w'" "accounts_wf (aw_auth w)"
  shows "active_tenants (ni_user i) (aw_auth w') =
    [\<lparr>te_id = ni_tenant i, te_name = tc_name t, te_slug = lower (tc_slug t), te_role = ''owner''\<rparr>]"
proof -
  note rows = register_tx_rows [OF assms(1)]
  have "um_user_id m \<noteq> ni_user i" if "m \<in> set (au_memberships (aw_auth w))" for m
    using that assms(2) rows(4) unfolding accounts_wf_def by fastforce
  then have "filter (\<lambda>m. um_user_id m = ni_user i \<and> um_is_active m) (au_memberships (aw_auth w')) = [owner_membership now i]"
    using rows(3) by (auto simp: filter_empty_conv owner_membership_def)
  moreover have "find (\<lambda>t. tn_id t = ni_tenant i \<and> tn_is_active t) (au_tenants (aw_auth w')) = Some (new_tenant now i t)"
    unfolding rows(2) by (rule find_snoc_new) (use rows(5) in \<open>auto simp: new_tenant_def\<close>)
  ultimately show ?thesis
    by (simp add: active_tenants_def map_filter_def entry_of_def owner_membership_def new_tenant_def)
qed

lemma login_after_registration:
  assumes "register_endpoint E others now i u t w = (w', Inr user)"
    and "accounts_wf (aw_auth (others w))" "bcrypt_ok E" "\<forall>c. \<not> ac_fails E c"
    and "ae_secret (ac_auth E) = Some k" "k \<noteq> []"
    and "ac_sha E tok \<notin> rt_token_hash ` set (aw_tokens w')" "lower email = lower (uc_email u)"
  shows "\<exists>w'' r. login E now' ti tok ci email (uc_password u) w' = (w'', Inr r) \<and> lr_user r = user
    \<and> lr_tenants r = [\<lparr>te_id = ni_tenant i, te_name = tc_name t, te_slug = lower (tc_slug t), te_role = ''owner''\<rparr>]"
proof -
  let ?u = "u\<lparr>uc_email := lower (uc_email u)\<rparr>"
  let ?e = "\<lparr>te_id = ni_tenant i, te_name = tc_name t, te_slug = lower (tc_slug t), te_role = ''owner''\<rparr>"
  obtain pw where pw: "ac_hashpw E (uc_password u) = Inr pw" and tx: "register_tx now i pw ?u t (others w) = Some w'"
    and user: "make_User (new_user now i pw ?u) = Inr user"
    using assms(1) by (rule register_success)
  let ?row = "new_user now i pw ?u"
  have email: "us_email x \<noteq> lower email" if "x \<in> set (au_users (aw_auth (others w)))" for x
    using bspec [OF register_tx_rows(4) [OF tx] that] assms(8) by auto
  have f: "find (\<lambda>x. us_email x = lower email) (au_users (aw_auth w')) = Some ?row"
    unfolding register_tx_rows(1) [OF tx]
    by (rule find_snoc_new) (use email assms(8) in \<open>auto simp: new_user_def\<close>)
  have v: "us_is_active ?row" "verify_password (ae_checkpw (ac_auth E)) (uc_password u) (us_password_hash ?row)" "us_id ?row = ni_user i"
    using assms(3) pw by (auto simp: new_user_def verify_password_def bcrypt_ok_def)
  have at: "active_tenants (us_id ?row) (aw_auth w') = [?e]"
    using owner_of_new_tenant [OF tx assms(2)] v(3) by simp
  obtain access where a: "access_token_for E now' (us_id ?row) ?e = Inr access"
    using assms(5,6) by (simp add: access_token_for_def create_access_token_def UserRole_of_def)
  have rt: "\<not> list_ex (\<lambda>r. rt_token_hash r = ac_sha E tok) (aw_tokens w')"
    using assms(7) unfolding list_ex_iff by (metis imageI)
  show ?thesis
    using f v at a rt user assms(4) unfolding login_def Let_def create_refresh_token_def by simp
qed

section \<open>An executable environment\<close>

text \<open>A reversible text of claims stands for PyJWT, and plain text for the hashes.\<close>

fun frame_text :: "string \<Rightarrow> string" where
  "frame_text [] = '';''"
| "frame_text (c # cs) = CHR ''.'' # c # frame_text cs"

fun unframe :: "string \<Rightarrow> (string \<times> string) option" where
  "unframe (a # cs) = (if a = CHR '';'' then Some ([], cs) else
     case cs of [] \<Rightarrow> None | c # rest \<Rightarrow> map_option (\<lambda>(s, r). (c # s, r)) (unframe rest))"
| "unframe [] = None"

lemma unframe_frame [simp]: "unframe (frame_text s @ r) = Some (s, r)"
  by (induction s) simp_all

definition demo_encode :: jwt_encode where
  "demo_encode c k = frame_text (cl_user_id c) @ frame_text (cl_tenant_id c) @ frame_text (cl_role c)
     @ frame_text (int_str (cl_exp c)) @ frame_text (int_str (cl_iat c)) @ frame_text k"

definition read_claims :: "string \<Rightarrow> (claims \<times> string) option" where
  "read_claims s = do {
     (u, s) \<leftarrow> unframe s; (t, s) \<leftarrow> unframe s; (r, s) \<leftarrow> unframe s; (e, s) \<leftarrow> unframe s; (i, s) \<leftarrow> unframe s;
     (k, s) \<leftarrow> unframe s; e' \<leftarrow> parse_int e; i' \<leftarrow> parse_int i;
     Some (\<lparr>cl_user_id = u, cl_tenant_id = t, cl_role = r, cl_exp = e', cl_iat = i'\<rparr>, k)}"

definition demo_decode :: jwt_decode where
  "demo_decode t s k =
     (case read_claims s of
        None \<Rightarrow> None
      | Some (c, k') \<Rightarrow> if k' = k \<and> of_int (cl_iat c) \<le> t \<and> t < of_int (cl_exp c) then Some c else None)"

definition demo_account_env :: account_env where
  "demo_account_env =
     \<lparr>ac_auth = demo_auth_env\<lparr>ae_decode := demo_decode\<rparr>, ac_encode = demo_encode, ac_hashpw = (\<lambda>p. Inr p), ac_sha = id,
      ac_col = Naive, ac_fails = (\<lambda>_. False)\<rparr>"

definition no_accounts :: account_world where
  "no_accounts = \<lparr>aw_auth = \<lparr>au_api_keys = [], au_tenants = [], au_users = [], au_memberships = []\<rparr>, aw_tokens = [],
     aw_spaces = \<lparr>sw_db = empty_db, sw_sites = [], sw_displays = []\<rparr>\<rparr>"

definition demo_user :: UserCreate where
  "demo_user = \<lparr>uc_email = ''Ann@acme.io'', uc_name = ''Ann'', uc_password = ''password1'', uc_metadata = None\<rparr>"

definition demo_tenant :: TenantCreate where
  "demo_tenant = \<lparr>tc_name = ''Acme'', tc_slug = ''acme'', tc_metadata = None, tc_settings = None\<rparr>"

definition demo_ids :: new_ids where
  "demo_ids = \<lparr>ni_user = ''u1'', ni_tenant = ''t1'', ni_site = ''s1'', ni_membership = ''m1''\<rparr>"

lemma read_claims_encode: "read_claims (demo_encode c k) = Some (c, k)"
proof -
  have "unframe (frame_text s) = Some (s, [])" for s using unframe_frame [of s "[]"] by simp
  then show ?thesis by (simp add: read_claims_def demo_encode_def)
qed

lemma demo_jwt: "jwt_ok demo_account_env"
proof -
  have "demo_encode c k \<noteq> []" for c k by (cases "cl_user_id c") (simp_all add: demo_encode_def)
  then show ?thesis
    by (simp add: jwt_ok_def demo_account_env_def demo_decode_def read_claims_encode)
qed

lemma no_accounts_wf: "accounts_wf (aw_auth no_accounts)"
  by (simp add: accounts_wf_def no_accounts_def)

lemma demo_registered:
  "\<exists>w' user. register_endpoint demo_account_env id 100 demo_ids demo_user demo_tenant no_accounts = (w', Inr user)
     \<and> aw_tokens w' = [] \<and> accounts_wf (aw_auth w')"
proof -
  have "register_endpoint demo_account_env id 100 demo_ids demo_user demo_tenant no_accounts =
    (case register_tx 100 demo_ids ''password1'' (demo_user\<lparr>uc_email := ''ann@acme.io''\<rparr>) demo_tenant no_accounts of
       None \<Rightarrow> (no_accounts, Inl (HTTPException 500 ''Registration failed''))
     | Some w' \<Rightarrow> (w', Inr \<lparr>ur_id = ''u1'', ur_email = ''ann@acme.io'', ur_name = ''Ann'', ur_is_active = True,
                          ur_email_verified = False\<rparr>))"
    by code_simp
  moreover have "register_tx 100 demo_ids ''password1'' (demo_user\<lparr>uc_email := ''ann@acme.io''\<rparr>) demo_tenant no_accounts \<noteq> None"
    by code_simp
  ultimately obtain w' user where w': "register_tx 100 demo_ids ''password1'' (demo_user\<lparr>uc_email := ''ann@acme.io''\<rparr>) demo_tenant no_accounts = Some w'"
     "register_endpoint demo_account_env id 100 demo_ids demo_user demo_tenant no_accounts = (w', Inr user)" by auto
  have "aw_tokens w' = []" using w'(1) by (auto simp: register_tx_def Let_def no_accounts_def split: if_splits)
  with w' register_tx_wf [OF w'(1) no_accounts_wf] show ?thesis by blast
qed

section \<open>The account properties on an example\<close>

text \<open>
  Property C13. Registration and login fit together: after a successful registration the same e-mail, in any
  capitalisation, and the same password log in, and the new user is owner of exactly the new tenant, whatever other
  requests did in between. The response names the user the registration returned.
\<close>

theorem registered_user_logs_in:
  assumes "register_endpoint E others now i u t w = (w', Inr user)"
    and "accounts_wf (aw_auth (others w))" "bcrypt_ok E" "\<forall>c. \<not> ac_fails E c"
    and "ae_secret (ac_auth E) = Some k" "k \<noteq> []"
    and "ac_sha E tok \<notin> rt_token_hash ` set (aw_tokens w')" "lower email = lower (uc_email u)"
  shows "\<exists>w'' r. login E now' ti tok ci email (uc_password u) w' = (w'', Inr r) \<and> lr_user r = user
    \<and> lr_tenants r = [\<lparr>te_id = ni_tenant i, te_name = tc_name t, te_slug = lower (tc_slug t), te_role = ''owner''\<rparr>]"
  using assms by (rule login_after_registration)

lemma demo_account_facts:
  "bcrypt_ok demo_account_env" "\<forall>c. \<not> ac_fails demo_account_env c" "ae_secret (ac_auth demo_account_env) = Some ''x''"
  "\<not> ae_fails_jwt (ac_auth demo_account_env)" "ae_local_offset (ac_auth demo_account_env) = 0"
  by (simp_all add: bcrypt_ok_def demo_account_env_def demo_auth_env_def)

theorem registered_user_logs_in_witness:
  "\<exists>w' user w'' r. register_endpoint demo_account_env id 100 demo_ids demo_user demo_tenant no_accounts = (w', Inr user)
     \<and> login demo_account_env 200 1 ''r'' no_client ''ann@ACME.io'' ''password1'' w' = (w'', Inr r) \<and> lr_user r = user
     \<and> map te_id (lr_tenants r) = [''t1'']"
proof -
  obtain w' user where w': "register_endpoint demo_account_env id 100 demo_ids demo_user demo_tenant no_accounts = (w', Inr user)"
    "aw_tokens w' = []" using demo_registered by blast
  have "lower ''ann@ACME.io'' = lower (uc_email demo_user)" by code_simp
  with registered_user_logs_in [OF w'(1) _ demo_account_facts(1-3), of "''r''" "''ann@ACME.io''" 200 1 no_client] w'(2)
  have "\<exists>w'' r. login demo_account_env 200 1 ''r'' no_client ''ann@ACME.io'' (uc_password demo_user) w' = (w'', Inr r)
      \<and> lr_user r = user \<and> map te_id (lr_tenants r) = [''t1'']"
    by (fastforce simp: no_accounts_wf demo_ids_def)
  with w'(1) show ?thesis by (simp add: demo_user_def)
qed

theorem accounts_stay_wf_witness:
  "accounts_wf (aw_auth (fst (register_endpoint demo_account_env id 100 demo_ids demo_user demo_tenant no_accounts)))"
  using accounts_stay_wf [of no_accounts id demo_account_env 100 demo_ids demo_user demo_tenant] no_accounts_wf by simp

lemma demo_login:
  "\<exists>w w' r. accounts_wf (aw_auth w) \<and> te_id (hd (lr_tenants r)) = ''t1''
     \<and> login demo_account_env 200 1 ''r'' no_client ''ann@acme.io'' ''password1'' w = (w', Inr r)"
proof -
  obtain w user where w: "register_endpoint demo_account_env id 100 demo_ids demo_user demo_tenant no_accounts = (w, Inr user)"
    "aw_tokens w = []" "accounts_wf (aw_auth w)" using demo_registered by blast
  have "lower ''ann@acme.io'' = lower (uc_email demo_user)" by code_simp
  with login_after_registration [OF w(1) _ demo_account_facts(1-3), of "''r''" "''ann@acme.io''" 200 1 no_client] w(2)
  have "\<exists>w' r. login demo_account_env 200 1 ''r'' no_client ''ann@acme.io'' (uc_password demo_user) w = (w', Inr r)
      \<and> te_id (hd (lr_tenants r)) = ''t1''"
    by (fastforce simp: no_accounts_wf demo_ids_def)
  with w(3) show ?thesis by (auto simp: demo_user_def)
qed

theorem login_authenticates_witness:
  "\<exists>w w' r tc. login demo_account_env 200 1 ''r'' no_client ''ann@acme.io'' ''password1'' w = (w', Inr r)
     \<and> get_current_tenant (ac_auth demo_account_env) 80000 None (Some (lr_access_token r)) (Some (aw_auth w'))
         = (Some (aw_auth w'), Inr tc) \<and> tc_tenant_id tc = ''t1''"
proof -
  obtain w w' r where l: "accounts_wf (aw_auth w)" "te_id (hd (lr_tenants r)) = ''t1''"
    "login demo_account_env 200 1 ''r'' no_client ''ann@acme.io'' ''password1'' w = (w', Inr r)"
    using demo_login by blast
  from login_authenticates [OF l(3) demo_jwt l(1) demo_account_facts(4), of 80000 None] l(2)
  obtain tc where "get_current_tenant (ac_auth demo_account_env) 80000 None (Some (lr_access_token r)) (Some (aw_auth w'))
         = (Some (aw_auth w'), Inr tc)" "tc_tenant_id tc = ''t1''"
    by (auto simp: demo_account_facts)
  with l(3) show ?thesis by blast
qed

end
