(* ===== verification/Tenant_Admin.thy ===== *)
theory Tenant_Admin
  imports Accounts_Api Webhook_Validation Orphan_Devices
begin

text \<open>
  The administration of a tenant, the rest of \<open>src/api_tenants.py\<close>: the tenant itself, its users, its API keys, its
  webhook secret and the record of unknown devices.

  An answer of status 500 with empty detail is an exception the handler does not catch. \<open>jsonb_dict\<close> is as in
  \<open>Spaces_Api\<close>: without a codec the driver refuses a dictionary for a JSONB column and hands such a column out as text,
  which the response model refuses. A tenant whose \<open>is_active\<close> is NULL counts as not active.
\<close>

section \<open>State\<close>

record admin_world =
  dw_accounts :: account_world
  dw_secrets :: "secret_row list"
  dw_orphans :: "orphan_row list"
  dw_orphan_displays :: "orphan_display list"

abbreviation dw_auth :: "admin_world \<Rightarrow> auth_db" where "dw_auth w \<equiv> aw_auth (dw_accounts w)"

definition set_auth :: "auth_db \<Rightarrow> admin_world \<Rightarrow> admin_world" where
  "set_auth db w = w\<lparr>dw_accounts := (dw_accounts w)\<lparr>aw_auth := db\<rparr>\<rparr>"

section \<open>The tenant\<close>

definition read_tenant :: "bool \<Rightarrow> tenant_row \<Rightarrow> http_error + tenant_row" where
  "read_tenant jsonb_dict t =
     (if jsonb_dict \<or> (tn_metadata t = None \<and> tn_settings t = None) then Inr t else Inl server_error)"

definition get_current_tenant_info :: "bool \<Rightarrow> TenantContext \<Rightarrow> admin_world \<Rightarrow> http_error + tenant_row" where
  "get_current_tenant_info jsonb_dict tenant w =
     (case find (\<lambda>t. tn_id t = tc_tenant_id tenant) (au_tenants (dw_auth w)) of
        None \<Rightarrow> Inl (HTTPException 404 ''Tenant not found'')
      | Some t \<Rightarrow> read_tenant jsonb_dict t)"

text \<open>A field is unset, set to null, or set to a value; unset fields are left out of the statement.\<close>

record TenantUpdate =
  tu_name :: "string option option"
  tu_metadata :: "string option option"
  tu_settings :: "string option option"
  tu_is_active :: "bool option option"

definition patch_tenant :: "TenantUpdate \<Rightarrow> tenant_row \<Rightarrow> tenant_row" where
  "patch_tenant u =
     set_if (some_field (tu_name u)) (\<lambda>v t. t\<lparr>tn_name := v\<rparr>) \<circ>
     set_if (tu_metadata u) (\<lambda>v t. t\<lparr>tn_metadata := v\<rparr>) \<circ>
     set_if (tu_settings u) (\<lambda>v t. t\<lparr>tn_settings := v\<rparr>) \<circ>
     set_if (tu_is_active u) (\<lambda>v t. t\<lparr>tn_is_active := (v = Some True)\<rparr>)"

definition update_current_tenant ::
  "bool \<Rightarrow> instant \<Rightarrow> TenantUpdate \<Rightarrow> TenantContext \<Rightarrow> admin_world \<Rightarrow> admin_world \<times> (http_error + tenant_row)" where
  "update_current_tenant jsonb_dict now u tenant w =
     (case require_role OWNER tenant of
        Inl e \<Rightarrow> (w, Inl e)
      | Inr tenant \<Rightarrow>
      if tu_name u = None \<and> tu_metadata u = None \<and> tu_settings u = None \<and> tu_is_active u = None
      then (w, Inl (HTTPException 400 ''No fields to update''))
      else if tu_name u = Some None then (w, Inl server_error)
      else if \<not> jsonb_dict \<and> (some_field (tu_metadata u) \<noteq> None \<or> some_field (tu_settings u) \<noteq> None)
      then (w, Inl server_error)
      else
        let db = dw_auth w;
            mine = (\<lambda>t. tn_id t = tc_tenant_id tenant);
            f = (\<lambda>t. (patch_tenant u t)\<lparr>tn_updated_at := now\<rparr>)
        in case find mine (au_tenants db) of
             None \<Rightarrow> (w, Inl server_error)
           | Some t \<Rightarrow>
               (set_auth (db\<lparr>au_tenants := sql_update mine f (au_tenants db)\<rparr>) w,
                if tu_is_active u = Some None then Inl server_error else read_tenant jsonb_dict (f t)))"

section \<open>Users\<close>

record UserMembership =
  mb_id :: uuid
  mb_user_id :: uuid
  mb_tenant_id :: uuid
  mb_role :: UserRole
  mb_is_active :: bool
  mb_created_at :: instant

type_synonym users_dict = "(uuid \<times> (User \<times> UserMembership list)) list"

text \<open>One row of the join is added to the dictionary; a role or an e-mail the models refuse raises.\<close>

definition add_user_row :: "uuid \<Rightarrow> user_row \<times> membership_row \<Rightarrow> users_dict \<Rightarrow> users_dict option" where
  "add_user_row tenant_id row d =
     (case row of (u, m) \<Rightarrow>
      case (case map_of d (us_id u) of
              Some entry \<Rightarrow> Some entry
            | None \<Rightarrow> (case make_User u of Inl _ \<Rightarrow> None | Inr user \<Rightarrow> Some (user, []))) of
        None \<Rightarrow> None
      | Some (user, ms) \<Rightarrow>
          (case UserRole_of (um_role m) of
             None \<Rightarrow> None
           | Some role \<Rightarrow>
               Some (AList.update (us_id u)
                 (user, ms @ [\<lparr>mb_id = um_id m, mb_user_id = us_id u, mb_tenant_id = tenant_id, mb_role = role,
                               mb_is_active = um_is_active m, mb_created_at = um_created_at m\<rparr>]) d)))"

fun add_user_rows :: "uuid \<Rightarrow> (user_row \<times> membership_row) list \<Rightarrow> users_dict \<Rightarrow> users_dict option" where
  "add_user_rows tenant_id [] d = Some d"
| "add_user_rows tenant_id (r # rs) d =
     (case add_user_row tenant_id r d of None \<Rightarrow> None | Some d \<Rightarrow> add_user_rows tenant_id rs d)"

definition user_rows :: "(string \<Rightarrow> int) \<Rightarrow> uuid \<Rightarrow> auth_db \<Rightarrow> (user_row \<times> membership_row) list" where
  "user_rows collate tenant_id db =
     sort_key (\<lambda>(u, m). collate (us_email u))
       (concat (map (\<lambda>u. map (Pair u) (filter (\<lambda>m. um_user_id m = us_id u \<and> um_tenant_id m = tenant_id)
                           (au_memberships db))) (au_users db)))"

definition list_tenant_users ::
  "(string \<Rightarrow> int) \<Rightarrow> TenantContext \<Rightarrow> admin_world \<Rightarrow> http_error + (User \<times> UserMembership list) list" where
  "list_tenant_users collate tenant w =
     (case gate ''users:read'' ADMIN tenant of
        Inl e \<Rightarrow> Inl e
      | Inr tenant \<Rightarrow>
          (case add_user_rows (tc_tenant_id tenant) (user_rows collate (tc_tenant_id tenant) (dw_auth w)) [] of
             None \<Rightarrow> Inl server_error
           | Some d \<Rightarrow> Inr (map snd d)))"

section \<open>API keys\<close>

record APIKeyCreate =
  kc_name :: string
  kc_tenant_id :: uuid
  kc_scopes :: "string list"

record APIKeyResponse =
  kr_id :: uuid
  kr_name :: string
  kr_key :: string
  kr_tenant_id :: uuid
  kr_scopes :: "string list"

text \<open>The columns the listing selects: not the hash.\<close>

record APIKey =
  kl_id :: uuid
  kl_name :: string
  kl_scopes :: "string list option"
  kl_last_used_at :: "instant option"
  kl_is_active :: bool

definition list_api_keys :: "TenantContext \<Rightarrow> admin_world \<Rightarrow> http_error + APIKey list" where
  "list_api_keys tenant w =
     (case require_role OWNER tenant of
        Inl e \<Rightarrow> Inl e
      | Inr tenant \<Rightarrow>
          Inr (map (\<lambda>k. \<lparr>kl_id = ak_id k, kl_name = ak_key_name k, kl_scopes = ak_scopes k,
                         kl_last_used_at = ak_last_used_at k, kl_is_active = ak_is_active k\<rparr>)
            (sort_key (\<lambda>k. - ak_created_at k)
              (filter (\<lambda>k. ak_tenant_id k = Some (tc_tenant_id tenant)) (au_api_keys (dw_auth w))))))"

text \<open>
  \<open>key\<close> is the new random text, \<open>hash\<close> its bcrypt hash. The insert fails on a hash or an id that is there, or for a
  tenant that does not exist.
\<close>

definition create_api_key ::
  "uuid \<Rightarrow> string \<Rightarrow> string \<Rightarrow> instant \<Rightarrow> APIKeyCreate \<Rightarrow> TenantContext \<Rightarrow> admin_world
   \<Rightarrow> admin_world \<times> (http_error + APIKeyResponse)" where
  "create_api_key i key hash now c tenant w =
     (case require_role OWNER tenant of
        Inl e \<Rightarrow> (w, Inl e)
      | Inr tenant \<Rightarrow>
      if kc_tenant_id c \<noteq> tc_tenant_id tenant
      then (w, Inl (HTTPException 403 ''Cannot create API key for different tenant''))
      else
        let db = dw_auth w in
        if sql_exists (\<lambda>k. ak_id k = i \<or> ak_key_hash k = hash) (au_api_keys db)
           \<or> \<not> sql_exists (\<lambda>t. tn_id t = kc_tenant_id c) (au_tenants db)
        then (w, Inl server_error)
        else
          (set_auth (db\<lparr>au_api_keys := au_api_keys db @
              [\<lparr>ak_id = i, ak_key_hash = hash, ak_key_name = kc_name c, ak_is_admin = False, ak_is_active = True,
                ak_tenant_id = Some (kc_tenant_id c), ak_scopes = Some (kc_scopes c), ak_last_used_at = None,
                ak_created_at = now\<rparr>]\<rparr>) w,
           Inr \<lparr>kr_id = i, kr_name = kc_name c, kr_key = key, kr_tenant_id = kc_tenant_id c, kr_scopes = kc_scopes c\<rparr>))"

definition revoke_api_key ::
  "uuid \<Rightarrow> TenantContext \<Rightarrow> admin_world \<Rightarrow> admin_world \<times> (http_error + unit)" where
  "revoke_api_key key_id tenant w =
     (case require_role OWNER tenant of
        Inl e \<Rightarrow> (w, Inl e)
      | Inr tenant \<Rightarrow>
          let db = dw_auth w;
              P = (\<lambda>k. ak_id k = key_id \<and> ak_tenant_id k = Some (tc_tenant_id tenant))
          in if sql_count P (au_api_keys db) = 0 then (w, Inl (HTTPException 404 ''API key not found''))
             else (set_auth (db\<lparr>au_api_keys := sql_update P (\<lambda>k. k\<lparr>ak_is_active := False\<rparr>) (au_api_keys db)\<rparr>) w, Inr ()))"

section \<open>Webhook secret\<close>

definition create_webhook_secret ::
  "bool \<Rightarrow> uuid \<Rightarrow> string \<Rightarrow> instant \<Rightarrow> TenantContext \<Rightarrow> admin_world \<Rightarrow> admin_world \<times> (http_error + string)" where
  "create_webhook_secret fails i new_secret now tenant w =
     (case require_role OWNER tenant of
        Inl e \<Rightarrow> (w, Inl e)
      | Inr tenant \<Rightarrow>
      if fails then (w, Inl (HTTPException 500 ''Failed to create webhook secret''))
      else case get_or_create_webhook_secret i (tc_tenant_id tenant) new_secret now (dw_secrets w) of
             (_, Inl (ValueError m)) \<Rightarrow> (w, Inl (HTTPException 400 m))
           | (_, Inl _) \<Rightarrow> (w, Inl (HTTPException 500 ''Failed to create webhook secret''))
           | (rows, Inr secret) \<Rightarrow> (w\<lparr>dw_secrets := rows\<rparr>, Inr secret))"

definition rotate_webhook_secret_endpoint ::
  "bool \<Rightarrow> uuid \<Rightarrow> string \<Rightarrow> instant \<Rightarrow> TenantContext \<Rightarrow> admin_world \<Rightarrow> admin_world \<times> (http_error + string)" where
  "rotate_webhook_secret_endpoint fails i new_secret now tenant w =
     (case require_role OWNER tenant of
        Inl e \<Rightarrow> (w, Inl e)
      | Inr tenant \<Rightarrow>
      if fails then (w, Inl (HTTPException 500 ''Failed to rotate webhook secret''))
      else case rotate_webhook_secret i (tc_tenant_id tenant) new_secret now (dw_secrets w) of
             (rows, secret) \<Rightarrow> (w\<lparr>dw_secrets := rows\<rparr>, Inr secret))"

section \<open>Unknown devices\<close>

definition list_orphan_devices ::
  "string list \<Rightarrow> instant \<Rightarrow> bool \<Rightarrow> int option \<Rightarrow> TenantContext \<Rightarrow> admin_world \<Rightarrow> http_error + orphan_row list \<times> nat" where
  "list_orphan_devices columns now include_assigned since_hours tenant w =
     (case require_role ADMIN tenant of
        Inl e \<Rightarrow> Inl e
      | Inr _ \<Rightarrow>
          let orphans = get_orphan_devices columns now include_assigned since_hours (dw_orphans w)
          in Inr (orphans, length orphans))"

definition assign_orphan ::
  "bool \<Rightarrow> instant \<Rightarrow> string \<Rightarrow> uuid \<Rightarrow> TenantContext \<Rightarrow> admin_world \<Rightarrow> admin_world \<times> (http_error + unit)" where
  "assign_orphan fails now device_eui space_id tenant w =
     (case require_role ADMIN tenant of
        Inl e \<Rightarrow> (w, Inl e)
      | Inr _ \<Rightarrow>
          (case assign_orphan_device fails now device_eui space_id (dw_orphans w) of
             (rows, success) \<Rightarrow>
               (w\<lparr>dw_orphans := rows\<rparr>,
                if success then Inr () else Inl (HTTPException 404 (''Orphan device '' @ device_eui @ '' not found'')))))"

definition delete_orphan ::
  "bool \<Rightarrow> string \<Rightarrow> TenantContext \<Rightarrow> admin_world \<Rightarrow> admin_world \<times> (http_error + unit)" where
  "delete_orphan fails device_eui tenant w =
     (case require_role ADMIN tenant of
        Inl e \<Rightarrow> (w, Inl e)
      | Inr _ \<Rightarrow>
          let spaces = aw_spaces (dw_accounts w) in
          (case delete_orphan_device fails device_eui (sw_db spaces, dw_orphan_displays w) of
             ((db, displays), success) \<Rightarrow>
               (w\<lparr>dw_accounts := (dw_accounts w)\<lparr>aw_spaces := spaces\<lparr>sw_db := db\<rparr>\<rparr>, dw_orphan_displays := displays\<rparr>,
                if success then Inr () else Inl (HTTPException 404 (''Orphan device '' @ device_eui @ '' not found'')))))"

section \<open>Isolation of tenants\<close>

datatype admin_op =
    UpdateTenant bool instant TenantUpdate
  | CreateKey uuid string string instant APIKeyCreate
  | RevokeKey uuid
  | CreateSecret bool uuid string instant
  | RotateSecret bool uuid string instant

fun admin_step :: "admin_op \<Rightarrow> TenantContext \<Rightarrow> admin_world \<Rightarrow> admin_world" where
  "admin_step (UpdateTenant j now u) tc w = fst (update_current_tenant j now u tc w)"
| "admin_step (CreateKey i key hash now c) tc w = fst (create_api_key i key hash now c tc w)"
| "admin_step (RevokeKey i) tc w = fst (revoke_api_key i tc w)"
| "admin_step (CreateSecret f i s now) tc w = fst (create_webhook_secret f i s now tc w)"
| "admin_step (RotateSecret f i s now) tc w = fst (rotate_webhook_secret_endpoint f i s now tc w)"

definition admin_rows :: "uuid \<Rightarrow> admin_world \<Rightarrow> tenant_row list \<times> api_key_row list \<times> secret_row list" where
  "admin_rows t w = (filter (\<lambda>x. tn_id x = t) (au_tenants (dw_auth w)),
     filter (\<lambda>k. ak_tenant_id k = Some t) (au_api_keys (dw_auth w)), filter (\<lambda>r. ws_tenant_id r = t) (dw_secrets w))"

lemma require_role_Inr: "require_role r tc = Inr tc' \<Longrightarrow> tc' = tc"
  by (auto simp: require_role_def split: if_splits option.splits)

lemma patch_tenant_id [simp]: "tn_id (patch_tenant u x) = tn_id x"
  by (simp add: patch_tenant_def set_if_def split: option.split)

lemma admin_step_rows:
  assumes "t \<noteq> tc_tenant_id tc"
  shows "admin_rows t (admin_step op tc w) = admin_rows t w"
proof (cases op)
  case (UpdateTenant j now u)
  have "filter (\<lambda>x. tn_id x = t) (sql_update (\<lambda>x. tn_id x = tc_tenant_id tc) (\<lambda>x. (patch_tenant u x)\<lparr>tn_updated_at := now\<rparr>) xs)
      = filter (\<lambda>x. tn_id x = t) xs" for xs
    by (rule filter_sql_update) (use assms in auto)
  then show ?thesis using UpdateTenant
    by (auto simp: update_current_tenant_def admin_rows_def set_auth_def Let_def split: sum.split option.split
        dest!: require_role_Inr)
next
  case (CreateKey i key hash now c)
  then show ?thesis using assms
    by (auto simp: create_api_key_def admin_rows_def set_auth_def Let_def split: sum.split dest!: require_role_Inr)
next
  case (RevokeKey i)
  have "filter (\<lambda>k. ak_tenant_id k = Some t) (sql_update (\<lambda>k. ak_id k = i \<and> ak_tenant_id k = Some (tc_tenant_id tc))
      (\<lambda>k. k\<lparr>ak_is_active := False\<rparr>) xs) = filter (\<lambda>k. ak_tenant_id k = Some t) xs" for xs
    by (rule filter_sql_update) (use assms in auto)
  then show ?thesis using RevokeKey
    by (auto simp: revoke_api_key_def admin_rows_def set_auth_def Let_def split: sum.split dest!: require_role_Inr)
next
  case (CreateSecret f i s now)
  then show ?thesis using assms
    by (auto simp: create_webhook_secret_def get_or_create_webhook_secret_def insert_secret_def admin_rows_def
        split: sum.split dest!: require_role_Inr)
next
  case (RotateSecret f i s now)
  have "filter (\<lambda>r. ws_tenant_id r = t) (sql_update (\<lambda>r. ws_tenant_id r = tc_tenant_id tc) (\<lambda>r. r\<lparr>ws_is_active := False\<rparr>) xs)
      = filter (\<lambda>r. ws_tenant_id r = t) xs" for xs
    by (rule filter_sql_update) (use assms in auto)
  then show ?thesis using RotateSecret assms
    by (auto simp: rotate_webhook_secret_endpoint_def rotate_webhook_secret_def insert_secret_def admin_rows_def
        split: sum.split dest!: require_role_Inr)
qed

interpretation admin_api: tenant_scoped admin_step admin_rows "\<lambda>_. True"
  by unfold_locales (simp_all add: admin_step_rows)

text \<open>
  Property C19. The administration of one tenant does not reach another: whatever owners and API keys of other tenants do
  with their tenant, keys and webhook secrets, in any order, the row of a tenant, its API keys and its secrets stay
  exactly as they are.
\<close>

theorem administration_isolated:
  assumes "\<forall>(op, tc)\<in>set ops. tc_tenant_id tc \<noteq> t"
  shows "admin_rows t (fold (\<lambda>(op, tc). admin_step op tc) ops w) = admin_rows t w"
  by (rule admin_api.run_scoped [OF TrueI assms])

section \<open>The life of an API key\<close>

text \<open>What a stored key resolves to.\<close>

definition key_context :: "tenant_row \<Rightarrow> uuid \<Rightarrow> string list \<Rightarrow> TenantContext" where
  "key_context t i scopes =
     \<lparr>tc_tenant_id = tn_id t, tc_tenant_name = tn_name t, tc_tenant_slug = tn_slug t, tc_user_id = None,
      tc_user_role = None, tc_api_key_id = Some i, tc_api_key_scopes = Some scopes, tc_source = ''api_key''\<rparr>"

lemma create_key_success:
  assumes "create_api_key i key hash now c tenant w = (w', Inr r)"
  shows "dw_auth w' = (dw_auth w)\<lparr>au_api_keys := au_api_keys (dw_auth w) @
      [\<lparr>ak_id = i, ak_key_hash = hash, ak_key_name = kc_name c, ak_is_admin = False, ak_is_active = True,
        ak_tenant_id = Some (tc_tenant_id tenant), ak_scopes = Some (kc_scopes c), ak_last_used_at = None,
        ak_created_at = now\<rparr>]\<rparr>"
    and "kr_key r = key" "kr_id r = i" "\<forall>k\<in>set (au_api_keys (dw_auth w)). ak_id k \<noteq> i"
  using assms by (auto simp: create_api_key_def set_auth_def Let_def sql_exists_def list_ex_iff split: sum.splits if_splits
      dest!: require_role_Inr)

text \<open>The environment works: no query fails.\<close>

definition auth_works :: "auth_env \<Rightarrow> bool" where
  "auth_works A \<longleftrightarrow> \<not> ae_fails_jwt A \<and> \<not> ae_fails_keys A \<and> \<not> ae_fails_resolve A"

lemma created_key_authenticates:
  assumes made: "create_api_key i key hash now c tenant w = (w', Inr r)"
    and A: "auth_works A" "ae_checkpw A key hash = Inr True" "key \<noteq> []"
    and others: "\<forall>k\<in>set (au_api_keys (dw_auth w)). ae_checkpw A key (ak_key_hash k) \<noteq> Inr True"
    and t: "find (\<lambda>t. tn_id t = tc_tenant_id tenant \<and> tn_is_active t) (au_tenants (dw_auth w)) = Some t"
  shows "snd (get_current_tenant A now' (Some (kr_key r)) None (Some (dw_auth w'))) = Inr (key_context t i (kc_scopes c))"
proof -
  note new = create_key_success [OF made]
  have "matching_key (ae_checkpw A) key (au_api_keys (dw_auth w')) = Some
      \<lparr>ak_id = i, ak_key_hash = hash, ak_key_name = kc_name c, ak_is_admin = False, ak_is_active = True,
        ak_tenant_id = Some (tc_tenant_id tenant), ak_scopes = Some (kc_scopes c), ak_last_used_at = None,
        ak_created_at = now\<rparr>"
    unfolding new(1) matching_key_def by (simp, rule find_snoc_new) (use others A(2) in auto)
  moreover have "sql_update (\<lambda>x. ak_id x = i) (\<lambda>x. x\<lparr>ak_last_used_at := Some now'\<rparr>) (au_api_keys (dw_auth w)) = au_api_keys (dw_auth w)"
    using new(4) by (auto simp: sql_update_def intro!: map_idI)
  moreover have "find (\<lambda>r. ak_id r = i \<and> ak_is_active r) (au_api_keys (dw_auth w) @ [k]) = Some k"
    if "ak_id k = i" "ak_is_active k" for k
    by (rule find_snoc_new) (use new(4) that in auto)
  moreover have "find (\<lambda>t. tc_tenant_id tenant = tn_id t \<and> tn_is_active t) (au_tenants (dw_auth w)) = Some t"
    using t by (simp add: eq_commute [of "tc_tenant_id tenant"])
  moreover have "tn_id t = tc_tenant_id tenant" using find_SomeD [OF t] by simp
  ultimately show ?thesis
    using A new(1,2) by (simp add: get_current_tenant_def get_optional_api_key_def verify_api_key_def auth_works_def
        resolve_tenant_from_api_key_def key_context_def sql_update_def)
qed

lemma revoked_key_refused:
  assumes "create_api_key i key hash now c tenant w = (w', Inr r)" "revoke_api_key i tenant' w' = (w'', Inr ())"
    and "\<forall>k\<in>set (au_api_keys (dw_auth w)). ae_checkpw A key (ak_key_hash k) \<noteq> Inr True"
    and "tc_tenant_id tenant' = tc_tenant_id tenant"
  shows "\<exists>d. snd (get_current_tenant A now' (Some key) None (Some (dw_auth w''))) = Inl (HTTPException 401 d)"
proof -
  note new = create_key_success [OF assms(1)]
  have "au_api_keys (dw_auth w'') = sql_update (\<lambda>k. ak_id k = i \<and> ak_tenant_id k = Some (tc_tenant_id tenant))
      (\<lambda>k. k\<lparr>ak_is_active := False\<rparr>) (au_api_keys (dw_auth w'))"
    using assms(2,4) by (auto simp: revoke_api_key_def set_auth_def Let_def split: sum.splits if_splits dest!: require_role_Inr)
  then have "matching_key (ae_checkpw A) key (au_api_keys (dw_auth w'')) = None"
    using assms(3) new(1) by (auto simp: matching_key_def find_None_iff sql_update_def)
  then show ?thesis
    by (auto simp: get_current_tenant_def get_optional_api_key_def verify_api_key_def)
qed

text \<open>
  Property C18. The life of an API key. The text returned when a key is made authenticates requests for the tenant of the owner with exactly
  the scopes asked for, and the owner can revoke it: after that the text is refused with 401.
\<close>

theorem api_key_lifecycle:
  assumes "create_api_key i key hash now c tenant w = (w', Inr r)"
    and "auth_works A" "ae_checkpw A key hash = Inr True" "key \<noteq> []"
    and "\<forall>k\<in>set (au_api_keys (dw_auth w)). ae_checkpw A key (ak_key_hash k) \<noteq> Inr True"
    and "find (\<lambda>t. tn_id t = tc_tenant_id tenant \<and> tn_is_active t) (au_tenants (dw_auth w)) = Some t"
  shows "snd (get_current_tenant A now' (Some (kr_key r)) None (Some (dw_auth w'))) = Inr (key_context t i (kc_scopes c))
    \<and> (\<exists>w'' d. revoke_api_key (kr_id r) tenant w' = (w'', Inr ())
         \<and> snd (get_current_tenant A now' (Some (kr_key r)) None (Some (dw_auth w''))) = Inl (HTTPException 401 d))"
proof (intro conjI)
  note new = create_key_success [OF assms(1)]
  show "snd (get_current_tenant A now' (Some (kr_key r)) None (Some (dw_auth w'))) = Inr (key_context t i (kc_scopes c))"
    by (rule created_key_authenticates [OF assms])
  have gate: "require_role OWNER tenant = Inr tenant"
    using assms(1) by (auto simp: create_api_key_def split: sum.splits dest: require_role_Inr)
  obtain w'' where "revoke_api_key i tenant w' = (w'', Inr ())"
    using gate new(1) by (simp add: revoke_api_key_def Let_def sql_count_def)
  then show "\<exists>w'' d. revoke_api_key (kr_id r) tenant w' = (w'', Inr ())
      \<and> snd (get_current_tenant A now' (Some (kr_key r)) None (Some (dw_auth w''))) = Inl (HTTPException 401 d)"
    using revoked_key_refused [OF assms(1) _ assms(5) refl] new(2,3) by metis
qed

text \<open>
  Any API key is as good as an owner. The endpoint for new keys asks for the role of an owner, which every API
  key passes, and for no scope: whoever holds an API key of a tenant, even one without any scope, makes a key with
  all scopes for that tenant, which then passes every scope check and every role gate.
\<close>

theorem api_key_escalates:
  assumes "tc_source tenant = ''api_key''"
    and "\<forall>k\<in>set (au_api_keys (dw_auth w)). ak_id k \<noteq> i \<and> ak_key_hash k \<noteq> hash \<and> ae_checkpw A key (ak_key_hash k) \<noteq> Inr True"
    and "auth_works A" "ae_checkpw A key hash = Inr True" "key \<noteq> []"
    and "find (\<lambda>t. tn_id t = tc_tenant_id tenant \<and> tn_is_active t) (au_tenants (dw_auth w)) = Some t"
  shows "\<exists>w' r tc. create_api_key i key hash now
        \<lparr>kc_name = n, kc_tenant_id = tc_tenant_id tenant, kc_scopes = [''admin:*'']\<rparr> tenant w = (w', Inr r)
    \<and> snd (get_current_tenant A now' (Some (kr_key r)) None (Some (dw_auth w'))) = Inr tc
    \<and> tc_tenant_id tc = tc_tenant_id tenant
    \<and> (\<forall>req. require_scopes req tc = Inr tc) \<and> (\<forall>role. require_role role tc = Inr tc)"
proof -
  let ?c = "\<lparr>kc_name = n, kc_tenant_id = tc_tenant_id tenant, kc_scopes = [''admin:*'']\<rparr>"
  have "sql_exists (\<lambda>t. tn_id t = tc_tenant_id tenant) (au_tenants (dw_auth w))"
    using find_SomeD [OF assms(6)] by (auto simp: sql_exists_def list_ex_iff)
  moreover have "require_role OWNER tenant = Inr tenant" using assms(1) by (simp add: require_role_def)
  moreover have "\<not> sql_exists (\<lambda>k. ak_id k = i \<or> ak_key_hash k = hash) (au_api_keys (dw_auth w))"
    using assms(2) by (auto simp: sql_exists_def list_ex_iff)
  ultimately obtain w' r where made: "create_api_key i key hash now ?c tenant w = (w', Inr r)"
    by (simp add: create_api_key_def Let_def)
  let ?tc = "key_context t i [''admin:*'']"
  have "snd (get_current_tenant A now' (Some (kr_key r)) None (Some (dw_auth w'))) = Inr ?tc"
    using created_key_authenticates [OF made assms(3-5) _ assms(6)] assms(2) by simp
  moreover have "require_scopes req ?tc = Inr ?tc" for req
    by (simp add: require_scopes_def check_scopes_def key_context_def Let_def expand_star)
  moreover have "require_role role ?tc = Inr ?tc" for role by (simp add: require_role_def key_context_def)
  moreover have "tc_tenant_id ?tc = tc_tenant_id tenant" using find_SomeD [OF assms(6)] by (simp add: key_context_def)
  ultimately show ?thesis using made by blast
qed

section \<open>Examples\<close>

definition demo_admin :: admin_world where
  "demo_admin = \<lparr>dw_accounts = no_accounts\<lparr>aw_auth := demo_auth\<rparr>, dw_secrets = [], dw_orphans = [], dw_orphan_displays = []\<rparr>"

lemma demo_admin_facts:
  "auth_works demo_auth_env" "ae_checkpw demo_auth_env ''new'' ''new'' = Inr True"
  "\<forall>k\<in>set (au_api_keys (dw_auth demo_admin)). ak_id k \<noteq> ''k2'' \<and> ak_key_hash k \<noteq> ''new''
     \<and> ae_checkpw demo_auth_env ''new'' (ak_key_hash k) \<noteq> Inr True"
  "find (\<lambda>t. tn_id t = ''t1'' \<and> tn_is_active t) (au_tenants (dw_auth demo_admin)) = Some (hd (au_tenants demo_auth))"
  by (simp_all add: auth_works_def demo_auth_env_def demo_admin_def demo_auth_def)

theorem administration_isolated_witness:
  "admin_rows ''t1'' (fold (\<lambda>(op, tc). admin_step op tc)
     [(RevokeKey ''k1'', owner_of ''t2''), (RotateSecret False ''i'' ''s'' 5, owner_of ''t2'')] demo_admin) = admin_rows ''t1'' demo_admin"
  by (rule administration_isolated) (simp add: owner_of_def)

theorem api_key_lifecycle_witness:
  "\<exists>w' r w'' d. create_api_key ''k2'' ''new'' ''new'' 7 \<lparr>kc_name = ''n'', kc_tenant_id = ''t1'', kc_scopes = [''spaces:read'']\<rparr>
       (owner_of ''t1'') demo_admin = (w', Inr r)
     \<and> revoke_api_key (kr_id r) (owner_of ''t1'') w' = (w'', Inr ())
     \<and> snd (get_current_tenant demo_auth_env 9 (Some (kr_key r)) None (Some (dw_auth w''))) = Inl (HTTPException 401 d)"
proof -
  let ?c = "\<lparr>kc_name = ''n'', kc_tenant_id = ''t1'', kc_scopes = [''spaces:read'']\<rparr>"
  obtain w' r where made: "create_api_key ''k2'' ''new'' ''new'' 7 ?c (owner_of ''t1'') demo_admin = (w', Inr r)"
    by (simp add: create_api_key_def owner_of_def require_role_def level_or_def role_hierarchy_def Let_def
        demo_admin_def demo_auth_def sql_exists_def)
  have "tc_tenant_id (owner_of ''t1'') = ''t1''" by (simp add: owner_of_def)
  with api_key_lifecycle [OF made demo_admin_facts(1,2), of "hd (au_tenants demo_auth)" 9] demo_admin_facts(3,4)
  have "\<exists>w'' d. revoke_api_key (kr_id r) (owner_of ''t1'') w' = (w'', Inr ())
      \<and> snd (get_current_tenant demo_auth_env 9 (Some (kr_key r)) None (Some (dw_auth w''))) = Inl (HTTPException 401 d)"
    by auto
  with made show ?thesis by blast
qed

theorem api_key_escalates_witness:
  "\<exists>w' r tc. create_api_key ''k2'' ''new'' ''new'' 7 \<lparr>kc_name = ''n'', kc_tenant_id = ''t1'', kc_scopes = [''admin:*'']\<rparr>
       (demo_context\<lparr>tc_api_key_scopes := Some []\<rparr>) demo_admin = (w', Inr r)
     \<and> snd (get_current_tenant demo_auth_env 9 (Some (kr_key r)) None (Some (dw_auth w'))) = Inr tc
     \<and> require_scopes [''tenants:write''] tc = Inr tc"
proof -
  have "tc_source (demo_context\<lparr>tc_api_key_scopes := Some []\<rparr>) = ''api_key''"
    "tc_tenant_id (demo_context\<lparr>tc_api_key_scopes := Some []\<rparr>) = ''t1''" by (simp_all add: demo_context_def)
  with api_key_escalates [OF _ demo_admin_facts(3,1,2), of "demo_context\<lparr>tc_api_key_scopes := Some []\<rparr>"
      "hd (au_tenants demo_auth)" 7 "''n''" 9] demo_admin_facts(4)
  show ?thesis by auto
qed

end
