(* ===== verification/Devices_Api.thy ===== *)
theory Devices_Api
  imports Spaces_Api "HOL-Library.AList"
begin

text \<open>
  \<open>src/routers/devices.py\<close>: listing, reading, changing and archiving the registered sensors and displays.

  Both registries are lists of \<open>device_row\<close>; the columns only one of them has (decoder and capabilities, or display codes and
  port) are one text, \<open>dv_details\<close>. ChirpStack's database is given by what it answers: \<open>cs_find\<close> for a device and
  its profile. \<open>fails\<close> says whether a query raises. The text of a caught exception, which becomes the detail of a 500
  answer, is left out.
\<close>

section \<open>Devices\<close>

record device_row =
  dv_id :: uuid
  dv_dev_eui :: string
  dv_device_type :: string
  dv_device_model :: "string option"
  dv_manufacturer :: "string option"
  dv_details :: string
  dv_enabled :: bool
  dv_status :: string
  dv_last_seen_at :: "instant option"
  dv_created_at :: instant
  dv_updated_at :: instant

record devices_world =
  vw_sensors :: "device_row list"
  vw_displays :: "device_row list"
  vw_spaces :: "space_row list"

record device_type_entry =
  ty_category :: string
  ty_name :: string
  ty_enabled :: bool

record cs_device =
  cd_name :: string
  cd_description :: "string option"
  cd_profile_name :: "string option"

datatype category = Sensor | Display

text \<open>\<open>x if x else ""\<close>.\<close>

definition text_or_empty :: "string option \<Rightarrow> string" where
  "text_or_empty x = (case x of None \<Rightarrow> [] | Some s \<Rightarrow> s)"

section \<open>Listing\<close>

definition list_device_types ::
  "(string \<Rightarrow> int) \<Rightarrow> bool \<Rightarrow> string option \<Rightarrow> device_type_entry list \<Rightarrow> http_error + device_type_entry list" where
  "list_device_types collate fails category types =
     (if fails then Inl server_error
      else Inr (sort_key (\<lambda>t. (collate (ty_category t), collate (ty_name t)))
             (filter (\<lambda>t. ty_enabled t \<and> (truthy category \<longrightarrow> Some (ty_category t) = category)) types)))"

record cs_profile =
  cp_name :: string
  cp_description :: "string option"
  cp_region :: "string option"
  cp_mac_version :: "string option"

record profile_entry =
  pe_name :: string
  pe_description :: string
  pe_region :: string
  pe_mac_version :: string

definition list_chirpstack_device_profiles ::
  "(string \<Rightarrow> int) \<Rightarrow> cs_profile list option \<Rightarrow> http_error + profile_entry list" where
  "list_chirpstack_device_profiles collate answer =
     (case answer of
        None \<Rightarrow> Inl server_error
      | Some rows \<Rightarrow>
          Inr (map (\<lambda>r. \<lparr>pe_name = cp_name r, pe_description = text_or_empty (cp_description r),
                         pe_region = text_or_empty (cp_region r), pe_mac_version = text_or_empty (cp_mac_version r)\<rparr>)
                 (sort_key (\<lambda>r. collate (cp_name r)) rows)))"

record device_filters =
  df_device_type :: "string option"
  df_category :: "string option"
  df_status :: "string option"
  df_enabled :: "bool option"
  df_include_archived :: bool
  df_include_orphans :: bool

record device_entry =
  de_category :: category
  de_row :: device_row
  de_device_type :: string
  de_name :: string
  de_description :: string

definition eui_of :: "category \<Rightarrow> space_row \<Rightarrow> string option" where
  "eui_of c s = (case c of Sensor \<Rightarrow> sp_sensor_eui s | Display \<Rightarrow> sp_display_eui s)"

definition assigned_in_tenant :: "category \<Rightarrow> TenantContext \<Rightarrow> space_row list \<Rightarrow> device_row \<Rightarrow> bool" where
  "assigned_in_tenant c tenant spaces d =
     sql_exists (\<lambda>s. eui_of c s = Some (dv_dev_eui d) \<and> sp_tenant_id s = Some (tc_tenant_id tenant) \<and> alive s) spaces"

text \<open>The conditions of one of the two queries; \<open>device_type\<close> is the value of the variable at that point.\<close>

definition device_matches ::
  "category \<Rightarrow> TenantContext \<Rightarrow> device_filters \<Rightarrow> string option \<Rightarrow> space_row list \<Rightarrow> device_row \<Rightarrow> bool" where
  "device_matches c tenant f device_type spaces d =
     ((is_platform_admin tenant \<or> (df_include_orphans f \<and> dv_status d = ''orphan'')
         \<or> assigned_in_tenant c tenant spaces d)
      \<and> filter_is device_type (Some (dv_device_type d))
      \<and> filter_is (df_status f) (Some (dv_status d))
      \<and> (case df_enabled f of
           Some b \<Rightarrow> dv_enabled d = b
         | None \<Rightarrow> df_include_archived f \<or> dv_enabled d))"

text \<open>Without any condition the text of the query ends in \<open>WHERE\<close>, which is a syntax error.\<close>

definition no_conditions :: "TenantContext \<Rightarrow> device_filters \<Rightarrow> string option \<Rightarrow> bool" where
  "no_conditions tenant f device_type =
     (is_platform_admin tenant \<and> device_type = None \<and> df_status f = None \<and> df_enabled f = None \<and> df_include_archived f)"

definition device_dict :: "(string \<Rightarrow> cs_device option) \<Rightarrow> category \<Rightarrow> device_row \<Rightarrow> device_entry" where
  "device_dict cs_find c d =
     (let cs = cs_find (upper (dv_dev_eui d)) in
      \<lparr>de_category = c, de_row = d,
       de_device_type = (if truthy (Option.bind cs cd_profile_name) then text_or_empty (Option.bind cs cd_profile_name)
                         else dv_device_type d),
       de_name = (case cs of None \<Rightarrow> dv_dev_eui d | Some x \<Rightarrow> cd_name x),
       de_description = text_or_empty (Option.bind cs cd_description)\<rparr>)"

definition query_devices ::
  "(string \<Rightarrow> cs_device option) \<Rightarrow> category \<Rightarrow> TenantContext \<Rightarrow> device_filters \<Rightarrow> string option \<Rightarrow> devices_world
   \<Rightarrow> device_entry list" where
  "query_devices cs_find c tenant f device_type w =
     map (device_dict cs_find c)
       (sort_key (\<lambda>d. - dv_created_at d)
         (filter (device_matches c tenant f device_type (vw_spaces w))
           (case c of Sensor \<Rightarrow> vw_sensors w | Display \<Rightarrow> vw_displays w)))"

text \<open>
  The loop over the sensors assigns the variable \<open>device_type\<close>, which is also the filter; \<open>access_type\<close> is assigned only
  where sensors are listed, so that a listing of displays alone raises \<open>UnboundLocalError\<close>.
\<close>

definition type_after_loop :: "string option \<Rightarrow> device_entry list \<Rightarrow> string option" where
  "type_after_loop device_type entries = (if entries = [] then device_type else Some (de_device_type (last entries)))"

definition list_devices ::
  "(string \<Rightarrow> cs_device option) \<Rightarrow> bool \<Rightarrow> TenantContext \<Rightarrow> device_filters \<Rightarrow> devices_world \<Rightarrow> http_error + device_entry list" where
  "list_devices cs_find fails tenant f w =
     (case gate ''devices:read'' VIEWER tenant of
        Inl e \<Rightarrow> Inl e
      | Inr tenant \<Rightarrow>
      if fails then Inl server_error
      else if df_category f = Some ''display'' then Inl server_error
      else if no_conditions tenant f (df_device_type f) then Inl server_error
      else
        let sensors = query_devices cs_find Sensor tenant f (df_device_type f) w;
            device_type = type_after_loop (df_device_type f) sensors
        in if df_category f = Some ''sensor'' then Inr sensors
           else if no_conditions tenant f device_type then Inl server_error
           else Inr (sensors @ query_devices cs_find Display tenant f device_type w))"

section \<open>Reading\<close>

record assigned_space =
  as_id :: uuid
  as_name :: string
  as_code :: string

definition assigned_space_of :: "category \<Rightarrow> string \<Rightarrow> devices_world \<Rightarrow> assigned_space option" where
  "assigned_space_of c deveui w =
     map_option (\<lambda>s. \<lparr>as_id = sp_id s, as_name = sp_name s, as_code = sp_code s\<rparr>)
       (find (\<lambda>s. eui_of c s = Some deveui \<and> alive s) (vw_spaces w))"

definition device_not_found :: "string \<Rightarrow> http_error" where
  "device_not_found deveui = HTTPException 404 (''Device '' @ deveui @ '' not found'')"

definition get_device ::
  "bool \<Rightarrow> string \<Rightarrow> devices_world \<Rightarrow> http_error + category \<times> device_row \<times> assigned_space option" where
  "get_device fails deveui w =
     (if fails then Inl server_error
      else case find (\<lambda>d. dv_dev_eui d = deveui) (vw_sensors w) of
        Some d \<Rightarrow> Inr (Sensor, d, assigned_space_of Sensor deveui w)
      | None \<Rightarrow>
          (case find (\<lambda>d. dv_dev_eui d = deveui) (vw_displays w) of
             Some d \<Rightarrow> Inr (Display, d, assigned_space_of Display deveui w)
           | None \<Rightarrow> Inl (device_not_found deveui)))"

record metadata_entry =
  me_category :: category
  me_row :: device_row
  me_location_id :: "uuid option"
  me_location_name :: "string option"
  me_assigned :: bool

text \<open>A left join: one entry per space the device is on, or one without a space.\<close>

definition metadata_rows :: "category \<Rightarrow> device_row list \<Rightarrow> space_row list \<Rightarrow> metadata_entry list" where
  "metadata_rows c ds spaces =
     concat (map (\<lambda>d.
         let on = filter (\<lambda>s. eui_of c s = Some (dv_dev_eui d) \<and> alive s) spaces
         in if on = [] then [\<lparr>me_category = c, me_row = d, me_location_id = None, me_location_name = None, me_assigned = False\<rparr>]
            else map (\<lambda>s. \<lparr>me_category = c, me_row = d, me_location_id = Some (sp_id s),
                           me_location_name = Some (sp_name s), me_assigned = True\<rparr>) on)
       (sort_key (\<lambda>d. - dv_created_at d) (filter dv_enabled ds)))"

definition get_device_metadata :: "bool \<Rightarrow> devices_world \<Rightarrow> http_error + metadata_entry list" where
  "get_device_metadata fails w =
     (if fails then Inl server_error
      else Inr (metadata_rows Sensor (vw_sensors w) (vw_spaces w) @ metadata_rows Display (vw_displays w) (vw_spaces w)))"

section \<open>Changing\<close>

text \<open>
  The keys the handler looks at, \<open>None\<close> for an absent key; model and manufacturer may be null. \<open>accepts\<close> says which rows the
  constraints of the registry allow (its table is not among the migrations).
\<close>

record device_patch =
  dq_device_type :: "string option"
  dq_device_model :: "string option option"
  dq_manufacturer :: "string option option"
  dq_enabled :: "bool option"
  dq_status :: "string option"

definition patch_device :: "instant \<Rightarrow> device_patch \<Rightarrow> device_row \<Rightarrow> device_row" where
  "patch_device now u d =
     (set_if (dq_device_type u) (\<lambda>v d. d\<lparr>dv_device_type := v\<rparr>) \<circ>
      set_if (dq_device_model u) (\<lambda>v d. d\<lparr>dv_device_model := v\<rparr>) \<circ>
      set_if (dq_manufacturer u) (\<lambda>v d. d\<lparr>dv_manufacturer := v\<rparr>) \<circ>
      set_if (dq_enabled u) (\<lambda>v d. d\<lparr>dv_enabled := v\<rparr>) \<circ>
      set_if (dq_status u) (\<lambda>v d. d\<lparr>dv_status := v\<rparr>)) (d\<lparr>dv_updated_at := now\<rparr>)"

definition empty_patch :: "device_patch \<Rightarrow> bool" where
  "empty_patch u = (dq_device_type u = None \<and> dq_device_model u = None \<and> dq_manufacturer u = None
     \<and> dq_enabled u = None \<and> dq_status u = None)"

definition devices_of :: "category \<Rightarrow> devices_world \<Rightarrow> device_row list" where
  "devices_of c w = (case c of Sensor \<Rightarrow> vw_sensors w | Display \<Rightarrow> vw_displays w)"

definition set_devices :: "category \<Rightarrow> device_row list \<Rightarrow> devices_world \<Rightarrow> devices_world" where
  "set_devices c ds w = (case c of Sensor \<Rightarrow> w\<lparr>vw_sensors := ds\<rparr> | Display \<Rightarrow> w\<lparr>vw_displays := ds\<rparr>)"

definition registry_of :: "string \<Rightarrow> devices_world \<Rightarrow> category option" where
  "registry_of deveui w =
     (if sql_exists (\<lambda>d. dv_dev_eui d = deveui) (vw_sensors w) then Some Sensor
      else if sql_exists (\<lambda>d. dv_dev_eui d = deveui) (vw_displays w) then Some Display
      else None)"

definition update_device ::
  "(device_row \<Rightarrow> bool) \<Rightarrow> bool \<Rightarrow> instant \<Rightarrow> string \<Rightarrow> device_patch \<Rightarrow> devices_world
   \<Rightarrow> devices_world \<times> (http_error + category)" where
  "update_device accepts fails now deveui u w =
     (if fails then (w, Inl server_error)
      else case registry_of deveui w of
        None \<Rightarrow> (w, Inl (device_not_found deveui))
      | Some c \<Rightarrow>
          if empty_patch u then (w, Inl (HTTPException 400 ''No fields to update''))
          else
            let new = sql_update (\<lambda>d. dv_dev_eui d = deveui) (patch_device now u) (devices_of c w)
            in if \<not> list_all accepts (filter (\<lambda>d. dv_dev_eui d = deveui) new) then (w, Inl server_error)
               else (set_devices c new w, Inr c))"

definition archive_device ::
  "bool \<Rightarrow> instant \<Rightarrow> string \<Rightarrow> devices_world \<Rightarrow> devices_world \<times> (http_error + category)" where
  "archive_device fails now deveui w =
     (if fails then (w, Inl server_error)
      else case registry_of deveui w of
        None \<Rightarrow> (w, Inl (device_not_found deveui))
      | Some c \<Rightarrow>
          (set_devices c (sql_update (\<lambda>d. dv_dev_eui d = deveui) (\<lambda>d. d\<lparr>dv_enabled := False, dv_updated_at := now\<rparr>)
             (devices_of c w)) w, Inr c))"

section \<open>Descriptions in ChirpStack\<close>

type_synonym tag_dict = "(string \<times> string) list"

record cs_row =
  cr_eui :: string
  cr_name :: string
  cr_description :: "string option"
  cr_tags :: "tag_dict option"
  cr_updated_at :: instant

record DeviceUpdate =
  du_description :: "string option"
  du_tags :: "tag_dict option"

definition merge_tags :: "tag_dict \<Rightarrow> tag_dict \<Rightarrow> tag_dict" where
  "merge_tags old new = fold (\<lambda>(k, v). AList.update k v) new old"

text \<open>
  The new row, or \<open>None\<close> where building the statement raises: the pool has no codec for JSONB, so that the tags of a row
  come as text, which cannot be unpacked as a dictionary.
\<close>

definition patch_cs_row :: "instant \<Rightarrow> DeviceUpdate \<Rightarrow> 'a cs_row_scheme \<Rightarrow> 'a cs_row_scheme option" where
  "patch_cs_row now u r =
     (if du_tags u \<noteq> None \<and> cr_tags r \<noteq> None then None
      else Some (r\<lparr>cr_description := (case du_description u of None \<Rightarrow> cr_description r | Some d \<Rightarrow> Some d),
                   cr_tags := (case du_tags u of None \<Rightarrow> cr_tags r | Some new \<Rightarrow> Some (merge_tags [] new)),
                   cr_updated_at := now\<rparr>))"

text \<open>
  The module does not import the name \<open>status\<close>: where the handler raises 404 or 400, and where it turns an exception into
  500, a \<open>NameError\<close> is raised instead, which nothing catches.
\<close>

definition update_device_description ::
  "bool \<Rightarrow> instant \<Rightarrow> string \<Rightarrow> DeviceUpdate \<Rightarrow> cs_row list \<Rightarrow> cs_row list \<times> (http_error + cs_row)" where
  "update_device_description fails now deveui u rows =
     (if fails then (rows, Inl server_error)
      else case find (\<lambda>r. cr_eui r = lower (upper deveui)) rows of
        None \<Rightarrow> (rows, Inl server_error)
      | Some r \<Rightarrow>
          if du_description u = None \<and> du_tags u = None then (rows, Inl server_error)
          else (case patch_cs_row now u r of
                  None \<Rightarrow> (rows, Inl server_error)
                | Some r' \<Rightarrow> (sql_update (\<lambda>x. cr_eui x = cr_eui r) (\<lambda>_. r') rows, Inr r')))"

section \<open>Routes\<close>

text \<open>The routes in the order they are declared, below the prefix; the first one that matches is taken.\<close>

datatype segment = Lit string | Param

datatype device_handler =
    H_list_device_types | H_list_chirpstack_device_profiles | H_list_devices | H_get_device | H_get_device_metadata
  | H_update_device | H_archive_device | H_update_device_description

definition device_routes :: "(string \<times> segment list \<times> device_handler) list" where
  "device_routes =
     [(''GET'', [Lit ''device-types''], H_list_device_types),
      (''GET'', [Lit ''chirpstack-profiles''], H_list_chirpstack_device_profiles),
      (''GET'', [], H_list_devices),
      (''GET'', [Param], H_get_device),
      (''GET'', [Lit ''full-metadata''], H_get_device_metadata),
      (''PUT'', [Param], H_update_device),
      (''PATCH'', [Param, Lit ''archive''], H_archive_device),
      (''PATCH'', [Param, Lit ''description''], H_update_device_description)]"

fun seg_matches :: "segment list \<Rightarrow> string list \<Rightarrow> bool" where
  "seg_matches [] [] = True"
| "seg_matches (Lit a # ps) (s # ss) = (a = s \<and> seg_matches ps ss)"
| "seg_matches (Param # ps) (s # ss) = (s \<noteq> [] \<and> seg_matches ps ss)"
| "seg_matches _ _ = False"

definition route_of :: "(string \<times> segment list \<times> 'h) list \<Rightarrow> string \<Rightarrow> string list \<Rightarrow> 'h option" where
  "route_of routes method path =
     map_option (\<lambda>(m, p, h). h) (find (\<lambda>(m, p, h). m = method \<and> seg_matches p path) routes)"

section \<open>Properties\<close>

lemma query_devices_mem:
  assumes "e \<in> set (query_devices cs_find c tenant f dt w)"
  shows "de_category e = c" "device_matches c tenant f dt (vw_spaces w) (de_row e)" "de_row e \<in> set (devices_of c w)"
  using assms by (auto simp: query_devices_def device_dict_def devices_of_def Let_def split: category.splits)

lemma list_devices_ok:
  assumes "list_devices cs_find fails tc f w = Inr out"
  obtains sensors displays where "out = sensors @ displays" "gate ''devices:read'' VIEWER tc = Inr tc"
    "sensors = query_devices cs_find Sensor tc f (df_device_type f) w"
    "displays = [] \<or> displays = query_devices cs_find Display tc f (type_after_loop (df_device_type f) sensors) w"
proof -
  obtain tc' where g: "gate ''devices:read'' VIEWER tc = Inr tc'" using assms by (auto simp: list_devices_def split: sum.splits)
  note g = g [unfolded gate_Inr [OF g]]
  let ?s = "query_devices cs_find Sensor tc f (df_device_type f) w"
  show thesis
    using assms g that [of ?s "[]"] that [of ?s "query_devices cs_find Display tc f (type_after_loop (df_device_type f) ?s) w"]
    by (auto simp: list_devices_def Let_def split: if_splits)
qed

lemma passes_no_platform_admin:
  assumes "gate s r tc = Inr tc" "tc_source tc = ''api_key'' \<longrightarrow> tc_user_role tc = None"
  shows "\<not> is_platform_admin tc"
  using assms by (auto simp: gate_def require_role_def require_scopes_def level_or_def role_hierarchy_def is_platform_admin_def
      split: sum.splits if_splits option.splits UserRole.splits)


text \<open>
  Listing displays does not work as documented. Asking for displays only fails with 500 for every caller; and when no type is asked
  for, the displays in an answer that lists a sensor all have the type of the last sensor, because the loop over the
  sensors overwrites the filter.
\<close>

theorem display_listing_broken:
  "(df_category f = Some ''display'' \<longrightarrow> gate ''devices:read'' VIEWER tc = Inr tc \<longrightarrow>
      list_devices cs_find fails tc f w = Inl (HTTPException 500 []))
   \<and> (\<forall>out s e. list_devices cs_find fails tc f w = Inr out \<longrightarrow> s \<in> set out \<longrightarrow> de_category s = Sensor \<longrightarrow>
        e \<in> set out \<longrightarrow> de_category e = Display \<longrightarrow>
        dv_device_type (de_row e) = de_device_type (last (filter (\<lambda>x. de_category x = Sensor) out)))"
proof (intro conjI allI impI)
  show "list_devices cs_find fails tc f w = Inl (HTTPException 500 [])"
    if "df_category f = Some ''display''" "gate ''devices:read'' VIEWER tc = Inr tc"
    using that by (simp add: list_devices_def server_error_def)
next
  fix out s e
  assume a: "list_devices cs_find fails tc f w = Inr out" "s \<in> set out" "de_category s = Sensor" "e \<in> set out" "de_category e = Display"
  obtain sensors displays where out: "out = sensors @ displays"
    and sd: "sensors = query_devices cs_find Sensor tc f (df_device_type f) w"
      "displays = [] \<or> displays = query_devices cs_find Display tc f (type_after_loop (df_device_type f) sensors) w"
    using a(1) by (rule list_devices_ok)
  have cats: "\<forall>x\<in>set sensors. de_category x = Sensor" "\<forall>x\<in>set displays. de_category x = Display"
    using sd query_devices_mem(1) by fastforce+
  have "e \<in> set displays" "s \<in> set sensors" using a out cats by auto
  then have e: "device_matches Display tc f (type_after_loop (df_device_type f) sensors) (vw_spaces w) (de_row e)"
    and ne: "sensors \<noteq> []" using sd(2) query_devices_mem(2) by fastforce+
  have "filter (\<lambda>x. de_category x = Sensor) out = sensors"
    using cats out by (auto simp: filter_empty_conv filter_id_conv)
  then show "dv_device_type (de_row e) = de_device_type (last (filter (\<lambda>x. de_category x = Sensor) out))"
    using e ne by (simp add: device_matches_def type_after_loop_def filter_is_def)
qed

text \<open>
  The endpoint \<open>full-metadata\<close> cannot be reached: no method and no path leads to its handler, because the
  route with the device EUI is declared before it and takes every path of one segment.
\<close>

theorem full_metadata_unreachable: "route_of device_routes method path \<noteq> Some H_get_device_metadata"
proof
  assume "route_of device_routes method path = Some H_get_device_metadata"
  then obtain m p where r: "find (\<lambda>(m, p, h). m = method \<and> seg_matches p path) device_routes = Some (m, p, H_get_device_metadata)"
    by (auto simp: route_of_def)
  have "list_all (\<lambda>(m, p, h). h = H_get_device_metadata \<longrightarrow> m = ''GET'' \<and> p = [Lit ''full-metadata'']) device_routes"
    by code_simp
  then have mp: "m = ''GET''" "p = [Lit ''full-metadata'']"
    using bspec [of "set device_routes" _ "(m, p, H_get_device_metadata)"] find_SomeD [OF r, THEN conjunct1]
    unfolding list_all_iff by blast+
  have lit: "seg_matches [Lit a] path \<Longrightarrow> path = [a]" for a by (cases path; cases "tl path") auto
  have "m = method \<and> seg_matches p path" using find_SomeD [OF r, THEN conjunct2] by (simp only: case_prod_conv)
  then have "method = ''GET''" "path = [''full-metadata'']" using lit unfolding mp by blast+
  moreover have "route_of device_routes ''GET'' [''full-metadata''] = Some H_get_device" by code_simp
  ultimately show False using \<open>route_of device_routes method path = Some H_get_device_metadata\<close> by simp
qed

text \<open>
  Archiving needs no credentials and no tenant: afterwards the device is on none of the lists of its tenant that leave archived devices
  out, while its space keeps it.
\<close>

lemma archived_device_unlisted:
  assumes "archive_device False now eui w = (w', Inr c)" "list_devices cs_find fails tc f w' = Inr out"
    and "df_enabled f = None" "\<not> df_include_archived f" "e \<in> set out" "de_category e = c"
  shows "dv_dev_eui (de_row e) \<noteq> eui \<and> vw_spaces w' = vw_spaces w"
proof -
  have w': "w' = set_devices c (sql_update (\<lambda>d. dv_dev_eui d = eui) (\<lambda>d. d\<lparr>dv_enabled := False, dv_updated_at := now\<rparr>)
      (devices_of c w)) w"
    using assms(1) by (auto simp: archive_device_def split: option.splits)
  obtain sensors displays where out: "out = sensors @ displays"
    and sd: "sensors = query_devices cs_find Sensor tc f (df_device_type f) w'"
      "displays = [] \<or> displays = query_devices cs_find Display tc f (type_after_loop (df_device_type f) sensors) w'"
    using assms(2) by (rule list_devices_ok)
  obtain c' dt where "e \<in> set (query_devices cs_find c' tc f dt w')" using assms(5) out sd by auto
  note q = query_devices_mem [OF this]
  have on: "dv_enabled (de_row e)" using q(2) assms(3,4) by (simp add: device_matches_def)
  have reg: "devices_of c w' = sql_update (\<lambda>d. dv_dev_eui d = eui) (\<lambda>d. d\<lparr>dv_enabled := False, dv_updated_at := now\<rparr>) (devices_of c w)"
    and sp: "vw_spaces w' = vw_spaces w"
    unfolding w' by (cases c; simp add: devices_of_def set_devices_def)+
  have "\<forall>d\<in>set (devices_of c w'). dv_dev_eui d = eui \<longrightarrow> \<not> dv_enabled d"
    unfolding reg sql_update_def set_map by (simp only: ball_simps) simp
  moreover have "de_row e \<in> set (devices_of c w')" using q(1,3) assms(6) by simp
  ultimately show ?thesis using on sp by blast
qed

section \<open>Examples\<close>

definition demo_device :: "string \<Rightarrow> string \<Rightarrow> device_row" where
  "demo_device eui ty = \<lparr>dv_id = eui, dv_dev_eui = eui, dv_device_type = ty, dv_device_model = None, dv_manufacturer = None,
     dv_details = [], dv_enabled = True, dv_status = ''orphan'', dv_last_seen_at = None, dv_created_at = 0, dv_updated_at = 0\<rparr>"

definition demo_devices :: devices_world where
  "demo_devices = \<lparr>vw_sensors = [demo_device ''A1'' ''browan''], vw_displays = [demo_device ''D1'' ''kuando'', demo_device ''D2'' ''browan''],
     vw_spaces = []\<rparr>"

definition all_devices :: device_filters where
  "all_devices = \<lparr>df_device_type = None, df_category = None, df_status = None, df_enabled = None, df_include_archived = False,
     df_include_orphans = True\<rparr>"

lemma demo_listing:
  "list_devices (\<lambda>_. None) False (owner_of ''t1'') all_devices demo_devices
     = Inr [device_dict (\<lambda>_. None) Sensor (demo_device ''A1'' ''browan''), device_dict (\<lambda>_. None) Display (demo_device ''D2'' ''browan'')]"
  by code_simp


theorem display_listing_broken_witness:
  "list_devices (\<lambda>_. None) False (owner_of ''t1'') (all_devices\<lparr>df_category := Some ''display''\<rparr>) demo_devices
     = Inl (HTTPException 500 [])
   \<and> dv_device_type (demo_device ''D2'' ''browan'') = ''browan''"
proof -
  have g: "gate ''devices:read'' VIEWER (owner_of ''t1'') = Inr (owner_of ''t1'')" by code_simp
  have "list_devices (\<lambda>_. None) False (owner_of ''t1'') (all_devices\<lparr>df_category := Some ''display''\<rparr>) demo_devices
     = Inl (HTTPException 500 [])"
    using display_listing_broken [of "all_devices\<lparr>df_category := Some ''display''\<rparr>" "owner_of ''t1''" "\<lambda>_. None" False demo_devices] g
    by simp
  moreover have "dv_device_type (demo_device ''D2'' ''browan'') = ''browan''"
    using display_listing_broken [of all_devices "owner_of ''t1''" "\<lambda>_. None" False demo_devices, THEN conjunct2, rule_format,
        OF demo_listing, of "device_dict (\<lambda>_. None) Sensor (demo_device ''A1'' ''browan'')"
        "device_dict (\<lambda>_. None) Display (demo_device ''D2'' ''browan'')"]
    by (simp add: device_dict_def demo_device_def)
  ultimately show ?thesis by blast
qed

end
