(* ===== verification/Gateway_Monitor.thy ===== *)
theory Gateway_Monitor
  imports Background_Tasks
begin

text \<open>
  \<open>src/gateway_monitor.py\<close>: which gateways are online, from the times ChirpStack last saw them, with a cache of
  thirty seconds; and the health summary the cleanup of stuck device queues goes by.

  \<open>rows\<close> is the answer of the query on ChirpStack's table, \<open>None\<close> where it raises; \<open>has_pool\<close> says whether there is a
  pool. The cache is a dictionary in insertion order, never emptied.
\<close>

section \<open>Gateways\<close>

record gateway_row =
  gr_gateway_id :: string
  gr_name :: string
  gr_description :: string
  gr_last_seen_at :: "instant option"

record gateway_info =
  gi_gateway_id :: string
  gi_name :: string
  gi_description :: string
  gi_last_seen_at :: "instant option"
  gi_is_online :: bool
  gi_minutes_offline :: "int option"

record gateway_monitor =
  gm_offline_threshold :: rat
  gm_cache :: "(string \<times> gateway_info) list"
  gm_cache_updated :: "instant option"

definition gm_cache_ttl :: rat where "gm_cache_ttl = 30"

definition new_monitor :: "rat \<Rightarrow> gateway_monitor" where
  "new_monitor minutes = \<lparr>gm_offline_threshold = minutes * 60, gm_cache = [], gm_cache_updated = None\<rparr>"

text \<open>\<open>int(x)\<close> drops the fraction; the time offline is not negative here.\<close>

definition gateway_info_of :: "rat \<Rightarrow> instant \<Rightarrow> gateway_row \<Rightarrow> gateway_info" where
  "gateway_info_of threshold now r =
     (let since = map_option (\<lambda>t. now - t) (gr_last_seen_at r);
          is_online = (case since of None \<Rightarrow> False | Some d \<Rightarrow> d < threshold)
      in \<lparr>gi_gateway_id = gr_gateway_id r, gi_name = gr_name r, gi_description = gr_description r,
          gi_last_seen_at = gr_last_seen_at r, gi_is_online = is_online,
          gi_minutes_offline = (if is_online then None else map_option (\<lambda>d. \<lfloor>d / 60\<rfloor>) since)\<rparr>)"

definition get_all_gateways ::
  "bool \<Rightarrow> gateway_row list option \<Rightarrow> instant \<Rightarrow> bool \<Rightarrow> gateway_monitor \<Rightarrow> gateway_monitor \<times> gateway_info list" where
  "get_all_gateways has_pool rows now refresh g =
     (if \<not> has_pool then (g, [])
      else if \<not> refresh \<and> (case gm_cache_updated g of None \<Rightarrow> False | Some u \<Rightarrow> now - u < gm_cache_ttl)
      then (g, map snd (gm_cache g))
      else case rows of
        None \<Rightarrow> (g, [])
      | Some rs \<Rightarrow>
          let infos = map (gateway_info_of (gm_offline_threshold g) now) rs
          in (g\<lparr>gm_cache := fold (\<lambda>i. AList.update (gi_gateway_id i) i) infos (gm_cache g),
                gm_cache_updated := Some now\<rparr>, infos))"

definition get_online_gateways ::
  "bool \<Rightarrow> gateway_row list option \<Rightarrow> instant \<Rightarrow> gateway_monitor \<Rightarrow> gateway_monitor \<times> gateway_info list" where
  "get_online_gateways has_pool rows now g =
     (case get_all_gateways has_pool rows now False g of (g, gs) \<Rightarrow> (g, filter gi_is_online gs))"

definition get_offline_gateways ::
  "bool \<Rightarrow> gateway_row list option \<Rightarrow> instant \<Rightarrow> gateway_monitor \<Rightarrow> gateway_monitor \<times> gateway_info list" where
  "get_offline_gateways has_pool rows now g =
     (case get_all_gateways has_pool rows now False g of (g, gs) \<Rightarrow> (g, filter (\<lambda>i. \<not> gi_is_online i) gs))"

definition is_gateway_online ::
  "bool \<Rightarrow> gateway_row list option \<Rightarrow> instant \<Rightarrow> string \<Rightarrow> gateway_monitor \<Rightarrow> gateway_monitor \<times> bool" where
  "is_gateway_online has_pool rows now gateway_id g =
     (case get_all_gateways has_pool rows now False g of
        (g, gs) \<Rightarrow> (g, case find (\<lambda>i. gi_gateway_id i = gateway_id) gs of None \<Rightarrow> False | Some i \<Rightarrow> gi_is_online i))"

definition get_device_last_gateway :: "bool \<Rightarrow> string \<Rightarrow> string option" where
  "get_device_last_gateway has_pool dev_eui = None"

record health_summary =
  hs_total_gateways :: nat
  hs_online_count :: nat
  hs_offline_count :: nat
  hs_online_gateways :: "string list"
  hs_offline_gateways :: "(string \<times> string \<times> int option) list"
  hs_health_status :: string

definition get_health_summary ::
  "bool \<Rightarrow> gateway_row list option \<Rightarrow> instant \<Rightarrow> gateway_monitor \<Rightarrow> gateway_monitor \<times> health_summary" where
  "get_health_summary has_pool rows now g =
     (case get_all_gateways has_pool rows now True g of
        (g, gs) \<Rightarrow>
          (let on = filter gi_is_online gs; off = filter (\<lambda>i. \<not> gi_is_online i) gs
           in (g, \<lparr>hs_total_gateways = length gs, hs_online_count = length on, hs_offline_count = length off,
                   hs_online_gateways = map gi_gateway_id on,
                   hs_offline_gateways = map (\<lambda>i. (gi_gateway_id i, gi_name i, gi_minutes_offline i)) off,
                   hs_health_status = (if length on > 0 then ''healthy'' else ''critical'')\<rparr>)))"

section \<open>Properties\<close>

text \<open>
  The cleanup of stuck device queues acts exactly on gateway trouble it can see. With an answer of the
  database, the summary counts every gateway once, as online exactly when it was seen within the threshold, and the
  cleanup flushes the stuck devices exactly when some gateway is offline. Without an answer the summary
  says \<open>critical\<close> but counts no gateway as offline, and nothing is flushed.
\<close>

theorem cleanup_follows_gateway_health:
  "(let h = snd (get_health_summary True (Some rs) now g);
        seen = (\<lambda>r. case gr_last_seen_at r of None \<Rightarrow> False | Some t \<Rightarrow> now - t < gm_offline_threshold g)
    in hs_online_gateways h = map gr_gateway_id (filter seen rs)
       \<and> hs_online_count h + hs_offline_count h = length rs
       \<and> queue_cleanup_round flush (hs_offline_count h) stuck c
           = (if list_all seen rs then c else fold (\<lambda>d c. flush c d) stuck c))
   \<and> hs_health_status (snd (get_health_summary True None now g)) = ''critical''
   \<and> queue_cleanup_round flush (hs_offline_count (snd (get_health_summary True None now g))) stuck c = c"
proof -
  let ?seen = "\<lambda>r. case gr_last_seen_at r of None \<Rightarrow> False | Some t \<Rightarrow> now - t < gm_offline_threshold g"
  let ?info = "gateway_info_of (gm_offline_threshold g) now"
  have on: "gi_is_online (?info r) = ?seen r" "gi_gateway_id (?info r) = gr_gateway_id r" for r
    by (simp_all add: gateway_info_of_def Let_def split: option.split)
  have f: "filter gi_is_online (map ?info rs) = map ?info (filter ?seen rs)"
      "filter (\<lambda>i. \<not> gi_is_online i) (map ?info rs) = map ?info (filter (\<lambda>r. \<not> ?seen r) rs)" for rs
    by (simp_all add: filter_map comp_def on)
  have "(filter (\<lambda>r. \<not> ?seen r) rs = []) = list_all ?seen rs" by (induction rs) auto
  then have "length (filter (\<lambda>r. \<not> ?seen r) rs) = 0 \<longleftrightarrow> list_all ?seen rs" by simp
  moreover have "length (filter ?seen rs) + length (filter (\<lambda>r. \<not> ?seen r) rs) = length rs"
    by (rule sum_length_filter_compl)
  moreover have "map gi_gateway_id (map ?info xs) = map gr_gateway_id xs" for xs by (simp add: on)
  ultimately show ?thesis
    by (simp add: get_health_summary_def get_all_gateways_def f queue_cleanup_round_def Let_def del: map_map length_0_conv)
qed

text \<open>
  A gateway that was removed from ChirpStack stays in the cache: within thirty seconds of a refresh it is still
  listed, as it was when last seen, although the refresh itself did not return it.
\<close>

lemma removed_gateway_listed:
  assumes "map_of (gm_cache g) i = Some info" "\<forall>r\<in>set rs. gr_gateway_id r \<noteq> i" "0 \<le> d" "d < gm_cache_ttl"
  shows "info \<in> set (snd (get_all_gateways True rows' (now + d) False (fst (get_all_gateways True (Some rs) now True g))))
    \<and> (\<forall>x\<in>set (snd (get_all_gateways True (Some rs) now True g)). gi_gateway_id x \<noteq> i)"
proof -
  let ?infos = "map (gateway_info_of (gm_offline_threshold g) now) rs"
  have ids: "\<forall>x\<in>set ?infos. gi_gateway_id x \<noteq> i" using assms(2) by (auto simp: gateway_info_of_def Let_def)
  then have "map_of (fold (\<lambda>x. AList.update (gi_gateway_id x) x) xs cache) i = map_of cache i"
    if "set xs \<subseteq> set ?infos" for xs cache
    using that by (induction xs arbitrary: cache) (auto simp: update_conv')
  then have "map_of (fold (\<lambda>x. AList.update (gi_gateway_id x) x) ?infos (gm_cache g)) i = Some info"
    using assms(1) by simp
  from map_of_SomeD [OF this] have "info \<in> snd ` set (fold (\<lambda>x. AList.update (gi_gateway_id x) x) ?infos (gm_cache g))"
    by force
  then show ?thesis
    using ids assms(3,4) by (auto simp: get_all_gateways_def Let_def)
qed

end
