(* ===== verification/Gateways_Api.thy ===== *)
theory Gateways_Api
  imports Devices_Api Gateway_Monitor
begin

text \<open>
  \<open>src/routers/gateways.py\<close>: the gateways as ChirpStack's database has them, with their online status, and changes of their
  description and tags.

  A row of the table is a row as in \<open>Devices_Api\<close> with the time the gateway was last seen. \<open>answer\<close> is what the query
  returns, \<open>None\<close> where it raises. Coordinates, properties and the parameter \<open>includeArchived\<close>, which is not used, are left
  out, as is the text of a caught exception.
\<close>

section \<open>The handlers\<close>

record gw_row = cs_row +
  gw_last_seen_at :: "instant option"

record gateway_entry =
  ge_gw_eui :: string
  ge_gateway_name :: string
  ge_description :: string
  ge_last_seen_at :: "instant option"
  ge_is_online :: bool
  ge_status :: string

definition seen_recently :: "instant \<Rightarrow> instant option \<Rightarrow> bool" where
  "seen_recently now last_seen = (case last_seen of None \<Rightarrow> False | Some t \<Rightarrow> now - t < 5 * 60)"

definition gateway_dict :: "instant \<Rightarrow> gw_row \<Rightarrow> gateway_entry" where
  "gateway_dict now r =
     (let is_online = seen_recently now (gw_last_seen_at r) in
      \<lparr>ge_gw_eui = cr_eui r, ge_gateway_name = cr_name r, ge_description = text_or_empty (cr_description r),
       ge_last_seen_at = gw_last_seen_at r, ge_is_online = is_online,
       ge_status = (if is_online then ''online'' else ''offline'')\<rparr>)"

definition list_gateways :: "(string \<Rightarrow> int) \<Rightarrow> instant \<Rightarrow> gw_row list option \<Rightarrow> http_error + gateway_entry list" where
  "list_gateways collate now answer =
     (case answer of
        None \<Rightarrow> Inl server_error
      | Some rows \<Rightarrow> Inr (map (gateway_dict now) (sort_key (\<lambda>r. collate (cr_name r)) rows)))"

definition gateway_not_found :: "string \<Rightarrow> http_error" where
  "gateway_not_found gw_eui = HTTPException 404 (''Gateway with EUI '' @ gw_eui @ '' not found'')"

definition get_gateway :: "instant \<Rightarrow> string \<Rightarrow> gw_row list option \<Rightarrow> http_error + gateway_entry" where
  "get_gateway now gw_eui answer =
     (case answer of
        None \<Rightarrow> Inl server_error
      | Some rows \<Rightarrow>
          (case find (\<lambda>r. cr_eui r = lower gw_eui) rows of
             None \<Rightarrow> Inl (gateway_not_found gw_eui)
           | Some r \<Rightarrow> Inr (gateway_dict now r)))"

record gateway_stats =
  gs_total :: nat
  gs_online :: nat
  gs_offline :: nat

definition get_gateway_stats :: "instant \<Rightarrow> gw_row list option \<Rightarrow> http_error + gateway_stats" where
  "get_gateway_stats now answer =
     (case answer of
        None \<Rightarrow> Inl server_error
      | Some rows \<Rightarrow>
          Inr \<lparr>gs_total = length rows,
               gs_online = sql_count (\<lambda>r. case gw_last_seen_at r of None \<Rightarrow> False | Some t \<Rightarrow> t > now - 300) rows,
               gs_offline = sql_count (\<lambda>r. case gw_last_seen_at r of None \<Rightarrow> True | Some t \<Rightarrow> t \<le> now - 300) rows\<rparr>)"

definition update_gateway ::
  "bool \<Rightarrow> instant \<Rightarrow> string \<Rightarrow> DeviceUpdate \<Rightarrow> gw_row list \<Rightarrow> gw_row list \<times> (http_error + gw_row)" where
  "update_gateway fails now gw_eui u rows =
     (if fails then (rows, Inl server_error)
      else case find (\<lambda>r. cr_eui r = lower gw_eui) rows of
        None \<Rightarrow> (rows, Inl (gateway_not_found gw_eui))
      | Some r \<Rightarrow>
          if du_description u = None \<and> du_tags u = None then (rows, Inl (HTTPException 400 ''No fields to update''))
          else (case patch_cs_row now u r of
                  None \<Rightarrow> (rows, Inl server_error)
                | Some r' \<Rightarrow> (sql_update (\<lambda>x. cr_eui x = cr_eui r) (\<lambda>_. r') rows, Inr r')))"

section \<open>Three counts of the same gateways\<close>

text \<open>The columns the gateway monitor reads of a row.\<close>

definition monitor_row :: "gw_row \<Rightarrow> gateway_row" where
  "monitor_row r = \<lparr>gr_gateway_id = cr_eui r, gr_name = cr_name r, gr_description = text_or_empty (cr_description r),
     gr_last_seen_at = gw_last_seen_at r\<rparr>"

lemma monitor_online: "gi_is_online (gateway_info_of 300 now (monitor_row r)) = ge_is_online (gateway_dict now r)"
  by (simp add: gateway_info_of_def monitor_row_def gateway_dict_def seen_recently_def Let_def split: option.split)

lemma stats_online:
  "(case gw_last_seen_at r of None \<Rightarrow> False | Some t \<Rightarrow> t > now - 300) = ge_is_online (gateway_dict now r)"
  "(case gw_last_seen_at r of None \<Rightarrow> True | Some t \<Rightarrow> t \<le> now - 300) = (\<not> ge_is_online (gateway_dict now r))"
  by (auto simp: gateway_dict_def seen_recently_def Let_def split: option.split)

lemma count_map: "length (filter P (map f xs)) = sql_count (\<lambda>x. P (f x)) xs"
  by (simp add: sql_count_def filter_map comp_def)

lemma count_sort: "sql_count P (sort_key k xs) = sql_count P xs"
  by (simp add: sql_count_def filter_sort)

text \<open>
  Property C30. Python and SQL agree on which gateways are online: the statistics computed by the database, the list computed row by row by
  the router, and the health summary of the gateway monitor with its threshold of five minutes count the same gateways
  as online and as offline at a given time, and each gateway is one or the other.
\<close>

theorem gateway_counts_agree:
  assumes "list_gateways collate now (Some rows) = Inr gs" "get_gateway_stats now (Some rows) = Inr st"
    and "snd (get_health_summary True (Some (map monitor_row rows)) now (new_monitor 5)) = h"
  shows "gs_total st = length gs \<and> gs_online st = length (filter ge_is_online gs)
    \<and> gs_offline st = length (filter (\<lambda>g. \<not> ge_is_online g) gs)
    \<and> hs_online_count h = gs_online st \<and> hs_offline_count h = gs_offline st \<and> gs_online st + gs_offline st = gs_total st"
proof -
  let ?on = "sql_count (\<lambda>r. ge_is_online (gateway_dict now r)) rows"
  let ?off = "sql_count (\<lambda>r. \<not> ge_is_online (gateway_dict now r)) rows"
  have st: "st = \<lparr>gs_total = length rows, gs_online = ?on, gs_offline = ?off\<rparr>"
    using assms(2) by (simp only: get_gateway_stats_def option.case stats_online sum.inject)
  have out: "gs = map (gateway_dict now) (sort_key (\<lambda>r. collate (cr_name r)) rows)"
    using assms(1) by (simp add: list_gateways_def)
  have gs: "length gs = length rows" "length (filter ge_is_online gs) = ?on" "length (filter (\<lambda>g. \<not> ge_is_online g) gs) = ?off"
    unfolding out count_map count_sort by simp_all
  have infos: "map (gateway_info_of 300 now) (map monitor_row rows) = map (\<lambda>r. gateway_info_of 300 now (monitor_row r)) rows" by simp
  have h: "hs_online_count h = ?on" "hs_offline_count h = ?off"
    using assms(3) unfolding get_health_summary_def get_all_gateways_def
    by (auto simp: new_monitor_def Let_def count_map monitor_online infos simp del: map_map length_filter_map)
  have "?on + ?off = length rows" unfolding sql_count_def by (rule sum_length_filter_compl)
  then show ?thesis using st gs h by simp
qed

definition demo_gateways :: "gw_row list" where
  "demo_gateways =
     [\<lparr>cr_eui = ''01'', cr_name = ''B'', cr_description = None, cr_tags = None, cr_updated_at = 0, gw_last_seen_at = Some 900\<rparr>,
      \<lparr>cr_eui = ''02'', cr_name = ''A'', cr_description = None, cr_tags = None, cr_updated_at = 0, gw_last_seen_at = Some 700\<rparr>,
      \<lparr>cr_eui = ''03'', cr_name = ''C'', cr_description = None, cr_tags = None, cr_updated_at = 0, gw_last_seen_at = None\<rparr>]"

theorem gateway_counts_agree_witness:
  "\<exists>gs st. list_gateways (\<lambda>_. 0) 1000 (Some demo_gateways) = Inr gs \<and> get_gateway_stats 1000 (Some demo_gateways) = Inr st
     \<and> gs_online st = 1 \<and> length (filter ge_is_online gs) = 1 \<and> length gs = 3"
proof -
  obtain gs st where g: "list_gateways (\<lambda>_. 0) 1000 (Some demo_gateways) = Inr gs" "get_gateway_stats 1000 (Some demo_gateways) = Inr st"
    by (simp add: list_gateways_def get_gateway_stats_def)
  have "gs_online st = 1" "gs_total st = 3"
    using g(2) by (auto simp: get_gateway_stats_def demo_gateways_def sql_count_def)
  with gateway_counts_agree [OF g refl] g show ?thesis by auto
qed

end
