(* ===== verification/Display_Policies_Api.thy ===== *)
theory Display_Policies_Api
  imports Display_State_Machine Database Redis_Store
begin

text \<open>
  \<open>src/routers/display_policies.py\<close>: the policies the display state machine follows, and the overrides an administrator
  sets.

  The tables are those of \<open>Display_State_Machine\<close>, with the spaces of \<open>Database\<close> and the ids of the tenants. The
  application may hold a state machine and a Redis client (\<open>hasattr\<close> on its state); \<open>pw_machine\<close> and \<open>pw_redis\<close> are
  \<open>None\<close> where it does not, as after the start-up of \<open>main.py\<close>, which sets neither. \<open>fails\<close> says which of the calls
  raise; the detail of a 500 answer is left out. \<open>off\<close> is the offset of the local time zone, as which the driver reads
  a naive time.
\<close>

section \<open>State\<close>

record 'r policy_world =
  pw_db :: DisplayDB
  pw_spaces :: "space_row list"
  pw_tenants :: "uuid list"
  pw_machine :: "dsm option"
  pw_redis :: "'r option"

datatype policy_call = PolicyQuery | PolicyWrite | PolicyRedis | PolicyRecompute

definition policy_failed :: http_error where "policy_failed = HTTPException 500 []"

section \<open>Policies\<close>

definition list_display_policies ::
  "(policy_call \<Rightarrow> bool) \<Rightarrow> uuid option \<Rightarrow> 'r policy_world \<Rightarrow> http_error + policy_row list" where
  "list_display_policies fails tenant_id w =
     (case tenant_id of
        None \<Rightarrow> Inl (HTTPException 400 ''tenant_id parameter is required'')
      | Some t \<Rightarrow>
          if fails PolicyQuery then Inl policy_failed
          else Inr (sort_key (\<lambda>r. if pr_is_active r then 0 else (1::nat))
                 (sort_key (\<lambda>r. - pr_created_at r)
                   (filter (\<lambda>r. dp_tenant_id (pr_policy r) = t) (display_policies (pw_db w))))))"

definition policy_not_found :: "uuid \<Rightarrow> http_error" where
  "policy_not_found i = HTTPException 404 (''Display policy '' @ i @ '' not found'')"

definition get_display_policy_row ::
  "(policy_call \<Rightarrow> bool) \<Rightarrow> uuid \<Rightarrow> 'r policy_world \<Rightarrow> http_error + policy_row" where
  "get_display_policy_row fails policy_id w =
     (if fails PolicyQuery then Inl policy_failed
      else case find (\<lambda>r. dp_id (pr_policy r) = policy_id) (display_policies (pw_db w)) of
        None \<Rightarrow> Inl (policy_not_found policy_id)
      | Some r \<Rightarrow> Inr r)"

text \<open>The request model: bounds of the numbers, six hexadecimal digits for a colour.\<close>

definition hex6 :: "string \<Rightarrow> bool" where
  "hex6 s = (length s = 6 \<and> list_all (\<lambda>c. c \<in> set ''0123456789ABCDEFabcdef'') s)"

definition valid_policy :: "DisplayPolicy \<Rightarrow> bool" where
  "valid_policy p =
     (1 \<le> length (dp_name p) \<and> length (dp_name p) \<le> 100
      \<and> 0 \<le> dp_reserved_soon_threshold_sec p \<and> dp_reserved_soon_threshold_sec p \<le> 3600
      \<and> 0 \<le> dp_sensor_unknown_timeout_sec p \<and> dp_sensor_unknown_timeout_sec p \<le> 300
      \<and> 5 \<le> dp_debounce_window_sec p \<and> dp_debounce_window_sec p \<le> 30
      \<and> hex6 (dp_occupied_color p) \<and> hex6 (dp_free_color p) \<and> hex6 (dp_reserved_color p)
      \<and> hex6 (dp_reserved_soon_color p) \<and> hex6 (dp_blocked_color p) \<and> hex6 (dp_out_of_service_color p)
      \<and> 100 \<le> dp_blink_pattern_ms p \<and> dp_blink_pattern_ms p \<le> 2000)"

text \<open>
  After a change: the cache of this process is dropped, the version in Redis is raised, and the spaces are recomputed,
  where the application has what is needed; the second component says whether that went without an exception.
\<close>

definition policy_changed ::
  "'r redis_ops \<Rightarrow> (policy_call \<Rightarrow> bool) \<Rightarrow> uuid \<Rightarrow> 'r policy_world \<Rightarrow> 'r policy_world \<times> bool" where
  "policy_changed R fails tenant_id w =
     (let w = w\<lparr>pw_machine := map_option (\<lambda>m. invalidate_policy_cache m tenant_id) (pw_machine w)\<rparr> in
      if pw_redis w \<noteq> None \<and> fails PolicyRedis then (w, False)
      else
        let w = w\<lparr>pw_redis := map_option (\<lambda>s. rincr R s (version_key tenant_id)) (pw_redis w)\<rparr>
        in (w, pw_machine w = None \<or> \<not> fails PolicyRecompute))"

text \<open>
  The insert meets the partial unique index of migration 006: one active policy per tenant. \<open>p\<close> has the columns of the
  request with the new id and the tenant.
\<close>

definition create_display_policy ::
  "'r redis_ops \<Rightarrow> (policy_call \<Rightarrow> bool) \<Rightarrow> instant \<Rightarrow> DisplayPolicy \<Rightarrow> string option \<Rightarrow> 'r policy_world
   \<Rightarrow> 'r policy_world \<times> (http_error + uuid)" where
  "create_display_policy R fails now p description w =
     (let t = dp_tenant_id p; rows = display_policies (pw_db w) in
      if \<not> valid_policy p then (w, Inl (HTTPException 422 []))
      else if fails PolicyQuery then (w, Inl policy_failed)
      else if t \<notin> set (pw_tenants w) then (w, Inl (HTTPException 404 (''Tenant '' @ t @ '' not found'')))
      else if fails PolicyWrite \<or> sql_exists (\<lambda>r. dp_id (pr_policy r) = dp_id p) rows
              \<or> sql_exists (\<lambda>r. dp_tenant_id (pr_policy r) = t \<and> pr_is_active r) rows
      then (w, Inl policy_failed)
      else
        let row = \<lparr>pr_policy = p, pr_is_active = True, pr_description = description, pr_created_at = now,
                   pr_updated_at = None\<rparr>;
            w = w\<lparr>pw_db := (pw_db w)\<lparr>display_policies := rows @ [row]\<rparr>\<rparr>
        in case policy_changed R fails t w of
             (w, ok) \<Rightarrow> (w, if ok then Inr (dp_id p) else Inl policy_failed))"

text \<open>A field of the request that is unset or null is left out of the statement.\<close>

record DisplayPolicyUpdate =
  pu_name :: "string option"
  pu_description :: "string option"
  pu_reserved_soon_threshold_sec :: "int option"
  pu_sensor_unknown_timeout_sec :: "int option"
  pu_debounce_window_sec :: "int option"
  pu_occupied_color :: "string option"
  pu_free_color :: "string option"
  pu_reserved_color :: "string option"
  pu_reserved_soon_color :: "string option"
  pu_blocked_color :: "string option"
  pu_out_of_service_color :: "string option"
  pu_blink_reserved_soon :: "bool option"
  pu_blink_pattern_ms :: "int option"
  pu_allow_sensor_override :: "bool option"

definition unset_policy_update :: DisplayPolicyUpdate where
  "unset_policy_update = \<lparr>pu_name = None, pu_description = None, pu_reserved_soon_threshold_sec = None,
     pu_sensor_unknown_timeout_sec = None, pu_debounce_window_sec = None, pu_occupied_color = None,
     pu_free_color = None, pu_reserved_color = None, pu_reserved_soon_color = None, pu_blocked_color = None,
     pu_out_of_service_color = None, pu_blink_reserved_soon = None, pu_blink_pattern_ms = None,
     pu_allow_sensor_override = None\<rparr>"

definition patch_policy :: "DisplayPolicyUpdate \<Rightarrow> DisplayPolicy \<Rightarrow> DisplayPolicy" where
  "patch_policy u =
     set_if (pu_name u) (\<lambda>v p. p\<lparr>dp_name := v\<rparr>) \<circ>
     set_if (pu_reserved_soon_threshold_sec u) (\<lambda>v p. p\<lparr>dp_reserved_soon_threshold_sec := v\<rparr>) \<circ>
     set_if (pu_sensor_unknown_timeout_sec u) (\<lambda>v p. p\<lparr>dp_sensor_unknown_timeout_sec := v\<rparr>) \<circ>
     set_if (pu_debounce_window_sec u) (\<lambda>v p. p\<lparr>dp_debounce_window_sec := v\<rparr>) \<circ>
     set_if (pu_occupied_color u) (\<lambda>v p. p\<lparr>dp_occupied_color := v\<rparr>) \<circ>
     set_if (pu_free_color u) (\<lambda>v p. p\<lparr>dp_free_color := v\<rparr>) \<circ>
     set_if (pu_reserved_color u) (\<lambda>v p. p\<lparr>dp_reserved_color := v\<rparr>) \<circ>
     set_if (pu_reserved_soon_color u) (\<lambda>v p. p\<lparr>dp_reserved_soon_color := v\<rparr>) \<circ>
     set_if (pu_blocked_color u) (\<lambda>v p. p\<lparr>dp_blocked_color := v\<rparr>) \<circ>
     set_if (pu_out_of_service_color u) (\<lambda>v p. p\<lparr>dp_out_of_service_color := v\<rparr>) \<circ>
     set_if (pu_blink_reserved_soon u) (\<lambda>v p. p\<lparr>dp_blink_reserved_soon := v\<rparr>) \<circ>
     set_if (pu_blink_pattern_ms u) (\<lambda>v p. p\<lparr>dp_blink_pattern_ms := v\<rparr>) \<circ>
     set_if (pu_allow_sensor_override u) (\<lambda>v p. p\<lparr>dp_allow_sensor_override := v\<rparr>)"

text \<open>The bounds of the update model are those of the create model, on the fields that are set.\<close>

definition valid_update :: "DisplayPolicyUpdate \<Rightarrow> bool" where
  "valid_update u = valid_policy (patch_policy u (default_policy ''x'' ''x'' ''x''))"

definition update_display_policy ::
  "'r redis_ops \<Rightarrow> (policy_call \<Rightarrow> bool) \<Rightarrow> instant \<Rightarrow> uuid \<Rightarrow> DisplayPolicyUpdate \<Rightarrow> 'r policy_world
   \<Rightarrow> 'r policy_world \<times> (http_error + uuid)" where
  "update_display_policy R fails now policy_id u w =
     (if \<not> valid_update u then (w, Inl (HTTPException 422 []))
      else if u = unset_policy_update then (w, Inl (HTTPException 400 ''No fields to update''))
      else if fails PolicyWrite then (w, Inl policy_failed)
      else case find (\<lambda>r. dp_id (pr_policy r) = policy_id) (display_policies (pw_db w)) of
        None \<Rightarrow> (w, Inl (policy_not_found policy_id))
      | Some r \<Rightarrow>
          (let f = (\<lambda>r. r\<lparr>pr_policy := patch_policy u (pr_policy r), pr_updated_at := Some now,
                           pr_description := (case pu_description u of None \<Rightarrow> pr_description r | Some d \<Rightarrow> Some d)\<rparr>);
               w = w\<lparr>pw_db := (pw_db w)\<lparr>display_policies :=
                       sql_update (\<lambda>r. dp_id (pr_policy r) = policy_id) f (display_policies (pw_db w))\<rparr>\<rparr>
           in case policy_changed R fails (dp_tenant_id (pr_policy r)) w of
                (w, ok) \<Rightarrow> (w, if ok then Inr policy_id else Inl policy_failed)))"

section \<open>Overrides\<close>

definition timestamptz :: "rat \<Rightarrow> datetime \<Rightarrow> instant" where
  "timestamptz off d = (case d of Naive t \<Rightarrow> t - off | Aware t \<Rightarrow> t)"

record AdminOverrideCreate =
  oc_space_id :: uuid
  oc_override_type :: AdminOverrideType
  oc_start_time :: "datetime option"
  oc_end_time :: "datetime option"
  oc_reason :: "string option"
  oc_notes :: "string option"

text \<open>
  A space without a tenant violates the NOT NULL column. The command computed afterwards is only written to the log, but
  an exception there turns the answer into 500 with the override stored.
\<close>

definition create_admin_override ::
  "(policy_call \<Rightarrow> bool) \<Rightarrow> rat \<Rightarrow> instant \<Rightarrow> uuid \<Rightarrow> AdminOverrideCreate \<Rightarrow> 'r policy_world
   \<Rightarrow> 'r policy_world \<times> (http_error + uuid)" where
  "create_admin_override fails off now i c w =
     (if fails PolicyQuery then (w, Inl policy_failed)
      else case find (\<lambda>s. sp_id s = oc_space_id c \<and> alive s) (pw_spaces w) of
        None \<Rightarrow> (w, Inl (HTTPException 404 (''Space '' @ oc_space_id c @ '' not found'')))
      | Some s \<Rightarrow>
      (case sp_tenant_id s of
        None \<Rightarrow> (w, Inl policy_failed)
      | Some t \<Rightarrow>
          let rows = space_admin_overrides (pw_db w) in
          if fails PolicyWrite \<or> sql_exists (\<lambda>r. ov_id r = i) rows \<or> t \<notin> set (pw_tenants w)
          then (w, Inl policy_failed)
          else
            let row = \<lparr>ov_id = i, ov_space_id = oc_space_id c, ov_tenant_id = t, ov_override_type = oc_override_type c,
                       ov_is_active = True,
                       ov_start_time = timestamptz off (case oc_start_time c of None \<Rightarrow> Naive now | Some d \<Rightarrow> d),
                       ov_end_time = map_option (timestamptz off) (oc_end_time c),
                       ov_reason = oc_reason c, ov_notes = oc_notes c\<rparr>;
                w = w\<lparr>pw_db := (pw_db w)\<lparr>space_admin_overrides := rows @ [row]\<rparr>\<rparr>
            in (w, if pw_machine w \<noteq> None \<and> fails PolicyRecompute then Inl policy_failed else Inr i)))"

definition delete_admin_override ::
  "(policy_call \<Rightarrow> bool) \<Rightarrow> uuid \<Rightarrow> 'r policy_world \<Rightarrow> 'r policy_world \<times> (http_error + uuid)" where
  "delete_admin_override fails override_id w =
     (if fails PolicyWrite then (w, Inl policy_failed)
      else
        let rows = space_admin_overrides (pw_db w) in
        if \<not> sql_exists (\<lambda>r. ov_id r = override_id) rows
        then (w, Inl (HTTPException 404 (''Admin override '' @ override_id @ '' not found'')))
        else (w\<lparr>pw_db := (pw_db w)\<lparr>space_admin_overrides :=
                  sql_update (\<lambda>r. ov_id r = override_id) (\<lambda>r. r\<lparr>ov_is_active := False\<rparr>) rows\<rparr>\<rparr>, Inr override_id))"

section \<open>The computed state\<close>

record computed_state =
  co_space_code :: string
  co_db_state :: SpaceState
  co_display :: DisplayCommand
  co_stable_state :: "string option"
  co_has_active_reservation :: bool
  co_admin_override :: "AdminOverrideType option"

text \<open>A row of the view \<open>v_space_display_states\<close>.\<close>

definition get_computed_display_state ::
  "(policy_call \<Rightarrow> bool) \<Rightarrow> instant \<Rightarrow> uuid \<Rightarrow> 'r policy_world \<Rightarrow> http_error + computed_state" where
  "get_computed_display_state fails now space_id w =
     (if fails PolicyQuery then Inl policy_failed
      else case find (\<lambda>s. sp_id s = space_id \<and> alive s \<and> sp_tenant_id s \<in> Some ` set (pw_tenants w)) (pw_spaces w) of
        None \<Rightarrow> Inl (HTTPException 404 (''Space '' @ space_id @ '' not found''))
      | Some s \<Rightarrow>
          Inr \<lparr>co_space_code = sp_code s, co_db_state = sp_state s,
               co_display = compute_display_state now (pw_db w) space_id
                              (case sp_tenant_id s of None \<Rightarrow> [] | Some t \<Rightarrow> t),
               co_stable_state = Option.bind (find (\<lambda>r. dr_space_id r = space_id) (sensor_debounce_state (pw_db w)))
                                   dr_stable_sensor_state,
               co_has_active_reservation = reserved_now now (pw_db w) space_id,
               co_admin_override = map_option ov_override_type (find (\<lambda>r. ov_space_id r = space_id \<and> ov_is_active r
                 \<and> ov_start_time r \<le> now \<and> (case ov_end_time r of None \<Rightarrow> True | Some e \<Rightarrow> e > now))
                   (space_admin_overrides (pw_db w)))\<rparr>)"

section \<open>One active policy\<close>

datatype policy_op =
    CreatePolicy "policy_call \<Rightarrow> bool" instant DisplayPolicy "string option"
  | UpdatePolicy "policy_call \<Rightarrow> bool" instant uuid DisplayPolicyUpdate

fun policy_step :: "'r redis_ops \<Rightarrow> policy_op \<Rightarrow> 'r policy_world \<Rightarrow> 'r policy_world" where
  "policy_step R (CreatePolicy fails now p d) w = fst (create_display_policy R fails now p d w)"
| "policy_step R (UpdatePolicy fails now i u) w = fst (update_display_policy R fails now i u w)"

definition active_of :: "uuid \<Rightarrow> policy_row list \<Rightarrow> policy_row list" where
  "active_of t rows = filter (\<lambda>r. dp_tenant_id (pr_policy r) = t \<and> pr_is_active r) rows"

definition policies_wf :: "policy_row list \<Rightarrow> bool" where
  "policies_wf rows \<longleftrightarrow> distinct (map (\<lambda>r. dp_id (pr_policy r)) rows) \<and> (\<forall>t. length (active_of t rows) \<le> 1)"

abbreviation policies_in :: "'r policy_world \<Rightarrow> policy_row list" where
  "policies_in w \<equiv> display_policies (pw_db w)"

lemma policy_changed_db [simp]:
  "pw_db (fst (policy_changed R fails t w)) = pw_db w" "pw_spaces (fst (policy_changed R fails t w)) = pw_spaces w"
  by (simp_all add: policy_changed_def Let_def)

lemma patch_policy_keys [simp]: "dp_id (patch_policy u p) = dp_id p" "dp_tenant_id (patch_policy u p) = dp_tenant_id p"
  by (simp_all add: patch_policy_def set_if_def split: option.split)

text \<open>What one step does to the table: nothing, a new row for a tenant without an active policy, or other columns of a row.\<close>

lemma policy_step_cases:
  obtains (same) "policies_in (policy_step R op w) = policies_in w"
  | (new) r where "policies_in (policy_step R op w) = policies_in w @ [r]"
      "\<forall>x\<in>set (policies_in w). dp_id (pr_policy x) \<noteq> dp_id (pr_policy r)"
      "active_of (dp_tenant_id (pr_policy r)) (policies_in w) = []" "pr_is_active r"
  | (upd) i f where "policies_in (policy_step R op w) = sql_update (\<lambda>r. dp_id (pr_policy r) = i) f (policies_in w)"
      "\<And>r. dp_id (pr_policy (f r)) = dp_id (pr_policy r)" "\<And>r. dp_tenant_id (pr_policy (f r)) = dp_tenant_id (pr_policy r)"
      "\<And>r. pr_is_active (f r) = pr_is_active r"
proof (cases op)
  case (CreatePolicy fails now p d)
  let ?row = "\<lparr>pr_policy = p, pr_is_active = True, pr_description = d, pr_created_at = now, pr_updated_at = None\<rparr>"
  have "policies_in (policy_step R op w) = policies_in w \<or>
      (policies_in (policy_step R op w) = policies_in w @ [?row] \<and> (\<forall>x\<in>set (policies_in w). dp_id (pr_policy x) \<noteq> dp_id p)
       \<and> active_of (dp_tenant_id p) (policies_in w) = [])"
    using CreatePolicy by (auto simp: create_display_policy_def Let_def case_prod_beta sql_exists_def list_ex_iff active_of_def
        filter_empty_conv)
  then show thesis
  proof
    assume "policies_in (policy_step R op w) = policies_in w"
    then show thesis by (rule same)
  qed (rule new [of ?row]; simp)
next
  case (UpdatePolicy fails now i u)
  let ?f = "\<lambda>r. r\<lparr>pr_policy := patch_policy u (pr_policy r), pr_updated_at := Some now,
     pr_description := (case pu_description u of None \<Rightarrow> pr_description r | Some d \<Rightarrow> Some d)\<rparr>"
  have "policies_in (policy_step R op w) = policies_in w \<or>
      policies_in (policy_step R op w) = sql_update (\<lambda>r. dp_id (pr_policy r) = i) ?f (policies_in w)"
    using UpdatePolicy by (simp add: update_display_policy_def Let_def case_prod_beta split: option.split)
  then show thesis
  proof
    assume "policies_in (policy_step R op w) = policies_in w"
    then show thesis by (rule same)
  qed (rule upd [of i ?f]; simp)
qed

lemma active_of_update:
  assumes "\<And>r. dp_tenant_id (pr_policy (f r)) = dp_tenant_id (pr_policy r)" "\<And>r. pr_is_active (f r) = pr_is_active r"
  shows "length (active_of t (sql_update P f rows)) = length (active_of t rows)"
  using assms by (induction rows) (simp_all add: active_of_def sql_update_def)

lemma policy_step_wf:
  assumes "policies_wf (policies_in w)"
  shows "policies_wf (policies_in (policy_step R op w))"
proof (cases rule: policy_step_cases [of R op w])
  case same
  then show ?thesis using assms by simp
next
  case (new r)
  then show ?thesis using assms by (auto simp: policies_wf_def active_of_def)
next
  case (upd i f)
  have "map (\<lambda>r. dp_id (pr_policy r)) (sql_update (\<lambda>r. dp_id (pr_policy r) = i) f (policies_in w))
      = map (\<lambda>r. dp_id (pr_policy r)) (policies_in w)"
    using upd(2) by (simp add: sql_update_def)
  then show ?thesis using assms active_of_update [of f, OF upd(3,4)] unfolding policies_wf_def upd(1) by simp
qed

definition policy_ids :: "uuid \<Rightarrow> 'r policy_world \<Rightarrow> uuid list" where
  "policy_ids t w = map (\<lambda>r. dp_id (pr_policy r)) (filter (\<lambda>r. dp_tenant_id (pr_policy r) = t) (policies_in w))"

lemma policy_step_ids:
  assumes "active_of t (policies_in w) \<noteq> []"
  shows "policy_ids t (policy_step R op w) = policy_ids t w \<and> active_of t (policies_in (policy_step R op w)) \<noteq> []"
proof (cases rule: policy_step_cases [of R op w])
  case same
  then show ?thesis using assms by (simp add: policy_ids_def)
next
  case (new r)
  then have "dp_tenant_id (pr_policy r) \<noteq> t" using assms by auto
  then show ?thesis using new(1) assms by (simp add: policy_ids_def active_of_def)
next
  case (upd i f)
  have "map (\<lambda>r. dp_id (pr_policy r)) (filter (\<lambda>r. dp_tenant_id (pr_policy r) = t) (sql_update P f rows))
      = map (\<lambda>r. dp_id (pr_policy r)) (filter (\<lambda>r. dp_tenant_id (pr_policy r) = t) rows)" for P rows
    using upd(2,3) by (induction rows) (auto simp: sql_update_def)
  moreover have "active_of t (sql_update P f rows) = [] \<longleftrightarrow> active_of t rows = []" for P rows
    using active_of_update [of f t P rows, OF upd(3,4)] by (metis length_0_conv)
  ultimately show ?thesis using upd(1) assms by (simp add: policy_ids_def)
qed

text \<open>
  Property C26. A tenant keeps its first policy. Over any sequence of requests of any tenants, no tenant ever has two
  active policies, and once it has one, its set of policies never changes again: a request to create another is answered with
  500 and stores nothing, although the documentation of the endpoint promises that the new policy replaces the old one.
\<close>

theorem tenant_keeps_first_policy:
  assumes "policies_wf (policies_in w)"
  shows "policies_wf (policies_in (fold (policy_step R) ops w))
    \<and> (active_of t (policies_in w) \<noteq> [] \<longrightarrow> policy_ids t (fold (policy_step R) ops w) = policy_ids t w
        \<and> (\<forall>fails now p d. dp_tenant_id p = t \<longrightarrow> valid_policy p \<longrightarrow> t \<in> set (pw_tenants w) \<longrightarrow>
             create_display_policy R fails now p d w = (w, Inl (HTTPException 500 []))))"
proof (intro conjI impI allI)
  show "policies_wf (policies_in (fold (policy_step R) ops w))"
    using assms by (induction ops arbitrary: w) (simp_all add: policy_step_wf)
  assume act: "active_of t (policies_in w) \<noteq> []"
  then show "policy_ids t (fold (policy_step R) ops w) = policy_ids t w"
    by (induction ops arbitrary: w) (simp_all add: policy_step_ids)
  show "create_display_policy R fails now p d w = (w, Inl (HTTPException 500 []))"
    if "dp_tenant_id p = t" "valid_policy p" "t \<in> set (pw_tenants w)" for fails now p d
  proof -
    have "sql_exists (\<lambda>r. dp_tenant_id (pr_policy r) = dp_tenant_id p \<and> pr_is_active r) (policies_in w)"
      using act that(1) by (auto simp: active_of_def filter_empty_conv sql_exists_def list_ex_iff)
    then show ?thesis using that by (simp add: create_display_policy_def Let_def policy_failed_def)
  qed
qed

section \<open>Coherence of the policy caches\<close>

text \<open>What a process sees that talks to the Redis store \<open>s\<close>, and the counter stored under the version key.\<close>

definition redis_env :: "'r redis_ops \<Rightarrow> 'r \<Rightarrow> instant \<Rightarrow> (instant \<Rightarrow> datetime) \<Rightarrow> dsm_env" where
  "redis_env R s now dec =
     \<lparr>env_now = now, env_redis = Some (\<lambda>k. case rget R s k of None \<Rightarrow> Redis_nil | Some v \<Rightarrow> Redis_bulk v),
      env_decode_ts = dec\<rparr>"

definition version_at :: "keyspace \<Rightarrow> uuid \<Rightarrow> int \<Rightarrow> bool" where
  "version_at m t n \<longleftrightarrow> (n = 0 \<and> m (version_key t) = None) \<or> m (version_key t) = Some (RStr (int_str n))"

definition not_newer :: "dsm \<Rightarrow> uuid \<Rightarrow> int \<Rightarrow> bool" where
  "not_newer m t n \<longleftrightarrow> (\<forall>p v. policy_cache m t = Some (p, v) \<longrightarrow> v \<le> n)"

lemma int_str_one: "int_str 1 = ''1''"
  by code_simp

context redis
begin

lemma version_read: "version_at (contents s) t n \<Longrightarrow> redis_version (redis_env R s now dec) t = n"
  using get [of s "version_key t"]
  by (auto simp: version_at_def redis_version_def redis_env_def strlike_def str_at_def)

lemma version_incr: "version_at (contents s) t n \<Longrightarrow> version_at (contents (rincr R s (version_key t))) t (n + 1)"
  using incr_new [of s "version_key t"] incr_old [of s "version_key t" "int_str n" n] int_str_one
  by (auto simp: version_at_def str_at_def)

text \<open>A process with an older version in its cache reads the table.\<close>

lemma newer_version_read:
  assumes "version_at (contents s) t n" "not_newer m t (n - 1)"
  shows "fst (get_display_policy (redis_env R s now dec) db m t) = fetch_policy db t"
    and "not_newer (snd (get_display_policy (redis_env R s now dec) db m t)) t n"
proof -
  have "cached_policy (redis_env R s now dec) m t = None"
    using assms(2) version_read [OF assms(1)]
    by (auto simp: cached_policy_def not_newer_def split: option.split)
  then show "fst (get_display_policy (redis_env R s now dec) db m t) = fetch_policy db t"
    and "not_newer (snd (get_display_policy (redis_env R s now dec) db m t)) t n"
    using version_read [OF assms(1)] by (simp_all add: get_display_policy_def Let_def not_newer_def)
qed

end

lemma update_policy_success:
  assumes "update_display_policy R fails now i u w = (w', Inr j)"
  obtains r where "find (\<lambda>r. dp_id (pr_policy r) = i) (policies_in w) = Some r"
    "policies_in w' = sql_update (\<lambda>r. dp_id (pr_policy r) = i)
       (\<lambda>r. r\<lparr>pr_policy := patch_policy u (pr_policy r), pr_updated_at := Some now,
              pr_description := (case pu_description u of None \<Rightarrow> pr_description r | Some d \<Rightarrow> Some d)\<rparr>) (policies_in w)"
    "pw_redis w' = map_option (\<lambda>s. rincr R s (version_key (dp_tenant_id (pr_policy r)))) (pw_redis w)"
  using assms that
  by (auto simp: update_display_policy_def policy_changed_def Let_def split: if_splits option.splits)

lemma fetch_patched:
  assumes "policies_wf rows" "find (\<lambda>r. dp_id (pr_policy r) = i) rows = Some r" "pr_is_active r"
    and "\<And>x. dp_tenant_id (pr_policy (f x)) = dp_tenant_id (pr_policy x)" "\<And>x. pr_is_active (f x) = pr_is_active x"
    and "display_policies db = sql_update (\<lambda>r. dp_id (pr_policy r) = i) f rows"
  shows "fetch_policy db (dp_tenant_id (pr_policy r)) = pr_policy (f r)"
proof -
  let ?t = "dp_tenant_id (pr_policy r)"
  note mem = find_SomeD [OF assms(2)]
  have "r \<in> set (active_of ?t rows)" using mem assms(3) by (simp add: active_of_def)
  moreover have "length (active_of ?t rows) \<le> 1" using assms(1) by (simp add: policies_wf_def)
  ultimately have one: "active_of ?t rows = [r]" by (cases "active_of ?t rows") (auto simp: le_Suc_eq)
  then have uniq: "x = r" if "x \<in> set rows" "dp_tenant_id (pr_policy x) = ?t" "pr_is_active x" for x
  proof -
    have "x \<in> set (active_of ?t rows)" using that by (simp add: active_of_def)
    then show ?thesis using one by simp
  qed
  have "find (\<lambda>x. dp_tenant_id (pr_policy x) = ?t \<and> pr_is_active x) (display_policies db) = Some (f r)"
    unfolding assms(6)
  proof (rule find_unique)
    show "f r \<in> set (sql_update (\<lambda>r. dp_id (pr_policy r) = i) f rows)" using mem by (force simp: sql_update_def)
    show "dp_tenant_id (pr_policy (f r)) = ?t \<and> pr_is_active (f r)" using assms(3-5) by simp
    show "x = f r" if x: "x \<in> set (sql_update (\<lambda>r. dp_id (pr_policy r) = i) f rows)"
      "dp_tenant_id (pr_policy x) = ?t \<and> pr_is_active x" for x
    proof -
      obtain y where y: "y \<in> set rows" "x = (if dp_id (pr_policy y) = i then f y else y)"
        using x(1) by (auto simp: sql_update_def)
      then have "y = r" using x(2) assms(4,5) uniq [of y] by (simp split: if_splits)
      then show ?thesis using y(2) mem by simp
    qed
  qed
  then show ?thesis by (simp add: fetch_policy_def)
qed


section \<open>Overrides on the display\<close>

lemma override_cong:
  assumes "display_policies db' = display_policies db" "reservations db' = reservations db"
    "sensor_debounce_state db' = sensor_debounce_state db"
    and "\<And>ty. override_active now db' sid ty = override_active now db sid ty"
  shows "compute_display_state now db' sid t = compute_display_state now db sid t"
  unfolding compute_display_state_def effective_policy_def reserved_now_def next_reservation_def assms by (rule refl)

lemma create_override_success:
  assumes "create_admin_override fails off now i c w = (w', Inr j)"
  obtains t where "j = i" "\<forall>r\<in>set (space_admin_overrides (pw_db w)). ov_id r \<noteq> i"
    "pw_db w' = (pw_db w)\<lparr>space_admin_overrides := space_admin_overrides (pw_db w) @
       [\<lparr>ov_id = i, ov_space_id = oc_space_id c, ov_tenant_id = t, ov_override_type = oc_override_type c, ov_is_active = True,
         ov_start_time = timestamptz off (case oc_start_time c of None \<Rightarrow> Naive now | Some d \<Rightarrow> d),
         ov_end_time = map_option (timestamptz off) (oc_end_time c), ov_reason = oc_reason c, ov_notes = oc_notes c\<rparr>]\<rparr>"
  using assms that by (auto simp: create_admin_override_def Let_def sql_exists_def list_ex_iff split: if_splits option.splits)

text \<open>
  Property C25. An override shows on the display while it lasts and leaves nothing behind. From its start to its end the space is in
  maintenance, at priority one when it is out of service and at most two when it is blocked, whatever sensors and
  reservations say; on the other spaces nothing changes; and after the override is deleted every space shows what it
  would have shown without it.
\<close>

theorem override_shows_and_ends:
  assumes "create_admin_override fails off now i c w = (w', Inr j)" "delete_admin_override fails' i w' = (w'', Inr j')"
    and "timestamptz off (case oc_start_time c of None \<Rightarrow> Naive now | Some d \<Rightarrow> d) \<le> t"
    and "\<forall>e. oc_end_time c = Some e \<longrightarrow> t < timestamptz off e"
  shows "dc_state (compute_display_state t (pw_db w') (oc_space_id c) ten) = ''MAINTENANCE''
    \<and> dc_priority_level (compute_display_state t (pw_db w') (oc_space_id c) ten)
        \<le> (if oc_override_type c = OUT_OF_SERVICE then 1 else 2)
    \<and> (\<forall>sid. sid \<noteq> oc_space_id c \<longrightarrow> compute_display_state t (pw_db w') sid ten = compute_display_state t (pw_db w) sid ten)
    \<and> (\<forall>sid t'. compute_display_state t' (pw_db w'') sid ten = compute_display_state t' (pw_db w) sid ten)"
proof (intro conjI allI impI)
  obtain tn where fresh: "\<forall>r\<in>set (space_admin_overrides (pw_db w)). ov_id r \<noteq> i"
    and db': "pw_db w' = (pw_db w)\<lparr>space_admin_overrides := space_admin_overrides (pw_db w) @
       [\<lparr>ov_id = i, ov_space_id = oc_space_id c, ov_tenant_id = tn, ov_override_type = oc_override_type c, ov_is_active = True,
         ov_start_time = timestamptz off (case oc_start_time c of None \<Rightarrow> Naive now | Some d \<Rightarrow> d),
         ov_end_time = map_option (timestamptz off) (oc_end_time c), ov_reason = oc_reason c, ov_notes = oc_notes c\<rparr>]\<rparr>"
    using assms(1) by (rule create_override_success)
  have act: "override_active t (pw_db w') (oc_space_id c) (oc_override_type c)"
    using assms(3,4) by (auto simp: override_active_def db' sql_exists_def split: option.split)
  then show "dc_state (compute_display_state t (pw_db w') (oc_space_id c) ten) = ''MAINTENANCE''"
    by (cases "oc_override_type c") (simp_all add: compute_display_state_def Let_def make_command_def)
  show "dc_priority_level (compute_display_state t (pw_db w') (oc_space_id c) ten)
      \<le> (if oc_override_type c = OUT_OF_SERVICE then 1 else 2)"
    using act by (cases "oc_override_type c") (simp_all add: compute_display_state_def Let_def make_command_def)
  show "compute_display_state t (pw_db w') sid ten = compute_display_state t (pw_db w) sid ten" if "sid \<noteq> oc_space_id c" for sid
    by (rule override_cong) (use that in \<open>auto simp: db' override_active_def sql_exists_def\<close>)
  have rows: "space_admin_overrides (pw_db w'') = space_admin_overrides (pw_db w) @
      [(last (space_admin_overrides (pw_db w')))\<lparr>ov_is_active := False\<rparr>]"
    and db'': "display_policies (pw_db w'') = display_policies (pw_db w)" "reservations (pw_db w'') = reservations (pw_db w)"
      "sensor_debounce_state (pw_db w'') = sensor_debounce_state (pw_db w)"
    using assms(2) fresh
    by (auto simp: delete_admin_override_def db' Let_def sql_update_def intro!: map_idI split: if_splits)
  show "compute_display_state t' (pw_db w'') sid ten = compute_display_state t' (pw_db w) sid ten" for sid t'
  proof (rule override_cong)
    show "override_active t' (pw_db w'') sid ty = override_active t' (pw_db w) sid ty" for ty
      unfolding override_active_def rows sql_exists_def by simp
  qed (rule db'')+
qed

section \<open>Examples\<close>

definition demo_policy :: DisplayPolicy where "demo_policy = default_policy ''p1'' ''t1'' ''P''"

definition demo_policies :: "mem policy_world" where
  "demo_policies =
     \<lparr>pw_db = \<lparr>display_policies = [\<lparr>pr_policy = demo_policy, pr_is_active = True, pr_description = None, pr_created_at = 0,
                                    pr_updated_at = None\<rparr>],
               space_admin_overrides = [], reservations = [], sensor_debounce_state = [], spaces_of_tenant = []\<rparr>,
      pw_spaces = [(new_space_row ''s1'' 0 demo_space)\<lparr>sp_tenant_id := Some ''t1''\<rparr>], pw_tenants = [''t1''],
      pw_machine = None, pw_redis = Some []\<rparr>"

definition blue_free :: DisplayPolicyUpdate where "blue_free = unset_policy_update\<lparr>pu_free_color := Some ''0000FF''\<rparr>"

lemma demo_policies_wf: "policies_wf (policies_in demo_policies)"
  by (simp add: policies_wf_def demo_policies_def active_of_def)

theorem tenant_keeps_first_policy_witness:
  "create_display_policy mem_ops (\<lambda>_. False) 5 (demo_policy\<lparr>dp_id := ''p2''\<rparr>) None demo_policies
     = (demo_policies, Inl (HTTPException 500 []))"
proof -
  have "active_of ''t1'' (policies_in demo_policies) \<noteq> []" "valid_policy (demo_policy\<lparr>dp_id := ''p2''\<rparr>)"
      "''t1'' \<in> set (pw_tenants demo_policies)" "dp_tenant_id (demo_policy\<lparr>dp_id := ''p2''\<rparr>) = ''t1''"
    by (code_simp)+
  with tenant_keeps_first_policy [OF demo_policies_wf, of mem_ops "[]" "''t1''"] show ?thesis by blast
qed


theorem override_shows_and_ends_witness:
  "\<exists>w' w'' j. create_admin_override (\<lambda>_. False) 0 5 ''o1'' \<lparr>oc_space_id = ''s1'', oc_override_type = BLOCKED, oc_start_time = None,
       oc_end_time = Some (Aware 50), oc_reason = None, oc_notes = None\<rparr> demo_policies = (w', Inr j)
     \<and> delete_admin_override (\<lambda>_. False) ''o1'' w' = (w'', Inr j)
     \<and> dc_state (compute_display_state 20 (pw_db w') ''s1'' ''t1'') = ''MAINTENANCE''
     \<and> compute_display_state 20 (pw_db w'') ''s1'' ''t1'' = compute_display_state 20 (pw_db demo_policies) ''s1'' ''t1''"
proof -
  let ?c = "\<lparr>oc_space_id = ''s1'', oc_override_type = BLOCKED, oc_start_time = None, oc_end_time = Some (Aware 50),
     oc_reason = None, oc_notes = None\<rparr>"
  have "\<exists>w'. create_admin_override (\<lambda>_. False) 0 5 ''o1'' ?c demo_policies = (w', Inr ''o1'')"
    by (simp add: create_admin_override_def demo_policies_def Let_def new_space_row_def alive_def sql_exists_def)
  then obtain w' where c: "create_admin_override (\<lambda>_. False) 0 5 ''o1'' ?c demo_policies = (w', Inr ''o1'')" by blast
  have "sql_exists (\<lambda>r. ov_id r = ''o1'') (space_admin_overrides (pw_db w'))"
    by (rule create_override_success [OF c]) (simp add: sql_exists_def)
  then obtain w'' where d: "delete_admin_override (\<lambda>_. False) ''o1'' w' = (w'', Inr ''o1'')"
    by (simp add: delete_admin_override_def Let_def)
  show ?thesis
    using override_shows_and_ends [OF c d, of 20 "''t1''"] c d by (auto simp: timestamptz_def)
qed

end
