(* ===== verification/Request_Pipeline.thy ===== *)
theory Request_Pipeline
  imports Sliding_Window Access_Control
begin

text \<open>
  What a request passes on its way to an endpoint: the middleware of \<open>src/middleware.py\<close> and of \<open>src/main.py\<close>, the
  order \<open>main.py\<close> stacks it in, and the exception handlers.

  A middleware is a function from the rest of the application to an application. Context variables are passed
  inwards only, as the copy of the context each inner task gets; \<open>request.state\<close> is part of the request. The state
  of the server is Redis, the tables authentication reads, and the process-wide factory of log records, which is
  the list of request ids wrapped around the original factory, the newest first.
\<close>

section \<open>Requests, contexts, responses\<close>

record web_request =
  wr_method :: string
  wr_path :: string
  wr_headers :: headers
  wr_scheme :: string
  wr_server :: "string \<times> int option"
  ws_tenant_id :: "string option option"
  ws_user_id :: "string option option"
  ws_request_id :: "string option"

text \<open>The server delivers header names in lower case; \<open>request.headers.get\<close> compares in lower case.\<close>

definition get_header :: "web_request \<Rightarrow> string \<Rightarrow> string option" where
  "get_header req name = map_of (wr_headers req) (lower name)"

record web_context =
  request_id_var :: string
  tenant_id_var :: string
  user_id_var :: string
  log_context :: "(string \<times> string) list"

definition empty_context :: web_context where
  "empty_context = \<lparr>request_id_var = [], tenant_id_var = [], user_id_var = [], log_context = []\<rparr>"

definition get_request_id_var :: "web_context \<Rightarrow> string" where
  "get_request_id_var cx = request_id_var cx"

definition set_request_id :: "string \<Rightarrow> web_context \<Rightarrow> web_context" where
  "set_request_id i cx = cx\<lparr>request_id_var := i\<rparr>"

definition get_tenant_id :: "web_context \<Rightarrow> string option" where
  "get_tenant_id cx = (if tenant_id_var cx \<noteq> [] then Some (tenant_id_var cx) else None)"

definition set_tenant_id :: "string \<Rightarrow> web_context \<Rightarrow> web_context" where
  "set_tenant_id i cx = cx\<lparr>tenant_id_var := i\<rparr>"

definition get_user_id :: "web_context \<Rightarrow> string option" where
  "get_user_id cx = (if user_id_var cx \<noteq> [] then Some (user_id_var cx) else None)"

definition set_user_id :: "string \<Rightarrow> web_context \<Rightarrow> web_context" where
  "set_user_id i cx = cx\<lparr>user_id_var := i\<rparr>"

definition bind_contextvars :: "(string \<times> string) list \<Rightarrow> web_context \<Rightarrow> web_context" where
  "bind_contextvars kvs cx = cx\<lparr>log_context := upd_fields (log_context cx) kvs\<rparr>"

record web_rest =
  wb_auth :: "auth_db option"
  wb_factory :: "string list"

type_synonym 'r web_app = "web_request \<Rightarrow> web_context \<Rightarrow> 'r \<times> web_rest \<Rightarrow> ('r \<times> web_rest) \<times> http_response result"

definition on_response :: "(http_response \<Rightarrow> http_response) \<Rightarrow> 's \<times> http_response result \<Rightarrow> 's \<times> http_response result" where
  "on_response f sr = (case sr of (s, Inl e) \<Rightarrow> (s, Inl e) | (s, Inr r) \<Rightarrow> (s, Inr (f r)))"

definition set_headers :: "headers \<Rightarrow> http_response \<Rightarrow> http_response" where
  "set_headers hs r = (fst r, upd_fields (snd r) hs)"

section \<open>The middleware\<close>

definition proxy_headers :: "'r web_app \<Rightarrow> 'r web_app" where
  "proxy_headers call_next req =
     (let proto = get_header req ''x-forwarded-proto'';
          host = get_header req ''x-forwarded-host'';
          req = (if truthy proto then req\<lparr>wr_scheme := the proto\<rparr> else req);
          req = (if truthy host then req\<lparr>wr_server := (the host, None)\<rparr> else req)
      in call_next req)"

definition security_headers :: headers where
  "security_headers =
     [(''X-Content-Type-Options'', ''nosniff''), (''X-Frame-Options'', ''DENY''),
      (''X-XSS-Protection'', ''1; mode=block''), (''Referrer-Policy'', ''strict-origin-when-cross-origin'')]"

definition add_security_headers :: "http_response \<Rightarrow> http_response" where
  "add_security_headers = set_headers security_headers"

definition security_headers_middleware :: "'r web_app \<Rightarrow> 'r web_app" where
  "security_headers_middleware call_next req cx s = on_response add_security_headers (call_next req cx s)"

text \<open>\<open>new_id\<close> is the fresh UUID and \<open>ms\<close> the text of the time taken.\<close>

definition request_tracing :: "string \<Rightarrow> string \<Rightarrow> 'r web_app \<Rightarrow> 'r web_app" where
  "request_tracing new_id ms call_next req cx s =
     (let request_id = (case get_header req ''X-Request-ID'' of None \<Rightarrow> new_id | Some i \<Rightarrow> i);
          cx = set_request_id request_id cx;
          cx = (case ws_tenant_id req of None \<Rightarrow> cx | Some t \<Rightarrow> set_tenant_id (fmt_opt t) cx);
          cx = bind_contextvars [(''request_id'', request_id), (''method'', wr_method req), (''path'', wr_path req)] cx
      in on_response
           (\<lambda>r. let r = set_headers [(''X-Request-ID'', request_id), (''X-Response-Time'', ms)] r
                in case get_tenant_id cx of None \<Rightarrow> r | Some t \<Rightarrow> set_headers [(''X-Tenant-ID'', t)] r)
           (call_next req cx s))"

definition tenant_context :: "'r web_app \<Rightarrow> 'r web_app" where
  "tenant_context call_next req cx =
     (let cx = (case ws_tenant_id req of None \<Rightarrow> cx
                | Some t \<Rightarrow> bind_contextvars [(''tenant_id'', fmt_opt t)] (set_tenant_id (fmt_opt t) cx));
          cx = (case ws_user_id req of None \<Rightarrow> cx
                | Some u \<Rightarrow> bind_contextvars [(''user_id'', fmt_opt u)] (set_user_id (fmt_opt u) cx))
      in call_next req cx)"

text \<open>The limiter is absent until start-up has put it into \<open>app.state\<close>.\<close>

definition deferred_rate_limit ::
  "'r redis_ops \<Rightarrow> (pyfloat \<Rightarrow> string) \<Rightarrow> sw_config option \<Rightarrow> pyfloat \<Rightarrow> 'r web_app \<Rightarrow> 'r web_app" where
  "deferred_rate_limit R fs limiter now call_next req cx s =
     (case limiter of
        None \<Rightarrow> call_next req cx s
      | Some cfg \<Rightarrow> sw_dispatch R fs cfg (call_next req cx) now (ws_tenant_id req) (wr_method req) (wr_path req) s)"

text \<open>\<open>add_request_id\<close>: the old factory is put back only when \<open>call_next\<close> returns.\<close>

definition add_request_id :: "string \<Rightarrow> 'r web_app \<Rightarrow> 'r web_app" where
  "add_request_id request_id call_next req cx s =
     (let old_factory = wb_factory (snd s);
          s = (fst s, (snd s)\<lparr>wb_factory := request_id # old_factory\<rparr>)
      in case call_next (req\<lparr>ws_request_id := Some request_id\<rparr>) cx s of
           (s, Inl e) \<Rightarrow> (s, Inl e)
         | (s, Inr r) \<Rightarrow>
             ((fst s, (snd s)\<lparr>wb_factory := old_factory\<rparr>), Inr (set_headers [(''X-Request-ID'', request_id)] r)))"

text \<open>The second of the words of the header, for a header that starts with \<open>Bearer\<close> and a blank.\<close>

definition bearer_token :: "string \<Rightarrow> string option" where
  "bearer_token h =
     (if startswith h ''Bearer '' then Some (takeWhile (\<lambda>c. c \<noteq> CHR '' '') (drop 7 h)) else None)"

text \<open>
  The tenant of a token is taken from the token as it stands; only when that gives none the API key is verified,
  which stamps it in the table, and resolved. A failing lookup counts as no tenant.
\<close>

definition tenant_of_request ::
  "auth_env \<Rightarrow> instant \<Rightarrow> web_request \<Rightarrow> auth_db option \<Rightarrow> auth_db option \<times> string option" where
  "tenant_of_request A now req pool =
     (let by_jwt = Option.bind (Option.bind (get_header req ''Authorization'') bearer_token)
            (\<lambda>tok. map_option td_tenant_id (decode_access_token (ae_decode A) (ae_local_offset A) (ae_secret A) now tok))
      in if truthy by_jwt then (pool, by_jwt)
         else case get_optional_api_key (ae_checkpw A) (ae_fails_keys A) now (get_header req ''X-API-Key'') pool of
                (pool, None) \<Rightarrow> (pool, by_jwt)
              | (pool, Some key) \<Rightarrow>
                  (pool, (case resolve_tenant_from_api_key (ae_fails_resolve A) pool key of
                            None \<Rightarrow> by_jwt | Some tc \<Rightarrow> Some (tc_tenant_id tc))))"

definition set_tenant_context_for_rls :: "auth_env \<Rightarrow> instant \<Rightarrow> 'r web_app \<Rightarrow> 'r web_app" where
  "set_tenant_context_for_rls A now call_next req cx s =
     (case tenant_of_request A now req (wb_auth (snd s)) of
        (pool, tenant_id) \<Rightarrow> call_next (req\<lparr>ws_tenant_id := Some tenant_id\<rparr>) cx (fst s, (snd s)\<lparr>wb_auth := pool\<rparr>))"

section \<open>The stack\<close>

text \<open>
  What one request meets besides the state: the clock, the fresh ids, the answers of the libraries; \<open>we_cors\<close> is the
  \<open>CORSMiddleware\<close> of Starlette.
\<close>

record 'r web_env =
  we_auth :: auth_env
  we_now :: instant
  we_time :: pyfloat
  we_request_id :: string
  we_uuid :: string
  we_ms :: string
  we_limiter :: "sw_config option"
  we_cors :: "'r web_app \<Rightarrow> 'r web_app"

text \<open>\<open>app.add_middleware\<close> puts the new middleware around the ones added before.\<close>

type_synonym 'r middleware = "'r web_app \<Rightarrow> 'r web_app"

definition add_middleware :: "'r middleware \<Rightarrow> 'r middleware list \<Rightarrow> 'r middleware list" where
  "add_middleware m stack = m # stack"

definition middleware_stack :: "'r redis_ops \<Rightarrow> (pyfloat \<Rightarrow> string) \<Rightarrow> 'r web_env \<Rightarrow> 'r middleware list" where
  "middleware_stack R fs E =
     (let stack = add_middleware proxy_headers [];
          stack = add_middleware security_headers_middleware stack;
          stack = add_middleware (request_tracing (we_uuid E) (we_ms E)) stack;
          stack = add_middleware tenant_context stack;
          stack = add_middleware (deferred_rate_limit R fs (we_limiter E) (we_time E)) stack;
          stack = add_middleware (we_cors E) stack;
          stack = add_middleware (add_request_id (we_request_id E)) stack
      in add_middleware (set_tenant_context_for_rls (we_auth E) (we_now E)) stack)"

section \<open>Exception handlers\<close>

text \<open>
  What an endpoint may raise. The handlers for HTTP errors, \<open>ParkingException\<close> and failed validation answer inside
  the middleware; any other exception passes through it and is answered by the generic handler outside.
\<close>

datatype web_exn =
    Raised_HTTP http_error
  | Raised_Parking ParkingException
  | Raised_Validation "(string \<times> detail) list"
  | Raised_Other py_error

record error_content =
  ec_error :: string
  ec_message :: string
  ec_details :: "(string \<times> detail) list option"

definition to_dict :: "ParkingException \<Rightarrow> error_content" where
  "to_dict e = \<lparr>ec_error = pe_error_code e, ec_message = pe_message e, ec_details = Some (pe_details e)\<rparr>"

definition parking_exception_handler :: "ParkingException \<Rightarrow> nat \<times> error_content" where
  "parking_exception_handler e = (400, to_dict e)"

definition validation_exception_handler :: "(string \<times> detail) list \<Rightarrow> nat \<times> error_content" where
  "validation_exception_handler errors =
     (422, \<lparr>ec_error = ''VALIDATION_ERROR'', ec_message = ''Request validation failed'', ec_details = Some errors\<rparr>)"

definition generic_exception_handler :: "py_error \<Rightarrow> nat \<times> error_content" where
  "generic_exception_handler e =
     (500, \<lparr>ec_error = ''INTERNAL_SERVER_ERROR'', ec_message = ''An unexpected error occurred'', ec_details = None\<rparr>)"

text \<open>Status and explicit headers of the answer; the framework's own handler serves HTTP errors.\<close>

definition json_response :: "nat \<times> error_content \<Rightarrow> http_response" where
  "json_response sc = (fst sc, [])"

fun http_exception_handler :: "http_error \<Rightarrow> http_response" where
  "http_exception_handler (HTTPException code detail) = (code, [])"

type_synonym 'r endpoint =
  "web_request \<Rightarrow> web_context \<Rightarrow> 'r \<times> web_rest \<Rightarrow> ('r \<times> web_rest) \<times> (web_exn + http_response)"

definition exception_middleware :: "'r endpoint \<Rightarrow> 'r web_app" where
  "exception_middleware endpoint req cx s =
     (case endpoint req cx s of
        (s, Inr r) \<Rightarrow> (s, Inr r)
      | (s, Inl (Raised_HTTP e)) \<Rightarrow> (s, Inr (http_exception_handler e))
      | (s, Inl (Raised_Parking e)) \<Rightarrow> (s, Inr (json_response (parking_exception_handler e)))
      | (s, Inl (Raised_Validation es)) \<Rightarrow> (s, Inr (json_response (validation_exception_handler es)))
      | (s, Inl (Raised_Other e)) \<Rightarrow> (s, Inl e))"

definition run_stack :: "'r redis_ops \<Rightarrow> (pyfloat \<Rightarrow> string) \<Rightarrow> 'r web_env \<Rightarrow> 'r endpoint \<Rightarrow> web_request \<Rightarrow> 'r \<times> web_rest
    \<Rightarrow> ('r \<times> web_rest) \<times> http_response result" where
  "run_stack R fs E endpoint req s =
     foldr (\<lambda>m app. m app) (middleware_stack R fs E) (exception_middleware endpoint) req empty_context s"

definition serve :: "'r redis_ops \<Rightarrow> (pyfloat \<Rightarrow> string) \<Rightarrow> 'r web_env \<Rightarrow> 'r endpoint \<Rightarrow> web_request \<Rightarrow> 'r \<times> web_rest
    \<Rightarrow> ('r \<times> web_rest) \<times> http_response" where
  "serve R fs E endpoint req s =
     (case run_stack R fs E endpoint req s of
        (s, Inr r) \<Rightarrow> (s, r) | (s, Inl e) \<Rightarrow> (s, json_response (generic_exception_handler e)))"

section \<open>One request through the stack\<close>

text \<open>
  What Starlette documents of its CORS middleware: a request without an \<open>Origin\<close> header is no cross-origin request
  and is passed on unchanged.
\<close>

definition cors_transparent :: "'r middleware \<Rightarrow> bool" where
  "cors_transparent cors \<longleftrightarrow> (\<forall>app req. get_header req ''Origin'' = None \<longrightarrow> cors app req = app req)"

definition inner_app :: "'r web_env \<Rightarrow> 'r endpoint \<Rightarrow> 'r web_app" where
  "inner_app E endpoint =
     tenant_context (request_tracing (we_uuid E) (we_ms E)
       (security_headers_middleware (proxy_headers (exception_middleware endpoint))))"

lemma get_header_state [simp]:
  "get_header (req\<lparr>ws_tenant_id := t\<rparr>) n = get_header req n" "get_header (req\<lparr>ws_request_id := i\<rparr>) n = get_header req n"
  by (simp_all add: get_header_def)

lemma on_response_simps [simp]: "on_response f (s, Inl e) = (s, Inl e)" "on_response f (s, Inr r) = (s, Inr (f r))"
  by (simp_all add: on_response_def)

lemma run_stack_unfold:
  assumes "cors_transparent (we_cors E)" "get_header req ''Origin'' = None"
  shows "run_stack R fs E endpoint req s =
    set_tenant_context_for_rls (we_auth E) (we_now E)
      (add_request_id (we_request_id E)
        (deferred_rate_limit R fs (we_limiter E) (we_time E) (inner_app E endpoint))) req empty_context s"
  using assms
  by (simp add: run_stack_def middleware_stack_def add_middleware_def Let_def inner_app_def cors_transparent_def
      set_tenant_context_for_rls_def add_request_id_def split: prod.split)

text \<open>The state and the request the limiter sees, and whether it refuses.\<close>

definition limiter_refuses :: "'r redis_ops \<Rightarrow> (pyfloat \<Rightarrow> string) \<Rightarrow> 'r web_env \<Rightarrow> web_request \<Rightarrow> 'r \<times> web_rest \<Rightarrow> bool" where
  "limiter_refuses R fs E req s =
     (case we_limiter E of
        None \<Rightarrow> False
      | Some cfg \<Rightarrow> wr_path req \<notin> set skip_paths
          \<and> (\<exists>s' n. check_limit R fs cfg (we_time E)
                (tenant_key (Some (snd (tenant_of_request (we_auth E) (we_now E) req (wb_auth (snd s))))))
                (operation_type_of (wr_method req)) None (fst s) = (s', Inr (False, n))))"

lemma map_of_set_headers:
  "map_of (snd (set_headers hs r)) k = (case map_of (rev hs) k of None \<Rightarrow> map_of (snd r) k | Some v \<Rightarrow> Some v)"
  by (simp add: set_headers_def map_of_upd_fields)

lemma fst_set_headers [simp]: "fst (set_headers hs r) = fst r"
  by (simp add: set_headers_def)

lemma security_names:
  "map_of security_headers k = Some v \<Longrightarrow>
     k \<notin> {''X-Request-ID'', ''X-Response-Time'', ''X-Tenant-ID'', ''X-RateLimit-Limit'', ''X-RateLimit-Remaining'', ''Retry-After''}"
  by (auto simp: security_headers_def split: if_splits)

lemma rev_security: "map_of (rev security_headers) = map_of security_headers"
  by (auto simp: security_headers_def fun_eq_iff)

lemma on_response_Inr: "on_response f x = (s, Inr r) \<longleftrightarrow> (\<exists>r0. x = (s, Inr r0) \<and> r = f r0)"
  by (auto simp: on_response_def split: prod.splits sum.splits)

lemma fst_on_response [simp]: "fst (on_response f x) = fst x"
  by (auto simp: on_response_def split: prod.splits sum.splits)

lemma tracing_keeps_headers:
  assumes "request_tracing i ms g req cx s = (s', Inr r)"
  shows "\<exists>cx' r0. g req cx' s = (s', Inr r0)
    \<and> (\<forall>k. k \<notin> {''X-Request-ID'', ''X-Response-Time'', ''X-Tenant-ID''} \<longrightarrow> map_of (snd r) k = map_of (snd r0) k)"
proof -
  define cx' where "cx' = bind_contextvars
      [(''request_id'', case get_header req ''X-Request-ID'' of None \<Rightarrow> i | Some x \<Rightarrow> x), (''method'', wr_method req), (''path'', wr_path req)]
      (case ws_tenant_id req of None \<Rightarrow> set_request_id (case get_header req ''X-Request-ID'' of None \<Rightarrow> i | Some x \<Rightarrow> x) cx
       | Some t \<Rightarrow> set_tenant_id (fmt_opt t) (set_request_id (case get_header req ''X-Request-ID'' of None \<Rightarrow> i | Some x \<Rightarrow> x) cx))"
  show ?thesis
    using assms unfolding request_tracing_def Let_def on_response_Inr cx'_def [symmetric]
    by (intro exI [of _ cx']) (auto simp: map_of_set_headers split: option.splits)
qed

text \<open>Every answer from inside the limiter has the security headers.\<close>

lemma inner_app_headers:
  assumes "inner_app E endpoint req cx s = (s', Inr r)" "map_of security_headers k = Some v"
  shows "map_of (snd r) k = Some v"
proof -
  obtain cx' where "request_tracing (we_uuid E) (we_ms E)
      (security_headers_middleware (proxy_headers (exception_middleware endpoint))) req cx' s = (s', Inr r)"
    using assms(1) by (auto simp: inner_app_def tenant_context_def Let_def)
  from tracing_keeps_headers [OF this] security_names [OF assms(2)]
  obtain cx' r0 where "security_headers_middleware (proxy_headers (exception_middleware endpoint)) req cx' s = (s', Inr r0)"
    and k: "map_of (snd r) k = map_of (snd r0) k" by blast
  then obtain r1 where "r0 = add_security_headers r1"
    by (auto simp: security_headers_middleware_def on_response_Inr)
  with k assms(2) show ?thesis by (simp add: add_security_headers_def map_of_set_headers rev_security)
qed

text \<open>Nothing between the limiter and the endpoint changes the state.\<close>

lemma inner_app_state: "\<exists>req' cx'. fst (inner_app E endpoint req cx s) = fst (endpoint req' cx' s)"
proof -
  have x: "fst (exception_middleware endpoint req' cx' s) = fst (endpoint req' cx' s)" for req' cx'
    by (auto simp: exception_middleware_def split: prod.splits sum.splits web_exn.splits)
  show ?thesis
    unfolding inner_app_def tenant_context_def request_tracing_def security_headers_middleware_def proxy_headers_def Let_def fst_on_response x
    by blast
qed

section \<open>The limiter in the stack\<close>

lemma sw_dispatch_refuses:
  assumes "path \<notin> set skip_paths"
    and "check_limit R fs cfg now (tenant_key st) (operation_type_of meth) None (fst s) = (s', Inr (False, n))"
  shows "\<exists>hs. (\<forall>call_next. sw_dispatch R fs cfg call_next now st meth path s = ((s', snd s), Inr (429, hs)))
     \<and> (\<forall>k v. map_of security_headers k = Some v \<longrightarrow> map_of hs k = None)"
  using assms by (cases s) (simp add: sw_dispatch_def Let_def security_headers_def)

lemma sw_dispatch_passes:
  assumes "sw_dispatch R fs cfg call_next now st meth path s = (s', Inr r)"
    and "path \<notin> set skip_paths \<Longrightarrow>
      \<nexists>s' n. check_limit R fs cfg now (tenant_key st) (operation_type_of meth) None (fst s) = (s', Inr (False, n))"
  obtains s0 s1 r0 where "call_next (s0, snd s) = (s1, Inr r0)"
    and "\<And>k v. map_of security_headers k = Some v \<Longrightarrow> map_of (snd r) k = map_of (snd r0) k"
proof (cases "path \<in> set skip_paths")
  case True
  with assms(1) show thesis by (intro that [of "fst s" s' r]) (simp_all add: sw_dispatch_def)
next
  case False
  obtain s0 a where c: "check_limit R fs cfg now (tenant_key st) (operation_type_of meth) None (fst s) = (s0, a)"
    by fastforce
  with assms False obtain n where a: "a = Inr (True, n)"
    by (cases s; cases a) (auto simp: sw_dispatch_def Let_def)
  obtain s1 w1 r0 where n: "call_next (s0, snd s) = ((s1, w1), Inr r0)"
    using assms(1) False c a by (cases s) (auto simp: sw_dispatch_def Let_def split: prod.splits sum.splits)
  have "map_of (snd r) k = map_of (snd r0) k" if "map_of security_headers k = Some v" for k v
    using assms(1) False c a n security_names [OF that]
    by (cases s) (auto simp: sw_dispatch_def Let_def map_of_upd_fields split: prod.splits)
  with n show thesis by (intro that)
qed

lemma sw_dispatch_rest:
  assumes "\<And>s. P (snd s) \<Longrightarrow> P (snd (fst (call_next s)))" "P (snd s)"
  shows "P (snd (fst (sw_dispatch R fs cfg call_next now st meth path s)))"
proof -
  have "P (snd s1)" if "call_next (x, snd s) = (s1, r)" for x s1 r
    using assms(1) [of "(x, snd s)"] assms(2) that by simp
  with assms show ?thesis
    by (cases s) (force simp: sw_dispatch_def Let_def split: prod.splits sum.splits)
qed

lemma deferred_rate_limit_rest:
  assumes "\<And>s. P (snd s) \<Longrightarrow> P (snd (fst (call_next req cx s)))" "P (snd s)"
  shows "P (snd (fst (deferred_rate_limit R fs limiter now call_next req cx s)))"
  using assms by (cases limiter) (auto simp: deferred_rate_limit_def intro!: sw_dispatch_rest [where P = P])

text \<open>A request as the limiter gets it, and what is left to do with its answer.\<close>

definition leave :: "string \<Rightarrow> string list \<Rightarrow> ('r \<times> web_rest) \<times> http_response result \<Rightarrow> ('r \<times> web_rest) \<times> http_response result" where
  "leave i old x = (case x of
      (s, Inl e) \<Rightarrow> (s, Inl e)
    | (s, Inr r) \<Rightarrow> ((fst s, (snd s)\<lparr>wb_factory := old\<rparr>), Inr (set_headers [(''X-Request-ID'', i)] r)))"

lemma run_stack_limited:
  assumes "cors_transparent (we_cors E)" "get_header req ''Origin'' = None"
  obtains w req' where "\<And>endpoint. run_stack R fs E endpoint req s =
      leave (we_request_id E) (wb_factory (snd s))
        (deferred_rate_limit R fs (we_limiter E) (we_time E) (inner_app E endpoint) req' empty_context (fst s, w))"
    and "wb_factory w = we_request_id E # wb_factory (snd s)"
    and "ws_tenant_id req' = Some (snd (tenant_of_request (we_auth E) (we_now E) req (wb_auth (snd s))))"
    and "wr_path req' = wr_path req" "wr_method req' = wr_method req"
proof -
  obtain pool t where t: "tenant_of_request (we_auth E) (we_now E) req (wb_auth (snd s)) = (pool, t)" by fastforce
  show thesis
    by (rule that [of "req\<lparr>ws_tenant_id := Some t, ws_request_id := Some (we_request_id E)\<rparr>"
          "(snd s)\<lparr>wb_auth := pool, wb_factory := we_request_id E # wb_factory (snd s)\<rparr>"])
      (simp_all add: run_stack_unfold [OF assms] set_tenant_context_for_rls_def t add_request_id_def leave_def Let_def)
qed

lemma deferred_passes:
  assumes "deferred_rate_limit R fs limiter now (inner_app E endpoint) req cx s = (s', Inr r)"
    and "\<And>cfg s' n. limiter = Some cfg \<Longrightarrow> wr_path req \<notin> set skip_paths \<Longrightarrow>
      check_limit R fs cfg now (tenant_key (ws_tenant_id req)) (operation_type_of (wr_method req)) None (fst s) \<noteq> (s', Inr (False, n))"
    and "map_of security_headers k = Some v"
  shows "map_of (snd r) k = Some v"
proof (cases limiter)
  case None
  with assms(1) have "inner_app E endpoint req cx s = (s', Inr r)" by (simp add: deferred_rate_limit_def)
  from inner_app_headers [OF this assms(3)] show ?thesis .
next
  case (Some cfg)
  with assms(1) have d: "sw_dispatch R fs cfg (inner_app E endpoint req cx) now (ws_tenant_id req) (wr_method req) (wr_path req) s
      = (s', Inr r)" by (simp add: deferred_rate_limit_def)
  obtain s0 s1 r0 where "inner_app E endpoint req cx (s0, snd s) = (s1, Inr r0)" "map_of (snd r) k = map_of (snd r0) k"
    by (rule sw_dispatch_passes [OF d]) (use assms(2,3) Some in blast)+
  with inner_app_headers assms(3) show ?thesis by metis
qed

lemma deferred_refused:
  assumes "limiter_refuses R fs E req s"
    and "ws_tenant_id req' = Some (snd (tenant_of_request (we_auth E) (we_now E) req (wb_auth (snd s))))"
      "wr_path req' = wr_path req" "wr_method req' = wr_method req"
  obtains s' hs where "\<And>call_next cx. deferred_rate_limit R fs (we_limiter E) (we_time E) call_next req' cx (fst s, w)
      = ((s', w), Inr (429, hs))"
    and "\<And>k v. map_of security_headers k = Some v \<Longrightarrow> map_of hs k = None"
proof -
  obtain cfg s2 n where l: "we_limiter E = Some cfg" "wr_path req' \<notin> set skip_paths"
    "check_limit R fs cfg (we_time E) (tenant_key (ws_tenant_id req')) (operation_type_of (wr_method req')) None (fst (fst s, w))
      = (s2, Inr (False, n))"
    using assms by (auto simp: limiter_refuses_def split: option.splits)
  from sw_dispatch_refuses [OF l(2,3)] show thesis using that by (fastforce simp: deferred_rate_limit_def l(1))
qed

lemma leave_Inr:
  "leave i old x = (s', Inr r) \<longleftrightarrow>
     (\<exists>s1 r0. x = (s1, Inr r0) \<and> s' = (fst s1, (snd s1)\<lparr>wb_factory := old\<rparr>) \<and> r = set_headers [(''X-Request-ID'', i)] r0)"
  by (auto simp: leave_def split: prod.splits sum.splits)

section \<open>Answers\<close>

text \<open>
  Which answers carry which headers. An answer the stack produces has the request id the server made for it, whatever
  id the client sent; it has all the security headers, except when the limiter refused the request: then it is a 429
  with none of them, since the limiter is outside the middleware that adds them. An exception no handler knows is
  answered by a 500 without any of these headers.
\<close>

theorem response_headers:
  assumes "cors_transparent (we_cors E)" "get_header req ''Origin'' = None"
  shows "case run_stack R fs E endpoint req s of
      (s', Inl e) \<Rightarrow> serve R fs E endpoint req s = (s', 500, [])
    | (s', Inr (code, hs)) \<Rightarrow> serve R fs E endpoint req s = (s', code, hs)
        \<and> map_of hs ''X-Request-ID'' = Some (we_request_id E)
        \<and> (if limiter_refuses R fs E req s
           then code = 429 \<and> (\<forall>(k, v) \<in> set security_headers. map_of hs k = None)
           else \<forall>(k, v) \<in> set security_headers. map_of hs k = Some v)"
proof (cases "snd (run_stack R fs E endpoint req s)")
  case (Inl e)
  then show ?thesis
    by (cases "run_stack R fs E endpoint req s") (simp add: serve_def json_response_def generic_exception_handler_def)
next
  case (Inr r)
  then obtain s' where run: "run_stack R fs E endpoint req s = (s', Inr r)" by (metis prod.collapse)
  have sec: "map_of security_headers k = Some v" if "(k, v) \<in> set security_headers" for k v
    using that by (auto simp: security_headers_def)
  obtain req' w where l: "\<And>endpoint. run_stack R fs E endpoint req s = leave (we_request_id E) (wb_factory (snd s))
        (deferred_rate_limit R fs (we_limiter E) (we_time E) (inner_app E endpoint) req' empty_context (fst s, w))"
    and "wb_factory w = we_request_id E # wb_factory (snd s)"
    and q: "ws_tenant_id req' = Some (snd (tenant_of_request (we_auth E) (we_now E) req (wb_auth (snd s))))"
      "wr_path req' = wr_path req" "wr_method req' = wr_method req"
    by (rule run_stack_limited [OF assms, of R fs s]) (rule that)
  obtain s1 r0 where d: "deferred_rate_limit R fs (we_limiter E) (we_time E) (inner_app E endpoint) req' empty_context (fst s, w)
        = (s1, Inr r0)" and r: "r = set_headers [(''X-Request-ID'', we_request_id E)] r0"
    using run l by (auto simp: leave_Inr)
  have same: "map_of (snd r) k = map_of (snd r0) k" if "map_of security_headers k = Some v" for k v
    using security_names [OF that] by (simp add: r map_of_set_headers)
  have "fst r = 429 \<and> map_of (snd r) k = None" if "limiter_refuses R fs E req s" "(k, v) \<in> set security_headers" for k v
    by (rule deferred_refused [OF that(1) q, of w]) (use d same [OF sec [OF that(2)]] sec [OF that(2)] in \<open>fastforce simp: r\<close>)
  moreover have "map_of (snd r) k = Some v" if "\<not> limiter_refuses R fs E req s" "(k, v) \<in> set security_headers" for k v
    unfolding same [OF sec [OF that(2)]]
    by (rule deferred_passes [OF d _ sec [OF that(2)]]) (use that(1) q in \<open>auto simp: limiter_refuses_def\<close>)
  moreover have "map_of (snd r) ''X-Request-ID'' = Some (we_request_id E)" by (simp add: r map_of_set_headers)
  ultimately show ?thesis using run by (cases r) (fastforce simp: serve_def security_headers_def)
qed

text \<open>
  Clients without valid credentials share one quota. The tenant of such a request is \<open>None\<close>, and its text is the key
  of the window: once the minute window of that key is full, every request without valid credentials from any client,
  a probe of \<open>/health/ready\<close> or \<open>/health/live\<close> among them, is answered 429 and no endpoint is asked.
\<close>

theorem anonymous_clients_share_quota:
  assumes "redis R c" "cors_transparent (we_cors E)" "get_header req ''Origin'' = None"
    and "we_limiter E = Some cfg" "sw_enabled cfg" "wr_path req \<notin> set skip_paths"
    and "snd (tenant_of_request (we_auth E) (we_now E) req (wb_auth (snd s))) = None"
    and "sw_typed ''None'' (c (fst s))" "minute_full cfg (operation_type_of (wr_method req)) (we_time E) ''None'' (c (fst s))"
  shows "\<exists>s' hs. \<forall>endpoint. serve R fs E endpoint req s = (s', 429, hs)"
proof -
  have refused: "limiter_refuses R fs E req s"
    using minute_full_refuses [OF assms(1,5,8,9), of fs] assms(4,6,7) by (auto simp: limiter_refuses_def tenant_key_def fmt_opt_def)
  obtain req' w where run: "\<And>endpoint. run_stack R fs E endpoint req s = leave (we_request_id E) (wb_factory (snd s))
        (deferred_rate_limit R fs (we_limiter E) (we_time E) (inner_app E endpoint) req' empty_context (fst s, w))"
    and "wb_factory w = we_request_id E # wb_factory (snd s)"
    and q: "ws_tenant_id req' = Some (snd (tenant_of_request (we_auth E) (we_now E) req (wb_auth (snd s))))"
      "wr_path req' = wr_path req" "wr_method req' = wr_method req"
    by (rule run_stack_limited [OF assms(2,3), of R fs s]) (rule that)
  obtain s' hs where "\<And>call_next cx. deferred_rate_limit R fs (we_limiter E) (we_time E) call_next req' cx (fst s, w)
      = ((s', w), Inr (429, hs))"
    by (rule deferred_refused [OF refused q, of w]) (rule that)
  then show ?thesis by (simp add: serve_def run leave_def set_headers_def)
qed

section \<open>The factory of log records\<close>

text \<open>Requests served one after the other, with what the stack made of each.\<close>

fun run_requests :: "'r redis_ops \<Rightarrow> (pyfloat \<Rightarrow> string) \<Rightarrow> 'r endpoint \<Rightarrow> ('r web_env \<times> web_request) list \<Rightarrow> 'r \<times> web_rest
    \<Rightarrow> ('r \<times> web_rest) \<times> (string \<times> http_response result) list" where
  "run_requests R fs endpoint [] s = (s, [])"
| "run_requests R fs endpoint ((E, req) # rs) s =
     (case run_stack R fs E endpoint req s of
        (s, r) \<Rightarrow> map_prod id (Cons (we_request_id E, r)) (run_requests R fs endpoint rs s))"

text \<open>
  \<open>add_request_id\<close> as two events of a process that serves several requests at once: a request saves the factory it
  finds and wraps it, and puts the saved one back when it leaves.
\<close>

datatype log_event = Enter string | Leave string

fun log_step :: "log_event \<Rightarrow> string list \<times> (string \<rightharpoonup> string list) \<Rightarrow> string list \<times> (string \<rightharpoonup> string list)" where
  "log_step (Enter i) (factory, saved) = (i # factory, saved(i \<mapsto> factory))"
| "log_step (Leave i) (factory, saved) = (case saved i of None \<Rightarrow> factory | Some old \<Rightarrow> old, saved)"

lemma add_request_id_events:
  assumes "call_next (req\<lparr>ws_request_id := Some i\<rparr>) cx
      (fst s, (snd s)\<lparr>wb_factory := fst (log_step (Enter i) (wb_factory (snd s), saved))\<rparr>) = (s', Inr r)"
  shows "wb_factory (snd (fst (add_request_id i call_next req cx s)))
    = fst (log_step (Leave i) (log_step (Enter i) (wb_factory (snd s), saved)))"
  using assms by (simp add: add_request_id_def)

definition keeps_factory :: "'r endpoint \<Rightarrow> bool" where
  "keeps_factory endpoint \<longleftrightarrow> (\<forall>req cx s. wb_factory (snd (fst (endpoint req cx s))) = wb_factory (snd s))"

lemma run_stack_factory:
  assumes "cors_transparent (we_cors E)" "get_header req ''Origin'' = None" "keeps_factory endpoint"
    and "run_stack R fs E endpoint req s = (s', r)"
  shows "wb_factory (snd s') = (if isl r then [we_request_id E] else []) @ wb_factory (snd s)"
proof -
  obtain req' w where run: "\<And>endpoint. run_stack R fs E endpoint req s = leave (we_request_id E) (wb_factory (snd s))
        (deferred_rate_limit R fs (we_limiter E) (we_time E) (inner_app E endpoint) req' empty_context (fst s, w))"
    and w: "wb_factory w = we_request_id E # wb_factory (snd s)"
    and "ws_tenant_id req' = Some (snd (tenant_of_request (we_auth E) (we_now E) req (wb_auth (snd s))))"
      "wr_path req' = wr_path req" "wr_method req' = wr_method req"
    by (rule run_stack_limited [OF assms(1,2), of R fs s]) (rule that)
  have inner: "wb_factory (snd (fst (inner_app E endpoint rq cx x))) = wb_factory (snd x)" for rq cx and x :: "'a \<times> web_rest"
    using inner_app_state [of E endpoint rq cx x] assms(3) by (cases x) (auto simp: keeps_factory_def)
  have "wb_factory (snd (fst (deferred_rate_limit R fs (we_limiter E) (we_time E) (inner_app E endpoint) req' empty_context (fst s, w))))
      = we_request_id E # wb_factory (snd s)"
    by (rule deferred_rate_limit_rest [where P = "\<lambda>x. wb_factory x = we_request_id E # wb_factory (snd s)"]) (simp_all add: inner w)
  with assms(4) show ?thesis by (auto simp: run leave_def split: prod.splits sum.splits)
qed

text \<open>
  Log records are given the id of requests long gone. \<open>add_request_id\<close> restores the factory of log records only when the
  rest of the application returns: after any sequence of requests the factory is wrapped in the ids of all those that
  raised an exception, the newest outermost. And two requests that overlap without being nested leave the id of the
  first behind even when neither raises.
\<close>

theorem failed_requests_pile_up:
  assumes "keeps_factory endpoint"
    and "\<forall>(E, req) \<in> set rs. cors_transparent (we_cors E) \<and> get_header req ''Origin'' = None"
    and "run_requests R fs endpoint rs s = (s', outcomes)"
  shows "wb_factory (snd s') = rev (map fst (filter (isl \<circ> snd) outcomes)) @ wb_factory (snd s)
    \<and> (a \<noteq> b \<longrightarrow> fst (fold log_step [Enter a, Enter b, Leave a, Leave b] (factory, saved)) = a # factory)"
proof
  show "wb_factory (snd s') = rev (map fst (filter (isl \<circ> snd) outcomes)) @ wb_factory (snd s)"
    using assms(2,3)
  proof (induction rs arbitrary: s outcomes)
    case (Cons er rs)
    obtain E req where er: "er = (E, req)" by fastforce
    obtain s1 r where r: "run_stack R fs E endpoint req s = (s1, r)" by fastforce
    obtain outs where o: "run_requests R fs endpoint rs s1 = (s', outs)" "outcomes = (we_request_id E, r) # outs"
      using Cons.prems(2) r er by (cases "run_requests R fs endpoint rs s1") auto
    have "wb_factory (snd s1) = (if isl r then [we_request_id E] else []) @ wb_factory (snd s)"
      using Cons.prems(1) er by (intro run_stack_factory [OF _ _ assms(1) r]) auto
    with Cons.IH [OF _ o(1)] Cons.prems(1) o(2) show ?case by auto
  qed simp
qed simp

section \<open>Instances\<close>

definition simple_cors :: "'r middleware" where
  "simple_cors app req cx s =
     (case get_header req ''Origin'' of
        None \<Rightarrow> app req cx s
      | Some origin \<Rightarrow> on_response (set_headers [(''Access-Control-Allow-Origin'', origin)]) (app req cx s))"

lemma simple_cors_transparent: "cors_transparent simple_cors"
  by (simp add: cors_transparent_def simple_cors_def fun_eq_iff)

definition demo_web :: "mem web_env" where
  "demo_web = \<lparr>we_auth = demo_auth_env, we_now = 5, we_time = 5, we_request_id = ''r1'', we_uuid = ''u1'', we_ms = ''1.00ms'',
     we_limiter = Some \<lparr>sw_enabled = True, sw_per_minute = 2, sw_per_hour = 50\<rparr>, we_cors = simple_cors\<rparr>"

definition probe :: "string \<Rightarrow> web_request" where
  "probe path = \<lparr>wr_method = ''GET'', wr_path = path, wr_headers = [(''x-request-id'', ''mine'')], wr_scheme = ''http'',
     wr_server = (''localhost'', None), ws_tenant_id = None, ws_user_id = None, ws_request_id = None\<rparr>"

definition no_auth :: web_rest where
  "no_auth = \<lparr>wb_auth = None, wb_factory = []\<rparr>"

definition answers_200 :: "mem endpoint" where
  "answers_200 req cx s = (s, Inr (200, []))"

definition breaks_down :: "mem endpoint" where
  "breaks_down req cx s = (s, Inl (Raised_Other TypeError))"

definition two_strangers :: mem where
  "two_strangers = [(window_key ''None'' ''minute'', RZSet [(''a'', 1), (''b'', 2)])]"

theorem response_headers_witness:
  "fst (snd (serve mem_ops rat_str demo_web answers_200 (probe ''/api/v1/spaces'') ([], no_auth))) = 200
   \<and> map_of (snd (snd (serve mem_ops rat_str demo_web answers_200 (probe ''/api/v1/spaces'') ([], no_auth)))) ''X-Request-ID'' = Some ''r1''
   \<and> map_of (snd (snd (serve mem_ops rat_str demo_web answers_200 (probe ''/api/v1/spaces'') ([], no_auth)))) ''X-Frame-Options'' = Some ''DENY''"
proof -
  let ?r = "run_stack mem_ops rat_str demo_web answers_200 (probe ''/api/v1/spaces'') ([], no_auth)"
  have ok: "case ?r of (_, Inr (code, _)) \<Rightarrow> code = 200 | _ \<Rightarrow> False" by code_simp
  then obtain s' hs where r: "?r = (s', Inr (200, hs))" by (auto split: prod.splits sum.splits)
  have "we_cors demo_web = simple_cors" "we_request_id demo_web = ''r1''" by (simp_all add: demo_web_def)
  moreover have "get_header (probe ''/api/v1/spaces'') ''Origin'' = None" by code_simp
  ultimately have "serve mem_ops rat_str demo_web answers_200 (probe ''/api/v1/spaces'') ([], no_auth) = (s', 200, hs)
      \<and> map_of hs ''X-Request-ID'' = Some ''r1'' \<and> map_of hs ''X-Frame-Options'' = Some ''DENY''"
    using response_headers [of demo_web "probe ''/api/v1/spaces''" mem_ops rat_str answers_200 "([], no_auth)"] r
    by (fastforce simp: simple_cors_transparent security_headers_def split: if_splits)
  then show ?thesis by simp
qed

theorem anonymous_clients_share_quota_witness:
  "\<exists>s' hs. \<forall>endpoint. serve mem_ops rat_str demo_web endpoint (probe ''/health/ready'') (two_strangers, no_auth) = (s', 429, hs)"
proof (rule anonymous_clients_share_quota [OF mem_redis.redis_axioms])
  show "cors_transparent (we_cors demo_web)" by (simp add: demo_web_def simple_cors_transparent)
  show "we_limiter demo_web = Some \<lparr>sw_enabled = True, sw_per_minute = 2, sw_per_hour = 50\<rparr>" by (simp add: demo_web_def)
  show "sw_typed ''None'' (map_of (fst (two_strangers, no_auth)))"
    by (auto simp: sw_typed_def two_strangers_def windows_def zsetlike_def zset_at_def window_key_def)
  show "minute_full \<lparr>sw_enabled = True, sw_per_minute = 2, sw_per_hour = 50\<rparr> (operation_type_of (wr_method (probe ''/health/ready'')))
      (we_time demo_web) ''None'' (map_of (fst (two_strangers, no_auth)))"
    by code_simp
  show "get_header (probe ''/health/ready'') ''Origin'' = None" "wr_path (probe ''/health/ready'') \<notin> set skip_paths"
    "snd (tenant_of_request (we_auth demo_web) (we_now demo_web) (probe ''/health/ready'') (wb_auth (snd (two_strangers, no_auth)))) = None"
    by code_simp+
qed simp

theorem failed_requests_pile_up_witness:
  "wb_factory (snd (fst (run_requests mem_ops rat_str breaks_down
     [(demo_web, probe ''/api/v1/sites''), (demo_web\<lparr>we_request_id := ''r2''\<rparr>, probe ''/api/v1/sites'')] ([], no_auth)))) = [''r2'', ''r1'']
   \<and> fst (fold log_step [Enter ''r3'', Enter ''r4'', Leave ''r3'', Leave ''r4''] ([], \<lambda>_. None)) = [''r3'']"
proof -
  let ?rs = "[(demo_web, probe ''/api/v1/sites''), (demo_web\<lparr>we_request_id := ''r2''\<rparr>, probe ''/api/v1/sites'')]"
  obtain s' outs where run: "run_requests mem_ops rat_str breaks_down ?rs ([], no_auth) = (s', outs)" by fastforce
  have "map fst (filter (isl \<circ> snd) (snd (run_requests mem_ops rat_str breaks_down ?rs ([], no_auth)))) = [''r1'', ''r2'']"
    by code_simp
  moreover have "keeps_factory breaks_down" by (simp add: keeps_factory_def breaks_down_def)
  moreover have "\<forall>(E, req) \<in> set ?rs. cors_transparent (we_cors E) \<and> get_header req ''Origin'' = None"
    by (simp add: demo_web_def simple_cors_transparent probe_def get_header_def lower_def to_lower_def is_upper_char_def)
  ultimately show ?thesis
    using failed_requests_pile_up [of breaks_down ?rs mem_ops rat_str "([], no_auth)" s' outs "''r3''" "''r4''" "[]" "\<lambda>_. None"] run
    by (simp add: no_auth_def)
qed

end
