(* ===== verification/ChirpStack_Client.thy ===== *)
theory ChirpStack_Client
  imports Downlink_Worker "HOL-Library.Product_Lexorder"
begin

text \<open>
  The ChirpStack client, \<open>src/chirpstack_client.py\<close>: reading and flushing ChirpStack's own tables, queueing downlinks
  over gRPC, connecting and health; and the downlink worker on top of it.

  ChirpStack is outside: \<open>'g\<close> is its state, the gRPC call \<open>Enqueue\<close> an argument, and the locale \<open>chirpstack_server\<close> says what its
  documentation promises of that call. A statement on its database succeeds or raises the exception \<open>fault\<close>.
\<close>

section \<open>Tables and exceptions\<close>

record cs_device_row =
  cd_dev_eui :: "byte list"
  cd_name :: string
  cd_description :: string
  cd_application_id :: uuid
  cd_device_profile_id :: uuid
  cd_enabled_class :: string
  cd_is_disabled :: bool
  cd_battery_level :: "rat option"
  cd_last_seen_at :: "instant option"
  cd_created_at :: "instant option"
  cd_updated_at :: "instant option"

record queue_item =
  qi_id :: string
  qi_dev_eui :: "byte list"
  qi_f_port :: int
  qi_confirmed :: bool
  qi_data :: "byte list"
  qi_is_pending :: bool
  qi_created_at :: instant

record cs_db =
  cs_devices :: "cs_device_row list"
  cs_queue :: "queue_item list"

text \<open>Exceptions by the class the code tells apart; each has its text.\<close>

datatype cs_exn =
    Postgres_Error string
  | Interface_Error string
  | Timeout_Error
  | Client_Error ParkingException
  | Other_Error string

fun exn_str :: "cs_exn \<Rightarrow> string" where
  "exn_str (Postgres_Error m) = m"
| "exn_str (Interface_Error m) = m"
| "exn_str Timeout_Error = []"
| "exn_str (Client_Error e) = pe_message e"
| "exn_str (Other_Error m) = m"

definition raise_client :: "string \<Rightarrow> cs_exn + 'a" where
  "raise_client msg = Inl (Client_Error (ChirpStackError msg None))"

section \<open>The retry decorator\<close>

definition transient :: "cs_exn \<Rightarrow> bool" where
  "transient e = (case e of Postgres_Error _ \<Rightarrow> True | Interface_Error _ \<Rightarrow> True | _ \<Rightarrow> False)"

text \<open>
  \<open>left\<close> of \<open>max_attempts\<close> attempts remain; the second result is the list of waits. The body may change the state
  and raise.
\<close>

fun retry_loop :: "nat \<Rightarrow> rat \<Rightarrow> ('s \<Rightarrow> 's \<times> (cs_exn + 'a)) \<Rightarrow> nat \<Rightarrow> string \<Rightarrow> 's \<Rightarrow> 's \<times> rat list \<times> (cs_exn + 'a)" where
  "retry_loop max_attempts delay func 0 last_error s =
     (s, [], raise_client (''Failed after '' @ nat_str max_attempts @ '' attempts: '' @ last_error))"
| "retry_loop max_attempts delay func (Suc left) last_error s =
     (case func s of
        (s, Inr v) \<Rightarrow> (s, [], Inr v)
      | (s, Inl e) \<Rightarrow>
          if transient e then
            (let attempt = max_attempts - Suc left;
                 waits = (if attempt < max_attempts - 1 then [delay * 2 ^ attempt] else [])
             in case retry_loop max_attempts delay func left (exn_str e) s of
                  (s, ws, r) \<Rightarrow> (s, waits @ ws, r))
          else (s, [], Inl e))"

definition with_retry :: "nat \<Rightarrow> rat \<Rightarrow> ('s \<Rightarrow> 's \<times> (cs_exn + 'a)) \<Rightarrow> 's \<Rightarrow> 's \<times> rat list \<times> (cs_exn + 'a)" where
  "with_retry max_attempts delay func s = retry_loop max_attempts delay func max_attempts ''None'' s"

section \<open>The client\<close>

record cs_client =
  cc_host :: string
  cc_api_key :: string
  cc_dsn :: string
  cc_pool :: bool
  cc_connected :: bool

text \<open>\<open>'/'.join(url.split('/')[:-1])\<close>: what stands before the last slash.\<close>

definition before_last_slash :: "string \<Rightarrow> string" where
  "before_last_slash url = rev (drop 1 (dropWhile (\<lambda>c. c \<noteq> CHR ''/'') (rev url)))"

definition init_client :: "string \<Rightarrow> string \<Rightarrow> string \<Rightarrow> cs_client" where
  "init_client database_url host api_key =
     \<lparr>cc_host = host, cc_api_key = api_key, cc_dsn = before_last_slash database_url @ ''/chirpstack'',
      cc_pool = False, cc_connected = False\<rparr>"

text \<open>How one attempt to connect ends: creating the pool raises, the test queries raise, or they tell whether the table exists.\<close>

datatype connect_outcome = Pool_Fails | Query_Fails | Table_Exists bool

fun connect_loop :: "connect_outcome list \<Rightarrow> nat \<Rightarrow> cs_client \<Rightarrow> cs_client \<times> rat list" where
  "connect_loop [] attempt c = (c, [])"
| "connect_loop (out # outs) attempt c =
     (case out of
        Table_Exists True \<Rightarrow> (c\<lparr>cc_pool := True, cc_connected := True\<rparr>, [])
      | _ \<Rightarrow>
          (let c = (case out of Pool_Fails \<Rightarrow> c | _ \<Rightarrow> c\<lparr>cc_pool := True\<rparr>);
               c = c\<lparr>cc_connected := False\<rparr>
           in case connect_loop outs (attempt + 1) c of
                (c, ws) \<Rightarrow> (c, (if outs \<noteq> [] then [2 ^ attempt] else []) @ ws)))"

definition connect :: "(nat \<Rightarrow> connect_outcome) \<Rightarrow> cs_client \<Rightarrow> cs_client \<times> rat list" where
  "connect outcome c = connect_loop (map outcome [0..<3]) 0 c"

text \<open>Closing is given up after five seconds and its errors are logged; the pool object stays.\<close>

definition disconnect :: "cs_client \<Rightarrow> cs_client" where
  "disconnect c = c\<lparr>cc_connected := False\<rparr>"

definition usable :: "cs_client \<Rightarrow> bool" where
  "usable c = (cc_pool c \<and> cc_connected c)"

record cs_health =
  ch_status :: string
  ch_error :: "string option"
  ch_version :: "string option"
  ch_device_count :: "nat option"
  ch_pool :: "(nat \<times> nat \<times> nat) option"

definition not_healthy :: "string \<Rightarrow> string \<Rightarrow> cs_health" where
  "not_healthy status err = \<lparr>ch_status = status, ch_error = Some err, ch_version = None, ch_device_count = None, ch_pool = None\<rparr>"

definition health_check :: "cs_client \<Rightarrow> cs_exn option \<Rightarrow> nat \<times> nat \<times> nat \<Rightarrow> cs_db \<Rightarrow> cs_health" where
  "health_check c fault pool_stats db =
     (if \<not> usable c then not_healthy ''disconnected'' ''Not connected to ChirpStack database''
      else case fault of
        Some Timeout_Error \<Rightarrow> not_healthy ''timeout'' ''Health check query timed out''
      | Some e \<Rightarrow> not_healthy ''unhealthy'' (exn_str e)
      | None \<Rightarrow> \<lparr>ch_status = ''healthy'', ch_error = None, ch_version = Some ''4.x'',
                 ch_device_count = Some (length (cs_devices db)), ch_pool = Some pool_stats\<rparr>)"

definition get_version :: "cs_health \<Rightarrow> cs_exn + string \<times> string option \<times> nat option" where
  "get_version health =
     (if ch_status health \<noteq> ''healthy''
      then raise_client (''ChirpStack unhealthy: '' @ (case ch_error health of None \<Rightarrow> ''Unknown error'' | Some e \<Rightarrow> e))
      else Inr (''connected'', ch_version health, ch_device_count health))"

section \<open>Devices\<close>

record cs_device_info =
  di_dev_eui :: string
  di_name :: string
  di_description :: string
  di_application_id :: string
  di_is_disabled :: bool
  di_battery_level :: "rat option"
  di_last_seen_at :: "string option"

record cs_device_details = cs_device_info +
  di_device_profile_id :: string
  di_enabled_class :: string
  di_created_at :: "string option"
  di_updated_at :: "string option"

text \<open>\<open>float(x) if x else None\<close>: a level of zero is false as well.\<close>

definition battery_of :: "rat option \<Rightarrow> rat option" where
  "battery_of b = (case b of None \<Rightarrow> None | Some x \<Rightarrow> if x = 0 then None else Some x)"

definition device_info_of :: "(instant \<Rightarrow> string) \<Rightarrow> cs_device_row \<Rightarrow> cs_device_info" where
  "device_info_of isoformat r =
     \<lparr>di_dev_eui = bytes_hex (cd_dev_eui r), di_name = cd_name r, di_description = cd_description r,
      di_application_id = cd_application_id r, di_is_disabled = cd_is_disabled r,
      di_battery_level = battery_of (cd_battery_level r), di_last_seen_at = map_option isoformat (cd_last_seen_at r)\<rparr>"

definition device_details_of :: "(instant \<Rightarrow> string) \<Rightarrow> cs_device_row \<Rightarrow> cs_device_details" where
  "device_details_of isoformat r =
     cs_device_info.extend (device_info_of isoformat r)
       (cs_device_details.fields (cd_device_profile_id r) (cd_enabled_class r)
          (map_option isoformat (cd_created_at r)) (map_option isoformat (cd_updated_at r)))"

definition fromhex_error :: string where
  "fromhex_error = ''non-hexadecimal number found in fromhex() arg''"

text \<open>The bodies the decorator wraps: they read the database and catch every exception themselves.\<close>

definition get_device_body :: "(instant \<Rightarrow> string) \<Rightarrow> cs_client \<Rightarrow> cs_exn option \<Rightarrow> string \<Rightarrow> cs_db
    \<Rightarrow> cs_db \<times> (cs_exn + cs_device_details option)" where
  "get_device_body isoformat c fault dev_eui db =
     (db, if \<not> usable c then Inr None
          else case bytes_fromhex dev_eui of
            None \<Rightarrow> raise_client (''Failed to get device: '' @ fromhex_error)
          | Some eui \<Rightarrow>
              (case fault of
                 Some e \<Rightarrow> raise_client (''Failed to get device: '' @ exn_str e)
               | None \<Rightarrow> Inr (map_option (device_details_of isoformat) (find (\<lambda>r. cd_dev_eui r = eui) (cs_devices db)))))"

definition get_device_count_body :: "cs_client \<Rightarrow> cs_exn option \<Rightarrow> cs_db \<Rightarrow> cs_db \<times> (cs_exn + nat)" where
  "get_device_count_body c fault db =
     (db, if \<not> usable c \<or> fault \<noteq> None then Inr 0 else Inr (sql_count (\<lambda>r. \<not> cd_is_disabled r) (cs_devices db)))"

text \<open>\<open>ORDER BY last_seen_at DESC NULLS LAST\<close>; a negative limit or offset is refused by the database.\<close>

definition seen_order :: "cs_device_row \<Rightarrow> bool \<times> rat" where
  "seen_order r = (case cd_last_seen_at r of None \<Rightarrow> (True, 0) | Some t \<Rightarrow> (False, - t))"

definition get_devices_body :: "(instant \<Rightarrow> string) \<Rightarrow> cs_client \<Rightarrow> cs_exn option \<Rightarrow> int \<Rightarrow> int \<Rightarrow> cs_db
    \<Rightarrow> cs_db \<times> (cs_exn + cs_device_info list)" where
  "get_devices_body isoformat c fault limit offset db =
     (db, if \<not> usable c \<or> fault \<noteq> None \<or> limit < 0 \<or> offset < 0 then Inr []
          else Inr (map (device_info_of isoformat) (take (nat limit) (drop (nat offset) (sort_key seen_order (cs_devices db))))))"

definition client_get_device where
  "client_get_device isoformat c fault dev_eui = with_retry 3 (1 / 2) (get_device_body isoformat c fault dev_eui)"

definition get_device_count where
  "get_device_count c fault = with_retry 3 (1 / 2) (get_device_count_body c fault)"

definition get_devices where
  "get_devices isoformat c fault limit offset = with_retry 3 (1 / 2) (get_devices_body isoformat c fault limit offset)"

section \<open>Downlinks\<close>

datatype payload = Payload_Hex string | Payload_Bytes "byte list"

record enqueue_req =
  er_token :: string
  er_dev_eui :: string
  er_confirmed :: bool
  er_f_port :: int
  er_data :: "byte list"

text \<open>The gRPC call: an RPC error with its details, another exception, or the id of the queue item.\<close>

datatype enqueue_error = Rpc_Error string | Enqueue_Error string

type_synonym 'g enqueue_call = "'g \<Rightarrow> enqueue_req \<Rightarrow> 'g \<times> (enqueue_error + string)"

record queued =
  qd_id :: string
  qd_dev_eui :: string
  qd_f_port :: int
  qd_confirmed :: bool
  qd_data :: string

definition queue_downlink :: "'g enqueue_call \<Rightarrow> cs_client \<Rightarrow> string \<Rightarrow> payload \<Rightarrow> int \<Rightarrow> bool \<Rightarrow> 'g \<Rightarrow> 'g \<times> (cs_exn + queued)" where
  "queue_downlink call c device_eui payload fport confirmed g =
     (case (case payload of Payload_Hex h \<Rightarrow> bytes_fromhex h | Payload_Bytes bs \<Rightarrow> Some bs) of
        None \<Rightarrow> (g, raise_client (''Failed to queue downlink: '' @ fromhex_error))
      | Some payload_bytes \<Rightarrow>
          (case call g \<lparr>er_token = ''Bearer '' @ cc_api_key c, er_dev_eui = device_eui, er_confirmed = confirmed,
                          er_f_port = fport, er_data = payload_bytes\<rparr> of
             (g, Inl (Rpc_Error details)) \<Rightarrow> (g, raise_client (''gRPC error: '' @ details))
           | (g, Inl (Enqueue_Error m)) \<Rightarrow> (g, raise_client (''Failed to queue downlink: '' @ m))
           | (g, Inr queue_id) \<Rightarrow>
               (g, Inr \<lparr>qd_id = queue_id, qd_dev_eui = device_eui, qd_f_port = fport, qd_confirmed = confirmed,
                        qd_data = b64encode payload_bytes\<rparr>)))"

record queue_entry =
  qe_id :: string
  qe_f_port :: int
  qe_confirmed :: bool
  qe_data :: string
  qe_is_pending :: bool
  qe_created_at :: string

definition pending_for :: "byte list \<Rightarrow> queue_item \<Rightarrow> bool" where
  "pending_for eui r = (qi_dev_eui r = eui \<and> qi_is_pending r)"

definition queue_entry_of :: "(instant \<Rightarrow> string) \<Rightarrow> queue_item \<Rightarrow> queue_entry" where
  "queue_entry_of isoformat r =
     \<lparr>qe_id = qi_id r, qe_f_port = qi_f_port r, qe_confirmed = qi_confirmed r, qe_data = b64encode (qi_data r),
      qe_is_pending = qi_is_pending r, qe_created_at = isoformat (qi_created_at r)\<rparr>"

text \<open>Without a pool the attribute access raises, which is caught like any other exception.\<close>

definition get_device_queue :: "(instant \<Rightarrow> string) \<Rightarrow> cs_client \<Rightarrow> cs_exn option \<Rightarrow> string \<Rightarrow> cs_db \<Rightarrow> queue_entry list" where
  "get_device_queue isoformat c fault device_eui db =
     (case bytes_fromhex device_eui of
        None \<Rightarrow> []
      | Some eui \<Rightarrow>
          if \<not> cc_pool c \<or> fault \<noteq> None then []
          else map (queue_entry_of isoformat) (sort_key qi_created_at (filter (pending_for eui) (cs_queue db))))"

definition no_pool_error :: string where
  "no_pool_error = ''NoneType object has no attribute acquire''"

definition flush_device_queue :: "cs_client \<Rightarrow> cs_exn option \<Rightarrow> string \<Rightarrow> cs_db \<Rightarrow> cs_db \<times> (cs_exn + unit)" where
  "flush_device_queue c fault device_eui db =
     (case bytes_fromhex device_eui of
        None \<Rightarrow> (db, raise_client (''Failed to flush device queue: '' @ fromhex_error))
      | Some eui \<Rightarrow>
          if \<not> cc_pool c
          then (db, raise_client (''Failed to flush device queue: '' @ no_pool_error))
          else case fault of
            Some e \<Rightarrow> (db, raise_client (''Failed to flush device queue: '' @ exn_str e))
          | None \<Rightarrow> (db\<lparr>cs_queue := sql_delete (pending_for eui) (cs_queue db)\<rparr>, Inr ()))"

text \<open>
  The worker on this client: \<open>w_send\<close> is \<open>queue_downlink\<close> on the state ChirpStack is in, and what the worker handed over
  has been queued there.
\<close>

definition chirpstack_send :: "'g enqueue_call \<Rightarrow> cs_client \<Rightarrow> 'g \<Rightarrow> DownlinkCommand \<Rightarrow> byte list \<Rightarrow> 'g \<times> (cs_exn + queued)" where
  "chirpstack_send call c g cmd bs =
     queue_downlink call c (dc_device_eui cmd) (Payload_Bytes bs) (dc_fport cmd) (dc_confirmed cmd) g"

definition process_on_chirpstack ::
  "'r redis_ops \<Rightarrow> dl_env \<Rightarrow> 'g enqueue_call \<Rightarrow> cs_client \<Rightarrow> pyfloat \<Rightarrow> DownlinkCommand \<Rightarrow> 'r \<times> 'g
   \<Rightarrow> ('r \<times> 'g) \<times> (DownlinkCommand \<times> byte list) option" where
  "process_on_chirpstack R E call c now cmd sg =
     (case sg of (s, g) \<Rightarrow>
        (let send = (\<lambda>cmd bs. case snd (chirpstack_send call c g cmd bs) of Inl e \<Rightarrow> Some (exn_str e) | Inr _ \<Rightarrow> None)
         in case process_command (redis_worker R E send) now cmd s of
              (s, None) \<Rightarrow> ((s, g), None)
            | (s, Some (cmd, bs)) \<Rightarrow> ((s, fst (chirpstack_send call c g cmd bs)), Some (cmd, bs))))"

section \<open>What ChirpStack promises\<close>

text \<open>
  The documentation of \<open>Enqueue\<close>: an accepted item is added to the queue of its device under the returned id, and it is
  not pending; \<open>is_pending\<close> is set later, when the item has been sent and waits for a confirmation. A refused item
  leaves the queue alone.
\<close>

locale chirpstack_server =
  fixes call :: "'g enqueue_call" and tables :: "'g \<Rightarrow> cs_db"
  assumes accepted: "call g req = (g', Inr i) \<Longrightarrow>
      \<exists>eui t. bytes_fromhex (er_dev_eui req) = Some eui
        \<and> tables g' = (tables g)\<lparr>cs_queue := cs_queue (tables g) @
            [\<lparr>qi_id = i, qi_dev_eui = eui, qi_f_port = er_f_port req, qi_confirmed = er_confirmed req,
              qi_data = er_data req, qi_is_pending = False, qi_created_at = t\<rparr>]\<rparr>"
    and refused: "call g req = (g', Inl e) \<Longrightarrow> tables g' = tables g"
begin

lemma queue_downlink_accepted:
  assumes "queue_downlink call c device_eui payload fport confirmed g = (g', Inr q)"
  obtains eui bs t where "bytes_fromhex device_eui = Some eui"
    and "(case payload of Payload_Hex h \<Rightarrow> bytes_fromhex h | Payload_Bytes bs \<Rightarrow> Some bs) = Some bs"
    and "tables g' = (tables g)\<lparr>cs_queue := cs_queue (tables g) @
            [\<lparr>qi_id = qd_id q, qi_dev_eui = eui, qi_f_port = fport, qi_confirmed = confirmed,
              qi_data = bs, qi_is_pending = False, qi_created_at = t\<rparr>]\<rparr>"
    and "b64decode (qd_data q) = Inr bs"
proof -
  obtain bs where bs: "(case payload of Payload_Hex h \<Rightarrow> bytes_fromhex h | Payload_Bytes bs \<Rightarrow> Some bs) = Some bs"
    using assms by (auto simp: queue_downlink_def raise_client_def split: option.splits)
  let ?req = "\<lparr>er_token = ''Bearer '' @ cc_api_key c, er_dev_eui = device_eui, er_confirmed = confirmed, er_f_port = fport, er_data = bs\<rparr>"
  obtain i where c: "call g ?req = (g', Inr i)" and q: "q = \<lparr>qd_id = i, qd_dev_eui = device_eui, qd_f_port = fport,
      qd_confirmed = confirmed, qd_data = b64encode bs\<rparr>"
    using assms bs by (auto simp: queue_downlink_def raise_client_def split: prod.splits sum.splits enqueue_error.splits)
  from accepted [OF c] bs q that show thesis by auto
qed

end

text \<open>A server in memory that accepts well-formed items.\<close>

definition mem_call :: "cs_db enqueue_call" where
  "mem_call db req =
     (case bytes_fromhex (er_dev_eui req) of
        None \<Rightarrow> (db, Inl (Rpc_Error ''invalid dev_eui''))
      | Some eui \<Rightarrow>
          let i = nat_str (length (cs_queue db)) in
          (db\<lparr>cs_queue := cs_queue db @ [\<lparr>qi_id = i, qi_dev_eui = eui, qi_f_port = er_f_port req, qi_confirmed = er_confirmed req,
             qi_data = er_data req, qi_is_pending = False, qi_created_at = 0\<rparr>]\<rparr>, Inr i))"

interpretation mem_chirpstack: chirpstack_server mem_call "\<lambda>db. db"
  by unfold_locales (auto simp: mem_call_def Let_def split: option.splits)

section \<open>Properties\<close>


text \<open>
  Flushing misses what it is meant to remove. The queue of a device is read and flushed by \<open>is_pending = true\<close>, which
  holds for items already sent: a downlink that was just queued is neither listed nor removed, and a flush that
  reports success leaves it to be sent.
\<close>

theorem unsent_downlink_survives_flush:
  assumes "chirpstack_server call tables"
    and "queue_downlink call c device_eui payload fport confirmed g = (g', Inr q)"
    and "flush_device_queue c' fault device_eui (tables g') = (db, Inr ())"
  shows "\<exists>r. r \<in> set (cs_queue db) \<and> qi_id r = qd_id q
     \<and> get_device_queue isoformat c' fault device_eui (tables g') = get_device_queue isoformat c' fault device_eui (tables g)"
proof -
  obtain eui bs t where e: "bytes_fromhex device_eui = Some eui" and t: "tables g' = (tables g)\<lparr>cs_queue := cs_queue (tables g) @
            [\<lparr>qi_id = qd_id q, qi_dev_eui = eui, qi_f_port = fport, qi_confirmed = confirmed,
              qi_data = bs, qi_is_pending = False, qi_created_at = t\<rparr>]\<rparr>"
    by (rule chirpstack_server.queue_downlink_accepted [OF assms(1,2)])
  define r where "r = \<lparr>qi_id = qd_id q, qi_dev_eui = eui, qi_f_port = fport, qi_confirmed = confirmed,
              qi_data = bs, qi_is_pending = False, qi_created_at = t\<rparr>"
  have r: "\<not> pending_for eui r" "qi_id r = qd_id q" by (simp_all add: r_def pending_for_def)
  have q: "cs_queue (tables g') = cs_queue (tables g) @ [r]" unfolding t r_def by simp
  have "cs_queue db = sql_delete (pending_for eui) (cs_queue (tables g'))"
    using assms(3) e by (auto simp: flush_device_queue_def raise_client_def split: if_splits option.splits)
  then have "r \<in> set (cs_queue db)" unfolding q using r(1) by (simp add: sql_delete_def)
  moreover have "get_device_queue isoformat c' fault device_eui (tables g') = get_device_queue isoformat c' fault device_eui (tables g)"
    using r(1) by (simp add: get_device_queue_def e q)
  ultimately show ?thesis using r(2) by blast
qed

section \<open>Retrying and connecting\<close>

text \<open>The decorator: a call that fails \<open>n\<close> times with a transient error and then succeeds is waited for exponentially.\<close>

lemma retry_loop_recovers:
  assumes "\<And>k. k < n \<Longrightarrow> \<exists>e. snd (func (((fst \<circ> func) ^^ k) s)) = Inl e \<and> transient e"
    and "snd (func (((fst \<circ> func) ^^ n) s)) = Inr v" "n < left" "left \<le> max_attempts"
  shows "retry_loop max_attempts delay func left last_error s =
    (((fst \<circ> func) ^^ Suc n) s, map (\<lambda>k. delay * 2 ^ (max_attempts - left + k)) [0..<n], Inr v)"
  using assms
proof (induction n arbitrary: left last_error s)
  case 0
  then obtain l where "left = Suc l" by (cases left) auto
  with "0.prems"(2) show ?case by (cases "func s") simp
next
  case (Suc n)
  then obtain l where l: "left = Suc l" by (cases left) auto
  obtain s1 e where f: "func s = (s1, Inl e)" "transient e"
    using Suc.prems(1) [of 0] by (cases "func s") auto
  have shift: "((fst \<circ> func) ^^ Suc k) s = ((fst \<circ> func) ^^ k) s1" for k
    using f by (simp add: funpow_swap1)
  have "retry_loop max_attempts delay func l (exn_str e) s1 =
      (((fst \<circ> func) ^^ Suc n) s1, map (\<lambda>k. delay * 2 ^ (max_attempts - l + k)) [0..<n], Inr v)"
  proof (rule Suc.IH)
    show "\<exists>e. snd (func (((fst \<circ> func) ^^ k) s1)) = Inl e \<and> transient e" if "k < n" for k
      using Suc.prems(1) [of "Suc k"] that unfolding shift by simp
    show "snd (func (((fst \<circ> func) ^^ n) s1)) = Inr v" using Suc.prems(2) unfolding shift .
  qed (use Suc.prems l in simp_all)
  moreover have "map (\<lambda>k. delay * 2 ^ (max_attempts - left + k)) [0..<Suc n]
      = delay * 2 ^ (max_attempts - left) # map (\<lambda>k. delay * 2 ^ (max_attempts - l + k)) [0..<n]"
    using l Suc.prems(4) by (simp add: map_upt_Suc Suc_diff_Suc del: upt_Suc)
  moreover have "max_attempts - Suc l < max_attempts - 1" using Suc.prems(3,4) l by simp
  ultimately show ?case unfolding shift using l f by (simp add: Let_def del: funpow.simps upt_Suc)
qed

lemma with_retry_once:
  assumes "\<And>e. snd (func s) = Inl e \<Longrightarrow> \<not> transient e" "0 < max_attempts"
  shows "with_retry max_attempts delay func s = (fst (func s), [], snd (func s))"
  using assms by (cases max_attempts; cases "func s") (auto simp: with_retry_def split: sum.split)

text \<open>Connecting never raises: after three attempts the client is connected exactly when one of them found the table.\<close>

lemma connect_connected: "cc_connected (fst (connect outcome c)) \<longleftrightarrow> (\<exists>k < 3. outcome k = Table_Exists True)"
proof -
  have loop: "cc_connected (fst (connect_loop outs n c)) \<longleftrightarrow> Table_Exists True \<in> set outs" if "outs \<noteq> []" for outs n c
    using that
  proof (induction outs n c rule: connect_loop.induct)
    case (2 out outs n c)
    then show ?case by (cases "outs = []") (auto simp: Let_def split: connect_outcome.splits bool.splits prod.splits)
  qed simp
  have "Table_Exists True \<in> set (map outcome [0..<3]) \<longleftrightarrow> (\<exists>k < 3. outcome k = Table_Exists True)" by force
  with loop [of "map outcome [0..<3]" 0 c] show ?thesis by (simp add: connect_def)
qed

text \<open>
  The lookups are never repeated. They are decorated to be retried up to three times when the database fails, but each
  catches the error itself: whatever the fault, the body runs once, there is no wait, and the listing and the count
  answer as if there were no devices. A body that let the error through would be retried after half a second and a
  second, and would succeed when the third attempt does.
\<close>

theorem lookups_never_retried:
  "client_get_device isoformat c fault dev_eui db = (db, [], snd (get_device_body isoformat c fault dev_eui db))
   \<and> get_device_count c (Some e) db = (db, [], Inr 0)
   \<and> get_devices isoformat c (Some e) limit offset db = (db, [], Inr [])
   \<and> with_retry 3 (1 / 2) (\<lambda>n. (n + 1, if n < 2 then Inl (Postgres_Error m) else Inr v)) (0 :: nat) = (3, [1 / 2, 1], Inr v)"
proof (intro conjI)
  show "client_get_device isoformat c fault dev_eui db = (db, [], snd (get_device_body isoformat c fault dev_eui db))"
    unfolding client_get_device_def
    by (subst with_retry_once) (auto simp: get_device_body_def raise_client_def transient_def split: if_splits option.splits)
  show "get_device_count c (Some e) db = (db, [], Inr 0)" "get_devices isoformat c (Some e) limit offset db = (db, [], Inr [])"
    unfolding get_device_count_def get_devices_def
    by (subst with_retry_once; simp add: get_device_count_body_def get_devices_body_def)+
  show "with_retry 3 (1 / 2) (\<lambda>n. (n + 1, if n < 2 then Inl (Postgres_Error m) else Inr v)) (0 :: nat) = (3, [1 / 2, 1], Inr v)"
    by (simp add: with_retry_def transient_def eval_nat_numeral)
qed

section \<open>Instances\<close>

definition demo_client :: cs_client where
  "demo_client = fst (connect (\<lambda>n. if n = 0 then Pool_Fails else Table_Exists True)
     (init_client ''postgresql://db:5432/parking'' ''chirpstack'' ''key''))"

lemma demo_delivery:
  "cs_queue (snd (fst (process_on_chirpstack mem_ops demo_env mem_call demo_client 7 (new_command demo_env 5 ''c1'' (demo_args ''0AFF''))
       ([], \<lparr>cs_devices = [], cs_queue = []\<rparr>)))) \<noteq> []"
  by code_simp


theorem unsent_downlink_survives_flush_witness:
  "\<exists>g' q db r. queue_downlink mem_call demo_client ''2020202020202020'' (Payload_Hex ''FF'') 15 False \<lparr>cs_devices = [], cs_queue = []\<rparr>
        = (g', Inr q)
     \<and> flush_device_queue demo_client None ''2020202020202020'' g' = (db, Inr ()) \<and> r \<in> set (cs_queue db) \<and> qi_id r = qd_id q"
proof -
  let ?q = "queue_downlink mem_call demo_client ''2020202020202020'' (Payload_Hex ''FF'') 15 False \<lparr>cs_devices = [], cs_queue = []\<rparr>"
  have ok: "\<not> isl (snd ?q)" "\<not> isl (snd (flush_device_queue demo_client None ''2020202020202020'' (fst ?q)))" by code_simp+
  obtain g' q where q: "?q = (g', Inr q)" using ok(1) by (cases ?q; cases "snd ?q") auto
  obtain db where f: "flush_device_queue demo_client None ''2020202020202020'' g' = (db, Inr ())"
    using ok(2) q by (cases "flush_device_queue demo_client None ''2020202020202020'' g'"; cases "snd (flush_device_queue demo_client None ''2020202020202020'' g')") auto
  from unsent_downlink_survives_flush [OF mem_chirpstack.chirpstack_server_axioms q f, of "\<lambda>_. []"] q f
  show ?thesis by blast
qed

end
