(* ===== verification/App_Shell.thy ===== *)
theory App_Shell
  imports ChirpStack_Client Configuration Sliding_Window Accounts_Api
begin

text \<open>
  The shell of the service, the rest of \<open>src/main.py\<close>: start-up and shutdown (\<open>lifespan\<close>), the secret tokens are
  signed with, and the three health endpoints. The state is \<open>app.state\<close>, whose attributes exist once start-up has set
  them; outside services answer or raise as the arguments say.
\<close>

section \<open>Start-up and shutdown\<close>

record app_state =
  ap_jwt_secret :: "string option"
  ap_db_pool :: "bool option"
  ap_rate_limiter :: "sw_config option"
  ap_webhook_spool :: "bool option"
  ap_state_manager :: bool
  ap_chirpstack_client :: "cs_client option"
  ap_gateway_monitor :: "bool option"
  ap_downlink_worker :: "bool option"
  ap_task_manager :: "bool option"

definition empty_app :: app_state where
  "empty_app = \<lparr>ap_jwt_secret = None, ap_db_pool = None, ap_rate_limiter = None, ap_webhook_spool = None,
     ap_state_manager = False, ap_chirpstack_client = None, ap_gateway_monitor = None, ap_downlink_worker = None,
     ap_task_manager = None\<rparr>"

text \<open>What start-up meets: the settings, the environment, and which of its steps raise.\<close>

record startup_env =
  su_settings :: Settings
  su_environ :: environ
  su_database :: "string option"
  su_cache :: "string option"
  su_spool :: "string option"
  su_redis :: "string option"
  su_chirpstack :: "nat \<Rightarrow> connect_outcome"
  su_gateway_pool :: bool

definition int_setting :: "Settings \<Rightarrow> string \<Rightarrow> int" where
  "int_setting st n = (case map_of (st_ints st) n of None \<Rightarrow> 0 | Some v \<Rightarrow> v)"

definition text_setting :: "Settings \<Rightarrow> string \<Rightarrow> string" where
  "text_setting st n = or_empty (map_of (st_texts st) n)"

definition startup_jwt_secret :: "environ \<Rightarrow> Settings \<Rightarrow> string + string" where
  "startup_jwt_secret env st =
     (let s = (case env ''JWT_SECRET_KEY'' of None \<Rightarrow> st_secret_key st | Some v \<Rightarrow> v) in
      if s = [] \<or> length s < 32 then Inl ''JWT_SECRET_KEY must be at least 32 characters'' else Inr s)"

definition limiter_of_settings :: "Settings \<Rightarrow> sw_config" where
  "limiter_of_settings st =
     \<lparr>sw_enabled = (map_of (st_bools st) ''rate_limit_enabled'' = Some True),
      sw_per_minute = int_setting st ''rate_limit_per_minute'', sw_per_hour = int_setting st ''rate_limit_per_hour''\<rparr>"

text \<open>\<open>lifespan\<close> up to its \<open>yield\<close>. A step that raises ends start-up; connecting to ChirpStack and the gateways never raises.\<close>

definition lifespan_startup :: "startup_env \<Rightarrow> app_state \<Rightarrow> app_state \<times> string option" where
  "lifespan_startup E app =
     (case startup_jwt_secret (su_environ E) (su_settings E) of
        Inl e \<Rightarrow> (app, Some e)
      | Inr jwt_secret \<Rightarrow>
     (case su_database E of
        Some e \<Rightarrow> (app, Some (''Cannot connect to database: '' @ e))
      | None \<Rightarrow>
      let app = app\<lparr>ap_db_pool := Some True, ap_jwt_secret := Some jwt_secret\<rparr> in
     (case su_cache E of
        Some e \<Rightarrow> (app, Some e)
      | None \<Rightarrow>
      let app = app\<lparr>ap_rate_limiter := Some (limiter_of_settings (su_settings E))\<rparr> in
     (case su_spool E of
        Some e \<Rightarrow> (app, Some e)
      | None \<Rightarrow>
      let app = app\<lparr>ap_webhook_spool := Some True\<rparr> in
     (case su_redis E of
        Some e \<Rightarrow> (app, Some e)
      | None \<Rightarrow>
      let client = init_client (text_setting (su_settings E) ''database_url'')
                     (text_setting (su_settings E) ''chirpstack_host'') (st_chirpstack_api_key (su_settings E));
          client = fst (connect (su_chirpstack E) client)
      in (app\<lparr>ap_state_manager := True, ap_chirpstack_client := Some client,
              ap_gateway_monitor := Some (su_gateway_pool E), ap_downlink_worker := Some True,
              ap_task_manager := Some True\<rparr>, None))))))"

text \<open>After the \<open>yield\<close>: workers are stopped and pools closed; the attributes stay.\<close>

definition lifespan_shutdown :: "app_state \<Rightarrow> app_state" where
  "lifespan_shutdown app =
     app\<lparr>ap_task_manager := map_option (\<lambda>_. False) (ap_task_manager app),
         ap_downlink_worker := map_option (\<lambda>_. False) (ap_downlink_worker app),
         ap_webhook_spool := map_option (\<lambda>_. False) (ap_webhook_spool app),
         ap_chirpstack_client := map_option disconnect (ap_chirpstack_client app),
         ap_db_pool := map_option (\<lambda>_. False) (ap_db_pool app)\<rparr>"

section \<open>Health endpoints\<close>

text \<open>What the probes meet: failing database and Redis, failing health query of ChirpStack.\<close>

record probe_env =
  pb_database :: "string option"
  pb_redis :: "string option"
  pb_chirpstack :: "cs_exn option"
  pb_pool_stats :: "nat \<times> nat \<times> nat"
  pb_cs_db :: cs_db

type_synonym checks = "(string \<times> string) list"

definition missing :: "string \<Rightarrow> string" where
  "missing a = ''State object has no attribute '' @ a"

text \<open>\<open>GET /health\<close>: the pool reports its sizes without a query, so only a missing pool object fails.\<close>

definition health_endpoint :: "probe_env \<Rightarrow> app_state \<Rightarrow> string \<times> checks" where
  "health_endpoint P app =
     (let (c1, ok1) = (if ap_db_pool app \<noteq> None then (''healthy'', True) else (''unhealthy: '' @ missing ''db_pool'', False));
          (c2, ok2) = (if \<not> ap_state_manager app then (''unhealthy: '' @ missing ''state_manager'', False)
                       else case pb_redis P of None \<Rightarrow> (''healthy'', True) | Some e \<Rightarrow> (''unhealthy: '' @ e, False));
          (c3, ok3) = (case ap_chirpstack_client app of
                         None \<Rightarrow> (''unhealthy: '' @ missing ''chirpstack_client'', False)
                       | Some c \<Rightarrow> (ch_status (health_check c (pb_chirpstack P) (pb_pool_stats P) (pb_cs_db P)), True));
          (c4, ok4) = (case ap_rate_limiter app of
                         None \<Rightarrow> (''unhealthy: '' @ missing ''rate_limiter'', False)
                       | Some l \<Rightarrow> (if sw_enabled l then ''healthy'' else ''disabled'', True))
      in (if ok1 \<and> ok2 \<and> ok3 \<and> ok4 then ''healthy'' else ''degraded'',
          [(''database'', c1), (''redis'', c2), (''chirpstack'', c3), (''rate_limiter'', c4)]))"

text \<open>\<open>ChirpStackClient\<close> has the attributes of \<open>cs_client\<close>; there is no MQTT client among them.\<close>

definition mqtt_connected :: "cs_client \<Rightarrow> string + bool" where
  "mqtt_connected c = Inl ''ChirpStackClient object has no attribute mqtt_client''"

definition readiness_check :: "probe_env \<Rightarrow> app_state \<Rightarrow> nat \<times> string \<times> checks" where
  "readiness_check P app =
     (let (c1, ok1) = (case ap_db_pool app of
                         None \<Rightarrow> (''not ready: '' @ take 100 (missing ''db_pool''), False)
                       | Some b \<Rightarrow> (case pb_database P of
                                     Some e \<Rightarrow> (''not ready: '' @ take 100 e, False)
                                   | None \<Rightarrow> if b then (''ready'', True) else (''not ready: Database pool not initialized'', False)));
          (c2, ok2) = (if \<not> ap_state_manager app then (''not ready: '' @ take 100 (missing ''state_manager''), False)
                       else case pb_redis P of None \<Rightarrow> (''ready'', True) | Some e \<Rightarrow> (''not ready: '' @ take 100 e, False));
          (c3, ok3) = (case ap_chirpstack_client app of
                         None \<Rightarrow> (''not ready: '' @ take 100 (missing ''chirpstack_client''), False)
                       | Some c \<Rightarrow> (case mqtt_connected c of
                                     Inl e \<Rightarrow> (''not ready: '' @ take 100 e, False)
                                   | Inr True \<Rightarrow> (''ready'', True)
                                   | Inr False \<Rightarrow> (''not connected'', False)));
          c4 = (case ap_downlink_worker app of
                  None \<Rightarrow> ''error: '' @ take 100 (missing ''downlink_worker'')
                | Some running \<Rightarrow> if running then ''ready'' else ''not running'');
          checks = [(''database'', c1), (''redis'', c2), (''chirpstack_mqtt'', c3), (''downlink_worker'', c4)]
      in if ok1 \<and> ok2 \<and> ok3 then (200, ''ready'', checks) else (503, ''not_ready'', checks))"

definition worker_check :: "string \<Rightarrow> bool option \<Rightarrow> string" where
  "worker_check a w =
     (case w of None \<Rightarrow> ''error: '' @ take 100 (missing a) | Some running \<Rightarrow> if running then ''alive'' else ''stopped'')"

definition liveness_check :: "app_state \<Rightarrow> nat \<times> string \<times> checks" where
  "liveness_check app =
     (let (c1, alive) = (case ap_task_manager app of
                           None \<Rightarrow> (''error: '' @ take 100 (missing ''task_manager''), False)
                         | Some running \<Rightarrow> if running then (''alive'', True) else (''stopped'', False));
          checks = [(''task_manager'', c1), (''downlink_worker'', worker_check ''downlink_worker'' (ap_downlink_worker app)),
                    (''webhook_spool'', worker_check ''webhook_spool'' (ap_webhook_spool app))]
      in if alive then (200, ''live'', checks) else (503, ''dead'', checks))"

section \<open>Properties\<close>

lemma lifespan_started:
  assumes "lifespan_startup E app = (app', None)"
  obtains client k where "startup_jwt_secret (su_environ E) (su_settings E) = Inr k" "ap_jwt_secret app' = Some k"
    "ap_db_pool app' = Some True" "ap_state_manager app'" "ap_chirpstack_client app' = Some client"
    "ap_rate_limiter app' = Some (limiter_of_settings (su_settings E))" "ap_downlink_worker app' = Some True"
    "ap_task_manager app' = Some True" "ap_webhook_spool app' = Some True" "su_redis E = None" "su_database E = None"
    "cc_connected client \<longleftrightarrow> (\<exists>k < 3. su_chirpstack E k = Table_Exists True)"
  using assms by (auto simp: lifespan_startup_def Let_def connect_connected split: sum.splits option.splits)

text \<open>
  What the health endpoints of a started service can tell. The readiness probe never succeeds: it asks the ChirpStack
  client for an attribute the class does not have, so every answer is 503. \<open>/health\<close> says \<open>healthy\<close> exactly when Redis
  answers, whatever the state of PostgreSQL and ChirpStack. The liveness probe succeeds.
\<close>

theorem health_endpoints:
  assumes "lifespan_startup E empty_app = (app, None)"
  shows "fst (readiness_check P app) = 503
    \<and> fst (health_endpoint P app) = (if pb_redis P = None then ''healthy'' else ''degraded'')
    \<and> fst (liveness_check app) = 200"
  using assms
  by (auto elim!: lifespan_started simp: readiness_check_def mqtt_connected_def health_endpoint_def liveness_check_def Let_def
      split: option.splits)

text \<open>
  Property C33. Tokens can be forged where no secret is configured. Start-up signs tokens with \<open>JWT_SECRET_KEY\<close> of the environment or else
  with \<open>settings.secret_key\<close>; without a secret for the latter the service starts with the key published in the source,
  which is long enough to pass the check, even when \<open>/run/secrets/jwt_secret_key\<close> holds a proper one. Whoever knows that key
  then signs a token for any active member of any active tenant, and it authenticates.
\<close>

theorem published_key_forges_tokens:
  assumes "make_Settings files (su_environ E) fs = Inr (su_settings E)"
    and "su_environ E ''JWT_SECRET_KEY'' = None" "fs_text fs ''secret_key'' = None" "files ''/run/secrets/secret_key'' = None"
    and "\<not> truthy (su_environ E ''SECRET_KEY_FILE'')" "\<not> truthy (su_environ E ''SECRET_KEY'')"
    and "lifespan_startup E empty_app = (app, None)" "ae_secret (ac_auth V) = ap_jwt_secret app"
    and "jwt_ok V" "\<not> ae_fails_jwt (ac_auth V)" "accounts_wf db"
    and u: "u \<in> set (au_users db)" "us_is_active u"
    and m: "m \<in> set (au_memberships db)" "um_user_id m = us_id u" "um_is_active m" "UserRole_of (um_role m) = Some r"
    and tn: "tn \<in> set (au_tenants db)" "tn_id tn = um_tenant_id m" "tn_is_active tn"
    and c: "cl_user_id c = us_id u" "cl_tenant_id c = tn_id tn" "UserRole_of (cl_role c) \<noteq> None"
      "of_int (cl_iat c) \<le> t" "t < of_int (cl_exp c)"
  shows "\<exists>tc. get_current_tenant (ac_auth V) t api_key (Some (ac_encode V c published_secret)) (Some db) = (Some db, Inr tc)
     \<and> tc_user_id tc = Some (us_id u) \<and> tc_tenant_id tc = tn_id tn \<and> tc_user_role tc = Some r"
proof -
  have "normalize_name ''secret_key'' = ''secret_key''" "upper ''secret_key'' = ''SECRET_KEY''" by code_simp+
  then have "secret_field files (su_environ E) fs ''secret_key'' (Some published_secret) = Inr (Some published_secret)"
    using assms(3-6) by (simp add: secret_field_def load_secret_def secret_from_file_def secret_from_env_def Let_def)
  then have st: "st_secret_key (su_settings E) = published_secret"
    using make_Settings_Inr [OF assms(1)] by (metis or_empty_def option.simps(5) sum.inject(2))
  obtain k where "startup_jwt_secret (su_environ E) (su_settings E) = Inr k" "ap_jwt_secret app = Some k"
    using lifespan_started [OF assms(7)] by metis
  with assms(2,8) st have k: "ae_secret (ac_auth V) = Some published_secret"
    by (simp add: startup_jwt_secret_def Let_def split: if_splits)
  let ?tok = "ac_encode V c published_secret"
  obtain role where role: "UserRole_of (cl_role c) = Some role" using c(3) by auto
  have "published_secret \<noteq> []" by (simp add: published_secret_def)
  then obtain td where td: "decode_access_token (ae_decode (ac_auth V)) (ae_local_offset (ac_auth V)) (ae_secret (ac_auth V)) t ?tok = Some td"
      "td_user_id td = us_id u" "td_tenant_id td = tn_id tn"
    using assms(9) c role k by (simp add: jwt_ok_def decode_access_token_def)
  have "?tok \<noteq> []" using assms(9) by (simp add: jwt_ok_def)
  moreover have "resolve_tenant_from_jwt False (Some db) td = Some
    \<lparr>tc_tenant_id = tn_id tn, tc_tenant_name = tn_name tn, tc_tenant_slug = tn_slug tn, tc_user_id = Some (us_id u),
     tc_user_role = Some r, tc_api_key_id = None, tc_api_key_scopes = None, tc_source = ''jwt''\<rparr>"
    using resolve_jwt_intro [OF assms(11) u(1) _ u(2) m(1) _ _ m(3) tn(1) _ tn(3) m(4), of td] td m tn by simp
  ultimately show ?thesis using td(1) assms(10) by (simp add: get_current_tenant_def)
qed

section \<open>Instances\<close>

definition default_startup :: startup_env where
  "default_startup = \<lparr>su_settings = projr (make_Settings (\<lambda>_. None) (\<lambda>_. None) no_source), su_environ = (\<lambda>_. None),
     su_database = None, su_cache = None, su_spool = None, su_redis = None, su_chirpstack = (\<lambda>_. Pool_Fails), su_gateway_pool = False\<rparr>"

lemma default_starts:
  "make_Settings (\<lambda>_. None) (su_environ default_startup) no_source = Inr (su_settings default_startup)"
  "\<exists>app. lifespan_startup default_startup empty_app = (app, None) \<and> ap_jwt_secret app = Some published_secret"
proof -
  obtain st where st: "make_Settings (\<lambda>_. None) (\<lambda>_. None) no_source = Inr st"
    using default_settings by (cases "make_Settings (\<lambda>_. None) (\<lambda>_. None) no_source") auto
  then show "make_Settings (\<lambda>_. None) (su_environ default_startup) no_source = Inr (su_settings default_startup)"
    by (simp add: default_startup_def)
  have "snd (lifespan_startup default_startup empty_app) = None"
    "ap_jwt_secret (fst (lifespan_startup default_startup empty_app)) = Some published_secret" by code_simp+
  then show "\<exists>app. lifespan_startup default_startup empty_app = (app, None) \<and> ap_jwt_secret app = Some published_secret"
    by (metis prod.collapse)
qed

theorem health_endpoints_witness:
  "\<exists>app. lifespan_startup default_startup empty_app = (app, None) \<and> fst (liveness_check app) = 200
     \<and> fst (readiness_check \<lparr>pb_database = None, pb_redis = None, pb_chirpstack = None, pb_pool_stats = (0, 0, 0),
         pb_cs_db = \<lparr>cs_devices = [], cs_queue = []\<rparr>\<rparr> app) = 503"
  using default_starts(2) health_endpoints by blast

definition one_account :: auth_db where
  "one_account = \<lparr>au_api_keys = [],
     au_tenants = [\<lparr>tn_id = ''t1'', tn_name = ''T'', tn_slug = ''t'', tn_is_active = True, tn_metadata = None,
       tn_settings = None, tn_updated_at = 0\<rparr>],
     au_users = [\<lparr>us_id = ''u1'', us_email = ''a@b.c'', us_name = ''A'', us_password_hash = ''h'', us_is_active = True,
       us_email_verified = False, us_metadata = None, us_created_at = 0, us_last_login_at = None\<rparr>],
     au_memberships = [\<lparr>um_id = ''m1'', um_user_id = ''u1'', um_tenant_id = ''t1'', um_role = ''owner'', um_is_active = True,
       um_created_at = 0\<rparr>]\<rparr>"

definition demo_forger :: account_env where
  "demo_forger = demo_account_env\<lparr>ac_auth := (ac_auth demo_account_env)\<lparr>ae_secret := Some published_secret\<rparr>\<rparr>"

definition forged_claims :: claims where
  "forged_claims = \<lparr>cl_user_id = ''u1'', cl_tenant_id = ''t1'', cl_role = ''viewer'', cl_exp = 100, cl_iat = 0\<rparr>"

theorem published_key_forges_tokens_witness:
  "\<exists>tc. get_current_tenant (ac_auth demo_forger) 50 None (Some (ac_encode demo_forger forged_claims published_secret)) (Some one_account)
      = (Some one_account, Inr tc) \<and> tc_user_role tc = Some OWNER"
proof -
  obtain app where app: "lifespan_startup default_startup empty_app = (app, None)" "ap_jwt_secret app = Some published_secret"
    using default_starts(2) by blast
  have V: "ae_secret (ac_auth demo_forger) = ap_jwt_secret app" "jwt_ok demo_forger" "\<not> ae_fails_jwt (ac_auth demo_forger)"
    using demo_jwt demo_account_facts(4) app(2) by (simp_all add: demo_forger_def jwt_ok_def)
  have e: "su_environ default_startup = (\<lambda>_. None)" "fs_text no_source ''secret_key'' = None"
    by (simp_all add: default_startup_def no_source_def)
  have wf: "accounts_wf one_account" by (simp add: accounts_wf_def one_account_def)
  have r: "UserRole_of (um_role (hd (au_memberships one_account))) = Some OWNER" "UserRole_of (cl_role forged_claims) \<noteq> None"
    by code_simp+
  show ?thesis
    using published_key_forges_tokens [OF default_starts(1) _ e(2) _ _ _ app(1) V wf, of "hd (au_users one_account)"
        "hd (au_memberships one_account)" OWNER "hd (au_tenants one_account)" forged_claims 50 None] r e(1)
    by (fastforce simp: one_account_def forged_claims_def)
qed

end
