(* ===== verification/Row_Security.thy ===== *)
theory Row_Security
  imports Prelude
begin

text \<open>
  Connections with a tenant context: \<open>acquire\<close>, \<open>transaction\<close> and \<open>get_db_with_tenant\<close> of \<open>src/database.py\<close>, under the
  row-level security of migration 008.

  A session has a value of \<open>app.current_tenant\<close> of its own, one for the transaction it is in, if any, and the flag that
  it is in one. Outside of a transaction block every statement is a transaction of its own, so \<open>SET LOCAL\<close> there is
  over when it returns. The policies compare the tenant of a row with the setting; no setting matches no row; roles
  with \<open>BYPASSRLS\<close> and superusers are not subject to them.
\<close>

section \<open>Sessions\<close>

record session =
  se_tenant :: "string option"
  se_local :: "string option"
  se_in_transaction :: bool

definition fresh_session :: session where
  "fresh_session = \<lparr>se_tenant = None, se_local = None, se_in_transaction = False\<rparr>"

definition set_local :: "string \<Rightarrow> session \<Rightarrow> session" where
  "set_local t se = (if se_in_transaction se then se\<lparr>se_local := Some t\<rparr> else se)"

definition begin_transaction :: "session \<Rightarrow> session" where
  "begin_transaction se = se\<lparr>se_in_transaction := True, se_local := None\<rparr>"

definition current_setting :: "session \<Rightarrow> string option" where
  "current_setting se = (case se_local se of Some t \<Rightarrow> Some t | None \<Rightarrow> se_tenant se)"

text \<open>What a query on a protected table sees, \<open>tenant_of\<close> being the column the policy reads.\<close>

definition visible_rows :: "bool \<Rightarrow> ('r \<Rightarrow> string) \<Rightarrow> 'r list \<Rightarrow> session \<Rightarrow> 'r list" where
  "visible_rows bypass tenant_of rows se = filter (\<lambda>r. bypass \<or> current_setting se = Some (tenant_of r)) rows"

section \<open>The pool\<close>

text \<open>The body of an \<open>async with\<close> is a function of the session it is given.\<close>

definition acquire :: "bool \<Rightarrow> string option \<Rightarrow> (session \<Rightarrow> 'a) \<Rightarrow> session \<Rightarrow> string + 'a" where
  "acquire has_pool tenant_id body se =
     (if \<not> has_pool then Inl ''Database pool not initialized''
      else Inr (body (if truthy tenant_id then set_local (the tenant_id) se else se)))"

definition transaction :: "bool \<Rightarrow> string option \<Rightarrow> (session \<Rightarrow> 'a) \<Rightarrow> session \<Rightarrow> string + 'a" where
  "transaction has_pool tenant_id body = acquire has_pool tenant_id (\<lambda>se. body (begin_transaction se))"

text \<open>\<open>request.state.tenant_id\<close> stands in for a missing argument; it may be absent, or present and \<open>None\<close>.\<close>

definition get_db_with_tenant ::
  "bool \<Rightarrow> string option option \<Rightarrow> string option \<Rightarrow> (session \<Rightarrow> 'a) \<Rightarrow> session \<Rightarrow> string + 'a" where
  "get_db_with_tenant has_pool state_tenant tenant_id body =
     (let tenant_id = (case (tenant_id, state_tenant) of (None, Some t) \<Rightarrow> t | _ \<Rightarrow> tenant_id)
      in acquire has_pool tenant_id body)"

section \<open>Properties\<close>

text \<open>Set inside the transaction, the context would do what the policies are for.\<close>

lemma set_local_in_transaction:
  "visible_rows False tenant_of rows (set_local t (begin_transaction se)) = filter (\<lambda>r. tenant_of r = t) rows"
  by (auto simp: visible_rows_def set_local_def begin_transaction_def current_setting_def intro: filter_cong)

text \<open>
  The tenant context is never in force. The pool runs \<open>SET LOCAL\<close> before any transaction is open, where it has no
  effect: whatever tenant a connection, a transaction or a request's connection is asked for, a query in it sees the
  rows of all tenants when the role bypasses row security, and no row at all when it does not.
\<close>

theorem tenant_context_never_set:
  assumes "se = fresh_session"
  shows "acquire True t (visible_rows bypass tenant_of rows) se = Inr (if bypass then rows else [])
    \<and> transaction True t (visible_rows bypass tenant_of rows) se = Inr (if bypass then rows else [])
    \<and> get_db_with_tenant True st t (visible_rows bypass tenant_of rows) se = Inr (if bypass then rows else [])"
  by (simp add: assms acquire_def transaction_def get_db_with_tenant_def visible_rows_def set_local_def begin_transaction_def
      current_setting_def fresh_session_def Let_def)

theorem tenant_context_never_set_witness:
  "transaction True (Some ''t1'') (visible_rows True fst [(''t1'', 1 :: nat), (''t2'', 2)]) fresh_session
     = Inr [(''t1'', 1), (''t2'', 2)]"
  using tenant_context_never_set [OF refl, of "Some ''t1''" True fst "[(''t1'', 1 :: nat), (''t2'', 2)]" "Some None"] by simp

end
