(* ===== verification/Audit_Log.thy ===== *)
theory Audit_Log
  imports Models
begin

text \<open>
  The audit log: \<open>src/audit.py\<close> with the table, the function \<open>log_audit_event\<close> and the trigger of migration 007.

  The log is the table in insertion order. Fresh ids, the clock and failing statements are arguments; JSON values are
  texts made by \<open>dumps\<close>.
\<close>

section \<open>Table\<close>

record audit_row =
  au_id :: uuid
  au_created_at :: instant
  au_tenant_id :: uuid
  au_user_id :: "uuid option"
  au_api_key_id :: "uuid option"
  au_actor_type :: string
  au_actor_name :: "string option"
  au_action :: string
  au_resource_type :: string
  au_resource_id :: "uuid option"
  au_old_values :: "string option"
  au_new_values :: "string option"
  au_metadata :: "string option"
  au_ip_address :: "string option"
  au_user_agent :: "string option"
  au_request_id :: "string option"
  au_success :: bool
  au_error_message :: "string option"

definition fits :: "nat \<Rightarrow> string option \<Rightarrow> bool" where
  "fits n s = (case s of None \<Rightarrow> True | Some t \<Rightarrow> length t \<le> n)"

text \<open>The check on the kind of actor, the widths of the columns and the reference to the tenant.\<close>

definition audit_row_ok :: "uuid list \<Rightarrow> audit_row \<Rightarrow> bool" where
  "audit_row_ok tenants r \<longleftrightarrow>
     au_actor_type r \<in> set [''user'', ''api_key'', ''system'', ''webhook''] \<and> fits 255 (au_actor_name r)
     \<and> length (au_action r) \<le> 100 \<and> length (au_resource_type r) \<le> 50 \<and> fits 36 (au_request_id r)
     \<and> au_tenant_id r \<in> set tenants"

text \<open>The trigger: updates and deletes of rows raise.\<close>

datatype audit_change = Update_Row uuid | Delete_Row uuid

definition modify_audit_log :: "audit_change \<Rightarrow> audit_row list \<Rightarrow> audit_row list \<times> string option" where
  "modify_audit_log ch trail =
     (case ch of
        Update_Row i \<Rightarrow> (trail, if list_ex (\<lambda>r. au_id r = i) trail then Some ''Audit trail records cannot be modified'' else None)
      | Delete_Row i \<Rightarrow> (trail, if list_ex (\<lambda>r. au_id r = i) trail then Some ''Audit trail records cannot be deleted'' else None))"

section \<open>Logging\<close>

type_synonym values_dict = "(string \<times> detail) list"

record audit_args =
  aa_tenant_id :: uuid
  aa_action :: string
  aa_resource_type :: string
  aa_actor_type :: string
  aa_resource_id :: "uuid option"
  aa_user_id :: "uuid option"
  aa_api_key_id :: "uuid option"
  aa_actor_name :: "string option"
  aa_old_values :: "values_dict option"
  aa_new_values :: "values_dict option"
  aa_metadata :: "values_dict option"
  aa_ip_address :: "string option"
  aa_user_agent :: "string option"
  aa_request_id :: "string option"
  aa_success :: bool
  aa_error_message :: "string option"

definition audit_defaults :: "uuid \<Rightarrow> string \<Rightarrow> string \<Rightarrow> string \<Rightarrow> audit_args" where
  "audit_defaults tenant_id action resource_type actor_type =
     \<lparr>aa_tenant_id = tenant_id, aa_action = action, aa_resource_type = resource_type, aa_actor_type = actor_type,
      aa_resource_id = None, aa_user_id = None, aa_api_key_id = None, aa_actor_name = None, aa_old_values = None,
      aa_new_values = None, aa_metadata = None, aa_ip_address = None, aa_user_agent = None, aa_request_id = None,
      aa_success = True, aa_error_message = None\<rparr>"

text \<open>\<open>json.dumps(x) if x else None\<close>: an empty dictionary counts as none.\<close>

definition dump_or_none :: "(values_dict \<Rightarrow> string) \<Rightarrow> values_dict option \<Rightarrow> string option" where
  "dump_or_none dumps v = (case v of None \<Rightarrow> None | Some d \<Rightarrow> if d = [] then None else Some (dumps d))"

definition audit_row_of :: "(values_dict \<Rightarrow> string) \<Rightarrow> uuid \<Rightarrow> instant \<Rightarrow> audit_args \<Rightarrow> audit_row" where
  "audit_row_of dumps i now a =
     \<lparr>au_id = i, au_created_at = now, au_tenant_id = aa_tenant_id a, au_user_id = aa_user_id a,
      au_api_key_id = aa_api_key_id a, au_actor_type = aa_actor_type a, au_actor_name = aa_actor_name a,
      au_action = aa_action a, au_resource_type = aa_resource_type a, au_resource_id = aa_resource_id a,
      au_old_values = dump_or_none dumps (aa_old_values a), au_new_values = dump_or_none dumps (aa_new_values a),
      au_metadata = dump_or_none dumps (aa_metadata a), au_ip_address = aa_ip_address a,
      au_user_agent = aa_user_agent a, au_request_id = aa_request_id a, au_success = aa_success a,
      au_error_message = aa_error_message a\<rparr>"

record audit_env =
  ae_dumps :: "values_dict \<Rightarrow> string"
  ae_tenants :: "uuid list"
  ae_fault :: "string option"

text \<open>An error is logged and raised again.\<close>

definition log_action :: "audit_env \<Rightarrow> uuid \<Rightarrow> instant \<Rightarrow> audit_args \<Rightarrow> audit_row list \<Rightarrow> audit_row list \<times> (string + uuid)" where
  "log_action E i now a trail =
     (case ae_fault E of
        Some e \<Rightarrow> (trail, Inl e)
      | None \<Rightarrow>
          let r = audit_row_of (ae_dumps E) i now a
          in if audit_row_ok (ae_tenants E) r then (trail @ [r], Inr i) else (trail, Inl ''constraint violation''))"

definition log_user_action ::
  "audit_env \<Rightarrow> uuid \<Rightarrow> instant \<Rightarrow> uuid \<Rightarrow> uuid \<Rightarrow> string \<Rightarrow> string \<Rightarrow> string \<Rightarrow> uuid option \<Rightarrow> values_dict option
   \<Rightarrow> values_dict option \<Rightarrow> string option \<Rightarrow> bool \<Rightarrow> audit_row list \<Rightarrow> audit_row list \<times> (string + uuid)" where
  "log_user_action E i now tenant_id user_id user_email action resource_type resource_id old_values new_values request_id success =
     log_action E i now ((audit_defaults tenant_id action resource_type ''user'')
       \<lparr>aa_resource_id := resource_id, aa_user_id := Some user_id, aa_actor_name := Some user_email,
        aa_old_values := old_values, aa_new_values := new_values, aa_request_id := request_id, aa_success := success\<rparr>)"

definition log_api_key_action ::
  "audit_env \<Rightarrow> uuid \<Rightarrow> instant \<Rightarrow> uuid \<Rightarrow> uuid \<Rightarrow> string \<Rightarrow> string \<Rightarrow> string \<Rightarrow> uuid option \<Rightarrow> values_dict option
   \<Rightarrow> string option \<Rightarrow> bool \<Rightarrow> audit_row list \<Rightarrow> audit_row list \<times> (string + uuid)" where
  "log_api_key_action E i now tenant_id api_key_id api_key_name action resource_type resource_id new_values request_id success =
     log_action E i now ((audit_defaults tenant_id action resource_type ''api_key'')
       \<lparr>aa_resource_id := resource_id, aa_api_key_id := Some api_key_id, aa_actor_name := Some api_key_name,
        aa_new_values := new_values, aa_request_id := request_id, aa_success := success\<rparr>)"

definition log_system_action ::
  "audit_env \<Rightarrow> uuid \<Rightarrow> instant \<Rightarrow> uuid \<Rightarrow> string \<Rightarrow> string \<Rightarrow> string \<Rightarrow> uuid option \<Rightarrow> values_dict option
   \<Rightarrow> audit_row list \<Rightarrow> audit_row list \<times> (string + uuid)" where
  "log_system_action E i now tenant_id action resource_type system_name resource_id metadata =
     log_action E i now ((audit_defaults tenant_id action resource_type ''system'')
       \<lparr>aa_resource_id := resource_id, aa_actor_name := Some system_name, aa_metadata := metadata\<rparr>)"

section \<open>Reading\<close>

record audit_filter =
  af_action :: "string option"
  af_resource_type :: "string option"
  af_user_id :: "uuid option"

definition when_given :: "string option \<Rightarrow> (string \<Rightarrow> bool) \<Rightarrow> bool" where
  "when_given f P = (truthy f \<longrightarrow> P (the f))"

definition audit_matches :: "uuid \<Rightarrow> audit_filter \<Rightarrow> audit_row \<Rightarrow> bool" where
  "audit_matches tenant_id f r \<longleftrightarrow>
     au_tenant_id r = tenant_id \<and> when_given (af_action f) (\<lambda>x. au_action r = x)
     \<and> when_given (af_resource_type f) (\<lambda>x. au_resource_type r = x) \<and> when_given (af_user_id f) (\<lambda>x. au_user_id r = Some x)"

record audit_entry =
  ay_id :: string
  ay_created_at :: string
  ay_actor_type :: string
  ay_actor_name :: "string option"
  ay_action :: string
  ay_resource_type :: string
  ay_resource_id :: "string option"
  ay_old_values :: "string option"
  ay_new_values :: "string option"
  ay_metadata :: "string option"
  ay_success :: bool
  ay_error_message :: "string option"
  ay_request_id :: "string option"

definition audit_entry_of :: "(instant \<Rightarrow> string) \<Rightarrow> audit_row \<Rightarrow> audit_entry" where
  "audit_entry_of isoformat r =
     \<lparr>ay_id = au_id r, ay_created_at = isoformat (au_created_at r), ay_actor_type = au_actor_type r,
      ay_actor_name = au_actor_name r, ay_action = au_action r, ay_resource_type = au_resource_type r,
      ay_resource_id = au_resource_id r, ay_old_values = au_old_values r, ay_new_values = au_new_values r,
      ay_metadata = au_metadata r, ay_success = au_success r, ay_error_message = au_error_message r,
      ay_request_id = au_request_id r\<rparr>"

text \<open>Newest first; any error, a negative limit or offset among them, is answered by an empty list.\<close>

definition get_tenant_audit_log :: "audit_env \<Rightarrow> (instant \<Rightarrow> string) \<Rightarrow> uuid \<Rightarrow> int \<Rightarrow> int \<Rightarrow> audit_filter \<Rightarrow> audit_row list \<Rightarrow> audit_entry list" where
  "get_tenant_audit_log E isoformat tenant_id limit offset f trail =
     (if ae_fault E \<noteq> None \<or> limit < 0 \<or> offset < 0 then []
      else map (audit_entry_of isoformat) (take (nat limit) (drop (nat offset)
             (sort_key (\<lambda>r. - au_created_at r) (filter (audit_matches tenant_id f) trail)))))"

section \<open>Properties\<close>

text \<open>The operations on the trail and a run of them.\<close>

datatype audit_op = Log_Op audit_env uuid instant audit_args | Modify_Op audit_change

fun audit_step :: "audit_op \<Rightarrow> audit_row list \<Rightarrow> audit_row list" where
  "audit_step (Log_Op E i now a) trail = fst (log_action E i now a trail)"
| "audit_step (Modify_Op ch) trail = fst (modify_audit_log ch trail)"

lemma log_action_cases:
  "fst (log_action E i now a trail) = trail
     \<or> (fst (log_action E i now a trail) = trail @ [audit_row_of (ae_dumps E) i now a]
        \<and> audit_row_ok (ae_tenants E) (audit_row_of (ae_dumps E) i now a))"
  by (auto simp: log_action_def Let_def split: option.split)

lemma log_action_Inr:
  "log_action E i now a trail = (trail', Inr j) \<Longrightarrow> trail' = trail @ [audit_row_of (ae_dumps E) i now a] \<and> j = i \<and> ae_fault E = None"
  by (auto simp: log_action_def Let_def split: option.splits if_splits)

text \<open>
  The trail only grows. Whatever is logged or attempted on the table, by whomever and with whatever faults, the rows of
  before stay as they are and in their places, and every row added names a kind of actor the schema knows.
\<close>

theorem audit_trail_append_only:
  "\<exists>new. fold audit_step ops trail = trail @ new
     \<and> (\<forall>r \<in> set new. au_actor_type r \<in> {''user'', ''api_key'', ''system'', ''webhook''})"
proof (induction ops arbitrary: trail)
  case (Cons x ops)
  obtain new where step: "audit_step x trail = trail @ new"
    and ok: "\<forall>r \<in> set new. au_actor_type r \<in> {''user'', ''api_key'', ''system'', ''webhook''}"
  proof (cases x)
    case (Log_Op E i now a)
    with log_action_cases [of E i now a trail] that [of "[]"] that [of "[audit_row_of (ae_dumps E) i now a]"]
    show thesis by (auto simp: audit_row_ok_def)
  next
    case (Modify_Op ch)
    with that [of "[]"] show thesis by (cases ch) (simp_all add: modify_audit_log_def)
  qed
  obtain more where "fold audit_step ops (trail @ new) = (trail @ new) @ more"
    "\<forall>r \<in> set more. au_actor_type r \<in> {''user'', ''api_key'', ''system'', ''webhook''}"
    using Cons.IH by blast
  with step ok show ?case by (intro exI [of _ "new @ more"]) auto
qed simp

lemma sort_key_newest: "\<forall>x \<in> set xs. k y < (k x :: rat) \<Longrightarrow> sort_key k (xs @ [y]) = y # sort_key k xs"
  by (induction xs) auto

text \<open>
  What is logged is read back, by its tenant only. After an action has been logged the log of its tenant, under any
  filter the action satisfies, starts with it when it is newer than the rows before; and every entry of any answer
  comes from a row of the tenant asked for.
\<close>

theorem logged_action_listed:
  assumes "log_action E i now a trail = (trail', Inr j)" "0 < limit"
    and "audit_matches (aa_tenant_id a) f (audit_row_of (ae_dumps E) i now a)" "\<forall>r \<in> set trail. au_created_at r < now"
  shows "hd (get_tenant_audit_log E isoformat (aa_tenant_id a) limit 0 f trail') = audit_entry_of isoformat (audit_row_of (ae_dumps E) i now a)
    \<and> (\<forall>t l off g. \<forall>e \<in> set (get_tenant_audit_log E isoformat t l off g trail').
          \<exists>r \<in> set trail'. au_tenant_id r = t \<and> e = audit_entry_of isoformat r)"
proof -
  let ?r = "audit_row_of (ae_dumps E) i now a"
  have t: "trail' = trail @ [?r]" "ae_fault E = None" using log_action_Inr [OF assms(1)] by simp_all
  have "au_created_at ?r = now" by (simp add: audit_row_of_def)
  then have "sort_key (\<lambda>r. - au_created_at r) (filter (audit_matches (aa_tenant_id a) f) trail')
      = ?r # sort_key (\<lambda>r. - au_created_at r) (filter (audit_matches (aa_tenant_id a) f) trail)"
    using assms(3,4) by (simp add: t sort_key_newest)
  moreover obtain n where "nat limit = Suc n" using assms(2) by (cases "nat limit") auto
  ultimately have "hd (get_tenant_audit_log E isoformat (aa_tenant_id a) limit 0 f trail') = audit_entry_of isoformat ?r"
    using assms(2) t(2) by (simp add: get_tenant_audit_log_def)
  moreover have "\<exists>r \<in> set trail'. au_tenant_id r = t \<and> e = audit_entry_of isoformat r"
    if "e \<in> set (get_tenant_audit_log E isoformat t l off g trail')" for e t l off g
    using that by (auto simp: get_tenant_audit_log_def audit_matches_def split: if_splits dest!: in_set_takeD in_set_dropD)
  ultimately show ?thesis by blast
qed

definition demo_audit :: audit_env where
  "demo_audit = \<lparr>ae_dumps = (\<lambda>_. ''{}''), ae_tenants = [''t1''], ae_fault = None\<rparr>"

definition demo_action :: audit_args where
  "demo_action = audit_defaults ''t1'' ''space.create'' ''space'' ''user''"

theorem logged_action_listed_witness:
  "\<exists>trail'. log_action demo_audit ''a1'' 5 demo_action [] = (trail', Inr ''a1'')
     \<and> ay_action (hd (get_tenant_audit_log demo_audit (\<lambda>_. []) ''t1'' 10 0
          \<lparr>af_action = Some ''space.create'', af_resource_type = None, af_user_id = None\<rparr> trail')) = ''space.create''"
proof -
  let ?f = "\<lparr>af_action = Some ''space.create'', af_resource_type = None, af_user_id = None\<rparr>"
  have "\<exists>trail'. log_action demo_audit ''a1'' 5 demo_action [] = (trail', Inr ''a1'')"
    by (simp add: log_action_def demo_audit_def demo_action_def audit_defaults_def audit_row_of_def audit_row_ok_def fits_def dump_or_none_def Let_def)
  then obtain trail' where l: "log_action demo_audit ''a1'' 5 demo_action [] = (trail', Inr ''a1'')" ..
  have "audit_matches (aa_tenant_id demo_action) ?f (audit_row_of (ae_dumps demo_audit) ''a1'' 5 demo_action)" by code_simp
  from logged_action_listed [OF l _ this, of 10 "\<lambda>_. []"] l show ?thesis
    by (auto simp: demo_action_def audit_defaults_def audit_entry_of_def audit_row_of_def)
qed

end
