(* ===== verification/Unscoped_Spaces.thy ===== *)
theory Unscoped_Spaces
  imports Spaces_Api Reservation_Api
begin

text \<open>
  The older router for spaces, \<open>src/routers/spaces.py\<close>: the same table as the tenant-scoped one, without tenants. The
  file is part of the service but \<open>main.py\<close> mounts the tenant-scoped router instead.

  Every handler turns an unexpected exception (\<open>fails\<close>) into a 500. \<open>collate\<close> is the order of texts of the database,
  \<open>instant_of\<close> how the driver reads a time.
\<close>

section \<open>Reading\<close>

record unscoped_filters =
  uf_building :: "string option"
  uf_floor :: "string option"
  uf_zone :: "string option"
  uf_state :: "SpaceState option"
  uf_include_deleted :: bool

definition unscoped_matches :: "unscoped_filters \<Rightarrow> space_row \<Rightarrow> bool" where
  "unscoped_matches f r =
     (filter_is (uf_building f) (sp_building r) \<and> filter_is (uf_floor f) (sp_floor r) \<and> filter_is (uf_zone f) (sp_zone r)
      \<and> filter_is (uf_state f) (Some (sp_state r)) \<and> (uf_include_deleted f \<or> alive r))"

definition unscoped_list :: "(string \<Rightarrow> int) \<Rightarrow> bool \<Rightarrow> unscoped_filters \<Rightarrow> pdb \<Rightarrow> http_error + space_row list \<times> nat" where
  "unscoped_list collate fails f db =
     (if fails then Inl server_error
      else let spaces = sort_key (\<lambda>r. collate (sp_name r)) (filter (unscoped_matches f) (db_spaces db))
           in Inr (spaces, length spaces))"

record sensor_list =
  sl_sensor_deveuis :: "string list"
  sl_sensor_to_space :: "(string \<times> uuid) list"
  sl_count :: nat

definition get_sensor_list :: "bool \<Rightarrow> pdb \<Rightarrow> http_error + sensor_list" where
  "get_sensor_list fails db =
     (if fails then Inl server_error
      else let rows = List.map_filter (\<lambda>r. if alive r then map_option (\<lambda>e. (e, sp_id r)) (sp_sensor_eui r) else None) (db_spaces db)
           in Inr \<lparr>sl_sensor_deveuis = map fst rows, sl_sensor_to_space = fold (\<lambda>(e, i). AList.update e i) rows [],
                   sl_count = length rows\<rparr>)"

record availability =
  av_space :: space_row
  av_is_available :: bool
  av_reservations :: "Reservation list"

text \<open>Comparing a naive with an aware time raises, which the last handler turns into a 500.\<close>

definition get_space_availability ::
  "(datetime \<Rightarrow> instant) \<Rightarrow> bool \<Rightarrow> uuid \<Rightarrow> datetime \<Rightarrow> datetime \<Rightarrow> pdb \<Rightarrow> http_error + availability" where
  "get_space_availability instant_of fails space_id from_time to_time db =
     (case dt_gt to_time from_time of
        Inl _ \<Rightarrow> Inl server_error
      | Inr False \<Rightarrow> Inl (HTTPException 400 (apostrophed ''to'' @ '' time must be after '' @ apostrophed ''from'' @ '' time''))
      | Inr True \<Rightarrow>
          if fails then Inl server_error
          else (case find (\<lambda>r. sp_id r = space_id \<and> alive r) (db_spaces db) of
                  None \<Rightarrow> Inl (HTTPException 404 (''Space '' @ space_id @ '' not found''))
                | Some space \<Rightarrow>
                    let reservations = sort_key rv_start_time
                          (filter (\<lambda>r. rv_space_id r = space_id \<and> live_status (rv_status r)
                                       \<and> overlaps (rv_start_time r) (rv_end_time r) (instant_of from_time) (instant_of to_time)) (db_reservations db))
                    in Inr \<lparr>av_space = space, av_is_available = (reservations = []), av_reservations = reservations\<rparr>))"

text \<open>The columns of \<open>display_devices\<close> joined in besides are not part of the model.\<close>

record space_detail =
  sl_space :: space_row
  sl_sensor :: "sensor_device_row option"
  sl_last_state_change :: "state_change option"
  sl_active_reservation :: "Reservation option"

text \<open>Deleted spaces are found too; of the reservations still to end the one that starts last is shown.\<close>

definition unscoped_get :: "bool \<Rightarrow> instant \<Rightarrow> uuid \<Rightarrow> pdb \<Rightarrow> http_error + space_detail" where
  "unscoped_get fails now space_id db =
     (if fails then Inl server_error
      else case find (\<lambda>r. sp_id r = space_id) (db_spaces db) of
        None \<Rightarrow> Inl (HTTPException 404 (''Space '' @ space_id @ '' not found''))
      | Some space \<Rightarrow>
          Inr \<lparr>sl_space = space,
               sl_sensor = Option.bind (sp_sensor_device_id space) (\<lambda>i. find (\<lambda>d. sd_id d = i) (db_sensor_devices db)),
               sl_last_state_change = first_desc sc_timestamp (filter (\<lambda>c. sc_space_id c = space_id) (db_state_changes db)),
               sl_active_reservation = first_desc rv_start_time
                 (filter (\<lambda>r. rv_space_id r = space_id \<and> live_status (rv_status r) \<and> now < rv_end_time r) (db_reservations db))\<rparr>)"

section \<open>Changing\<close>

text \<open>
  The devices a request names must be registered: the id of the sensor, and whether the display is known. An empty
  text names none when a space is created.
\<close>

definition lookup_sensor :: "pdb \<Rightarrow> string \<Rightarrow> http_error + uuid" where
  "lookup_sensor db eui =
     (case find (\<lambda>d. sd_dev_eui d = eui) (db_sensor_devices db) of
        None \<Rightarrow> Inl (HTTPException 400 (''Sensor device '' @ eui @ '' not found in registry''))
      | Some d \<Rightarrow> Inr (sd_id d))"

definition lookup_display :: "string list \<Rightarrow> string \<Rightarrow> http_error + unit" where
  "lookup_display displays eui =
     (if eui \<in> set displays then Inr () else Inl (HTTPException 400 (''Display device '' @ eui @ '' not found in registry'')))"

definition optional_check :: "('a \<Rightarrow> http_error + 'b) \<Rightarrow> 'a option \<Rightarrow> http_error + 'b option" where
  "optional_check check v = (case v of None \<Rightarrow> Inr None | Some x \<Rightarrow> (case check x of Inl e \<Rightarrow> Inl e | Inr y \<Rightarrow> Inr (Some y)))"

definition non_empty :: "string option \<Rightarrow> string option" where
  "non_empty v = (if truthy v then v else None)"

text \<open>The insert names no site.\<close>

definition unscoped_create :: "bool \<Rightarrow> bool \<Rightarrow> uuid \<Rightarrow> instant \<Rightarrow> SpaceCreate \<Rightarrow> spaces_world \<Rightarrow> spaces_world \<times> (http_error + space_row)" where
  "unscoped_create jsonb_dict fails i now space w =
     (if fails then (w, Inl server_error)
      else case optional_check (lookup_sensor (sw_db w)) (non_empty (sn_sensor_eui space)) of
        Inl e \<Rightarrow> (w, Inl e)
      | Inr sensor_id \<Rightarrow>
      (case optional_check (lookup_display (sw_displays w)) (non_empty (sn_display_eui space)) of
        Inl e \<Rightarrow> (w, Inl e)
      | Inr _ \<Rightarrow>
      if sn_metadata space \<noteq> None \<and> \<not> jsonb_dict then (w, Inl server_error)
      else (case spaces_sync_tenant_id (sw_sites w)
              ((new_space_row i now space)\<lparr>sp_sensor_eui := sn_sensor_eui space, sp_display_eui := sn_display_eui space,
                 sp_sensor_device_id := sensor_id, sp_metadata := sn_metadata space\<rparr>) of
         Inl _ \<Rightarrow> (w, Inl server_error)
       | Inr r \<Rightarrow>
           (case store_space (db_spaces (sw_db w)) r of
              None \<Rightarrow> (w, Inl server_error)
            | Some row \<Rightarrow> (w\<lparr>sw_db := (sw_db w)\<lparr>db_spaces := db_spaces (sw_db w) @ [row]\<rparr>\<rparr>, Inr row)))))"

definition unscoped_patch :: "SpaceUpdate \<Rightarrow> uuid option \<Rightarrow> space_row \<Rightarrow> space_row" where
  "unscoped_patch u sensor_id r =
     (let r = patch_space u r in case sensor_id of None \<Rightarrow> r | Some i \<Rightarrow> r\<lparr>sp_sensor_device_id := Some i\<rparr>)"

definition unscoped_update ::
  "bool \<Rightarrow> bool \<Rightarrow> instant \<Rightarrow> uuid \<Rightarrow> SpaceUpdate \<Rightarrow> spaces_world \<Rightarrow> spaces_world \<times> (http_error + space_row)" where
  "unscoped_update jsonb_dict fails now space_id u w =
     (if fails then (w, Inl server_error)
      else if \<not> sql_exists (\<lambda>r. sp_id r = space_id \<and> alive r) (db_spaces (sw_db w))
      then (w, Inl (HTTPException 404 (''Space '' @ space_id @ '' not found'')))
      else case optional_check (lookup_sensor (sw_db w)) (some_field (su_sensor_eui u)) of
        Inl e \<Rightarrow> (w, Inl e)
      | Inr sensor_id \<Rightarrow>
      (case optional_check (lookup_display (sw_displays w)) (some_field (su_display_eui u)) of
        Inl e \<Rightarrow> (w, Inl e)
      | Inr _ \<Rightarrow>
          if nothing_set u then (w, Inl (HTTPException 400 ''No fields to update''))
          else if some_field (su_metadata u) \<noteq> None \<and> \<not> jsonb_dict then (w, Inl server_error)
          else (case rewrite_space (\<lambda>_. True) (\<lambda>r. (unscoped_patch u sensor_id r)\<lparr>sp_updated_at := now\<rparr>) space_id w of
                  (w, None) \<Rightarrow> (w, Inl server_error)
                | (w, Some (Inl e)) \<Rightarrow> (w, Inl e)
                | (w, Some (Inr out)) \<Rightarrow> (w, Inr (so_row out)))))"

text \<open>Only reservations with the status \<open>active\<close> count, and only these are cancelled.\<close>

definition counts_as_active :: "instant \<Rightarrow> uuid \<Rightarrow> Reservation \<Rightarrow> bool" where
  "counts_as_active now space_id r = (rv_space_id r = space_id \<and> rv_status r = ACTIVE \<and> now < rv_end_time r)"

definition unscoped_delete :: "bool \<Rightarrow> instant \<Rightarrow> uuid \<Rightarrow> bool \<Rightarrow> pdb \<Rightarrow> pdb \<times> (http_error + nat)" where
  "unscoped_delete fails now space_id force db =
     (if fails then (db, Inl server_error)
      else case find (\<lambda>r. sp_id r = space_id) (db_spaces db) of
        None \<Rightarrow> (db, Inl (HTTPException 404 (''Space '' @ space_id @ '' not found'')))
      | Some existing \<Rightarrow>
          if sp_deleted_at existing \<noteq> None then (db, Inl (HTTPException 400 (''Space '' @ space_id @ '' is already deleted'')))
          else let active = sql_count (counts_as_active now space_id) (db_reservations db) in
            if active > 0 \<and> \<not> force
            then (db, Inl (HTTPException 400 (''Space has '' @ nat_str active @ '' active reservation(s). Use force=true to delete anyway.'')))
            else let db = (if force \<and> active > 0
                           then db\<lparr>db_reservations := sql_update (counts_as_active now space_id)
                                     (\<lambda>r. r\<lparr>rv_status := CANCELLED\<rparr>) (db_reservations db)\<rparr> else db)
                 in (db\<lparr>db_spaces := sql_update (\<lambda>r. sp_id r = space_id)
                          (\<lambda>r. r\<lparr>sp_deleted_at := Some now, sp_updated_at := now\<rparr>) (db_spaces db)\<rparr>,
                     Inr (if force then active else 0)))"

text \<open>Restoring is an update like any other: it passes the trigger and the unique constraints.\<close>

definition restore_space :: "bool \<Rightarrow> instant \<Rightarrow> uuid \<Rightarrow> pdb \<Rightarrow> pdb \<times> (http_error + string)" where
  "restore_space fails now space_id db =
     (if fails then (db, Inl server_error)
      else case find (\<lambda>r. sp_id r = space_id) (db_spaces db) of
        None \<Rightarrow> (db, Inl (HTTPException 404 (''Space '' @ space_id @ '' not found'')))
      | Some existing \<Rightarrow>
          if sp_deleted_at existing = None then (db, Inl (HTTPException 400 (''Space '' @ space_id @ '' is not deleted'')))
          else (case store_space (filter (\<lambda>r. sp_id r \<noteq> space_id) (db_spaces db))
                       (existing\<lparr>sp_deleted_at := None, sp_updated_at := now\<rparr>) of
                  None \<Rightarrow> (db, Inl server_error)
                | Some row \<Rightarrow>
                    (db\<lparr>db_spaces := sql_update (\<lambda>r. sp_id r = space_id) (\<lambda>_. row) (db_spaces db)\<rparr>, Inr (sp_name existing))))"

section \<open>Properties\<close>

text \<open>No space can be created here: the trigger of the table refuses a row without a site.\<close>

theorem unscoped_create_refused: "\<exists>e. unscoped_create jsonb_dict fails i now space w = (w, Inl e)"
  by (auto simp: unscoped_create_def spaces_sync_tenant_id_def new_space_row_def split: sum.split)

lemma sort_key_Nil: "sort_key k xs = [] \<longleftrightarrow> xs = []"
  by (metis length_0_conv length_sort)

text \<open>
  What the endpoint calls available is what the exclusion constraint accepts: a pending or confirmed booking of the
  period that meets the other constraints is inserted exactly if the space was reported available.
\<close>

theorem availability_decides_booking:
  assumes "get_space_availability instant_of fails space_id from_time to_time db = Inr a"
    and "rv_space_id row = space_id" "rv_start_time row = instant_of from_time" "rv_end_time row = instant_of to_time"
    and "live_status (rv_status row)"
    and "rv_start_time row < rv_end_time row" "rv_end_time row - rv_start_time row \<le> 86400"
    and "rv_id row \<notin> rv_id ` set (db_reservations db)" "rv_request_id row \<notin> rv_request_id ` set (db_reservations db)"
  shows "av_is_available a \<longleftrightarrow> insert_reservation db row = Inr (db\<lparr>db_reservations := db_reservations db @ [row]\<rparr>)"
proof -
  let ?P = "\<lambda>r. rv_space_id r = space_id \<and> live_status (rv_status r)
      \<and> overlaps (rv_start_time r) (rv_end_time r) (instant_of from_time) (instant_of to_time)"
  have "av_is_available a \<longleftrightarrow> (\<forall>r\<in>set (db_reservations db). \<not> ?P r)"
    using assms(1) by (auto simp: get_space_availability_def Let_def filter_empty_conv sort_key_Nil
        split: sum.splits bool.splits if_splits option.splits)
  moreover have "?P r = excludes row r" for r
    using assms(2-5) by (auto simp: excludes_def overlaps_def)
  ultimately show ?thesis
    using assms(6-9) by (auto simp: insert_reservation_def list_ex_iff image_iff)
qed

lemma deleted_unfound:
  "find (\<lambda>r. sp_id r = i \<and> alive r)
     (sql_update (\<lambda>r. sp_id r = i) (\<lambda>r. r\<lparr>sp_deleted_at := Some now, sp_updated_at := now\<rparr>) t) = None"
  by (induction t) (simp_all add: sql_update_def alive_def)

text \<open>
  Bookings do not protect a space: pending and confirmed reservations, the ones the reservation API makes, are not
  counted, so without \<open>force\<close> the space is deleted under them and none is cancelled.
\<close>

theorem booked_space_deleted:
  assumes "find (\<lambda>r. sp_id r = space_id) (db_spaces db) = Some s" "alive s"
    and "\<forall>r\<in>set (db_reservations db). rv_status r \<noteq> ACTIVE"
  shows "\<exists>db'. unscoped_delete False now space_id force db = (db', Inr 0) \<and> db_reservations db' = db_reservations db
           \<and> get_space db' space_id = None"
proof -
  have none: "sql_count (counts_as_active now space_id) (db_reservations db) = 0"
    using assms(3) by (auto simp: sql_count_def counts_as_active_def filter_empty_conv)
  let ?t = "sql_update (\<lambda>r. sp_id r = space_id) (\<lambda>r. r\<lparr>sp_deleted_at := Some now, sp_updated_at := now\<rparr>) (db_spaces db)"
  have "unscoped_delete False now space_id force db = (db\<lparr>db_spaces := ?t\<rparr>, Inr 0)"
    using assms(1,2) none by (simp add: unscoped_delete_def alive_def Let_def)
  moreover have "get_space (db\<lparr>db_spaces := ?t\<rparr>) space_id = None"
    by (simp add: get_space_def deleted_unfound)
  ultimately show ?thesis by simp
qed

lemma find_updated:
  "find (\<lambda>r. sp_id r = i) t = Some s \<Longrightarrow> (\<And>r. sp_id (f r) = sp_id r) \<Longrightarrow>
   find (\<lambda>r. sp_id r = i) (sql_update (\<lambda>r. sp_id r = i) f t) = Some (f s)"
  by (induction t) (auto simp: sql_update_def split: if_splits)

lemma others_updated:
  "(\<And>r. sp_id (f r) = sp_id r) \<Longrightarrow>
   filter (\<lambda>r. sp_id r \<noteq> i) (sql_update (\<lambda>r. sp_id r = i) f t) = filter (\<lambda>r. sp_id r \<noteq> i) t"
  by (induction t) (auto simp: sql_update_def)

lemma updated_twice:
  "(\<And>r. sp_id (f r) = sp_id r) \<Longrightarrow> sql_update (\<lambda>r. sp_id r = i) g (sql_update (\<lambda>r. sp_id r = i) f t)
     = sql_update (\<lambda>r. sp_id r = i) (g \<circ> f) t"
  by (induction t) (auto simp: sql_update_def)

lemma enforce_fixes: "eui_upper r \<Longrightarrow> enforce_eui_uppercase r = r"
  by (cases r) (simp add: eui_upper_def enforce_eui_uppercase_def)

lemma store_restored:
  assumes "eui_upper s" "alive s" "space_unique_violation others s = None"
  shows "store_space others (s\<lparr>sp_deleted_at := None, sp_updated_at := now\<rparr>) = Some (s\<lparr>sp_updated_at := now\<rparr>)"
proof -
  have s: "s\<lparr>sp_deleted_at := None, sp_updated_at := now\<rparr> = s\<lparr>sp_updated_at := now\<rparr>"
    using assms(2) by (cases s) (simp add: alive_def)
  have "enforce_eui_uppercase (s\<lparr>sp_updated_at := now\<rparr>) = s\<lparr>sp_updated_at := now\<rparr>"
    using assms(1) by (intro enforce_fixes) (simp add: eui_upper_def)
  moreover have "space_unique_violation others (s\<lparr>sp_updated_at := now\<rparr>) = space_unique_violation others s"
    by (simp add: space_unique_violation_def alive_def)
  ultimately show ?thesis using assms(3) s by (simp add: store_space_def)
qed

text \<open>
  Deleting a space and restoring it gives the row back with a new time of update, and the reservations and other
  rows are as before, as long as nothing takes its place meanwhile.
\<close>

theorem delete_restore_roundtrip:
  assumes "find (\<lambda>r. sp_id r = space_id) (db_spaces db) = Some s" "distinct (map sp_id (db_spaces db))"
    and "alive s" "eui_upper s" "space_unique_violation (filter (\<lambda>r. sp_id r \<noteq> space_id) (db_spaces db)) s = None"
    and "unscoped_delete False now space_id False db = (db', Inr n)"
  shows "restore_space False later space_id db'
           = (db\<lparr>db_spaces := sql_update (\<lambda>r. sp_id r = space_id) (\<lambda>r. r\<lparr>sp_updated_at := later\<rparr>) (db_spaces db)\<rparr>,
              Inr (sp_name s))"
proof -
  let ?f = "\<lambda>r. r\<lparr>sp_deleted_at := Some now, sp_updated_at := now\<rparr>"
  let ?id = "\<lambda>r. sp_id r = space_id"
  have db': "db' = db\<lparr>db_spaces := sql_update ?id ?f (db_spaces db)\<rparr>"
    using assms(1,3,6) by (auto simp: unscoped_delete_def alive_def Let_def split: if_splits)
  have "r = s" if "r \<in> set (db_spaces db)" "sp_id r = space_id" for r
    using that find_SomeD [OF assms(1)] assms(2) by (auto simp: distinct_map inj_on_def)
  then have "sql_update ?id (\<lambda>_. s\<lparr>sp_updated_at := later\<rparr>) (db_spaces db)
      = sql_update ?id (\<lambda>r. r\<lparr>sp_updated_at := later\<rparr>) (db_spaces db)"
    by (auto simp: sql_update_def)
  then show ?thesis
    using find_updated [OF assms(1), of ?f] store_restored [OF assms(4,3,5), of later]
    by (simp add: db' restore_space_def others_updated updated_twice comp_def)
qed

subsection \<open>Examples\<close>

definition utc_instant :: "datetime \<Rightarrow> instant" where
  "utc_instant d = (case d of Naive t \<Rightarrow> t | Aware t \<Rightarrow> t)"

definition booked_db :: pdb where
  "booked_db = tenant_db\<lparr>db_reservations := [demo_booking ''r1'' ''q1'' 0]\<rparr>"

lemma demo_free: "get_space_availability utc_instant False ''s1'' (Aware 0) (Aware 100) tenant_db
    = Inr \<lparr>av_space = hd (db_spaces tenant_db), av_is_available = True, av_reservations = []\<rparr>"
  by code_simp

theorem availability_decides_booking_witness:
  "insert_reservation tenant_db (demo_booking ''r1'' ''q1'' 0)
     = Inr (tenant_db\<lparr>db_reservations := db_reservations tenant_db @ [demo_booking ''r1'' ''q1'' 0]\<rparr>)"
  by (rule availability_decides_booking [OF demo_free, THEN iffD1])
    (simp_all add: demo_booking_def live_status_def utc_instant_def)

lemma demo_booked_space: "find (\<lambda>r. sp_id r = ''s1'') (db_spaces booked_db) = Some (hd (db_spaces booked_db))"
  by code_simp

lemma demo_booked_alive: "alive (hd (db_spaces booked_db))"
  by code_simp

theorem booked_space_deleted_witness:
  "\<exists>db'. unscoped_delete False 5 ''s1'' False booked_db = (db', Inr 0)
     \<and> db_reservations db' = [demo_booking ''r1'' ''q1'' 0] \<and> get_space db' ''s1'' = None"
proof -
  have r: "db_reservations booked_db = [demo_booking ''r1'' ''q1'' 0]" by (simp add: booked_db_def)
  then have "\<forall>r\<in>set (db_reservations booked_db). rv_status r \<noteq> ACTIVE" by (simp add: demo_booking_def)
  from booked_space_deleted [OF demo_booked_space demo_booked_alive this, of 5 False] show ?thesis by (simp only: r)
qed

theorem delete_restore_roundtrip_witness:
  "\<exists>db'. unscoped_delete False 5 ''s1'' False booked_db = (db', Inr 0)
     \<and> restore_space False 9 ''s1'' db'
         = (booked_db\<lparr>db_spaces := sql_update (\<lambda>r. sp_id r = ''s1'') (\<lambda>r. r\<lparr>sp_updated_at := 9\<rparr>) (db_spaces booked_db)\<rparr>,
            Inr (sp_name (hd (db_spaces booked_db))))"
proof -
  let ?s = "hd (db_spaces booked_db)"
  have "distinct (map sp_id (db_spaces booked_db))" by code_simp
  moreover have "eui_upper ?s" by code_simp
  moreover have "space_unique_violation (filter (\<lambda>r. sp_id r \<noteq> ''s1'') (db_spaces booked_db)) ?s = None" by code_simp
  moreover have "unscoped_delete False 5 ''s1'' False booked_db = (fst (unscoped_delete False 5 ''s1'' False booked_db), Inr 0)"
    by code_simp
  ultimately show ?thesis
    using delete_restore_roundtrip [OF demo_booked_space _ demo_booked_alive] by blast
qed

end
