(* ===== verification/Query_Helpers.thy ===== *)
theory Query_Helpers
  imports Spaces_Api
begin

text \<open>
  The joined queries of \<open>src/queries.py\<close>, each a single statement in place of one query per row.

  A statement that names a column its table does not have is refused before any row is read; \<open>schema\<close> gives the
  columns of each table, and \<open>migrated_columns\<close> those the migrations of the repository create. \<open>collate\<close> is the order
  of texts of the database, \<open>jsonb_dict\<close> whether the driver decodes JSONB columns.
\<close>

section \<open>Columns\<close>

type_synonym schema = "string \<Rightarrow> string list"

datatype query_error = UndefinedColumn string string

definition undefined_column :: "schema \<Rightarrow> (string \<times> string) list \<Rightarrow> query_error option" where
  "undefined_column schema cols =
     map_option (\<lambda>(t, c). UndefinedColumn t c) (find (\<lambda>(t, c). c \<notin> set (schema t)) cols)"

definition run_query :: "schema \<Rightarrow> (string \<times> string) list \<Rightarrow> 'a \<Rightarrow> query_error + 'a" where
  "run_query schema cols rows = (case undefined_column schema cols of None \<Rightarrow> Inr rows | Some e \<Rightarrow> Inl e)"

definition migrated_columns :: schema where
  "migrated_columns table =
     (if table = ''spaces''
      then [''id'', ''name'', ''code'', ''building'', ''floor'', ''zone'', ''gps_latitude'', ''gps_longitude'', ''sensor_eui'',
            ''display_eui'', ''state'', ''metadata'', ''created_at'', ''updated_at'', ''deleted_at'', ''site_id'', ''tenant_id'']
      else if table = ''sites''
      then [''id'', ''tenant_id'', ''name'', ''timezone'', ''location'', ''metadata'', ''is_active'', ''created_at'', ''updated_at'']
      else if table = ''sensor_readings''
      then [''id'', ''device_eui'', ''space_id'', ''occupancy_state'', ''battery'', ''temperature'', ''rssi'', ''snr'', ''timestamp'',
            ''tenant_id'', ''fcnt'']
      else if table = ''reservations''
      then [''id'', ''space_id'', ''start_time'', ''end_time'', ''user_email'', ''user_phone'', ''status'', ''metadata'',
            ''created_at'', ''updated_at'', ''request_id'', ''tenant_id'']
      else [])"

section \<open>Spaces with site and last reading\<close>

definition spaces_query_columns :: "(string \<times> string) list" where
  "spaces_query_columns =
     map (Pair ''spaces'') [''id'', ''name'', ''code'', ''building'', ''floor'', ''zone'', ''state'', ''site_id'', ''tenant_id'',
       ''sensor_eui'', ''display_eui'', ''gps_latitude'', ''gps_longitude'', ''metadata'', ''created_at'', ''updated_at'', ''deleted_at'']
     @ map (Pair ''sites'') [''name'', ''timezone'', ''id'']
     @ map (Pair ''sensor_readings'') [''timestamp'', ''occupied'', ''space_id'']"

record query_filters =
  qf_building :: "string option"
  qf_floor :: "string option"
  qf_zone :: "string option"
  qf_state :: "string option"
  qf_site_id :: "uuid option"

text \<open>\<open>if filters.get(..)\<close>: an empty text filters nothing.\<close>

definition if_truthy :: "string option \<Rightarrow> string option \<Rightarrow> bool" where
  "if_truthy f v = (truthy f \<longrightarrow> v = f)"

definition query_matches :: "uuid \<Rightarrow> query_filters \<Rightarrow> bool \<Rightarrow> space_row \<Rightarrow> bool" where
  "query_matches tenant_id f include_deleted r =
     (sp_tenant_id r = Some tenant_id
      \<and> if_truthy (qf_building f) (sp_building r) \<and> if_truthy (qf_floor f) (sp_floor r) \<and> if_truthy (qf_zone f) (sp_zone r)
      \<and> if_truthy (qf_state f) (Some (SpaceState_value (sp_state r))) \<and> if_truthy (qf_site_id f) (sp_site_id r)
      \<and> (include_deleted \<or> alive r))"

record space_with_devices =
  sy_space :: space_out
  sy_site :: "(string \<times> string) option"
  sy_last_reading :: "(instant \<times> bool option) option"

text \<open>The outer join with \<open>sites\<close>; a site without a name counts as none. \<open>occupied\<close> reads the column of that name.\<close>

definition site_details :: "site_row list \<Rightarrow> space_row \<Rightarrow> (string \<times> string) option" where
  "site_details sites r =
     (case Option.bind (sp_site_id r) (\<lambda>i. find (\<lambda>t. st_id t = i) sites) of
        None \<Rightarrow> None
      | Some t \<Rightarrow> if st_name t = [] then None else Some (st_name t, st_timezone t))"

definition last_reading :: "(reading_row \<Rightarrow> bool option) \<Rightarrow> reading_row list \<Rightarrow> space_row \<Rightarrow> (instant \<times> bool option) option" where
  "last_reading occupied readings r =
     map_option (\<lambda>d. (rd_timestamp d, occupied d)) (first_desc rd_timestamp (filter (\<lambda>d. rd_space_id d = Some (sp_id r)) readings))"

definition get_spaces_with_devices ::
  "schema \<Rightarrow> (reading_row \<Rightarrow> bool option) \<Rightarrow> (string \<Rightarrow> int) \<Rightarrow> uuid \<Rightarrow> query_filters \<Rightarrow> bool \<Rightarrow> spaces_world
   \<Rightarrow> query_error + space_with_devices list" where
  "get_spaces_with_devices schema occupied collate tenant_id f include_deleted w =
     run_query schema spaces_query_columns
       (map (\<lambda>r. \<lparr>sy_space = (space_dict (sw_sites w) r), sy_site = site_details (sw_sites w) r,
                  sy_last_reading = last_reading occupied (db_sensor_readings (sw_db w)) r\<rparr>)
         (sort_key (\<lambda>r. (collate (sp_code r), collate (sp_name r)))
           (filter (query_matches tenant_id f include_deleted) (db_spaces (sw_db w)))))"

section \<open>Reservations with their space\<close>

definition reservations_query_columns :: "(string \<times> string) list" where
  "reservations_query_columns =
     map (Pair ''reservations'') [''id'', ''space_id'', ''start_time'', ''end_time'', ''status'', ''user_email'', ''user_phone'',
       ''external_booking_id'', ''external_system'', ''metadata'', ''created_at'', ''updated_at'', ''tenant_id'']
     @ map (Pair ''spaces'') [''code'', ''name'', ''building'', ''floor'', ''zone'', ''state'', ''id'', ''site_id'']
     @ map (Pair ''sites'') [''name'', ''id'']"

record reservation_with_space =
  rw_reservation :: Reservation
  rw_external :: "string option \<times> string option"
  rw_space :: space_row
  rw_site_name :: "string option"

definition reservation_query_matches ::
  "uuid \<Rightarrow> instant option \<Rightarrow> instant option \<Rightarrow> string option \<Rightarrow> Reservation \<Rightarrow> bool" where
  "reservation_query_matches tenant_id date_from date_to status_filter r =
     (rv_tenant_id r = tenant_id
      \<and> (case date_from of None \<Rightarrow> True | Some d \<Rightarrow> rv_start_time r \<ge> d)
      \<and> (case date_to of None \<Rightarrow> True | Some d \<Rightarrow> rv_end_time r \<le> d)
      \<and> if_truthy status_filter (Some (ReservationStatus_value (rv_status r))))"

text \<open>An inner join: a reservation whose space is gone is left out. \<open>external\<close> reads the two columns of that prefix.\<close>

definition get_reservations_with_space ::
  "schema \<Rightarrow> (Reservation \<Rightarrow> string option \<times> string option) \<Rightarrow> uuid \<Rightarrow> instant option \<Rightarrow> instant option \<Rightarrow> string option
   \<Rightarrow> spaces_world \<Rightarrow> query_error + reservation_with_space list" where
  "get_reservations_with_space schema external tenant_id date_from date_to status_filter w =
     run_query schema reservations_query_columns
       (List.map_filter (\<lambda>r. map_option (\<lambda>s. \<lparr>rw_reservation = r, rw_external = external r, rw_space = s,
                                rw_site_name = so_site_name (space_dict (sw_sites w) s)\<rparr>)
                              (find (\<lambda>s. sp_id s = rv_space_id r) (db_spaces (sw_db w))))
         (sort_key (\<lambda>r. - rv_start_time r)
           (filter (reservation_query_matches tenant_id date_from date_to status_filter) (db_reservations (sw_db w)))))"

section \<open>Sites with counts\<close>

definition sites_query_columns :: "(string \<times> string) list" where
  "sites_query_columns =
     map (Pair ''sites'') [''id'', ''tenant_id'', ''name'', ''timezone'', ''location'', ''metadata'', ''is_active'', ''created_at'', ''updated_at'']
     @ map (Pair ''spaces'') [''id'', ''deleted_at'', ''state'', ''site_id'']"

text \<open>
  \<open>LEFT JOIN\<close> gives a row for each site and space in it and one without a space for an empty site; \<open>GROUP BY s.id\<close>
  gathers them again, and \<open>COUNT(sp.id) FILTER\<close> counts the rows with a space that pass.
\<close>

definition left_join :: "('a \<Rightarrow> 'b \<Rightarrow> bool) \<Rightarrow> 'a list \<Rightarrow> 'b list \<Rightarrow> ('a \<times> 'b option) list" where
  "left_join on ls rs =
     concat (map (\<lambda>l. case filter (on l) rs of [] \<Rightarrow> [(l, None)] | ms \<Rightarrow> map (\<lambda>m. (l, Some m)) ms) ls)"

definition group_by :: "('a \<Rightarrow> 'k) \<Rightarrow> ('a \<times> 'b) list \<Rightarrow> ('a \<times> 'b list) list" where
  "group_by key rows = map (\<lambda>l. (l, map snd (filter (\<lambda>r. key (fst r) = key l) rows))) (remdups (map fst rows))"

definition count_filter :: "('b \<Rightarrow> bool) \<Rightarrow> 'b option list \<Rightarrow> nat" where
  "count_filter P xs = length (filter (\<lambda>x. case x of None \<Rightarrow> False | Some v \<Rightarrow> P v) xs)"

record site_stats =
  sz_site :: site_out
  sz_free :: nat
  sz_occupied :: nat
  sz_reserved :: nat

definition site_stats_of :: "bool \<Rightarrow> site_row \<times> space_row option list \<Rightarrow> site_stats" where
  "site_stats_of jsonb_dict g =
     (let n = (\<lambda>st. count_filter (\<lambda>p. alive p \<and> sp_state p = st) (snd g))
      in \<lparr>sz_site = site_dict jsonb_dict (fst g) (count_filter alive (snd g)),
          sz_free = n FREE, sz_occupied = n OCCUPIED, sz_reserved = n RESERVED\<rparr>)"

definition get_sites_with_stats ::
  "schema \<Rightarrow> bool \<Rightarrow> (string \<Rightarrow> int) \<Rightarrow> uuid \<Rightarrow> bool \<Rightarrow> spaces_world \<Rightarrow> query_error + site_stats list" where
  "get_sites_with_stats schema jsonb_dict collate tenant_id include_inactive w =
     run_query schema sites_query_columns
       (map (site_stats_of jsonb_dict)
         (sort_key (\<lambda>g. collate (st_name (fst g)))
           (group_by st_id (filter (\<lambda>r. st_tenant_id (fst r) = tenant_id \<and> (include_inactive \<or> st_is_active (fst r)))
             (left_join (\<lambda>s p. sp_site_id p = Some (st_id s)) (sw_sites w) (db_spaces (sw_db w)))))))"

section \<open>Properties\<close>

text \<open>
  Against the tables of the migrations the first two queries never run: \<open>sensor_readings\<close> has no column \<open>occupied\<close> and
  \<open>reservations\<close> none of the external booking.
\<close>

theorem joined_queries_refused:
  "get_spaces_with_devices migrated_columns occupied collate tenant_id f include_deleted w
     = Inl (UndefinedColumn ''sensor_readings'' ''occupied'')
   \<and> get_reservations_with_space migrated_columns external tenant_id date_from date_to status_filter w
     = Inl (UndefinedColumn ''reservations'' ''external_booking_id'')"
proof -
  have "undefined_column migrated_columns spaces_query_columns = Some (UndefinedColumn ''sensor_readings'' ''occupied'')"
    "undefined_column migrated_columns reservations_query_columns = Some (UndefinedColumn ''reservations'' ''external_booking_id'')"
    by code_simp+
  then show ?thesis by (simp add: get_spaces_with_devices_def get_reservations_with_space_def run_query_def)
qed

text \<open>The rows of one site in the join, and the sites the groups stand for.\<close>

lemma join_rows:
  assumes "distinct (map st_id ls)" "l \<in> set ls"
  shows "map snd (filter (\<lambda>r. st_id (fst r) = st_id l) (left_join on ls rs))
           = (case filter (on l) rs of [] \<Rightarrow> [None] | ms \<Rightarrow> map Some ms)"
proof -
  have none: "filter (\<lambda>r. st_id (fst r) = i) (left_join on ks rs) = []" if "i \<notin> st_id ` set ks" for i ks
    using that by (auto simp: left_join_def filter_concat filter_empty_conv split: list.splits)
  show ?thesis
    using assms
  proof (induction ls)
    case (Cons k ls)
    have rec: "left_join on (k # ls) rs
        = (case filter (on k) rs of [] \<Rightarrow> [(k, None)] | ms \<Rightarrow> map (\<lambda>m. (k, Some m)) ms) @ left_join on ls rs"
      by (simp add: left_join_def)
    have one: "filter (\<lambda>r. st_id (fst r) = st_id l) (map (\<lambda>m. (k, Some m)) ms)
        = (if st_id k = st_id l then map (\<lambda>m. (k, Some m)) ms else [])" for ms
      by (induction ms) simp_all
    show ?case
    proof (cases "st_id k = st_id l")
      case True
      with Cons.prems have "k = l" "st_id l \<notin> st_id ` set ls" by auto
      with none [of "st_id l" ls] show ?thesis
        unfolding rec by (cases "filter (on l) rs") (simp_all add: comp_def one)
    next
      case False
      with Cons show ?thesis
        unfolding rec by (auto simp: one split: list.split)
    qed
  qed simp
qed

lemma join_sites: "distinct ls \<Longrightarrow> remdups (map fst (left_join on ls rs)) = ls"
proof (induction ls)
  case (Cons k ls)
  have set: "set (map fst (left_join on ls rs)) = set ls" for ls
    by (induction ls) (auto simp: left_join_def image_iff split: list.splits)
  have rep: "remdups (map (\<lambda>_. k) (ms :: 'c list) @ xs) = (if ms = [] then remdups xs else k # remdups xs)"
    if "k \<notin> set xs" for ms xs
    using that by (induction ms) (auto simp: image_iff)
  have "left_join on (k # ls) rs
      = (case filter (on k) rs of [] \<Rightarrow> [(k, None)] | ms \<Rightarrow> map (\<lambda>m. (k, Some m)) ms) @ left_join on ls rs"
    by (simp add: left_join_def)
  moreover have "k \<notin> set (map fst (left_join on ls rs))" using Cons.prems set [of ls] by simp
  ultimately show ?case
    using Cons rep [of "map fst (left_join on ls rs)" "filter (on k) rs"]
    by (cases "filter (on k) rs") (simp_all add: comp_def)
qed (simp add: left_join_def)

lemma filter_left_join:
  "filter (\<lambda>r. P (fst r)) (left_join on ls rs) = left_join on (filter P ls) rs"
  by (induction ls) (auto simp: left_join_def filter_map comp_def split: list.split)

lemma count_join: "count_filter P (case filter Q rs of [] \<Rightarrow> [None] | ms \<Rightarrow> map Some ms) = sql_count (\<lambda>x. Q x \<and> P x) rs"
proof -
  have "count_filter P (case filter Q rs of [] \<Rightarrow> [None] | ms \<Rightarrow> map Some ms) = length (filter P (filter Q rs))"
    by (cases "filter Q rs") (simp_all add: count_filter_def filter_map comp_def)
  then show ?thesis by (simp add: sql_count_def conj_commute)
qed

lemma map_insort: "map g (insort_key (\<lambda>x. f (g x)) x xs) = insort_key f (g x) (map g xs)"
  by (induction xs) simp_all

lemma map_sort: "map g (sort_key (\<lambda>x. f (g x)) xs) = sort_key f (map g xs)"
  by (induction xs) (simp_all add: map_insort)

text \<open>The same counts by one query for each site.\<close>

definition count_in_state :: "site_row \<Rightarrow> SpaceState \<Rightarrow> spaces_world \<Rightarrow> nat" where
  "count_in_state t st w =
     sql_count (\<lambda>p. sp_site_id p = Some (st_id t) \<and> alive p \<and> sp_state p = st) (db_spaces (sw_db w))"

definition stats_site_by_site :: "bool \<Rightarrow> site_row \<Rightarrow> spaces_world \<Rightarrow> site_stats" where
  "stats_site_by_site jsonb_dict t w =
     \<lparr>sz_site = site_dict jsonb_dict t (spaces_count (st_id t) w), sz_free = count_in_state t FREE w,
      sz_occupied = count_in_state t OCCUPIED w, sz_reserved = count_in_state t RESERVED w\<rparr>"

lemma grouped_sites:
  assumes "distinct (map st_id ls)"
  shows "map (site_stats_of jsonb_dict) (sort_key (\<lambda>g. collate (st_name (fst g)))
             (group_by st_id (left_join (\<lambda>s p. sp_site_id p = Some (st_id s)) ls (db_spaces (sw_db w)))))
           = map (\<lambda>t. stats_site_by_site jsonb_dict t w) (sort_key (\<lambda>t. collate (st_name t)) ls)"
proof -
  have d: "distinct ls" using assms by (simp add: distinct_map)
  let ?rows = "\<lambda>l. map snd (filter (\<lambda>r. st_id (fst r) = st_id l)
      (left_join (\<lambda>s p. sp_site_id p = Some (st_id s)) ls (db_spaces (sw_db w))))"
  have "site_stats_of jsonb_dict (l, ?rows l) = stats_site_by_site jsonb_dict l w" if "l \<in> set ls" for l
    unfolding site_stats_of_def snd_conv join_rows [OF assms that]
    by (simp add: stats_site_by_site_def count_join spaces_count_def count_in_state_def Let_def)
  moreover have "sort_key (\<lambda>g. collate (st_name (fst g))) (map (\<lambda>l. (l, ?rows l)) ls)
      = map (\<lambda>l. (l, ?rows l)) (sort_key (\<lambda>t. collate (st_name t)) ls)"
    using map_sort [of "\<lambda>l. (l, ?rows l)" "\<lambda>g. collate (st_name (fst g))" ls] by simp
  ultimately show ?thesis
    using d by (simp add: group_by_def join_sites)
qed

text \<open>Property C35.
  The single statement answers what one query for each site would: when site ids are unique, the sites are those of
  the sites endpoint in its order with its counts of spaces, and the counts by state are those of the table.
\<close>

theorem sites_with_stats_agree:
  assumes "distinct (map st_id (sw_sites w))" "list_sites jsonb_dict collate tenant include_inactive w = Inr xs"
  shows "\<exists>ts. get_sites_with_stats migrated_columns jsonb_dict collate (tc_tenant_id tenant) include_inactive w
                = Inr (map (\<lambda>t. stats_site_by_site jsonb_dict t w) ts)
             \<and> map (\<lambda>t. sz_site (stats_site_by_site jsonb_dict t w)) ts = xs
             \<and> set ts = {t \<in> set (sw_sites w). st_tenant_id t = tc_tenant_id tenant \<and> (include_inactive \<or> st_is_active t)}"
proof -
  let ?P = "\<lambda>t. st_tenant_id t = tc_tenant_id tenant \<and> (include_inactive \<or> st_is_active t)"
  let ?S = "filter ?P (sw_sites w)"
  let ?ts = "sort_key (\<lambda>t. collate (st_name t)) ?S"
  let ?on = "\<lambda>s p. sp_site_id p = Some (st_id s)"
  have d: "distinct (map st_id ?S)" using assms(1) by (simp add: distinct_map inj_on_def)
  have cols: "undefined_column migrated_columns sites_query_columns = None" by code_simp
  have "map (site_stats_of jsonb_dict) (sort_key (\<lambda>g. collate (st_name (fst g))) (group_by st_id (left_join ?on ?S (db_spaces (sw_db w)))))
      = map (\<lambda>t. stats_site_by_site jsonb_dict t w) ?ts"
    by (rule grouped_sites [OF d])
  moreover have "xs = map (\<lambda>t. sz_site (stats_site_by_site jsonb_dict t w)) ?ts"
    using assms(2) by (auto simp: list_sites_def stats_site_by_site_def dest: gate_Inr split: sum.splits)
  moreover have "get_sites_with_stats migrated_columns jsonb_dict collate (tc_tenant_id tenant) include_inactive w
      = Inr (map (site_stats_of jsonb_dict) (sort_key (\<lambda>g. collate (st_name (fst g)))
          (group_by st_id (left_join ?on ?S (db_spaces (sw_db w))))))"
    using filter_left_join [of ?P ?on "sw_sites w" "db_spaces (sw_db w)"] by (simp add: get_sites_with_stats_def run_query_def cols)
  ultimately show ?thesis by (intro exI [of _ ?ts]) simp
qed

definition stats_world :: spaces_world where
  "stats_world = two_sites\<lparr>sw_db := empty_db\<lparr>db_spaces := [(new_space_row ''s1'' 0 demo_space)\<lparr>sp_site_id := Some ''x1''\<rparr>]\<rparr>\<rparr>"

theorem sites_with_stats_agree_witness:
  "\<exists>y. get_sites_with_stats migrated_columns True (\<lambda>_. 0) ''t1'' False stats_world = Inr [y]
     \<and> sx_spaces_count (sz_site y) = 1"
proof -
  have listed: "list_sites True (\<lambda>_. 0) (owner_of ''t1'') False stats_world = Inr [site_dict True (hd (sw_sites two_sites)) 1]"
    by code_simp
  have unique: "distinct (map st_id (sw_sites stats_world))" by code_simp
  obtain ts where ts:
    "get_sites_with_stats migrated_columns True (\<lambda>_. 0) (tc_tenant_id (owner_of ''t1'')) False stats_world
       = Inr (map (\<lambda>t. stats_site_by_site True t stats_world) ts)"
    "map (\<lambda>t. sz_site (stats_site_by_site True t stats_world)) ts = [site_dict True (hd (sw_sites two_sites)) 1]"
    using sites_with_stats_agree [OF unique listed] by (elim exE conjE) (rule that)
  from ts(2) obtain t where "ts = [t]" "sz_site (stats_site_by_site True t stats_world) = site_dict True (hd (sw_sites two_sites)) 1"
    by (cases ts) auto
  with ts(1) show ?thesis by (simp add: owner_of_def site_dict_def)
qed

end
