(* ===== verification/Request_Models.thy ===== *)
theory Request_Models
  imports Tenant_Admin
begin

text \<open>
  The validation of request bodies by the models of \<open>src/models.py\<close> and the columns of \<open>src/migrations\<close> they are stored
  in. A body has the right types here, as JSON parsing leaves it; a model that refuses it raises \<open>ValueError\<close> with the
  field, which the framework answers with 422.
\<close>

section \<open>Fields\<close>

definition opt_length_in :: "nat \<Rightarrow> nat \<Rightarrow> string option \<Rightarrow> bool" where
  "opt_length_in a b v = (case v of None \<Rightarrow> True | Some s \<Rightarrow> length_in a b s)"

text \<open>The first check that fails gives the error.\<close>

fun check_fields :: "(string \<times> bool) list \<Rightarrow> unit result" where
  "check_fields [] = Inr ()"
| "check_fields ((field, ok) # rest) = (if ok then check_fields rest else Inl (ValueError field))"

section \<open>Spaces\<close>

record space_body =
  sb_name :: string
  sb_code :: string
  sb_building :: "string option"
  sb_floor :: "string option"
  sb_zone :: "string option"
  sb_gps_latitude :: "rat option"
  sb_gps_longitude :: "rat option"
  sb_sensor_eui :: "string option"
  sb_display_eui :: "string option"
  sb_state :: "SpaceState option"
  sb_metadata :: "string option"

definition check_SpaceBase :: "space_body \<Rightarrow> unit result" where
  "check_SpaceBase b = check_fields
     [(''name'', length_in 1 100 (sb_name b)), (''code'', length_in 1 20 (sb_code b)),
      (''building'', opt_length_in 0 100 (sb_building b)), (''floor'', opt_length_in 0 20 (sb_floor b)),
      (''zone'', opt_length_in 0 50 (sb_zone b)),
      (''gps_latitude'', opt_in_range (-90) 90 (sb_gps_latitude b)),
      (''gps_longitude'', opt_in_range (-180) 180 (sb_gps_longitude b))]"

text \<open>The validator of the whole model runs after those of the fields.\<close>

definition make_SpaceCreate :: "space_body \<Rightarrow> SpaceCreate result" where
  "make_SpaceCreate b =
     (case check_SpaceBase b of
        Inl e \<Rightarrow> Inl e
      | Inr _ \<Rightarrow>
      (case (validate_deveui (sb_sensor_eui b), validate_deveui (sb_display_eui b)) of
         (Inl e, _) \<Rightarrow> Inl e
       | (Inr _, Inl e) \<Rightarrow> Inl e
       | (Inr sensor_eui, Inr display_eui) \<Rightarrow>
           (case validate_gps_coordinates (sb_gps_latitude b) (sb_gps_longitude b) of
              Inl e \<Rightarrow> Inl e
            | Inr _ \<Rightarrow>
                Inr \<lparr>sn_name = sb_name b, sn_code = sb_code b, sn_building = sb_building b, sn_floor = sb_floor b,
                     sn_zone = sb_zone b, sn_sensor_eui = sensor_eui, sn_display_eui = display_eui,
                     sn_state = (case sb_state b of None \<Rightarrow> FREE | Some st \<Rightarrow> st),
                     sn_gps = (case (sb_gps_latitude b, sb_gps_longitude b) of (Some x, Some y) \<Rightarrow> Some (x, y) | _ \<Rightarrow> None),
                     sn_metadata = sb_metadata b\<rparr>)))"

text \<open>A field of an update that is not set is not validated.\<close>

definition validate_set_eui :: "string option option \<Rightarrow> string option option result" where
  "validate_set_eui v =
     (case v of None \<Rightarrow> Inr None | Some e \<Rightarrow> (case validate_deveui e of Inl x \<Rightarrow> Inl x | Inr e \<Rightarrow> Inr (Some e)))"

definition check_SpaceUpdate :: "SpaceUpdate \<Rightarrow> unit result" where
  "check_SpaceUpdate u = check_fields
     [(''name'', opt_length_in 1 100 (su_name u)), (''code'', opt_length_in 1 20 (su_code u)),
      (''building'', opt_length_in 0 100 (some_field (su_building u))), (''floor'', opt_length_in 0 20 (some_field (su_floor u))),
      (''zone'', opt_length_in 0 50 (some_field (su_zone u)))]"

definition make_SpaceUpdate :: "SpaceUpdate \<Rightarrow> SpaceUpdate result" where
  "make_SpaceUpdate u =
     (case check_SpaceUpdate u of
        Inl e \<Rightarrow> Inl e
      | Inr _ \<Rightarrow>
      (case (validate_set_eui (su_sensor_eui u), validate_set_eui (su_display_eui u)) of
         (Inl e, _) \<Rightarrow> Inl e
       | (Inr _, Inl e) \<Rightarrow> Inl e
       | (Inr sensor_eui, Inr display_eui) \<Rightarrow> Inr (u\<lparr>su_sensor_eui := sensor_eui, su_display_eui := display_eui\<rparr>)))"

text \<open>The columns of \<open>spaces\<close> in migration 001: the lengths of \<open>VARCHAR\<close> and the checks on the state and the coordinates.\<close>

definition space_columns_ok :: "space_row \<Rightarrow> bool" where
  "space_columns_ok r =
     (length (sp_name r) \<le> 100 \<and> length (sp_code r) \<le> 20 \<and> opt_length_in 0 100 (sp_building r)
      \<and> opt_length_in 0 20 (sp_floor r) \<and> opt_length_in 0 50 (sp_zone r)
      \<and> opt_length_in 0 16 (sp_sensor_eui r) \<and> opt_length_in 0 16 (sp_display_eui r)
      \<and> (case sp_gps r of None \<Rightarrow> True | Some (x, y) \<Rightarrow> -90 \<le> x \<and> x \<le> 90 \<and> -180 \<le> y \<and> y \<le> 180))"

section \<open>Reservations, downlinks and pages\<close>

definition check_ReservationBase :: "datetime \<Rightarrow> datetime \<Rightarrow> string option \<Rightarrow> string option \<Rightarrow> unit result" where
  "check_ReservationBase start_time end_time user_email user_phone =
     (case check_fields [(''user_email'', opt_length_in 0 255 user_email), (''user_phone'', opt_length_in 0 20 user_phone)] of
        Inl e \<Rightarrow> Inl e
      | Inr _ \<Rightarrow> validate_times start_time end_time)"

record DownlinkRequest =
  dr_payload :: "string option"
  dr_fport :: int
  dr_confirmed :: bool
  dr_command :: "string option"

definition make_DownlinkRequest :: "string option \<Rightarrow> int option \<Rightarrow> bool option \<Rightarrow> string option \<Rightarrow> DownlinkRequest result" where
  "make_DownlinkRequest payload fport confirmed command =
     (let fport = (case fport of None \<Rightarrow> 1 | Some p \<Rightarrow> p) in
      if 1 \<le> fport \<and> fport \<le> 223
      then Inr \<lparr>dr_payload = payload, dr_fport = fport, dr_confirmed = (confirmed = Some True), dr_command = command\<rparr>
      else Inl (ValueError ''fport''))"

definition check_PaginationParams :: "int option \<Rightarrow> int option \<Rightarrow> (nat \<times> nat) result" where
  "check_PaginationParams limit offset =
     (let limit = (case limit of None \<Rightarrow> 100 | Some l \<Rightarrow> l); offset = (case offset of None \<Rightarrow> 0 | Some n \<Rightarrow> n) in
      if \<not> (1 \<le> limit \<and> limit \<le> 1000) then Inl (ValueError ''limit'')
      else if offset < 0 then Inl (ValueError ''offset'')
      else Inr (nat limit, nat offset))"

record space_query =
  sq_building :: "string option"
  sq_floor :: "string option"
  sq_zone :: "string option"
  sq_state :: "SpaceState option"
  sq_include_deleted :: bool

definition make_SpaceFilters :: "int option \<Rightarrow> int option \<Rightarrow> space_query \<Rightarrow> space_filters result" where
  "make_SpaceFilters limit offset q =
     (case check_PaginationParams limit offset of
        Inl e \<Rightarrow> Inl e
      | Inr (l, n) \<Rightarrow>
          Inr \<lparr>sf_building = sq_building q, sf_floor = sq_floor q, sf_zone = sq_zone q, sf_state = sq_state q,
               sf_include_deleted = sq_include_deleted q, sf_limit = l, sf_offset = n\<rparr>)"

section \<open>Accounts\<close>

definition check_TenantUpdate :: "TenantUpdate \<Rightarrow> unit result" where
  "check_TenantUpdate u = check_fields [(''name'', opt_length_in 1 255 (some_field (tu_name u)))]"

definition check_UserPasswordUpdate :: "string \<Rightarrow> unit result" where
  "check_UserPasswordUpdate new_password = check_fields [(''new_password'', length_in 8 100 new_password)]"

definition check_UserInviteAccept :: "string \<Rightarrow> string \<Rightarrow> unit result" where
  "check_UserInviteAccept password name =
     check_fields [(''password'', length_in 8 100 password), (''name'', length_in 1 255 name)]"

definition check_APIKeyCreate :: "APIKeyCreate \<Rightarrow> unit result" where
  "check_APIKeyCreate k = check_fields [(''name'', length_in 1 100 (kc_name k))]"

definition check_SiteCreate :: "SiteCreate \<Rightarrow> unit result" where
  "check_SiteCreate s = check_fields [(''name'', length_in 1 255 (sc_name s)), (''timezone'', length_in 0 50 (sc_timezone s))]"

definition check_SiteUpdate :: "SiteUpdate \<Rightarrow> unit result" where
  "check_SiteUpdate u = check_fields [(''name'', opt_length_in 1 255 (si_name u)), (''timezone'', opt_length_in 0 50 (si_timezone u))]"

text \<open>The columns of migration 002, and the pattern the check \<open>valid_slug\<close> repeats.\<close>

definition tenant_columns_ok :: "string \<Rightarrow> string \<Rightarrow> bool" where
  "tenant_columns_ok name slug = (length name \<le> 255 \<and> length slug \<le> 100 \<and> slug \<noteq> [] \<and> list_all slug_char slug)"

definition site_columns_ok :: "site_row \<Rightarrow> bool" where
  "site_columns_ok t = (length (st_name t) \<le> 255 \<and> length (st_timezone t) \<le> 50)"

definition user_columns_ok :: "string \<Rightarrow> string \<Rightarrow> bool" where
  "user_columns_ok email name = (length email \<le> 255 \<and> length name \<le> 255)"

section \<open>Properties\<close>

lemma newline_no_hex: "\<not> is_hex newline"
  by code_simp

lemma deveui_length:
  assumes "validate_deveui v = Inr v'"
  shows "opt_length_in 0 16 v' \<longleftrightarrow> (\<forall>s. v = Some s \<longrightarrow> last s \<noteq> newline)"
proof (cases v)
  case (Some s)
  then have s: "re_full hex16 s" "v' = Some (upper s)" using assms by (auto simp: validate_deveui_def split: if_splits)
  show ?thesis
  proof (cases "hex16 s")
    case True
    then have "s \<noteq> []" "list_all is_hex s" "length s = 16" by (auto simp: hex16_def)
    then have "last s \<noteq> newline" using newline_no_hex by (auto simp: list_all_iff dest: last_in_set)
    then show ?thesis using s Some \<open>length s = 16\<close> by (simp add: opt_length_in_def length_in_def)
  next
    case False
    with s(1) have "last s = newline" "length s = 17" by (auto simp: re_full_def hex16_def)
    then show ?thesis using s Some by (simp add: opt_length_in_def length_in_def)
  qed
qed (use assms in \<open>simp add: validate_deveui_def opt_length_in_def\<close>)

lemma deveui_upper: "validate_deveui v = Inr v' \<Longrightarrow> map_option upper v' = v'"
  by (auto simp: validate_deveui_def split: option.splits if_splits)

lemma check_fields_ok: "check_fields fs = Inr u \<longleftrightarrow> list_all snd fs"
  by (induction fs rule: check_fields.induct) auto

lemma opt_length_None [simp]: "opt_length_in a b None"
  by (simp add: opt_length_in_def)

lemma SpaceCreate_fields:
  assumes "make_SpaceCreate b = Inr sp"
  shows "check_SpaceBase b = Inr ()" "validate_deveui (sb_sensor_eui b) = Inr (sn_sensor_eui sp)"
    "validate_deveui (sb_display_eui b) = Inr (sn_display_eui sp)"
    "sn_name sp = sb_name b" "sn_code sp = sb_code b" "sn_building sp = sb_building b" "sn_floor sp = sb_floor b"
    "sn_zone sp = sb_zone b"
    "sn_gps sp = (case (sb_gps_latitude b, sb_gps_longitude b) of (Some x, Some y) \<Rightarrow> Some (x, y) | _ \<Rightarrow> None)"
  using assms by (auto simp: make_SpaceCreate_def split: sum.splits prod.splits)

lemma create_space_row:
  assumes "create_space_api jsonb_dict fails i now tenant site_id sp w = (w', Inr out)"
  shows "sp_name (so_row out) = sn_name sp" "sp_code (so_row out) = sn_code sp" "sp_building (so_row out) = sn_building sp"
    "sp_floor (so_row out) = sn_floor sp" "sp_zone (so_row out) = sn_zone sp" "sp_gps (so_row out) = sn_gps sp"
    "sp_sensor_eui (so_row out) = map_option upper (sn_sensor_eui sp)"
    "sp_display_eui (so_row out) = map_option upper (sn_display_eui sp)"
  using assms
  by (auto simp: create_space_api_def spaces_sync_tenant_id_def store_space_def space_dict_def new_space_row_def
      enforce_eui_uppercase_def Let_def split: sum.splits if_splits option.splits)


lemma SpaceUpdate_fields:
  assumes "make_SpaceUpdate u = Inr u'"
  shows "opt_length_in 1 100 (su_name u')" "opt_length_in 1 20 (su_code u')" "opt_length_in 0 100 (some_field (su_building u'))"
    "opt_length_in 0 20 (some_field (su_floor u'))" "opt_length_in 0 50 (some_field (su_zone u'))"
    "validate_set_eui (su_sensor_eui u) = Inr (su_sensor_eui u')" "validate_set_eui (su_display_eui u) = Inr (su_display_eui u')"
proof -
  have "check_SpaceUpdate u = Inr ()" using assms by (auto simp: make_SpaceUpdate_def split: sum.splits)
  then have c: "opt_length_in 1 100 (su_name u)" "opt_length_in 1 20 (su_code u)"
    "opt_length_in 0 100 (some_field (su_building u))" "opt_length_in 0 20 (some_field (su_floor u))"
    "opt_length_in 0 50 (some_field (su_zone u))"
    unfolding check_SpaceUpdate_def check_fields_ok by simp_all
  obtain a d where "validate_set_eui (su_sensor_eui u) = Inr a" "validate_set_eui (su_display_eui u) = Inr d"
    "u' = u\<lparr>su_sensor_eui := a, su_display_eui := d\<rparr>"
    using assms by (auto simp: make_SpaceUpdate_def split: sum.splits prod.splits)
  with c show "opt_length_in 1 100 (su_name u')" "opt_length_in 1 20 (su_code u')"
    "opt_length_in 0 100 (some_field (su_building u'))" "opt_length_in 0 20 (some_field (su_floor u'))"
    "opt_length_in 0 50 (some_field (su_zone u'))"
    "validate_set_eui (su_sensor_eui u) = Inr (su_sensor_eui u')" "validate_set_eui (su_display_eui u) = Inr (su_display_eui u')"
    by simp_all
qed

lemma set_eui_length:
  assumes "validate_set_eui v = Inr v'" "\<forall>s. some_field v = Some s \<longrightarrow> last s \<noteq> newline"
  shows "opt_length_in 0 16 (some_field v')"
proof (cases v)
  case (Some e)
  then obtain e' where "validate_deveui e = Inr e'" "v' = Some e'"
    using assms(1) by (auto simp: validate_set_eui_def split: sum.splits)
  with deveui_length [of e e'] assms(2) Some show ?thesis by (simp add: some_field_def)
qed (use assms in \<open>simp add: validate_set_eui_def some_field_def\<close>)

lemma set_if_keeps: "P r \<Longrightarrow> (\<And>x. v = Some x \<Longrightarrow> P r \<Longrightarrow> P (f x r)) \<Longrightarrow> P (set_if v f r)"
  by (cases v) (simp_all add: set_if_def)

text \<open>An accepted update keeps a row within its columns, with the same exception.\<close>

theorem accepted_update_fits:
  assumes "make_SpaceUpdate u = Inr u'" "space_columns_ok r"
    and "\<forall>s. some_field (su_sensor_eui u) = Some s \<or> some_field (su_display_eui u) = Some s \<longrightarrow> last s \<noteq> newline"
  shows "space_columns_ok (patch_space u' r)"
proof -
  note f = SpaceUpdate_fields [OF assms(1)]
  have "opt_length_in 0 16 (some_field (su_sensor_eui u'))" "opt_length_in 0 16 (some_field (su_display_eui u'))"
    using set_eui_length [OF f(6)] set_eui_length [OF f(7)] assms(3) by blast+
  with f(1-5) show ?thesis
    unfolding patch_space_def comp_apply
    by (intro set_if_keeps [where P = space_columns_ok] assms(2)) (simp_all add: space_columns_ok_def opt_length_in_def length_in_def)
qed

text \<open>Accounts, tenants and sites are accepted only if they fit, and no page has more than a thousand rows.\<close>

theorem accepted_account_fits:
  "(valid_UserCreate u = Inr u' \<longrightarrow> user_columns_ok (uc_email u') (uc_name u'))
   \<and> (valid_TenantCreate t = Inr t' \<longrightarrow> tenant_columns_ok (tc_name t') (tc_slug t'))
   \<and> (check_SiteCreate s = Inr () \<longrightarrow> length (sc_name s) \<le> 255 \<and> length (sc_timezone s) \<le> 50)
   \<and> (check_SiteUpdate su = Inr () \<longrightarrow> site_columns_ok st \<longrightarrow> site_columns_ok (patch_site su st))"
proof (intro conjI impI)
  show "user_columns_ok (uc_email u') (uc_name u')" if "valid_UserCreate u = Inr u'"
    using that by (auto simp: valid_UserCreate_def validate_email_def user_columns_ok_def length_in_def split: if_splits)
  show "tenant_columns_ok (tc_name t') (tc_slug t')" if "valid_TenantCreate t = Inr t'"
    using that by (auto simp: valid_TenantCreate_def tenant_columns_ok_def length_in_def split: if_splits)
  show "length (sc_name s) \<le> 255" "length (sc_timezone s) \<le> 50" if "check_SiteCreate s = Inr ()"
    using that unfolding check_SiteCreate_def check_fields_ok by (simp_all add: length_in_def)
  show "site_columns_ok (patch_site su st)" if "check_SiteUpdate su = Inr ()" "site_columns_ok st"
    using that unfolding check_SiteUpdate_def check_fields_ok
    by (simp add: site_columns_ok_def patch_site_def set_if_def opt_length_in_def length_in_def split: option.splits)
qed

theorem pages_bounded:
  assumes "make_SpaceFilters limit offset q = Inr f"
  shows "length (get_spaces collate db f) \<le> 1000"
  using assms by (auto simp: make_SpaceFilters_def check_PaginationParams_def get_spaces_def Let_def split: if_splits)

subsection \<open>Examples\<close>

definition demo_body :: space_body where
  "demo_body = \<lparr>sb_name = ''A1'', sb_code = ''A1'', sb_building = None, sb_floor = Some ''1'', sb_zone = None,
     sb_gps_latitude = Some 50, sb_gps_longitude = Some 4, sb_sensor_eui = Some ''e8e1e10001000001'', sb_display_eui = None,
     sb_state = None, sb_metadata = None\<rparr>"

definition demo_accepted :: SpaceCreate where
  "demo_accepted = \<lparr>sn_name = ''A1'', sn_code = ''A1'', sn_building = None, sn_floor = Some ''1'', sn_zone = None,
     sn_sensor_eui = Some ''E8E1E10001000001'', sn_display_eui = None, sn_state = FREE, sn_gps = Some (50, 4),
     sn_metadata = None\<rparr>"

definition demo_stored :: "spaces_world \<times> (http_error + space_out)" where
  "demo_stored = create_space_api True False ''s1'' 0 (owner_of ''t1'') ''x1'' demo_accepted two_sites"


end
