(* ===== verification/Legacy_Api.thy ===== *)
theory Legacy_Api
  imports Uplink ChirpStack_Client Gateway_Monitor Request_Models
begin

text \<open>
  The endpoints of the previous entry point, \<open>src/main_v5.2_legacy.py\<close>: spaces and reservations directly on
  \<open>DatabasePool\<close> (no tenants), downlinks straight to ChirpStack, devices and gateways. Its \<open>process_uplink\<close> is in
  \<open>Legacy_Uplink\<close>; its start-up is that of \<open>main.py\<close> in an earlier form and is not repeated.

  An exception of the pool that no handler catches is \<open>Raised\<close>; the exception handlers turn it into an answer.
\<close>

datatype legacy_error = Raised db_error | Http http_error

section \<open>Spaces\<close>

definition legacy_list_spaces ::
  "(string \<Rightarrow> int) \<Rightarrow> int option \<Rightarrow> int option \<Rightarrow> space_query \<Rightarrow> pdb \<Rightarrow> py_error + space_row list" where
  "legacy_list_spaces collate limit offset q db =
     (case make_SpaceFilters limit offset (q\<lparr>sq_include_deleted := False\<rparr>) of
        Inl e \<Rightarrow> Inl e | Inr f \<Rightarrow> Inr (get_spaces collate db f))"

definition legacy_get_space :: "pdb \<Rightarrow> uuid \<Rightarrow> legacy_error + space_row" where
  "legacy_get_space db space_id =
     (case get_space db space_id of
        None \<Rightarrow> Inl (Raised (Parking (SpaceNotFoundError space_id))) | Some r \<Rightarrow> Inr r)"

text \<open>\<open>except DuplicateResourceError\<close>, told by its code.\<close>

definition is_duplicate :: "ParkingException \<Rightarrow> bool" where
  "is_duplicate e = (pe_error_code e = ''DUPLICATE_RESOURCE'')"

definition conflict_or_raise :: "db_error \<Rightarrow> legacy_error" where
  "conflict_or_raise e =
     (case e of Parking p \<Rightarrow> if is_duplicate p then Http (HTTPException 409 (pe_message p)) else Raised e | _ \<Rightarrow> Raised e)"

definition missing_or_raise :: "ParkingException \<Rightarrow> string \<Rightarrow> db_error \<Rightarrow> legacy_error" where
  "missing_or_raise x detail e = (if e = Parking x then Http (HTTPException 404 detail) else Raised e)"

definition legacy_create_space ::
  "space_trigger \<Rightarrow> uuid \<Rightarrow> instant \<Rightarrow> SpaceCreate \<Rightarrow> pdb \<Rightarrow> pdb \<times> (legacy_error + space_row)" where
  "legacy_create_space trig i now sp db =
     (case create_space trig db i now sp of
        Inl e \<Rightarrow> (db, Inl (conflict_or_raise e)) | Inr (db, r) \<Rightarrow> (db, Inr r))"

definition legacy_update_space :: "instant \<Rightarrow> uuid \<Rightarrow> SpaceUpdate \<Rightarrow> pdb \<Rightarrow> pdb \<times> (legacy_error + space_row)" where
  "legacy_update_space now space_id u db =
     (case update_space db now space_id u of
        Inl e \<Rightarrow> (db, Inl (missing_or_raise (SpaceNotFoundError space_id) ''Space not found'' e))
      | Inr (db, r) \<Rightarrow> (db, Inr r))"

definition legacy_delete_space :: "instant \<Rightarrow> uuid \<Rightarrow> pdb \<Rightarrow> pdb \<times> (legacy_error + unit)" where
  "legacy_delete_space now space_id db =
     (case soft_delete_space db now space_id of
        Inl e \<Rightarrow> (db, Inl (missing_or_raise (SpaceNotFoundError space_id) ''Space not found'' e))
      | Inr db \<Rightarrow> (db, Inr ()))"

section \<open>Reservations\<close>

definition legacy_list_reservations ::
  "int option \<Rightarrow> int option \<Rightarrow> uuid option \<Rightarrow> string option \<Rightarrow> pdb \<Rightarrow> py_error + Reservation list" where
  "legacy_list_reservations limit offset space_id user_email db =
     (case check_PaginationParams limit offset of
        Inl e \<Rightarrow> Inl e
      | Inr (l, n) \<Rightarrow>
          Inr (get_reservations db \<lparr>rf_space_id = space_id, rf_user_email = user_email, rf_status = None, rf_date_from = None,
                                    rf_date_to = None, rf_limit = l, rf_offset = n\<rparr>))"

definition legacy_get_reservation :: "pdb \<Rightarrow> uuid \<Rightarrow> legacy_error + Reservation" where
  "legacy_get_reservation db i =
     (case get_reservation db i of
        None \<Rightarrow> Inl (Raised (Parking (ReservationNotFoundError i))) | Some r \<Rightarrow> Inr r)"

text \<open>The row comes back with aware times, as \<open>booking_of\<close> says.\<close>

definition legacy_create_reservation ::
  "uuid option \<Rightarrow> uuid \<Rightarrow> uuid \<Rightarrow> instant \<Rightarrow> ReservationCreate \<Rightarrow> pdb \<times> tasks \<Rightarrow> (pdb \<times> tasks) \<times> (legacy_error + Reservation)" where
  "legacy_create_reservation default_tenant i rq now rc w =
     (case w of (db, tasks) \<Rightarrow>
      if \<not> check_availability db (rc_space_id rc) (rc_start_time rc) (rc_end_time rc)
      then (w, Inl (Http (HTTPException 409 ''Space is not available for the requested time period'')))
      else case pool_create_reservation default_tenant db i rq now rc of
             Inl e \<Rightarrow> (w, Inl (conflict_or_raise e))
           | Inr (db, r) \<Rightarrow> ((db, schedule_reservation now (booking_of r) tasks), Inr r))"

definition legacy_cancel_reservation :: "uuid \<Rightarrow> pdb \<times> tasks \<Rightarrow> (pdb \<times> tasks) \<times> (legacy_error + unit)" where
  "legacy_cancel_reservation i w =
     (case w of (db, tasks) \<Rightarrow>
      case pool_cancel_reservation db i of
        Inl e \<Rightarrow> (w, Inl (missing_or_raise (ReservationNotFoundError i) ''Reservation not found'' e))
      | Inr (db, _) \<Rightarrow> ((db, cancel_reservation_tasks i tasks), Inr ()))"

section \<open>Downlinks\<close>

text \<open>
  The summary of the gateways is a dictionary with the keys of \<open>get_health_summary\<close>; another key raises, and the
  text of a \<open>KeyError\<close> is the key in quotes.
\<close>

definition health_count :: "string \<Rightarrow> health_summary \<Rightarrow> nat result" where
  "health_count key h =
     (if key = ''total_gateways'' then Inr (hs_total_gateways h)
      else if key = ''online_count'' then Inr (hs_online_count h)
      else if key = ''offline_count'' then Inr (hs_offline_count h)
      else Inl (KeyError key))"

record kuando_expected =
  kx_rgb :: "int list"
  kx_counter :: int
  kx_timestamp :: instant
  kx_request_id :: string

record ('r, 'g) downlink_env =
  de_redis :: "'r redis_ops"
  de_call :: "'g enqueue_call"
  de_client :: cs_client
  de_has_pool :: bool
  de_gateways :: "gateway_row list option"
  de_now :: instant
  de_request_id :: string
  de_dumps :: "kuando_expected \<Rightarrow> string"
  de_counter :: "string \<Rightarrow> int result"
  de_str :: "py_error \<Rightarrow> string"

record ('r, 'g) downlink_world =
  dw_redis :: 'r
  dw_server :: 'g
  dw_registry :: registry
  dw_monitor :: gateway_monitor

definition downlink_failed :: "string \<Rightarrow> http_error" where
  "downlink_failed e = HTTPException 500 (''Downlink failed: '' @ e)"

text \<open>A command for a known handler, else the payload as hexadecimal or base64 text.\<close>

definition encode_request :: "handler option \<Rightarrow> downlink_params \<Rightarrow> DownlinkRequest \<Rightarrow> byte list result" where
  "encode_request h params d =
     (case (h, truthy (dr_command d)) of
        (Some h, True) \<Rightarrow> encode_downlink h (str_field (dr_command d)) params
      | _ \<Rightarrow>
          if truthy (dr_payload d)
          then (case bytes_fromhex (str_field (dr_payload d)) of Some bs \<Rightarrow> Inr bs | None \<Rightarrow> b64decode (str_field (dr_payload d)))
          else Inl (ValueError (''Either '' @ apostrophed ''command'' @ '' or '' @ apostrophed ''payload'' @ '' must be provided'')))"

text \<open>The payload for a Kuando light gets the byte that asks for an uplink, and what the light should show is stored.\<close>

definition is_kuando :: "string \<Rightarrow> bool" where
  "is_kuando device_eui = startswith device_eui ''202020''"

definition kuando_payload :: "byte list \<Rightarrow> byte list" where
  "kuando_payload bs = (if length bs = 5 then bs @ [1] else bs)"

definition expect_kuando :: "('r, 'g) downlink_env \<Rightarrow> string \<Rightarrow> byte list \<Rightarrow> 'r \<Rightarrow> 'r result" where
  "expect_kuando D device_eui bs s =
     (let last_uplink = rget (de_redis D) s (last_known_key device_eui) in
      case (if truthy last_uplink then de_counter D (str_field last_uplink) else Inr 0) of
        Inl e \<Rightarrow> Inl e
      | Inr counter \<Rightarrow>
          Inr (rset (de_redis D) s (pending_key device_eui)
            (de_dumps D \<lparr>kx_rgb = map uint [bs ! 1, bs ! 2, bs ! 3], kx_counter = counter, kx_timestamp = de_now D,
                         kx_request_id = de_request_id D\<rparr>) 300))"

text \<open>
  Every exception becomes a 500, the \<open>HTTPException\<close> of the gateway check included. The last step reads
  \<open>total_count\<close> from the summary.
\<close>

definition queue_and_answer ::
  "('r, 'g) downlink_env \<Rightarrow> health_summary \<Rightarrow> string \<Rightarrow> DownlinkRequest \<Rightarrow> byte list \<Rightarrow> ('r, 'g) downlink_world
   \<Rightarrow> ('r, 'g) downlink_world \<times> (http_error + queued \<times> nat \<times> nat)" where
  "queue_and_answer D health device_eui d bs w =
     (case queue_downlink (de_call D) (de_client D) device_eui (Payload_Bytes bs) (dr_fport d) (dr_confirmed d) (dw_server w) of
        (g, Inl e) \<Rightarrow> (w\<lparr>dw_server := g\<rparr>, Inl (downlink_failed (exn_str e)))
      | (g, Inr q) \<Rightarrow>
          (w\<lparr>dw_server := g\<rparr>,
           case (health_count ''online_count'' health, health_count ''total_count'' health) of
             (Inr online, Inr all_gateways) \<Rightarrow> Inr (q, online, all_gateways)
           | (Inl e, _) \<Rightarrow> Inl (downlink_failed (de_str D e))
           | (_, Inl e) \<Rightarrow> Inl (downlink_failed (de_str D e))))"

definition legacy_send_downlink ::
  "('r, 'g) downlink_env \<Rightarrow> string \<Rightarrow> downlink_params \<Rightarrow> DownlinkRequest \<Rightarrow> ('r, 'g) downlink_world
   \<Rightarrow> ('r, 'g) downlink_world \<times> (http_error + queued \<times> nat \<times> nat)" where
  "legacy_send_downlink D eui params d w =
     (case normalize_deveui eui of
        Inl e \<Rightarrow> (w, Inl (downlink_failed (de_str D e)))
      | Inr device_eui \<Rightarrow>
     (case get_health_summary (de_has_pool D) (de_gateways D) (de_now D) (dw_monitor w) of
        (m, health) \<Rightarrow>
      let w = w\<lparr>dw_monitor := m\<rparr> in
      if hs_online_count health = 0
      then (w, Inl (downlink_failed ''503: No online gateways available. Cannot send downlink.''))
      else
     (case get_handler device_eui (dw_registry w) of
        (reg, h) \<Rightarrow>
      let w = w\<lparr>dw_registry := reg\<rparr> in
     (case encode_request h params d of
        Inl e \<Rightarrow> (w, Inl (downlink_failed (de_str D e)))
      | Inr bs \<Rightarrow>
          if is_kuando device_eui \<and> length bs \<ge> 5
          then let bs = kuando_payload bs in
               (case expect_kuando D device_eui bs (dw_redis w) of
                  Inl e \<Rightarrow> (w, Inl (downlink_failed (de_str D e)))
                | Inr s \<Rightarrow> queue_and_answer D health device_eui d bs (w\<lparr>dw_redis := s\<rparr>))
          else queue_and_answer D health device_eui d bs w))))"

text \<open>The check after fifteen seconds, on the answer of \<open>get_device_queue\<close>.\<close>

definition verify_downlink_transmission :: "string \<Rightarrow> queue_entry list \<Rightarrow> string \<times> string" where
  "verify_downlink_transmission queue_id queue =
     (if filter (\<lambda>item. qe_id item = queue_id \<and> qe_is_pending item) queue \<noteq> [] then (''stuck'', queue_id)
      else (''transmitted'', queue_id))"

section \<open>Properties\<close>

lemma queue_and_answer_refused: "\<exists>e. snd (queue_and_answer D h eui d bs w) = Inl (HTTPException 500 e)"
  by (simp add: queue_and_answer_def health_count_def downlink_failed_def split: prod.split sum.split)

lemma queue_and_answer_server:
  "fst (queue_and_answer D h eui d bs w)
     = w\<lparr>dw_server := fst (queue_downlink (de_call D) (de_client D) eui (Payload_Bytes bs) (dr_fport d) (dr_confirmed d) (dw_server w))\<rparr>"
  by (simp add: queue_and_answer_def split: prod.split sum.split)

text \<open>
  A downlink is never reported as queued. The answer is always a 500, because the summary of the gateways has no
  \<open>total_count\<close>; but with a gateway online and a payload that decodes, the command has reached ChirpStack by then, and
  a client that repeats the request queues it again.
\<close>

theorem legacy_downlink_sent_but_refused:
  "(\<exists>e. snd (legacy_send_downlink D eui params d w) = Inl (HTTPException 500 e))
   \<and> (\<forall>e bs. normalize_deveui eui = Inr e \<longrightarrow> \<not> is_kuando e \<longrightarrow>
        hs_online_count (snd (get_health_summary (de_has_pool D) (de_gateways D) (de_now D) (dw_monitor w))) \<noteq> 0 \<longrightarrow>
        encode_request (snd (get_handler e (dw_registry w))) params d = Inr bs \<longrightarrow>
        dw_server (fst (legacy_send_downlink D eui params d w))
          = fst (queue_downlink (de_call D) (de_client D) e (Payload_Bytes bs) (dr_fport d) (dr_confirmed d) (dw_server w)))"
proof (intro conjI allI impI)
  show "\<exists>e. snd (legacy_send_downlink D eui params d w) = Inl (HTTPException 500 e)"
    using queue_and_answer_refused
    by (auto simp: legacy_send_downlink_def downlink_failed_def Let_def split: sum.split prod.split)
  show "dw_server (fst (legacy_send_downlink D eui params d w))
      = fst (queue_downlink (de_call D) (de_client D) e (Payload_Bytes bs) (dr_fport d) (dr_confirmed d) (dw_server w))"
    if "normalize_deveui eui = Inr e" "\<not> is_kuando e"
      "hs_online_count (snd (get_health_summary (de_has_pool D) (de_gateways D) (de_now D) (dw_monitor w))) \<noteq> 0"
      "encode_request (snd (get_handler e (dw_registry w))) params d = Inr bs" for e bs
    using that by (simp add: legacy_send_downlink_def Let_def queue_and_answer_server case_prod_beta)
qed

text \<open>What the light last reported, and what sending a command to it leaves in Redis.\<close>

definition last_counter :: "('r, 'g) downlink_env \<Rightarrow> string \<Rightarrow> 'r \<Rightarrow> int result" where
  "last_counter D eui s =
     (let last = rget (de_redis D) s (last_known_key eui) in if truthy last then de_counter D (str_field last) else Inr 0)"

lemma kuando_sent:
  assumes "normalize_deveui eui = Inr e" "is_kuando e"
    and "hs_online_count (snd (get_health_summary (de_has_pool D) (de_gateways D) (de_now D) (dw_monitor w))) \<noteq> 0"
    and "encode_request (snd (get_handler e (dw_registry w))) params d = Inr bs" "5 \<le> length bs"
    and "last_counter D e (dw_redis w) = Inr c"
  shows "dw_redis (fst (legacy_send_downlink D eui params d w))
      = rset (de_redis D) (dw_redis w) (pending_key e)
          (de_dumps D \<lparr>kx_rgb = map uint [bs ! 1, bs ! 2, bs ! 3], kx_counter = c, kx_timestamp = de_now D,
                       kx_request_id = de_request_id D\<rparr>) 300"
proof -
  have "kuando_payload bs ! i = bs ! i" if "i < 5" for i
    using that assms(5) by (simp add: kuando_payload_def nth_append)
  then have "expect_kuando D e (kuando_payload bs) (dw_redis w) = Inr (rset (de_redis D) (dw_redis w) (pending_key e)
          (de_dumps D \<lparr>kx_rgb = map uint [bs ! 1, bs ! 2, bs ! 3], kx_counter = c, kx_timestamp = de_now D,
                       kx_request_id = de_request_id D\<rparr>) 300)"
    using assms(6) by (simp add: expect_kuando_def last_counter_def Let_def)
  then show ?thesis
    using assms by (simp add: legacy_send_downlink_def Let_def queue_and_answer_server case_prod_beta)
qed

lemma three_after_first: "4 \<le> length xs \<Longrightarrow> take 3 (drop 1 xs) = [xs ! 1, xs ! 2, xs ! 3]"
  by (rule nth_equalityI) (auto simp: less_Suc_eq numeral_eq_Suc)

lemma kuando_keys_neq: "pending_key e \<noteq> last_known_key e"
  by (simp add: pending_key_def last_known_key_def)

context redis
begin

lemma verify_pending:
  assumes "ue_redis U = R" "8 \<le> length up" "\<not> ue_fails U StoreKuando" "\<not> ue_fails U ReadPending" "\<not> ue_fails U DeletePending"
    and "contents s (pending_key e) = Some (RStr v)" "v \<noteq> []" "ue_loads U v = Inr (rgb, c)" "length rgb = 3"
  shows "contents (verify_kuando U e up s) (pending_key e)
      = (if rgb = map uint [up ! 1, up ! 2, up ! 3] \<and> c < uint (up ! 0) then None else Some (RStr v))"
proof -
  have k: "pending_key e \<noteq> last_known_key e" by (rule kuando_keys_neq)
  have "rget R (rset R s (last_known_key e) x n) (pending_key e) = Some v" for x n
    using assms(6) k by (subst get) (simp_all add: set strlike_def str_at_def)
  then show ?thesis
    using assms k by (auto simp: verify_kuando_def Let_def set del)
qed

end


subsection \<open>Examples\<close>

definition demo_expected_text :: "kuando_expected \<Rightarrow> string" where
  "demo_expected_text x =
     frame_text (int_str (kx_counter x)) @ concat (map (\<lambda>i. frame_text (int_str i)) (kx_rgb x))"

definition demo_expected_of :: "string \<Rightarrow> (int list \<times> int) result" where
  "demo_expected_of s =
     (case do {(c, s) \<leftarrow> unframe s; (r, s) \<leftarrow> unframe s; (g, s) \<leftarrow> unframe s; (b, s) \<leftarrow> unframe s;
               c \<leftarrow> parse_int c; r \<leftarrow> parse_int r; g \<leftarrow> parse_int g; b \<leftarrow> parse_int b; Some ([r, g, b], c)} of
        None \<Rightarrow> Inl TypeError | Some x \<Rightarrow> Inr x)"

lemma demo_expected_json:
  assumes "length (kx_rgb x) = 3"
  shows "demo_expected_of (demo_expected_text x) = Inr (kx_rgb x, kx_counter x)"
proof -
  obtain r g b where "kx_rgb x = [r, g, b]"
    using assms by (auto simp: numeral_eq_Suc length_Suc_conv)
  then show ?thesis
    using unframe_frame [of "int_str b" "[]"] by (simp add: demo_expected_text_def demo_expected_of_def)
qed

lemma demo_text_nonempty: "demo_expected_text x \<noteq> []"
  by (cases "int_str (kx_counter x)") (simp_all add: demo_expected_text_def)

definition demo_downlink_env :: "(mem, cs_db) downlink_env" where
  "demo_downlink_env =
     \<lparr>de_redis = mem_ops, de_call = mem_call, de_client = demo_client, de_has_pool = True,
      de_gateways = Some [\<lparr>gr_gateway_id = ''g'', gr_name = ''g'', gr_description = [], gr_last_seen_at = Some 10\<rparr>],
      de_now = 20, de_request_id = ''q'', de_dumps = demo_expected_text, de_counter = (\<lambda>_. Inr 0), de_str = (\<lambda>_. [])\<rparr>"

definition demo_downlink_world :: "(mem, cs_db) downlink_world" where
  "demo_downlink_world =
     \<lparr>dw_redis = [], dw_server = \<lparr>cs_devices = [], cs_queue = []\<rparr>, dw_registry = auto_register new_registry,
      dw_monitor = new_monitor 5\<rparr>"

definition demo_downlink :: DownlinkRequest where
  "demo_downlink = \<lparr>dr_payload = Some ''00FF000000'', dr_fport = 15, dr_confirmed = False, dr_command = None\<rparr>"

definition no_params :: downlink_params where
  "no_params = \<lparr>dp_state = None, dp_r = None, dp_g = None, dp_b = None\<rparr>"

definition demo_light :: string where "demo_light = ''2020200000000001''"

definition demo_verifier :: "mem uplink_env" where
  "demo_verifier = demo_uplink_env\<lparr>ue_loads := demo_expected_of\<rparr>"


end
