(* ===== verification/Legacy_Uplink.thy ===== *)
theory Legacy_Uplink
  imports Legacy_Api Webhook_Spool
begin

text \<open>
  \<open>process_uplink\<close> of the previous entry point, \<open>src/main_v5.2_legacy.py\<close>. It takes the steps of the present one
  (\<open>Uplink\<close>) with three differences: the EUI is put in lower case, the fallback handler is looked up by the EUI, and an
  exception spools the webhook and becomes an HTTP error. Inside the \<open>try\<close> an exception is a result with the status
  error, which no other path has.
\<close>

definition legacy_body ::
  "'r uplink_env \<Rightarrow> webhook \<Rightarrow> string option \<Rightarrow> byte list \<Rightarrow> 'r uplink_world \<Rightarrow> 'r uplink_world \<times> ProcessingResult" where
  "legacy_body U data signature body w =
     (let device_eui = lower (info_text di_devEui [] data);
          device_name = info_text di_deviceName ''unknown'' data;
          profile_name = info_text di_deviceProfileName ''unknown'' data
      in if device_eui = [] \<or> ue_fails U GetDevice \<or> ue_fails U GetSpace then (w, error_result device_eui)
      else
      (let device_record = get_sensor_device_by_deveui (uw_pdb w) device_eui;
           space = get_space_by_sensor (uw_pdb w) device_eui;
           tenant_id = Option.bind space sp_tenant_id
       in case verify_webhook_signature (ue_hmac U) (ue_fails U ReadSecret) (uw_secrets w) signature tenant_id body of
         Inl _ \<Rightarrow> (w, error_result device_eui)
       | Inr _ \<Rightarrow>
       (case choose_handler device_record device_eui (uw_registry w) of
         (g, handler) \<Rightarrow>
       (let w = w\<lparr>uw_registry := g\<rparr> in
        case parse_chirpstack_webhook data of
          Inl _ \<Rightarrow> (w, error_result device_eui)
        | Inr parsed \<Rightarrow>
        (let uplink = (case handler of
                         None \<Rightarrow> None
                       | Some h \<Rightarrow> (case parse_uplink h data of Inl _ \<Rightarrow> None | Inr u \<Rightarrow> Some u))
         in case discover U device_eui device_name profile_name (kuando_step U device_eui (pw_payload parsed) w) of
              Inl w \<Rightarrow> (w, error_result device_eui)
            | Inr w \<Rightarrow>
                (case space of
                   None \<Rightarrow> track_orphan U device_eui parsed uplink w
                 | Some sp \<Rightarrow> apply_reading U device_eui sp parsed uplink w))))))"

text \<open>
  \<open>webhook_text\<close> is the body as it is spooled, \<open>err\<close> and \<open>err_type\<close> the text and class of the exception, \<open>database_error\<close>
  whether it is a \<open>DatabaseError\<close>, \<open>failing\<close> whether the spool cannot be written.
\<close>

record uplink_failure =
  uf_database_error :: bool
  uf_failing :: bool
  uf_spool_id :: string
  uf_webhook_text :: string
  uf_err :: string
  uf_err_type :: string

definition legacy_process_uplink ::
  "uplink_failure \<Rightarrow> 'r uplink_env \<Rightarrow> webhook \<Rightarrow> string option \<Rightarrow> byte list \<Rightarrow> 'r uplink_world \<times> spool option
   \<Rightarrow> ('r uplink_world \<times> spool option) \<times> (http_error + ProcessingResult)" where
  "legacy_process_uplink F U data signature body s =
     (case s of (w, spool) \<Rightarrow>
      case legacy_body U data signature body w of (w, r) \<Rightarrow>
      if pr_status r \<noteq> ''error'' then ((w, spool), Inr r)
      else case spool_webhook_on_error (uf_failing F) (ue_now U) (uf_spool_id F) (uf_webhook_text F) (pr_device_eui r)
                  (ue_request_id U) (uf_err F) (uf_err_type F) spool of
             (spool, spooled) \<Rightarrow>
               ((w, spool),
                if \<not> uf_database_error F then Inl (HTTPException 500 (''Uplink processing failed: '' @ uf_err F))
                else if spooled then Inr (result ''spooled'' (pr_device_eui r) None None)
                else Inl (HTTPException 503 ''Database unavailable and spool failed - webhook lost'')))"

section \<open>Properties\<close>

text \<open>Since migration 011 every EUI of the table is in upper case: one with a letter is never found in lower case.\<close>

definition euis_upper :: "pdb \<Rightarrow> bool" where
  "euis_upper db = (\<forall>r\<in>set (db_spaces db). \<forall>e. sp_sensor_eui r = Some e \<longrightarrow> upper e = e)"

lemma lower_eui_unfound:
  assumes "euis_upper db" "upper e \<noteq> e"
  shows "get_space_by_sensor db e = None"
  using assms by (auto simp: get_space_by_sensor_def find_None_iff euis_upper_def)

lemma track_orphan_spaces:
  "db_spaces (uw_pdb (fst (track_orphan U e p u w))) = db_spaces (uw_pdb w)"
  "db_state_changes (uw_pdb (fst (track_orphan U e p u w))) = db_state_changes (uw_pdb w)"
  "pr_status (snd (track_orphan U e p u w)) \<noteq> ''success''"
  by (auto simp: track_orphan_def Let_def result_def insert_telemetry_def insert_sensor_reading_def uw_pdb_def with_pdb_def on_pdb_def
      split: option.split)

lemma discover_spaces:
  "db_spaces (uw_pdb (case_sum id id (discover U e n p w))) = db_spaces (uw_pdb w)"
  "db_state_changes (uw_pdb (case_sum id id (discover U e n p w))) = db_state_changes (uw_pdb w)"
proof -
  have "core (uw_pdb (case_sum id id (discover U e n p w))) = core (uw_pdb w)"
    using core_device_type [of "uw_pdb w" "ue_type_id U" p "Some parsed_keys" "''sensor''"]
    by (auto simp: discover_def core_sensor_device split: prod.split)
  then show "db_spaces (uw_pdb (case_sum id id (discover U e n p w))) = db_spaces (uw_pdb w)"
    "db_state_changes (uw_pdb (case_sum id id (discover U e n p w))) = db_state_changes (uw_pdb w)"
    by (simp_all add: core_def)
qed

lemma legacy_body_orphan:
  assumes "get_space_by_sensor (uw_pdb w) (lower (info_text di_devEui [] data)) = None"
  obtains "snd (legacy_body U data signature body w) = error_result (lower (info_text di_devEui [] data))"
      "db_spaces (uw_pdb (fst (legacy_body U data signature body w))) = db_spaces (uw_pdb w)"
      "db_state_changes (uw_pdb (fst (legacy_body U data signature body w))) = db_state_changes (uw_pdb w)"
  | w1 parsed u where "legacy_body U data signature body w = track_orphan U (lower (info_text di_devEui [] data)) parsed u w1"
      "db_spaces (uw_pdb w1) = db_spaces (uw_pdb w)" "db_state_changes (uw_pdb w1) = db_state_changes (uw_pdb w)"
proof -
  let ?e = "lower (info_text di_devEui [] data)"
  let ?disc = "\<lambda>parsed w. discover U ?e (info_text di_deviceName ''unknown'' data) (info_text di_deviceProfileName ''unknown'' data)
    (kuando_step U ?e (pw_payload parsed) w)"
  have disc: "db_spaces (uw_pdb w2) = db_spaces (uw_pdb w)" "db_state_changes (uw_pdb w2) = db_state_changes (uw_pdb w)"
    if "?disc parsed (w\<lparr>uw_registry := g\<rparr>) = Inl w2 \<or> ?disc parsed (w\<lparr>uw_registry := g\<rparr>) = Inr w2" for parsed g w2
  proof -
    have "case_sum id id (?disc parsed (w\<lparr>uw_registry := g\<rparr>)) = w2" using that by auto
    with discover_spaces [of U ?e "info_text di_deviceName ''unknown'' data" "info_text di_deviceProfileName ''unknown'' data"
        "kuando_step U ?e (pw_payload parsed) (w\<lparr>uw_registry := g\<rparr>)"]
    have "db_spaces (uw_pdb w2) = db_spaces (uw_pdb (kuando_step U ?e (pw_payload parsed) (w\<lparr>uw_registry := g\<rparr>)))"
      "db_state_changes (uw_pdb w2) = db_state_changes (uw_pdb (kuando_step U ?e (pw_payload parsed) (w\<lparr>uw_registry := g\<rparr>)))"
      by simp_all
    then show "db_spaces (uw_pdb w2) = db_spaces (uw_pdb w)" "db_state_changes (uw_pdb w2) = db_state_changes (uw_pdb w)"
      by (simp_all add: uw_pdb_def)
  qed
  have plain: "uw_pdb (w\<lparr>uw_registry := g\<rparr>) = uw_pdb w" for g by (simp add: uw_pdb_def)
  show thesis
  proof (cases "?e = [] \<or> ue_fails U GetDevice \<or> ue_fails U GetSpace")
    case True then show thesis using that(1) by (auto simp: legacy_body_def Let_def)
  next
    case ok: False
    obtain g h where ch: "choose_handler (get_sensor_device_by_deveui (uw_pdb w) ?e) ?e (uw_registry w) = (g, h)" by fastforce
    note body = legacy_body_def [of U data signature body w, unfolded Let_def assms bind.simps]
    show thesis
    proof (cases "verify_webhook_signature (ue_hmac U) (ue_fails U ReadSecret) (uw_secrets w) signature None body")
      case Inl with ok show thesis using that(1) by (simp add: body)
    next
      case sig: (Inr b)
      show thesis
      proof (cases "parse_chirpstack_webhook data")
        case Inl with ok sig ch show thesis using that(1) plain by (simp add: body)
      next
        case parsed: (Inr parsed)
        show thesis
        proof (cases "?disc parsed (w\<lparr>uw_registry := g\<rparr>)")
          case (Inl w2)
          with ok sig ch parsed have "legacy_body U data signature body w = (w2, error_result ?e)" by (simp add: body)
          then show thesis using that(1) disc [OF disjI1 [OF Inl]] by simp
        next
          case (Inr w2)
          with ok sig ch parsed have "\<exists>u. legacy_body U data signature body w = track_orphan U ?e parsed u w2" by (auto simp: body)
          then show thesis using that(2) disc [OF disjI2 [OF Inr]] by blast
        qed
      qed
    qed
  qed
qed

text \<open>
  With upper-case EUIs in the table the previous entry point moves no space: whatever a sensor with a letter in its EUI
  reports, the spaces and their history stay, and the answer is never success.
\<close>

theorem legacy_uplink_moves_nothing:
  assumes "euis_upper (uw_pdb w)" "upper (lower (info_text di_devEui [] data)) \<noteq> lower (info_text di_devEui [] data)"
    and "legacy_process_uplink F U data signature body (w, spool) = ((w', spool'), r)"
  shows "db_spaces (uw_pdb w') = db_spaces (uw_pdb w) \<and> db_state_changes (uw_pdb w') = db_state_changes (uw_pdb w)
    \<and> (\<forall>p. r = Inr p \<longrightarrow> pr_status p \<noteq> ''success'')"
proof -
  have none: "get_space_by_sensor (uw_pdb w) (lower (info_text di_devEui [] data)) = None"
    by (rule lower_eui_unfound [OF assms(1,2)])
  obtain w1 q where q: "legacy_body U data signature body w = (w1, q)" by fastforce
  have "w' = w1" "r = Inr q \<or> (\<exists>e. r = Inl e) \<or> r = Inr (result ''spooled'' (pr_device_eui q) None None)"
    using assms(3) q by (auto simp: legacy_process_uplink_def split: if_splits prod.splits)
  moreover have "db_spaces (uw_pdb w1) = db_spaces (uw_pdb w) \<and> db_state_changes (uw_pdb w1) = db_state_changes (uw_pdb w)
      \<and> pr_status q \<noteq> ''success''"
    using none
  proof (cases rule: legacy_body_orphan [of w data U signature body])
    case 1 then show ?thesis using q by (simp add: result_def)
  next
    case (2 w2 parsed u)
    then have "track_orphan U (lower (info_text di_devEui [] data)) parsed u w2 = (w1, q)" using q by simp
    with track_orphan_spaces [of U "lower (info_text di_devEui [] data)" parsed u w2] 2 show ?thesis by simp
  qed
  ultimately show ?thesis by (auto simp: result_def)
qed

text \<open>A webhook with a bad signature is answered 500, not 401, and kept in the spool.\<close>

theorem forged_webhook_spooled:
  assumes "get_space_by_sensor (uw_pdb w) (lower (info_text di_devEui [] data)) = Some sp"
    and "verify_webhook_signature (ue_hmac U) (ue_fails U ReadSecret) (uw_secrets w) signature (sp_tenant_id sp) body = Inl x"
    and "\<not> uf_database_error F" "\<not> uf_failing F"
  shows "snd (legacy_process_uplink F U data signature body (w, Some fs)) = Inl (HTTPException 500 (''Uplink processing failed: '' @ uf_err F))
    \<and> snd (fst (legacy_process_uplink F U data signature body (w, Some fs))) =
        Some (fst (spool_enqueue (ue_now U) (uf_spool_id F) (uf_webhook_text F) (lower (info_text di_devEui [] data)) (ue_request_id U)
          [(''error'', uf_err F), (''error_type'', uf_err_type F)] fs))"
proof -
  have "legacy_body U data signature body w = (w, error_result (lower (info_text di_devEui [] data)))"
    using assms(1,2) by (simp add: legacy_body_def Let_def)
  then show ?thesis using assms(3,4) by (simp add: legacy_process_uplink_def spool_webhook_on_error_def result_def)
qed

end
