(* ===== verification/Task_Lifecycle.thy ===== *)
theory Task_Lifecycle
  imports Background_Tasks
begin

text \<open>
  The life of \<open>BackgroundTaskManager\<close> in \<open>src/background_tasks.py\<close>: which tasks the event loop runs for it, from
  \<open>start\<close> to \<open>stop\<close>, with the tasks of reservations scheduled in between; and the bodies of the monitoring loop and of the
  loop that refreshes the materialized views.

  A task of the event loop is a number. \<open>el_live\<close> holds the tasks that are neither done nor cancelled; a cancellation
  takes effect at once here.
\<close>

section \<open>The event loop\<close>

record event_loop =
  el_next :: nat
  el_live :: "nat list"

definition create_task :: "event_loop \<Rightarrow> event_loop \<times> nat" where
  "create_task ev = (ev\<lparr>el_next := el_next ev + 1, el_live := el_live ev @ [el_next ev]\<rparr>, el_next ev)"

definition end_tasks :: "nat list \<Rightarrow> event_loop \<Rightarrow> event_loop" where
  "end_tasks hs ev = ev\<lparr>el_live := filter (\<lambda>h. h \<notin> set hs) (el_live ev)\<rparr>"

section \<open>The manager\<close>

datatype loop = Cleanup | Monitoring | Queue_Cleanup | Reconciliation | Reservation_Expiry | Views_Refresh

text \<open>\<open>mg_loops\<close> are the attributes that hold the tasks of the loops, \<open>mg_handles\<close> the handles inside \<open>scheduled_tasks\<close>.\<close>

record manager =
  mg_running :: bool
  mg_loops :: "(loop \<times> nat) list"
  mg_tasks :: tasks
  mg_handles :: "(string \<times> nat) list"

definition new_manager :: manager where
  "new_manager = \<lparr>mg_running = False, mg_loops = [], mg_tasks = [], mg_handles = []\<rparr>"

definition start_loop :: "loop \<Rightarrow> manager \<times> event_loop \<Rightarrow> manager \<times> event_loop" where
  "start_loop l s =
     (case s of (m, ev) \<Rightarrow> case create_task ev of (ev, h) \<Rightarrow> (m\<lparr>mg_loops := AList.update l h (mg_loops m)\<rparr>, ev))"

text \<open>Scheduling as in \<open>schedule_at\<close>, with the task that is created.\<close>

definition mg_schedule_at ::
  "instant \<Rightarrow> string \<Rightarrow> datetime \<Rightarrow> booking \<Rightarrow> manager \<times> event_loop \<Rightarrow> (manager \<times> event_loop) result" where
  "mg_schedule_at now action t r s =
     (case s of (m, ev) \<Rightarrow>
      case schedule_at now action t r (mg_tasks m) of
        Inl e \<Rightarrow> Inl e
      | Inr tasks \<Rightarrow>
          if dt_gt t (Naive now) = Inr True
          then (case create_task ev of (ev, h) \<Rightarrow>
                  Inr (m\<lparr>mg_tasks := tasks, mg_handles := AList.update (task_id (bk_id r) action) h (mg_handles m)\<rparr>, ev))
          else Inr (m, ev))"

definition mg_schedule :: "instant \<Rightarrow> booking \<Rightarrow> manager \<times> event_loop \<Rightarrow> manager \<times> event_loop" where
  "mg_schedule now r s =
     (case mg_schedule_at now ''start'' (bk_start_time r) r s of
        Inl _ \<Rightarrow> s
      | Inr s1 \<Rightarrow> (case mg_schedule_at now ''end'' (bk_end_time r) r s1 of Inl _ \<Rightarrow> s1 | Inr s2 \<Rightarrow> s2))"

definition handles_of :: "(string \<Rightarrow> bool) \<Rightarrow> manager \<Rightarrow> nat list" where
  "handles_of P m = map snd (filter (\<lambda>(k, h). P k) (mg_handles m))"

definition mg_cancel :: "string \<Rightarrow> manager \<times> event_loop \<Rightarrow> manager \<times> event_loop" where
  "mg_cancel i s =
     (case s of (m, ev) \<Rightarrow>
      let mine = (\<lambda>k. \<exists>t\<in>set (mg_tasks m). fst t = k \<and> tk_reservation_id (snd t) = i)
      in (m\<lparr>mg_tasks := cancel_reservation_tasks i (mg_tasks m), mg_handles := filter (\<lambda>(k, h). \<not> mine k) (mg_handles m)\<rparr>,
          end_tasks (handles_of mine m) ev))"

text \<open>A scheduled task that has run removes the entry under its id; one that raises leaves the entry behind.\<close>

definition mg_task_ran :: "bool \<Rightarrow> string \<Rightarrow> nat \<Rightarrow> manager \<times> event_loop \<Rightarrow> manager \<times> event_loop" where
  "mg_task_ran raises k h s =
     (case s of (m, ev) \<Rightarrow>
      (if raises then m
       else m\<lparr>mg_tasks := AList.delete k (mg_tasks m), mg_handles := AList.delete k (mg_handles m)\<rparr>, end_tasks [h] ev))"

text \<open>\<open>clients\<close>: there is a ChirpStack client and a gateway monitor; \<open>rows\<close> are the reservations loaded.\<close>

definition loops_started :: "bool \<Rightarrow> loop list" where
  "loops_started clients =
     [Cleanup, Monitoring] @ (if clients then [Queue_Cleanup] else []) @ [Reconciliation, Reservation_Expiry, Views_Refresh]"

definition mg_start :: "bool \<Rightarrow> instant \<Rightarrow> Reservation list \<Rightarrow> manager \<times> event_loop \<Rightarrow> manager \<times> event_loop" where
  "mg_start clients now rows s =
     (case s of (m, ev) \<Rightarrow>
      if mg_running m then s
      else fold (\<lambda>r. mg_schedule now (booking_of r)) rows
             (fold start_loop (loops_started clients) (m\<lparr>mg_running := True\<rparr>, ev)))"

definition mg_stop :: "manager \<times> event_loop \<Rightarrow> manager \<times> event_loop" where
  "mg_stop s =
     (case s of (m, ev) \<Rightarrow>
      if \<not> mg_running m then s
      else (m\<lparr>mg_running := False, mg_tasks := [], mg_handles := []\<rparr>,
            end_tasks (map snd (mg_loops m)) (end_tasks (map snd (mg_handles m)) ev)))"

section \<open>Monitoring and views\<close>

record monitoring_report =
  mo_active_reservations :: nat
  mo_scheduled_tasks :: nat
  mo_state_counts :: "(SpaceState \<times> nat) list"
  mo_stuck_codes :: "string list"

definition state_counts :: "pdb \<Rightarrow> (SpaceState \<times> nat) list" where
  "state_counts db =
     (let rows = filter alive (db_spaces db)
      in map (\<lambda>st. (st, length (filter (\<lambda>r. sp_state r = st) rows))) (remdups (map sp_state rows)))"

definition monitoring_round :: "instant \<Rightarrow> pdb \<Rightarrow> tasks \<Rightarrow> monitoring_report" where
  "monitoring_round now db tasks =
     \<lparr>mo_active_reservations = get_active_reservation_count db now, mo_scheduled_tasks = length tasks,
      mo_state_counts = state_counts db, mo_stuck_codes = map sp_code (stuck_spaces now db)\<rparr>"

definition views_to_refresh :: "string list" where
  "views_to_refresh = [''space_utilization_daily'', ''api_usage_hourly'', ''reservation_stats_daily'', ''device_health_summary'']"

text \<open>A refresh that fails is logged and the next view follows.\<close>

definition refresh_round :: "(string \<Rightarrow> 'd \<Rightarrow> 'd option) \<Rightarrow> 'd \<Rightarrow> 'd" where
  "refresh_round refresh db =
     fold (\<lambda>v db. case refresh v db of None \<Rightarrow> db | Some db \<Rightarrow> db) views_to_refresh db"

section \<open>Properties\<close>

text \<open>Every live task belongs to the manager: it is the task of a loop, or that of a scheduled entry.\<close>

definition handles_owned :: "nat set \<Rightarrow> nat set \<Rightarrow> nat set \<Rightarrow> bool \<Rightarrow> nat \<Rightarrow> bool" where
  "handles_owned live entered loops running n =
     (live \<subseteq> entered \<union> (if running then loops else {}) \<and> entered \<subseteq> {..<n} \<and> loops \<subseteq> {..<n})"

definition owned_tasks :: "manager \<Rightarrow> event_loop \<Rightarrow> bool" where
  "owned_tasks m ev =
     (handles_owned (set (el_live ev)) (snd ` set (mg_handles m)) (snd ` set (mg_loops m)) (mg_running m) (el_next ev)
      \<and> distinct (map fst (mg_handles m)))"

definition unscheduled :: "booking \<Rightarrow> manager \<Rightarrow> bool" where
  "unscheduled r m = (\<forall>k\<in>fst ` set (mg_handles m). k \<noteq> task_id (bk_id r) ''start'' \<and> k \<noteq> task_id (bk_id r) ''end'')"

text \<open>The runs in which no reservation is scheduled again while a task for it is entered.\<close>

inductive managed :: "manager \<Rightarrow> event_loop \<Rightarrow> bool" where
  init: "managed new_manager \<lparr>el_next = 0, el_live = []\<rparr>"
| start: "managed m ev \<Longrightarrow> mg_start clients now rows (m, ev) = (m', ev') \<Longrightarrow> managed m' ev'"
| stop: "managed m ev \<Longrightarrow> mg_stop (m, ev) = (m', ev') \<Longrightarrow> managed m' ev'"
| schedule: "managed m ev \<Longrightarrow> unscheduled r m \<Longrightarrow> mg_schedule now r (m, ev) = (m', ev') \<Longrightarrow> managed m' ev'"
| cancel: "managed m ev \<Longrightarrow> mg_cancel i (m, ev) = (m', ev') \<Longrightarrow> managed m' ev'"
| ran: "managed m ev \<Longrightarrow> map_of (mg_handles m) k = Some h \<Longrightarrow> mg_task_ran raises k h (m, ev) = (m', ev') \<Longrightarrow> managed m' ev'"

lemma el_live_end [simp]: "set (el_live (end_tasks hs ev)) = set (el_live ev) - set hs" "el_next (end_tasks hs ev) = el_next ev"
  by (auto simp: end_tasks_def)

lemma owned_new: "handles_owned L H P b n \<Longrightarrow> handles_owned (insert n L) (insert n H) P b (Suc n)"
  by (auto simp: handles_owned_def lessThan_Suc split: if_splits)

lemma owned_start:
  assumes "handles_owned L H P False n" "n \<le> n'" "{n..<n'} \<subseteq> P'" "P' \<subseteq> P \<union> {n..<n'}"
  shows "handles_owned (L \<union> {n..<n'}) H P' True n'"
proof -
  have a: "L \<subseteq> H" "H \<subseteq> {..<n}" "P \<subseteq> {..<n}" using assms(1) by (simp_all add: handles_owned_def)
  have n: "{..<n} \<subseteq> {..<n'}" "{n..<n'} \<subseteq> {..<n'}" using assms(2) by auto
  have "L \<union> {n..<n'} \<subseteq> H \<union> P'" using a(1) assms(3) by blast
  moreover have "H \<subseteq> {..<n'}" using a(2) n(1) by (rule subset_trans)
  moreover have "P' \<subseteq> {..<n'}" by (rule subset_trans [OF assms(4) Un_least [OF subset_trans [OF a(3) n(1)] n(2)]])
  ultimately show ?thesis by (simp add: handles_owned_def)
qed

lemma diff_covered: "A \<subseteq> B \<union> C \<Longrightarrow> A - B - C = {}"
  by auto

lemma owned_fewer: "handles_owned L H P b n \<Longrightarrow> L' \<subseteq> L \<Longrightarrow> H' \<subseteq> H \<Longrightarrow> L' \<inter> (H - H') = {} \<Longrightarrow> handles_owned L' H' P b n"
  unfolding handles_owned_def by (cases b) blast+

lemma snd_update: "snd ` set (AList.update k v xs) \<subseteq> insert v (snd ` set xs)"
  by (induction xs) auto

lemma snd_update_new: "k \<notin> fst ` set xs \<Longrightarrow> snd ` set (AList.update k v xs) = insert v (snd ` set xs)"
  by (induction xs) auto

lemma interval_grows: "A \<subseteq> B \<union> {a..<c} \<Longrightarrow> a \<le> c \<Longrightarrow> insert c A \<subseteq> B \<union> {a..<Suc c}" for a c :: nat
  by auto

lemma loops_start:
  assumes "distinct ls" "fold start_loop ls (m, ev) = (m', ev')"
  shows "el_live ev' = el_live ev @ [el_next ev..<el_next ev + length ls]" "el_next ev' = el_next ev + length ls"
    "\<forall>i<length ls. map_of (mg_loops m') (ls ! i) = Some (el_next ev + i)"
    "m' = m\<lparr>mg_loops := mg_loops m'\<rparr>" "snd ` set (mg_loops m') \<subseteq> snd ` set (mg_loops m) \<union> {el_next ev..<el_next ev'}"
proof -
  have "el_live ev' = el_live ev @ [el_next ev..<el_next ev + length ls] \<and> el_next ev' = el_next ev + length ls
    \<and> (\<forall>i<length ls. map_of (mg_loops m') (ls ! i) = Some (el_next ev + i)) \<and> m' = m\<lparr>mg_loops := mg_loops m'\<rparr>
    \<and> snd ` set (mg_loops m') \<subseteq> snd ` set (mg_loops m) \<union> {el_next ev..<el_next ev'}"
    using assms
  proof (induction ls arbitrary: m' ev' rule: rev_induct)
    case (snoc l ls)
    obtain m1 ev1 where 1: "fold start_loop ls (m, ev) = (m1, ev1)" by fastforce
    then have "start_loop l (m1, ev1) = (m', ev')" using snoc.prems(2) by simp
    then have new: "m' = m1\<lparr>mg_loops := AList.update l (el_next ev1) (mg_loops m1)\<rparr>"
      "ev' = ev1\<lparr>el_next := el_next ev1 + 1, el_live := el_live ev1 @ [el_next ev1]\<rparr>"
      by (auto simp: start_loop_def create_task_def)
    have "ls ! i \<noteq> l" if "i < length ls" for i using that snoc.prems(1) by (auto simp: in_set_conv_nth)
    moreover have IH: "el_live ev1 = el_live ev @ [el_next ev..<el_next ev + length ls]" "el_next ev1 = el_next ev + length ls"
      "\<forall>i<length ls. map_of (mg_loops m1) (ls ! i) = Some (el_next ev + i)" "m1 = m\<lparr>mg_loops := mg_loops m1\<rparr>"
      "snd ` set (mg_loops m1) \<subseteq> snd ` set (mg_loops m) \<union> {el_next ev..<el_next ev1}"
      using snoc.IH [OF _ 1] snoc.prems(1) by auto
    moreover have "m' = m\<lparr>mg_loops := mg_loops m'\<rparr>" unfolding new(1) by (subst IH(4)) simp
    moreover have "snd ` set (mg_loops m') \<subseteq> snd ` set (mg_loops m) \<union> {el_next ev..<el_next ev'}"
      using subset_trans [OF snd_update interval_grows [OF IH(5)]] IH(2) by (simp add: new)
    ultimately show ?case
      by (auto simp: new update_conv' nth_append less_Suc_eq)
  qed simp
  then show "el_live ev' = el_live ev @ [el_next ev..<el_next ev + length ls]" "el_next ev' = el_next ev + length ls"
    "\<forall>i<length ls. map_of (mg_loops m') (ls ! i) = Some (el_next ev + i)"
    "m' = m\<lparr>mg_loops := mg_loops m'\<rparr>" "snd ` set (mg_loops m') \<subseteq> snd ` set (mg_loops m) \<union> {el_next ev..<el_next ev'}"
    by blast+
qed

lemma schedule_at_owned:
  assumes "owned_tasks m ev" "task_id (bk_id r) a \<notin> fst ` set (mg_handles m)" "mg_schedule_at now a t r (m, ev) = Inr (m', ev')"
  shows "owned_tasks m' ev'" "fst ` set (mg_handles m') \<subseteq> insert (task_id (bk_id r) a) (fst ` set (mg_handles m))"
proof -
  let ?k = "task_id (bk_id r) a"
  consider "m' = m" "ev' = ev"
    | tasks where "m' = m\<lparr>mg_tasks := tasks, mg_handles := AList.update ?k (el_next ev) (mg_handles m)\<rparr>"
        "ev' = ev\<lparr>el_next := el_next ev + 1, el_live := el_live ev @ [el_next ev]\<rparr>"
  proof (cases "schedule_at now a t r (mg_tasks m)")
    case Inl then show thesis using assms(3) by (simp add: mg_schedule_at_def)
  next
    case (Inr tasks)
    show thesis
    proof (cases "dt_gt t (Naive now) = Inr True")
      case True
      with Inr assms(3) have "(m\<lparr>mg_tasks := tasks, mg_handles := AList.update ?k (el_next ev) (mg_handles m)\<rparr>,
          ev\<lparr>el_next := el_next ev + 1, el_live := el_live ev @ [el_next ev]\<rparr>) = (m', ev')"
        by (simp add: mg_schedule_at_def create_task_def)
      then show thesis using that(2) by blast
    next
      case False
      with Inr assms(3) have "(m, ev) = (m', ev')" by (simp add: mg_schedule_at_def)
      then show thesis using that(1) by blast
    qed
  qed
  then have "owned_tasks m' ev' \<and> fst ` set (mg_handles m') \<subseteq> insert ?k (fst ` set (mg_handles m))"
  proof cases
    case 1 with assms(1) show ?thesis by auto
  next
    case 2
    have "snd ` set (mg_handles m') = insert (el_next ev) (snd ` set (mg_handles m))"
      using snd_update_new [OF assms(2)] by (simp add: 2(1))
    moreover have "distinct (map fst (mg_handles m'))" "fst ` set (mg_handles m') = insert ?k (fst ` set (mg_handles m))"
      using assms(1) distinct_update [of "mg_handles m"] by (simp_all add: 2(1) owned_tasks_def dom_update)
    ultimately show ?thesis
      using assms(1) owned_new by (simp add: 2 owned_tasks_def)
  qed
  then show "owned_tasks m' ev'" "fst ` set (mg_handles m') \<subseteq> insert ?k (fst ` set (mg_handles m))" by auto
qed

lemma schedule_owned:
  assumes "owned_tasks m ev" "unscheduled r m" "mg_schedule now r (m, ev) = (m', ev')"
  shows "owned_tasks m' ev'"
proof (cases "mg_schedule_at now ''start'' (bk_start_time r) r (m, ev)")
  case Inl with assms show ?thesis by (simp add: mg_schedule_def)
next
  case (Inr s1)
  obtain m1 ev1 where s1: "s1 = (m1, ev1)" by fastforce
  have k: "task_id (bk_id r) ''start'' \<notin> fst ` set (mg_handles m)" "task_id (bk_id r) ''end'' \<notin> fst ` set (mg_handles m)"
    using assms(2) unfolding unscheduled_def by blast+
  have 1: "owned_tasks m1 ev1" "fst ` set (mg_handles m1) \<subseteq> insert (task_id (bk_id r) ''start'') (fst ` set (mg_handles m))"
    using schedule_at_owned [OF assms(1) k(1) Inr [unfolded s1]] by blast+
  have "task_id (bk_id r) ''end'' \<notin> fst ` set (mg_handles m1)"
  proof
    assume "task_id (bk_id r) ''end'' \<in> fst ` set (mg_handles m1)"
    from subsetD [OF 1(2) this] show False
      by (rule insertE) (use k(2) task_id_neq [of "bk_id r"] in argo)+
  qed
  from schedule_at_owned(1) [OF 1(1) this] show ?thesis
    using assms(3) Inr s1 1(1) by (auto simp: mg_schedule_def split: sum.splits)
qed

lemma aware_schedules_nothing: "mg_schedule now (booking_of r) s = s"
  by (simp add: mg_schedule_def mg_schedule_at_def schedule_at_def booking_of_def case_prod_beta)

lemma start_owned:
  assumes "owned_tasks m ev" "mg_start clients now rows (m, ev) = (m', ev')"
  shows "owned_tasks m' ev'"
proof (cases "mg_running m")
  case True with assms show ?thesis by (simp add: mg_start_def)
next
  case False
  let ?ls = "loops_started clients"
  have "fold (\<lambda>r. mg_schedule now (booking_of r)) rows s = s" for s
    by (induction rows) (simp_all add: aware_schedules_nothing)
  then have f: "fold start_loop ?ls (m\<lparr>mg_running := True\<rparr>, ev) = (m', ev')"
    using assms(2) False by (simp add: mg_start_def)
  have "distinct ?ls" by (simp add: loops_started_def)
  note L = loops_start [OF this f]
  have sub: "{el_next ev..<el_next ev + length ?ls} \<subseteq> snd ` set (mg_loops m')"
  proof
    fix h assume "h \<in> {el_next ev..<el_next ev + length ?ls}"
    then have "map_of (mg_loops m') (?ls ! (h - el_next ev)) = Some h" using L(3) by auto
    then show "h \<in> snd ` set (mg_loops m')" by (force dest: map_of_SomeD)
  qed
  have m': "mg_running m'" "mg_handles m' = mg_handles m" by (subst L(4), simp)+
  have "handles_owned (set (el_live ev) \<union> {el_next ev..<el_next ev'}) (snd ` set (mg_handles m)) (snd ` set (mg_loops m')) True (el_next ev')"
    using assms(1) False sub L(2,5) by (intro owned_start) (simp_all add: owned_tasks_def)
  then show ?thesis using assms(1) by (simp add: owned_tasks_def m' L(1,2))
qed

lemma handles_split:
  "snd ` set (filter (\<lambda>(k, h). \<not> P k) hs) \<subseteq> snd ` set hs"
  "snd ` set hs - snd ` set (filter (\<lambda>(k, h). \<not> P k) hs) \<subseteq> set (map snd (filter (\<lambda>(k, h). P k) hs))"
  by (induction hs) auto

text \<open>Ending the tasks of the entries that are dropped keeps the live tasks owned.\<close>

lemma drop_owned:
  assumes "owned_tasks m ev" "el_next ev' = el_next ev" "set (el_live ev') = set (el_live ev) - set hs"
    "mg_handles m' = filter (\<lambda>(k, h). \<not> P k) (mg_handles m)" "mg_loops m' = mg_loops m" "mg_running m' = mg_running m"
    "set (map snd (filter (\<lambda>(k, h). P k) (mg_handles m))) \<subseteq> set hs"
  shows "owned_tasks m' ev'"
proof -
  have "handles_owned (set (el_live ev) - set hs) (snd ` set (filter (\<lambda>(k, h). \<not> P k) (mg_handles m)))
      (snd ` set (mg_loops m)) (mg_running m) (el_next ev)"
  proof (rule owned_fewer)
    show "handles_owned (set (el_live ev)) (snd ` set (mg_handles m)) (snd ` set (mg_loops m)) (mg_running m) (el_next ev)"
      using assms(1) by (simp add: owned_tasks_def)
    show "set (el_live ev) - set hs \<subseteq> set (el_live ev)" by (rule Diff_subset)
    show "snd ` set (filter (\<lambda>(k, h). \<not> P k) (mg_handles m)) \<subseteq> snd ` set (mg_handles m)" by (rule handles_split)
    show "(set (el_live ev) - set hs) \<inter> (snd ` set (mg_handles m) - snd ` set (filter (\<lambda>(k, h). \<not> P k) (mg_handles m))) = {}"
      using subset_trans [OF handles_split(2) assms(7)] by blast
  qed
  moreover have "distinct (map fst (filter (\<lambda>(k, h). \<not> P k) (mg_handles m)))"
    using assms(1) by (simp add: owned_tasks_def distinct_map_filter)
  ultimately show ?thesis unfolding owned_tasks_def assms(2-6) by blast
qed

lemma cancel_owned:
  assumes "owned_tasks m ev" "mg_cancel i (m, ev) = (m', ev')"
  shows "owned_tasks m' ev'"
proof -
  define mine where "mine = (\<lambda>k. \<exists>t\<in>set (mg_tasks m). fst t = k \<and> tk_reservation_id (snd t) = i)"
  have "(m\<lparr>mg_tasks := cancel_reservation_tasks i (mg_tasks m), mg_handles := filter (\<lambda>(k, h). \<not> mine k) (mg_handles m)\<rparr>,
      end_tasks (handles_of mine m) ev) = (m', ev')"
    using assms(2) unfolding mg_cancel_def Let_def prod.case mine_def .
  then have m': "m\<lparr>mg_tasks := cancel_reservation_tasks i (mg_tasks m), mg_handles := filter (\<lambda>(k, h). \<not> mine k) (mg_handles m)\<rparr> = m'"
    "end_tasks (handles_of mine m) ev = ev'" by simp_all
  show ?thesis
    by (rule drop_owned [where P = mine and hs = "handles_of mine m", OF assms(1)])
      (simp_all add: m' [symmetric] handles_of_def)
qed

lemma ran_owned:
  assumes "owned_tasks m ev" "map_of (mg_handles m) k = Some h" "mg_task_ran raises k h (m, ev) = (m', ev')"
  shows "owned_tasks m' ev'"
proof (cases raises)
  case True
  with assms(3) have "(m, end_tasks [h] ev) = (m', ev')" by (simp add: mg_task_ran_def)
  then have m': "m = m'" "end_tasks [h] ev = ev'" by simp_all
  have "filter (\<lambda>(k, h). False) (mg_handles m) = []" "filter (\<lambda>(k, h). \<not> False) (mg_handles m) = mg_handles m" by (simp_all add: case_prod_beta)
  then show ?thesis
    by (intro drop_owned [where P = "\<lambda>_. False" and hs = "[h]", OF assms(1)]) (simp_all add: m' [symmetric])
next
  case False
  with assms(3) have "(m\<lparr>mg_tasks := AList.delete k (mg_tasks m), mg_handles := AList.delete k (mg_handles m)\<rparr>, end_tasks [h] ev) = (m', ev')"
    by (simp add: mg_task_ran_def)
  then have m': "m\<lparr>mg_tasks := AList.delete k (mg_tasks m), mg_handles := AList.delete k (mg_handles m)\<rparr> = m'" "end_tasks [h] ev = ev'"
    by simp_all
  have d: "AList.delete k hs = filter (\<lambda>(j, h). \<not> j = k) hs" for hs :: "(string \<times> nat) list"
    by (auto simp: AList.delete_eq intro: filter_cong)
  have "set (map snd (filter (\<lambda>(j, h). j = k) (mg_handles m))) \<subseteq> {h}"
    using assms(1) eq_key_imp_eq_value [OF _ map_of_SomeD [OF assms(2)]] by (auto simp: owned_tasks_def)
  then show ?thesis
    by (intro drop_owned [where P = "\<lambda>j. j = k" and hs = "[h]", OF assms(1)]) (simp_all add: m' [symmetric] d)
qed

lemma stop_ends:
  assumes "owned_tasks m ev" "mg_running m" "mg_stop (m, ev) = (m', ev')"
  shows "el_live ev' = []" "owned_tasks m' ev'"
proof -
  have "(m\<lparr>mg_running := False, mg_tasks := [], mg_handles := []\<rparr>,
      end_tasks (map snd (mg_loops m)) (end_tasks (map snd (mg_handles m)) ev)) = (m', ev')"
    using assms(2,3) by (simp add: mg_stop_def)
  then have m': "m\<lparr>mg_running := False, mg_tasks := [], mg_handles := []\<rparr> = m'"
    "end_tasks (map snd (mg_loops m)) (end_tasks (map snd (mg_handles m)) ev) = ev'" by simp_all
  have o: "set (el_live ev) \<subseteq> snd ` set (mg_handles m) \<union> snd ` set (mg_loops m)" "snd ` set (mg_loops m) \<subseteq> {..<el_next ev}"
    using assms(1,2) by (simp_all add: owned_tasks_def handles_owned_def)
  have "set (el_live ev') = set (el_live ev) - snd ` set (mg_handles m) - snd ` set (mg_loops m)"
    unfolding m'(2) [symmetric] by simp
  then have "set (el_live ev') = {}" using diff_covered [OF o(1)] by simp
  then show e: "el_live ev' = []" by simp
  have "el_next ev' = el_next ev" unfolding m'(2) [symmetric] by simp
  then show "owned_tasks m' ev'" using e o(2) by (simp add: owned_tasks_def handles_owned_def m'(1) [symmetric])
qed

lemma managed_owned: "managed m ev \<Longrightarrow> owned_tasks m ev"
proof (induction rule: managed.induct)
  case init show ?case by (simp add: owned_tasks_def handles_owned_def new_manager_def)
next
  case (start m ev clients now rows m' ev') show ?case by (rule start_owned [OF start.IH start.hyps(2)])
next
  case (stop m ev m' ev')
  show ?case
  proof (cases "mg_running m")
    case True show ?thesis by (rule stop_ends(2) [OF stop.IH True stop.hyps(2)])
  next
    case False with stop show ?thesis by (simp add: mg_stop_def)
  qed
next
  case (schedule m ev r now m' ev') show ?case by (rule schedule_owned [OF schedule.IH schedule.hyps(2,3)])
next
  case (cancel m ev i m' ev') show ?case by (rule cancel_owned [OF cancel.IH cancel.hyps(2)])
next
  case (ran m ev k h raises m' ev') show ?case by (rule ran_owned [OF ran.IH ran.hyps(2,3)])
qed

text \<open>
  Property C36. However the manager has been started, stopped, given reservations, told to cancel some and had its tasks run
  or fail, as long as no reservation is scheduled while an entry for it is left, stopping it while it runs leaves no live
  task.
\<close>

theorem stop_leaves_no_task:
  assumes "managed m ev" "mg_running m" "mg_stop (m, ev) = (m', ev')"
  shows "el_live ev' = [] \<and> mg_tasks m' = [] \<and> \<not> mg_running m'"
proof -
  have "mg_tasks m' = []" "\<not> mg_running m'" using assms(2,3) by (auto simp: mg_stop_def)
  then show ?thesis using stop_ends(1) [OF managed_owned [OF assms(1)] assms(2,3)] by simp
qed

theorem stop_leaves_no_task_witness:
  "el_live (snd (mg_stop (mg_start True 0 [] (new_manager, \<lparr>el_next = 0, el_live = []\<rparr>)))) = []"
proof -
  obtain m ev where 1: "mg_start True 0 [] (new_manager, \<lparr>el_next = 0, el_live = []\<rparr>) = (m, ev)" by fastforce
  obtain m' ev' where 2: "mg_stop (m, ev) = (m', ev')" by fastforce
  have "mg_running m"
    using 1 by (auto simp: mg_start_def loops_started_def start_loop_def create_task_def new_manager_def)
  from stop_leaves_no_task [OF managed.start [OF managed.init 1] this 2] show ?thesis by (simp add: 1 2)
qed

lemma schedule_naive:
  assumes "bk_start_time r = Naive t1" "bk_end_time r = Naive t2" "now < t1" "now < t2"
  obtains tasks where "mg_schedule now r (m, ev) =
    (m\<lparr>mg_tasks := tasks, mg_handles := AList.update (task_id (bk_id r) ''end'') (el_next ev + 1)
        (AList.update (task_id (bk_id r) ''start'') (el_next ev) (mg_handles m))\<rparr>,
     ev\<lparr>el_next := el_next ev + 2, el_live := el_live ev @ [el_next ev, el_next ev + 1]\<rparr>)"
  using assms by (simp add: mg_schedule_def mg_schedule_at_def schedule_at_def create_task_def)

lemma cancel_stop_live:
  assumes "mg_running m"
  shows "el_live (snd (mg_stop (mg_cancel i (m, ev)))) =
    filter (\<lambda>h. h \<notin> snd ` set (mg_handles m) \<and> h \<notin> snd ` set (mg_loops m)) (el_live ev)"
proof -
  define mine where "mine = (\<lambda>k. \<exists>t\<in>set (mg_tasks m). fst t = k \<and> tk_reservation_id (snd t) = i)"
  have c: "mg_cancel i (m, ev) = (m\<lparr>mg_tasks := cancel_reservation_tasks i (mg_tasks m), mg_handles := filter (\<lambda>(k, h). \<not> mine k) (mg_handles m)\<rparr>,
      end_tasks (handles_of mine m) ev)"
    by (simp only: mg_cancel_def Let_def prod.case mine_def)
  have "snd ` set (mg_handles m) = set (handles_of mine m) \<union> snd ` set (filter (\<lambda>(k, h). \<not> mine k) (mg_handles m))"
    unfolding handles_of_def by (induction "mg_handles m") auto
  then show ?thesis
    using assms by (auto simp: c mg_stop_def end_tasks_def intro: filter_cong)
qed

text \<open>
  The condition is needed: a reservation scheduled a second time before its first tasks are done overwrites
  their entries without cancelling them, so that these two tasks outlive both \<open>cancel_reservation_tasks\<close> and \<open>stop\<close>.
\<close>

theorem rescheduled_tasks_outlive_stop:
  assumes "bk_start_time r = Naive t1" "bk_end_time r = Naive t2" "now < t1" "now < t2"
  shows "el_live (snd (mg_stop (mg_cancel (bk_id r) (mg_schedule now r (mg_schedule now r
           (mg_start True now rows (new_manager, \<lparr>el_next = 0, el_live = []\<rparr>))))))) = [6, 7]"
proof -
  have "fold (\<lambda>r. mg_schedule now (booking_of r)) rows s = s" for s
    by (induction rows) (simp_all add: aware_schedules_nothing)
  then have st: "mg_start True now rows (new_manager, \<lparr>el_next = 0, el_live = []\<rparr>) =
      (\<lparr>mg_running = True, mg_loops = [(Cleanup, 0), (Monitoring, 1), (Queue_Cleanup, 2), (Reconciliation, 3),
         (Reservation_Expiry, 4), (Views_Refresh, 5)], mg_tasks = [], mg_handles = []\<rparr>,
       \<lparr>el_next = 6, el_live = [0, 1, 2, 3, 4, 5]\<rparr>)"
    by (simp add: mg_start_def loops_started_def start_loop_def create_task_def new_manager_def)
  define ks where "ks = [task_id (bk_id r) ''start'', task_id (bk_id r) ''end'']"
  have ks: "ks ! 0 \<noteq> ks ! 1" "task_id (bk_id r) ''start'' = ks ! 0" "task_id (bk_id r) ''end'' = ks ! 1"
    using task_id_neq [of "bk_id r"] by (simp_all add: ks_def)
  obtain m ev where m: "mg_start True now rows (new_manager, \<lparr>el_next = 0, el_live = []\<rparr>) = (m, ev)" by fastforce
  obtain ts1 where 1: "mg_schedule now r (m, ev) = (m\<lparr>mg_tasks := ts1, mg_handles := [(ks ! 0, 6), (ks ! 1, 7)]\<rparr>,
      \<lparr>el_next = 8, el_live = [0, 1, 2, 3, 4, 5, 6, 7]\<rparr>)" (is "_ = (?m1, ?ev1)")
    using schedule_naive [OF assms, of m ev] ks st m by auto
  obtain ts2 where 2: "mg_schedule now r (?m1, ?ev1) = (?m1\<lparr>mg_tasks := ts2, mg_handles := [(ks ! 0, 8), (ks ! 1, 9)]\<rparr>,
      \<lparr>el_next = 10, el_live = [0, 1, 2, 3, 4, 5, 6, 7, 8, 9]\<rparr>)"
    using schedule_naive [OF assms, of ?m1 ?ev1] ks by auto
  have "mg_running m" "map snd (mg_loops m) = [0, 1, 2, 3, 4, 5]" using st m by auto
  moreover from this(2) have "snd ` set (mg_loops m) = {0, 1, 2, 3, 4, 5}" unfolding set_map [symmetric] by simp
  ultimately show ?thesis
    unfolding m 1 2 by (subst cancel_stop_live) simp_all
qed

theorem rescheduled_tasks_outlive_stop_witness:
  "el_live (snd (mg_stop (mg_cancel ''r'' (mg_schedule 0 \<lparr>bk_id = ''r'', bk_space_id = ''s'', bk_start_time = Naive 1, bk_end_time = Naive 2\<rparr>
     (mg_schedule 0 \<lparr>bk_id = ''r'', bk_space_id = ''s'', bk_start_time = Naive 1, bk_end_time = Naive 2\<rparr>
       (mg_start True 0 [] (new_manager, \<lparr>el_next = 0, el_live = []\<rparr>))))))) = [6, 7]"
  using rescheduled_tasks_outlive_stop
    [of "\<lparr>bk_id = ''r'', bk_space_id = ''s'', bk_start_time = Naive 1, bk_end_time = Naive 2\<rparr>" 1 2 0 "[]"] by simp

text \<open>The distribution the monitoring loop logs counts every live space once.\<close>

lemma sum_counts: "distinct ks \<Longrightarrow> set (map f xs) \<subseteq> set ks \<Longrightarrow> (\<Sum>k\<leftarrow>ks. length (filter (\<lambda>x. f x = k) xs)) = length xs"
proof (induction xs)
  case (Cons x xs)
  have "(\<Sum>k\<leftarrow>ks. length (filter (\<lambda>x. f x = k) (x # xs))) = (\<Sum>k\<leftarrow>ks. (if f x = k then 1 else 0) + length (filter (\<lambda>x. f x = k) xs))"
    by (rule arg_cong [where f = sum_list]) simp
  also have "\<dots> = (\<Sum>k\<leftarrow>ks. if f x = k then 1 else 0) + length xs"
    using Cons by (simp add: sum_list_addf)
  also have "(\<Sum>k\<leftarrow>ks. if f x = k then 1 else 0) = (1::nat)"
    using Cons.prems by (simp add: sum_list_distinct_conv_sum_set)
  finally show ?case by simp
qed simp

theorem state_counts_complete: "sum_list (map snd (mo_state_counts (monitoring_round now db tasks))) = length (filter alive (db_spaces db))"
  using sum_counts [of "remdups (map sp_state (filter alive (db_spaces db)))" sp_state "filter alive (db_spaces db)"]
  by (simp add: monitoring_round_def state_counts_def Let_def comp_def)

end
