(* ===== verification/Key_Tool.thy ===== *)
theory Key_Tool
  imports Tenant_Admin
begin

text \<open>
  The command-line tool for API keys, \<open>scripts/manage_api_keys.py\<close>, on the table of \<open>Access_Control\<close>.

  \<open>key\<close> is the random text of \<open>generate_api_key\<close> and \<open>hash\<close> its bcrypt hash; \<open>is_uuid\<close> is whether the driver accepts a
  text for a column of type UUID. \<open>Failed\<close> is a run that ends with the exception of the driver, the connection closed.
  The connection is that of the owner of the tables, so row security is not an obstacle here.
\<close>

section \<open>The commands\<close>

datatype tool_command =
  Create string bool | List_Keys | Revoke uuid | Activate uuid | Test string

record listed_key =
  lk_id :: uuid
  lk_key_name :: string
  lk_is_admin :: bool
  lk_is_active :: bool
  lk_last_used_at :: "instant option"

datatype tool_output =
  Key_Created uuid string bool instant string
| Keys_Listed "listed_key list"
| Key_Not_Found uuid
| Already_Revoked string
| Key_Revoked string
| Already_Active string
| Key_Activated string
| Valid_Key APIKeyInfo
| Invalid_Key
| Failed

text \<open>The columns the statement does not name get their defaults: no tenant, and the two reading scopes.\<close>

definition default_scopes :: "string list" where
  "default_scopes = [''spaces:read'', ''devices:read'']"

definition tool_create ::
  "uuid \<Rightarrow> string \<Rightarrow> string \<Rightarrow> instant \<Rightarrow> string \<Rightarrow> bool \<Rightarrow> auth_db \<Rightarrow> auth_db \<times> tool_output" where
  "tool_create i key hash now name is_admin db =
     (if sql_exists (\<lambda>k. ak_id k = i \<or> ak_key_hash k = hash) (au_api_keys db) \<or> length name > 100 \<or> length hash > 255
      then (db, Failed)
      else (db\<lparr>au_api_keys := au_api_keys db @
              [\<lparr>ak_id = i, ak_key_hash = hash, ak_key_name = name, ak_is_admin = is_admin, ak_is_active = True,
                ak_tenant_id = None, ak_scopes = Some default_scopes, ak_last_used_at = None, ak_created_at = now\<rparr>]\<rparr>,
            Key_Created i name is_admin now key))"

definition listed_of :: "api_key_row \<Rightarrow> listed_key" where
  "listed_of r = \<lparr>lk_id = ak_id r, lk_key_name = ak_key_name r, lk_is_admin = ak_is_admin r, lk_is_active = ak_is_active r,
     lk_last_used_at = ak_last_used_at r\<rparr>"

definition tool_list :: "auth_db \<Rightarrow> tool_output" where
  "tool_list db = Keys_Listed (map listed_of (sort_key (\<lambda>r. - ak_created_at r) (au_api_keys db)))"

definition set_key_active :: "uuid \<Rightarrow> bool \<Rightarrow> auth_db \<Rightarrow> auth_db" where
  "set_key_active i b db = db\<lparr>au_api_keys := sql_update (\<lambda>r. ak_id r = i) (\<lambda>r. r\<lparr>ak_is_active := b\<rparr>) (au_api_keys db)\<rparr>"

definition tool_revoke :: "(string \<Rightarrow> bool) \<Rightarrow> uuid \<Rightarrow> auth_db \<Rightarrow> auth_db \<times> tool_output" where
  "tool_revoke is_uuid key_id db =
     (if \<not> is_uuid key_id then (db, Failed)
      else case find (\<lambda>r. ak_id r = key_id) (au_api_keys db) of
             None \<Rightarrow> (db, Key_Not_Found key_id)
           | Some r \<Rightarrow>
               if \<not> ak_is_active r then (db, Already_Revoked (ak_key_name r))
               else (set_key_active key_id False db, Key_Revoked (ak_key_name r)))"

definition tool_activate :: "(string \<Rightarrow> bool) \<Rightarrow> uuid \<Rightarrow> auth_db \<Rightarrow> auth_db \<times> tool_output" where
  "tool_activate is_uuid key_id db =
     (if \<not> is_uuid key_id then (db, Failed)
      else case find (\<lambda>r. ak_id r = key_id) (au_api_keys db) of
             None \<Rightarrow> (db, Key_Not_Found key_id)
           | Some r \<Rightarrow>
               if ak_is_active r then (db, Already_Active (ak_key_name r))
               else (set_key_active key_id True db, Key_Activated (ak_key_name r)))"

definition tool_test :: "checkpw \<Rightarrow> bool \<Rightarrow> instant \<Rightarrow> string \<Rightarrow> auth_db \<Rightarrow> auth_db \<times> tool_output" where
  "tool_test checkpw fails now api_key db =
     (case verify_api_key checkpw fails now api_key (Some db) of
        (pool, Some i) \<Rightarrow> (case_option db id pool, Valid_Key i)
      | (pool, None) \<Rightarrow> (case_option db id pool, Invalid_Key))"

record tool_env =
  te_checkpw :: checkpw
  te_fails :: bool
  te_is_uuid :: "string \<Rightarrow> bool"
  te_new_id :: uuid
  te_new_key :: string
  te_new_hash :: string
  te_now :: instant

definition tool_main :: "tool_env \<Rightarrow> tool_command option \<Rightarrow> auth_db \<Rightarrow> auth_db \<times> tool_output option" where
  "tool_main E cmd db =
       (case cmd of
          None \<Rightarrow> (db, None)
        | Some (Create name is_admin) \<Rightarrow>
            apsnd Some (tool_create (te_new_id E) (te_new_key E) (te_new_hash E) (te_now E) name is_admin db)
        | Some List_Keys \<Rightarrow> (db, Some (tool_list db))
        | Some (Revoke i) \<Rightarrow> apsnd Some (tool_revoke (te_is_uuid E) i db)
        | Some (Activate i) \<Rightarrow> apsnd Some (tool_activate (te_is_uuid E) i db)
        | Some (Test k) \<Rightarrow> apsnd Some (tool_test (te_checkpw E) (te_fails E) (te_now E) k db))"

section \<open>Properties\<close>

text \<open>The keys of the table: ids are a primary key, hashes are unique. Every command keeps it so.\<close>

definition keys_wf :: "auth_db \<Rightarrow> bool" where
  "keys_wf db = (distinct (map ak_id (au_api_keys db)) \<and> distinct (map ak_key_hash (au_api_keys db)))"

lemma update_keeps_keys:
  "(\<And>r. ak_id (f r) = ak_id r) \<Longrightarrow> (\<And>r. ak_key_hash (f r) = ak_key_hash r) \<Longrightarrow> keys_wf db \<Longrightarrow>
   keys_wf (db\<lparr>au_api_keys := sql_update P f (au_api_keys db)\<rparr>)"
  by (simp add: keys_wf_def sql_update_def comp_def if_distrib cong: if_cong)

lemma tool_main_keeps_keys: "keys_wf db \<Longrightarrow> keys_wf (fst (tool_main E cmd db))"
proof -
  assume wf: "keys_wf db"
  have active: "keys_wf (set_key_active i b db)" for i b
    unfolding set_key_active_def by (rule update_keeps_keys [OF _ _ wf]) simp_all
  have stamp: "keys_wf (db\<lparr>au_api_keys := sql_update P (\<lambda>x. x\<lparr>ak_last_used_at := t\<rparr>) (au_api_keys db)\<rparr>)" for P t
    by (rule update_keeps_keys [OF _ _ wf]) simp_all
  have made: "keys_wf (fst (tool_create i k h now n a db))" for i k h now n a
    using wf by (auto simp: tool_create_def keys_wf_def sql_exists_def list_ex_iff)
  show ?thesis
    using wf active stamp made
    by (auto simp: tool_main_def tool_revoke_def tool_activate_def tool_test_def verify_api_key_def
        split: option.splits tool_command.splits)
qed

definition tool_row :: "uuid \<Rightarrow> string \<Rightarrow> instant \<Rightarrow> string \<Rightarrow> bool \<Rightarrow> bool \<Rightarrow> api_key_row" where
  "tool_row i hash now name adm active =
     \<lparr>ak_id = i, ak_key_hash = hash, ak_key_name = name, ak_is_admin = adm, ak_is_active = active,
      ak_tenant_id = None, ak_scopes = Some default_scopes, ak_last_used_at = None, ak_created_at = now\<rparr>"

lemma tool_row_simps [simp]:
  "ak_id (tool_row i hash now name adm b) = i" "ak_key_hash (tool_row i hash now name adm b) = hash"
  "ak_key_name (tool_row i hash now name adm b) = name" "ak_is_active (tool_row i hash now name adm b) = b"
  "ak_is_admin (tool_row i hash now name adm b) = adm" "ak_tenant_id (tool_row i hash now name adm b) = None"
  "(tool_row i hash now name adm b)\<lparr>ak_is_active := c\<rparr> = tool_row i hash now name adm c"
  by (simp_all add: tool_row_def)

lemma tool_created:
  assumes "tool_create i key hash now name adm db = (db', Key_Created i' name' adm' now' key')"
  shows "db' = db\<lparr>au_api_keys := au_api_keys db @ [tool_row i hash now name adm True]\<rparr>" "\<forall>k\<in>set (au_api_keys db). ak_id k \<noteq> i"
    "key' = key"
  using assms by (auto simp: tool_create_def sql_exists_def list_ex_iff tool_row_def split: if_splits)

lemma find_by_new_id: "\<forall>k\<in>set ks. ak_id k \<noteq> i \<Longrightarrow> ak_id r = i \<Longrightarrow> find (\<lambda>k. ak_id k = i) (ks @ [r]) = Some r"
  by (rule find_snoc_new) auto

lemma set_new_key_active:
  "\<forall>k\<in>set (au_api_keys db). ak_id k \<noteq> i \<Longrightarrow>
   set_key_active i b (db\<lparr>au_api_keys := au_api_keys db @ [tool_row i hash now name adm c]\<rparr>) =
     db\<lparr>au_api_keys := au_api_keys db @ [tool_row i hash now name adm b]\<rparr>"
  by (simp add: set_key_active_def sql_update_def cong: map_cong)

text \<open>
  Property C38. The life of a key made with the tool: the tool finds the printed text valid, with the name and the admin flag
  asked for; revoking makes it invalid, and activating it again restores the table. A bearer of the text is nevertheless
  refused with 401 wherever the service asks for a tenant, since the row has none.
\<close>

theorem tool_key_lifecycle:
  assumes "tool_create i key hash now name adm db = (db1, Key_Created i name adm now printed)"
    and "ae_checkpw A key hash = Inr True" "\<forall>k\<in>set (au_api_keys db). ae_checkpw A key (ak_key_hash k) \<noteq> Inr True"
    and "is_uuid i"
  shows "snd (tool_test (ae_checkpw A) False now' printed db1) = Valid_Key \<lparr>ki_id = i, ki_name = name, ki_is_admin = adm\<rparr>
    \<and> (\<exists>db2. tool_revoke is_uuid i db1 = (db2, Key_Revoked name)
         \<and> snd (tool_test (ae_checkpw A) False now' printed db2) = Invalid_Key
         \<and> tool_activate is_uuid i db2 = (db1, Key_Activated name))
    \<and> (\<exists>d. snd (get_current_tenant A now' (Some printed) None (Some db1)) = Inl (HTTPException 401 d))"
proof (intro conjI)
  note new = tool_created [OF assms(1)]
  let ?row = "\<lambda>b. tool_row i hash now name adm b"
  have m: "matching_key (ae_checkpw A) key (au_api_keys db1) = Some (?row True)"
    unfolding new(1) matching_key_def by (simp, rule find_snoc_new) (use assms(2,3) in auto)
  then show "snd (tool_test (ae_checkpw A) False now' printed db1) = Valid_Key \<lparr>ki_id = i, ki_name = name, ki_is_admin = adm\<rparr>"
    by (simp add: tool_test_def verify_api_key_def new(3))
  let ?db2 = "db\<lparr>au_api_keys := au_api_keys db @ [?row False]\<rparr>"
  have "tool_revoke is_uuid i db1 = (?db2, Key_Revoked name)"
    using assms(4) new(2) by (simp add: tool_revoke_def new(1) find_by_new_id set_new_key_active)
  moreover have "matching_key (ae_checkpw A) key (au_api_keys ?db2) = None"
    using assms(3) by (auto simp: matching_key_def find_None_iff)
  moreover have "tool_activate is_uuid i ?db2 = (db1, Key_Activated name)"
    using assms(4) new(2) by (simp add: tool_activate_def new(1) find_by_new_id set_new_key_active)
  ultimately show "\<exists>db2. tool_revoke is_uuid i db1 = (db2, Key_Revoked name)
         \<and> snd (tool_test (ae_checkpw A) False now' printed db2) = Invalid_Key
         \<and> tool_activate is_uuid i db2 = (db1, Key_Activated name)"
    by (intro exI [of _ ?db2]) (simp add: tool_test_def verify_api_key_def new(3))
  have no_tenant: "ak_tenant_id k = None" if "k \<in> set (sql_update P (\<lambda>x. x\<lparr>ak_last_used_at := t\<rparr>) (au_api_keys db1))" "ak_id k = i" for P t k
  proof -
    obtain r where r: "r \<in> set (au_api_keys db1)" "k = (if P r then r\<lparr>ak_last_used_at := t\<rparr> else r)"
      using \<open>k \<in> _\<close> by (auto simp: sql_update_def)
    then have "ak_id r = i" "ak_tenant_id k = ak_tenant_id r" using \<open>ak_id k = i\<close> by (simp_all split: if_splits)
    moreover have "\<forall>x\<in>set (au_api_keys db1). ak_id x = i \<longrightarrow> ak_tenant_id x = None"
      using new(2) by (simp add: new(1))
    ultimately show ?thesis using r(1) by simp
  qed
  have "resolve_tenant_from_api_key g (Some (db1\<lparr>au_api_keys := sql_update P (\<lambda>x. x\<lparr>ak_last_used_at := t\<rparr>) (au_api_keys db1)\<rparr>))
      \<lparr>ki_id = i, ki_name = n, ki_is_admin = a\<rparr> = None" for g P t n a
    using no_tenant by (auto simp: resolve_tenant_from_api_key_def find_None_iff split: option.split dest!: find_SomeD)
  then show "\<exists>d. snd (get_current_tenant A now' (Some printed) None (Some db1)) = Inl (HTTPException 401 d)"
    using m by (simp add: get_current_tenant_def get_optional_api_key_def verify_api_key_def new(3))
qed

definition bare_env :: auth_env where
  "bare_env = \<lparr>ae_checkpw = (\<lambda>k h. Inr (h = ''#'' @ k)), ae_decode = (\<lambda>_ _ _. None), ae_local_offset = 0, ae_secret = None,
     ae_fails_jwt = False, ae_fails_keys = False, ae_fails_resolve = False\<rparr>"

theorem tool_key_lifecycle_witness:
  "\<exists>db1 d. tool_create ''i'' ''k'' ''#k'' 0 ''n'' True \<lparr>au_api_keys = [], au_tenants = [], au_users = [], au_memberships = []\<rparr>
       = (db1, Key_Created ''i'' ''n'' True 0 ''k'')
     \<and> snd (get_current_tenant bare_env 1 (Some ''k'') None (Some db1)) = Inl (HTTPException 401 d)"
proof -
  let ?db = "\<lparr>au_api_keys = [], au_tenants = [], au_users = [], au_memberships = []\<rparr> :: auth_db"
  obtain db1 where 1: "tool_create ''i'' ''k'' ''#k'' 0 ''n'' True ?db = (db1, Key_Created ''i'' ''n'' True 0 ''k'')"
    by (simp add: tool_create_def sql_exists_def)
  show ?thesis
    using tool_key_lifecycle [OF 1, of bare_env "\<lambda>_. True" 1] 1 by (auto simp: bare_env_def)
qed

end
