(* ===== verification/Metrics.thy ===== *)
theory Metrics
  imports Downlink_Queue
begin

text \<open>
  The Prometheus metrics of \<open>src/metrics.py\<close>: the families it declares, the helper functions that record into them, and the
  calls the downlink queue makes on its way (\<open>src/downlink_queue.py\<close>).

  A helper is the list of calls it makes on the client library. The library itself is the locale \<open>prometheus\<close>: it accepts a
  call whose labels are those of a declared family and whose operation suits the kind of the family, and the samples then
  change as documented.
\<close>

section \<open>Declared families\<close>

datatype metric_kind = Counter | Gauge | Histogram "rat list"

record family =
  fm_name :: string
  fm_labels :: "string list"
  fm_kind :: metric_kind

abbreviation family :: "string \<Rightarrow> string list \<Rightarrow> metric_kind \<Rightarrow> family" where
  "family n ls k \<equiv> \<lparr>fm_name = n, fm_labels = ls, fm_kind = k\<rparr>"

definition ingest_families :: "family list" where
  "ingest_families =
    [family ''uplink_requests_total'' [''status'', ''tenant_id''] Counter,
     family ''uplink_processing_duration_seconds'' [''status''] (Histogram [1 / 100, 5 / 100, 1 / 10, 25 / 100, 5 / 10, 1, 25 / 10, 5, 10]),
     family ''uplink_duplicates_total'' [''tenant_id''] Counter,
     family ''uplink_orphans_total'' [] Counter,
     family ''orphan_devices_gauge'' [] Gauge,
     family ''webhook_signature_failures_total'' [''tenant_id''] Counter,
     family ''webhook_spooled_total'' [] Counter]"

definition reservation_families :: "family list" where
  "reservation_families =
    [family ''reservation_attempts_total'' [''status'', ''tenant_id''] Counter,
     family ''reservation_conflicts_total'' [''tenant_id''] Counter,
     family ''reservation_active_gauge'' [''tenant_id'', ''status''] Gauge,
     family ''reservation_processing_duration_seconds'' [] (Histogram [1 / 100, 5 / 100, 1 / 10, 25 / 100, 5 / 10, 1, 25 / 10])]"

definition downlink_families :: "family list" where
  "downlink_families =
    [family ''downlink_queue_depth'' [''queue_type''] Gauge,
     family ''downlink_enqueued_total'' [''tenant_id''] Counter,
     family ''downlink_sent_total'' [''tenant_id''] Counter,
     family ''downlink_failed_total'' [''tenant_id'', ''reason''] Counter,
     family ''downlink_dead_letter_total'' [''tenant_id''] Counter,
     family ''downlink_deduplicated_total'' [''tenant_id''] Counter,
     family ''downlink_coalesced_total'' [''tenant_id''] Counter,
     family ''downlink_latency_seconds'' [] (Histogram [1 / 100, 5 / 100, 1 / 10, 25 / 100, 5 / 10, 1, 25 / 10, 5]),
     family ''downlink_rate_limited_total'' [''limit_type'', ''tenant_id''] Counter]"

definition tenancy_families :: "family list" where
  "tenancy_families =
    [family ''rate_limit_rejections_total'' [''tenant_id'', ''endpoint''] Counter,
     family ''api_requests_total'' [''method'', ''endpoint'', ''status_code'', ''tenant_id''] Counter,
     family ''api_request_duration_seconds'' [''method'', ''endpoint''] (Histogram [1 / 100, 5 / 100, 1 / 10, 25 / 100, 5 / 10, 1, 25 / 10, 5])]"

definition infrastructure_families :: "family list" where
  "infrastructure_families =
    [family ''db_query_duration_seconds'' [''operation''] (Histogram [1 / 1000, 5 / 1000, 1 / 100, 5 / 100, 1 / 10, 25 / 100, 5 / 10, 1, 25 / 10]),
     family ''db_connection_pool_size'' [''state''] Gauge,
     family ''redis_command_duration_seconds'' [''command''] (Histogram [1 / 1000, 5 / 1000, 1 / 100, 5 / 100, 1 / 10, 25 / 100]),
     family ''redis_connection_errors_total'' [] Counter,
     family ''chirpstack_api_duration_seconds'' [''operation''] (Histogram [1 / 100, 5 / 100, 1 / 10, 25 / 100, 5 / 10, 1, 25 / 10, 5]),
     family ''chirpstack_api_errors_total'' [''operation'', ''error_type''] Counter]"

definition state_machine_families :: "family list" where
  "state_machine_families =
    [family ''space_state_transitions_total'' [''from_state'', ''to_state'', ''trigger'', ''tenant_id''] Counter,
     family ''display_updates_total'' [''display_type'', ''state'', ''tenant_id''] Counter,
     family ''state_machine_errors_total'' [''error_type'', ''tenant_id''] Counter]"

definition business_families :: "family list" where
  "business_families =
    [family ''actuation_latency_seconds'' [''tenant_id''] (Histogram [1 / 10, 5 / 10, 1, 25 / 10, 5, 10, 30])]"

definition families :: "family list" where
  "families = ingest_families @ reservation_families @ downlink_families @ tenancy_families @ infrastructure_families
     @ state_machine_families @ business_families"

lemmas families_defs = families_def ingest_families_def reservation_families_def downlink_families_def tenancy_families_def
  infrastructure_families_def state_machine_families_def business_families_def

section \<open>Calls on the library\<close>

datatype metric_op = Inc | Set rat | Observe rat

record metric_call =
  mc_name :: string
  mc_labels :: "(string \<times> string) list"
  mc_op :: metric_op

abbreviation call :: "string \<Rightarrow> (string \<times> string) list \<Rightarrow> metric_op \<Rightarrow> metric_call" where
  "call n ls f \<equiv> \<lparr>mc_name = n, mc_labels = ls, mc_op = f\<rparr>"

text \<open>A value given as a label is turned into text; \<open>None\<close> becomes the text None.\<close>

definition label_text :: "string option \<Rightarrow> string" where
  "label_text v = (case v of None \<Rightarrow> ''None'' | Some t \<Rightarrow> t)"

definition unknown :: "string option" where
  "unknown = Some ''unknown''"

fun suits :: "metric_op \<Rightarrow> metric_kind \<Rightarrow> bool" where
  "suits Inc k = (k = Counter \<or> k = Gauge)"
| "suits (Set _) k = (k = Gauge)"
| "suits (Observe _) (Histogram _) = True"
| "suits (Observe _) _ = False"

definition family_of :: "metric_call \<Rightarrow> family option" where
  "family_of c = find (\<lambda>f. fm_name f = mc_name c) families"

definition call_fits :: "metric_call \<Rightarrow> bool" where
  "call_fits c =
     (case family_of c of
        None \<Rightarrow> False
      | Some f \<Rightarrow> distinct (map fst (mc_labels c)) \<and> set (map fst (mc_labels c)) = set (fm_labels f) \<and> suits (mc_op c) (fm_kind f))"

text \<open>The sample a call is about: the values of its labels in the order the family declares them.\<close>

definition child_of :: "metric_call \<Rightarrow> string list" where
  "child_of c =
     (case family_of c of
        None \<Rightarrow> []
      | Some f \<Rightarrow> map (\<lambda>l. case map_of (mc_labels c) l of None \<Rightarrow> [] | Some v \<Rightarrow> v) (fm_labels f))"

section \<open>The helpers\<close>

definition timer_exit :: "string \<Rightarrow> (string \<times> string) list option \<Rightarrow> rat \<Rightarrow> rat \<Rightarrow> metric_call list" where
  "timer_exit histogram labels start_time now =
     [call histogram (case labels of None \<Rightarrow> [] | Some ls \<Rightarrow> ls) (Observe (now - start_time))]"

definition track_uplink :: "string \<Rightarrow> string option \<Rightarrow> metric_call list" where
  "track_uplink st tenant_id =
     [call ''uplink_requests_total'' [(''status'', st), (''tenant_id'', label_text tenant_id)] Inc]"

definition track_uplink_duplicate :: "string option \<Rightarrow> metric_call list" where
  "track_uplink_duplicate tenant_id = [call ''uplink_duplicates_total'' [(''tenant_id'', label_text tenant_id)] Inc]"

definition track_orphan_uplink :: "metric_call list" where
  "track_orphan_uplink = [call ''uplink_orphans_total'' [] Inc]"

definition track_reservation_attempt :: "string \<Rightarrow> string option \<Rightarrow> metric_call list" where
  "track_reservation_attempt st tenant_id =
     [call ''reservation_attempts_total'' [(''status'', st), (''tenant_id'', label_text tenant_id)] Inc]"

definition track_reservation_conflict :: "string option \<Rightarrow> metric_call list" where
  "track_reservation_conflict tenant_id = [call ''reservation_conflicts_total'' [(''tenant_id'', label_text tenant_id)] Inc]"

definition update_orphan_count :: "int \<Rightarrow> metric_call list" where
  "update_orphan_count n = [call ''orphan_devices_gauge'' [] (Set (of_int n))]"

definition track_downlink_enqueue :: "string option \<Rightarrow> metric_call list" where
  "track_downlink_enqueue tenant_id = [call ''downlink_enqueued_total'' [(''tenant_id'', label_text tenant_id)] Inc]"

definition track_downlink_success :: "string option \<Rightarrow> rat option \<Rightarrow> metric_call list" where
  "track_downlink_success tenant_id latency_ms =
     call ''downlink_sent_total'' [(''tenant_id'', label_text tenant_id)] Inc
     # (case latency_ms of None \<Rightarrow> [] | Some ms \<Rightarrow> [call ''downlink_latency_seconds'' [] (Observe (ms / 1000))])"

definition track_downlink_failure :: "string option \<Rightarrow> string \<Rightarrow> metric_call list" where
  "track_downlink_failure tenant_id reason =
     [call ''downlink_failed_total'' [(''tenant_id'', label_text tenant_id), (''reason'', reason)] Inc]"

definition track_downlink_dead_letter :: "string option \<Rightarrow> metric_call list" where
  "track_downlink_dead_letter tenant_id = [call ''downlink_dead_letter_total'' [(''tenant_id'', label_text tenant_id)] Inc]"

definition update_downlink_queue_depth :: "int \<Rightarrow> int \<Rightarrow> metric_call list" where
  "update_downlink_queue_depth pending dead_letter =
     [call ''downlink_queue_depth'' [(''queue_type'', ''pending'')] (Set (of_int pending)),
      call ''downlink_queue_depth'' [(''queue_type'', ''dead_letter'')] (Set (of_int dead_letter))]"

definition track_rate_limit_rejection :: "string option \<Rightarrow> string \<Rightarrow> metric_call list" where
  "track_rate_limit_rejection tenant_id endpoint =
     [call ''rate_limit_rejections_total'' [(''tenant_id'', label_text tenant_id), (''endpoint'', endpoint)] Inc]"

definition track_api_request :: "string \<Rightarrow> string \<Rightarrow> int \<Rightarrow> string option \<Rightarrow> rat option \<Rightarrow> metric_call list" where
  "track_api_request method endpoint status_code tenant_id duration =
     call ''api_requests_total'' [(''method'', method), (''endpoint'', endpoint), (''status_code'', int_str status_code),
       (''tenant_id'', label_text tenant_id)] Inc
     # (case duration of None \<Rightarrow> [] | Some d \<Rightarrow>
          [call ''api_request_duration_seconds'' [(''method'', method), (''endpoint'', endpoint)] (Observe d)])"

definition track_state_transition :: "string \<Rightarrow> string \<Rightarrow> string \<Rightarrow> string option \<Rightarrow> metric_call list" where
  "track_state_transition from_state to_state trigger tenant_id =
     [call ''space_state_transitions_total'' [(''from_state'', from_state), (''to_state'', to_state), (''trigger'', trigger),
        (''tenant_id'', label_text tenant_id)] Inc]"

definition track_actuation_latency :: "rat \<Rightarrow> string option \<Rightarrow> metric_call list" where
  "track_actuation_latency latency_seconds tenant_id =
     [call ''actuation_latency_seconds'' [(''tenant_id'', label_text tenant_id)] (Observe latency_seconds)]"

lemmas helper_defs = track_uplink_def track_uplink_duplicate_def track_orphan_uplink_def track_reservation_attempt_def
  track_reservation_conflict_def update_orphan_count_def track_downlink_enqueue_def track_downlink_success_def
  track_downlink_failure_def track_downlink_dead_letter_def update_downlink_queue_depth_def track_rate_limit_rejection_def
  track_api_request_def track_state_transition_def track_actuation_latency_def

section \<open>The calls of the downlink queue\<close>

definition coalesces :: "'r redis_ops \<Rightarrow> string \<Rightarrow> 'r \<Rightarrow> bool" where
  "coalesces R device s = (case rget R s (coalesce_key device) of None \<Rightarrow> False | Some existing_cmd_id \<Rightarrow> existing_cmd_id \<noteq> [])"

definition enqueue_calls :: "'r redis_ops \<Rightarrow> dl_env \<Rightarrow> enqueue_args \<Rightarrow> 'r \<Rightarrow> metric_call list" where
  "enqueue_calls R E a s =
     (let tenant = [(''tenant_id'', label_text (ea_tenant_id a))] in
      if rget R s (last_hash_key (ea_device_eui a)) = Some (compute_content_hash E (ea_device_eui a) (ea_payload a) (ea_fport a))
      then [call ''downlink_deduplicated_total'' tenant Inc]
      else (if coalesces R (ea_device_eui a) s then [call ''downlink_coalesced_total'' tenant Inc] else [])
           @ [call ''downlink_enqueued_total'' tenant Inc] @ track_downlink_enqueue (ea_tenant_id a))"

definition success_calls :: "pyfloat \<Rightarrow> DownlinkCommand \<Rightarrow> metric_call list" where
  "success_calls now cmd = track_downlink_success (dc_tenant_id cmd) (Some (of_int (py_int ((now - dc_created_at cmd) * 1000))))"

definition failure_calls :: "DownlinkCommand \<Rightarrow> bool \<Rightarrow> metric_call list" where
  "failure_calls cmd0 requeue =
     (if dc_attempts cmd0 + 1 \<ge> MAX_ATTEMPTS \<or> \<not> requeue then track_downlink_dead_letter (dc_tenant_id cmd0) else [])"

section \<open>The client library\<close>

locale prometheus =
  fixes apply_call :: "metric_call \<Rightarrow> 'r \<Rightarrow> 'r result"
    and sample_of :: "'r \<Rightarrow> string \<Rightarrow> string list \<Rightarrow> rat"
    and observed :: "'r \<Rightarrow> string \<Rightarrow> string list \<Rightarrow> rat list"
  assumes accepts: "call_fits c \<Longrightarrow> \<exists>r'. apply_call c r = Inr r'"
    and rejects: "\<not> call_fits c \<Longrightarrow> \<exists>e. apply_call c r = Inl e"
    and sample: "apply_call c r = Inr r' \<Longrightarrow> sample_of r' n vs =
      (if mc_name c = n \<and> child_of c = vs
       then (case mc_op c of Inc \<Rightarrow> sample_of r n vs + 1 | Set x \<Rightarrow> x | Observe _ \<Rightarrow> sample_of r n vs) else sample_of r n vs)"
    and observation: "apply_call c r = Inr r' \<Longrightarrow> observed r' n vs =
      observed r n vs @ (if mc_name c = n \<and> child_of c = vs then (case mc_op c of Observe x \<Rightarrow> [x] | _ \<Rightarrow> []) else [])"

fun apply_calls :: "(metric_call \<Rightarrow> 'r \<Rightarrow> 'r result) \<Rightarrow> metric_call list \<Rightarrow> 'r \<Rightarrow> 'r result" where
  "apply_calls f [] r = Inr r"
| "apply_calls f (c # cs) r = (case f c r of Inl e \<Rightarrow> Inl e | Inr r \<Rightarrow> apply_calls f cs r)"

definition increments :: "string \<Rightarrow> string list \<Rightarrow> metric_call list \<Rightarrow> nat" where
  "increments n vs cs = length (filter (\<lambda>c. mc_name c = n \<and> child_of c = vs \<and> mc_op c = Inc) cs)"

definition observations :: "string \<Rightarrow> string list \<Rightarrow> metric_call list \<Rightarrow> rat list" where
  "observations n vs cs = concat (map (\<lambda>c. case mc_op c of Observe x \<Rightarrow> [x] | _ \<Rightarrow> [])
     (filter (\<lambda>c. mc_name c = n \<and> child_of c = vs) cs))"

context prometheus begin

lemma fitting_calls_pass: "list_all call_fits cs \<Longrightarrow> \<exists>r'. apply_calls apply_call cs r = Inr r'"
proof (induction cs arbitrary: r)
  case (Cons c cs)
  obtain r1 where "apply_call c r = Inr r1" using accepts [of c r] Cons.prems by auto
  then show ?case using Cons.IH [of r1] Cons.prems by simp
qed simp

lemma counted:
  "apply_calls apply_call cs r = Inr r' \<Longrightarrow> list_all (\<lambda>c. \<forall>x. mc_op c \<noteq> Set x) cs \<Longrightarrow>
   sample_of r' n vs = sample_of r n vs + of_nat (increments n vs cs)"
proof (induction cs arbitrary: r)
  case (Cons c cs)
  then obtain r1 where 1: "apply_call c r = Inr r1" "apply_calls apply_call cs r1 = Inr r'" by (auto split: sum.splits)
  have "sample_of r1 n vs = sample_of r n vs + of_nat (increments n vs [c])"
    using sample [OF 1(1), of n vs] Cons.prems(2) by (auto simp: increments_def split: metric_op.splits if_splits)
  then show ?case using Cons.IH [OF 1(2)] Cons.prems(2) by (simp add: increments_def)
qed (simp add: increments_def)

lemma collected: "apply_calls apply_call cs r = Inr r' \<Longrightarrow> observed r' n vs = observed r n vs @ observations n vs cs"
proof (induction cs arbitrary: r)
  case (Cons c cs)
  then obtain r1 where 1: "apply_call c r = Inr r1" "apply_calls apply_call cs r1 = Inr r'" by (auto split: sum.splits)
  show ?case using Cons.IH [OF 1(2)] observation [OF 1(1), of n vs] by (simp add: observations_def)
qed (simp add: observations_def)

end

text \<open>A registry as the log of the calls it has accepted.\<close>

definition log_apply :: "metric_call \<Rightarrow> metric_call list \<Rightarrow> metric_call list result" where
  "log_apply c cs = (if call_fits c then Inr (cs @ [c]) else Inl (ValueError (mc_name c)))"

definition log_sample :: "metric_call list \<Rightarrow> string \<Rightarrow> string list \<Rightarrow> rat" where
  "log_sample cs n vs = fold (\<lambda>c x. case mc_op c of Inc \<Rightarrow> x + 1 | Set y \<Rightarrow> y | Observe _ \<Rightarrow> x)
     (filter (\<lambda>c. mc_name c = n \<and> child_of c = vs) cs) 0"

definition log_observed :: "metric_call list \<Rightarrow> string \<Rightarrow> string list \<Rightarrow> rat list" where
  "log_observed cs n vs = observations n vs cs"

interpretation call_log: prometheus log_apply log_sample log_observed
proof
  show "\<exists>r'. log_apply c r = Inr r'" if "call_fits c" for c r
    using that by (simp add: log_apply_def)
  show "\<exists>e. log_apply c r = Inl e" if "\<not> call_fits c" for c r
    using that by (simp add: log_apply_def)
  show "log_sample r' n vs = (if mc_name c = n \<and> child_of c = vs
       then (case mc_op c of Inc \<Rightarrow> log_sample r n vs + 1 | Set x \<Rightarrow> x | Observe _ \<Rightarrow> log_sample r n vs) else log_sample r n vs)"
    if "log_apply c r = Inr r'" for c r r' n vs
    using that by (auto simp: log_apply_def log_sample_def split: if_splits metric_op.split)
  show "log_observed r' n vs =
      log_observed r n vs @ (if mc_name c = n \<and> child_of c = vs then (case mc_op c of Observe x \<Rightarrow> [x] | _ \<Rightarrow> []) else [])"
    if "log_apply c r = Inr r'" for c r r' n vs
    using that by (auto simp: log_apply_def log_observed_def observations_def split: if_splits)
qed

section \<open>Properties\<close>

lemma distinct_families: "distinct (map fm_name families)"
  by (simp add: families_defs)

lemma find_by_name: "distinct (map fm_name fs) \<Longrightarrow> f \<in> set fs \<Longrightarrow> find (\<lambda>x. fm_name x = fm_name f) fs = Some f"
  by (induction fs) auto

lemma family_of_call: "f \<in> set families \<Longrightarrow> mc_name c = fm_name f \<Longrightarrow> family_of c = Some f"
  using find_by_name [OF distinct_families] by (simp add: family_of_def)

lemma declared:
  assumes "family n ls k \<in> set families"
  shows "call_fits (call n xs f) \<longleftrightarrow> distinct (map fst xs) \<and> set (map fst xs) = set ls \<and> suits f k"
    "child_of (call n xs f) = map (\<lambda>l. case map_of xs l of None \<Rightarrow> [] | Some v \<Rightarrow> v) ls"
  using family_of_call [OF assms] by (simp_all add: call_fits_def child_of_def)

lemma downlink_declared:
  "family ''downlink_enqueued_total'' [''tenant_id''] Counter \<in> set families"
  "family ''downlink_sent_total'' [''tenant_id''] Counter \<in> set families"
  "family ''downlink_dead_letter_total'' [''tenant_id''] Counter \<in> set families"
  "family ''downlink_deduplicated_total'' [''tenant_id''] Counter \<in> set families"
  "family ''downlink_coalesced_total'' [''tenant_id''] Counter \<in> set families"
  "family ''downlink_latency_seconds'' [] (Histogram [1 / 100, 5 / 100, 1 / 10, 25 / 100, 5 / 10, 1, 25 / 10, 5]) \<in> set families"
  by (simp_all add: families_defs)

lemmas downlink_calls = downlink_declared [THEN declared(1)] downlink_declared [THEN declared(2)]

lemma fits_label_order: "call_fits (call n xs f) \<longleftrightarrow>
    (case find (\<lambda>x. fm_name x = n) families of None \<Rightarrow> False
     | Some g \<Rightarrow> distinct (map fst xs) \<and> set (map fst xs) = set (fm_labels g) \<and> suits f (fm_kind g))"
  by (simp add: call_fits_def family_of_def split: option.split)

theorem helper_calls_accepted:
  "list_all call_fits (track_uplink st t)"
  "list_all call_fits (track_uplink_duplicate t)"
  "list_all call_fits track_orphan_uplink"
  "list_all call_fits (track_reservation_attempt st t)"
  "list_all call_fits (track_reservation_conflict t)"
  "list_all call_fits (update_orphan_count n)"
  "list_all call_fits (track_downlink_enqueue t)"
  "list_all call_fits (track_downlink_success t ms)"
  "list_all call_fits (track_downlink_failure t why)"
  "list_all call_fits (track_downlink_dead_letter t)"
  "list_all call_fits (update_downlink_queue_depth i j)"
  "list_all call_fits (track_rate_limit_rejection t e)"
  "list_all call_fits (track_api_request m e code t d)"
  "list_all call_fits (track_state_transition a b tr t)"
  "list_all call_fits (track_actuation_latency x t)"
  by (auto simp: helper_defs fits_label_order families_defs split: option.split)

lemma queue_calls_fit:
  "list_all call_fits (enqueue_calls R E a s)" "list_all call_fits (success_calls now cmd)" "list_all call_fits (failure_calls cmd b)"
  by (simp_all add: enqueue_calls_def Let_def downlink_calls success_calls_def failure_calls_def helper_calls_accepted)

lemma queue_calls_no_set:
  "list_all (\<lambda>c. \<forall>x. mc_op c \<noteq> Set x) (enqueue_calls R E a s)" "list_all (\<lambda>c. \<forall>x. mc_op c \<noteq> Set x) (success_calls now cmd)"
  by (simp_all add: enqueue_calls_def Let_def success_calls_def helper_defs)

lemma enqueue_increments:
  "increments ''downlink_enqueued_total'' [label_text (ea_tenant_id a)] (enqueue_calls R E a s) = (if snd (enqueue R E now i a s) = None then 0 else 2)"
  "increments ''downlink_deduplicated_total'' [label_text (ea_tenant_id a)] (enqueue_calls R E a s) = (if snd (enqueue R E now i a s) = None then 1 else 0)"
  by (simp_all add: enqueue_calls_def enqueue_def Let_def increments_def downlink_calls track_downlink_enqueue_def)

text \<open>
  Property C39. Whatever the client library and the store, recording an enqueued command never raises; the Prometheus counter
  of deduplicated commands grows by one exactly when the command is dropped, but the counter of enqueued commands grows by
  two for each command that enters the queue, since it is incremented directly and again by the helper.
\<close>

theorem enqueue_recorded:
  assumes "prometheus apply_call sample_of observed"
  shows "\<exists>r'. apply_calls apply_call (enqueue_calls R E a s) r = Inr r'
    \<and> sample_of r' ''downlink_deduplicated_total'' [label_text (ea_tenant_id a)] =
        sample_of r ''downlink_deduplicated_total'' [label_text (ea_tenant_id a)] + (if snd (enqueue R E now i a s) = None then 1 else 0)
    \<and> sample_of r' ''downlink_enqueued_total'' [label_text (ea_tenant_id a)] =
        sample_of r ''downlink_enqueued_total'' [label_text (ea_tenant_id a)] + (if snd (enqueue R E now i a s) = None then 0 else 2)"
proof -
  obtain r' where r': "apply_calls apply_call (enqueue_calls R E a s) r = Inr r'"
    using prometheus.fitting_calls_pass [OF assms queue_calls_fit(1) [of R E a s], of r] by blast
  note c = prometheus.counted [OF assms r' queue_calls_no_set(1)]
  note n = enqueue_increments [where R = R and E = E and a = a and s = s and now = now and i = i]
  show ?thesis
    by (intro exI [of _ r'] conjI) (simp_all add: r' c n)
qed

theorem enqueue_recorded_witness:
  "\<exists>cs. apply_calls log_apply (enqueue_calls mem_ops demo_env \<lparr>ea_device_eui = ''d'', ea_payload = ''00'', ea_fport = 15, ea_tenant_id = Some ''t'',
      ea_confirmed = False, ea_gateway_id = None, ea_space_id = None, ea_trigger_source = None\<rparr> []) [] = Inr cs
    \<and> log_sample cs ''downlink_enqueued_total'' [''t''] = 2"
  using enqueue_recorded [OF call_log.prometheus_axioms, of mem_ops demo_env "\<lparr>ea_device_eui = ''d'', ea_payload = ''00'', ea_fport = 15,
      ea_tenant_id = Some ''t'', ea_confirmed = False, ea_gateway_id = None, ea_space_id = None, ea_trigger_source = None\<rparr>" "[]" "[]"]
  by (auto simp: label_text_def log_sample_def enqueue_def Let_def mem_ops_def)

text \<open>
  A success adds one to the counter of sent commands and its latency, in seconds, to the histogram; a failure is recorded
  only when the command goes to the dead letters. \<open>track_downlink_failure\<close> is never called.
\<close>

lemma success_recorded:
  assumes "prometheus apply_call sample_of observed" "apply_calls apply_call (success_calls now cmd) r = Inr r'"
  shows "sample_of r' ''downlink_sent_total'' [label_text (dc_tenant_id cmd)] = sample_of r ''downlink_sent_total'' [label_text (dc_tenant_id cmd)] + 1"
    "observed r' ''downlink_latency_seconds'' [] = observed r ''downlink_latency_seconds'' [] @ [of_int (py_int ((now - dc_created_at cmd) * 1000)) / 1000]"
  using prometheus.counted [OF assms queue_calls_no_set(2), of "''downlink_sent_total''" "[label_text (dc_tenant_id cmd)]"]
    prometheus.collected [OF assms, of "''downlink_latency_seconds''" "[]"]
  by (simp_all add: increments_def observations_def success_calls_def track_downlink_success_def downlink_calls)

lemma failure_recorded_iff_dead:
  "failure_calls cmd requeue \<noteq> [] \<longleftrightarrow> dc_attempts cmd + 1 \<ge> MAX_ATTEMPTS \<or> \<not> requeue"
  by (simp add: failure_calls_def track_downlink_dead_letter_def)

text \<open>A timer around a labelled histogram needs the labels: without them its exit raises.\<close>

lemma timer_needs_labels:
  "prometheus apply_call sample_of observed \<Longrightarrow>
   \<exists>e. apply_calls apply_call (timer_exit ''uplink_processing_duration_seconds'' None t0 t1) r = Inl e"
  using prometheus.rejects [of apply_call sample_of observed "call ''uplink_processing_duration_seconds'' [] (Observe (t1 - t0))" r]
  by (auto simp: timer_exit_def fits_label_order families_defs)

end
