(* ===== verification/Space_Migration.thy ===== *)
theory Space_Migration
  imports Database "HOL-Library.AList"
begin

text \<open>
  The script that copies the spaces of the previous version, \<open>scripts/migrate_v4_spaces.py\<close>, on the table of \<open>Database\<close>.

  \<open>collate\<close> is the order of texts, \<open>as_jsonb\<close> what the driver writes for a value given for a JSONB column (\<open>None\<close> where it
  refuses it), \<open>state_type\<close> whether the database has the type \<open>space_state\<close> of the cast. Every insert is a statement of its
  own: the rows inserted before an exception stay.
\<close>

section \<open>Rows of the previous version\<close>

datatype md_value = MText string | MTrue | MOther string

datatype metadata = MDict "(string \<times> md_value) list" | MStr string

record v4_space =
  v4_space_id :: uuid
  v4_space_name :: string
  v4_space_code :: string
  v4_location_description :: "string option"
  v4_building :: "string option"
  v4_floor :: "string option"
  v4_zone :: "string option"
  v4_gps :: "(rat \<times> rat) option"
  v4_occupancy_sensor_deveui :: "string option"
  v4_display_device_deveui :: "string option"
  v4_current_state :: "string option"
  v4_enabled :: bool
  v4_archived :: bool
  v4_maintenance_mode :: "bool option"
  v4_space_metadata :: "metadata option"
  v4_notes :: "string option"
  v4_created_at :: instant
  v4_updated_at :: instant

section \<open>Conversion\<close>

definition STATE_MAPPING :: "(string \<times> SpaceState) list" where
  "STATE_MAPPING = [(''FREE'', FREE), (''OCCUPIED'', OCCUPIED), (''RESERVED'', RESERVED), (''MAINTENANCE'', FREE)]"

definition v5_state :: "string option \<Rightarrow> SpaceState" where
  "v5_state current =
     (let v4_state = (case current of None \<Rightarrow> ''FREE'' | Some s \<Rightarrow> if s = [] then ''FREE'' else s)
      in case map_of STATE_MAPPING v4_state of None \<Rightarrow> FREE | Some s \<Rightarrow> s)"

definition set_item :: "string \<Rightarrow> md_value \<Rightarrow> metadata \<Rightarrow> metadata result" where
  "set_item k v md = (case md of MDict d \<Rightarrow> Inr (MDict (AList.update k v d)) | MStr _ \<Rightarrow> Inl TypeError)"

definition set_item_if :: "bool \<Rightarrow> string \<Rightarrow> md_value \<Rightarrow> metadata result \<Rightarrow> metadata result" where
  "set_item_if b k v r = (case r of Inl e \<Rightarrow> Inl e | Inr md \<Rightarrow> if b then set_item k v md else Inr md)"

definition metadata_or_empty :: "metadata option \<Rightarrow> metadata" where
  "metadata_or_empty m = (case m of None \<Rightarrow> MDict [] | Some (MStr s) \<Rightarrow> if s = [] then MDict [] else MStr s | Some md \<Rightarrow> md)"

definition v5_metadata :: "v4_space \<Rightarrow> metadata result" where
  "v5_metadata sp =
     set_item_if (v4_maintenance_mode sp = Some True) ''maintenance_mode'' MTrue
       (set_item_if (truthy (v4_notes sp)) ''notes'' (MText (case v4_notes sp of None \<Rightarrow> [] | Some t \<Rightarrow> t))
         (set_item_if (truthy (v4_location_description sp)) ''description''
            (MText (case v4_location_description sp of None \<Rightarrow> [] | Some t \<Rightarrow> t))
            (Inr (metadata_or_empty (v4_space_metadata sp)))))"

definition v5_row :: "v4_space \<Rightarrow> string \<Rightarrow> space_row" where
  "v5_row sp md =
     \<lparr>sp_id = v4_space_id sp, sp_name = v4_space_name sp, sp_code = v4_space_code sp, sp_building = v4_building sp,
      sp_floor = v4_floor sp, sp_zone = v4_zone sp, sp_sensor_eui = v4_occupancy_sensor_deveui sp,
      sp_display_eui = v4_display_device_deveui sp, sp_sensor_device_id = None, sp_state = v5_state (v4_current_state sp),
      sp_tenant_id = None, sp_site_id = None, sp_gps = v4_gps sp, sp_metadata = Some md,
      sp_created_at = v4_created_at sp, sp_updated_at = v4_updated_at sp, sp_deleted_at = None\<rparr>"

section \<open>Migration\<close>

datatype migration_error = Py py_error | Driver | Sql db_error

record migration_env =
  me_trigger :: space_trigger
  me_collate :: "string \<Rightarrow> int"
  me_as_jsonb :: "metadata \<Rightarrow> string option"
  me_state_type :: bool

definition insert_space :: "migration_env \<Rightarrow> v4_space \<Rightarrow> metadata \<Rightarrow> pdb \<Rightarrow> migration_error + pdb" where
  "insert_space M sp md db =
     (if \<not> me_state_type M then Inl (Sql (RaiseException ''type space_state does not exist''))
      else case me_as_jsonb M md of
             None \<Rightarrow> Inl Driver
           | Some text \<Rightarrow>
               (case me_trigger M (v5_row sp text) of
                  Inl e \<Rightarrow> Inl (Sql (RaiseException e))
                | Inr new \<Rightarrow>
                    let row = enforce_eui_uppercase new in
                    if sql_exists (\<lambda>r. sp_id r = sp_id row) (db_spaces db) then Inl (Sql (UniqueViolation ''spaces_pkey''))
                    else case space_unique_violation (db_spaces db) row of
                           Some c \<Rightarrow> Inl (Sql (UniqueViolation c))
                         | None \<Rightarrow> Inr (db\<lparr>db_spaces := db_spaces db @ [row]\<rparr>)))"

record migration_counts =
  mc_migrated :: nat
  mc_skipped :: nat

fun migrate_rows ::
  "migration_env \<Rightarrow> bool \<Rightarrow> string set \<Rightarrow> v4_space list \<Rightarrow> migration_counts \<Rightarrow> pdb \<Rightarrow> pdb \<times> (migration_error + migration_counts)" where
  "migrate_rows M dry_run existing [] n db = (db, Inr n)"
| "migrate_rows M dry_run existing (sp # sps) n db =
     (if v4_space_code sp \<in> existing
      then migrate_rows M dry_run existing sps (n\<lparr>mc_skipped := mc_skipped n + 1\<rparr>) db
      else case v5_metadata sp of
             Inl e \<Rightarrow> (db, Inl (Py e))
           | Inr md \<Rightarrow>
               if dry_run then migrate_rows M dry_run existing sps n db
               else case insert_space M sp md db of
                      Inl e \<Rightarrow> (db, Inl e)
                    | Inr db \<Rightarrow> migrate_rows M dry_run existing sps (n\<lparr>mc_migrated := mc_migrated n + 1\<rparr>) db)"

definition v4_spaces :: "migration_env \<Rightarrow> bool \<Rightarrow> v4_space list \<Rightarrow> v4_space list" where
  "v4_spaces M include_archived rows =
     sort_key (\<lambda>r. me_collate M (v4_space_code r)) (filter (\<lambda>r. include_archived \<or> (\<not> v4_archived r \<and> v4_enabled r)) rows)"

definition migrate_spaces ::
  "migration_env \<Rightarrow> bool \<Rightarrow> bool \<Rightarrow> v4_space list \<Rightarrow> pdb \<Rightarrow> pdb \<times> (migration_error + migration_counts)" where
  "migrate_spaces M dry_run include_archived rows db =
     migrate_rows M dry_run (set (map sp_code (db_spaces db))) (v4_spaces M include_archived rows)
       \<lparr>mc_migrated = 0, mc_skipped = 0\<rparr> db"

definition migrate_main ::
  "migration_env \<Rightarrow> bool \<Rightarrow> bool \<Rightarrow> string \<Rightarrow> v4_space list \<Rightarrow> pdb \<Rightarrow> pdb \<times> (migration_error + migration_counts) option" where
  "migrate_main M dry_run include_archived response rows db =
     (if \<not> dry_run \<and> lower response \<noteq> ''yes'' then (db, None)
      else apsnd Some (migrate_spaces M dry_run include_archived rows db))"

section \<open>Properties\<close>

text \<open>A dry run, or one that is not confirmed, changes nothing.\<close>

lemma dry_rows: "fst (migrate_rows M True ex sps n db) = db"
  by (induction sps arbitrary: n) (auto split: sum.split)

theorem unconfirmed_changes_nothing: "dry_run \<or> lower response \<noteq> ''yes'' \<Longrightarrow> fst (migrate_main M dry_run arch response rows db) = db"
  by (auto simp: migrate_main_def migrate_spaces_def dry_rows)

text \<open>With the trigger of migration 003 the first space that is not skipped ends the run: nothing is ever migrated.\<close>

lemma insert_refused: "me_trigger M = spaces_sync_tenant_id sites \<Longrightarrow> \<exists>e. insert_space M sp md db = Inl e"
  by (auto simp: insert_space_def v5_row_def spaces_sync_tenant_id_def split: option.split)

lemma rows_refused: "me_trigger M = spaces_sync_tenant_id sites \<Longrightarrow> fst (migrate_rows M dry ex sps n db) = db"
proof (induction sps arbitrary: n)
  case (Cons sp sps)
  show ?case
  proof (cases "v4_space_code sp \<in> ex \<or> dry")
    case True then show ?thesis using Cons by (auto split: sum.split)
  next
    case False
    then show ?thesis using insert_refused [OF Cons.prems, of sp _ db] by (auto split: sum.split) (metis Inr_Inl_False)
  qed
qed simp

theorem hardened_table_unmigrated:
  "me_trigger M = spaces_sync_tenant_id sites \<Longrightarrow> fst (migrate_main M dry_run arch response rows db) = db"
  by (simp add: migrate_main_def migrate_spaces_def rows_refused)

text \<open>The trigger of a deployment may fill in site and tenant; the columns the script writes stay as they are.\<close>

definition keeps_columns :: "space_trigger \<Rightarrow> bool" where
  "keeps_columns trig \<longleftrightarrow> (\<forall>r r'. trig r = Inr r' \<longrightarrow> sp_code r' = sp_code r \<and> sp_name r' = sp_name r \<and> sp_state r' = sp_state r)"

definition copied :: "v4_space \<Rightarrow> string \<times> string \<times> SpaceState" where
  "copied sp = (v4_space_code sp, v4_space_name sp, v5_state (v4_current_state sp))"

definition columns :: "space_row \<Rightarrow> string \<times> string \<times> SpaceState" where
  "columns r = (sp_code r, sp_name r, sp_state r)"

lemma insert_copies:
  assumes "keeps_columns (me_trigger M)" "insert_space M sp md db = Inr db'"
  obtains row where "db' = db\<lparr>db_spaces := db_spaces db @ [row]\<rparr>" "columns row = copied sp"
proof -
  obtain t new where t: "me_trigger M (v5_row sp t) = Inr new" "db' = db\<lparr>db_spaces := db_spaces db @ [enforce_eui_uppercase new]\<rparr>"
    using assms(2) by (auto simp: insert_space_def Let_def split: if_splits option.splits sum.splits)
  have "columns (enforce_eui_uppercase new) = copied sp"
    using assms(1) t(1) by (auto simp: keeps_columns_def columns_def copied_def enforce_eui_uppercase_def v5_row_def)
  then show thesis using t(2) that by blast
qed

lemma rows_copied:
  assumes "keeps_columns (me_trigger M)" "migrate_rows M False ex sps n db = (db', Inr n')"
  shows "\<exists>new. db' = db\<lparr>db_spaces := db_spaces db @ new\<rparr> \<and> map columns new = map copied (filter (\<lambda>sp. v4_space_code sp \<notin> ex) sps)
    \<and> mc_migrated n' = mc_migrated n + length new \<and> mc_migrated n' + mc_skipped n' = mc_migrated n + mc_skipped n + length sps"
  using assms(2)
proof (induction sps arbitrary: n db)
  case Nil then show ?case by (intro exI [of _ "[]"]) auto
next
  case (Cons sp sps)
  show ?case
  proof (cases "v4_space_code sp \<in> ex")
    case True
    with Cons.prems have "migrate_rows M False ex sps (n\<lparr>mc_skipped := mc_skipped n + 1\<rparr>) db = (db', Inr n')" by simp
    from Cons.IH [OF this] True show ?thesis by simp
  next
    case False
    with Cons.prems obtain md db1 where 1: "insert_space M sp md db = Inr db1"
      "migrate_rows M False ex sps (n\<lparr>mc_migrated := mc_migrated n + 1\<rparr>) db1 = (db', Inr n')" by (auto split: sum.splits)
    obtain row where row: "db1 = db\<lparr>db_spaces := db_spaces db @ [row]\<rparr>" "columns row = copied sp"
      by (rule insert_copies [OF assms(1) 1(1)])
    from Cons.IH [OF 1(2)] obtain new where "db' = db1\<lparr>db_spaces := db_spaces db1 @ new\<rparr>"
      "map columns new = map copied (filter (\<lambda>sp. v4_space_code sp \<notin> ex) sps)"
      "mc_migrated n' = mc_migrated n + 1 + length new" "mc_migrated n' + mc_skipped n' = mc_migrated n + 1 + mc_skipped n + length sps"
      by auto
    then show ?thesis using False row by (intro exI [of _ "row # new"]) simp
  qed
qed

lemma rows_all_skipped:
  "\<forall>sp\<in>set sps. v4_space_code sp \<in> ex \<Longrightarrow> migrate_rows M dry ex sps n db = (db, Inr (n\<lparr>mc_skipped := mc_skipped n + length sps\<rparr>))"
  by (induction sps arbitrary: n) simp_all

text \<open>
  A migration that ends without an exception copies exactly the selected spaces whose code was not in use, in order, with
  code, name and mapped state, and reports how many; a second run skips every space and changes nothing.
\<close>

theorem migration_copies_once:
  assumes "keeps_columns (me_trigger M)" "migrate_spaces M False arch rows db = (db', Inr n)"
  shows "\<exists>new. db_spaces db' = db_spaces db @ new
      \<and> map columns new = map copied (filter (\<lambda>sp. v4_space_code sp \<notin> sp_code ` set (db_spaces db)) (v4_spaces M arch rows))
      \<and> mc_migrated n = length new \<and> mc_migrated n + mc_skipped n = length (v4_spaces M arch rows)
      \<and> migrate_spaces M False arch rows db' = (db', Inr \<lparr>mc_migrated = 0, mc_skipped = length (v4_spaces M arch rows)\<rparr>)"
proof -
  let ?sps = "v4_spaces M arch rows"
  obtain new where new: "db' = db\<lparr>db_spaces := db_spaces db @ new\<rparr>"
    "map columns new = map copied (filter (\<lambda>sp. v4_space_code sp \<notin> sp_code ` set (db_spaces db)) ?sps)"
    "mc_migrated n = length new" "mc_migrated n + mc_skipped n = length ?sps"
    using rows_copied [OF assms(1) assms(2) [unfolded migrate_spaces_def]] by auto
  have "map fst (map columns new) = map fst (map copied (filter (\<lambda>sp. v4_space_code sp \<notin> sp_code ` set (db_spaces db)) ?sps))"
    by (simp only: new(2))
  then have "map sp_code new = map v4_space_code (filter (\<lambda>sp. v4_space_code sp \<notin> sp_code ` set (db_spaces db)) ?sps)"
    by (simp add: columns_def copied_def comp_def)
  then have "sp_code ` set new = v4_space_code ` {sp \<in> set ?sps. v4_space_code sp \<notin> sp_code ` set (db_spaces db)}"
    by (metis set_map set_filter)
  then have "\<forall>sp\<in>set ?sps. v4_space_code sp \<in> set (map sp_code (db_spaces db'))"
    by (auto simp: new(1) image_Un)
  then have "migrate_spaces M False arch rows db' = (db', Inr \<lparr>mc_migrated = 0, mc_skipped = length ?sps\<rparr>)"
    unfolding migrate_spaces_def by (subst rows_all_skipped) simp_all
  then show ?thesis using new by auto
qed

definition demo_v4 :: v4_space where
  "demo_v4 = \<lparr>v4_space_id = ''i'', v4_space_name = ''North 1'', v4_space_code = ''N1'', v4_location_description = Some ''by the lift'',
     v4_building = None, v4_floor = None, v4_zone = None, v4_gps = None, v4_occupancy_sensor_deveui = None,
     v4_display_device_deveui = None, v4_current_state = Some ''MAINTENANCE'', v4_enabled = True, v4_archived = False,
     v4_maintenance_mode = Some True, v4_space_metadata = None, v4_notes = None, v4_created_at = 0, v4_updated_at = 0\<rparr>"

definition demo_migration :: migration_env where
  "demo_migration = \<lparr>me_trigger = (\<lambda>r. Inr (r\<lparr>sp_site_id := Some ''s'', sp_tenant_id := Some ''t''\<rparr>)), me_collate = (\<lambda>_. 0),
     me_as_jsonb = (\<lambda>_. Some ''{}''), me_state_type = True\<rparr>"

theorem migration_copies_once_witness:
  "\<exists>db'. migrate_spaces demo_migration False False [demo_v4] \<lparr>db_spaces = [], db_state_changes = [], db_reservations = [],
       db_device_types = [], db_sensor_devices = [], db_sensor_readings = []\<rparr> = (db', Inr \<lparr>mc_migrated = 1, mc_skipped = 0\<rparr>)
     \<and> map columns (db_spaces db') = [(''N1'', ''North 1'', FREE)]
     \<and> migrate_spaces demo_migration False False [demo_v4] db' = (db', Inr \<lparr>mc_migrated = 0, mc_skipped = 1\<rparr>)"
proof -
  let ?db = "\<lparr>db_spaces = [], db_state_changes = [], db_reservations = [], db_device_types = [], db_sensor_devices = [], db_sensor_readings = []\<rparr> :: pdb"
  have sel: "v4_spaces demo_migration False [demo_v4] = [demo_v4]" by (simp add: v4_spaces_def demo_v4_def)
  obtain db' where 1: "migrate_spaces demo_migration False False [demo_v4] ?db = (db', Inr \<lparr>mc_migrated = 1, mc_skipped = 0\<rparr>)"
    by (simp add: migrate_spaces_def sel, simp add: demo_v4_def demo_migration_def v5_metadata_def set_item_if_def set_item_def
        metadata_or_empty_def insert_space_def v5_row_def enforce_eui_uppercase_def sql_exists_def space_unique_violation_def truthy_def)
  have "keeps_columns (me_trigger demo_migration)" by (auto simp: keeps_columns_def demo_migration_def)
  moreover have "copied demo_v4 = (''N1'', ''North 1'', FREE)" by (simp add: copied_def demo_v4_def v5_state_def STATE_MAPPING_def)
  ultimately show ?thesis
    using migration_copies_once [of demo_migration False "[demo_v4]", OF _ 1] 1 by (auto simp: sel)
qed

end
