(* ===== verification/Admin_Script.thy ===== *)
theory Admin_Script
  imports Accounts_Api
begin

text \<open>
  The script \<open>create_admin_user.py\<close>, which makes one user an owner of the default tenant. The user and the tenant are
  constants of the script and arguments here; \<open>password_hash\<close> is the bcrypt hash it computes, \<open>user_id\<close> and
  \<open>membership_id\<close> the ids the database would give new rows. All statements are one transaction: \<open>None\<close> is the exception that
  rolls it back.
\<close>

record admin_user =
  ad_email :: string
  ad_name :: string
  ad_tenant_id :: uuid

definition script_metadata :: string where
  "script_metadata = ''{'' @ [CHR 0x22] @ ''created_by'' @ [CHR 0x22] @ '': '' @ [CHR 0x22] @ ''admin_script'' @ [CHR 0x22] @ ''}''"

definition ensure_user :: "uuid \<Rightarrow> instant \<Rightarrow> string \<Rightarrow> admin_user \<Rightarrow> auth_db \<Rightarrow> (auth_db \<times> uuid) option" where
  "ensure_user user_id now password_hash a db =
     (case find (\<lambda>u. lower (us_email u) = lower (ad_email a)) (au_users db) of
        Some u \<Rightarrow>
          Some (db\<lparr>au_users := sql_update (\<lambda>x. us_id x = us_id u) (\<lambda>x. x\<lparr>us_password_hash := password_hash\<rparr>) (au_users db)\<rparr>, us_id u)
      | None \<Rightarrow>
          if sql_exists (\<lambda>u. us_id u = user_id) (au_users db) then None
          else Some (db\<lparr>au_users := au_users db @
                 [\<lparr>us_id = user_id, us_email = lower (ad_email a), us_name = ad_name a, us_password_hash = password_hash,
                   us_is_active = True, us_email_verified = True, us_metadata = Some script_metadata, us_created_at = now,
                   us_last_login_at = None\<rparr>]\<rparr>, user_id))"

definition ensure_owner :: "uuid \<Rightarrow> instant \<Rightarrow> uuid \<Rightarrow> uuid \<Rightarrow> auth_db \<Rightarrow> auth_db option" where
  "ensure_owner membership_id now tenant_id user_id db =
     (case find (\<lambda>m. um_user_id m = user_id \<and> um_tenant_id m = tenant_id) (au_memberships db) of
        Some m \<Rightarrow>
          Some (if um_role m \<noteq> ''owner''
                then db\<lparr>au_memberships := sql_update (\<lambda>x. um_id x = um_id m) (\<lambda>x. x\<lparr>um_role := ''owner''\<rparr>) (au_memberships db)\<rparr>
                else db)
      | None \<Rightarrow>
          if sql_exists (\<lambda>m. um_id m = membership_id) (au_memberships db) \<or> \<not> sql_exists (\<lambda>t. tn_id t = tenant_id) (au_tenants db)
          then None
          else Some (db\<lparr>au_memberships := au_memberships db @
                 [\<lparr>um_id = membership_id, um_user_id = user_id, um_tenant_id = tenant_id, um_role = ''owner'', um_is_active = True,
                   um_created_at = now\<rparr>]\<rparr>))"

definition create_admin_user :: "uuid \<Rightarrow> uuid \<Rightarrow> instant \<Rightarrow> string \<Rightarrow> admin_user \<Rightarrow> auth_db \<Rightarrow> auth_db option" where
  "create_admin_user user_id membership_id now password_hash a db =
     (case ensure_user user_id now password_hash a db of
        None \<Rightarrow> None
      | Some (db, i) \<Rightarrow>
          (case ensure_owner membership_id now (ad_tenant_id a) i db of
             None \<Rightarrow> None
           | Some db \<Rightarrow> if sql_exists (\<lambda>t. tn_id t = ad_tenant_id a) (au_tenants db) then Some db else None))"

section \<open>Properties\<close>

definition admin_user_of :: "admin_user \<Rightarrow> string \<Rightarrow> auth_db \<Rightarrow> user_row \<Rightarrow> bool" where
  "admin_user_of a pw db u \<longleftrightarrow> u \<in> set (au_users db) \<and> lower (us_email u) = lower (ad_email a) \<and> us_password_hash u = pw"

definition owns_tenant :: "uuid \<Rightarrow> uuid \<Rightarrow> auth_db \<Rightarrow> bool" where
  "owns_tenant i t db \<longleftrightarrow> (\<exists>m\<in>set (au_memberships db). um_user_id m = i \<and> um_tenant_id m = t \<and> um_role m = ''owner'')"

lemma password_update_maps:
  "map us_id (sql_update P (\<lambda>x. x\<lparr>us_password_hash := pw\<rparr>) us) = map us_id us"
  "map (\<lambda>u. lower (us_email u)) (sql_update P (\<lambda>x. x\<lparr>us_password_hash := pw\<rparr>) us) = map (\<lambda>u. lower (us_email u)) us"
  by (simp_all add: sql_update_def)

lemma role_update_maps:
  "map (\<lambda>m. (um_user_id m, um_tenant_id m)) (sql_update P (\<lambda>x. x\<lparr>um_role := r\<rparr>) ms) = map (\<lambda>m. (um_user_id m, um_tenant_id m)) ms"
  "map um_user_id (sql_update P (\<lambda>x. x\<lparr>um_role := r\<rparr>) ms) = map um_user_id ms"
  "map um_tenant_id (sql_update P (\<lambda>x. x\<lparr>um_role := r\<rparr>) ms) = map um_tenant_id ms"
  by (simp_all add: sql_update_def)

text \<open>The sets of keys in \<open>accounts_wf\<close>, as sets of lists the updates keep.\<close>

lemma accounts_wf_lists:
  "accounts_wf db \<longleftrightarrow> distinct (map us_id (au_users db)) \<and> distinct (map (\<lambda>u. lower (us_email u)) (au_users db))
     \<and> distinct (map tn_id (au_tenants db)) \<and> distinct (map tn_slug (au_tenants db))
     \<and> distinct (map (\<lambda>m. (um_user_id m, um_tenant_id m)) (au_memberships db))
     \<and> set (map um_user_id (au_memberships db)) \<subseteq> set (map us_id (au_users db))
     \<and> set (map um_tenant_id (au_memberships db)) \<subseteq> set (map tn_id (au_tenants db))"
  by (simp add: accounts_wf_def)

lemma ensure_user_result:
  assumes "ensure_user i now pw a db = Some (db', j)" "accounts_wf db"
  shows "accounts_wf db'" "\<exists>u. admin_user_of a pw db' u \<and> us_id u = j"
    "au_memberships db' = au_memberships db" "au_tenants db' = au_tenants db"
proof -
  have "accounts_wf db' \<and> (\<exists>u. admin_user_of a pw db' u \<and> us_id u = j) \<and> au_memberships db' = au_memberships db \<and> au_tenants db' = au_tenants db"
  proof (cases "find (\<lambda>u. lower (us_email u) = lower (ad_email a)) (au_users db)")
    case None
    then have "lower (ad_email a) \<notin> (\<lambda>u. lower (us_email u)) ` set (au_users db)" by (auto simp: find_None_iff)
    moreover obtain nu where nu: "db' = db\<lparr>au_users := au_users db @ [nu]\<rparr>" "us_id nu = j" "us_email nu = lower (ad_email a)" "us_password_hash nu = pw"
        "\<forall>x\<in>set (au_users db). us_id x \<noteq> j"
      using assms(1) None by (auto simp: ensure_user_def sql_exists_def list_ex_iff split: if_splits)
    moreover from nu(5) have "j \<notin> us_id ` set (au_users db)" by force
    ultimately have "accounts_wf db'" using assms(2) unfolding accounts_wf_def by (simp add: subset_insertI2)
    moreover have "admin_user_of a pw db' nu" by (simp add: admin_user_of_def nu)
    ultimately show ?thesis using nu(1,2) by auto
  next
    case (Some u)
    note u = find_SomeD [OF Some]
    have db': "db' = db\<lparr>au_users := sql_update (\<lambda>x. us_id x = us_id u) (\<lambda>x. x\<lparr>us_password_hash := pw\<rparr>) (au_users db)\<rparr>" "j = us_id u"
      using assms(1) Some by (auto simp: ensure_user_def)
    have "accounts_wf db'" using assms(2) unfolding accounts_wf_lists db' by (simp add: password_update_maps del: set_map)
    moreover have "u\<lparr>us_password_hash := pw\<rparr> \<in> set (au_users db')" using u by (force simp: db' sql_update_def)
    ultimately show ?thesis using u by (auto simp: db' admin_user_of_def intro!: exI [of _ "u\<lparr>us_password_hash := pw\<rparr>"])
  qed
  then show "accounts_wf db'" "\<exists>u. admin_user_of a pw db' u \<and> us_id u = j"
    "au_memberships db' = au_memberships db" "au_tenants db' = au_tenants db" by auto
qed

lemma ensure_owner_result:
  assumes "ensure_owner mi now t j db = Some db'" "accounts_wf db" "j \<in> us_id ` set (au_users db)"
  shows "accounts_wf db'" "owns_tenant j t db'" "au_users db' = au_users db" "au_tenants db' = au_tenants db"
proof -
  have "accounts_wf db' \<and> owns_tenant j t db' \<and> au_users db' = au_users db \<and> au_tenants db' = au_tenants db"
  proof (cases "find (\<lambda>m. um_user_id m = j \<and> um_tenant_id m = t) (au_memberships db)")
    case None
    then have "(j, t) \<notin> (\<lambda>m. (um_user_id m, um_tenant_id m)) ` set (au_memberships db)" by (auto simp: find_None_iff)
    moreover obtain nm where nm: "db' = db\<lparr>au_memberships := au_memberships db @ [nm]\<rparr>" "um_user_id nm = j" "um_tenant_id nm = t" "um_role nm = ''owner''"
        "\<exists>x\<in>set (au_tenants db). tn_id x = t"
      using assms(1) None by (auto simp: ensure_owner_def sql_exists_def list_ex_iff split: if_splits)
    moreover from nm(5) have "t \<in> tn_id ` set (au_tenants db)" by force
    ultimately have "accounts_wf db'" using assms(2,3) unfolding accounts_wf_def by simp
    moreover have "owns_tenant j t db'" by (simp add: owns_tenant_def nm)
    ultimately show ?thesis using nm(1) by simp
  next
    case (Some m)
    note m = find_SomeD [OF Some]
    show ?thesis
    proof (cases "um_role m = ''owner''")
      case True then show ?thesis using assms Some m by (auto simp: ensure_owner_def owns_tenant_def)
    next
      case False
      have db': "db' = db\<lparr>au_memberships := sql_update (\<lambda>x. um_id x = um_id m) (\<lambda>x. x\<lparr>um_role := ''owner''\<rparr>) (au_memberships db)\<rparr>"
        using assms(1) Some False by (simp add: ensure_owner_def)
      have "accounts_wf db'" using assms(2) unfolding accounts_wf_lists db' by (simp add: role_update_maps del: set_map)
      moreover have "m\<lparr>um_role := ''owner''\<rparr> \<in> set (au_memberships db')" using m by (force simp: db' sql_update_def)
      ultimately show ?thesis using m by (auto simp: db' owns_tenant_def intro!: bexI [of _ "m\<lparr>um_role := ''owner''\<rparr>"])
    qed
  qed
  then show "accounts_wf db'" "owns_tenant j t db'" "au_users db' = au_users db" "au_tenants db' = au_tenants db" by auto
qed

text \<open>A second run finds user and membership: it changes nothing.\<close>

lemma admin_found:
  assumes "accounts_wf db" "admin_user_of a pw db u" "owns_tenant (us_id u) (ad_tenant_id a) db" "ad_tenant_id a \<in> tn_id ` set (au_tenants db)"
  shows "create_admin_user i mi now pw a db = Some db"
proof -
  have d: "distinct (map us_id (au_users db))" "distinct (map (\<lambda>u. lower (us_email u)) (au_users db))"
    "distinct (map (\<lambda>m. (um_user_id m, um_tenant_id m)) (au_memberships db))" using assms(1) by (simp_all add: accounts_wf_def)
  have u: "u \<in> set (au_users db)" "lower (us_email u) = lower (ad_email a)" "us_password_hash u = pw"
    using assms(2) by (simp_all add: admin_user_of_def)
  have "find (\<lambda>u. lower (us_email u) = lower (ad_email a)) (au_users db) = Some u"
    using find_by_key [OF d(2) u(1)] u(2) by simp
  moreover have "x\<lparr>us_password_hash := pw\<rparr> = x" if "x \<in> set (au_users db)" "us_id x = us_id u" for x
    using distinct_map_eq [OF d(1) that(1) u(1) that(2)] u(3) by simp
  then have "sql_update (\<lambda>x. us_id x = us_id u) (\<lambda>x. x\<lparr>us_password_hash := pw\<rparr>) (au_users db) = au_users db"
    by (auto simp: sql_update_def intro!: map_idI)
  ultimately have 1: "ensure_user i now pw a db = Some (db, us_id u)" by (simp add: ensure_user_def)
  obtain m where m: "m \<in> set (au_memberships db)" "um_user_id m = us_id u" "um_tenant_id m = ad_tenant_id a" "um_role m = ''owner''"
    using assms(3) by (auto simp: owns_tenant_def)
  have "find (\<lambda>m. um_user_id m = us_id u \<and> um_tenant_id m = ad_tenant_id a) (au_memberships db) = Some m"
    using find_by_key [OF d(3) m(1)] m(2,3) by simp
  then have "ensure_owner mi now (ad_tenant_id a) (us_id u) db = Some db" using m(4) by (simp add: ensure_owner_def)
  then show ?thesis using 1 assms(4) by (auto simp: create_admin_user_def sql_exists_def list_ex_iff)
qed

text \<open>
  A run that succeeds keeps the constraints of the tables and leaves exactly one user with the address, whose password is
  the one of the script and who is an owner of the tenant; running the script again changes nothing.
\<close>

theorem admin_script_converges:
  assumes "create_admin_user i mi now pw a db = Some db'" "accounts_wf db"
  shows "accounts_wf db' \<and> (\<exists>u. admin_user_of a pw db' u \<and> owns_tenant (us_id u) (ad_tenant_id a) db')
    \<and> create_admin_user i' mi' now' pw a db' = Some db'"
proof -
  obtain db1 j where 1: "ensure_user i now pw a db = Some (db1, j)" "ensure_owner mi now (ad_tenant_id a) j db1 = Some db'"
    "sql_exists (\<lambda>t. tn_id t = ad_tenant_id a) (au_tenants db')"
    using assms(1) by (auto simp: create_admin_user_def split: option.splits if_splits)
  note U = ensure_user_result [OF 1(1) assms(2)]
  obtain u where u: "admin_user_of a pw db1 u" "us_id u = j" using U(2) by blast
  then have "j \<in> us_id ` set (au_users db1)" by (auto simp: admin_user_of_def)
  note O = ensure_owner_result [OF 1(2) U(1) this]
  have u': "admin_user_of a pw db' u" "owns_tenant (us_id u) (ad_tenant_id a) db'" using u O by (simp_all add: admin_user_of_def)
  have "ad_tenant_id a \<in> tn_id ` set (au_tenants db')" using 1(3) by (force simp: sql_exists_def list_ex_iff)
  from admin_found [OF O(1) u' this] show ?thesis using O(1) u' by blast
qed

text \<open>A user or membership that was deactivated stays so: the login that is printed is then refused.\<close>

theorem deactivated_admin_stays_out:
  assumes "create_admin_user i mi now pw a db = Some db'" "accounts_wf db"
    and "u \<in> set (au_users db)" "us_email u = lower (ad_email a)" "\<not> us_is_active u" "aw_auth w = db'" "\<not> ac_fails E FindUser"
  shows "snd (login E t ti tok ci (ad_email a) password w) = Inl (HTTPException 403 ''Account is inactive. Please contact support.'')"
proof -
  have d: "distinct (map (\<lambda>u. lower (us_email u)) (au_users db))" "distinct (map us_id (au_users db))" using assms(2) by (simp_all add: accounts_wf_def)
  have f: "find (\<lambda>u. lower (us_email u) = lower (ad_email a)) (au_users db) = Some u"
    using find_by_key [OF d(1) assms(3)] assms(4) by simp
  obtain db1 where 1: "ensure_user i now pw a db = Some (db1, us_id u)"
    "db1 = db\<lparr>au_users := sql_update (\<lambda>x. us_id x = us_id u) (\<lambda>x. x\<lparr>us_password_hash := pw\<rparr>) (au_users db)\<rparr>"
    using f by (simp add: ensure_user_def)
  then have own: "ensure_owner mi now (ad_tenant_id a) (us_id u) db1 = Some db'"
    using assms(1) by (auto simp: create_admin_user_def split: option.splits if_splits)
  have in1: "u\<lparr>us_password_hash := pw\<rparr> \<in> set (au_users db1)" using assms(3) by (force simp: 1(2) sql_update_def)
  then have "us_id (u\<lparr>us_password_hash := pw\<rparr>) \<in> us_id ` set (au_users db1)" by (rule imageI)
  then have "us_id u \<in> us_id ` set (au_users db1)" by simp
  note O = ensure_owner_result(1,3) [OF own ensure_user_result(1) [OF 1(1) assms(2)] this]
  have "find (\<lambda>x. us_email x = lower (ad_email a)) (au_users db') = Some (u\<lparr>us_password_hash := pw\<rparr>)"
  proof (rule find_unique)
    show "u\<lparr>us_password_hash := pw\<rparr> \<in> set (au_users db')" using in1 O(2) by simp
    fix x assume x: "x \<in> set (au_users db')" "us_email x = lower (ad_email a)"
    have "distinct (map (\<lambda>u. lower (us_email u)) (au_users db'))" using O(1) by (simp add: accounts_wf_def)
    from distinct_map_eq [OF this x(1)] show "x = u\<lparr>us_password_hash := pw\<rparr>" using in1 O(2) x(2) assms(4) by simp
  qed (simp add: assms(4))
  then show ?thesis using assms(5-7) by (simp add: login_def Let_def)
qed

end
