(* ===== verification/Utility_Checks.thy ===== *)
theory Utility_Checks
  imports Accounts_Api Query_Cache Downlink_Queue
begin

text \<open>
  The remaining helpers of \<open>src/utils.py\<close> (address and phone patterns, request ids, nested lookup), the remaining
  exceptions of \<open>src/exceptions.py\<close>, and the operations of \<open>src/cache.py\<close> on the whole store. \<open>hex_id\<close> is the hexadecimal
  text of a random UUID, \<open>round2\<close> is \<open>round(x, 2)\<close> on floats, \<open>flushdb\<close> the Redis command.
\<close>

section \<open>Patterns\<close>

definition is_valid_email :: "string \<Rightarrow> bool" where
  "is_valid_email email = re_full email_text email"

definition phone_text :: "string \<Rightarrow> bool" where
  "phone_text s =
     (let ds = (case s of [] \<Rightarrow> [] | c # cs \<Rightarrow> if c = CHR ''+'' then cs else s)
      in 10 \<le> length ds \<and> length ds \<le> 15 \<and> list_all is_digit ds \<and> hd ds \<noteq> CHR ''0'')"

definition is_valid_phone :: "string \<Rightarrow> bool" where
  "is_valid_phone phone = re_full phone_text (remove_char CHR ''-'' (remove_char CHR '' '' phone))"

definition generate_request_id :: "string \<Rightarrow> string" where
  "generate_request_id hex_id = ''req_'' @ take 12 hex_id"

section \<open>Nested lookup\<close>

datatype pyval = PNone | PDict "(string \<times> pyval) list" | PLeaf string

fun split_dot :: "string \<Rightarrow> string list" where
  "split_dot [] = [[]]"
| "split_dot (c # cs) =
     (if c = CHR ''.'' then [] # split_dot cs
      else case split_dot cs of [] \<Rightarrow> [[c]] | w # ws \<Rightarrow> (c # w) # ws)"

fun get_keys :: "string list \<Rightarrow> pyval \<Rightarrow> pyval \<Rightarrow> pyval" where
  "get_keys [] v d = v"
| "get_keys (k # ks) v d =
     (case v of
        PDict xs \<Rightarrow>
          (case map_of xs k of None \<Rightarrow> d | Some PNone \<Rightarrow> d | Some w \<Rightarrow> get_keys ks w d)
      | _ \<Rightarrow> d)"

definition safe_dict_get :: "(string \<times> pyval) list \<Rightarrow> string \<Rightarrow> pyval \<Rightarrow> pyval" where
  "safe_dict_get d path default_val = get_keys (split_dot path) (PDict d) default_val"

section \<open>Exceptions\<close>

definition RedisError :: "string \<Rightarrow> ParkingException" where
  "RedisError msg = make_ParkingException ''RedisError'' msg None []"

definition AuthenticationError :: "string \<Rightarrow> ParkingException" where
  "AuthenticationError msg = make_ParkingException ''AuthenticationError'' msg (Some ''AUTHENTICATION_ERROR'') []"

definition AuthorizationError :: "string \<Rightarrow> ParkingException" where
  "AuthorizationError msg = make_ParkingException ''AuthorizationError'' msg (Some ''AUTHORIZATION_ERROR'') []"

section \<open>The cache as a whole\<close>

definition cache_hit_rate :: "(rat \<Rightarrow> rat) \<Rightarrow> 'r CacheManager \<Rightarrow> rat" where
  "cache_hit_rate round2 m =
     (let total_count = cm_hit_count m + cm_miss_count m
      in if total_count = 0 then 0 else round2 (of_nat (cm_hit_count m) / of_nat total_count * 100))"

definition cache_clear_all :: "('r \<Rightarrow> 'r) \<Rightarrow> bool \<Rightarrow> 'r CacheManager \<Rightarrow> 'r CacheManager" where
  "cache_clear_all flushdb fails m = (if fails then m else m\<lparr>cm_redis := flushdb (cm_redis m)\<rparr>)"

definition get_cache :: "'r CacheManager option \<Rightarrow> 'r CacheManager result" where
  "get_cache cache =
     (case cache of None \<Rightarrow> Inl (RuntimeError ''Cache not initialized. Call init_cache() first.'') | Some m \<Rightarrow> Inr m)"

definition init_cache :: "(string \<Rightarrow> 'r) \<Rightarrow> string \<Rightarrow> 'r CacheManager" where
  "init_cache from_url redis_url = \<lparr>cm_redis = from_url redis_url, cm_hit_count = 0, cm_miss_count = 0\<rparr>"

section \<open>Properties\<close>

text \<open>The helper and the validator of the request models accept the same addresses.\<close>

theorem email_checks_agree: "is_valid_email e \<longleftrightarrow> (\<exists>v. validate_email e = Inr v)"
  by (simp add: is_valid_email_def validate_email_def)

text \<open>Spaces and dashes do not matter; what is accepted has ten to fifteen digits.\<close>

lemma phone_separators: "is_valid_phone (remove_char CHR '' '' (remove_char CHR ''-'' p)) = is_valid_phone p"
proof -
  have "remove_char a (remove_char b s) = remove_char b (remove_char a s)" for a b s
    by (simp add: remove_char_def conj_commute)
  then show ?thesis unfolding is_valid_phone_def by (metis remove_char_idem)
qed

lemma phone_text_digits: "phone_text s \<Longrightarrow> length (filter is_digit s) \<in> {10..15}"
  by (auto simp: phone_text_def Let_def is_digit_def list_all_iff split: list.splits if_splits)

text \<open>A value stored under nested keys without dots is found by the dotted path.\<close>

primrec nest :: "string list \<Rightarrow> pyval \<Rightarrow> pyval" where
  "nest [] v = v"
| "nest (k # ks) v = PDict [(k, nest ks v)]"

primrec dotted :: "string list \<Rightarrow> string" where
  "dotted [] = []"
| "dotted (k # ks) = (if ks = [] then k else k @ ''.'' @ dotted ks)"

lemma split_dot_plain: "CHR ''.'' \<notin> set k \<Longrightarrow> split_dot k = [k]"
  by (induction k) auto

lemma split_dot_append: "CHR ''.'' \<notin> set k \<Longrightarrow> split_dot (k @ CHR ''.'' # s) = k # split_dot s"
  by (induction k) auto

lemma split_dotted: "ks \<noteq> [] \<Longrightarrow> \<forall>k\<in>set ks. CHR ''.'' \<notin> set k \<Longrightarrow> split_dot (dotted ks) = ks"
  by (induction ks) (auto simp: split_dot_plain split_dot_append)

lemma get_nested: "v \<noteq> PNone \<Longrightarrow> get_keys ks (nest ks v) d = v"
proof (induction ks)
  case (Cons k ks)
  then have "nest ks v \<noteq> PNone" by (cases ks) simp_all
  then show ?case using Cons by (cases "nest ks v") simp_all
qed simp

theorem nested_value_found:
  assumes "nest ks v = PDict d" "ks \<noteq> []" "\<forall>k\<in>set ks. CHR ''.'' \<notin> set k" "v \<noteq> PNone"
  shows "safe_dict_get d (dotted ks) dflt = v"
  using get_nested [OF assms(4), of ks dflt] split_dotted [OF assms(2,3)] assms(1) by (simp add: safe_dict_get_def)

lemma hit_percent_bounds:
  "cache_hit_rate id m \<in> {0..100}"
proof (cases "cm_hit_count m + cm_miss_count m = 0")
  case False
  define q where "q = (of_nat (cm_hit_count m) :: rat) / of_nat (cm_hit_count m + cm_miss_count m)"
  have "q \<in> {0..1}" using False by (simp add: q_def divide_le_eq)
  moreover have "cache_hit_rate id m = q * 100" using False by (simp add: cache_hit_rate_def Let_def q_def)
  ultimately show ?thesis by simp
qed (simp add: cache_hit_rate_def Let_def)

text \<open>
  The cache shares its database with the downlink queue: \<open>main.py\<close> opens both with the same URL. Clearing the cache drops
  every pending command.
\<close>

theorem clearing_cache_drops_downlinks:
  assumes "redis R c" "\<And>s. c (flushdb s) = Map.empty"
  shows "snd (dequeue R E now (cm_redis (cache_clear_all flushdb False m))) = Inr None
    \<and> q_pending (dlq_of (c (cm_redis (cache_clear_all flushdb False m)))) = []"
proof -
  let ?s = "flushdb (cm_redis m)"
  have "listlike (c ?s) PENDING_KEY" "list_at (c ?s) PENDING_KEY = []" by (simp_all add: assms(2) listlike_def list_at_def)
  then have "rlpop R ?s PENDING_KEY = (?s, None)" using redis.lpop [OF assms(1), of ?s PENDING_KEY] by simp
  then show ?thesis by (simp add: cache_clear_all_def dequeue_def dlq_of_def assms(2) list_at_def)
qed

end
