(* ===== verification/Pool_Lifecycle.thy ===== *)
theory Pool_Lifecycle
  imports Models
begin

text \<open>
  The life of the connection pool in \<open>DatabasePool\<close> (\<open>src/database.py\<close>): \<open>initialize\<close>, \<open>close\<close>, \<open>get_stats\<close> and the guard of
  \<open>acquire\<close>. A pool of the driver is a number; \<open>open_pools\<close> are those that hold connections. \<open>created\<close> and \<open>tested\<close> are
  whether \<open>create_pool\<close> and the query of the version succeed, the error of either is \<open>why\<close>.
\<close>

record DatabasePool =
  dp_pool :: "nat option"
  dp_initialized :: bool

record driver_state =
  ds_next :: nat
  open_pools :: "nat list"

definition new_pool :: DatabasePool where
  "new_pool = \<lparr>dp_pool = None, dp_initialized = False\<rparr>"

definition initialize ::
  "bool \<Rightarrow> bool \<Rightarrow> string \<Rightarrow> DatabasePool \<times> driver_state \<Rightarrow> (DatabasePool \<times> driver_state) \<times> (ParkingException + unit)" where
  "initialize created tested why s =
     (case s of (p, d) \<Rightarrow>
      let failed = Inl (DatabaseError (''Cannot connect to database: '' @ why)) in
      if dp_initialized p then (s, Inr ())
      else if \<not> created then (s, failed)
      else
        let d' = \<lparr>ds_next = ds_next d + 1, open_pools = ds_next d # open_pools d\<rparr>;
            p' = p\<lparr>dp_pool := Some (ds_next d)\<rparr>
        in if \<not> tested then ((p', d'), failed) else ((p'\<lparr>dp_initialized := True\<rparr>, d'), Inr ()))"

definition close_pool :: "DatabasePool \<times> driver_state \<Rightarrow> DatabasePool \<times> driver_state" where
  "close_pool s =
     (case s of (p, d) \<Rightarrow>
      case dp_pool p of
        None \<Rightarrow> s
      | Some i \<Rightarrow> (p\<lparr>dp_initialized := False\<rparr>, d\<lparr>open_pools := removeAll i (open_pools d)\<rparr>))"

text \<open>Which pool \<open>acquire\<close> asks for a connection; the driver refuses a closed one with its own error.\<close>

datatype acquired = Not_Initialized ParkingException | Pool_Closed | Connection nat

definition acquire_from :: "DatabasePool \<times> driver_state \<Rightarrow> acquired" where
  "acquire_from s =
     (case s of (p, d) \<Rightarrow>
      case dp_pool p of
        None \<Rightarrow> Not_Initialized (DatabaseError ''Database pool not initialized'')
      | Some i \<Rightarrow> if i \<in> set (open_pools d) then Connection i else Pool_Closed)"

record pool_stats =
  ps_size :: nat
  ps_min_size :: nat
  ps_max_size :: nat
  ps_free_connections :: nat

definition pool_get_stats :: "(nat \<Rightarrow> pool_stats) \<Rightarrow> DatabasePool \<Rightarrow> pool_stats option" where
  "pool_get_stats stats_of p = map_option stats_of (dp_pool p)"

section \<open>Runs\<close>

inductive pool_run :: "DatabasePool \<Rightarrow> driver_state \<Rightarrow> bool \<Rightarrow> bool" where
  fresh: "pool_run new_pool \<lparr>ds_next = 0, open_pools = []\<rparr> False"
| initialize: "pool_run p d failed \<Longrightarrow> initialize created tested why (p, d) = ((p', d'), r) \<Longrightarrow>
    pool_run p' d' (failed \<or> (created \<and> \<not> tested))"
| close: "pool_run p d failed \<Longrightarrow> close_pool (p, d) = (p', d') \<Longrightarrow> pool_run p' d' failed"

text \<open>The third argument of \<open>pool_run\<close> remembers whether the test of a new connection ever failed.\<close>

definition pool_ok :: "DatabasePool \<Rightarrow> driver_state \<Rightarrow> bool \<Rightarrow> bool" where
  "pool_ok p d failed =
     ((\<forall>i\<in>set (open_pools d). i < ds_next d) \<and> distinct (open_pools d)
      \<and> (dp_initialized p \<longrightarrow> (\<exists>i. dp_pool p = Some i \<and> i \<in> set (open_pools d)))
      \<and> (\<not> failed \<longrightarrow> open_pools d = (if dp_initialized p then [the (dp_pool p)] else [])))"

lemma initialize_cases:
  assumes "initialize created tested why (p, d) = ((p', d'), r)"
  obtains "p' = p" "d' = d" "dp_initialized p \<or> \<not> created"
  | "\<not> dp_initialized p" "created" "dp_pool p' = Some (ds_next d)" "dp_initialized p' = tested"
    "ds_next d' = ds_next d + 1" "open_pools d' = ds_next d # open_pools d"
  using assms by (auto simp: initialize_def Let_def split: if_splits)

lemma close_cases:
  assumes "close_pool (p, d) = (p', d')"
  obtains "p' = p" "d' = d" "dp_pool p = None"
  | i where "dp_pool p = Some i" "dp_pool p' = Some i" "\<not> dp_initialized p'" "ds_next d' = ds_next d" "open_pools d' = removeAll i (open_pools d)"
  using assms by (auto simp: close_pool_def split: option.splits)

lemma pool_run_ok: "pool_run p d failed \<Longrightarrow> pool_ok p d failed"
proof (induction rule: pool_run.induct)
  case fresh show ?case by (simp add: pool_ok_def new_pool_def)
next
  case (initialize p d failed created tested why p' d' r)
  from initialize.hyps(2) show ?case
  proof (cases rule: initialize_cases)
    case 1 then show ?thesis using initialize.IH by (auto simp: pool_ok_def)
  next
    case 2 then show ?thesis using initialize.IH by (auto simp: pool_ok_def)
  qed
next
  case (close p d failed p' d')
  from close.hyps(2) show ?case
  proof (cases rule: close_cases)
    case 1 then show ?thesis using close.IH by simp
  next
    case (2 i) then show ?thesis using close.IH by (auto simp: pool_ok_def distinct_removeAll split: if_splits)
  qed
qed

text \<open>
  A pool that counts as initialized gives connections, and as long as no test of a new connection has failed there is
  never more than the one pool, and none after \<open>close\<close>.
\<close>

theorem initialized_pool_connects:
  assumes "pool_run p d failed" "dp_initialized p"
  shows "\<exists>i. acquire_from (p, d) = Connection i"
  using pool_run_ok [OF assms(1)] assms(2) by (auto simp: pool_ok_def acquire_from_def)

theorem closed_service_holds_no_pool:
  assumes "pool_run p d False" "close_pool (p, d) = (p', d')"
  shows "open_pools d' = []"
  using pool_run_ok [OF pool_run.close [OF assms]] assms(2) pool_run_ok [OF assms(1)]
  by (auto simp: pool_ok_def close_pool_def split: option.splits if_splits)

text \<open>A failed test leaves its pool open, and the next \<open>initialize\<close> forgets it: \<open>close\<close> then leaves it behind.\<close>

theorem failed_test_leaks_pool:
  "open_pools (snd (close_pool (fst (initialize True True [] (fst (initialize True False why
     (new_pool, \<lparr>ds_next = 0, open_pools = []\<rparr>))))))) = [0]"
  by (simp add: initialize_def close_pool_def new_pool_def)

text \<open>After \<open>close\<close> the attribute still holds the closed pool, so that \<open>acquire\<close> does not raise the error of the class.\<close>

lemma closed_pool_not_reported:
  "acquire_from (close_pool (fst (initialize True True why (new_pool, \<lparr>ds_next = 0, open_pools = []\<rparr>)))) = Pool_Closed"
  by (simp add: initialize_def close_pool_def new_pool_def acquire_from_def)

end
