(* ===== verification/Spec2Isabelle.thy ===== *)
theory Spec2Isabelle
  imports Display_State_Machine Downlink_Worker Queue_Drain Sliding_Window Refresh_Tokens Webhook_Spool
    Uplink Tenant_Admin Gateways_Api Display_Policies_Api Request_Pipeline App_Shell Row_Security Audit_Log
    Unscoped_Spaces Query_Helpers Legacy_Uplink Task_Lifecycle Key_Tool Metrics Space_Migration
    Admin_Script Utility_Checks Pool_Lifecycle
begin

text \<open>
  \<^bold>\<open>The smart parking platform\<close>

  The platform is a FastAPI service. LoRaWAN sensors report through ChirpStack whether a parking space is
  occupied; the service keeps the state of every space in PostgreSQL, takes reservations, and drives coloured
  displays by downlinks that pass through a queue in Redis. It serves several tenants, each with users, API keys,
  sites and spaces. Paths below are relative to \<open>src/src\<close>, migrations are under \<open>src/migrations\<close>.

  \<^bold>\<open>How the parts interact\<close>

  A webhook arrives at \<open>process_uplink\<close> (\<open>main.py\<close>): the handler of the device family decodes it
  (\<open>device_handlers.py\<close>), the signature is checked (\<open>webhook_validation.py\<close>), an unknown device is recorded
  (\<open>orphan_devices.py\<close>), the reading is stored (\<open>database.py\<close>) and the state manager (\<open>state_manager.py\<close>) moves
  the space under a lock in Redis, writes the audit row and enqueues the display command
  (\<open>downlink_queue.py\<close>). The worker of the same file takes commands from the queue, asks the limiter and sends.
  Reservations come in at \<open>routers/reservations.py\<close>; \<open>background_tasks.py\<close> starts, ends and expires them and
  reconciles the displays. Requests of users and API keys pass \<open>auth.py\<close>, \<open>tenant_auth.py\<close>, \<open>api_scopes.py\<close> and
  the limiters before they reach the routers for spaces, sites, devices, gateways and display policies. All of it runs
  inside the middleware of \<open>main.py\<close> and \<open>middleware.py\<close>, with the services the start-up builds from the settings
  (\<open>config.py\<close>, \<open>secrets.py\<close>); commands leave through \<open>chirpstack_client.py\<close>.

  \<^bold>\<open>The theories\<close>

  \<^item> \<open>Prelude\<close>: Python values (exceptions, naive and aware datetimes, truth values, text of integers), SQL
    statements on lists of rows, the collections of lemmas the proofs use, the locale \<open>float_text\<close> (the text of a
    float reads back as the float).
  \<^item> \<open>Models\<close>: \<open>models.py\<close> and \<open>exceptions.py\<close>. \<open>Codec\<close>, \<open>Utils\<close>: \<open>utils.py\<close> with hexadecimal and base64 text.
  \<^item> \<open>Redis_Store\<close>: the Redis commands as a record of functions, their documented effect as the locale
    \<open>redis\<close>, and an executable store that satisfies it.
  \<^item> \<open>Downlink_Queue\<close>: \<open>DownlinkQueue\<close>, refined to an abstract queue; at most one pending command per device, dead
    letters after five failures, what is dequeued is what was enqueued. \<open>Queue_Drain\<close>: without new commands the
    queue empties, by a measure on the attempts left.
  \<^item> \<open>Token_Bucket\<close>: the limiter of \<open>downlink_queue.py\<close> and that of \<open>rate_limit.py\<close>, both instances of the locale
    \<open>token_bucket\<close>, which bounds what is admitted and says when to come back. \<open>Sliding_Window\<close>: \<open>rate_limiter.py\<close>.
  \<^item> \<open>Downlink_Worker\<close>: \<open>DownlinkWorker\<close> over any queue and limiter that satisfy the locale \<open>downlink_worker\<close>, and
    \<open>routers/downlink_monitor.py\<close>.
  \<^item> \<open>Display_State_Machine\<close>: \<open>display_state_machine.py\<close> with the SQL function \<open>compute_display_state\<close> of
    migration 006, which is shown to follow the documented priorities; the debouncing.
  \<^item> \<open>Device_Handlers\<close>: \<open>device_handlers.py\<close>, on bytes as words of eight bits.
  \<^item> \<open>Database\<close>: the query methods of \<open>DatabasePool\<close> with the triggers, checks, unique and exclusion constraints they
    meet; a well-formedness invariant of the spaces.
  \<^item> \<open>State_Manager\<close>: \<open>state_manager.py\<close>; every recorded change replays, and the lock excludes other updates.
  \<^item> \<open>Reservation_Api\<close>: \<open>routers/reservations.py\<close> with other sessions interleaved between the statements; no
    overlap, idempotent retries, conflicts. The locale \<open>pg_errors\<close> is what the handlers rely on of error texts.
  \<^item> \<open>Background_Tasks\<close>: \<open>background_tasks.py\<close>, one round of each loop, over any state manager that satisfies the
    locale \<open>space_updates\<close>. \<open>Gateway_Monitor\<close>: \<open>gateway_monitor.py\<close>, on whose answer the queue cleanup depends.
  \<^item> \<open>Refresh_Tokens\<close>: \<open>refresh_token_service.py\<close> over the table of migration 010.
  \<^item> \<open>Webhook_Validation\<close>, \<open>Orphan_Devices\<close>, \<open>Webhook_Spool\<close>: the files of these names.
  \<^item> \<open>Uplink\<close>: \<open>process_uplink\<close>, the composition of the components above.
  \<^item> \<open>Access_Control\<close>: \<open>auth.py\<close>, \<open>tenant_auth.py\<close>, \<open>api_scopes.py\<close>. \<open>Query_Cache\<close>: \<open>cache.py\<close>.
    \<open>Spaces_Api\<close>: \<open>routers/spaces_tenanted.py\<close> and \<open>routers/sites.py\<close>; the locale \<open>tenant_scoped\<close> gives the
    isolation of tenants from what one step does.
  \<^item> \<open>Accounts_Api\<close>, \<open>Tenant_Admin\<close>: \<open>api_tenants.py\<close>. The first has registration, login and refreshing, keeps
    e-mails, slugs and memberships unique and shows that who registers can log in; the second the administration of
    users and API keys, a second instance of \<open>tenant_scoped\<close>, and the life of a key from creation to revocation.
  \<^item> \<open>Devices_Api\<close>, \<open>Gateways_Api\<close>, \<open>Display_Policies_Api\<close>: the routers of these names; which devices a tenant is
    shown, that the two counts of online gateways agree, that a tenant keeps one active policy whose updates reach
    every cache, and that an override shows and ends.
  \<^item> \<open>Request_Pipeline\<close>: the middleware in the order \<open>main.py\<close> stacks it, with the exception handlers, over the
    limiter of \<open>Sliding_Window\<close>; which headers an answer carries, and what a client without credentials shares.
  \<^item> \<open>ChirpStack_Client\<close>: \<open>chirpstack_client.py\<close> over any server that satisfies the locale \<open>chirpstack_server\<close>; a
    command the worker sends reaches the device queue with its bytes, a flush keeps what was not sent.
  \<^item> \<open>Configuration\<close>: \<open>secrets.py\<close> and \<open>config.py\<close>; every accepted setting is within its bounds. \<open>App_Shell\<close>: start-up,
    shutdown and the health endpoints of \<open>main.py\<close>.
  \<^item> \<open>Row_Security\<close>: connections and transactions with a tenant context and the policies of migration 008.
    \<open>Audit_Log\<close>: \<open>audit.py\<close> over the table of migration 007, which only grows.
  \<^item> \<open>Unscoped_Spaces\<close>: the older router \<open>routers/spaces.py\<close>; availability is what the exclusion constraint accepts, and
    restoring undoes deleting. \<open>Query_Helpers\<close>: the joins of \<open>queries.py\<close>, equal to one query for each row.

  \<^item> \<open>Request_Models\<close>: the request bodies of \<open>models.py\<close>; what they accept fits the columns it is stored in.
  \<^item> \<open>Legacy_Api\<close>: the handlers of the previous entry point \<open>main_v5.2_legacy.py\<close>; the command it stores for a Kuando light
    is the one \<open>process_uplink\<close> verifies. \<open>Legacy_Uplink\<close>: its own \<open>process_uplink\<close>, which finds no sensor with a letter
    in its EUI.
  \<^item> \<open>Task_Lifecycle\<close>: the tasks of the event loop behind \<open>BackgroundTaskManager\<close>, from \<open>start\<close> to \<open>stop\<close>, as an inductive set
    of runs with the invariant that every live task has an owner. \<open>Pool_Lifecycle\<close>: the same for the connection pool.
  \<^item> \<open>Metrics\<close>: \<open>metrics.py\<close> as the calls it makes on the client library, which is the locale \<open>prometheus\<close>, interpreted on
    the log of accepted calls; what the queue records.
  \<^item> \<open>Key_Tool\<close>, \<open>Admin_Script\<close>, \<open>Space_Migration\<close>: \<open>scripts/manage_api_keys.py\<close>, \<open>create_admin_user.py\<close> and
    \<open>scripts/migrate_v4_spaces.py\<close> on the tables above; running the last two again changes nothing.
  \<^item> \<open>Utility_Checks\<close>: the helpers of \<open>utils.py\<close> and \<open>cache.py\<close> that need the theories above.

  \<^bold>\<open>Correspondence of state and operations\<close>

  A Python class or table row is a record, an enumeration a datatype, a table a list of rows in insertion order. An
  operation is a function of the same name from the state before (and the clock, random values and answers of outside
  services it uses) to the state after and its value; \<open>Inl\<close> is an exception or an HTTP error. Where several requests
  can interleave, what the others do is an argument of the operation, or the theorem speaks of all sequences of
  steps. Python floats are rational numbers and their arithmetic is exact. Code that is not in the repository (Redis,
  bcrypt, PyJWT, SHA-256, HMAC, the ChirpStack server, the JSON encoder, the CORS middleware, how the settings library
  parses a text, the order of texts in PostgreSQL) is an argument.

  \<^bold>\<open>Bounds\<close>

  No definition needs fuel: loops of the source that end are recursion on lists, and an endless loop is given by one
  round. The constants are those of the source: five attempts per command, hence five worker cycles per pending
  command in \<open>worker_drains_queue\<close>; windows of 60 and 3600 seconds; a cache of thirty seconds for gateways.

  \<^bold>\<open>Behaviour the theorems expose\<close>

  Some theorems state what the code does where that differs from what a comment or a document says: the debouncing
  never confirms a reading; refreshing a token and scheduling a loaded reservation compare aware with naive times and
  raise; the spool never counts an attempt; no invalidation matches the key of a cached list of spaces; a replayed
  frame still moves its space; an in-flight command that is coalesced comes back empty when it fails; an API key may be
  given scopes its creator lacks; a listing of displays alone fails; without a configured secret the service signs
  tokens with a key published in the source; requests without credentials share one quota, probes included; each
  failing request leaves another logging factory behind; the tenant of a connection is set outside a transaction and
  lost; two of the joined queries name columns no migration creates; a booked space can be deleted by the older router;
  the pattern for EUIs lets a final newline through; the previous entry point answers 500 to downlinks it has queued, and
  nothing in the service itself stores the Kuando commands \<open>process_uplink\<close> waits for; a reservation scheduled twice leaves
  tasks that outlive \<open>stop\<close>; enqueued commands are counted twice; a key made with the tool has no tenant and is refused;
  no space of the previous version can be migrated into the present schema.

  \<^bold>\<open>Not modelled\<close>

  \<^item> \<open>logging_config.py\<close>, and the text of \<open>/metrics\<close>, which the client library makes: no effect on the state above.
  \<^item> \<open>databse.py\<close> and \<open>main_recovered.py\<close>: superseded copies no module of the service imports. Of \<open>main_v5.2_legacy.py\<close> the
    start-up, health check and listings, earlier forms of those of \<open>main.py\<close> and the routers.
  \<^item> The frontend, the shell scripts and the tests; the sleeping of loops.
\<close>

end
